(* ===== verification/JS_Date.thy ===== *)
theory JS_Date
  imports Bpp_Prelude
begin

text \<open>
  The part of the JavaScript \<open>Date\<close> object the sources use, on instants given as \<^typ>\<open>int\<close>
  milliseconds since the epoch: \<open>Date.UTC\<close>, \<open>getUTCFullYear\<close>, \<open>getUTCMonth\<close>, \<open>getUTCDate\<close>,
  \<open>getUTCDay\<close> and \<open>toISOString\<close>, following the proleptic Gregorian calendar of ECMAScript
  (\<open>DayFromYear\<close>, \<open>MakeDay\<close>, \<open>YearFromTime\<close>). Instants are within the range of a valid
  \<open>Date\<close> (\<open>\<plusminus> 8.64e15\<close> ms), so the invalid date does not occur; \<open>utc_four_digits_in_range\<close>
  shows it for every date string the sources accept. Months count from 0, as in the language.
\<close>

definition msPerDay :: int where
  "msPerDay = 86400000"

definition leapYear :: "int \<Rightarrow> bool" where
  "leapYear y \<longleftrightarrow> y mod 4 = 0 \<and> (y mod 100 \<noteq> 0 \<or> y mod 400 = 0)"

definition dayFromYear :: "int \<Rightarrow> int" where
  "dayFromYear y = 365 * (y - 1970) + (y - 1969) div 4 - (y - 1901) div 100 + (y - 1601) div 400"

definition daysInYear :: "int \<Rightarrow> int" where
  "daysInYear y = (if leapYear y then 366 else 365)"

text \<open>Days of the year before the first of a month.\<close>

definition monthStart :: "bool \<Rightarrow> int \<Rightarrow> int" where
  "monthStart leap m =
     (let l = (if leap then 1 else 0) in
      if m \<le> 0 then 0 else if m = 1 then 31 else if m = 2 then 59 + l else if m = 3 then 90 + l
      else if m = 4 then 120 + l else if m = 5 then 151 + l else if m = 6 then 181 + l
      else if m = 7 then 212 + l else if m = 8 then 243 + l else if m = 9 then 273 + l
      else if m = 10 then 304 + l else if m = 11 then 334 + l else 365 + l)"

definition monthLength :: "bool \<Rightarrow> int \<Rightarrow> int" where
  "monthLength leap m = monthStart leap (m + 1) - monthStart leap m"

definition monthOfDay :: "bool \<Rightarrow> int \<Rightarrow> int" where
  "monthOfDay leap d =
     (if d < monthStart leap 1 then 0 else if d < monthStart leap 2 then 1
      else if d < monthStart leap 3 then 2 else if d < monthStart leap 4 then 3
      else if d < monthStart leap 5 then 4 else if d < monthStart leap 6 then 5
      else if d < monthStart leap 7 then 6 else if d < monthStart leap 8 then 7
      else if d < monthStart leap 9 then 8 else if d < monthStart leap 10 then 9
      else if d < monthStart leap 11 then 10 else 11)"

text \<open>\<open>MakeDay\<close>: a month outside 0..11 carries into the year, a day is only added.\<close>

definition makeDay :: "int \<Rightarrow> int \<Rightarrow> int \<Rightarrow> int" where
  "makeDay year month day =
     (let ym = year + month div 12; mn = month mod 12 in
      dayFromYear ym + monthStart (leapYear ym) mn + day - 1)"

text \<open>\<open>Date.UTC\<close>; the years 0 to 99 mean 1900 to 1999.\<close>

definition dateUTC :: "int \<Rightarrow> int \<Rightarrow> int \<Rightarrow> int" where
  "dateUTC year month day =
     (let y = (if 0 \<le> year \<and> year \<le> 99 then 1900 + year else year)
      in makeDay y month day * msPerDay)"

definition dayOf :: "int \<Rightarrow> int" where
  "dayOf t = t div msPerDay"

definition yearOfDay :: "int \<Rightarrow> int" where
  "yearOfDay d =
     (let y = 1970 + (400 * d) div 146097 in
      if d < dayFromYear y then y - 1
      else if dayFromYear (y + 1) \<le> d then y + 1 else y)"

definition getUTCFullYear :: "int \<Rightarrow> int" where
  "getUTCFullYear t = yearOfDay (dayOf t)"

definition getUTCMonth :: "int \<Rightarrow> int" where
  "getUTCMonth t =
     (let y = getUTCFullYear t in monthOfDay (leapYear y) (dayOf t - dayFromYear y))"

definition getUTCDate :: "int \<Rightarrow> int" where
  "getUTCDate t =
     (let y = getUTCFullYear t; d = dayOf t - dayFromYear y
      in d - monthStart (leapYear y) (monthOfDay (leapYear y) d) + 1)"

definition getUTCDay :: "int \<Rightarrow> int" where
  "getUTCDay t = (dayOf t + 4) mod 7"

definition pad2 :: "int \<Rightarrow> string" where
  "pad2 n = padStart 2 (CHR ''0'') (digits10 (nat n))"

definition isoYear :: "int \<Rightarrow> string" where
  "isoYear y =
     (if 0 \<le> y \<and> y \<le> 9999 then padStart 4 (CHR ''0'') (digits10 (nat y))
      else if y < 0 then CHR ''-'' # padStart 6 (CHR ''0'') (digits10 (nat (- y)))
      else CHR ''+'' # padStart 6 (CHR ''0'') (digits10 (nat y)))"

definition toISOString :: "int \<Rightarrow> string" where
  "toISOString t =
     (let s = t mod msPerDay in
      isoYear (getUTCFullYear t) @ ''-'' @ pad2 (getUTCMonth t + 1) @ ''-'' @ pad2 (getUTCDate t)
      @ ''T'' @ pad2 (s div 3600000) @ '':'' @ pad2 (s div 60000 mod 60) @ '':''
      @ pad2 (s div 1000 mod 60) @ ''.'' @ padStart 3 (CHR ''0'') (digits10 (nat (s mod 1000))) @ ''Z'')"

subsection \<open>The calendar is a bijection\<close>

lemma monthStart_simps [simp]:
  "monthStart l 0 = 0" "monthStart l 1 = 31" "monthStart l 2 = 59 + of_bool l"
  "monthStart l 3 = 90 + of_bool l" "monthStart l 4 = 120 + of_bool l"
  "monthStart l 5 = 151 + of_bool l" "monthStart l 6 = 181 + of_bool l"
  "monthStart l 7 = 212 + of_bool l" "monthStart l 8 = 243 + of_bool l"
  "monthStart l 9 = 273 + of_bool l" "monthStart l 10 = 304 + of_bool l"
  "monthStart l 11 = 334 + of_bool l" "monthStart l 12 = 365 + of_bool l"
  by (simp_all add: monthStart_def Let_def)

lemma month_cases:
  assumes "0 \<le> m" "m < (12 :: int)"
  obtains "m = 0" | "m = 1" | "m = 2" | "m = 3" | "m = 4" | "m = 5" | "m = 6" | "m = 7"
    | "m = 8" | "m = 9" | "m = 10" | "m = 11"
proof -
  have "m = 0 \<or> m = 1 \<or> m = 2 \<or> m = 3 \<or> m = 4 \<or> m = 5 \<or> m = 6 \<or> m = 7
      \<or> m = 8 \<or> m = 9 \<or> m = 10 \<or> m = 11"
    using assms by arith
  with that show thesis by blast
qed

lemma monthOfDay_start:
  assumes "0 \<le> m" "m < 12" "0 \<le> k" "k < monthLength leap m"
  shows "monthOfDay leap (monthStart leap m + k) = m"
  using assms(1,2)
  by (rule month_cases) (use assms(3,4) in \<open>auto simp: monthOfDay_def monthLength_def\<close>)

lemma monthStart_bounds:
  assumes "0 \<le> m" "m < 12" "0 \<le> k" "k < monthLength leap m"
  shows "0 \<le> monthStart leap m + k" "monthStart leap m + k < 365 + of_bool leap"
  using assms(1,2)
  by (rule month_cases; use assms(3,4) in \<open>auto simp: monthLength_def\<close>)+

lemma monthLength_bounds:
  assumes "0 \<le> m" "m < 12"
  shows "28 \<le> monthLength l m" "monthLength l m \<le> 31"
  using assms by (rule month_cases; simp add: monthLength_def)+

lemma dayFromYear_bounds:
  "400 * dayFromYear y \<le> 146097 * (y - 1970) + 592"
  "146097 * (y - 1970) - 600 \<le> 400 * dayFromYear y"
proof -
  have d: "k * (x div k) \<le> x" "x \<le> k * (x div k) + (k - 1)" if "0 < k" for x k :: int
  proof -
    have "x = k * (x div k) + x mod k" by simp
    with that pos_mod_bound [of k x] pos_mod_sign [of k x]
    show "k * (x div k) \<le> x" "x \<le> k * (x div k) + (k - 1)" by linarith+
  qed
  note b = d [of 4 "y - 1969", simplified] d [of 100 "y - 1901", simplified]
    d [of 400 "y - 1601", simplified]
  show "400 * dayFromYear y \<le> 146097 * (y - 1970) + 592"
    using b unfolding dayFromYear_def by (simp add: algebra_simps)
  show "146097 * (y - 1970) - 600 \<le> 400 * dayFromYear y"
    using b unfolding dayFromYear_def by (simp add: algebra_simps)
qed

lemma dayFromYear_Suc: "dayFromYear (y + 1) = dayFromYear y + daysInYear y"
proof -
  have step: "(x + 1) div k = x div k + of_bool ((x + 1) mod k = 0)" if "0 < k" for x k :: int
  proof (cases "(x + 1) mod k = 0")
    case True
    then obtain c where c: "x + 1 = k * c" by (auto elim: dvdE simp: mod_eq_0_iff_dvd)
    then have "x = k * (c - 1) + (k - 1)" by (simp add: right_diff_distrib)
    then have "x div k = c - 1" by (rule int_div_pos_eq) (use that in simp_all)
    moreover have "(x + 1) div k = c" unfolding c using that by simp
    ultimately show ?thesis using True by simp
  next
    case False
    have "x + 1 = k * ((x + 1) div k) + (x + 1) mod k" by simp
    then have "x = k * ((x + 1) div k) + ((x + 1) mod k - 1)" by linarith
    moreover have "0 \<le> (x + 1) mod k - 1" "(x + 1) mod k - 1 < k"
      using False pos_mod_sign [OF that, of "x + 1"] pos_mod_bound [OF that, of "x + 1"] by linarith+
    ultimately have "x div k = (x + 1) div k" by (rule int_div_pos_eq)
    with False show ?thesis by simp
  qed
  have per: "(y - k * c) mod k = 0 \<longleftrightarrow> y mod k = 0" for k c :: int
    by (simp add: mod_eq_0_iff_dvd dvd_diff_left_iff)
  have m: "(y - 1968) mod 4 = 0 \<longleftrightarrow> y mod 4 = 0" "(y - 1900) mod 100 = 0 \<longleftrightarrow> y mod 100 = 0"
    "(y - 1600) mod 400 = 0 \<longleftrightarrow> y mod 400 = 0"
    using per [of 4 492] per [of 100 19] per [of 400 4] by simp_all
  have "4 dvd (100 :: int)" "100 dvd (400 :: int)" by simp_all
  then have i: "y mod 100 = 0 \<Longrightarrow> y mod 4 = 0" "y mod 400 = 0 \<Longrightarrow> y mod 100 = 0"
    by (auto simp: mod_eq_0_iff_dvd intro: dvd_trans)
  have e: "y - 1969 + 1 = y - 1968" "y - 1901 + 1 = y - 1900" "y - 1601 + 1 = y - 1600" by simp_all
  have s: "(y - 1968) div 4 = (y - 1969) div 4 + of_bool (y mod 4 = 0)"
    "(y - 1900) div 100 = (y - 1901) div 100 + of_bool (y mod 100 = 0)"
    "(y - 1600) div 400 = (y - 1601) div 400 + of_bool (y mod 400 = 0)"
    using step [of 4 "y - 1969", OF zero_less_numeral] step [of 100 "y - 1901", OF zero_less_numeral]
      step [of 400 "y - 1601", OF zero_less_numeral] by (simp_all only: e m)
  have "dayFromYear (y + 1) =
      365 * (y - 1970) + 365 + (y - 1968) div 4 - (y - 1900) div 100 + (y - 1600) div 400"
    by (simp add: dayFromYear_def)
  also have "\<dots> = dayFromYear y +
      (365 + of_bool (y mod 4 = 0) - of_bool (y mod 100 = 0) + of_bool (y mod 400 = 0))"
    by (simp only: s dayFromYear_def)
  also have "365 + of_bool (y mod 4 = 0) - of_bool (y mod 100 = 0) + of_bool (y mod 400 = 0)
      = daysInYear y"
    using i by (cases "y mod 400 = 0"; cases "y mod 100 = 0"; cases "y mod 4 = 0")
      (simp_all only: daysInYear_def leapYear_def simp_thms of_bool_eq if_True if_False, simp_all)
  finally show ?thesis .
qed

lemma daysInYear_pos: "365 \<le> daysInYear y" "daysInYear y \<le> 366"
  by (auto simp: daysInYear_def)

lemma daysInYear_leap: "daysInYear y = 365 + of_bool (leapYear y)"
  by (simp add: daysInYear_def)

lemma dayFromYear_mono: "y \<le> z \<Longrightarrow> dayFromYear y \<le> dayFromYear z"
proof (induction "nat (z - y)" arbitrary: z)
  case 0
  then show ?case by simp
next
  case (Suc n)
  then have "dayFromYear y \<le> dayFromYear (z - 1)" by simp
  then show ?case using dayFromYear_Suc [of "z - 1"] daysInYear_pos [of "z - 1"] by simp
qed

lemma yearOfDay_bounds:
  "dayFromYear (yearOfDay d) \<le> d" "d < dayFromYear (yearOfDay d + 1)"
proof -
  define y where "y = 1970 + (400 * d) div 146097"
  have m: "0 \<le> (400 * d) mod 146097" "(400 * d) mod 146097 < 146097" by simp_all
  have z: "146097 * (y - 1970) \<le> 400 * d" "400 * d < 146097 * (y - 1970) + 146097"
    using m mult_div_mod_eq [of 146097 "400 * d"] unfolding y_def by simp_all
  have lo: "dayFromYear (y - 1) \<le> d"
    using dayFromYear_bounds(1) [of "y - 1"] z by (simp add: algebra_simps)
  have hi: "d < dayFromYear (y + 2)"
    using dayFromYear_bounds(2) [of "y + 2"] z by (simp add: algebra_simps)
  have e: "yearOfDay d =
      (if d < dayFromYear y then y - 1 else if dayFromYear (y + 1) \<le> d then y + 1 else y)"
    by (simp add: yearOfDay_def y_def)
  show "dayFromYear (yearOfDay d) \<le> d" using lo by (auto simp: e)
  have "d < dayFromYear (y + 1 + 1)" using hi by (simp add: add.assoc)
  then show "d < dayFromYear (yearOfDay d + 1)" by (auto simp: e)
qed

lemma yearOfDay_unique:
  assumes "dayFromYear y \<le> d" "d < dayFromYear (y + 1)"
  shows "yearOfDay d = y"
proof (rule ccontr)
  assume "yearOfDay d \<noteq> y"
  then consider "yearOfDay d + 1 \<le> y" | "y + 1 \<le> yearOfDay d" by linarith
  then show False
  proof cases
    case 1
    from dayFromYear_mono [OF this] yearOfDay_bounds(2) [of d] assms(1) show False by linarith
  next
    case 2
    from dayFromYear_mono [OF this] yearOfDay_bounds(1) [of d] assms(2) show False by linarith
  qed
qed

text \<open>A calendar day that exists reads back as itself.\<close>

theorem civil_roundtrip:
  assumes "0 \<le> m" "m < 12" "1 \<le> d" "d \<le> monthLength (leapYear y) m" "0 \<le> s" "s < msPerDay"
  defines "t \<equiv> makeDay y m d * msPerDay + s"
  shows "getUTCFullYear t = y" "getUTCMonth t = m" "getUTCDate t = d"
proof -
  have k: "0 \<le> d - 1" "d - 1 < monthLength (leapYear y) m" using assms by auto
  define doy where "doy = monthStart (leapYear y) m + (d - 1)"
  have doy: "0 \<le> doy" "doy < 365 + of_bool (leapYear y)" "monthOfDay (leapYear y) doy = m"
    unfolding doy_def
    using monthStart_bounds [OF assms(1,2) k] monthOfDay_start [OF assms(1,2) k] by simp_all
  have mk: "makeDay y m d = dayFromYear y + doy"
    using assms(1,2) by (simp add: makeDay_def doy_def)
  have day: "dayOf t = dayFromYear y + doy"
    unfolding t_def dayOf_def mk by (rule int_div_pos_eq) (use assms(5,6) in auto)
  have year: "yearOfDay (dayFromYear y + doy) = y"
    using doy by (intro yearOfDay_unique) (auto simp: dayFromYear_Suc daysInYear_leap)
  show "getUTCFullYear t = y" by (simp add: getUTCFullYear_def day year)
  show "getUTCMonth t = m" by (simp add: getUTCMonth_def getUTCFullYear_def day year doy)
  show "getUTCDate t = d"
    by (simp add: getUTCDate_def getUTCFullYear_def day year doy) (simp add: doy_def)
qed

lemma monthOfDay_range: "0 \<le> monthOfDay l d" "monthOfDay l d < 12"
  by (auto simp: monthOfDay_def)

lemma monthOfDay_bounds:
  assumes "0 \<le> d" "d < 365 + of_bool l"
  shows "monthStart l (monthOfDay l d) \<le> d" "d < monthStart l (monthOfDay l d + 1)"
  using assms by (auto simp: monthOfDay_def not_less)

text \<open>Conversely the calendar day of an instant denotes the midnight at or before it.\<close>

theorem civil_inverse:
  "makeDay (getUTCFullYear t) (getUTCMonth t) (getUTCDate t) * msPerDay \<le> t"
  "t < makeDay (getUTCFullYear t) (getUTCMonth t) (getUTCDate t) * msPerDay + msPerDay"
proof -
  define y where "y = getUTCFullYear t"
  have "makeDay y (getUTCMonth t) (getUTCDate t) = dayOf t"
    using monthOfDay_range
    by (simp add: makeDay_def getUTCMonth_def getUTCDate_def y_def Let_def)
  moreover have "dayOf t * msPerDay \<le> t" "t < dayOf t * msPerDay + msPerDay"
    using div_mult_mod_eq [of t msPerDay] pos_mod_sign [of msPerDay t] pos_mod_bound [of msPerDay t]
    by (auto simp: dayOf_def msPerDay_def)
  ultimately show "makeDay (getUTCFullYear t) (getUTCMonth t) (getUTCDate t) * msPerDay \<le> t"
    "t < makeDay (getUTCFullYear t) (getUTCMonth t) (getUTCDate t) * msPerDay + msPerDay"
    by (simp_all add: y_def)
qed

lemma civil_ranges:
  "0 \<le> getUTCMonth t" "getUTCMonth t < 12" "1 \<le> getUTCDate t"
  "getUTCDate t \<le> monthLength (leapYear (getUTCFullYear t)) (getUTCMonth t)"
proof -
  define y where "y = getUTCFullYear t"
  define d where "d = dayOf t - dayFromYear y"
  have d: "0 \<le> d" "d < 365 + of_bool (leapYear y)"
    using yearOfDay_bounds [of "dayOf t"]
    by (auto simp: d_def y_def getUTCFullYear_def dayFromYear_Suc daysInYear_leap)
  have m: "getUTCMonth t = monthOfDay (leapYear y) d"
    by (simp add: getUTCMonth_def y_def d_def Let_def)
  have dt: "getUTCDate t = d - monthStart (leapYear y) (monthOfDay (leapYear y) d) + 1"
    by (simp add: getUTCDate_def y_def d_def Let_def)
  show "0 \<le> getUTCMonth t" "getUTCMonth t < 12" by (simp_all add: m monthOfDay_range)
  show "1 \<le> getUTCDate t" using monthOfDay_bounds(1) [OF d] by (simp add: dt)
  show "getUTCDate t \<le> monthLength (leapYear (getUTCFullYear t)) (getUTCMonth t)"
    using monthOfDay_bounds(2) [OF d] by (simp add: dt m monthLength_def flip: y_def)
qed

text \<open>\<open>Date.UTC\<close> of a four-digit year, two-digit month and two-digit day is a valid date.\<close>

lemma utc_four_digits_in_range:
  assumes "0 \<le> y" "y \<le> 9999" "0 \<le> m" "m \<le> 99" "0 \<le> d" "d \<le> 99"
  shows "\<bar>dateUTC y (m - 1) d\<bar> \<le> 8640000000000000"
proof -
  define y' where "y' = (if 0 \<le> y \<and> y \<le> 99 then 1900 + y else y) + (m - 1) div 12"
  have ms: "0 \<le> monthStart l k" "monthStart l k \<le> 366" for l k
    by (auto simp: monthStart_def Let_def)
  have "-1 \<le> (m - 1) div 12" "(m - 1) div 12 \<le> 9" using assms by linarith+
  then have y': "-1 \<le> y'" "y' \<le> 10009" using assms by (auto simp: y'_def)
  have "-1000000 \<le> dayFromYear y'" "dayFromYear y' \<le> 9000000"
    using dayFromYear_bounds [of y'] y' by (simp_all add: algebra_simps)
  then have "\<bar>makeDay (if 0 \<le> y \<and> y \<le> 99 then 1900 + y else y) (m - 1) d\<bar> \<le> 100000000"
    using ms [of "leapYear y'" "(m - 1) mod 12"] assms(5,6)
    unfolding makeDay_def Let_def y'_def [symmetric] by simp
  then show ?thesis by (simp add: dateUTC_def Let_def msPerDay_def abs_mult)
qed

end
