(* ===== verification/Json.thy ===== *)
theory Json
  imports Bpp_Prelude
begin

text \<open>
  JSON values, for the parts of the program that handle payloads as \<open>Record<string, unknown>\<close>:
  the stored order, the attachments of a refusal, the message bodies. An object is an
  association list in insertion order without repeated keys; the numbers that occur in these
  payloads are integral. \<open>JSON.parse (JSON.stringify v)\<close> is \<open>v\<close>, so a stored order is its value.
\<close>

datatype json =
    JNull
  | JBool bool
  | JNum int
  | JStr string
  | JArr "json list"
  | JObj "(string \<times> json) list"

text \<open>Optional chaining \<open>v?.k\<close> (\<open>None\<close> is \<open>undefined\<close>) and \<open>v?.j?.k\<close>.\<close>

fun field :: "json \<Rightarrow> string \<Rightarrow> json option" where
  "field (JObj kvs) k = map_of kvs k"
| "field _ k = None"

definition field2 :: "json \<Rightarrow> string \<Rightarrow> string \<Rightarrow> json option" where
  "field2 v j k = (case field v j of None \<Rightarrow> None | Some w \<Rightarrow> field w k)"

text \<open>\<open>{...v, k: w}\<close>: an existing key keeps its place, a new one goes to the end.\<close>

fun put :: "string \<Rightarrow> json \<Rightarrow> (string \<times> json) list \<Rightarrow> (string \<times> json) list" where
  "put k w [] = [(k, w)]"
| "put k w ((j, v) # kvs) = (if j = k then (k, w) # kvs else (j, v) # put k w kvs)"

fun set_field :: "string \<Rightarrow> json \<Rightarrow> json \<Rightarrow> json" where
  "set_field k w (JObj kvs) = JObj (put k w kvs)"
| "set_field k w v = v"

fun elems :: "json \<Rightarrow> json list" where
  "elems (JArr xs) = xs"
| "elems v = []"

text \<open>The code of a tag group or a tag entry, \<open>v.descriptor?.code\<close>.\<close>

definition tag_code :: "json \<Rightarrow> json option" where
  "tag_code v = field2 v ''descriptor'' ''code''"

text \<open>A key that is present only when the value is: \<open>...(x ? {k: x} : {})\<close>.\<close>

definition opt_field :: "string \<Rightarrow> json option \<Rightarrow> (string \<times> json) list" where
  "opt_field k v = (case v of None \<Rightarrow> [] | Some w \<Rightarrow> [(k, w)])"

lemma opt_field_simps [simp]:
  "opt_field k None = []" "opt_field k (Some w) = [(k, w)]"
  by (simp_all add: opt_field_def)

lemma map_of_put: "map_of (put k w kvs) = (map_of kvs)(k \<mapsto> w)"
  by (induction kvs) auto

lemma field_set_field_same [simp]: "field (set_field k w (JObj kvs)) k = Some w"
  by (simp add: map_of_put)

lemma field_set_field_other [simp]: "j \<noteq> k \<Longrightarrow> field (set_field k w v) j = field v j"
  by (cases v) (auto simp: map_of_put)

lemma put_id: "map_of kvs k = Some w \<Longrightarrow> put k w kvs = kvs"
  by (induction kvs) auto

end
