(* ===== verification/Reserved_Types.thy ===== *)
theory Reserved_Types
  imports Json
begin

text \<open>
  The data model of the reserved intercity seller (\<open>src/src/reserved/types.ts\<close>), the vocabulary
  of its domain (\<open>domain.ts\<close>), and its errors (\<open>errors.ts\<close>). A refusal carries its code and its
  attachment; the English sentence beside them is not modelled. Integral numbers are \<^typ>\<open>int\<close>;
  the two halves of a coordinate, which are only ever printed, are kept as the text they print
  as; \<open>popularity\<close> is the exact value of a double.
\<close>

subsection \<open>The catalogue\<close>

type_synonym ServiceClass = string
type_synonym SourcingLabel = string

datatype Corporation = KSRTC | NWKRTC | KKRTC

datatype ServiceProvenance = Confirmed | Inferred | NoProvenance

definition SERVICE_CLASSES :: "ServiceClass list" where
  "SERVICE_CLASSES =
     [''RAJAHAMSA_EXECUTIVE'', ''AIRAVAT'', ''AIRAVAT_CLUB_CLASS'', ''PALLAKKI'', ''AMBAARI_UTSAV'',
      ''ASHWAMEDHA'', ''NON_AC_SLEEPER'', ''AMBAARI_DREAM_CLASS'', ''AIRAVAT_CLUB_CLASS_2'',
      ''EV_POWER_PLUS'', ''FLYBUS'', ''KALYANA_RATHA'', ''AMOGHAVARSHA'',
      ''AC_SEATER_EXECUTIVE_CHAIR'', ''AC_SLEEPER'']"

datatype OperatingPattern =
    Daily
  | DaysOfWeek "int list"
  | Dates "string list"

record BoardingPoint =
  bp_boardingPointId :: string
  bp_name :: string
  bp_nameLocal :: "string option"
  bp_townCode :: string
  bp_gps :: "(string \<times> string) option"
  bp_reportingOffsetMinutes :: int
  bp_stopCode :: "string option"

record ReservedService =
  svc_serviceId :: string
  svc_serviceNumber :: string
  svc_brand :: Corporation
  svc_operatingCorporation :: "Corporation option"
  svc_operatingCorporationBasis :: ServiceProvenance
  svc_provenance :: ServiceProvenance
  svc_provenanceSourceCount :: int
  svc_serviceClass :: ServiceClass
  svc_boardingPoints :: "BoardingPoint list"
  svc_droppingPoints :: "BoardingPoint list"
  svc_operatingPattern :: OperatingPattern
  svc_departureMinute :: int
  svc_runningMinutes :: int
  svc_seatMapId :: string
  svc_fareTableId :: string
  svc_popularity :: rat
  svc_reservationFeePaise :: int
  svc_tollPaise :: int

datatype SeatKind = SEAT | BERTH

datatype MapKind = SEATER | SLEEPER

record Seat =
  seat_seatId :: string
  seat_deck :: int
  seat_row :: int
  seat_column :: int
  seat_kind :: SeatKind
  seat_window :: bool
  seat_pairedSeatId :: "string option"
  seat_adjacentSeatIds :: "string list"

record SeatMap =
  map_seatMapId :: string
  map_serviceClass :: ServiceClass
  map_kind :: MapKind
  map_decks :: int
  map_documentedCapacity :: "int option"
  map_seats :: "Seat list"

record FareCell =
  cell_fromBoardingPointId :: string
  cell_toBoardingPointId :: string
  cell_serviceClass :: ServiceClass
  cell_farePaise :: int
  cell_sourcing :: SourcingLabel

record FareTable =
  table_fareTableId :: string
  table_fares :: "FareCell list"

record ReservedOperatorProfile =
  op_id :: string
  op_name :: string
  op_serviceWindow :: "string \<times> string"

record Town =
  town_code :: string
  town_name :: string
  town_nameLocal :: "string option"

record ReservedCatalogue =
  cat_operator :: ReservedOperatorProfile
  cat_towns :: "Town list"
  cat_boardingPoints :: "BoardingPoint list"
  cat_services :: "ReservedService list"
  cat_seatMaps :: "SeatMap list"
  cat_fareTables :: "FareTable list"

record ReservedSearchQuery =
  qry_fromTownCode :: string
  qry_toTownCode :: string
  qry_travelDate :: string
  qry_serviceClass :: "ServiceClass option"
  qry_cityCode :: string

text \<open>
  The interface \<open>ReservedServiceSource\<close>: where the order flow gets its services, layouts and
  fares from. Everything that uses a source takes it as an argument.
\<close>

record ReservedServiceSource =
  src_operator :: ReservedOperatorProfile
  src_services :: "ReservedSearchQuery \<Rightarrow> ReservedService list"
  src_service :: "string \<Rightarrow> ReservedService option"
  src_seatMap :: "string \<Rightarrow> SeatMap option"
  src_fareTable :: "string \<Rightarrow> FareTable option"

subsection \<open>The vocabulary\<close>

datatype SeatState =
    AVAILABLE | HELD_STATE | HELD_BY_YOU | FEMALE_ONLY | SOLD_simulated | SOLD_booked

fun seat_state_wire :: "SeatState \<Rightarrow> string" where
  "seat_state_wire AVAILABLE = ''AVAILABLE''"
| "seat_state_wire HELD_STATE = ''HELD''"
| "seat_state_wire HELD_BY_YOU = ''HELD_BY_YOU''"
| "seat_state_wire FEMALE_ONLY = ''FEMALE_ONLY''"
| "seat_state_wire SOLD_simulated = ''SOLD:simulated''"
| "seat_state_wire SOLD_booked = ''SOLD:booked''"

datatype ReservedErrorCode =
    TRAVEL_DATE_REQUIRED | SERVICE_NOT_FOUND | OUTSIDE_BOOKING_WINDOW | FARE_NOT_PUBLISHED
  | SEAT_NOT_ON_MAP | SEAT_UNAVAILABLE | SEAT_GENDER_LOCKED | SEAT_COUNT_MISMATCH
  | HOLD_REQUIRED | HOLD_EXPIRED | HOLD_SEAT_MISMATCH | MANIFEST_INCOMPLETE
  | MANIFEST_FIELD_NOT_ACCEPTED | CONCESSION_RATE_NOT_PUBLISHED | CONCESSION_NOT_APPLICABLE
  | BOOKING_NOT_FOUND | REFUND_SLAB_MOVED | REFUND_QUOTE_EXPIRED | MIXED_CATEGORY_ORDER
  | CANCEL_SEAT_NOT_ON_BOOKING | BPP_ADDRESS_MISMATCH | INVALID_PAYMENT_STATUS | INTERNAL_ERROR

fun error_code_wire :: "ReservedErrorCode \<Rightarrow> string" where
  "error_code_wire TRAVEL_DATE_REQUIRED = ''TRAVEL-DATE-REQUIRED''"
| "error_code_wire SERVICE_NOT_FOUND = ''SERVICE-NOT-FOUND''"
| "error_code_wire OUTSIDE_BOOKING_WINDOW = ''OUTSIDE-BOOKING-WINDOW''"
| "error_code_wire FARE_NOT_PUBLISHED = ''FARE-NOT-PUBLISHED''"
| "error_code_wire SEAT_NOT_ON_MAP = ''SEAT-NOT-ON-MAP''"
| "error_code_wire SEAT_UNAVAILABLE = ''SEAT-UNAVAILABLE''"
| "error_code_wire SEAT_GENDER_LOCKED = ''SEAT-GENDER-LOCKED''"
| "error_code_wire SEAT_COUNT_MISMATCH = ''SEAT-COUNT-MISMATCH''"
| "error_code_wire HOLD_REQUIRED = ''HOLD-REQUIRED''"
| "error_code_wire HOLD_EXPIRED = ''HOLD-EXPIRED''"
| "error_code_wire HOLD_SEAT_MISMATCH = ''HOLD-SEAT-MISMATCH''"
| "error_code_wire MANIFEST_INCOMPLETE = ''MANIFEST-INCOMPLETE''"
| "error_code_wire MANIFEST_FIELD_NOT_ACCEPTED = ''MANIFEST-FIELD-NOT-ACCEPTED''"
| "error_code_wire CONCESSION_RATE_NOT_PUBLISHED = ''CONCESSION-RATE-NOT-PUBLISHED''"
| "error_code_wire CONCESSION_NOT_APPLICABLE = ''CONCESSION-NOT-APPLICABLE''"
| "error_code_wire BOOKING_NOT_FOUND = ''BOOKING-NOT-FOUND''"
| "error_code_wire REFUND_SLAB_MOVED = ''REFUND-SLAB-MOVED''"
| "error_code_wire REFUND_QUOTE_EXPIRED = ''REFUND-QUOTE-EXPIRED''"
| "error_code_wire MIXED_CATEGORY_ORDER = ''MIXED-CATEGORY-ORDER''"
| "error_code_wire CANCEL_SEAT_NOT_ON_BOOKING = ''CANCEL-SEAT-NOT-ON-BOOKING''"
| "error_code_wire BPP_ADDRESS_MISMATCH = ''BPP-ADDRESS-MISMATCH''"
| "error_code_wire INVALID_PAYMENT_STATUS = ''INVALID-PAYMENT-STATUS''"
| "error_code_wire INTERNAL_ERROR = ''INTERNAL-ERROR''"

text \<open>
  What the reserved path can throw: a \<open>ReservedLifecycleError\<close> with its code and attachment, a
  plain \<open>Error\<close>, and the two constraint failures of the database engine.
\<close>

datatype failure =
    Refusal ReservedErrorCode "(string \<times> json) list"
  | PlainError
  | UniqueViolation
  | ForeignKeyViolation

abbreviation refuse :: "ReservedErrorCode \<Rightarrow> failure + 'a" where
  "refuse c \<equiv> Inl (Refusal c [])"

subsection \<open>Calendar date strings and item ids\<close>

text \<open>\<open>/^(\d{4})-(\d{2})-(\d{2})$/\<close>, with the three numbers it captures.\<close>

fun calendar_date :: "string \<Rightarrow> (int \<times> int \<times> int) option" where
  "calendar_date [y1, y2, y3, y4, h1, m1, m2, h2, d1, d2] =
     (if list_all is_digit [y1, y2, y3, y4, m1, m2, d1, d2] \<and> h1 = CHR ''-'' \<and> h2 = CHR ''-''
      then Some (int (digits_value [y1, y2, y3, y4]), int (digits_value [m1, m2]),
                 int (digits_value [d1, d2]))
      else None)"
| "calendar_date _ = None"

definition is_calendar_date :: "string \<Rightarrow> bool" where
  "is_calendar_date s \<longleftrightarrow> calendar_date s \<noteq> None"

definition reservedItemId :: "string \<Rightarrow> string \<Rightarrow> string \<Rightarrow> failure + string" where
  "reservedItemId serviceId travelDate serviceClass =
     (if \<not> is_calendar_date travelDate then Inl PlainError
      else Inr (''RSV-'' @ serviceId @ ''-'' @ travelDate @ ''-'' @ serviceClass))"

text \<open>The classes \<open>[A-Z0-9_]\<close> and \<open>.\<close> of the pattern an item id is matched against.\<close>

definition is_class_char :: "char \<Rightarrow> bool" where
  "is_class_char c \<longleftrightarrow> is_upper c \<or> is_digit c \<or> c = CHR ''_''"

definition is_dot_char :: "char \<Rightarrow> bool" where
  "is_dot_char c \<longleftrightarrow> (of_char c :: nat) \<noteq> 10 \<and> (of_char c :: nat) \<noteq> 13"

text \<open>
  \<open>/^RSV-(.+)-(\d{4}-\d{2}-\d{2})-([A-Z0-9_]+)$/\<close>. The class has no hyphen, so it is what follows
  the last one; the date is the ten characters before it and the service id the rest.
\<close>

definition parseReservedItemId :: "string \<Rightarrow> (string \<times> string \<times> string) option" where
  "parseReservedItemId itemId =
     (if take 4 itemId \<noteq> ''RSV-'' then None
      else
        let r = rev (drop 4 itemId);
            cls = takeWhile (\<lambda>c. c \<noteq> CHR ''-'') r;
            r1 = dropWhile (\<lambda>c. c \<noteq> CHR ''-'') r;
            r2 = drop 1 r1;
            date = rev (take 10 r2);
            r3 = drop 10 r2;
            serviceId = rev (drop 1 r3)
        in if cls \<noteq> [] \<and> list_all is_class_char cls \<and> r1 \<noteq> [] \<and> is_calendar_date date
              \<and> take 1 r3 = ''-'' \<and> serviceId \<noteq> [] \<and> list_all is_dot_char serviceId
           then Some (serviceId, date, rev cls)
           else None)"

definition reservedFulfillmentId :: "string \<Rightarrow> string" where
  "reservedFulfillmentId itemId = ''F-'' @ itemId"

subsection \<open>Item ids round-trip\<close>

lemma calendar_date_length: "calendar_date s = Some x \<Longrightarrow> length s = 10"
  by (induction s rule: calendar_date.induct) (auto split: if_splits)

lemma is_calendar_date_length: "is_calendar_date s \<Longrightarrow> length s = 10"
  by (auto simp: is_calendar_date_def dest: calendar_date_length)

lemma class_char_no_hyphen: "is_class_char c \<Longrightarrow> c \<noteq> CHR ''-''"
  by (auto simp: is_class_char_def is_upper_def is_digit_def)

lemma parse_reserved_item:
  assumes "is_calendar_date d" "sid \<noteq> []" "list_all is_dot_char sid"
    and "cls \<noteq> []" "list_all is_class_char cls"
  shows "parseReservedItemId (''RSV-'' @ sid @ ''-'' @ d @ ''-'' @ cls) = Some (sid, d, cls)"
proof -
  have no: "\<forall>c \<in> set (rev cls). c \<noteq> CHR ''-''"
    using assms(5) by (auto simp: list_all_iff dest: class_char_no_hyphen)
  have t: "takeWhile (\<lambda>c. c \<noteq> CHR ''-'') (rev cls @ CHR ''-'' # z) = rev cls"
    "dropWhile (\<lambda>c. c \<noteq> CHR ''-'') (rev cls @ CHR ''-'' # z) = CHR ''-'' # z" for z
    using no by (simp_all add: takeWhile_append dropWhile_append)
  have l: "length (rev d) = 10" using is_calendar_date_length [OF assms(1)] by simp
  have r: "rev (drop 4 (''RSV-'' @ sid @ ''-'' @ d @ ''-'' @ cls))
      = rev cls @ CHR ''-'' # rev d @ CHR ''-'' # rev sid"
    by simp
  show ?thesis
    unfolding parseReservedItemId_def r t Let_def
    using assms l by (simp add: list_all_iff)
qed

lemma parse_reserved_item_inv:
  assumes "parseReservedItemId s = Some (sid, d, cls)"
  shows "s = ''RSV-'' @ sid @ ''-'' @ d @ ''-'' @ cls"
    and "is_calendar_date d" "sid \<noteq> []" "list_all is_dot_char sid" "cls \<noteq> []" "list_all is_class_char cls"
proof -
  define r where "r = rev (drop 4 s)"
  define c where "c = takeWhile (\<lambda>c. c \<noteq> CHR ''-'') r"
  define r1 where "r1 = dropWhile (\<lambda>c. c \<noteq> CHR ''-'') r"
  define r2 where "r2 = drop 1 r1"
  define r3 where "r3 = drop 10 r2"
  have p: "take 4 s = ''RSV-''" "c \<noteq> []" "list_all is_class_char c" "r1 \<noteq> []"
    "is_calendar_date (rev (take 10 r2))" "take 1 r3 = ''-''" "rev (drop 1 r3) \<noteq> []"
    "list_all is_dot_char (rev (drop 1 r3))"
    and v: "sid = rev (drop 1 r3)" "d = rev (take 10 r2)" "cls = rev c"
    using assms
    by (auto simp: parseReservedItemId_def Let_def r_def c_def r1_def r2_def r3_def split: if_splits)
  have "hd r1 = CHR ''-''" using p(4) hd_dropWhile [of "\<lambda>c. c \<noteq> CHR ''-''" r] by (simp add: r1_def)
  then have r1: "r1 = CHR ''-'' # r2" using p(4) by (cases r1) (auto simp: r2_def)
  have r3: "r3 = CHR ''-'' # drop 1 r3" using p(6) by (cases r3) auto
  have r2: "r2 = take 10 r2 @ r3" by (simp add: r3_def)
  have "r = c @ r1" by (simp add: c_def r1_def)
  then have "r = c @ CHR ''-'' # take 10 r2 @ CHR ''-'' # drop 1 r3" using r1 r2 r3 by metis
  then have "drop 4 s = rev (c @ CHR ''-'' # take 10 r2 @ CHR ''-'' # drop 1 r3)"
    by (simp add: r_def rev_swap)
  then have "drop 4 s = sid @ ''-'' @ d @ ''-'' @ cls" by (simp add: v)
  moreover have "s = take 4 s @ drop 4 s" by simp
  ultimately show "s = ''RSV-'' @ sid @ ''-'' @ d @ ''-'' @ cls" using p(1) by simp
  show "is_calendar_date d" "sid \<noteq> []" "list_all is_dot_char sid" "cls \<noteq> []" "list_all is_class_char cls"
    using p by (auto simp: v list_all_iff)
qed

lemma service_classes_parse:
  "list_all (\<lambda>cls. cls \<noteq> [] \<and> list_all is_class_char cls) SERVICE_CLASSES"
  by code_simp

subsection \<open>Properties\<close>

text \<open>
  An item id is read back as the service, date and class it was built from, for every class of
  the catalogue and every service id without a line break, and every id that is accepted at all
  is exactly the one its parts build.
\<close>

theorem reserved_item_id_roundtrip:
  assumes "serviceId \<noteq> []" "list_all is_dot_char serviceId" "serviceClass \<in> set SERVICE_CLASSES"
  shows "(reservedItemId serviceId travelDate serviceClass = Inr itemId \<longrightarrow>
           parseReservedItemId itemId = Some (serviceId, travelDate, serviceClass))
     \<and> (parseReservedItemId itemId = Some (serviceId, travelDate, serviceClass) \<longrightarrow>
           reservedItemId serviceId travelDate serviceClass = Inr itemId)"
proof -
  have cls: "serviceClass \<noteq> []" "list_all is_class_char serviceClass"
    using service_classes_parse assms(3) by (auto simp: list_all_iff)
  show ?thesis
    using parse_reserved_item [OF _ assms(1,2) cls, of travelDate]
      parse_reserved_item_inv(1,2) [of itemId serviceId travelDate serviceClass]
    by (auto simp: reservedItemId_def split: if_splits)
qed

theorem reserved_item_id_roundtrip_witness:
  "parseReservedItemId ''RSV-K-1-2026-09-10-AIRAVAT'' = Some (''K-1'', ''2026-09-10'', ''AIRAVAT'')"
proof -
  have "reservedItemId ''K-1'' ''2026-09-10'' ''AIRAVAT'' = Inr ''RSV-K-1-2026-09-10-AIRAVAT''" by code_simp
  moreover have "''AIRAVAT'' \<in> set SERVICE_CLASSES" "list_all is_dot_char ''K-1''" by code_simp+
  ultimately show ?thesis
    using reserved_item_id_roundtrip [of "''K-1''" "''AIRAVAT''" "''2026-09-10''" "''RSV-K-1-2026-09-10-AIRAVAT''"]
    by simp
qed

end
