(* ===== verification/Reserved_Calendar.thy ===== *)
theory Reserved_Calendar
  imports JS_Date Reserved_Types
begin

text \<open>
  Dates, instants and the booking window (\<open>src/src/reserved/calendar.ts\<close>). A travel date is a
  string \<open>YYYY-MM-DD\<close> in \<open>Asia/Kolkata\<close>; an instant is epoch milliseconds.
\<close>

definition INDIA_OFFSET_MILLISECONDS :: int where
  "INDIA_OFFSET_MILLISECONDS = 19800000"

definition MINUTE_MILLISECONDS :: int where
  "MINUTE_MILLISECONDS = 60000"

definition DAY_MILLISECONDS :: int where
  "DAY_MILLISECONDS = 24 * 60 * MINUTE_MILLISECONDS"

definition istCalendarDate :: "int \<Rightarrow> string" where
  "istCalendarDate t = take 10 (toISOString (t + INDIA_OFFSET_MILLISECONDS))"

definition midnightMilliseconds :: "string \<Rightarrow> failure + int" where
  "midnightMilliseconds travelDate =
     (case calendar_date travelDate of
        None \<Rightarrow> Inl PlainError
      | Some (year, month, day) \<Rightarrow> Inr (dateUTC year (month - 1) day - INDIA_OFFSET_MILLISECONDS))"

definition istIsoInstant :: "int \<Rightarrow> string" where
  "istIsoInstant t = take 23 (toISOString (t + INDIA_OFFSET_MILLISECONDS)) @ ''+05:30''"

definition stopInstantMilliseconds :: "string \<Rightarrow> int \<Rightarrow> int \<Rightarrow> failure + int" where
  "stopInstantMilliseconds travelDate departureMinute reportingOffsetMinutes =
     andThen (midnightMilliseconds travelDate)
       (\<lambda>m. Inr (m + (departureMinute + reportingOffsetMinutes) * MINUTE_MILLISECONDS))"

definition stopInstant :: "string \<Rightarrow> int \<Rightarrow> int \<Rightarrow> failure + string" where
  "stopInstant travelDate departureMinute reportingOffsetMinutes =
     andThen (midnightMilliseconds travelDate)
       (\<lambda>m. Inr (istIsoInstant (m + (departureMinute + reportingOffsetMinutes) * MINUTE_MILLISECONDS)))"

fun runsOn :: "OperatingPattern \<Rightarrow> string \<Rightarrow> failure + bool" where
  "runsOn Daily travelDate = Inr True"
| "runsOn (DaysOfWeek days) travelDate =
     andThen (midnightMilliseconds travelDate)
       (\<lambda>m. Inr (getUTCDay (m + INDIA_OFFSET_MILLISECONDS) \<in> set days))"
| "runsOn (Dates dates) travelDate = Inr (travelDate \<in> set dates)"

record BookingWindow =
  win_closeMinutes :: int
  win_horizonDays :: int

datatype BookingWindowVerdict =
    OPEN
  | TOO_LATE string
  | TOO_FAR string

definition bookingWindowStatus :: "int \<Rightarrow> int \<Rightarrow> BookingWindow \<Rightarrow> BookingWindowVerdict" where
  "bookingWindowStatus departureAt now window =
     (let closesAt = departureAt - win_closeMinutes window * MINUTE_MILLISECONDS in
      if now > closesAt then TOO_LATE (istIsoInstant closesAt)
      else
        let horizonAt = now + win_horizonDays window * DAY_MILLISECONDS in
        if departureAt > horizonAt then TOO_FAR (istIsoInstant horizonAt)
        else OPEN)"

subsection \<open>The date of an instant\<close>

lemmas calendar_defs = INDIA_OFFSET_MILLISECONDS_def MINUTE_MILLISECONDS_def DAY_MILLISECONDS_def

lemma bookingWindow_open_iff:
  "bookingWindowStatus dep now w = OPEN \<longleftrightarrow>
     now \<le> dep - win_closeMinutes w * 60000 \<and> dep \<le> now + win_horizonDays w * 86400000"
  by (auto simp: bookingWindowStatus_def Let_def calendar_defs)

definition date_string :: "int \<Rightarrow> int \<Rightarrow> int \<Rightarrow> string" where
  "date_string y m d = isoYear y @ ''-'' @ pad2 (m + 1) @ ''-'' @ pad2 d"

lemma length_pad2: "0 \<le> n \<Longrightarrow> n < 100 \<Longrightarrow> length (pad2 n) = 2"
  using length_digits10_le [of "nat n" 2] by (simp add: pad2_def)

lemma length_isoYear: "0 \<le> y \<Longrightarrow> y \<le> 9999 \<Longrightarrow> length (isoYear y) = 4"
  using length_digits10_le [of "nat y" 4] by (simp add: isoYear_def)

lemma list_of_length_2: "length xs = 2 \<Longrightarrow> \<exists>a b. xs = [a, b]"
  by (cases xs; cases "tl xs"; cases "tl (tl xs)") auto

lemma list_of_length_4: "length xs = 4 \<Longrightarrow> \<exists>a b c d. xs = [a, b, c, d]"
  by (cases xs; cases "tl xs"; cases "tl (tl xs)"; cases "tl (tl (tl xs))";
      cases "tl (tl (tl (tl xs)))") auto

lemma calendar_date_string:
  assumes "0 \<le> y" "y \<le> 9999" "0 \<le> m" "m < 12" "1 \<le> d" "d \<le> 31"
  shows "calendar_date (date_string y m d) = Some (y, m + 1, d)"
proof -
  obtain a b c e where y: "isoYear y = [a, b, c, e]"
    using length_isoYear [OF assms(1,2)] list_of_length_4 by blast
  obtain f g where m: "pad2 (m + 1) = [f, g]"
    using length_pad2 [of "m + 1"] assms list_of_length_2 [of "pad2 (m + 1)"] by auto
  obtain h i where d: "pad2 d = [h, i]"
    using length_pad2 [of d] assms list_of_length_2 [of "pad2 d"] by auto
  have digits: "list_all is_digit [a, b, c, e]" "list_all is_digit [f, g]" "list_all is_digit [h, i]"
    unfolding y [symmetric] m [symmetric] d [symmetric]
    using assms(1,2) by (auto simp: isoYear_def pad2_def list_all_iff dest: padStart_digits)
  have vals: "digits_value [a, b, c, e] = nat y" "digits_value [f, g] = nat (m + 1)"
    "digits_value [h, i] = nat d"
    unfolding y [symmetric] m [symmetric] d [symmetric]
    using assms(1,2) by (simp_all add: isoYear_def pad2_def)
  show ?thesis using digits vals assms by (simp add: date_string_def y m d)
qed

lemma istCalendarDate_eq:
  assumes "0 \<le> getUTCFullYear (t + INDIA_OFFSET_MILLISECONDS)"
    and "getUTCFullYear (t + INDIA_OFFSET_MILLISECONDS) \<le> 9999"
  shows "istCalendarDate t = date_string (getUTCFullYear (t + INDIA_OFFSET_MILLISECONDS))
     (getUTCMonth (t + INDIA_OFFSET_MILLISECONDS)) (getUTCDate (t + INDIA_OFFSET_MILLISECONDS))"
proof -
  let ?s = "t + INDIA_OFFSET_MILLISECONDS"
  let ?l = "monthLength (leapYear (getUTCFullYear ?s)) (getUTCMonth ?s)"
  have l: "?l \<le> 31" using civil_ranges(1,2) [of ?s] by (rule monthLength_bounds(2))
  then have "length (date_string (getUTCFullYear ?s) (getUTCMonth ?s) (getUTCDate ?s)) = 10"
    using civil_ranges [of ?s] assms length_isoYear [OF assms] length_pad2 [of "getUTCMonth ?s + 1"]
      length_pad2 [of "getUTCDate ?s"] by (simp add: date_string_def)
  then have *: "take 10 (date_string (getUTCFullYear ?s) (getUTCMonth ?s) (getUTCDate ?s) @ z)
      = date_string (getUTCFullYear ?s) (getUTCMonth ?s) (getUTCDate ?s)" for z
    by simp
  show ?thesis
    using * unfolding istCalendarDate_def toISOString_def date_string_def Let_def append_assoc .
qed

text \<open>
  The calendar day of an instant, parsed again, is the IST midnight at or before the instant.
\<close>

lemma midnight_istCalendarDate:
  assumes y: "100 \<le> getUTCFullYear (t + INDIA_OFFSET_MILLISECONDS)"
    "getUTCFullYear (t + INDIA_OFFSET_MILLISECONDS) \<le> 9999"
  shows "\<exists>m. midnightMilliseconds (istCalendarDate t) = Inr m \<and> m \<le> t \<and> t < m + DAY_MILLISECONDS"
proof -
  let ?s = "t + INDIA_OFFSET_MILLISECONDS"
  have l: "monthLength (leapYear (getUTCFullYear ?s)) (getUTCMonth ?s) \<le> 31"
    using civil_ranges(1,2) [of ?s] by (rule monthLength_bounds(2))
  have "calendar_date (istCalendarDate t) = Some (getUTCFullYear ?s, getUTCMonth ?s + 1, getUTCDate ?s)"
    using y l civil_ranges [of ?s] by (simp add: istCalendarDate_eq calendar_date_string)
  moreover have "dateUTC (getUTCFullYear ?s) (getUTCMonth ?s) (getUTCDate ?s) \<le> ?s"
    "?s < dateUTC (getUTCFullYear ?s) (getUTCMonth ?s) (getUTCDate ?s) + msPerDay"
    using civil_inverse [of ?s] y by (simp_all add: dateUTC_def)
  ultimately show ?thesis
    by (simp add: midnightMilliseconds_def calendar_defs msPerDay_def)
qed

text \<open>
  And the IST day of a midnight is the date it came from, for a date that exists.
\<close>

lemma istCalendarDate_midnight:
  assumes "calendar_date s = Some (y, m, d)" "100 \<le> y" "1 \<le> m" "m \<le> 12"
    and "1 \<le> d" "d \<le> monthLength (leapYear y) (m - 1)"
    and "midnightMilliseconds s = Inr t" "0 \<le> k" "k < DAY_MILLISECONDS"
  shows "istCalendarDate (t + k) = date_string y (m - 1) d"
proof -
  have y: "y \<le> 9999"
    using assms(1)
  proof (induction s rule: calendar_date.induct)
    case (1 y1 y2 y3 y4 h1 m1 m2 h2 d1 d2)
    then have "y = int (digits_value [y1, y2, y3, y4])"
      "digit_val y1 \<le> 9" "digit_val y2 \<le> 9" "digit_val y3 \<le> 9" "digit_val y4 \<le> 9"
      by (auto simp: is_digit_def digit_val_def split: if_splits)
    then show ?case by (simp add: digits_value_def)
  qed simp_all
  have t: "t + k + INDIA_OFFSET_MILLISECONDS = makeDay y (m - 1) d * msPerDay + k"
    using assms by (simp add: midnightMilliseconds_def dateUTC_def)
  have k: "0 \<le> k" "k < msPerDay" using assms by (simp_all add: calendar_defs msPerDay_def)
  have m: "0 \<le> m - 1" "m - 1 < 12" using assms by simp_all
  note c = civil_roundtrip [OF m assms(5,6) k]
  show ?thesis
    using istCalendarDate_eq [of "t + k"] c assms(2) y by (simp add: t)
qed

subsection \<open>Properties\<close>

text \<open>
  A departure is sold exactly between the horizon and the close of booking: the verdict is open
  if and only if the departure is at least the closing minutes away and at most the horizon.
\<close>

theorem booking_window_open_exactly:
  "bookingWindowStatus departureAt now window = OPEN \<longleftrightarrow>
     now \<le> departureAt - win_closeMinutes window * 60000
     \<and> departureAt \<le> now + win_horizonDays window * 86400000"
  by (rule bookingWindow_open_iff)

text \<open>
  The calendar day of an instant, read back as a travel date, is the Indian midnight at or
  before the instant, for years 100 to 9999: dates and instants agree.
\<close>

theorem calendar_day_roundtrip:
  assumes "100 \<le> getUTCFullYear (t + INDIA_OFFSET_MILLISECONDS)"
    "getUTCFullYear (t + INDIA_OFFSET_MILLISECONDS) \<le> 9999"
  shows "\<exists>m. midnightMilliseconds (istCalendarDate t) = Inr m \<and> m \<le> t \<and> t < m + DAY_MILLISECONDS"
  by (rule midnight_istCalendarDate [OF assms])

theorem calendar_day_roundtrip_witness:
  "\<exists>m. midnightMilliseconds (istCalendarDate 1789000000000) = Inr m \<and> m \<le> 1789000000000
     \<and> 1789000000000 < m + DAY_MILLISECONDS"
proof (rule calendar_day_roundtrip)
  show "100 \<le> getUTCFullYear (1789000000000 + INDIA_OFFSET_MILLISECONDS)" by code_simp
  show "getUTCFullYear (1789000000000 + INDIA_OFFSET_MILLISECONDS) \<le> 9999" by code_simp
qed

end
