(* ===== verification/JS_Number.thy ===== *)
theory JS_Number
  imports Bpp_Prelude "HOL-Library.Log_Nat"
begin

text \<open>
  JavaScript numbers. Amounts, instants and counts are integral in the sources and are \<^typ>\<open>int\<close>
  here, but a few computations divide: \<open>paise / 100\<close>, \<open>(base * (100 - percent)) / 100\<close>,
  \<open>fraction * seats\<close>. Those results are IEEE 754 doubles, and this theory gives their exact
  value: a double is a \<^typ>\<open>rat\<close> and every arithmetic operation is followed by \<open>fl\<close>, rounding to
  53 significant bits, ties to even. The exponent is not bounded (no overflow to infinity, no
  subnormals): the magnitudes of this program stay between \<open>2 ^ -60\<close> and \<open>2 ^ 63\<close>.

  The main results are that \<open>fl\<close> is monotone and leaves every 53-bit value alone; from them
  the two integer idioms of the sources, \<open>Math.floor(n / 100)\<close> and
  \<open>Math.floor(n / 100 + 0.5)\<close>, are shown to be exact integer divisions in a stated range.
\<close>

subsection \<open>Safe integers\<close>

definition MAX_SAFE_INTEGER :: int where
  "MAX_SAFE_INTEGER = 9007199254740991"

definition isSafeInteger :: "int \<Rightarrow> bool" where
  "isSafeInteger n \<longleftrightarrow> - MAX_SAFE_INTEGER \<le> n \<and> n \<le> MAX_SAFE_INTEGER"

subsection \<open>Rounding to the nearest integer, ties to even\<close>

definition round_even :: "rat \<Rightarrow> int" where
  "round_even x =
     (let f = \<lfloor>x\<rfloor>; r = x - of_int f in
      if r < 1/2 then f
      else if 1/2 < r then f + 1
      else if even f then f else f + 1)"

lemma round_even_bounds: "\<lfloor>x\<rfloor> \<le> round_even x" "round_even x \<le> \<lfloor>x\<rfloor> + 1"
  by (auto simp: round_even_def Let_def)

lemma round_even_of_int [simp]: "round_even (of_int n) = n"
  by (simp add: round_even_def)

lemma round_even_mono: "x \<le> y \<Longrightarrow> round_even x \<le> round_even y"
proof -
  assume le: "x \<le> y"
  then have fle: "\<lfloor>x\<rfloor> \<le> \<lfloor>y\<rfloor>" by (rule floor_mono)
  show ?thesis
  proof (cases "\<lfloor>x\<rfloor> = \<lfloor>y\<rfloor>")
    case True
    then show ?thesis using le by (auto simp: round_even_def Let_def)
  next
    case False
    with fle have "\<lfloor>x\<rfloor> + 1 \<le> \<lfloor>y\<rfloor>" by simp
    then show ?thesis
      using round_even_bounds(2) [of x] round_even_bounds(1) [of y] by linarith
  qed
qed

lemma round_even_le_int: "x \<le> of_int n \<Longrightarrow> round_even x \<le> n"
  using round_even_mono [of x "of_int n"] by simp

lemma round_even_ge_int: "of_int n \<le> x \<Longrightarrow> n \<le> round_even x"
  using round_even_mono [of "of_int n" x] by simp

subsection \<open>The binary exponent of a positive rational\<close>

definition expo :: "rat \<Rightarrow> int" where
  "expo x =
     (let (a, b) = quotient_of x; d = bitlen a - bitlen b in
      if 2 powi d \<le> x then d else d - 1)"

lemma bitlen_bounds_rat:
  assumes "0 < a"
  shows "(2 :: rat) powi (bitlen a - 1) \<le> of_int a" "of_int a < (2 :: rat) powi bitlen a"
proof -
  have pos: "0 < bitlen a" using assms bitlen_eq_zero_iff [of a] bitlen_nonneg [of a] by linarith
  have b: "2 ^ nat (bitlen a - 1) \<le> a" "a < 2 ^ nat (bitlen a)"
    using bitlen_bounds [OF assms] by auto
  have "(2 :: rat) powi (bitlen a - 1) = of_int (2 ^ nat (bitlen a - 1))"
    using pos by (simp add: power_int_def)
  also have "\<dots> \<le> of_int a" using b(1) by (simp only: of_int_le_iff)
  finally show "(2 :: rat) powi (bitlen a - 1) \<le> of_int a" .
  have "(of_int a :: rat) < of_int (2 ^ nat (bitlen a))" using b(2) by (simp only: of_int_less_iff)
  also have "\<dots> = 2 powi bitlen a" using pos by (simp add: power_int_def)
  finally show "of_int a < (2 :: rat) powi bitlen a" .
qed

lemma expo_bounds:
  assumes "0 < x"
  shows "2 powi expo x \<le> x" "x < 2 powi (expo x + 1)"
proof -
  obtain a b where q: "quotient_of x = (a, b)" by (cases "quotient_of x")
  have b: "0 < b" using quotient_of_denom_pos [OF q] .
  have x: "x = of_int a / of_int b" by (rule quotient_of_div [OF q])
  have a: "0 < a" using assms b unfolding x by (simp add: zero_less_divide_iff)
  define d where "d = bitlen a - bitlen b"
  have up: "x < 2 powi (d + 1)"
  proof -
    have "of_int a < (2 powi (d + 1) * of_int b :: rat)"
    proof -
      have "(of_int a :: rat) < 2 powi bitlen a" using bitlen_bounds_rat(2) [OF a] .
      also have "\<dots> = 2 powi (d + 1) * 2 powi (bitlen b - 1)"
        by (simp add: d_def power_int_add [symmetric])
      also have "\<dots> \<le> 2 powi (d + 1) * of_int b"
        using bitlen_bounds_rat(1) [OF b] by (intro mult_left_mono) simp_all
      finally show ?thesis .
    qed
    then show ?thesis using b unfolding x by (simp add: divide_less_eq)
  qed
  have lo: "2 powi (d - 1) \<le> x"
  proof -
    have "2 powi (d - 1) * of_int b \<le> (of_int a :: rat)"
    proof -
      have "2 powi (d - 1) * of_int b \<le> (2 powi (d - 1) * 2 powi bitlen b :: rat)"
        using bitlen_bounds_rat(2) [OF b] by (intro mult_left_mono) simp_all
      also have "\<dots> = 2 powi (bitlen a - 1)"
        by (simp add: d_def power_int_add [symmetric])
      also have "\<dots> \<le> of_int a" using bitlen_bounds_rat(1) [OF a] .
      finally show ?thesis .
    qed
    then show ?thesis using b unfolding x by (simp add: le_divide_eq)
  qed
  have e: "expo x = (if 2 powi d \<le> x then d else d - 1)"
    by (simp add: expo_def q d_def)
  show "2 powi expo x \<le> x" using lo by (simp add: e)
  show "x < 2 powi (expo x + 1)" using up by (auto simp: e)
qed

lemma expo_mono: "0 < x \<Longrightarrow> x \<le> y \<Longrightarrow> expo x \<le> expo y"
proof (rule ccontr)
  assume x: "0 < x" and le: "x \<le> y" and "\<not> expo x \<le> expo y"
  then have "expo y + 1 \<le> expo x" by simp
  then have "(2 :: rat) powi (expo y + 1) \<le> 2 powi expo x"
    by (rule power_int_increasing) simp
  then show False
    using expo_bounds(1) [OF x] expo_bounds(2) [of y] x le by linarith
qed

lemma expo_unique: "2 powi e \<le> x \<Longrightarrow> x < 2 powi (e + 1) \<Longrightarrow> expo x = e"
proof -
  assume lo: "2 powi e \<le> x" and hi: "x < 2 powi (e + 1)"
  have x: "0 < x" by (rule less_le_trans [OF _ lo]) simp
  have "\<not> e + 1 \<le> expo x"
  proof
    assume "e + 1 \<le> expo x"
    then have "(2 :: rat) powi (e + 1) \<le> 2 powi expo x" by (rule power_int_increasing) simp
    then show False using expo_bounds(1) [OF x] hi by linarith
  qed
  moreover have "\<not> expo x + 1 \<le> e"
  proof
    assume "expo x + 1 \<le> e"
    then have "(2 :: rat) powi (expo x + 1) \<le> 2 powi e" by (rule power_int_increasing) simp
    then show False using expo_bounds(2) [OF x] lo by linarith
  qed
  ultimately show ?thesis by simp
qed

subsection \<open>Rounding to double precision\<close>

definition fl_pos :: "rat \<Rightarrow> rat" where
  "fl_pos x = of_int (round_even (x * 2 powi (52 - expo x))) * 2 powi (expo x - 52)"

definition fl :: "rat \<Rightarrow> rat" where
  "fl x = (if x = 0 then 0 else if 0 < x then fl_pos x else - fl_pos (- x))"

lemma scaled_bounds:
  assumes "0 < x"
  shows "2 ^ 52 \<le> x * 2 powi (52 - expo x)" "x * 2 powi (52 - expo x) \<le> 2 ^ 53"
proof -
  have s: "(0 :: rat) \<le> 2 powi (52 - expo x)" by simp
  have "(2 :: rat) powi expo x * 2 powi (52 - expo x) \<le> x * 2 powi (52 - expo x)"
    by (rule mult_right_mono [OF expo_bounds(1) [OF assms] s])
  then show "2 ^ 52 \<le> x * 2 powi (52 - expo x)"
    by (simp add: power_int_add [symmetric])
  have "x * 2 powi (52 - expo x) \<le> 2 powi (expo x + 1) * 2 powi (52 - expo x)"
    using expo_bounds(2) [OF assms] s by (intro mult_right_mono) simp_all
  then show "x * 2 powi (52 - expo x) \<le> 2 ^ 53"
    by (simp add: power_int_add [symmetric])
qed

lemma fl_pos_bounds:
  assumes "0 < x"
  shows "2 powi expo x \<le> fl_pos x" "fl_pos x \<le> 2 powi (expo x + 1)"
proof -
  let ?m = "round_even (x * 2 powi (52 - expo x))"
  have m: "2 ^ 52 \<le> ?m" "?m \<le> 2 ^ 53"
    using scaled_bounds [OF assms] by (auto intro!: round_even_ge_int round_even_le_int)
  have s: "(0 :: rat) \<le> 2 powi (expo x - 52)" by simp
  have "(of_int (2 ^ 52) :: rat) \<le> of_int ?m" using m(1) by (simp only: of_int_le_iff)
  then have "(2 ^ 52 :: rat) * 2 powi (expo x - 52) \<le> of_int ?m * 2 powi (expo x - 52)"
    using s by (intro mult_right_mono) simp_all
  moreover have "(2 ^ 52 :: rat) * 2 powi (expo x - 52) = 2 powi expo x"
    using power_int_add [of "2 :: rat" 52 "expo x - 52"] by simp
  ultimately show "2 powi expo x \<le> fl_pos x" by (simp only: fl_pos_def)
  have "(of_int ?m :: rat) \<le> of_int (2 ^ 53)" using m(2) by (simp only: of_int_le_iff)
  then have "of_int ?m * 2 powi (expo x - 52) \<le> (2 ^ 53 :: rat) * 2 powi (expo x - 52)"
    using s by (intro mult_right_mono) simp_all
  moreover have "(2 ^ 53 :: rat) * 2 powi (expo x - 52) = 2 powi (expo x + 1)"
    using power_int_add [of "2 :: rat" 53 "expo x - 52"] by (simp add: add.commute)
  ultimately show "fl_pos x \<le> 2 powi (expo x + 1)" by (simp only: fl_pos_def)
qed

lemma fl_pos_pos: "0 < x \<Longrightarrow> 0 < fl_pos x"
  by (rule less_le_trans [OF _ fl_pos_bounds(1)]) simp_all

lemma fl_pos_mono:
  assumes "0 < x" "x \<le> y"
  shows "fl_pos x \<le> fl_pos y"
proof (cases "expo x = expo y")
  case True
  have "round_even (x * 2 powi (52 - expo y)) \<le> round_even (y * 2 powi (52 - expo y))"
    using assms(2) by (intro round_even_mono mult_right_mono) simp_all
  then show ?thesis
    unfolding fl_pos_def True by (intro mult_right_mono) simp_all
next
  case False
  with expo_mono [OF assms] have "expo x + 1 \<le> expo y" by simp
  then have "(2 :: rat) powi (expo x + 1) \<le> 2 powi expo y" by (rule power_int_increasing) simp
  moreover have "0 < y" using assms by simp
  ultimately show ?thesis
    using fl_pos_bounds(2) [OF assms(1)] fl_pos_bounds(1) [of y] by linarith
qed

lemma fl_minus [simp]: "fl (- x) = - fl x"
  by (auto simp: fl_def)

lemma fl_0 [simp]: "fl 0 = 0"
  by (simp add: fl_def)

theorem fl_mono: "x \<le> y \<Longrightarrow> fl x \<le> fl y"
  using fl_pos_mono [of x y] fl_pos_mono [of "- y" "- x"] fl_pos_pos [of y] fl_pos_pos [of "- x"]
    fl_pos_pos [of x] fl_pos_pos [of "- y"]
  by (auto simp: fl_def)

text \<open>Every integer multiple of a power of two with at most 53 significant bits is a double.\<close>

lemma fl_pos_representable:
  assumes m: "0 < m" "m \<le> 2 ^ 53"
  shows "fl_pos (of_int m * 2 powi e) = of_int m * 2 powi e"
proof -
  let ?x = "of_int m * 2 powi e :: rat"
  have x: "0 < ?x" using m(1) by simp
  have "?x \<le> 2 powi (53 + e)"
  proof -
    have "(of_int m :: rat) \<le> of_int (2 ^ 53)" using m(2) by (simp only: of_int_le_iff)
    then have "?x \<le> 2 ^ 53 * 2 powi e" by (intro mult_right_mono) simp_all
    also have "(2 ^ 53 :: rat) * 2 powi e = 2 powi (53 + e)"
      by (subst power_int_add) simp_all
    finally show ?thesis .
  qed
  then have "(2 :: rat) powi expo ?x \<le> 2 powi (53 + e)"
    using expo_bounds(1) [OF x] by linarith
  then have le: "expo ?x \<le> 53 + e"
    by (metis power_int_strict_increasing not_le one_less_numeral_iff semiring_norm(76))
  show ?thesis
  proof (cases "expo ?x = 53 + e")
    case True
    then have "?x = 2 powi (53 + e)"
      using expo_bounds(1) [OF x] \<open>?x \<le> 2 powi (53 + e)\<close> by simp
    have "(2 :: rat) powi (53 + e) * 2 powi (52 - (53 + e)) = 2 powi 52"
      by (subst power_int_add [symmetric]) simp_all
    with \<open>?x = 2 powi (53 + e)\<close> True have "?x * 2 powi (52 - expo ?x) = of_int (2 ^ 52)"
      by (simp only:) simp
    then have "fl_pos ?x = of_int (2 ^ 52) * 2 powi (expo ?x - 52)"
      by (simp only: fl_pos_def round_even_of_int)
    also have "\<dots> = 2 powi (53 + e)"
      using power_int_add [of "2 :: rat" 52 "1 + e"] by (simp add: True)
    finally show ?thesis using \<open>?x = 2 powi (53 + e)\<close> by simp
  next
    case False
    define k where "k = nat (52 + e - expo ?x)"
    have k: "int k = 52 + e - expo ?x" using le False by (simp add: k_def)
    have "(2 :: rat) powi e * 2 powi (52 - expo ?x) = 2 powi (e + (52 - expo ?x))"
      by (subst power_int_add) simp_all
    also have "e + (52 - expo ?x) = int k" by (simp add: k)
    finally have "?x * 2 powi (52 - expo ?x) = of_int m * 2 powi int k"
      by (simp only: mult.assoc)
    also have "\<dots> = of_int (m * 2 ^ k)" by simp
    finally have "fl_pos ?x = of_int (m * 2 ^ k) * 2 powi (expo ?x - 52)"
      by (simp only: fl_pos_def round_even_of_int)
    also have "\<dots> = of_int m * (2 powi int k * 2 powi (expo ?x - 52))" by simp
    also have "2 powi int k * 2 powi (expo ?x - 52) = (2 :: rat) powi e"
      by (subst power_int_add [symmetric]) (simp_all add: k)
    finally show ?thesis .
  qed
qed

theorem fl_representable:
  assumes "\<bar>m\<bar> \<le> 2 ^ 53"
  shows "fl (of_int m * 2 powi e) = of_int m * 2 powi e"
proof -
  consider "m = 0" | "0 < m" | "m < 0" by linarith
  then show ?thesis
  proof cases
    case 1
    then show ?thesis by simp
  next
    case 2
    then show ?thesis using fl_pos_representable [of m e] assms by (simp add: fl_def)
  next
    case 3
    then have "0 < (of_int (- m) * 2 powi e :: rat)" by (intro mult_pos_pos) simp_all
    with 3 have "fl (of_int (- m) * 2 powi e) = of_int (- m) * 2 powi e"
      using fl_pos_representable [of "- m" e] assms unfolding fl_def by simp
    then show ?thesis using fl_minus [of "of_int m * 2 powi e"] by simp
  qed
qed

lemma fl_of_int: "\<bar>m\<bar> \<le> 2 ^ 53 \<Longrightarrow> fl (of_int m) = of_int m"
  using fl_representable [of m 0] by simp

lemma fl_of_int_128th: "\<bar>m\<bar> \<le> 2 ^ 53 \<Longrightarrow> fl (of_int m / 128) = of_int m / 128"
  using fl_representable [of m "-7"] by (simp add: power_int_def field_simps)

subsection \<open>Division of whole numbers by one hundred\<close>

text \<open>\<open>n / 100\<close> as a double, and the two idioms that turn it back into an integer.\<close>

definition div100 :: "int \<Rightarrow> rat" where
  "div100 n = fl (of_int n / 100)"

definition floor_div100 :: "int \<Rightarrow> int" where
  "floor_div100 n = \<lfloor>div100 n\<rfloor>"

definition half_up_div100 :: "int \<Rightarrow> int" where
  "half_up_div100 n = \<lfloor>fl (div100 n + 1/2)\<rfloor>"

lemma div100_bounds:
  assumes "0 \<le> n" "n < 100 * 2 ^ 46"
  defines "q \<equiv> n div 100"
  shows "of_int q \<le> div100 n"
    and "n mod 100 < 50 \<Longrightarrow> div100 n \<le> of_int q + 63/128"
    and "50 \<le> n mod 100 \<Longrightarrow> of_int q + 1/2 \<le> div100 n"
    and "div100 n \<le> of_int q + 127/128"
proof -
  have q: "0 \<le> q" "q < 2 ^ 46" using assms by auto
  have n: "n = 100 * q + n mod 100" by (simp add: q_def)
  have r: "0 \<le> n mod 100" "n mod 100 < 100" by simp_all
  have x: "(of_int n / 100 :: rat) = of_int q + of_int (n mod 100) / 100"
    by (subst n) (simp add: field_simps)
  have rep: "fl (of_int q + of_int j / 128) = of_int q + of_int j / 128"
    if "0 \<le> j" "j \<le> 128" for j :: int
  proof -
    have "\<bar>128 * q + j\<bar> \<le> 2 ^ 53" using q that by simp
    from fl_of_int_128th [OF this] show ?thesis by (simp add: field_simps)
  qed
  have le: "(of_int a :: rat) \<le> of_int b" if "a \<le> b" for a b :: int
    using that by (simp only: of_int_le_iff)
  have r0: "(0 :: rat) \<le> of_int (n mod 100)" and r99: "(of_int (n mod 100) :: rat) \<le> 99"
    using le [of 0 "n mod 100"] le [of "n mod 100" 99] r by simp_all
  show "of_int q \<le> div100 n"
    using fl_mono [of "of_int q" "of_int n / 100"] rep [of 0] r0 by (simp add: div100_def x)
  show "div100 n \<le> of_int q + 127/128"
    using fl_mono [of "of_int n / 100" "of_int q + 127/128"] rep [of 127] r99
    by (simp add: div100_def x)
  show "div100 n \<le> of_int q + 63/128" if "n mod 100 < 50"
  proof -
    have "(of_int (n mod 100) :: rat) \<le> 49" using le [of "n mod 100" 49] that by simp
    then show ?thesis
      using fl_mono [of "of_int n / 100" "of_int q + 63/128"] rep [of 63] by (simp add: div100_def x)
  qed
  show "of_int q + 1/2 \<le> div100 n" if "50 \<le> n mod 100"
  proof -
    have "(50 :: rat) \<le> of_int (n mod 100)" using le [of 50 "n mod 100"] that by simp
    then show ?thesis
      using fl_mono [of "of_int q + 1/2" "of_int n / 100"] rep [of 64] by (simp add: div100_def x)
  qed
qed

theorem floor_div100_exact:
  assumes "0 \<le> n" "n < 100 * 2 ^ 46"
  shows "floor_div100 n = n div 100"
  unfolding floor_div100_def
  using div100_bounds(1,4) [OF assms] by (intro floor_unique) auto

lemma half_up_div: "(n + 50) div 100 = n div 100 + (if n mod 100 < 50 then 0 else 1)" for n :: int
proof -
  have n: "n = 100 * (n div 100) + n mod 100" by simp
  have r: "0 \<le> n mod 100" "n mod 100 < 100" by simp_all
  show ?thesis
  proof (cases "n mod 100 < 50")
    case True
    have "n + 50 = 100 * (n div 100) + (n mod 100 + 50)" using n by linarith
    then have "(n + 50) div 100 = n div 100"
      by (rule int_div_pos_eq) (use r True in linarith)+
    with True show ?thesis by simp
  next
    case False
    have "n + 50 = 100 * (n div 100 + 1) + (n mod 100 - 50)"
      using n unfolding distrib_left by linarith
    then have "(n + 50) div 100 = n div 100 + 1"
      by (rule int_div_pos_eq) (use r False in linarith)+
    with False show ?thesis by simp
  qed
qed

theorem half_up_div100_exact:
  assumes "0 \<le> n" "n < 100 * 2 ^ 46"
  shows "half_up_div100 n = (n + 50) div 100"
proof -
  define q where "q = n div 100"
  have q: "0 \<le> q" "q < 2 ^ 46" using assms by (auto simp: q_def)
  have rep: "fl (of_int q + of_int j / 128) = of_int q + of_int j / 128"
    if "0 \<le> j" "j \<le> 128" for j :: int
  proof -
    have "\<bar>128 * q + j\<bar> \<le> 2 ^ 53" using q that by simp
    from fl_of_int_128th [OF this] show ?thesis by (simp add: field_simps)
  qed
  have rep2: "fl (of_int q + 127/64) = of_int q + 127/64"
    using fl_representable [of "64 * q + 127" "-6"] q by (simp add: power_int_def field_simps)
  show ?thesis
  proof (cases "n mod 100 < 50")
    case True
    have "of_int q \<le> fl (div100 n + 1/2)"
      using fl_mono [of "of_int q" "div100 n + 1/2"] rep [of 0] div100_bounds(1) [OF assms]
      by (simp add: q_def)
    moreover have "fl (div100 n + 1/2) \<le> of_int q + 127/128"
      using fl_mono [of "div100 n + 1/2" "of_int q + 127/128"] rep [of 127]
        div100_bounds(2) [OF assms True] by (simp add: q_def)
    ultimately have "half_up_div100 n = q"
      unfolding half_up_div100_def by (intro floor_unique) auto
    moreover have "(n + 50) div 100 = q"
      using True half_up_div [of n] by (simp add: q_def)
    ultimately show ?thesis by simp
  next
    case False
    then have ge: "50 \<le> n mod 100" by simp
    have "of_int q + 1 \<le> fl (div100 n + 1/2)"
      using fl_mono [of "of_int q + 1" "div100 n + 1/2"] rep [of 128] div100_bounds(3) [OF assms ge]
      by (simp add: q_def)
    moreover have "fl (div100 n + 1/2) \<le> of_int q + 127/64"
      using fl_mono [of "div100 n + 1/2" "of_int q + 127/64"] rep2
        div100_bounds(4) [OF assms] by (simp add: q_def)
    ultimately have "half_up_div100 n = q + 1"
      unfolding half_up_div100_def by (intro floor_unique) auto
    moreover have "(n + 50) div 100 = q + 1"
      using ge half_up_div [of n] by (simp add: q_def)
    ultimately show ?thesis by simp
  qed
qed

subsection \<open>\<open>Number(s)\<close>\<close>

text \<open>
  The string numeric literals of the language: white space around, the empty string is 0, a
  prefix \<open>0x\<close>, \<open>0o\<close> or \<open>0b\<close> for the other bases, otherwise a signed decimal with a fraction and
  an exponent. \<open>None\<close> stands for \<open>NaN\<close> and the infinities.
\<close>

definition hex_val :: "char \<Rightarrow> nat option" where
  "hex_val c =
     (if is_digit c then Some (digit_val c)
      else let u = (of_char (upper_char c) :: nat) in
           if 65 \<le> u \<and> u \<le> 70 then Some (u - 55) else None)"

fun radix_value :: "nat \<Rightarrow> nat \<Rightarrow> string \<Rightarrow> nat option" where
  "radix_value b a [] = Some a"
| "radix_value b a (c # cs) =
     (case hex_val c of
        None \<Rightarrow> None
      | Some v \<Rightarrow> if v < b then radix_value b (b * a + v) cs else None)"

definition exponent_value :: "string \<Rightarrow> int option" where
  "exponent_value s =
     (case s of
        [] \<Rightarrow> Some 0
      | e # r \<Rightarrow>
          if e = CHR ''e'' \<or> e = CHR ''E'' then
            let neg = (take 1 r = ''-''); d = (if take 1 r = ''-'' \<or> take 1 r = ''+'' then drop 1 r else r) in
            if d \<noteq> [] \<and> list_all is_digit d
            then Some ((if neg then -1 else 1) * int (digits_value d)) else None
          else None)"

definition decimal_value :: "string \<Rightarrow> rat option" where
  "decimal_value s =
     (let neg = (take 1 s = ''-'');
          r = (if take 1 s = ''-'' \<or> take 1 s = ''+'' then drop 1 s else s);
          whole = takeWhile is_digit r;
          r1 = dropWhile is_digit r;
          frac = (if take 1 r1 = ''.'' then takeWhile is_digit (drop 1 r1) else []);
          r2 = (if take 1 r1 = ''.'' then dropWhile is_digit (drop 1 r1) else r1)
      in if whole @ frac = [] then None
         else map_option (\<lambda>e. fl ((if neg then -1 else 1) * of_nat (digits_value (whole @ frac))
                               * 10 powi (e - int (length frac)))) (exponent_value r2))"

definition Number :: "string \<Rightarrow> rat option" where
  "Number s =
     (let t = trim s; radix = (\<lambda>b. if length t \<le> 2 then None
                                   else map_option (\<lambda>n. fl (of_nat n)) (radix_value b 0 (drop 2 t)))
      in if t = [] then Some 0
         else if take 2 t \<in> {''0x'', ''0X''} then radix 16
         else if take 2 t \<in> {''0o'', ''0O''} then radix 8
         else if take 2 t \<in> {''0b'', ''0B''} then radix 2
         else decimal_value t)"

definition isInteger :: "rat \<Rightarrow> bool" where
  "isInteger x \<longleftrightarrow> x = of_int \<lfloor>x\<rfloor>"

lemma digit_not_space: "is_digit c \<Longrightarrow> \<not> is_space c"
  by (auto simp: is_digit_def is_space_def)

lemma trim_digits:
  assumes "list_all is_digit s"
  shows "trim s = s"
proof -
  have no: "\<forall>c \<in> set s. \<not> is_space c"
    using assms by (auto simp: list_all_iff dest: digit_not_space)
  have "dropWhile is_space s = s"
    using no by (cases s) auto
  moreover have "dropWhile is_space (rev s) = rev s"
    using no by (metis dropWhile_eq_self_iff hd_in_set set_rev)
  ultimately show ?thesis by (simp add: trim_def)
qed

lemma Number_digits10:
  assumes "n \<le> 2 ^ 53"
  shows "Number (digits10 n) = Some (of_nat n)"
proof -
  let ?s = "digits10 n"
  have d: "list_all is_digit ?s" by (auto simp: list_all_iff dest: digits10_digits)
  have t: "trim ?s = ?s" by (rule trim_digits [OF d])
  have tw: "takeWhile is_digit ?s = ?s" "dropWhile is_digit ?s = []"
    using d by (simp_all add: list_all_iff)
  have ne: "?s \<noteq> []" by simp
  obtain c cs where s: "?s = c # cs" using ne by (meson neq_Nil_conv)
  have c: "is_digit c" using d unfolding s by simp
  have sgn: "take 1 ?s \<noteq> ''-''" "take 1 ?s \<noteq> ''+''"
    unfolding s using c by (auto simp: is_digit_def)
  have pre: "take 2 ?s \<notin> {''0x'', ''0X'', ''0o'', ''0O'', ''0b'', ''0B''}"
  proof
    assume "take 2 ?s \<in> {''0x'', ''0X'', ''0o'', ''0O'', ''0b'', ''0B''}"
    then have "\<exists>c \<in> set (take 2 ?s). \<not> is_digit c" by (auto simp: is_digit_def)
    then show False using d by (auto simp: list_all_iff dest: in_set_takeD)
  qed
  have f: "fl (of_nat n) = of_nat n"
    using fl_of_int [of "int n"] assms by simp
  have "decimal_value ?s = Some (of_nat n)"
    using sgn ne f by (simp add: decimal_value_def tw exponent_value_def)
  then show ?thesis using pre ne by (simp add: Number_def t)
qed

end
