(* ===== verification/Reserved_Money.thy ===== *)
theory Reserved_Money
  imports JS_Number Reserved_Types
begin

text \<open>
  Money on the reserved path: paise on the wire (\<open>src/src/reserved/money.ts\<close>), the cancellation
  slabs and their arithmetic (\<open>refund.ts\<close>), the concessions (\<open>concession.ts\<close>). Divisions are the
  double-precision ones of \<open>JS_Number\<close>; the lemmas show which integer they compute.
\<close>

named_theorems money_simps \<open>integer values of the money arithmetic\<close>

subsection \<open>Paise as rupees\<close>

definition paiseToRupees :: "int \<Rightarrow> failure + string" where
  "paiseToRupees paise =
     (if \<not> isSafeInteger paise \<or> paise < 0 then Inl PlainError
      else
        let rupees = floor_div100 paise; remainder = paise mod 100 in
        Inr (if remainder = 0 then string_of_int rupees
             else string_of_int rupees @ ''.'' @ padStart 2 (CHR ''0'') (string_of_int remainder)))"

definition signedPaiseToRupees :: "int \<Rightarrow> failure + string" where
  "signedPaiseToRupees paise =
     (if paise < 0 then andThen (paiseToRupees (- paise)) (\<lambda>s. Inr (''-'' @ s))
      else paiseToRupees paise)"

subsection \<open>Slabs\<close>

datatype SlabCode = OVER_72H | H72_TO_24H | H24_TO_2H | UNDER_2H

fun slab_code_wire :: "SlabCode \<Rightarrow> string" where
  "slab_code_wire OVER_72H = ''OVER_72H''"
| "slab_code_wire H72_TO_24H = ''72H_TO_24H''"
| "slab_code_wire H24_TO_2H = ''24H_TO_2H''"
| "slab_code_wire UNDER_2H = ''UNDER_2H''"

record Slab =
  slab_code :: SlabCode
  slab_deductionPercent :: int

definition HOUR_MILLISECONDS :: int where
  "HOUR_MILLISECONDS = 60 * 60 * 1000"

definition slabFor :: "int \<Rightarrow> int \<Rightarrow> Slab" where
  "slabFor departureAtMs nowMs =
     (let remaining = departureAtMs - nowMs in
      if remaining > 72 * HOUR_MILLISECONDS then \<lparr>slab_code = OVER_72H, slab_deductionPercent = 10\<rparr>
      else if remaining > 24 * HOUR_MILLISECONDS then \<lparr>slab_code = H72_TO_24H, slab_deductionPercent = 25\<rparr>
      else if remaining > 2 * HOUR_MILLISECONDS then \<lparr>slab_code = H24_TO_2H, slab_deductionPercent = 50\<rparr>
      else \<lparr>slab_code = UNDER_2H, slab_deductionPercent = 100\<rparr>)"

text \<open>\<open>Math.floor(value + 0.5)\<close> on a double.\<close>

definition roundHalfUp :: "rat \<Rightarrow> int" where
  "roundHalfUp value = \<lfloor>fl (value + 1/2)\<rfloor>"

record RefundableSeat =
  rs_seatId :: string
  rs_basePaise :: int
  rs_reservationFeePaise :: int
  rs_tollPaise :: int

record RefundComputation =
  rc_slab :: Slab
  rc_basePaise :: int
  rc_slabDeductionPaise :: int
  rc_reservationFeeRefundPaise :: int
  rc_reservationFeePaise :: int
  rc_tollRefundPaise :: int
  rc_refundPaise :: int
  rc_perSeatPaise :: "string \<rightharpoonup> int"

text \<open>What a seat keeps of its base fare, \<open>roundHalfUp((base * (100 - percent)) / 100)\<close>.\<close>

definition keptPaise :: "int \<Rightarrow> int \<Rightarrow> int" where
  "keptPaise basePaise deductionPercent =
     roundHalfUp (div100 (basePaise * (100 - deductionPercent)))"

definition computeRefund :: "RefundableSeat list \<Rightarrow> int \<Rightarrow> int \<Rightarrow> RefundComputation" where
  "computeRefund seats departureAtMs nowMs =
     (let slab = slabFor departureAtMs nowMs;
          kept = (\<lambda>seat. keptPaise (rs_basePaise seat) (slab_deductionPercent slab));
          basePaise = foldl (\<lambda>s seat. s + rs_basePaise seat) 0 seats;
          slabDeductionPaise = foldl (\<lambda>s seat. s + (rs_basePaise seat - kept seat)) 0 seats;
          tollRefundPaise = foldl (\<lambda>s seat. s + rs_tollPaise seat) 0 seats;
          reservationFeePaise = foldl (\<lambda>s seat. s + rs_reservationFeePaise seat) 0 seats;
          perSeatPaise = foldl (\<lambda>m seat. m(rs_seatId seat \<mapsto> kept seat + rs_tollPaise seat)) Map.empty seats
      in \<lparr>rc_slab = slab, rc_basePaise = basePaise, rc_slabDeductionPaise = slabDeductionPaise,
          rc_reservationFeeRefundPaise = 0, rc_reservationFeePaise = reservationFeePaise,
          rc_tollRefundPaise = tollRefundPaise,
          rc_refundPaise = basePaise - slabDeductionPaise + tollRefundPaise,
          rc_perSeatPaise = perSeatPaise\<rparr>)"

definition retainedPaise :: "RefundableSeat list \<Rightarrow> int \<Rightarrow> int" where
  "retainedPaise seats deductionPercent =
     foldl (\<lambda>sum seat. sum + (rs_basePaise seat - keptPaise (rs_basePaise seat) deductionPercent)
                        + rs_reservationFeePaise seat) 0 seats"

subsection \<open>Concessions\<close>

definition SENIOR_PERCENT_BY_CLASS :: "ServiceClass \<Rightarrow> int option" where
  "SENIOR_PERCENT_BY_CLASS cls =
     (if cls = ''RAJAHAMSA_EXECUTIVE'' then Some 25
      else if cls = ''ASHWAMEDHA'' then Some 25 else None)"

definition concessionLabel :: "string \<Rightarrow> string" where
  "concessionLabel claim =
     (if claim = ''SENIOR'' then ''Senior citizen'' else if claim = ''CHILD'' then ''Child''
      else if claim = ''STUDENT'' then ''Student''
      else if claim = ''SHAKTI'' then ''Free-travel scheme'' else claim)"

text \<open>
  The \<open>CONCESSION\<close> group of an order. A tag of an order is a JSON object; \<open>tags?.find\<close> takes the
  first group with that code and then the first \<open>CLASS\<close> entry of its list.
\<close>

definition concessionFromOrderTags :: "json list option \<Rightarrow> string option" where
  "concessionFromOrderTags tags =
     (case tags of
        None \<Rightarrow> None
      | Some ts \<Rightarrow>
          (case List.find (\<lambda>t. tag_code t = Some (JStr ''CONCESSION'')) ts of
             None \<Rightarrow> None
           | Some grp \<Rightarrow>
               (case field grp ''list'' of
                  Some (JArr entries) \<Rightarrow>
                    (case List.find (\<lambda>e. tag_code e = Some (JStr ''CLASS'')) entries of
                       Some e \<Rightarrow> (case field e ''value'' of Some (JStr v) \<Rightarrow> Some v | _ \<Rightarrow> None)
                     | None \<Rightarrow> None)
                | _ \<Rightarrow> None)))"

definition concessionRatePercent :: "string \<Rightarrow> ServiceClass \<Rightarrow> failure + int" where
  "concessionRatePercent claim serviceClass =
     (if claim = ''SENIOR'' then
        (case SENIOR_PERCENT_BY_CLASS serviceClass of
           None \<Rightarrow> refuse CONCESSION_RATE_NOT_PUBLISHED
         | Some percent \<Rightarrow> Inr percent)
      else if claim = ''SHAKTI'' then
        (if serviceClass = ''ASHWAMEDHA'' then Inr 100 else refuse CONCESSION_NOT_APPLICABLE)
      else if claim = ''CHILD'' then refuse CONCESSION_RATE_NOT_PUBLISHED
      else if claim = ''STUDENT'' then refuse CONCESSION_RATE_NOT_PUBLISHED
      else refuse CONCESSION_NOT_APPLICABLE)"

definition concessionDiscountPaise :: "int \<Rightarrow> int \<Rightarrow> int" where
  "concessionDiscountPaise basePaise percent = \<lfloor>fl (div100 (basePaise * percent) + 1/2)\<rfloor>"

subsection \<open>The integers the divisions compute\<close>

text \<open>Fares up to \<open>2 ^ 46\<close> paise, some seven hundred thousand million rupees.\<close>

definition fare_ok :: "int \<Rightarrow> bool" where
  "fare_ok p \<longleftrightarrow> 0 \<le> p \<and> p < 2 ^ 46"

lemma percent_range:
  assumes "fare_ok b" "0 \<le> p" "p \<le> (100 :: int)"
  shows "0 \<le> b * p" "b * p < 100 * 2 ^ 46"
proof -
  show "0 \<le> b * p" using assms by (simp add: fare_ok_def)
  have "b * p \<le> b * 100" using assms by (intro mult_left_mono) (auto simp: fare_ok_def)
  then show "b * p < 100 * 2 ^ 46" using assms by (simp add: fare_ok_def)
qed

lemma keptPaise_exact [money_simps]:
  assumes "fare_ok b" "0 \<le> p" "p \<le> 100"
  shows "keptPaise b p = (b * (100 - p) + 50) div 100"
  using half_up_div100_exact [OF percent_range [of b "100 - p"]] assms
  by (simp add: keptPaise_def roundHalfUp_def half_up_div100_def)

lemma concessionDiscountPaise_exact [money_simps]:
  assumes "fare_ok b" "0 \<le> p" "p \<le> 100"
  shows "concessionDiscountPaise b p = (b * p + 50) div 100"
  using half_up_div100_exact [OF percent_range [OF assms]]
  by (simp add: concessionDiscountPaise_def half_up_div100_def)

lemma half_up_percent_bounds:
  fixes b p :: int
  assumes "0 \<le> b" "0 \<le> p" "p \<le> 100"
  shows "0 \<le> (b * p + 50) div 100" "(b * p + 50) div 100 \<le> b"
proof -
  have "0 \<le> b * p" using assms by simp
  then show "0 \<le> (b * p + 50) div 100" by simp
  have "b * p \<le> b * 100" using assms by (intro mult_left_mono) auto
  then have "b * p + 50 < (b + 1) * 100" by (simp add: distrib_right)
  then have "(b * p + 50) div 100 < b + 1" by (simp add: div_less_iff_less_mult)
  then show "(b * p + 50) div 100 \<le> b" by simp
qed

lemma half_up_percent_mono:
  fixes b p q :: int
  assumes "0 \<le> b" "p \<le> q"
  shows "(b * p + 50) div 100 \<le> (b * q + 50) div 100"
  using assms by (intro zdiv_mono1 add_right_mono mult_left_mono) auto

lemma keptPaise_bounds:
  assumes "fare_ok b" "0 \<le> p" "p \<le> 100"
  shows "0 \<le> keptPaise b p" "keptPaise b p \<le> b"
  using half_up_percent_bounds [of b "100 - p"] assms
  by (simp_all add: keptPaise_exact) (simp_all add: fare_ok_def)

lemma slab_percent: "slab_deductionPercent (slabFor d n) \<in> {10, 25, 50, 100}"
  by (auto simp: slabFor_def Let_def)

lemma slab_percent_range:
  "0 \<le> slab_deductionPercent (slabFor d n)" "slab_deductionPercent (slabFor d n) \<le> 100"
  using slab_percent [of d n] by auto

lemma slab_percent_mono:
  "n \<le> n' \<Longrightarrow> slab_deductionPercent (slabFor d n) \<le> slab_deductionPercent (slabFor d n')"
  by (auto simp: slabFor_def Let_def HOUR_MILLISECONDS_def)

lemma slab_code_percent:
  "slab_code (slabFor d n) = slab_code (slabFor d' n') \<longleftrightarrow>
   slab_deductionPercent (slabFor d n) = slab_deductionPercent (slabFor d' n')"
  by (auto simp: slabFor_def Let_def)

lemma computeRefund_sums:
  fixes seats d n
  defines "p \<equiv> slab_deductionPercent (slabFor d n)"
  shows "rc_slab (computeRefund seats d n) = slabFor d n"
    and "rc_basePaise (computeRefund seats d n) = sum_list (map rs_basePaise seats)"
    and "rc_slabDeductionPaise (computeRefund seats d n)
           = sum_list (map (\<lambda>s. rs_basePaise s - keptPaise (rs_basePaise s) p) seats)"
    and "rc_tollRefundPaise (computeRefund seats d n) = sum_list (map rs_tollPaise seats)"
    and "rc_reservationFeePaise (computeRefund seats d n) = sum_list (map rs_reservationFeePaise seats)"
    and "rc_refundPaise (computeRefund seats d n)
           = sum_list (map (\<lambda>s. keptPaise (rs_basePaise s) p + rs_tollPaise s) seats)"
  by (simp_all add: computeRefund_def Let_def p_def foldl_acc_sum sum_list_map_minus sum_list_map_plus)

lemma retainedPaise_sum:
  "retainedPaise seats p =
     sum_list (map (\<lambda>s. rs_basePaise s - keptPaise (rs_basePaise s) p + rs_reservationFeePaise s) seats)"
proof -
  have "retainedPaise seats p = foldl (\<lambda>sum s. sum + (rs_basePaise s - keptPaise (rs_basePaise s) p
      + rs_reservationFeePaise s)) 0 seats"
    by (simp add: retainedPaise_def add.assoc)
  then show ?thesis by (simp only: foldl_acc_sum add_0)
qed

lemma perSeat_foldl:
  assumes "distinct (map rs_seatId seats)" "s \<in> set seats"
  shows "foldl (\<lambda>m seat. m(rs_seatId seat \<mapsto> f seat)) m0 seats (rs_seatId s) = Some (f s)"
  using assms
proof (induction seats arbitrary: m0)
  case (Cons x xs)
  have keep: "foldl (\<lambda>m seat. m(rs_seatId seat \<mapsto> f seat)) m xs k = m k"
    if "k \<notin> rs_seatId ` set xs" for m k
    using that by (induction xs arbitrary: m) auto
  show ?case
  proof (cases "s = x")
    case True
    with Cons.prems have "rs_seatId s \<notin> rs_seatId ` set xs" by auto
    from keep [OF this] True show ?thesis by (simp only: foldl_Cons fun_upd_same)
  next
    case False
    with Cons show ?thesis by auto
  qed
qed simp

lemma computeRefund_perSeat:
  assumes "distinct (map rs_seatId seats)" "s \<in> set seats"
  shows "rc_perSeatPaise (computeRefund seats d n) (rs_seatId s) =
     Some (keptPaise (rs_basePaise s) (slab_deductionPercent (slabFor d n)) + rs_tollPaise s)"
  using perSeat_foldl [OF assms] by (simp add: computeRefund_def Let_def)

text \<open>What comes back and what is kept split the price exactly, whatever the rounding did.\<close>

lemma refund_complement:
  "rc_refundPaise (computeRefund seats d n)
     + retainedPaise seats (slab_deductionPercent (slabFor d n))
   = sum_list (map (\<lambda>s. rs_basePaise s + rs_reservationFeePaise s + rs_tollPaise s) seats)"
  by (simp add: computeRefund_sums retainedPaise_sum sum_list_map_minus sum_list_map_plus)

lemma refund_bounds:
  assumes "\<And>s. s \<in> set seats \<Longrightarrow> fare_ok (rs_basePaise s) \<and> 0 \<le> rs_tollPaise s"
  shows "0 \<le> rc_refundPaise (computeRefund seats d n)"
    and "rc_refundPaise (computeRefund seats d n)
           \<le> sum_list (map (\<lambda>s. rs_basePaise s + rs_tollPaise s) seats)"
  unfolding computeRefund_sums(6)
  using assms keptPaise_bounds slab_percent_range [of d n]
  by (auto intro!: sum_list_int_nonneg sum_list_map_mono_int add_mono)

lemma refund_decreasing:
  assumes "\<And>s. s \<in> set seats \<Longrightarrow> fare_ok (rs_basePaise s)" "n \<le> n'"
  shows "rc_refundPaise (computeRefund seats d n') \<le> rc_refundPaise (computeRefund seats d n)"
proof -
  let ?p = "slab_deductionPercent (slabFor d n)" and ?p' = "slab_deductionPercent (slabFor d n')"
  have "keptPaise (rs_basePaise s) ?p' \<le> keptPaise (rs_basePaise s) ?p" if "s \<in> set seats" for s
    using assms(1) [OF that] slab_percent_mono [OF assms(2), of d] slab_percent_range [of d n]
      slab_percent_range [of d n'] half_up_percent_mono [of "rs_basePaise s" "100 - ?p'" "100 - ?p"]
    by (simp add: keptPaise_exact) (simp add: fare_ok_def)
  then show ?thesis unfolding computeRefund_sums(6) by (intro sum_list_map_mono_int add_mono) auto
qed

subsection \<open>Rupees read back\<close>

lemma string_of_int_nonneg: "0 \<le> i \<Longrightarrow> string_of_int i = digits10 (nat i)"
  by (simp add: string_of_int_def)

lemma digits10_no_dot: "CHR ''.'' \<notin> set (digits10 n)"
  using digits10_digits [of "CHR ''.''" n] by (auto simp: is_digit_def)

lemma append_dot_inj:
  assumes "xs @ CHR ''.'' # ys = xs' @ CHR ''.'' # ys'" "CHR ''.'' \<notin> set xs" "CHR ''.'' \<notin> set xs'"
  shows "xs = xs' \<and> ys = ys'"
  using assms by (simp add: append_eq_append_conv2 Cons_eq_append_conv) (auto simp: append_eq_Cons_conv)

lemma paiseToRupees_ok:
  assumes "0 \<le> p" "p < 100 * 2 ^ 46"
  shows "paiseToRupees p = Inr (if p mod 100 = 0 then digits10 (nat (p div 100))
     else digits10 (nat (p div 100)) @ ''.'' @ padStart 2 (CHR ''0'') (digits10 (nat (p mod 100))))"
  using assms floor_div100_exact [OF assms]
  by (simp add: paiseToRupees_def isSafeInteger_def MAX_SAFE_INTEGER_def string_of_int_nonneg)

lemma div_mod_eq_cancel: "a div c = b div c \<Longrightarrow> a mod c = b mod c \<Longrightarrow> a = b" for a b c :: int
  by (metis div_mult_mod_eq)

lemma paiseToRupees_inj:
  assumes p: "0 \<le> p" "p < 100 * 2 ^ 46" and q: "0 \<le> q" "q < 100 * 2 ^ 46"
    and eq: "paiseToRupees p = paiseToRupees q"
  shows "p = q"
proof -
  have same: "p = q" if "p div 100 = q div 100" "p mod 100 = q mod 100"
    by (rule div_mod_eq_cancel [OF that])
  have e: "p mod 100 = 0 \<longleftrightarrow> q mod 100 = 0"
    using eq digits10_no_dot [of "nat (p div 100)"] digits10_no_dot [of "nat (q div 100)"]
    by (auto simp: paiseToRupees_ok [OF p] paiseToRupees_ok [OF q] split: if_splits)
      (metis in_set_conv_decomp)+
  show ?thesis
  proof (cases "p mod 100 = 0")
    case True
    with e eq have "digits10 (nat (p div 100)) = digits10 (nat (q div 100))"
      by (simp add: paiseToRupees_ok [OF p] paiseToRupees_ok [OF q])
    from digits10_inj [OF this] have "p div 100 = q div 100" using p q by simp
    with True e show ?thesis by (intro same) auto
  next
    case False
    with e eq have "digits10 (nat (p div 100)) @ CHR ''.'' # padStart 2 (CHR ''0'') (digits10 (nat (p mod 100)))
        = digits10 (nat (q div 100)) @ CHR ''.'' # padStart 2 (CHR ''0'') (digits10 (nat (q mod 100)))"
      by (simp add: paiseToRupees_ok [OF p] paiseToRupees_ok [OF q])
    from append_dot_inj [OF this digits10_no_dot digits10_no_dot]
    have "digits10 (nat (p div 100)) = digits10 (nat (q div 100))"
      "nat (p mod 100) = nat (q mod 100)"
      by (auto dest: arg_cong [where f = digits_value])
    with digits10_inj [OF this(1)] p q show ?thesis
      by (intro same) (simp_all add: eq_nat_nat_iff pos_imp_zdiv_nonneg_iff)
  qed
qed

subsection \<open>Properties\<close>

text \<open>
  What a cancellation gives back and what is retained at the same slab split the price of the
  seats exactly, whatever the rounding of each seat did.
\<close>

theorem refund_and_retained_add_up:
  "rc_refundPaise (computeRefund seats departureAtMs nowMs)
     + retainedPaise seats (slab_deductionPercent (slabFor departureAtMs nowMs))
   = sum_list (map (\<lambda>s. rs_basePaise s + rs_reservationFeePaise s + rs_tollPaise s) seats)"
  by (rule refund_complement)

text \<open>
  C33. A refund never grows by waiting and never exceeds the base fare and the toll: for fares below
  \<open>2 ^ 46\<close> paise, cancelling later gives back at most what cancelling earlier does, and never a
  negative amount.
\<close>

theorem refund_bounded_and_decreasing:
  assumes "\<forall>s \<in> set seats. fare_ok (rs_basePaise s) \<and> 0 \<le> rs_tollPaise s" "earlier \<le> later"
  shows "0 \<le> rc_refundPaise (computeRefund seats departureAtMs later)
     \<and> rc_refundPaise (computeRefund seats departureAtMs later)
         \<le> rc_refundPaise (computeRefund seats departureAtMs earlier)
     \<and> rc_refundPaise (computeRefund seats departureAtMs earlier)
         \<le> sum_list (map (\<lambda>s. rs_basePaise s + rs_tollPaise s) seats)"
  using refund_bounds [of seats departureAtMs] refund_decreasing [of seats earlier later departureAtMs] assms
  by blast

theorem refund_bounded_and_decreasing_witness:
  "let seats = [\<lparr>rs_seatId = ''1'', rs_basePaise = 10001, rs_reservationFeePaise = 500, rs_tollPaise = 300\<rparr>]
   in rc_refundPaise (computeRefund seats 300000000 200000000)
        \<le> rc_refundPaise (computeRefund seats 300000000 0)"
  unfolding Let_def
  using refund_bounded_and_decreasing [of "[\<lparr>rs_seatId = ''1'', rs_basePaise = 10001,
      rs_reservationFeePaise = 500, rs_tollPaise = 300\<rparr>]" 0 200000000 300000000]
  by (simp add: fare_ok_def)

text \<open>
  C34. The per-seat refund is the half-up rounding of the exact percentage, in spite of the double
  division it is computed with: for a fare below \<open>2 ^ 46\<close> paise a seat keeps
  \<open>(base * (100 - percent) + 50) div 100\<close> of its base fare at the slab of its cancellation.
\<close>

theorem refund_per_seat_exact:
  assumes "distinct (map rs_seatId seats)" "s \<in> set seats" "fare_ok (rs_basePaise s)"
  shows "rc_perSeatPaise (computeRefund seats departureAtMs nowMs) (rs_seatId s) =
     Some ((rs_basePaise s * (100 - slab_deductionPercent (slabFor departureAtMs nowMs)) + 50) div 100
           + rs_tollPaise s)"
  using computeRefund_perSeat [OF assms(1,2)] keptPaise_exact [OF assms(3) slab_percent_range]
  by simp

theorem refund_per_seat_exact_witness:
  "rc_perSeatPaise (computeRefund [\<lparr>rs_seatId = ''1'', rs_basePaise = 10001, rs_reservationFeePaise = 500,
     rs_tollPaise = 300\<rparr>] 100000000 0) ''1'' = Some 7801"
  using refund_per_seat_exact [of "[\<lparr>rs_seatId = ''1'', rs_basePaise = 10001,
      rs_reservationFeePaise = 500, rs_tollPaise = 300\<rparr>]" "\<lparr>rs_seatId = ''1'', rs_basePaise = 10001,
      rs_reservationFeePaise = 500, rs_tollPaise = 300\<rparr>" 100000000 0]
  by (simp add: fare_ok_def slabFor_def HOUR_MILLISECONDS_def)

text \<open>
  Two amounts below \<open>100 * 2 ^ 46\<close> paise that print alike on the wire are equal: no paise is
  lost between the store and the message.
\<close>

theorem paiseToRupees_faithful:
  assumes "0 \<le> p" "p < 100 * 2 ^ 46" "0 \<le> q" "q < 100 * 2 ^ 46" "paiseToRupees p = paiseToRupees q"
  shows "p = q"
  by (rule paiseToRupees_inj [OF assms])

theorem paiseToRupees_faithful_witness:
  "paiseToRupees 105005 \<noteq> paiseToRupees 105050"
  using paiseToRupees_faithful [of 105005 105050] by auto

end
