(* ===== verification/Reserved_Fares.thy ===== *)
theory Reserved_Fares
  imports Reserved_Types
begin

text \<open>
  Fares (\<open>src/src/reserved/fares.ts\<close>): the fare key is the boarding-point pair and the class, and a
  missing cell is refused, never interpolated. A stop of a request is its type and the code of
  its location; indexing an empty list of points throws.
\<close>

record BoardingPair =
  pair_from :: string
  pair_to :: string

record StopInput =
  si_type :: "string option"
  si_code :: "string option"

definition findFareCell :: "FareTable \<Rightarrow> BoardingPair \<Rightarrow> ServiceClass \<Rightarrow> FareCell option" where
  "findFareCell table pair serviceClass =
     List.find (\<lambda>cell. cell_fromBoardingPointId cell = pair_from pair
        \<and> cell_toBoardingPointId cell = pair_to pair
        \<and> cell_serviceClass cell = serviceClass) (table_fares table)"

definition fareCell :: "FareTable \<Rightarrow> BoardingPair \<Rightarrow> ServiceClass \<Rightarrow> failure + FareCell" where
  "fareCell table pair serviceClass =
     required (findFareCell table pair serviceClass) (Refusal FARE_NOT_PUBLISHED [])"

text \<open>\<open>points[0].boardingPointId\<close> and \<open>points[points.length - 1].boardingPointId\<close>.\<close>

definition firstPointId :: "BoardingPoint list \<Rightarrow> failure + string" where
  "firstPointId points = (if points = [] then Inl PlainError else Inr (bp_boardingPointId (hd points)))"

definition lastPointId :: "BoardingPoint list \<Rightarrow> failure + string" where
  "lastPointId points = (if points = [] then Inl PlainError else Inr (bp_boardingPointId (last points)))"

definition headlinePair :: "ReservedService \<Rightarrow> failure + BoardingPair" where
  "headlinePair service =
     andThen (firstPointId (svc_boardingPoints service)) (\<lambda>f.
     andThen (lastPointId (svc_droppingPoints service)) (\<lambda>t.
     Inr \<lparr>pair_from = f, pair_to = t\<rparr>))"

definition stopCode :: "string \<Rightarrow> StopInput list \<Rightarrow> string option" where
  "stopCode ty stops =
     Option.bind (List.find (\<lambda>stop. si_type stop = Some ty) stops) si_code"

definition boardingPairFromStops :: "ReservedService \<Rightarrow> StopInput list \<Rightarrow> failure + BoardingPair" where
  "boardingPairFromStops service stops =
     andThen (case stopCode ''START'' stops of
                Some c \<Rightarrow> Inr c | None \<Rightarrow> firstPointId (svc_boardingPoints service)) (\<lambda>f.
     andThen (case stopCode ''END'' stops of
                Some c \<Rightarrow> Inr c | None \<Rightarrow> lastPointId (svc_droppingPoints service)) (\<lambda>t.
       let boards = list_ex (\<lambda>point. bp_boardingPointId point = f) (svc_boardingPoints service);
           alights = list_ex (\<lambda>point. bp_boardingPointId point = t) (svc_droppingPoints service)
       in if \<not> boards \<or> \<not> alights then refuse FARE_NOT_PUBLISHED
          else Inr \<lparr>pair_from = f, pair_to = t\<rparr>))"

definition reportingOffsetFor :: "ReservedService \<Rightarrow> string \<Rightarrow> failure + int" where
  "reportingOffsetFor service boardingPointId =
     andThen (required
        (List.find (\<lambda>p. bp_boardingPointId p = boardingPointId)
           (svc_boardingPoints service @ svc_droppingPoints service))
        (Refusal SERVICE_NOT_FOUND []))
       (\<lambda>point. Inr (bp_reportingOffsetMinutes point))"

subsection \<open>Properties\<close>

lemma fareCell_sound:
  assumes "fareCell table pair cls = Inr c"
  shows "c \<in> set (table_fares table)" "cell_fromBoardingPointId c = pair_from pair"
    "cell_toBoardingPointId c = pair_to pair" "cell_serviceClass c = cls"
  using assms by (auto simp: fareCell_def findFareCell_def dest: find_SomeD)

lemma fareCell_refused_iff:
  "fareCell table pair cls = Inl e \<longleftrightarrow>
     e = Refusal FARE_NOT_PUBLISHED [] \<and>
     \<not> (\<exists>c \<in> set (table_fares table). cell_fromBoardingPointId c = pair_from pair
          \<and> cell_toBoardingPointId c = pair_to pair \<and> cell_serviceClass c = cls)"
  by (auto simp: fareCell_def findFareCell_def find_None_iff)

lemma boardingPair_stops:
  assumes "boardingPairFromStops svc stops = Inr pair"
  shows "pair_from pair \<in> bp_boardingPointId ` set (svc_boardingPoints svc)"
    and "pair_to pair \<in> bp_boardingPointId ` set (svc_droppingPoints svc)"
  using assms
  by (auto simp: boardingPairFromStops_def result_simps Let_def list_ex_iff split: if_splits)

lemma boardingPair_default:
  "boardingPairFromStops svc [] = headlinePair svc"
  by (auto simp: boardingPairFromStops_def headlinePair_def stopCode_def firstPointId_def
      lastPointId_def list_ex_iff intro: hd_in_set last_in_set dest: bspec)

lemma boardingPair_offset:
  assumes "boardingPairFromStops svc stops = Inr pair"
  shows "\<exists>k. reportingOffsetFor svc (pair_from pair) = Inr k"
    and "\<exists>k. reportingOffsetFor svc (pair_to pair) = Inr k"
proof -
  have "\<exists>k. reportingOffsetFor svc i = Inr k"
    if "i \<in> bp_boardingPointId ` set (svc_boardingPoints svc @ svc_droppingPoints svc)" for i
  proof -
    have "List.find (\<lambda>p. bp_boardingPointId p = i) (svc_boardingPoints svc @ svc_droppingPoints svc) \<noteq> None"
      using that by (auto simp: find_None_iff)
    then show ?thesis by (auto simp: reportingOffsetFor_def)
  qed
  with boardingPair_stops [OF assms]
  show "\<exists>k. reportingOffsetFor svc (pair_from pair) = Inr k"
    "\<exists>k. reportingOffsetFor svc (pair_to pair) = Inr k" by auto
qed

text \<open>
  A fare is never interpolated: a boarding pair and class are priced exactly when the table has
  a cell for them, by such a cell, and are refused with \<open>FARE-NOT-PUBLISHED\<close> otherwise.
\<close>

theorem fare_is_published_or_refused:
  "case fareCell table pair cls of
     Inr c \<Rightarrow> c \<in> set (table_fares table) \<and> cell_fromBoardingPointId c = pair_from pair
       \<and> cell_toBoardingPointId c = pair_to pair \<and> cell_serviceClass c = cls
   | Inl e \<Rightarrow> e = Refusal FARE_NOT_PUBLISHED [] \<and>
       \<not> list_ex (\<lambda>c. cell_fromBoardingPointId c = pair_from pair
          \<and> cell_toBoardingPointId c = pair_to pair \<and> cell_serviceClass c = cls) (table_fares table)"
proof (cases "fareCell table pair cls")
  case (Inl e)
  then show ?thesis using fareCell_refused_iff [of table pair cls e] by (auto simp: list_ex_iff)
next
  case (Inr c)
  then show ?thesis using fareCell_sound [of table pair cls c] by simp
qed

end
