(* ===== verification/Store_Types.thy ===== *)
theory Store_Types
  imports Reserved_Types
begin

text \<open>
  The rows of the reserved store (\<open>src/migrations/reserved\<close>) and the records its operations
  hand out (\<open>src/src/reserved/store.ts\<close>). A nullable column is an option.
\<close>

record ReservedIdentity =
  ri_bapId :: string
  ri_bapUri :: string
  ri_transactionId :: string

datatype SeatLockState = HELD | BOOKED | EXPIRED | RELEASED

datatype ManifestGender = Male | Female | Other

fun gender_wire :: "ManifestGender \<Rightarrow> string" where
  "gender_wire Male = ''male''"
| "gender_wire Female = ''female''"
| "gender_wire Other = ''other''"

datatype BookingStatus = CONFIRMED | CANCELLED

record HoldRecord =
  hold_holdId :: string
  hold_operator :: string
  hold_identity :: ReservedIdentity
  hold_serviceId :: string
  hold_travelDate :: string
  hold_seatIds :: "string list"
  hold_state :: SeatLockState
  hold_expiresAt :: int
  hold_createdAt :: int

text \<open>A live claim is \<open>HELD\<close> or \<open>BOOKED\<close>; its state is kept at the type of the column.\<close>

record LiveSeatClaim =
  claim_seatId :: string
  claim_state :: SeatLockState
  claim_holdId :: "string option"
  claim_bookingId :: "string option"
  claim_identity :: ReservedIdentity
  claim_gender :: "ManifestGender option"

record BookingSeatRecord =
  bs_seatId :: string
  bs_name :: "string option"
  bs_age :: "int option"
  bs_gender :: "ManifestGender option"
  bs_basePaise :: int
  bs_reservationFeePaise :: int
  bs_tollPaise :: int
  bs_status :: BookingStatus
  bs_cancelledAt :: "int option"
  bs_refundPaise :: "int option"
  bs_slabCode :: "string option"

record BookingRecord =
  b_id :: string
  b_reference :: string
  b_operator :: string
  b_identity :: ReservedIdentity
  b_serviceId :: string
  b_travelDate :: string
  b_serviceClass :: string
  b_fromBoardingPointId :: string
  b_toBoardingPointId :: string
  b_departureAt :: int
  b_status :: BookingStatus
  b_basePaise :: int
  b_reservationFeePaise :: int
  b_tollPaise :: int
  b_createdAt :: int
  b_cancelledAt :: "int option"
  b_refundPaise :: "int option"
  b_slabCode :: "string option"
  b_order :: json
  b_seats :: "BookingSeatRecord list"
  b_settlementCorporation :: "Corporation option"
  b_settlementBasis :: ServiceProvenance

record RefundQuoteRecord =
  rq_id :: string
  rq_bookingId :: string
  rq_seatIds :: "string list"
  rq_slabCode :: string
  rq_slabPercent :: int
  rq_refundPaise :: int
  rq_quotedAt :: int
  rq_expiresAt :: int

subsection \<open>Rows\<close>

record LockRow =
  lk_id :: string
  lk_service_id :: string
  lk_travel_date :: string
  lk_seat_id :: string
  lk_state :: SeatLockState
  lk_hold_id :: "string option"
  lk_booking_id :: "string option"
  lk_operator :: string
  lk_bap_id :: string
  lk_bap_uri :: string
  lk_transaction_id :: string
  lk_expires_at :: "int option"
  lk_created_at :: int

record BookingRow =
  bk_id :: string
  bk_reference :: string
  bk_operator :: string
  bk_bap_id :: string
  bk_bap_uri :: string
  bk_transaction_id :: string
  bk_service_id :: string
  bk_travel_date :: string
  bk_service_class :: string
  bk_from_boarding_point_id :: string
  bk_to_boarding_point_id :: string
  bk_departure_at :: int
  bk_status :: BookingStatus
  bk_base_paise :: int
  bk_reservation_fee_paise :: int
  bk_toll_paise :: int
  bk_created_at :: int
  bk_cancelled_at :: "int option"
  bk_refund_paise :: "int option"
  bk_slab_code :: "string option"
  bk_order_json :: json
  bk_settlement_corporation :: "Corporation option"
  bk_settlement_basis :: ServiceProvenance

record SeatRow =
  sr_booking_id :: string
  sr_seat_id :: string
  sr_name :: "string option"
  sr_age :: "int option"
  sr_gender :: "ManifestGender option"
  sr_base_paise :: int
  sr_reservation_fee_paise :: int
  sr_toll_paise :: int
  sr_status :: BookingStatus
  sr_cancelled_at :: "int option"
  sr_refund_paise :: "int option"
  sr_slab_code :: "string option"

text \<open>The four tables, each in insertion order, which is the order of \<open>rowid\<close>.\<close>

record Database =
  db_seat_locks :: "LockRow list"
  db_bookings :: "BookingRow list"
  db_booking_seats :: "SeatRow list"
  db_refund_quotes :: "RefundQuoteRecord list"

definition empty_db :: Database where
  "empty_db = \<lparr>db_seat_locks = [], db_bookings = [], db_booking_seats = [], db_refund_quotes = []\<rparr>"

text \<open>What a transaction returns, and an operation of the store with the tables it leaves.\<close>

type_synonym 'a tx = "Database \<Rightarrow> failure + Database \<times> 'a"
type_synonym 'a outcome = "Database \<times> (failure + 'a)"

end
