(* ===== verification/Reserved_Store.thy ===== *)
theory Reserved_Store
  imports Store_Types "HOL-Library.Product_Lexorder"
begin

text \<open>
  The reserved store, every read and write of \<open>src/src/reserved/store.ts\<close>. The tables are the
  lists of \<open>Database\<close>; a statement maps or filters them, and an insert checks the constraints of
  the migrations. \<open>withTransaction\<close> runs its body on the tables and keeps the result only when
  the body returns. The identifier that \<open>idFactory()\<close> draws is an argument.
\<close>

subsection \<open>Constraints\<close>

definition live_state :: "SeatLockState \<Rightarrow> bool" where
  "live_state s \<longleftrightarrow> s = HELD \<or> s = BOOKED"

definition lock_key :: "LockRow \<Rightarrow> string \<times> string \<times> string" where
  "lock_key l = (lk_service_id l, lk_travel_date l, lk_seat_id l)"

text \<open>The primary key of \<open>seat_locks\<close> and the partial unique index \<open>seat_locks_live\<close>.\<close>

definition live_locks :: "LockRow list \<Rightarrow> LockRow list" where
  "live_locks = filter (\<lambda>l. live_state (lk_state l))"

definition seat_locks_ok :: "LockRow list \<Rightarrow> bool" where
  "seat_locks_ok ls \<longleftrightarrow> distinct (map lk_id ls) \<and> distinct (map lock_key (live_locks ls))"

definition booking_key :: "BookingRow \<Rightarrow> string \<times> string \<times> string \<times> string" where
  "booking_key b = (bk_operator b, bk_bap_id b, bk_bap_uri b, bk_transaction_id b)"

text \<open>The primary key of \<open>bookings\<close>, its unique reference, and \<open>bookings_transaction\<close>.\<close>

definition bookings_ok :: "BookingRow list \<Rightarrow> bool" where
  "bookings_ok bs \<longleftrightarrow> distinct (map bk_id bs) \<and> distinct (map bk_reference bs)
     \<and> distinct (map booking_key bs)"

definition seat_key :: "SeatRow \<Rightarrow> string \<times> string" where
  "seat_key s = (sr_booking_id s, sr_seat_id s)"

definition booking_seats_ok :: "SeatRow list \<Rightarrow> bool" where
  "booking_seats_ok ss \<longleftrightarrow> distinct (map seat_key ss)"

text \<open>A multi-row \<open>INSERT\<close>; with no tuple at all the statement does not parse.\<close>

definition insert_locks :: "LockRow list \<Rightarrow> unit tx" where
  "insert_locks rows db =
     (if rows = [] then Inl PlainError
      else if \<not> seat_locks_ok (db_seat_locks db @ rows) then Inl UniqueViolation
      else Inr (db\<lparr>db_seat_locks := db_seat_locks db @ rows\<rparr>, ()))"

definition insert_booking :: "BookingRow \<Rightarrow> unit tx" where
  "insert_booking row db =
     (if \<not> bookings_ok (db_bookings db @ [row]) then Inl UniqueViolation
      else Inr (db\<lparr>db_bookings := db_bookings db @ [row]\<rparr>, ()))"

definition insert_seats :: "SeatRow list \<Rightarrow> unit tx" where
  "insert_seats rows db =
     (if \<not> booking_seats_ok (db_booking_seats db @ rows) then Inl UniqueViolation
      else if \<not> sr_booking_id ` set rows \<subseteq> bk_id ` set (db_bookings db) then Inl ForeignKeyViolation
      else Inr (db\<lparr>db_booking_seats := db_booking_seats db @ rows\<rparr>, ()))"

subsection \<open>Statements\<close>

text \<open>\<open>UPDATE t SET ... WHERE ...\<close> on the rows of a table, and \<open>result.changes\<close>.\<close>

definition update_where :: "('r \<Rightarrow> bool) \<Rightarrow> ('r \<Rightarrow> 'r) \<Rightarrow> 'r list \<Rightarrow> 'r list" where
  "update_where P f = map (\<lambda>r. if P r then f r else r)"

definition changes :: "('r \<Rightarrow> bool) \<Rightarrow> 'r list \<Rightarrow> nat" where
  "changes P rs = length (filter P rs)"

definition withTransaction :: "'a tx \<Rightarrow> Database \<Rightarrow> 'a outcome" where
  "withTransaction f db = (case f db of Inl e \<Rightarrow> (db, Inl e) | Inr (db', x) \<Rightarrow> (db', Inr x))"

definition isUniqueViolation :: "failure \<Rightarrow> bool" where
  "isUniqueViolation e \<longleftrightarrow> e = UniqueViolation"

definition usable_id :: "string \<Rightarrow> string" where
  "usable_id drawn = toUpperCase (filter is_alnum drawn)"

definition shortId :: "string \<Rightarrow> string \<Rightarrow> failure + string" where
  "shortId drawn pfx =
     (let component = usable_id drawn in
      if component = [] then Inl PlainError else Inr (pfx @ ''-'' @ take 8 component))"

subsection \<open>The lazy sweep\<close>

definition sweepable :: "string list \<Rightarrow> string \<Rightarrow> int \<Rightarrow> LockRow \<Rightarrow> bool" where
  "sweepable serviceIds travelDate nowMs l \<longleftrightarrow>
     lk_state l = HELD \<and> lk_service_id l \<in> set serviceIds \<and> lk_travel_date l = travelDate
     \<and> (case lk_expires_at l of None \<Rightarrow> False | Some e \<Rightarrow> e \<le> nowMs)"

definition sweepExpiredHolds :: "string \<Rightarrow> string \<Rightarrow> int \<Rightarrow> Database \<Rightarrow> Database \<times> nat" where
  "sweepExpiredHolds serviceId travelDate nowMs db =
     (let P = sweepable [serviceId] travelDate nowMs in
      (db\<lparr>db_seat_locks := update_where P (\<lambda>l. l\<lparr>lk_state := EXPIRED\<rparr>) (db_seat_locks db)\<rparr>,
       changes P (db_seat_locks db)))"

definition sweepExpiredHoldsForServices ::
    "string list \<Rightarrow> string \<Rightarrow> int \<Rightarrow> Database \<Rightarrow> Database \<times> nat" where
  "sweepExpiredHoldsForServices serviceIds travelDate nowMs db =
     (if serviceIds = [] then (db, 0)
      else
        let P = sweepable serviceIds travelDate nowMs in
        (db\<lparr>db_seat_locks := update_where P (\<lambda>l. l\<lparr>lk_state := EXPIRED\<rparr>) (db_seat_locks db)\<rparr>,
         changes P (db_seat_locks db)))"

subsection \<open>Holds\<close>

definition row_identity :: "LockRow \<Rightarrow> ReservedIdentity" where
  "row_identity l =
     \<lparr>ri_bapId = lk_bap_id l, ri_bapUri = lk_bap_uri l, ri_transactionId = lk_transaction_id l\<rparr>"

text \<open>The claim a lock row stands for, with the gender of the seat it is joined to.\<close>

definition claim_of :: "SeatRow list \<Rightarrow> LockRow \<Rightarrow> LiveSeatClaim" where
  "claim_of seats l =
     \<lparr>claim_seatId = lk_seat_id l, claim_state = lk_state l, claim_holdId = lk_hold_id l,
      claim_bookingId = lk_booking_id l, claim_identity = row_identity l,
      claim_gender = (case List.find (\<lambda>s. Some (sr_booking_id s) = lk_booking_id l
                                        \<and> sr_seat_id s = lk_seat_id l) seats of
                        None \<Rightarrow> None | Some s \<Rightarrow> sr_gender s)\<rparr>"

definition liveClaims :: "string \<Rightarrow> string \<Rightarrow> Database \<Rightarrow> LiveSeatClaim list" where
  "liveClaims serviceId travelDate db =
     map (claim_of (db_booking_seats db))
       (sort_key lk_seat_id
          (filter (\<lambda>l. lk_service_id l = serviceId \<and> lk_travel_date l = travelDate
                     \<and> live_state (lk_state l)) (db_seat_locks db)))"

text \<open>
  The rows of every named service in one query, then one entry per service. The map is keyed by
  the ids asked for, in the order they were asked.
\<close>

definition liveClaimsForServices ::
    "string list \<Rightarrow> string \<Rightarrow> Database \<Rightarrow> (string \<times> LiveSeatClaim list) list" where
  "liveClaimsForServices serviceIds travelDate db =
     (let rows = sort_key (\<lambda>l. (lk_service_id l, lk_seat_id l))
            (filter (\<lambda>l. lk_service_id l \<in> set serviceIds \<and> lk_travel_date l = travelDate
                       \<and> live_state (lk_state l)) (db_seat_locks db))
      in map (\<lambda>sid. (sid, map (claim_of (db_booking_seats db))
                            (filter (\<lambda>l. lk_service_id l = sid) rows))) (dedup serviceIds))"

definition holdFromRows :: "LockRow list \<Rightarrow> HoldRecord" where
  "holdFromRows rows =
     (let first = hd rows in
      \<lparr>hold_holdId = the (lk_hold_id first), hold_operator = lk_operator first,
       hold_identity = row_identity first, hold_serviceId = lk_service_id first,
       hold_travelDate = lk_travel_date first, hold_seatIds = sort (map lk_seat_id rows),
       hold_state = lk_state first,
       hold_expiresAt = (case lk_expires_at first of None \<Rightarrow> 0 | Some e \<Rightarrow> e),
       hold_createdAt = lk_created_at first\<rparr>)"

definition owned_by :: "string \<Rightarrow> ReservedIdentity \<Rightarrow> LockRow \<Rightarrow> bool" where
  "owned_by operator identity l \<longleftrightarrow> lk_operator l = operator \<and> row_identity l = identity"

text \<open>\<open>ORDER BY created_at DESC, rowid DESC\<close>: a stable sort of the reversed table.\<close>

definition findLatestHold :: "string \<Rightarrow> ReservedIdentity \<Rightarrow> Database \<Rightarrow> HoldRecord option" where
  "findLatestHold operator identity db =
     (let rows = sort_key (\<lambda>l. - lk_created_at l)
            (rev (filter (\<lambda>l. owned_by operator identity l \<and> lk_hold_id l \<noteq> None) (db_seat_locks db)))
      in if rows = [] then None
         else Some (holdFromRows (filter (\<lambda>l. lk_hold_id l = lk_hold_id (hd rows)) rows)))"

definition findHoldById :: "string \<Rightarrow> Database \<Rightarrow> HoldRecord option" where
  "findHoldById holdId db =
     (let rows = sort_key lk_seat_id (filter (\<lambda>l. lk_hold_id l = Some holdId) (db_seat_locks db))
      in if rows = [] then None else Some (holdFromRows rows))"

datatype HoldStatus = LIVE | LAPSED | SPENT

definition holdStatus :: "HoldRecord \<Rightarrow> int \<Rightarrow> HoldStatus" where
  "holdStatus hold nowMs =
     (if hold_state hold = BOOKED then SPENT
      else if hold_state hold \<noteq> HELD then LAPSED
      else if hold_expiresAt hold \<le> nowMs then LAPSED else LIVE)"

record HoldParams =
  hp_operator :: string
  hp_identity :: ReservedIdentity
  hp_serviceId :: string
  hp_travelDate :: string
  hp_seatIds :: "string list"
  hp_nowMs :: int
  hp_ttlSeconds :: int
  hp_skipAvailabilityCheckForTest :: bool

definition hold_rows :: "HoldParams \<Rightarrow> string \<Rightarrow> string list \<Rightarrow> LockRow list" where
  "hold_rows p holdId seatIds =
     map (\<lambda>(i, seatId).
        \<lparr>lk_id = holdId @ ''-'' @ digits10 (i + 1), lk_service_id = hp_serviceId p,
         lk_travel_date = hp_travelDate p, lk_seat_id = seatId, lk_state = HELD,
         lk_hold_id = Some holdId, lk_booking_id = None, lk_operator = hp_operator p,
         lk_bap_id = ri_bapId (hp_identity p), lk_bap_uri = ri_bapUri (hp_identity p),
         lk_transaction_id = ri_transactionId (hp_identity p),
         lk_expires_at = Some (hp_nowMs p + hp_ttlSeconds p * 1000),
         lk_created_at = hp_nowMs p\<rparr>) (enumerate 0 seatIds)"

definition seat_ids_attachment :: "string \<Rightarrow> string list \<Rightarrow> (string \<times> json) list" where
  "seat_ids_attachment k ids = [(k, JArr (map JStr ids))]"

definition release_hold :: "string \<Rightarrow> Database \<Rightarrow> Database" where
  "release_hold holdId db =
     db\<lparr>db_seat_locks := update_where (\<lambda>l. lk_hold_id l = Some holdId \<and> lk_state l = HELD)
          (\<lambda>l. l\<lparr>lk_state := RELEASED\<rparr>) (db_seat_locks db)\<rparr>"

definition acquire_tx :: "string \<Rightarrow> HoldParams \<Rightarrow> HoldRecord tx" where
  "acquire_tx drawn p db0 =
     (let seatIds = sort (dedup (hp_seatIds p));
          db = fst (sweepExpiredHolds (hp_serviceId p) (hp_travelDate p) (hp_nowMs p) db0);
          existing = findLatestHold (hp_operator p) (hp_identity p) db;
          live = (case existing of None \<Rightarrow> False | Some h \<Rightarrow> holdStatus h (hp_nowMs p) = LIVE)
      in if live \<and> hold_serviceId (the existing) = hp_serviceId p
            \<and> hold_travelDate (the existing) = hp_travelDate p
            \<and> hold_seatIds (the existing) = seatIds
         then Inr (db, the existing)
         else
           let db1 = (if live then release_hold (hold_holdId (the existing)) db else db);
               taken = (if hp_skipAvailabilityCheckForTest p then []
                        else map claim_seatId (filter (\<lambda>c. claim_seatId c \<in> set seatIds)
                               (liveClaims (hp_serviceId p) (hp_travelDate p) db1)))
           in if taken \<noteq> []
              then Inl (Refusal SEAT_UNAVAILABLE (seat_ids_attachment ''unavailableSeatIds'' taken))
              else
                andThen (shortId drawn ''HLD-KSRTC'') (\<lambda>holdId.
                andThen (ensure (findHoldById holdId db1 = None) PlainError) (\<lambda>_.
                andThen (insert_locks (hold_rows p holdId seatIds) db1) (\<lambda>(db2, _).
                Inr (db2, \<lparr>hold_holdId = holdId, hold_operator = hp_operator p,
                   hold_identity = hp_identity p, hold_serviceId = hp_serviceId p,
                   hold_travelDate = hp_travelDate p, hold_seatIds = seatIds, hold_state = HELD,
                   hold_expiresAt = hp_nowMs p + hp_ttlSeconds p * 1000,
                   hold_createdAt = hp_nowMs p\<rparr>)))))"

text \<open>The unique violation of a losing racer is answered as the refusal the check would give.\<close>

definition acquireHold :: "string \<Rightarrow> HoldParams \<Rightarrow> Database \<Rightarrow> HoldRecord outcome" where
  "acquireHold drawn p db =
     (case withTransaction (acquire_tx drawn p) db of
        (db', Inl e) \<Rightarrow>
          (db', Inl (if isUniqueViolation e
                     then Refusal SEAT_UNAVAILABLE
                            (seat_ids_attachment ''unavailableSeatIds'' (sort (dedup (hp_seatIds p))))
                     else e))
      | (db', Inr h) \<Rightarrow> (db', Inr h))"

subsection \<open>Bookings\<close>

definition seat_record :: "SeatRow \<Rightarrow> BookingSeatRecord" where
  "seat_record s =
     \<lparr>bs_seatId = sr_seat_id s, bs_name = sr_name s, bs_age = sr_age s, bs_gender = sr_gender s,
      bs_basePaise = sr_base_paise s, bs_reservationFeePaise = sr_reservation_fee_paise s,
      bs_tollPaise = sr_toll_paise s, bs_status = sr_status s, bs_cancelledAt = sr_cancelled_at s,
      bs_refundPaise = sr_refund_paise s, bs_slabCode = sr_slab_code s\<rparr>"

definition seats_of :: "string \<Rightarrow> Database \<Rightarrow> SeatRow list" where
  "seats_of bookingId db = filter (\<lambda>s. sr_booking_id s = bookingId) (db_booking_seats db)"

definition bookingFromRow :: "Database \<Rightarrow> BookingRow \<Rightarrow> BookingRecord" where
  "bookingFromRow db row =
     \<lparr>b_id = bk_id row, b_reference = bk_reference row, b_operator = bk_operator row,
      b_identity = \<lparr>ri_bapId = bk_bap_id row, ri_bapUri = bk_bap_uri row,
                    ri_transactionId = bk_transaction_id row\<rparr>,
      b_serviceId = bk_service_id row, b_travelDate = bk_travel_date row,
      b_serviceClass = bk_service_class row,
      b_fromBoardingPointId = bk_from_boarding_point_id row,
      b_toBoardingPointId = bk_to_boarding_point_id row, b_departureAt = bk_departure_at row,
      b_status = bk_status row, b_basePaise = bk_base_paise row,
      b_reservationFeePaise = bk_reservation_fee_paise row, b_tollPaise = bk_toll_paise row,
      b_createdAt = bk_created_at row, b_cancelledAt = bk_cancelled_at row,
      b_refundPaise = bk_refund_paise row, b_slabCode = bk_slab_code row,
      b_order = bk_order_json row,
      b_seats = map seat_record (sort_key sr_seat_id (seats_of (bk_id row) db)),
      b_settlementCorporation = bk_settlement_corporation row,
      b_settlementBasis = bk_settlement_basis row\<rparr>"

definition findBookingByTransaction ::
    "string \<Rightarrow> ReservedIdentity \<Rightarrow> Database \<Rightarrow> BookingRecord option" where
  "findBookingByTransaction operator identity db =
     map_option (bookingFromRow db)
       (List.find (\<lambda>b. bk_operator b = operator \<and> bk_bap_id b = ri_bapId identity
          \<and> bk_bap_uri b = ri_bapUri identity \<and> bk_transaction_id b = ri_transactionId identity)
        (db_bookings db))"

text \<open>The identity of this lookup is the pair of a buyer app's id and address only.\<close>

definition findBooking :: "string \<Rightarrow> string \<Rightarrow> string \<Rightarrow> string \<Rightarrow> Database \<Rightarrow> BookingRecord option" where
  "findBooking operator bapId bapUri idOrReference db =
     map_option (bookingFromRow db)
       (List.find (\<lambda>b. bk_operator b = operator \<and> bk_bap_id b = bapId \<and> bk_bap_uri b = bapUri
          \<and> (bk_id b = idOrReference \<or> bk_reference b = idOrReference)) (db_bookings db))"

definition inspect :: "string \<Rightarrow> Database \<Rightarrow> BookingRecord option" where
  "inspect idOrReference db =
     map_option (bookingFromRow db)
       (List.find (\<lambda>b. bk_id b = idOrReference \<or> bk_reference b = idOrReference) (db_bookings db))"

record SeatSale =
  sale_seatId :: string
  sale_name :: string
  sale_age :: "int option"
  sale_gender :: "ManifestGender option"
  sale_basePaise :: int
  sale_reservationFeePaise :: int
  sale_tollPaise :: int

record ConfirmParams =
  cp_holdId :: string
  cp_operator :: string
  cp_identity :: ReservedIdentity
  cp_serviceId :: string
  cp_travelDate :: string
  cp_serviceClass :: string
  cp_fromBoardingPointId :: string
  cp_toBoardingPointId :: string
  cp_departureAt :: int
  cp_seats :: "SeatSale list"
  cp_settlementCorporation :: "Corporation option"
  cp_settlementBasis :: ServiceProvenance
  cp_nowMs :: int
  cp_order :: "string \<Rightarrow> string \<Rightarrow> failure + json"

definition order_id :: "string \<Rightarrow> string \<Rightarrow> string" where
  "order_id operator drawn = ''SPECIMEN-RSV-'' @ toUpperCase operator @ ''-'' @ take 8 (usable_id drawn)"

definition order_reference :: "string \<Rightarrow> string \<Rightarrow> string" where
  "order_reference operator drawn = ''SPECIMEN-'' @ toUpperCase operator @ ''-'' @ take 8 (usable_id drawn)"

definition booking_row :: "ConfirmParams \<Rightarrow> string \<Rightarrow> json \<Rightarrow> BookingRow" where
  "booking_row p drawn order =
     \<lparr>bk_id = order_id (cp_operator p) drawn, bk_reference = order_reference (cp_operator p) drawn,
      bk_operator = cp_operator p, bk_bap_id = ri_bapId (cp_identity p),
      bk_bap_uri = ri_bapUri (cp_identity p), bk_transaction_id = ri_transactionId (cp_identity p),
      bk_service_id = cp_serviceId p, bk_travel_date = cp_travelDate p,
      bk_service_class = cp_serviceClass p,
      bk_from_boarding_point_id = cp_fromBoardingPointId p,
      bk_to_boarding_point_id = cp_toBoardingPointId p, bk_departure_at = cp_departureAt p,
      bk_status = CONFIRMED,
      bk_base_paise = foldl (\<lambda>sum seat. sum + sale_basePaise seat) 0 (cp_seats p),
      bk_reservation_fee_paise = foldl (\<lambda>sum seat. sum + sale_reservationFeePaise seat) 0 (cp_seats p),
      bk_toll_paise = foldl (\<lambda>sum seat. sum + sale_tollPaise seat) 0 (cp_seats p),
      bk_created_at = cp_nowMs p, bk_cancelled_at = None, bk_refund_paise = None,
      bk_slab_code = None, bk_order_json = order,
      bk_settlement_corporation = cp_settlementCorporation p,
      bk_settlement_basis = cp_settlementBasis p\<rparr>"

definition sale_row :: "string \<Rightarrow> SeatSale \<Rightarrow> SeatRow" where
  "sale_row orderId seat =
     \<lparr>sr_booking_id = orderId, sr_seat_id = sale_seatId seat, sr_name = Some (sale_name seat),
      sr_age = sale_age seat, sr_gender = sale_gender seat, sr_base_paise = sale_basePaise seat,
      sr_reservation_fee_paise = sale_reservationFeePaise seat, sr_toll_paise = sale_tollPaise seat,
      sr_status = CONFIRMED, sr_cancelled_at = None, sr_refund_paise = None, sr_slab_code = None\<rparr>"

definition held_in :: "string \<Rightarrow> LockRow \<Rightarrow> bool" where
  "held_in holdId l \<longleftrightarrow> lk_hold_id l = Some holdId \<and> lk_state l = HELD"

definition confirm_tx :: "string \<Rightarrow> ConfirmParams \<Rightarrow> json \<Rightarrow> unit tx" where
  "confirm_tx drawn p order db =
     (let orderId = order_id (cp_operator p) drawn;
          db1 = db\<lparr>db_seat_locks := update_where (held_in (cp_holdId p))
                  (\<lambda>l. l\<lparr>lk_state := BOOKED, lk_booking_id := Some orderId, lk_expires_at := None\<rparr>)
                  (db_seat_locks db)\<rparr>
      in andThen (ensure (changes (held_in (cp_holdId p)) (db_seat_locks db) = length (cp_seats p))
                    (Refusal HOLD_EXPIRED [])) (\<lambda>_.
         andThen (insert_booking (booking_row p drawn order) db1) (\<lambda>(db2, _).
         if cp_seats p = [] then Inr (db2, ())
         else insert_seats (map (sale_row orderId) (cp_seats p)) db2)))"

text \<open>
  The order is rendered before the transaction opens. After a unique violation the tables are
  those of before, and the booking the transaction already has is the answer.
\<close>

definition confirmBooking :: "string \<Rightarrow> ConfirmParams \<Rightarrow> Database \<Rightarrow> BookingRecord outcome" where
  "confirmBooking drawn p db =
     (let orderId = order_id (cp_operator p) drawn;
          reference = order_reference (cp_operator p) drawn
      in case cp_order p orderId reference of
           Inl e \<Rightarrow> (db, Inl e)
         | Inr order \<Rightarrow>
             (case withTransaction (confirm_tx drawn p order) db of
                (db', Inl e) \<Rightarrow>
                  (if isUniqueViolation e
                   then (case findBookingByTransaction (cp_operator p) (cp_identity p) db' of
                           Some existing \<Rightarrow> (db', Inr existing)
                         | None \<Rightarrow> (db', Inl e))
                   else (db', Inl e))
              | (db', Inr _) \<Rightarrow>
                  (db', required (findBooking (cp_operator p) (ri_bapId (cp_identity p))
                                    (ri_bapUri (cp_identity p)) orderId db') PlainError)))"

subsection \<open>Cancellation\<close>

definition saveRefundQuote :: "RefundQuoteRecord \<Rightarrow> RefundQuoteRecord tx" where
  "saveRefundQuote quote db =
     (if rq_id quote \<in> rq_id ` set (db_refund_quotes db) then Inl UniqueViolation
      else if rq_bookingId quote \<notin> bk_id ` set (db_bookings db) then Inl ForeignKeyViolation
      else Inr (db\<lparr>db_refund_quotes := db_refund_quotes db @ [quote]\<rparr>, quote))"

definition newRefundQuoteId :: "string \<Rightarrow> failure + string" where
  "newRefundQuoteId drawn = shortId drawn ''RFQ-KSRTC''"

definition findRefundQuote :: "string \<Rightarrow> Database \<Rightarrow> RefundQuoteRecord option" where
  "findRefundQuote qid db = List.find (\<lambda>q. rq_id q = qid) (db_refund_quotes db)"

record CancelParams =
  xp_bookingId :: string
  xp_seatIds :: "string list"
  xp_slabCode :: string
  xp_refundBySeat :: "string \<rightharpoonup> int"
  xp_nowMs :: int

definition cancel_seat :: "CancelParams \<Rightarrow> string \<Rightarrow> Database \<Rightarrow> Database" where
  "cancel_seat p seatId db =
     db\<lparr>db_booking_seats :=
          update_where (\<lambda>s. sr_booking_id s = xp_bookingId p \<and> sr_seat_id s = seatId \<and> sr_status s = CONFIRMED)
            (\<lambda>s. s\<lparr>sr_status := CANCELLED, sr_cancelled_at := Some (xp_nowMs p),
                   sr_refund_paise := Some (case xp_refundBySeat p seatId of None \<Rightarrow> 0 | Some r \<Rightarrow> r),
                   sr_slab_code := Some (xp_slabCode p)\<rparr>) (db_booking_seats db),
        db_seat_locks :=
          update_where (\<lambda>l. lk_booking_id l = Some (xp_bookingId p) \<and> lk_seat_id l = seatId \<and> lk_state l = BOOKED)
            (\<lambda>l. l\<lparr>lk_state := RELEASED\<rparr>) (db_seat_locks db)\<rparr>"

definition refund_value :: "SeatRow \<Rightarrow> int" where
  "refund_value s = (case sr_refund_paise s of None \<Rightarrow> 0 | Some r \<Rightarrow> r)"

definition cancel_tx :: "CancelParams \<Rightarrow> unit tx" where
  "cancel_tx p db =
     (let db1 = foldl (\<lambda>d seatId. cancel_seat p seatId d) db (xp_seatIds p);
          seats = seats_of (xp_bookingId p) db1;
          remaining = length (filter (\<lambda>s. sr_status s = CONFIRMED) seats);
          refundTotal = sum_list (map refund_value seats)
      in Inr (db1\<lparr>db_bookings := update_where (\<lambda>b. bk_id b = xp_bookingId p)
                (\<lambda>b. b\<lparr>bk_status := (if remaining = 0 then CANCELLED else CONFIRMED),
                       bk_cancelled_at := Some (xp_nowMs p), bk_refund_paise := Some refundTotal,
                       bk_slab_code := Some (xp_slabCode p)\<rparr>) (db_bookings db1)\<rparr>, ()))"

definition applyCancellation :: "CancelParams \<Rightarrow> Database \<Rightarrow> BookingRecord outcome" where
  "applyCancellation p db =
     (case withTransaction (cancel_tx p) db of
        (db', Inl e) \<Rightarrow> (db', Inl e)
      | (db', Inr _) \<Rightarrow>
          (db', required (map_option (bookingFromRow db')
                   (List.find (\<lambda>b. bk_id b = xp_bookingId p) (db_bookings db'))) PlainError))"

definition updateStoredOrder :: "string \<Rightarrow> json \<Rightarrow> Database \<Rightarrow> Database" where
  "updateStoredOrder bookingId order db =
     db\<lparr>db_bookings := update_where (\<lambda>b. bk_id b = bookingId) (\<lambda>b. b\<lparr>bk_order_json := order\<rparr>)
          (db_bookings db)\<rparr>"

subsection \<open>Retention\<close>

definition MANIFEST_SWEEP_INTERVAL_MS :: int where
  "MANIFEST_SWEEP_INTERVAL_MS = 60000"

fun withoutManifestNames :: "json \<Rightarrow> json" where
  "withoutManifestNames (JArr xs) = JArr (map withoutManifestNames xs)"
| "withoutManifestNames (JObj kvs) =
     (case (tag_code (JObj kvs), map_of kvs ''list'') of
        (Some (JStr c), Some (JArr entries)) \<Rightarrow>
          (if c = ''MANIFEST''
           then JObj (put ''list'' (JArr (filter (\<lambda>e. tag_code e = Some (JStr ''SEAT_ID'')) entries)) kvs)
           else JObj (map (\<lambda>(k, v). (k, withoutManifestNames v)) kvs))
      | _ \<Rightarrow> JObj (map (\<lambda>(k, v). (k, withoutManifestNames v)) kvs))"
| "withoutManifestNames v = v"

text \<open>Whether a call of \<open>sweepManifests\<close> is throttled, given the last sweep of this process.\<close>

definition sweep_throttled :: "int \<Rightarrow> int option \<Rightarrow> int \<Rightarrow> bool" where
  "sweep_throttled interval lastSweepAt nowMs \<longleftrightarrow>
     (case lastSweepAt of None \<Rightarrow> False
      | Some l \<Rightarrow> 0 \<le> nowMs - l \<and> nowMs - l < interval)"

definition retention_cutoff :: "int \<Rightarrow> int \<Rightarrow> int" where
  "retention_cutoff nowMs retentionDays = nowMs - retentionDays * 24 * 60 * 60 * 1000"

text \<open>The scan, a read of its own before the transaction.\<close>

definition stale_bookings :: "int \<Rightarrow> Database \<Rightarrow> (string \<times> json) list" where
  "stale_bookings cutoff db =
     map (\<lambda>b. (bk_id b, bk_order_json b))
       (filter (\<lambda>b. bk_departure_at b < cutoff
                  \<and> list_ex (\<lambda>s. sr_booking_id s = bk_id b \<and> sr_name s \<noteq> None) (db_booking_seats db))
          (db_bookings db))"

definition clear_manifest :: "string \<times> json \<Rightarrow> Database \<Rightarrow> Database" where
  "clear_manifest booking db =
     updateStoredOrder (fst booking) (withoutManifestNames (snd booking))
       (db\<lparr>db_booking_seats := update_where (\<lambda>s. sr_booking_id s = fst booking)
             (\<lambda>s. s\<lparr>sr_name := None, sr_age := None, sr_gender := None\<rparr>) (db_booking_seats db)\<rparr>)"

definition clear_manifests :: "(string \<times> json) list \<Rightarrow> Database \<Rightarrow> Database" where
  "clear_manifests stale db = foldl (\<lambda>d b. clear_manifest b d) db stale"

text \<open>The sweep: the tables and the time of the last sweep, and how many bookings it cleared.\<close>

definition sweepManifests ::
    "int \<Rightarrow> int \<Rightarrow> int \<Rightarrow> int option \<times> Database \<Rightarrow> (int option \<times> Database) \<times> nat" where
  "sweepManifests interval nowMs retentionDays st =
     (case st of (lastSweepAt, db) \<Rightarrow>
        if sweep_throttled interval lastSweepAt nowMs then (st, 0)
        else
          let stale = stale_bookings (retention_cutoff nowMs retentionDays) db
          in ((Some nowMs, clear_manifests stale db), length stale))"

subsection \<open>The reconciliation backlog\<close>

record Unattributed =
  un_serviceId :: string
  un_travelDate :: string
  un_bookings :: nat
  un_owedPaise :: int

text \<open>What one booking still owes its corporation.\<close>

definition booking_owed :: "Database \<Rightarrow> BookingRow \<Rightarrow> int" where
  "booking_owed db b =
     bk_base_paise b + bk_reservation_fee_paise b
     - (case bk_refund_paise b of None \<Rightarrow> 0 | Some r \<Rightarrow> r)
     + sum_list (map sr_toll_paise (filter (\<lambda>s. sr_status s = CANCELLED) (seats_of (bk_id b) db)))"

definition unattributedBookings :: "Database \<Rightarrow> Unattributed list" where
  "unattributedBookings db =
     (let rows = filter (\<lambda>b. bk_settlement_corporation b = None
                          \<and> (bk_status b = CONFIRMED \<or> bk_status b = CANCELLED)) (db_bookings db);
          key = (\<lambda>b. (bk_service_id b, bk_travel_date b))
      in map (\<lambda>k. let grp = filter (\<lambda>b. key b = k) rows in
               \<lparr>un_serviceId = fst k, un_travelDate = snd k, un_bookings = length grp,
                un_owedPaise = sum_list (map (booking_owed db) grp)\<rparr>)
           (sort (dedup (map key rows))))"

end
