(* ===== verification/Store_Safety.thy ===== *)
theory Store_Safety
  imports Reserved_Store Transition
begin

text \<open>
  The safety of the reserved store: what holds of the four tables after any sequence of the
  store's transactions, in any order and with any arguments. The step relation has one rule per
  write the program makes; the service layer only ever confirms the seats of the hold it read,
  which is the guard of the confirm rule.
\<close>

named_theorems update_simps \<open>UPDATE statements on the rows of a table\<close>

subsection \<open>Updates of a table\<close>

lemma set_update_where [update_simps]:
  "set (update_where P f rs) = (\<lambda>r. if P r then f r else r) ` set rs"
  by (simp add: update_where_def)

lemma in_update_where:
  "x \<in> set (update_where P f rs) \<longleftrightarrow> (\<exists>r \<in> set rs. x = (if P r then f r else r))"
  unfolding set_update_where by blast

lemma length_update_where [simp]: "length (update_where P f rs) = length rs"
  by (simp add: update_where_def)

lemma update_where_append [update_simps]:
  "update_where P f (xs @ ys) = update_where P f xs @ update_where P f ys"
  by (simp add: update_where_def)

lemma map_update_where:
  "(\<And>r. P r \<Longrightarrow> k (f r) = k r) \<Longrightarrow> map k (update_where P f rs) = map k rs"
  by (simp add: update_where_def)

lemma filter_update_where:
  "(\<And>r. P r \<Longrightarrow> Q (f r) = Q r) \<Longrightarrow>
   filter Q (update_where P f rs) = update_where P f (filter Q rs)"
  by (induction rs) (auto simp: update_where_def)

subsection \<open>The life of a lock\<close>

text \<open>
  What any statement may do to a lock row: the columns that say whose claim it is on what never
  change, and the state only moves forward.
\<close>

definition lock_moves :: "SeatLockState \<Rightarrow> SeatLockState \<Rightarrow> bool" where
  "lock_moves s t \<longleftrightarrow> s = t \<or> s = HELD \<or> (s = BOOKED \<and> t = RELEASED)"

definition lock_header :: "LockRow \<Rightarrow> string \<times> string \<times> string \<times> string \<times> string \<times> string \<times> int" where
  "lock_header l = (lk_operator l, lk_bap_id l, lk_bap_uri l, lk_transaction_id l,
     lk_service_id l, lk_travel_date l, lk_created_at l)"

definition lock_evolves :: "LockRow \<Rightarrow> LockRow \<Rightarrow> bool" where
  "lock_evolves l l' \<longleftrightarrow> lk_id l' = lk_id l \<and> lk_seat_id l' = lk_seat_id l
     \<and> lk_hold_id l' = lk_hold_id l \<and> lock_header l' = lock_header l
     \<and> lock_moves (lk_state l) (lk_state l')"

lemma lock_evolves_refl [simp]: "lock_evolves l l"
  by (simp add: lock_evolves_def lock_moves_def)

lemma lock_evolves_trans: "lock_evolves a b \<Longrightarrow> lock_evolves b c \<Longrightarrow> lock_evolves a c"
  by (auto simp: lock_evolves_def lock_moves_def)

lemma lock_evolves_live: "lock_evolves l l' \<Longrightarrow> live_state (lk_state l') \<Longrightarrow> live_state (lk_state l)"
  by (auto simp: lock_evolves_def lock_moves_def live_state_def)

lemma lock_evolves_key: "lock_evolves l l' \<Longrightarrow> lock_key l' = lock_key l"
  by (simp add: lock_evolves_def lock_key_def lock_header_def)

text \<open>The rows of a table that has only been updated: every row evolved, none came or went.\<close>

definition locks_evolve :: "LockRow list \<Rightarrow> LockRow list \<Rightarrow> bool" where
  "locks_evolve = list_all2 lock_evolves"

lemma locks_evolve_update:
  "(\<And>l. P l \<Longrightarrow> lock_evolves l (f l)) \<Longrightarrow> locks_evolve ls (update_where P f ls)"
  by (auto simp: locks_evolve_def update_where_def list_all2_map2 intro: list.rel_refl_strong)

lemma locks_evolve_ok:
  assumes "locks_evolve ls ls'" "seat_locks_ok ls"
  shows "seat_locks_ok ls'"
proof -
  have ids: "map lk_id ls' = map lk_id ls"
    using assms(1) unfolding locks_evolve_def
    by (induction rule: list_all2_induct) (auto simp: lock_evolves_def)
  have sub: "set (map lock_key (live_locks ls')) \<subseteq> set (map lock_key (live_locks ls))"
    if "list_all2 lock_evolves ls ls'" for ls ls'
    using that by (induction rule: list_all2_induct)
      (auto simp: live_locks_def lock_evolves_key dest: lock_evolves_live)
  have "distinct (map lock_key (live_locks ls'))"
    if "list_all2 lock_evolves ls ls'" "distinct (map lock_key (live_locks ls))" for ls ls'
    using that
  proof (induction rule: list_all2_induct)
    case (Cons l ls l' ls')
    show ?case
      using Cons sub [OF Cons.hyps(2)]
      by (auto simp: live_locks_def lock_evolves_key dest: lock_evolves_live split: if_splits)
  qed (simp add: live_locks_def)
  with ids assms show ?thesis by (simp add: seat_locks_ok_def locks_evolve_def)
qed

subsection \<open>Steps\<close>

text \<open>
  The seats and the departure a confirm names are those of the hold it spends: the service layer
  reads the hold, matches the manifest against its seat set, and takes the departure from it.
\<close>

definition hold_locks :: "string \<Rightarrow> Database \<Rightarrow> LockRow list" where
  "hold_locks holdId db = filter (\<lambda>l. lk_hold_id l = Some holdId) (db_seat_locks db)"

definition sale_matches_hold :: "ConfirmParams \<Rightarrow> Database \<Rightarrow> bool" where
  "sale_matches_hold p db \<longleftrightarrow>
     cp_seats p \<noteq> [] \<and> distinct (map sale_seatId (cp_seats p))
     \<and> set (map sale_seatId (cp_seats p)) = lk_seat_id ` set (hold_locks (cp_holdId p) db)
     \<and> list_all (\<lambda>l. lk_service_id l = cp_serviceId p \<and> lk_travel_date l = cp_travelDate p)
         (hold_locks (cp_holdId p) db)"

inductive store_step :: "Database \<Rightarrow> Database \<Rightarrow> bool" where
  step_sweep: "store_step db (fst (sweepExpiredHolds serviceId travelDate nowMs db))"
| step_sweep_services: "store_step db (fst (sweepExpiredHoldsForServices serviceIds travelDate nowMs db))"
| step_acquire: "store_step db (fst (acquireHold drawn p db))"
| step_confirm: "sale_matches_hold q db \<Longrightarrow> store_step db (fst (confirmBooking drawn q db))"
| step_quote: "store_step db (fst (withTransaction (saveRefundQuote quote) db))"
| step_cancel: "store_step db (fst (applyCancellation x db))"
| step_order: "store_step db (updateStoredOrder bookingId order db)"
| step_clear: "store_step db (clear_manifests stale db)"

inductive_cases store_stepE: "store_step db db'"

subsection \<open>What each operation does to the tables\<close>

text \<open>A write either leaves the tables alone or is the transaction it ran.\<close>

lemma withTransaction_cases:
  "(\<exists>e. withTransaction f db = (db, Inl e) \<and> f db = Inl e) \<or>
   (\<exists>db' x. withTransaction f db = (db', Inr x) \<and> f db = Inr (db', x))"
  by (auto simp: withTransaction_def split: sum.splits)

lemma sweep_all:
  "fst (sweepExpiredHolds sid d n db) = fst (sweepExpiredHoldsForServices [sid] d n db)"
  by (simp add: sweepExpiredHolds_def sweepExpiredHoldsForServices_def)

lemma sweep_db:
  "fst (sweepExpiredHoldsForServices sids d n db)
     = db\<lparr>db_seat_locks := update_where (sweepable sids d n) (\<lambda>l. l\<lparr>lk_state := EXPIRED\<rparr>) (db_seat_locks db)\<rparr>"
  by (auto simp: sweepExpiredHoldsForServices_def Let_def update_where_def sweepable_def)

lemma acquire_tx_cases:
  assumes "acquire_tx drawn p db = Inr (db', h)"
  obtains (same) "db' = fst (sweepExpiredHolds (hp_serviceId p) (hp_travelDate p) (hp_nowMs p) db)"
        "findLatestHold (hp_operator p) (hp_identity p) db' = Some h" "holdStatus h (hp_nowMs p) = LIVE"
        "hold_serviceId h = hp_serviceId p" "hold_travelDate h = hp_travelDate p"
        "hold_seatIds h = sort (dedup (hp_seatIds p))"
    | (fresh) db1 holdId where
        "db1 = fst (sweepExpiredHolds (hp_serviceId p) (hp_travelDate p) (hp_nowMs p) db)
         \<or> (\<exists>old. db1 = release_hold old
              (fst (sweepExpiredHolds (hp_serviceId p) (hp_travelDate p) (hp_nowMs p) db)))"
        "findHoldById holdId db1 = None"
        "insert_locks (hold_rows p holdId (sort (dedup (hp_seatIds p)))) db1 = Inr (db', ())"
        "h = \<lparr>hold_holdId = holdId, hold_operator = hp_operator p,
              hold_identity = hp_identity p, hold_serviceId = hp_serviceId p,
              hold_travelDate = hp_travelDate p, hold_seatIds = sort (dedup (hp_seatIds p)),
              hold_state = HELD, hold_expiresAt = hp_nowMs p + hp_ttlSeconds p * 1000,
              hold_createdAt = hp_nowMs p\<rparr>"
  using assms that
  by (auto simp: acquire_tx_def Let_def result_simps split: if_splits prod.splits option.splits)

lemma acquireHold_db:
  "fst (acquireHold drawn p db) = db \<or>
   (\<exists>h. acquire_tx drawn p db = Inr (fst (acquireHold drawn p db), h))"
  using withTransaction_cases [of "acquire_tx drawn p" db] by (auto simp: acquireHold_def)

lemma confirmBooking_db:
  "fst (confirmBooking drawn p db) = db \<or>
   (\<exists>order. confirm_tx drawn p order db = Inr (fst (confirmBooking drawn p db), ()))"
  using withTransaction_cases [of "confirm_tx drawn p order" db for order]
  by (auto simp: confirmBooking_def Let_def split: sum.splits option.splits prod.splits if_splits)
    (metis fst_conv)+

lemma applyCancellation_db:
  "cancel_tx p db = Inr (fst (applyCancellation p db), ())"
  using withTransaction_cases [of "cancel_tx p" db]
  by (auto simp: applyCancellation_def cancel_tx_def Let_def)

subsection \<open>The invariant of the locks\<close>

definition lock_wf :: "LockRow \<Rightarrow> bool" where
  "lock_wf l \<longleftrightarrow> lk_hold_id l \<noteq> None
     \<and> (lk_state l = HELD \<longrightarrow> lk_booking_id l = None \<and> lk_expires_at l \<noteq> None)
     \<and> (lk_state l = BOOKED \<longrightarrow> lk_booking_id l \<noteq> None \<and> lk_expires_at l = None)"

text \<open>
  The rows of one hold have one header, and a hold is never held in part: where one row is
  \<open>HELD\<close> all are, with one expiry.
\<close>

definition holds_coherent :: "LockRow list \<Rightarrow> bool" where
  "holds_coherent ls \<longleftrightarrow> (\<forall>l \<in> set ls. \<forall>m \<in> set ls. lk_hold_id l = lk_hold_id m \<longrightarrow> lock_header l = lock_header m)"

definition holds_uniform :: "LockRow list \<Rightarrow> bool" where
  "holds_uniform ls \<longleftrightarrow> (\<forall>l \<in> set ls. \<forall>m \<in> set ls. lk_hold_id l = lk_hold_id m \<longrightarrow> lk_state l = HELD \<longrightarrow>
     lk_state m = HELD \<and> lk_expires_at m = lk_expires_at l)"

definition hold_seat :: "LockRow \<Rightarrow> string option \<times> string" where
  "hold_seat l = (lk_hold_id l, lk_seat_id l)"

definition locks_inv :: "LockRow list \<Rightarrow> bool" where
  "locks_inv ls \<longleftrightarrow> seat_locks_ok ls \<and> (\<forall>l \<in> set ls. lock_wf l) \<and> holds_coherent ls
     \<and> holds_uniform ls \<and> distinct (map hold_seat ls)"

lemma locks_invD:
  assumes "locks_inv ls"
  shows "seat_locks_ok ls" "l \<in> set ls \<Longrightarrow> lock_wf l"
    "l \<in> set ls \<Longrightarrow> m \<in> set ls \<Longrightarrow> lk_hold_id l = lk_hold_id m \<Longrightarrow> lock_header l = lock_header m"
    "l \<in> set ls \<Longrightarrow> m \<in> set ls \<Longrightarrow> lk_hold_id l = lk_hold_id m \<Longrightarrow> lk_state l = HELD \<Longrightarrow>
       lk_state m = HELD \<and> lk_expires_at m = lk_expires_at l"
    "distinct (map hold_seat ls)"
  using assms unfolding locks_inv_def holds_coherent_def holds_uniform_def by blast+

lemma locks_inv_update:
  assumes inv: "locks_inv ls"
    and ev: "\<And>l. l \<in> set ls \<Longrightarrow> P l \<Longrightarrow> lock_evolves l (f l)"
    and wf: "\<And>l. l \<in> set ls \<Longrightarrow> P l \<Longrightarrow> lock_wf l \<Longrightarrow> lock_wf (f l)"
    and gone: "\<And>l. l \<in> set ls \<Longrightarrow> P l \<Longrightarrow> lk_state (f l) \<noteq> HELD"
    and whole: "\<And>l m. l \<in> set ls \<Longrightarrow> m \<in> set ls \<Longrightarrow> lk_hold_id l = lk_hold_id m \<Longrightarrow>
        lk_state l = HELD \<Longrightarrow> P m \<Longrightarrow> P l"
  shows "locks_inv (update_where P f ls)"
proof -
  note i = locks_invD [OF inv]
  let ?g = "\<lambda>l. if P l then f l else l"
  have g: "lock_evolves l (?g l)" if "l \<in> set ls" for l using ev that by simp
  have ge: "lk_hold_id (?g l) = lk_hold_id l" "lock_header (?g l) = lock_header l"
    "hold_seat (?g l) = hold_seat l" if "l \<in> set ls" for l
    using g [OF that] by (simp_all add: lock_evolves_def hold_seat_def)
  have ev': "locks_evolve ls (update_where P f ls)"
    using g unfolding locks_evolve_def update_where_def list_all2_map2
    by (simp add: list_all2_same)
  have "distinct (map hold_seat (update_where P f ls))"
    using i(5) ge(3) by (simp add: update_where_def comp_def cong: map_cong)
  moreover have "holds_coherent (update_where P f ls)"
    unfolding holds_coherent_def set_update_where
  proof (intro ballI impI)
    fix l m
    assume "l \<in> ?g ` set ls" "m \<in> ?g ` set ls" and h: "lk_hold_id l = lk_hold_id m"
    then obtain a b where a: "a \<in> set ls" "l = ?g a" and b: "b \<in> set ls" "m = ?g b" by blast
    have "lk_hold_id a = lk_hold_id b" using h ge(1) [OF a(1)] ge(1) [OF b(1)] a(2) b(2) by metis
    from i(3) [OF a(1) b(1) this] show "lock_header l = lock_header m"
      using ge(2) [OF a(1)] ge(2) [OF b(1)] a(2) b(2) by metis
  qed
  moreover have "holds_uniform (update_where P f ls)"
    unfolding holds_uniform_def set_update_where
  proof (intro ballI impI)
    fix l m
    assume "l \<in> ?g ` set ls" "m \<in> ?g ` set ls" and h: "lk_hold_id l = lk_hold_id m" and s: "lk_state l = HELD"
    then obtain a b where a: "a \<in> set ls" "l = ?g a" and b: "b \<in> set ls" "m = ?g b" by blast
    have na: "\<not> P a" using gone [OF a(1)] s a(2) by auto
    then have la: "l = a" using a(2) by simp
    have hab: "lk_hold_id a = lk_hold_id b" using h ge(1) [OF a(1)] ge(1) [OF b(1)] a(2) b(2) by metis
    have "\<not> P b" using whole [OF a(1) b(1) hab] na s la by blast
    then show "lk_state m = HELD \<and> lk_expires_at m = lk_expires_at l"
      using i(4) [OF a(1) b(1) hab] s la b(2) by auto
  qed
  moreover have "lock_wf l" if "l \<in> set (update_where P f ls)" for l
    using that i(2) wf by (auto simp: set_update_where split: if_splits)
  ultimately show ?thesis
    using locks_evolve_ok [OF ev' i(1)] by (simp add: locks_inv_def)
qed

lemma locks_inv_sweep:
  assumes "locks_inv ls"
  shows "locks_inv (update_where (sweepable sids d n) (\<lambda>l. l\<lparr>lk_state := EXPIRED\<rparr>) ls)"
proof (rule locks_inv_update [OF assms])
  fix l m assume lm: "l \<in> set ls" "m \<in> set ls" "lk_hold_id l = lk_hold_id m" "lk_state l = HELD"
    "sweepable sids d n m"
  from locks_invD(3,4) [OF assms lm(1-3)] lm(4,5) show "sweepable sids d n l"
    by (simp add: sweepable_def lock_header_def)
qed (auto simp: sweepable_def lock_evolves_def lock_moves_def lock_header_def lock_wf_def)

lemma locks_inv_release:
  assumes "locks_inv (db_seat_locks db)"
  shows "locks_inv (db_seat_locks (release_hold h db))"
  unfolding release_hold_def
  by (simp, rule locks_inv_update [OF assms])
    (auto simp: lock_evolves_def lock_moves_def lock_header_def lock_wf_def)

lemma locks_inv_confirm:
  assumes "locks_inv ls"
  shows "locks_inv (update_where (held_in h)
     (\<lambda>l. l\<lparr>lk_state := BOOKED, lk_booking_id := Some i, lk_expires_at := None\<rparr>) ls)"
  by (rule locks_inv_update [OF assms])
    (auto simp: held_in_def lock_evolves_def lock_moves_def lock_header_def lock_wf_def)

lemma locks_inv_cancel:
  assumes "locks_inv ls"
  shows "locks_inv (update_where (\<lambda>l. lk_booking_id l = b \<and> lk_seat_id l = s \<and> lk_state l = BOOKED)
     (\<lambda>l. l\<lparr>lk_state := RELEASED\<rparr>) ls)"
  by (rule locks_inv_update [OF assms])
    (auto simp: lock_evolves_def lock_moves_def lock_header_def lock_wf_def
      dest: locks_invD(4) [OF assms])

lemma findHoldById_None:
  "findHoldById h db = None \<longleftrightarrow> (\<forall>l \<in> set (db_seat_locks db). lk_hold_id l \<noteq> Some h)"
  by (auto simp: findHoldById_def Let_def filter_empty_conv simp flip: length_0_conv [of "sort_key _ _"])

lemma hold_rows_facts:
  assumes "l \<in> set (hold_rows p h ids)"
  shows "lk_hold_id l = Some h" "lk_state l = HELD" "lk_booking_id l = None"
    "lk_expires_at l = Some (hp_nowMs p + hp_ttlSeconds p * 1000)" "lk_seat_id l \<in> set ids"
    "lock_header l = (hp_operator p, ri_bapId (hp_identity p), ri_bapUri (hp_identity p),
       ri_transactionId (hp_identity p), hp_serviceId p, hp_travelDate p, hp_nowMs p)"
  using assms by (auto simp: hold_rows_def lock_header_def in_set_enumerate_eq)

lemma hold_rows_seats: "map lk_seat_id (hold_rows p h ids) = ids"
  by (simp add: hold_rows_def comp_def case_prod_unfold)

lemma locks_inv_insert:
  assumes "locks_inv (db_seat_locks db)" "findHoldById h db = None" "distinct ids"
    and "insert_locks (hold_rows p h ids) db = Inr (db', u)"
  shows "locks_inv (db_seat_locks db')"
proof -
  let ?ls = "db_seat_locks db" and ?rs = "hold_rows p h ids"
  have db': "db_seat_locks db' = ?ls @ ?rs" "seat_locks_ok (?ls @ ?rs)"
    using assms(4) by (auto simp: insert_locks_def split: if_splits)
  note i = locks_invD [OF assms(1)] and r = hold_rows_facts [of _ p h ids]
  have new: "lk_hold_id l \<noteq> Some h" if "l \<in> set ?ls" for l
    using assms(2) that by (simp add: findHoldById_None)
  have "distinct (map lk_seat_id ?rs)" using assms(3) by (simp add: hold_rows_seats)
  then have "distinct (map hold_seat ?rs)"
    by (auto simp: distinct_map inj_on_def hold_seat_def)
  moreover have "hold_seat ` set ?ls \<inter> hold_seat ` set ?rs = {}"
    using new r(1) by (fastforce simp: hold_seat_def)
  ultimately have "distinct (map hold_seat (?ls @ ?rs))" using i(5) by simp
  moreover have "holds_coherent (?ls @ ?rs)"
    using i(3) new r(1,6) unfolding holds_coherent_def by (metis Un_iff set_append)
  moreover have "holds_uniform (?ls @ ?rs)"
    using i(4) new r(1,2,4) unfolding holds_uniform_def by (metis Un_iff set_append)
  moreover have "\<forall>l \<in> set (?ls @ ?rs). lock_wf l"
    using i(2) r(1-4) by (auto simp: lock_wf_def)
  ultimately show ?thesis using db' by (simp add: locks_inv_def)
qed

subsection \<open>Keys and references\<close>

definition tables_inv :: "Database \<Rightarrow> bool" where
  "tables_inv db \<longleftrightarrow> bookings_ok (db_bookings db) \<and> booking_seats_ok (db_booking_seats db)
     \<and> sr_booking_id ` set (db_booking_seats db) \<subseteq> bk_id ` set (db_bookings db)
     \<and> distinct (map rq_id (db_refund_quotes db))
     \<and> rq_bookingId ` set (db_refund_quotes db) \<subseteq> bk_id ` set (db_bookings db)
     \<and> (\<forall>l \<in> set (db_seat_locks db). \<forall>i. lk_booking_id l = Some i \<longrightarrow> i \<in> bk_id ` set (db_bookings db))"

subsection \<open>Sold seats and their locks\<close>

definition sells :: "LockRow \<Rightarrow> SeatRow \<Rightarrow> bool" where
  "sells l s \<longleftrightarrow> lk_state l = BOOKED \<and> lk_booking_id l = Some (sr_booking_id s)
     \<and> lk_seat_id l = sr_seat_id s"

text \<open>
  A confirmed seat of a booking has its booked lock, a booked lock has its confirmed seat, and
  the lock is on the booking's departure.
\<close>

definition sold_inv :: "Database \<Rightarrow> bool" where
  "sold_inv db \<longleftrightarrow>
     (\<forall>s \<in> set (db_booking_seats db). sr_status s = CONFIRMED \<longrightarrow> (\<exists>l \<in> set (db_seat_locks db). sells l s))
     \<and> (\<forall>l \<in> set (db_seat_locks db). lk_state l = BOOKED \<longrightarrow>
          (\<exists>s \<in> set (db_booking_seats db). sr_status s = CONFIRMED \<and> sells l s))
     \<and> (\<forall>l \<in> set (db_seat_locks db). \<forall>b \<in> set (db_bookings db). lk_booking_id l = Some (bk_id b) \<longrightarrow>
          lk_service_id l = bk_service_id b \<and> lk_travel_date l = bk_travel_date b)"

lemma sold_invD:
  assumes "sold_inv db"
  shows "s \<in> set (db_booking_seats db) \<Longrightarrow> sr_status s = CONFIRMED \<Longrightarrow>
      \<exists>l \<in> set (db_seat_locks db). sells l s"
    and "l \<in> set (db_seat_locks db) \<Longrightarrow> lk_state l = BOOKED \<Longrightarrow>
      \<exists>s \<in> set (db_booking_seats db). sr_status s = CONFIRMED \<and> sells l s"
    and "l \<in> set (db_seat_locks db) \<Longrightarrow> b \<in> set (db_bookings db) \<Longrightarrow> lk_booking_id l = Some (bk_id b) \<Longrightarrow>
      lk_service_id l = bk_service_id b \<and> lk_travel_date l = bk_travel_date b"
  using assms unfolding sold_inv_def by blast+

lemma sold_invI:
  assumes "\<And>s. s \<in> set (db_booking_seats db) \<Longrightarrow> sr_status s = CONFIRMED \<Longrightarrow>
      \<exists>l \<in> set (db_seat_locks db). sells l s"
    and "\<And>l. l \<in> set (db_seat_locks db) \<Longrightarrow> lk_state l = BOOKED \<Longrightarrow>
      \<exists>s \<in> set (db_booking_seats db). sr_status s = CONFIRMED \<and> sells l s"
    and "\<And>l b. l \<in> set (db_seat_locks db) \<Longrightarrow> b \<in> set (db_bookings db) \<Longrightarrow> lk_booking_id l = Some (bk_id b) \<Longrightarrow>
      lk_service_id l = bk_service_id b \<and> lk_travel_date l = bk_travel_date b"
  shows "sold_inv db"
  using assms unfolding sold_inv_def by blast

text \<open>An update of locks that are only held leaves every sold seat where it was.\<close>

lemma held_update_sold:
  assumes P: "\<And>l. P l \<Longrightarrow> lk_state l = HELD" and t: "t \<noteq> BOOKED" and inv: "sold_inv db"
  shows "sold_inv (db\<lparr>db_seat_locks := update_where P (\<lambda>l. l\<lparr>lk_state := t\<rparr>) (db_seat_locks db)\<rparr>)"
    (is "sold_inv ?db")
proof -
  have keep: "l \<in> set (db_seat_locks ?db)" if "l \<in> set (db_seat_locks db)" "lk_state l = BOOKED" for l
    using that P [of l] by (auto simp: set_update_where image_iff intro!: bexI [of _ l])
  have rev_keep: "l \<in> set (db_seat_locks db)" if "l \<in> set (db_seat_locks ?db)" "lk_state l = BOOKED" for l
    using that t by (auto simp: set_update_where split: if_splits)
  note d = sold_invD [OF inv]
  show ?thesis
  proof (rule sold_invI)
    fix s assume "s \<in> set (db_booking_seats ?db)" "sr_status s = CONFIRMED"
    with d(1) [of s] keep show "\<exists>l \<in> set (db_seat_locks ?db). sells l s"
      unfolding sells_def by auto
  next
    fix l assume "l \<in> set (db_seat_locks ?db)" "lk_state l = BOOKED"
    with d(2) [of l] rev_keep show "\<exists>s \<in> set (db_booking_seats ?db). sr_status s = CONFIRMED \<and> sells l s"
      by auto
  qed (use d(3) in \<open>auto simp: set_update_where split: if_splits\<close>)
qed

lemma held_update_tables:
  "tables_inv db \<Longrightarrow>
   tables_inv (db\<lparr>db_seat_locks := update_where P (\<lambda>l. l\<lparr>lk_state := t\<rparr>) (db_seat_locks db)\<rparr>)"
  by (auto simp: tables_inv_def set_update_where)

lemma insert_held_sold:
  assumes "sold_inv db" "\<And>l. l \<in> set rs \<Longrightarrow> lk_state l = HELD \<and> lk_booking_id l = None"
  shows "sold_inv (db\<lparr>db_seat_locks := db_seat_locks db @ rs\<rparr>)"
  using assms unfolding sold_inv_def by (auto; fastforce)

lemma insert_held_tables:
  assumes "tables_inv db" "\<And>l. l \<in> set rs \<Longrightarrow> lk_booking_id l = None"
  shows "tables_inv (db\<lparr>db_seat_locks := db_seat_locks db @ rs\<rparr>)"
  using assms by (auto simp: tables_inv_def)

subsection \<open>The money of a booking\<close>

definition booking_money :: "SeatRow list \<Rightarrow> BookingRow \<Rightarrow> bool" where
  "booking_money ss b \<longleftrightarrow>
     bk_base_paise b = sum_list (map sr_base_paise ss)
     \<and> bk_reservation_fee_paise b = sum_list (map sr_reservation_fee_paise ss)
     \<and> bk_toll_paise b = sum_list (map sr_toll_paise ss)
     \<and> (case bk_refund_paise b of None \<Rightarrow> \<forall>s \<in> set ss. sr_status s = CONFIRMED
        | Some r \<Rightarrow> r = sum_list (map refund_value ss))
     \<and> (bk_status b = CANCELLED \<longleftrightarrow> (\<forall>s \<in> set ss. sr_status s = CANCELLED))"

definition money_inv :: "Database \<Rightarrow> bool" where
  "money_inv db \<longleftrightarrow> (\<forall>b \<in> set (db_bookings db). booking_money (seats_of (bk_id b) db) b)
     \<and> (\<forall>s \<in> set (db_booking_seats db). sr_status s = CONFIRMED \<longrightarrow> sr_refund_paise s = None)"

definition store_inv :: "Database \<Rightarrow> bool" where
  "store_inv db \<longleftrightarrow> locks_inv (db_seat_locks db) \<and> tables_inv db \<and> sold_inv db \<and> money_inv db"

lemma seats_of_bookings [simp]: "seats_of i (db\<lparr>db_bookings := x\<rparr>) = seats_of i db"
  by (simp add: seats_of_def)

lemma money_inv_locks [simp]: "money_inv (db\<lparr>db_seat_locks := x\<rparr>) = money_inv db"
  by (simp add: money_inv_def seats_of_def)

lemma store_inv_empty: "store_inv empty_db"
  by (simp add: store_inv_def empty_db_def locks_inv_def seat_locks_ok_def live_locks_def
      holds_coherent_def holds_uniform_def tables_inv_def bookings_ok_def booking_seats_ok_def
      sold_inv_def money_inv_def)

subsection \<open>Every write keeps the invariant\<close>

lemma store_inv_sweep:
  "store_inv db \<Longrightarrow> store_inv (fst (sweepExpiredHoldsForServices sids d n db))"
  unfolding sweep_db
  by (auto simp: store_inv_def sweepable_def intro: locks_inv_sweep held_update_sold held_update_tables)

lemma store_inv_release: "store_inv db \<Longrightarrow> store_inv (release_hold h db)"
  using locks_inv_release [of db h]
  by (auto simp: store_inv_def release_hold_def intro: held_update_sold held_update_tables)

lemma store_inv_insert_hold:
  assumes "store_inv db" "findHoldById h db = None" "distinct ids"
    and "insert_locks (hold_rows p h ids) db = Inr (db', u)"
  shows "store_inv db'"
proof -
  have "db' = db\<lparr>db_seat_locks := db_seat_locks db @ hold_rows p h ids\<rparr>"
    using assms(4) by (auto simp: insert_locks_def split: if_splits)
  moreover have "locks_inv (db_seat_locks db')"
    using assms locks_inv_insert by (auto simp: store_inv_def)
  ultimately show ?thesis
    using assms(1) hold_rows_facts(2,3) [of _ p h ids]
    by (auto simp: store_inv_def intro: insert_held_sold insert_held_tables)
qed

lemma store_inv_acquire:
  assumes "store_inv db"
  shows "store_inv (fst (acquireHold drawn p db))"
proof (cases "fst (acquireHold drawn p db) = db")
  case False
  then obtain h where "acquire_tx drawn p db = Inr (fst (acquireHold drawn p db), h)"
    using acquireHold_db by blast
  then show ?thesis
    by (cases rule: acquire_tx_cases)
      (auto simp: sweep_all intro: store_inv_sweep [OF assms]
        store_inv_insert_hold [rotated 3] store_inv_release [OF store_inv_sweep [OF assms]])
qed (use assms in simp)

text \<open>A confirm that commits: the three inserts and the locks it moved.\<close>

lemma confirm_tx_ok:
  assumes "confirm_tx drawn p order db = Inr (db', u)" "cp_seats p \<noteq> []"
  shows "db' = db\<lparr>db_seat_locks := update_where (held_in (cp_holdId p))
             (\<lambda>l. l\<lparr>lk_state := BOOKED, lk_booking_id := Some (order_id (cp_operator p) drawn),
                    lk_expires_at := None\<rparr>) (db_seat_locks db),
           db_bookings := db_bookings db @ [booking_row p drawn order],
           db_booking_seats := db_booking_seats db
             @ map (sale_row (order_id (cp_operator p) drawn)) (cp_seats p)\<rparr>"
    and "changes (held_in (cp_holdId p)) (db_seat_locks db) = length (cp_seats p)"
    and "bookings_ok (db_bookings db')" "booking_seats_ok (db_booking_seats db')"
  using assms
  by (auto simp: confirm_tx_def insert_booking_def insert_seats_def Let_def result_simps split: if_splits)

lemma fresh_booking:
  assumes "bookings_ok (bs @ [b])"
  shows "bk_id b \<notin> bk_id ` set bs"
  using assms by (auto simp: bookings_ok_def)

text \<open>A hold that moved at all moved whole: every row of it was held.\<close>

lemma confirm_moves_whole_hold:
  assumes "locks_inv ls" "changes (held_in h) ls = n" "0 < n" "l \<in> set ls" "lk_hold_id l = Some h"
  shows "held_in h l"
proof -
  obtain m where "m \<in> set ls" "held_in h m"
    using assms(2,3) by (auto simp: changes_def filter_empty_conv)
  with locks_invD(4) [OF assms(1), of m l] assms(4,5) show ?thesis by (auto simp: held_in_def)
qed

lemma sale_row_simps [simp]:
  "sr_booking_id (sale_row i q) = i" "sr_seat_id (sale_row i q) = sale_seatId q"
  "sr_status (sale_row i q) = CONFIRMED" "sr_refund_paise (sale_row i q) = None"
  "sr_base_paise (sale_row i q) = sale_basePaise q"
  "sr_reservation_fee_paise (sale_row i q) = sale_reservationFeePaise q"
  "sr_toll_paise (sale_row i q) = sale_tollPaise q"
  by (simp_all add: sale_row_def)

lemma sold_inv_confirm:
  assumes inv: "store_inv db" and match: "sale_matches_hold p db"
    and tx: "confirm_tx drawn p order db = Inr (db', u)"
  shows "sold_inv db'"
proof -
  let ?i = "order_id (cp_operator p) drawn"
  let ?P = "held_in (cp_holdId p)"
  let ?f = "\<lambda>l. l\<lparr>lk_state := BOOKED, lk_booking_id := Some ?i, lk_expires_at := None\<rparr>"
  have ne: "cp_seats p \<noteq> []" using match by (simp add: sale_matches_hold_def)
  note ok = confirm_tx_ok [OF tx ne]
  have L: "locks_inv (db_seat_locks db)" and T: "tables_inv db" and S: "sold_inv db"
    using inv by (simp_all add: store_inv_def)
  have fresh: "?i \<notin> bk_id ` set (db_bookings db)"
    using fresh_booking [of "db_bookings db" "booking_row p drawn order"] ok(1,3)
    by (simp add: booking_row_def)
  have all: "?P l" if "l \<in> set (db_seat_locks db)" "lk_hold_id l = Some (cp_holdId p)" for l
    using confirm_moves_whole_hold [OF L ok(2) _ that] ne by simp
  have seats: "sale_seatId ` set (cp_seats p) = lk_seat_id ` {l \<in> set (db_seat_locks db). ?P l}"
    using match all by (auto simp: sale_matches_hold_def hold_locks_def held_in_def)
  note d = sold_invD [OF S]
  have notin: "lk_booking_id l \<noteq> Some ?i" if "l \<in> set (db_seat_locks db)" for l
    using T fresh that unfolding tables_inv_def by blast
  show ?thesis
  proof (rule sold_invI)
    fix s assume s: "s \<in> set (db_booking_seats db')" "sr_status s = CONFIRMED"
    then consider (old) "s \<in> set (db_booking_seats db)" | (new) q where "q \<in> set (cp_seats p)" "s = sale_row ?i q"
      using ok(1) by auto
    then show "\<exists>l \<in> set (db_seat_locks db'). sells l s"
    proof cases
      case old
      with d(1) s(2) obtain l where l: "l \<in> set (db_seat_locks db)" "sells l s" by blast
      then have "\<not> ?P l" by (auto simp: sells_def held_in_def)
      with l have "l \<in> set (db_seat_locks db')" by (auto simp: ok(1) set_update_where image_iff intro!: bexI [of _ l])
      with l(2) show ?thesis by blast
    next
      case new
      have "sale_seatId q \<in> lk_seat_id ` {l \<in> set (db_seat_locks db). ?P l}" using seats new(1) by blast
      then obtain l where l: "l \<in> set (db_seat_locks db)" "?P l" "lk_seat_id l = sale_seatId q" by auto
      then have "?f l \<in> set (db_seat_locks db')" by (auto simp: ok(1) set_update_where intro!: image_eqI [of _ _ l])
      moreover have "sells (?f l) s" using l(3) new(2) by (simp add: sells_def)
      ultimately show ?thesis by blast
    qed
  next
    fix l assume l: "l \<in> set (db_seat_locks db')" "lk_state l = BOOKED"
    then obtain m where m: "m \<in> set (db_seat_locks db)" "l = (if ?P m then ?f m else m)"
      by (auto simp: ok(1) set_update_where)
    show "\<exists>s \<in> set (db_booking_seats db'). sr_status s = CONFIRMED \<and> sells l s"
    proof (cases "?P m")
      case True
      with seats m(1) obtain q where "q \<in> set (cp_seats p)" "sale_seatId q = lk_seat_id m" by (metis (mono_tags, lifting) image_iff mem_Collect_eq)
      with True m(2) show ?thesis
        by (auto simp: ok(1) sells_def intro!: bexI [of _ "sale_row ?i q"])
    next
      case False
      with m l(2) d(2) [of m] show ?thesis by (auto simp: ok(1))
    qed
  next
    fix l b assume l: "l \<in> set (db_seat_locks db')" "b \<in> set (db_bookings db')" "lk_booking_id l = Some (bk_id b)"
    then obtain m where m: "m \<in> set (db_seat_locks db)" "l = (if ?P m then ?f m else m)"
      by (auto simp: ok(1) set_update_where)
    show "lk_service_id l = bk_service_id b \<and> lk_travel_date l = bk_travel_date b"
    proof (cases "?P m")
      case True
      then have "bk_id b = ?i" using l(3) m(2) by simp
      then have "b \<notin> set (db_bookings db)" using fresh by (metis imageI)
      then have "b = booking_row p drawn order" using l(2) ok(1) by simp
      with True m match show ?thesis
        by (auto simp: sale_matches_hold_def hold_locks_def list_all_iff held_in_def booking_row_def)
    next
      case False
      then have lm: "l = m" using m by simp
      then have "bk_id b \<noteq> ?i" using notin [OF m(1)] l(3) by auto
      then have "b \<in> set (db_bookings db)" using l(2) ok(1) by (auto simp: booking_row_def)
      then show ?thesis using d(3) [OF m(1)] l(3) lm by blast
    qed
  qed
qed

lemma seats_of_absent:
  assumes "tables_inv db" "i \<notin> bk_id ` set (db_bookings db)"
  shows "seats_of i db = []"
proof -
  have "sr_booking_id ` set (db_booking_seats db) \<subseteq> bk_id ` set (db_bookings db)"
    using assms(1) by (simp add: tables_inv_def)
  then show ?thesis using assms(2) unfolding seats_of_def filter_empty_conv by blast
qed

lemma money_inv_confirm:
  assumes inv: "store_inv db" and ne: "cp_seats p \<noteq> []"
    and tx: "confirm_tx drawn p order db = Inr (db', u)"
  shows "money_inv db'"
proof -
  let ?i = "order_id (cp_operator p) drawn"
  let ?b = "booking_row p drawn order"
  note ok = confirm_tx_ok [OF tx ne]
  have M: "money_inv db" and T: "tables_inv db" using inv by (simp_all add: store_inv_def)
  have fresh: "?i \<notin> bk_id ` set (db_bookings db)"
    using fresh_booking [of "db_bookings db" ?b] ok(1,3) by (simp add: booking_row_def)
  then have none: "seats_of ?i db = []"
    using seats_of_absent [OF T] by simp
  have "seats_of ?i db' = map (sale_row ?i) (cp_seats p)"
    using none by (simp add: seats_of_def ok(1))
  then have "booking_money (seats_of (bk_id ?b) db') ?b"
    using ne by (simp add: booking_money_def booking_row_def foldl_acc_sum comp_def)
  moreover have "seats_of (bk_id b) db' = seats_of (bk_id b) db" if "b \<in> set (db_bookings db)" for b
  proof -
    have "bk_id b \<noteq> ?i" using that fresh by (metis imageI)
    then show ?thesis by (auto simp: seats_of_def ok(1) filter_empty_conv)
  qed
  ultimately show ?thesis
    using M ok(1) by (auto simp: money_inv_def)
qed

lemma store_inv_confirm:
  assumes "store_inv db" "sale_matches_hold p db"
  shows "store_inv (fst (confirmBooking drawn p db))"
proof (cases "fst (confirmBooking drawn p db) = db")
  case False
  then obtain order where tx: "confirm_tx drawn p order db = Inr (fst (confirmBooking drawn p db), ())"
    using confirmBooking_db by blast
  have ne: "cp_seats p \<noteq> []" using assms(2) by (simp add: sale_matches_hold_def)
  note ok = confirm_tx_ok [OF tx ne]
  have L: "locks_inv (db_seat_locks db)" and T: "tables_inv db" using assms by (simp_all add: store_inv_def)
  have "tables_inv (fst (confirmBooking drawn p db))"
    using T ok(3,4) unfolding tables_inv_def ok(1)
    by (auto simp: set_update_where booking_row_def)
  moreover have "locks_inv (db_seat_locks (fst (confirmBooking drawn p db)))"
    unfolding ok(1) using locks_inv_confirm [OF L] by simp
  ultimately show ?thesis
    using sold_inv_confirm [OF assms tx] money_inv_confirm [OF assms(1) ne tx] by (simp add: store_inv_def)
qed (use assms in simp)

text \<open>
  Cancelling a seat keeps everything but the roll-up of its booking, which the last statement of
  the transaction writes.
\<close>

definition store_inv_but_money :: "Database \<Rightarrow> bool" where
  "store_inv_but_money db \<longleftrightarrow> locks_inv (db_seat_locks db) \<and> tables_inv db \<and> sold_inv db"

definition seat_evolves :: "SeatRow \<Rightarrow> SeatRow \<Rightarrow> bool" where
  "seat_evolves s t \<longleftrightarrow> seat_key t = seat_key s \<and> sr_base_paise t = sr_base_paise s
     \<and> sr_reservation_fee_paise t = sr_reservation_fee_paise s \<and> sr_toll_paise t = sr_toll_paise s
     \<and> (t = s \<or> sr_status t = CANCELLED)"

definition cancelled_row :: "CancelParams \<Rightarrow> string \<Rightarrow> SeatRow \<Rightarrow> SeatRow" where
  "cancelled_row p seatId s =
     (if sr_booking_id s = xp_bookingId p \<and> sr_seat_id s = seatId \<and> sr_status s = CONFIRMED
      then s\<lparr>sr_status := CANCELLED, sr_cancelled_at := Some (xp_nowMs p),
             sr_refund_paise := Some (case xp_refundBySeat p seatId of None \<Rightarrow> 0 | Some r \<Rightarrow> r),
             sr_slab_code := Some (xp_slabCode p)\<rparr>
      else s)"

lemma cancel_seat_seats:
  "db_booking_seats (cancel_seat p seatId db) = map (cancelled_row p seatId) (db_booking_seats db)"
  by (simp add: cancel_seat_def update_where_def cancelled_row_def)

lemma cancelled_row_simps [simp]:
  "sr_booking_id (cancelled_row p x s) = sr_booking_id s"
  "sr_seat_id (cancelled_row p x s) = sr_seat_id s"
  "seat_key (cancelled_row p x s) = seat_key s"
  "sr_base_paise (cancelled_row p x s) = sr_base_paise s"
  "sr_reservation_fee_paise (cancelled_row p x s) = sr_reservation_fee_paise s"
  "sr_toll_paise (cancelled_row p x s) = sr_toll_paise s"
  by (simp_all add: cancelled_row_def seat_key_def)

lemma cancel_seat_sold:
  assumes "sold_inv db"
  shows "sold_inv (cancel_seat p x db)" (is "sold_inv ?db")
proof -
  let ?P = "\<lambda>l. lk_booking_id l = Some (xp_bookingId p) \<and> lk_seat_id l = x \<and> lk_state l = BOOKED"
  let ?g = "\<lambda>l. if ?P l then l\<lparr>lk_state := RELEASED\<rparr> else l"
  note d = sold_invD [OF assms]
  have locks: "set (db_seat_locks ?db) = ?g ` set (db_seat_locks db)"
    by (simp add: cancel_seat_def set_update_where)
  have keep: "l \<in> set (db_seat_locks ?db)" if "l \<in> set (db_seat_locks db)" "\<not> ?P l" for l
    unfolding locks using that by (auto simp: image_iff intro!: bexI [of _ l])
  have lock_of: "l \<in> set (db_seat_locks db) \<and> \<not> ?P l" if "l \<in> set (db_seat_locks ?db)" "lk_state l = BOOKED" for l
    using that unfolding locks by (auto split: if_splits)
  show ?thesis
  proof (rule sold_invI)
    fix s assume "s \<in> set (db_booking_seats ?db)" and c: "sr_status s = CONFIRMED"
    then obtain t where t: "t \<in> set (db_booking_seats db)" "s = cancelled_row p x t"
      by (auto simp: cancel_seat_seats)
    then have st: "s = t" "\<not> (sr_booking_id t = xp_bookingId p \<and> sr_seat_id t = x)"
      using c by (auto simp: cancelled_row_def split: if_splits)
    with d(1) [OF t(1)] c obtain l where l: "l \<in> set (db_seat_locks db)" "sells l s" by auto
    then have "\<not> ?P l" using st by (auto simp: sells_def)
    with l keep show "\<exists>l \<in> set (db_seat_locks ?db). sells l s" by blast
  next
    fix l assume l: "l \<in> set (db_seat_locks ?db)" "lk_state l = BOOKED"
    with lock_of d(2) [of l] obtain s where s: "s \<in> set (db_booking_seats db)" "sr_status s = CONFIRMED" "sells l s"
      by blast
    then have "cancelled_row p x s = s"
      using lock_of [OF l] by (auto simp: cancelled_row_def sells_def)
    with s show "\<exists>s \<in> set (db_booking_seats ?db). sr_status s = CONFIRMED \<and> sells l s"
      by (auto simp: cancel_seat_seats intro!: bexI [of _ s] image_eqI [of _ _ s])
  next
    fix l b assume "l \<in> set (db_seat_locks ?db)" "b \<in> set (db_bookings ?db)" "lk_booking_id l = Some (bk_id b)"
    then show "lk_service_id l = bk_service_id b \<and> lk_travel_date l = bk_travel_date b"
      using d(3) unfolding locks by (auto simp: cancel_seat_def split: if_splits)
  qed
qed

lemma cancel_seat_inv:
  assumes "store_inv_but_money db"
  shows "store_inv_but_money (cancel_seat p x db)"
proof -
  have "tables_inv (cancel_seat p x db)"
    using assms unfolding store_inv_but_money_def tables_inv_def booking_seats_ok_def cancel_seat_seats
    by (auto simp: cancel_seat_def set_update_where comp_def)
  then show ?thesis
    using assms cancel_seat_sold [of db p x] locks_inv_cancel [of "db_seat_locks db"]
    by (auto simp: store_inv_but_money_def cancel_seat_def)
qed

lemma cancel_fold:
  fixes ids :: "string list" and p :: CancelParams
  defines "run \<equiv> \<lambda>db. foldl (\<lambda>d x. cancel_seat p x d) db ids"
  shows "store_inv_but_money db \<Longrightarrow> store_inv_but_money (run db)"
    and "db_bookings (run db) = db_bookings db"
    and "list_all2 seat_evolves (db_booking_seats db) (db_booking_seats (run db))"
    and "i \<noteq> xp_bookingId p \<Longrightarrow> seats_of i (run db) = seats_of i db"
    and "(\<forall>s \<in> set (db_booking_seats db). sr_status s = CONFIRMED \<longrightarrow> sr_refund_paise s = None) \<Longrightarrow>
         (\<forall>s \<in> set (db_booking_seats (run db)). sr_status s = CONFIRMED \<longrightarrow> sr_refund_paise s = None)"
proof -
  have one: "list_all2 seat_evolves ss (map (cancelled_row p x) ss)" for x ss
    by (simp add: list_all2_map2 list_all2_same seat_evolves_def) (simp add: cancelled_row_def)
  have trans: "list_all2 seat_evolves a c" if "list_all2 seat_evolves a b" "list_all2 seat_evolves b c" for a b c
    by (rule list_all2_trans [OF _ that]) (auto simp: seat_evolves_def)
  have refl: "list_all2 seat_evolves a a" for a by (simp add: list_all2_same seat_evolves_def)
  have other: "filter (\<lambda>s. sr_booking_id s = i) (map (cancelled_row p x) ss) = filter (\<lambda>s. sr_booking_id s = i) ss"
    if "i \<noteq> xp_bookingId p" for x ss
    using that by (induction ss) (auto simp: cancelled_row_def)
  show "store_inv_but_money db \<Longrightarrow> store_inv_but_money (run db)"
    unfolding run_def by (induction ids arbitrary: db) (auto intro: cancel_seat_inv)
  show "db_bookings (run db) = db_bookings db"
    unfolding run_def by (induction ids arbitrary: db) (auto simp: cancel_seat_def)
  show "list_all2 seat_evolves (db_booking_seats db) (db_booking_seats (run db))"
    unfolding run_def
    by (induction ids arbitrary: db) (use refl one trans in \<open>auto simp: cancel_seat_seats\<close>, metis cancel_seat_seats)
  show "i \<noteq> xp_bookingId p \<Longrightarrow> seats_of i (run db) = seats_of i db"
    unfolding run_def by (induction ids arbitrary: db) (simp_all add: seats_of_def cancel_seat_seats other)
  show "(\<forall>s \<in> set (db_booking_seats db). sr_status s = CONFIRMED \<longrightarrow> sr_refund_paise s = None) \<Longrightarrow>
         (\<forall>s \<in> set (db_booking_seats (run db)). sr_status s = CONFIRMED \<longrightarrow> sr_refund_paise s = None)"
    unfolding run_def
  proof (induction ids arbitrary: db)
    case (Cons x xs)
    show ?case
      using Cons.prems by (simp, intro Cons.IH) (auto simp: cancel_seat_seats cancelled_row_def)
  qed simp
qed

text \<open>
  Updates of a booking that keep its key and departure keep the locks and the seats consistent,
  and updates of a seat's passenger leave its key, price and status alone.
\<close>

definition same_booking :: "BookingRow \<Rightarrow> BookingRow \<Rightarrow> bool" where
  "same_booking b c \<longleftrightarrow> bk_id c = bk_id b \<and> bk_reference c = bk_reference b \<and> booking_key c = booking_key b
     \<and> bk_service_id c = bk_service_id b \<and> bk_travel_date c = bk_travel_date b
     \<and> bk_base_paise c = bk_base_paise b \<and> bk_reservation_fee_paise c = bk_reservation_fee_paise b
     \<and> bk_toll_paise c = bk_toll_paise b"

lemma update_bookings_inv:
  assumes inv: "store_inv_but_money db" and f: "\<And>b. same_booking b (f b)"
  shows "store_inv_but_money (db\<lparr>db_bookings := update_where P f (db_bookings db)\<rparr>)"
proof -
  have m: "map k (update_where P f bs) = map k bs" if "\<And>b. k (f b) = k b" for k bs
    using that by (simp add: map_update_where)
  have ids: "bk_id ` set (update_where P f (db_bookings db)) = bk_id ` set (db_bookings db)"
    using arg_cong [OF m [of bk_id "db_bookings db"], of set] f by (simp add: same_booking_def)
  have "bookings_ok (update_where P f (db_bookings db)) = bookings_ok (db_bookings db)"
    unfolding bookings_ok_def using f by (simp add: m same_booking_def)
  then have "tables_inv (db\<lparr>db_bookings := update_where P f (db_bookings db)\<rparr>)"
    using inv by (simp add: store_inv_but_money_def tables_inv_def ids)
  moreover have "sold_inv (db\<lparr>db_bookings := update_where P f (db_bookings db)\<rparr>)"
    using inv f unfolding store_inv_but_money_def sold_inv_def same_booking_def
    by (auto simp: set_update_where)
  ultimately show ?thesis using inv by (simp add: store_inv_but_money_def)
qed

lemma cancel_totals:
  assumes "list_all2 seat_evolves ss tt"
  shows "map sr_base_paise tt = map sr_base_paise ss"
    and "map sr_reservation_fee_paise tt = map sr_reservation_fee_paise ss"
    and "map sr_toll_paise tt = map sr_toll_paise ss"
  using assms by (induction rule: list_all2_induct) (auto simp: seat_evolves_def)

lemma seats_of_evolve:
  assumes "list_all2 seat_evolves (db_booking_seats db) (db_booking_seats db')"
  shows "list_all2 seat_evolves (seats_of i db) (seats_of i db')"
  using assms unfolding seats_of_def
  by (induction rule: list_all2_induct) (auto simp: seat_evolves_def seat_key_def)

lemma seat_evolves_confirmed: "seat_evolves s t \<Longrightarrow> sr_status t = CONFIRMED \<Longrightarrow> t = s"
  by (auto simp: seat_evolves_def)

text \<open>The roll-up that ends a cancellation restores the money of its booking.\<close>

lemma rollup_money:
  assumes "booking_money ss a" "list_all2 seat_evolves ss tt"
  shows "booking_money tt (a\<lparr>bk_status := (if length (filter (\<lambda>s. sr_status s = CONFIRMED) tt) = 0
       then CANCELLED else CONFIRMED), bk_cancelled_at := c, bk_refund_paise := Some (sum_list (map refund_value tt)),
       bk_slab_code := k\<rparr>)"
proof -
  have "(\<forall>s \<in> set tt. sr_status s = CANCELLED) \<longleftrightarrow> filter (\<lambda>s. sr_status s = CONFIRMED) tt = []"
    by (simp add: filter_empty_conv) (metis BookingStatus.exhaust BookingStatus.distinct(1))
  then show ?thesis
    using assms(1) cancel_totals [OF assms(2)] by (simp add: booking_money_def)
qed

lemma store_inv_cancel:
  assumes inv: "store_inv db"
  shows "store_inv (fst (applyCancellation p db))"
proof -
  let ?d = "foldl (\<lambda>d x. cancel_seat p x d) db (xp_seatIds p)"
  let ?n = "length (filter (\<lambda>s. sr_status s = CONFIRMED) (seats_of (xp_bookingId p) ?d))"
  let ?f = "\<lambda>b. b\<lparr>bk_status := (if ?n = 0 then CANCELLED else CONFIRMED),
     bk_cancelled_at := Some (xp_nowMs p),
     bk_refund_paise := Some (sum_list (map refund_value (seats_of (xp_bookingId p) ?d))),
     bk_slab_code := Some (xp_slabCode p)\<rparr>"
  have d': "fst (applyCancellation p db)
      = ?d\<lparr>db_bookings := update_where (\<lambda>b. bk_id b = xp_bookingId p) ?f (db_bookings ?d)\<rparr>" (is "_ = ?e")
    using applyCancellation_db [of p db] by (simp add: cancel_tx_def Let_def)
  note c = cancel_fold [where p = p and ids = "xp_seatIds p" and db = db]
  have "store_inv_but_money ?d" using inv by (intro c(1)) (simp add: store_inv_def store_inv_but_money_def)
  then have but: "store_inv_but_money ?e"
    by (rule update_bookings_inv) (simp add: same_booking_def booking_key_def)
  have M: "money_inv db" using inv by (simp add: store_inv_def)
  have "booking_money (seats_of (bk_id b) ?e) b" if "b \<in> set (db_bookings ?e)" for b
  proof -
    have "b \<in> set (update_where (\<lambda>b. bk_id b = xp_bookingId p) ?f (db_bookings db))"
      using that unfolding c(2) by simp
    then obtain a where a: "a \<in> set (db_bookings db)" "b = (if bk_id a = xp_bookingId p then ?f a else a)"
      unfolding in_update_where by blast
    have ma: "booking_money (seats_of (bk_id a) db) a" using M a(1) by (simp add: money_inv_def)
    show ?thesis
    proof (cases "bk_id a = xp_bookingId p")
      case True
      then show ?thesis
        using rollup_money [OF ma seats_of_evolve [OF c(3)], where c = "Some (xp_nowMs p)" and k = "Some (xp_slabCode p)"]
        by (simp add: a(2) split: if_splits)
    next
      case False
      with a ma c(4) [OF False] show ?thesis by simp
    qed
  qed
  moreover have "\<forall>s \<in> set (db_booking_seats ?e). sr_status s = CONFIRMED \<longrightarrow> sr_refund_paise s = None"
    using c(5) M by (simp add: money_inv_def)
  ultimately show ?thesis
    using but unfolding d' by (simp add: store_inv_def store_inv_but_money_def money_inv_def)
qed

lemma store_inv_quote:
  assumes "store_inv db"
  shows "store_inv (fst (withTransaction (saveRefundQuote q) db))"
  using withTransaction_cases [of "saveRefundQuote q" db] assms
  by (auto simp: saveRefundQuote_def store_inv_def tables_inv_def sold_inv_def money_inv_def seats_of_def
      split: if_splits)

lemma store_inv_order:
  assumes "store_inv db"
  shows "store_inv (updateStoredOrder i order db)"
proof -
  have "store_inv_but_money (updateStoredOrder i order db)"
    unfolding updateStoredOrder_def using assms
    by (intro update_bookings_inv) (simp_all add: store_inv_def store_inv_but_money_def same_booking_def booking_key_def)
  moreover have "booking_money ss (b\<lparr>bk_order_json := order\<rparr>) = booking_money ss b" for ss b
    by (simp add: booking_money_def)
  then have "money_inv (updateStoredOrder i order db)"
    using assms by (auto simp: store_inv_def money_inv_def updateStoredOrder_def in_update_where seats_of_def)
  ultimately show ?thesis by (simp add: store_inv_def store_inv_but_money_def)
qed

text \<open>Dropping the passengers of a booking.\<close>

definition nameless :: "string \<Rightarrow> SeatRow \<Rightarrow> SeatRow" where
  "nameless i s = (if sr_booking_id s = i then s\<lparr>sr_name := None, sr_age := None, sr_gender := None\<rparr> else s)"

lemma nameless_simps [simp]:
  "sr_booking_id (nameless i s) = sr_booking_id s" "sr_seat_id (nameless i s) = sr_seat_id s"
  "seat_key (nameless i s) = seat_key s" "sr_status (nameless i s) = sr_status s"
  "sr_base_paise (nameless i s) = sr_base_paise s"
  "sr_reservation_fee_paise (nameless i s) = sr_reservation_fee_paise s"
  "sr_toll_paise (nameless i s) = sr_toll_paise s" "sr_refund_paise (nameless i s) = sr_refund_paise s"
  "refund_value (nameless i s) = refund_value s" "sells l (nameless i s) = sells l s"
  by (simp_all add: nameless_def seat_key_def refund_value_def sells_def)

lemma clear_manifest_db:
  "clear_manifest b db = updateStoredOrder (fst b) (withoutManifestNames (snd b))
     (db\<lparr>db_booking_seats := map (nameless (fst b)) (db_booking_seats db)\<rparr>)"
  by (simp add: clear_manifest_def update_where_def nameless_def [abs_def])

lemma store_inv_nameless:
  assumes "store_inv db"
  shows "store_inv (db\<lparr>db_booking_seats := map (nameless i) (db_booking_seats db)\<rparr>)" (is "store_inv ?d")
proof -
  have "seats_of j ?d = map (nameless i) (seats_of j db)" for j
    by (simp add: seats_of_def filter_map comp_def)
  moreover have "booking_money (map (nameless i) ss) b = booking_money ss b" for ss b
    by (cases "bk_refund_paise b") (simp_all add: booking_money_def comp_def)
  ultimately have "money_inv ?d" using assms by (auto simp: store_inv_def money_inv_def)
  moreover have "tables_inv ?d"
    using assms by (auto simp: store_inv_def tables_inv_def booking_seats_ok_def comp_def)
  moreover have "sold_inv ?d"
    using assms by (auto simp: store_inv_def sold_inv_def)
  ultimately show ?thesis using assms by (simp add: store_inv_def)
qed

lemma store_inv_clear:
  "store_inv db \<Longrightarrow> store_inv (clear_manifests stale db)"
  unfolding clear_manifests_def
  by (induction stale arbitrary: db) (auto simp: clear_manifest_db intro: store_inv_order store_inv_nameless)

lemmas store_inv_writes = store_inv_sweep store_inv_acquire store_inv_confirm store_inv_quote
  store_inv_cancel store_inv_order store_inv_clear

subsection \<open>The system\<close>

interpretation store: invariant_system "\<lambda>db. db = empty_db" store_step store_inv
proof unfold_locales
  show "store_inv s" if "s = empty_db" for s using that store_inv_empty by simp
next
  fix s s'
  assume inv: "store_inv s" and st: "store_step s s'"
  from st show "store_inv s'"
    by (cases rule: store_step.cases) (use inv in \<open>auto simp: sweep_all intro: store_inv_writes\<close>)
qed

end
