(* ===== verification/Store_Properties.thy ===== *)
theory Store_Properties
  imports Store_Safety
begin

text \<open>
  What the reserved store promises its callers: one claim per seat, holds that are idempotent and
  whole, bookings that are unique per transaction, batch reads that agree with single ones, and a
  retention sweep that leaves no passenger behind.
\<close>

subsection \<open>Reachable tables\<close>

definition store_reachable :: "Database \<Rightarrow> bool" where
  "store_reachable db \<longleftrightarrow> store_step\<^sup>*\<^sup>* empty_db db"

lemma store_reachable_inv: "store_reachable db \<Longrightarrow> store_inv db"
  by (rule store.reachable_inv) (simp add: store_reachable_def store.reachable_def)

lemma store_reachable_empty: "store_reachable empty_db"
  by (simp add: store_reachable_def)

lemma store_reachable_step: "store_reachable db \<Longrightarrow> store_step db db' \<Longrightarrow> store_reachable db'"
  unfolding store_reachable_def by (rule rtranclp.rtrancl_into_rtrancl)

text \<open>The dated seat a sold seat row stands for.\<close>

definition sold_seat :: "Database \<Rightarrow> SeatRow \<Rightarrow> (string \<times> string) option \<times> string" where
  "sold_seat db s =
     (map_option (\<lambda>b. (bk_service_id b, bk_travel_date b))
        (List.find (\<lambda>b. bk_id b = sr_booking_id s) (db_bookings db)), sr_seat_id s)"

lemma sold_seat_lock:
  assumes "store_inv db" "s \<in> set (db_booking_seats db)" "sr_status s = CONFIRMED"
  shows "\<exists>l \<in> set (live_locks (db_seat_locks db)). sells l s
     \<and> sold_seat db s = (Some (lk_service_id l, lk_travel_date l), lk_seat_id l)"
proof -
  from assms(1) have T: "tables_inv db" and S: "sold_inv db" by (simp_all add: store_inv_def)
  obtain l where l: "l \<in> set (db_seat_locks db)" "sells l s" using sold_invD(1) [OF S assms(2,3)] by blast
  have "sr_booking_id s \<in> bk_id ` set (db_bookings db)" using T assms(2) by (auto simp: tables_inv_def)
  then obtain b where b: "List.find (\<lambda>b. bk_id b = sr_booking_id s) (db_bookings db) = Some b"
    by (cases "List.find (\<lambda>b. bk_id b = sr_booking_id s) (db_bookings db)") (auto simp: find_None_iff)
  note f = find_SomeD [OF b]
  have "lk_service_id l = bk_service_id b \<and> lk_travel_date l = bk_travel_date b"
    using sold_invD(3) [OF S l(1) f(1)] l(2) f(2) by (simp add: sells_def)
  with l b show ?thesis
    by (auto simp: sold_seat_def sells_def live_locks_def live_state_def intro!: bexI [of _ l])
qed

lemma live_lock_unique:
  assumes "seat_locks_ok ls" "l \<in> set (live_locks ls)" "m \<in> set (live_locks ls)" "lock_key l = lock_key m"
  shows "l = m"
  using assms by (auto simp: seat_locks_ok_def distinct_map inj_on_def)

lemma sold_seats_distinct:
  assumes inv: "store_inv db"
  shows "distinct (map (sold_seat db) (filter (\<lambda>s. sr_status s = CONFIRMED) (db_booking_seats db)))"
proof -
  have ok: "seat_locks_ok (db_seat_locks db)" and k: "distinct (map seat_key (db_booking_seats db))"
    using inv by (auto simp: store_inv_def locks_inv_def tables_inv_def booking_seats_ok_def)
  have "inj_on (sold_seat db) (set (filter (\<lambda>s. sr_status s = CONFIRMED) (db_booking_seats db)))"
  proof (rule inj_onI)
    fix s t
    assume s: "s \<in> set (filter (\<lambda>s. sr_status s = CONFIRMED) (db_booking_seats db))"
      and t: "t \<in> set (filter (\<lambda>s. sr_status s = CONFIRMED) (db_booking_seats db))"
      and eq: "sold_seat db s = sold_seat db t"
    obtain l where l: "l \<in> set (live_locks (db_seat_locks db))" "sells l s"
      "sold_seat db s = (Some (lk_service_id l, lk_travel_date l), lk_seat_id l)"
      using sold_seat_lock [OF inv, of s] s by auto
    obtain m where m: "m \<in> set (live_locks (db_seat_locks db))" "sells m t"
      "sold_seat db t = (Some (lk_service_id m, lk_travel_date m), lk_seat_id m)"
      using sold_seat_lock [OF inv, of t] t by auto
    have "lock_key l = lock_key m" using eq l(3) m(3) by (simp add: lock_key_def)
    from live_lock_unique [OF ok l(1) m(1) this] l(2) m(2) have "seat_key s = seat_key t"
      by (simp add: sells_def seat_key_def)
    with k s t show "s = t" by (auto simp: distinct_map inj_on_def)
  qed
  moreover have "distinct (filter (\<lambda>s. sr_status s = CONFIRMED) (db_booking_seats db))"
    using k by (simp add: distinct_map)
  ultimately show ?thesis by (simp add: distinct_map)
qed

subsection \<open>Failed writes\<close>

lemma acquireHold_failed:
  assumes "snd (acquireHold drawn p db) = Inl e"
  shows "fst (acquireHold drawn p db) = db"
  using withTransaction_cases [of "acquire_tx drawn p" db] assms by (auto simp: acquireHold_def)

lemma findBooking_row:
  assumes "row \<in> set (db_bookings db)"
  shows "findBooking (bk_operator row) (bk_bap_id row) (bk_bap_uri row) (bk_id row) db \<noteq> None"
  using assms by (auto simp: findBooking_def find_None_iff)

text \<open>The record a committed confirm answers with is there to be found.\<close>

lemma confirmBooking_committed:
  assumes "cp_order p (order_id (cp_operator p) drawn) (order_reference (cp_operator p) drawn) = Inr order"
    and "confirm_tx drawn p order db = Inr (db', u)"
  shows "fst (confirmBooking drawn p db) = db'" "\<exists>b. snd (confirmBooking drawn p db) = Inr b"
proof -
  have row: "booking_row p drawn order \<in> set (db_bookings db')"
    using assms(2) by (auto simp: confirm_tx_def insert_booking_def insert_seats_def Let_def result_simps
        split: if_splits)
  show "fst (confirmBooking drawn p db) = db'" "\<exists>b. snd (confirmBooking drawn p db) = Inr b"
    using assms findBooking_row [OF row]
    by (auto simp: confirmBooking_def withTransaction_def Let_def booking_row_def)
qed

lemma confirmBooking_failed:
  assumes "snd (confirmBooking drawn p db) = Inl e"
  shows "fst (confirmBooking drawn p db) = db"
proof (rule ccontr)
  assume n: "fst (confirmBooking drawn p db) \<noteq> db"
  then obtain order where o: "cp_order p (order_id (cp_operator p) drawn) (order_reference (cp_operator p) drawn) = Inr order"
    by (auto simp: confirmBooking_def Let_def split: sum.splits)
  from n o have "\<exists>db'. confirm_tx drawn p order db = Inr (db', ())"
    using withTransaction_cases [of "confirm_tx drawn p order" db]
    by (auto simp: confirmBooking_def Let_def split: option.splits if_splits)
  with confirmBooking_committed(2) [OF o, of db] assms show False by fastforce
qed

text \<open>A transaction that already has a booking gets no second one.\<close>

lemma findBookingByTransaction_key:
  "findBookingByTransaction op idn db = map_option (bookingFromRow db)
     (List.find (\<lambda>b. booking_key b = (op, ri_bapId idn, ri_bapUri idn, ri_transactionId idn)) (db_bookings db))"
  by (simp add: findBookingByTransaction_def booking_key_def)

lemma confirm_tx_second:
  assumes "findBookingByTransaction (cp_operator p) (cp_identity p) db = Some b"
  shows "confirm_tx drawn p order db \<in> {Inl (Refusal HOLD_EXPIRED []), Inl UniqueViolation}"
proof -
  obtain r where r: "List.find (\<lambda>b. booking_key b = booking_key (booking_row p drawn order)) (db_bookings db) = Some r"
    using assms by (auto simp: findBookingByTransaction_key booking_row_def booking_key_def)
  have "booking_key (booking_row p drawn order) \<in> booking_key ` set (db_bookings db)"
    using find_SomeD [OF r] by (metis imageI)
  then have "\<not> bookings_ok (db_bookings db @ [booking_row p drawn order])"
    by (auto simp: bookings_ok_def)
  then show ?thesis
    by (auto simp: confirm_tx_def insert_booking_def Let_def andThen_def ensure_def)
qed

lemma confirmBooking_second:
  assumes "findBookingByTransaction (cp_operator p) (cp_identity p) db = Some b"
  shows "fst (confirmBooking drawn p db) = db
     \<and> (\<forall>c. snd (confirmBooking drawn p db) = Inr c \<longrightarrow> c = b)"
proof (cases "cp_order p (order_id (cp_operator p) drawn) (order_reference (cp_operator p) drawn)")
  case (Inr order)
  then show ?thesis
    using confirm_tx_second [OF assms, of drawn order] assms
    by (auto simp: confirmBooking_def withTransaction_def isUniqueViolation_def Let_def)
qed (simp add: confirmBooking_def Let_def)

subsection \<open>One query for many services\<close>

lemma sort_key_cong_order:
  assumes "\<And>x y. x \<in> set xs \<Longrightarrow> y \<in> set xs \<Longrightarrow> k x \<le> k y \<longleftrightarrow> k' x \<le> k' y"
  shows "sort_key k xs = sort_key k' xs"
  using assms
proof (induction xs)
  case (Cons x xs)
  have ins: "insort_key k x ys = insort_key k' x ys" if "set ys \<subseteq> set xs" for ys
    using that Cons.prems by (induction ys) auto
  show ?case using Cons by (simp add: ins)
qed simp

lemma batch_claims_eq:
  assumes "sid \<in> set sids"
  shows "map_of (liveClaimsForServices sids d db) sid = Some (liveClaims sid d db)"
proof -
  let ?P = "\<lambda>s l. lk_service_id l = s \<and> lk_travel_date l = d \<and> live_state (lk_state l)"
  let ?rows = "filter (\<lambda>l. lk_service_id l \<in> set sids \<and> lk_travel_date l = d \<and> live_state (lk_state l)) (db_seat_locks db)"
  have f: "filter (\<lambda>l. lk_service_id l = sid) ?rows = filter (?P sid) (db_seat_locks db)"
    using assms by (induction "db_seat_locks db") (auto intro: filter_cong)
  have "filter (\<lambda>l. lk_service_id l = sid) (sort_key (\<lambda>l. (lk_service_id l, lk_seat_id l)) ?rows)
      = sort_key (\<lambda>l. (lk_service_id l, lk_seat_id l)) (filter (?P sid) (db_seat_locks db))"
    by (simp only: filter_sort f)
  also have "\<dots> = sort_key lk_seat_id (filter (?P sid) (db_seat_locks db))"
    by (rule sort_key_cong_order) auto
  finally show ?thesis
    using assms by (simp add: liveClaimsForServices_def liveClaims_def Let_def map_of_map_restrict
        map_of_map_keys)
qed

text \<open>The batch sweep is the fold of the single ones.\<close>

lemma batch_sweep_eq:
  "fst (sweepExpiredHoldsForServices sids d n db)
     = foldl (\<lambda>db' sid. fst (sweepExpiredHolds sid d n db')) db sids"
proof (induction sids arbitrary: db)
  case Nil
  show ?case by (simp add: sweepExpiredHoldsForServices_def)
next
  case (Cons sid sids)
  have "fst (sweepExpiredHoldsForServices (sid # sids) d n db)
      = fst (sweepExpiredHoldsForServices sids d n (fst (sweepExpiredHolds sid d n db)))"
    unfolding sweep_all sweep_db
    by (auto simp: update_where_def sweepable_def intro!: arg_cong [where f = "\<lambda>ls. db\<lparr>db_seat_locks := ls\<rparr>"])
  then show ?case using Cons by simp
qed

text \<open>After the sweep nothing that is live on the departure has run out.\<close>

lemma swept_claims_live:
  assumes "store_inv db" "l \<in> set (db_seat_locks (fst (sweepExpiredHolds sid d n db)))"
    and "lk_service_id l = sid" "lk_travel_date l = d" "lk_state l = HELD"
  shows "\<exists>e. lk_expires_at l = Some e \<and> n < e"
proof -
  have "store_inv (fst (sweepExpiredHolds sid d n db))"
    unfolding sweep_all by (rule store_inv_sweep [OF assms(1)])
  then have "lock_wf l" using assms(2) by (auto simp: store_inv_def locks_inv_def)
  moreover have "\<not> sweepable [sid] d n l"
    using assms(2,5) unfolding sweep_all sweep_db by (auto simp: set_update_where split: if_splits)
  ultimately show ?thesis
    using assms by (auto simp: lock_wf_def sweepable_def split: option.splits)
qed

subsection \<open>A hold asked for again\<close>

lemma sort_key_append_min:
  assumes "\<And>x y. x \<in> set xs \<Longrightarrow> y \<in> set xs \<union> set ys \<Longrightarrow> k x \<le> k y"
  shows "sort_key k (xs @ ys) = xs @ sort_key k ys"
  using assms by (induction xs) (auto simp: insort_is_Cons)

lemma sort_key_map_same:
  assumes "\<And>x. k (f x) = k x"
  shows "sort_key k (map f xs) = map f (sort_key k xs)"
proof -
  have "insort_key k (f x) (map f ys) = map f (insort_key k x ys)" for x ys
    using assms by (induction ys) auto
  then show ?thesis by (induction xs) auto
qed

definition latest_rows :: "string \<Rightarrow> ReservedIdentity \<Rightarrow> Database \<Rightarrow> LockRow list" where
  "latest_rows op idn db = sort_key (\<lambda>l. - lk_created_at l)
     (rev (filter (\<lambda>l. owned_by op idn l \<and> lk_hold_id l \<noteq> None) (db_seat_locks db)))"

lemma findLatestHold_rows:
  "findLatestHold op idn db = (if latest_rows op idn db = [] then None
     else Some (holdFromRows (filter (\<lambda>l. lk_hold_id l = lk_hold_id (hd (latest_rows op idn db)))
                 (latest_rows op idn db))))"
  by (simp add: findLatestHold_def latest_rows_def Let_def)

lemma latest_rows_set: "l \<in> set (latest_rows op idn db) \<Longrightarrow> l \<in> set (db_seat_locks db)"
  by (simp add: latest_rows_def)

lemma latest_rows_update:
  assumes "\<And>l. lk_created_at (f l) = lk_created_at l" "\<And>l. owned_by op idn (f l) = owned_by op idn l"
    "\<And>l. lk_hold_id (f l) = lk_hold_id l"
  shows "latest_rows op idn (db\<lparr>db_seat_locks := map f (db_seat_locks db)\<rparr>) = map f (latest_rows op idn db)"
  using assms by (simp add: latest_rows_def filter_map comp_def rev_map sort_key_map_same)

lemma findLatestHold_unswept:
  assumes inv: "store_inv db" and latest: "findLatestHold op idn db = Some h" and live: "holdStatus h n = LIVE"
  shows "findLatestHold op idn (fst (sweepExpiredHolds sid d n db)) = Some h"
proof -
  let ?rows = "latest_rows op idn db"
  let ?hrows = "filter (\<lambda>l. lk_hold_id l = lk_hold_id (hd ?rows)) ?rows"
  let ?g = "\<lambda>l. if sweepable [sid] d n l then l\<lparr>lk_state := EXPIRED\<rparr> else l"
  have ne: "?rows \<noteq> []" and h: "h = holdFromRows ?hrows"
    using latest by (auto simp: findLatestHold_rows split: if_splits)
  have "hd ?rows \<in> set ?hrows" using ne by simp
  then have hne: "?hrows \<noteq> []" by force
  let ?m = "hd ?hrows"
  have m: "?m \<in> set (db_seat_locks db)" "lk_hold_id ?m = lk_hold_id (hd ?rows)"
    using hd_in_set [OF hne] by (auto dest: latest_rows_set)
  have st: "lk_state ?m = HELD" "n < (case lk_expires_at ?m of None \<Rightarrow> 0 | Some e \<Rightarrow> e)"
    using live by (auto simp: h holdFromRows_def Let_def holdStatus_def split: if_splits)
  have L: "locks_inv (db_seat_locks db)" using inv by (simp add: store_inv_def)
  have keep: "?g l = l" if "l \<in> set ?hrows" for l
  proof -
    have "l \<in> set (db_seat_locks db)" "lk_hold_id ?m = lk_hold_id l"
      using that m(2) by (auto dest: latest_rows_set)
    from locks_invD(4) [OF L m(1) this st(1)] st(2) show ?thesis
      by (auto simp: sweepable_def split: option.splits)
  qed
  have rows: "latest_rows op idn (fst (sweepExpiredHolds sid d n db)) = map ?g ?rows"
    unfolding sweep_all sweep_db update_where_def by (rule latest_rows_update) (auto simp: owned_by_def row_identity_def)
  have hd: "lk_hold_id (hd (map ?g ?rows)) = lk_hold_id (hd ?rows)" using ne by (simp add: hd_map)
  have "filter (\<lambda>l. lk_hold_id l = lk_hold_id (hd ?rows)) (map ?g ?rows) = map ?g ?hrows"
    by (simp add: filter_map comp_def if_distrib cong: if_cong)
  also have "\<dots> = ?hrows" using keep by (intro map_idI) auto
  finally show ?thesis
    unfolding findLatestHold_rows rows hd using ne h by simp
qed

lemma latest_after_insert:
  assumes ins: "insert_locks (hold_rows p holdId ids) db = Inr (db', u)" and new: "findHoldById holdId db = None"
    and ids: "sorted ids"
    and clock: "\<And>l. l \<in> set (db_seat_locks db) \<Longrightarrow> owned_by (hp_operator p) (hp_identity p) l \<Longrightarrow>
        lk_created_at l \<le> hp_nowMs p"
  shows "findLatestHold (hp_operator p) (hp_identity p) db' = Some
     \<lparr>hold_holdId = holdId, hold_operator = hp_operator p, hold_identity = hp_identity p,
      hold_serviceId = hp_serviceId p, hold_travelDate = hp_travelDate p, hold_seatIds = ids,
      hold_state = HELD, hold_expiresAt = hp_nowMs p + hp_ttlSeconds p * 1000,
      hold_createdAt = hp_nowMs p\<rparr>" (is "_ = Some ?h")
proof -
  let ?new = "hold_rows p holdId ids"
  let ?own = "\<lambda>l. owned_by (hp_operator p) (hp_identity p) l \<and> lk_hold_id l \<noteq> None"
  have ne: "?new \<noteq> []" and db': "db_seat_locks db' = db_seat_locks db @ ?new"
    using ins by (auto simp: insert_locks_def split: if_splits)
  note f = hold_rows_facts [of _ p holdId ids]
  have own: "?own l \<and> lk_created_at l = hp_nowMs p" if "l \<in> set ?new" for l
    using f(1,6) [OF that] by (simp add: owned_by_def lock_header_def row_identity_def)
  then have "filter ?own (db_seat_locks db') = filter ?own (db_seat_locks db) @ ?new"
    by (simp add: db')
  moreover have "sort_key (\<lambda>l. - lk_created_at l) (rev ?new @ rev (filter ?own (db_seat_locks db)))
      = rev ?new @ sort_key (\<lambda>l. - lk_created_at l) (rev (filter ?own (db_seat_locks db)))"
    by (rule sort_key_append_min) (use own clock in auto)
  ultimately have rows: "latest_rows (hp_operator p) (hp_identity p) db'
      = rev ?new @ latest_rows (hp_operator p) (hp_identity p) db"
    by (simp add: latest_rows_def)
  have hdm: "hd (rev ?new) \<in> set ?new" using ne by (metis hd_in_set rev_is_Nil_conv set_rev)
  have "filter (\<lambda>l. lk_hold_id l = Some holdId) (latest_rows (hp_operator p) (hp_identity p) db) = []"
    using new by (auto simp: filter_empty_conv findHoldById_None dest: latest_rows_set)
  moreover have "filter (\<lambda>l. lk_hold_id l = Some holdId) (rev ?new) = rev ?new"
    using f(1) by (simp add: filter_id_conv)
  ultimately have "filter (\<lambda>l. lk_hold_id l = lk_hold_id (hd (rev ?new @ latest_rows (hp_operator p) (hp_identity p) db)))
      (rev ?new @ latest_rows (hp_operator p) (hp_identity p) db) = rev ?new"
    using ne f(1) [OF hdm] by (simp add: hd_append)
  moreover have "sort (map lk_seat_id (rev ?new)) = ids"
    using ids by (intro properties_for_sort) (simp_all add: rev_map [symmetric] hold_rows_seats)
  ultimately show ?thesis
    unfolding findLatestHold_rows rows using ne f(1,2,4,6) [OF hdm]
    by (simp add: holdFromRows_def Let_def lock_header_def row_identity_def)
qed

lemma acquireHold_committed:
  assumes "acquireHold drawn p db = (db', Inr h)"
  shows "acquire_tx drawn p db = Inr (db', h)"
  using assms withTransaction_cases [of "acquire_tx drawn p" db] by (auto simp: acquireHold_def)

text \<open>The hold a select answers with is the latest of its transaction, and names what was asked.\<close>

lemma acquire_latest:
  assumes ok: "acquireHold drawn p db = (db', Inr h)"
    and clock: "\<And>l. l \<in> set (db_seat_locks db) \<Longrightarrow> owned_by (hp_operator p) (hp_identity p) l \<Longrightarrow>
        lk_created_at l \<le> hp_nowMs p"
  shows "findLatestHold (hp_operator p) (hp_identity p) db' = Some h \<and> hold_serviceId h = hp_serviceId p
      \<and> hold_travelDate h = hp_travelDate p \<and> hold_seatIds h = sort (dedup (hp_seatIds p))"
  using acquireHold_committed [OF ok]
proof (cases rule: acquire_tx_cases)
  case same
  then show ?thesis by simp
next
  case (fresh db1 holdId)
  have swept: "lk_created_at l \<le> hp_nowMs p"
    if "l \<in> set (db_seat_locks (fst (sweepExpiredHolds (hp_serviceId p) (hp_travelDate p) (hp_nowMs p) db)))"
      "owned_by (hp_operator p) (hp_identity p) l" for l
    using that clock unfolding sweep_all sweep_db
    by (auto simp: in_update_where owned_by_def row_identity_def split: if_splits)
  have "lk_created_at l \<le> hp_nowMs p"
    if "l \<in> set (db_seat_locks db1)" "owned_by (hp_operator p) (hp_identity p) l" for l
    using fresh(1) that swept
    by (auto simp: release_hold_def in_update_where owned_by_def row_identity_def split: if_splits)
  from latest_after_insert [OF fresh(3,2) _ this] fresh(4) show ?thesis by simp
qed

lemma acquire_again:
  assumes inv: "store_inv db" and ok: "acquireHold drawn p db = (db', Inr h)"
    and clock: "\<And>l. l \<in> set (db_seat_locks db) \<Longrightarrow> owned_by (hp_operator p) (hp_identity p) l \<Longrightarrow>
        lk_created_at l \<le> hp_nowMs p"
    and later: "holdStatus h n = LIVE"
  shows "snd (acquireHold drawn' (p\<lparr>hp_nowMs := n\<rparr>) db') = Inr h"
proof -
  have inv': "store_inv db'" using store_inv_acquire [OF inv, of drawn p] ok by simp
  note latest = acquire_latest [OF ok clock]
  then have "findLatestHold (hp_operator p) (hp_identity p) (fst (sweepExpiredHolds (hp_serviceId p) (hp_travelDate p) n db')) = Some h"
    using findLatestHold_unswept [OF inv' _ later] by blast
  then have "acquire_tx drawn' (p\<lparr>hp_nowMs := n\<rparr>) db'
      = Inr (fst (sweepExpiredHolds (hp_serviceId p) (hp_travelDate p) n db'), h)"
    using latest later by (simp add: acquire_tx_def Let_def)
  then show ?thesis by (simp add: acquireHold_def withTransaction_def)
qed

subsection \<open>A hold that can be taken\<close>

text \<open>
  The drawn id names a new hold, and every live claim on the seats has run out by the clock of the
  request.
\<close>

definition fresh_hold :: "string \<Rightarrow> Database \<Rightarrow> bool" where
  "fresh_hold h db \<longleftrightarrow> (\<forall>l \<in> set (db_seat_locks db). lk_hold_id l \<noteq> Some h \<and> (\<forall>i. lk_id l \<noteq> h @ ''-'' @ digits10 i))"

definition lapsed_seats :: "HoldParams \<Rightarrow> Database \<Rightarrow> bool" where
  "lapsed_seats p db \<longleftrightarrow> (\<forall>l \<in> set (db_seat_locks db). live_state (lk_state l) \<longrightarrow>
     lk_service_id l = hp_serviceId p \<longrightarrow> lk_travel_date l = hp_travelDate p \<longrightarrow> lk_seat_id l \<in> set (hp_seatIds p) \<longrightarrow>
     sweepable [hp_serviceId p] (hp_travelDate p) (hp_nowMs p) l)"

definition unclaimed :: "HoldParams \<Rightarrow> Database \<Rightarrow> bool" where
  "unclaimed p db \<longleftrightarrow> (\<forall>l \<in> set (db_seat_locks db). live_state (lk_state l) \<longrightarrow>
     lk_service_id l = hp_serviceId p \<longrightarrow> lk_travel_date l = hp_travelDate p \<longrightarrow> lk_seat_id l \<notin> set (hp_seatIds p))"

lemma sweep_unclaims:
  assumes "lapsed_seats p db"
  shows "unclaimed p (fst (sweepExpiredHolds (hp_serviceId p) (hp_travelDate p) (hp_nowMs p) db))"
  unfolding unclaimed_def
proof (intro ballI impI notI)
  let ?P = "sweepable [hp_serviceId p] (hp_travelDate p) (hp_nowMs p)"
  fix l
  assume "l \<in> set (db_seat_locks (fst (sweepExpiredHolds (hp_serviceId p) (hp_travelDate p) (hp_nowMs p) db)))"
    and l: "live_state (lk_state l)" "lk_service_id l = hp_serviceId p" "lk_travel_date l = hp_travelDate p"
      "lk_seat_id l \<in> set (hp_seatIds p)"
  then obtain r where r: "r \<in> set (db_seat_locks db)" "l = (if ?P r then r\<lparr>lk_state := EXPIRED\<rparr> else r)"
    unfolding sweep_all sweep_db by (auto simp: in_update_where)
  then have "\<not> ?P r" using l(1) by (auto simp: live_state_def)
  then show False using r l assms by (simp add: lapsed_seats_def)
qed

lemma release_unclaimed: "unclaimed p db \<Longrightarrow> unclaimed p (release_hold h db)"
  unfolding unclaimed_def release_hold_def by (auto simp: in_update_where live_state_def split: if_splits)

lemma fresh_hold_kept:
  "fresh_hold h db \<Longrightarrow> fresh_hold h (fst (sweepExpiredHolds sid d n db))"
  "fresh_hold h db \<Longrightarrow> fresh_hold h (release_hold k db)"
  unfolding sweep_all sweep_db fresh_hold_def release_hold_def by (auto simp: in_update_where split: if_splits)

lemma insert_unclaimed:
  assumes "locks_inv (db_seat_locks db)" "unclaimed p db" "fresh_hold h db" "ids \<noteq> []" "distinct ids"
    "set ids = set (hp_seatIds p)"
  shows "\<exists>db'. insert_locks (hold_rows p h ids) db = Inr (db', ())"
proof -
  let ?rs = "hold_rows p h ids"
  note f = hold_rows_facts [of _ p h ids]
  have "map lk_id ?rs = map (\<lambda>i. h @ ''-'' @ digits10 (Suc i)) [0..<length ids]"
    by (simp add: hold_rows_def case_prod_unfold comp_def enumerate_eq_zip map_zip_map)
      (simp add: map_fst_zip flip: map_map [unfolded comp_def, of "\<lambda>i. h @ CHR ''-'' # digits10 (Suc i)" fst])
  note rows = this
  have ids: "distinct (map lk_id ?rs)" unfolding rows by (auto simp: distinct_map inj_on_def dest: digits10_inj)
  have range: "lk_id ` set ?rs \<subseteq> range (\<lambda>i. h @ ''-'' @ digits10 i)"
    unfolding set_map [symmetric] rows by auto
  have "live_locks ?rs = ?rs" using f(2) by (simp add: live_locks_def filter_id_conv live_state_def)
  moreover have "distinct (map lk_seat_id ?rs)" using assms(5) by (simp add: hold_rows_seats)
  then have "distinct (map lock_key ?rs)" by (auto simp: distinct_map inj_on_def lock_key_def)
  moreover have "lock_key ` set (live_locks (db_seat_locks db)) \<inter> lock_key ` set ?rs = {}"
    using assms(2,6) f(5,6) by (fastforce simp: unclaimed_def lock_key_def live_locks_def lock_header_def)
  moreover have "lk_id ` set (db_seat_locks db) \<inter> lk_id ` set ?rs = {}"
    using assms(3) range unfolding fresh_hold_def by blast
  ultimately have "seat_locks_ok (db_seat_locks db @ ?rs)"
    using locks_invD(1) [OF assms(1)] ids by (simp add: seat_locks_ok_def live_locks_def)
  moreover have "?rs \<noteq> []" using assms(4) hold_rows_seats [of p h ids] by fastforce
  ultimately show ?thesis by (simp add: insert_locks_def)
qed

lemma acquire_succeeds:
  assumes inv: "store_inv db" and lapsed: "lapsed_seats p db" and ne: "hp_seatIds p \<noteq> []"
    and drawn: "shortId drawn ''HLD-KSRTC'' = Inr h" and fresh: "fresh_hold h db"
  shows "\<exists>k. snd (acquireHold drawn p db) = Inr k \<and> hold_seatIds k = sort (dedup (hp_seatIds p))"
proof -
  let ?d = "fst (sweepExpiredHolds (hp_serviceId p) (hp_travelDate p) (hp_nowMs p) db)"
  let ?ids = "sort (dedup (hp_seatIds p))"
  have ids: "?ids \<noteq> []" "distinct ?ids" "set ?ids = set (hp_seatIds p)"
    using ne by (auto simp flip: length_0_conv [of "sort _"] set_empty)
  have new: "(\<exists>e. insert_locks (hold_rows p h ?ids) e1 = Inr (e, ())) \<and> findHoldById h e1 = None
      \<and> filter (\<lambda>c. claim_seatId c \<in> set ?ids) (liveClaims (hp_serviceId p) (hp_travelDate p) e1) = []"
    if "store_inv e1" "unclaimed p e1" "fresh_hold h e1" for e1
  proof -
    have "locks_inv (db_seat_locks e1)" using that(1) by (simp add: store_inv_def)
    moreover have "findHoldById h e1 = None" using that(3) by (simp add: findHoldById_None fresh_hold_def)
    moreover have "filter (\<lambda>c. claim_seatId c \<in> set ?ids) (liveClaims (hp_serviceId p) (hp_travelDate p) e1) = []"
      using that(2) by (auto simp: filter_empty_conv liveClaims_def claim_of_def unclaimed_def)
    ultimately show ?thesis using insert_unclaimed [OF _ that(2,3) ids] by blast
  qed
  have d: "store_inv ?d" "unclaimed p ?d" "fresh_hold h ?d"
    using store_inv_sweep [OF inv] sweep_unclaims [OF lapsed] fresh_hold_kept(1) [OF fresh] by (auto simp: sweep_all)
  define existing where "existing = findLatestHold (hp_operator p) (hp_identity p) ?d"
  define live where "live = (case existing of None \<Rightarrow> False | Some k \<Rightarrow> holdStatus k (hp_nowMs p) = LIVE)"
  define e1 where "e1 = (if live then release_hold (hold_holdId (the existing)) ?d else ?d)"
  have "store_inv e1" "unclaimed p e1" "fresh_hold h e1"
    using d store_inv_release release_unclaimed fresh_hold_kept(2) by (auto simp: e1_def)
  from new [OF this] obtain e where e: "insert_locks (hold_rows p h ?ids) e1 = Inr (e, ())" "findHoldById h e1 = None"
    "filter (\<lambda>c. claim_seatId c \<in> set ?ids) (liveClaims (hp_serviceId p) (hp_travelDate p) e1) = []" by blast
  then have "\<exists>e k. acquire_tx drawn p db = Inr (e, k) \<and> hold_seatIds k = ?ids"
    unfolding acquire_tx_def Let_def drawn existing_def [symmetric] live_def [symmetric] e1_def [symmetric]
    by (simp del: set_sort set_dedup)
  then show ?thesis by (auto simp: acquireHold_def withTransaction_def)
qed

subsection \<open>The history of the locks\<close>

text \<open>
  Rows are only ever added at the end and under a new hold id, and the ones there only move
  forward.
\<close>

definition locks_grow :: "Database \<Rightarrow> Database \<Rightarrow> bool" where
  "locks_grow db db' \<longleftrightarrow> (\<exists>ls rest. db_seat_locks db' = ls @ rest \<and> locks_evolve (db_seat_locks db) ls
     \<and> lk_hold_id ` set rest \<inter> lk_hold_id ` set (db_seat_locks db) = {})"

lemma locks_evolve_holds: "locks_evolve ls ms \<Longrightarrow> map lk_hold_id ms = map lk_hold_id ls"
  unfolding locks_evolve_def by (induction rule: list_all2_induct) (auto simp: lock_evolves_def)

lemma locks_grow_same: "db_seat_locks db' = db_seat_locks db \<Longrightarrow> locks_grow db db'"
  unfolding locks_grow_def locks_evolve_def
  by (rule exI [of _ "db_seat_locks db"]) (simp add: list_all2_same)

lemma locks_grow_evolve: "locks_evolve (db_seat_locks db) (db_seat_locks db') \<Longrightarrow> locks_grow db db'"
  unfolding locks_grow_def by (rule exI [of _ "db_seat_locks db'"]) simp

lemma locks_grow_update:
  assumes "db_seat_locks db' = update_where P f (db_seat_locks db)" "\<And>l. P l \<Longrightarrow> lock_evolves l (f l)"
  shows "locks_grow db db'"
  using locks_evolve_update [of P f "db_seat_locks db"] assms by (intro locks_grow_evolve) simp

lemma locks_grow_trans:
  assumes "locks_grow a b" "locks_grow b c"
  shows "locks_grow a c"
proof -
  obtain ls rest where b: "db_seat_locks b = ls @ rest" "locks_evolve (db_seat_locks a) ls"
    "lk_hold_id ` set rest \<inter> lk_hold_id ` set (db_seat_locks a) = {}"
    using assms(1) by (auto simp: locks_grow_def)
  obtain ms rest' where c: "db_seat_locks c = ms @ rest'" "locks_evolve (ls @ rest) ms"
    "lk_hold_id ` set rest' \<inter> lk_hold_id ` set (ls @ rest) = {}"
    using assms(2) b(1) by (auto simp: locks_grow_def)
  from c(2) obtain m1 m2 where m: "ms = m1 @ m2" "locks_evolve ls m1" "locks_evolve rest m2"
    by (auto simp: locks_evolve_def list_all2_append1)
  have "locks_evolve (db_seat_locks a) m1"
    using list_all2_trans [of lock_evolves lock_evolves lock_evolves] lock_evolves_trans b(2) m(2)
    unfolding locks_evolve_def by blast
  moreover have "lk_hold_id ` set (m2 @ rest') \<inter> lk_hold_id ` set (db_seat_locks a) = {}"
    using b(3) c(3) arg_cong [OF locks_evolve_holds [OF m(3)], of set]
      arg_cong [OF locks_evolve_holds [OF b(2)], of set] by (auto simp: image_Un)
  ultimately show ?thesis
    using c(1) m(1) unfolding locks_grow_def by (intro exI [of _ m1] exI [of _ "m2 @ rest'"]) simp
qed

lemma locks_grow_insert:
  assumes "db_seat_locks db' = db_seat_locks db @ rs"
    "lk_hold_id ` set rs \<inter> lk_hold_id ` set (db_seat_locks db) = {}"
  shows "locks_grow db db'"
  unfolding locks_grow_def locks_evolve_def
  by (intro exI [of _ "db_seat_locks db"] exI [of _ rs]) (simp add: assms list_all2_same)

lemma insert_locks_rows: "insert_locks rs db = Inr (db', u) \<Longrightarrow> db_seat_locks db' = db_seat_locks db @ rs"
  by (auto simp: insert_locks_def split: if_splits)

lemma locks_grow_sweep: "locks_grow db (fst (sweepExpiredHoldsForServices sids d n db))"
  unfolding sweep_db
  by (rule locks_grow_update [where P = "sweepable sids d n" and f = "\<lambda>l. l\<lparr>lk_state := EXPIRED\<rparr>"])
    (auto simp: sweepable_def lock_evolves_def lock_moves_def lock_header_def)

lemma locks_grow_release: "locks_grow db (release_hold h db)"
  unfolding release_hold_def
  by (rule locks_grow_update [where P = "\<lambda>l. lk_hold_id l = Some h \<and> lk_state l = HELD"
        and f = "\<lambda>l. l\<lparr>lk_state := RELEASED\<rparr>"])
    (auto simp: lock_evolves_def lock_moves_def lock_header_def)

lemma locks_grow_acquire: "locks_grow db (fst (acquireHold drawn p db))"
proof (cases "fst (acquireHold drawn p db) = db")
  case False
  then obtain h where "acquire_tx drawn p db = Inr (fst (acquireHold drawn p db), h)"
    using acquireHold_db by blast
  then show ?thesis
  proof (cases rule: acquire_tx_cases)
    case same
    then show ?thesis using locks_grow_sweep by (simp add: sweep_all)
  next
    case (fresh db1 holdId)
    have "locks_grow db db1"
      using fresh(1) by (auto simp: sweep_all intro: locks_grow_sweep locks_grow_trans locks_grow_release)
    moreover have "locks_grow db1 (fst (acquireHold drawn p db))"
    proof (rule locks_grow_insert [OF insert_locks_rows [OF fresh(3)]])
      show "lk_hold_id ` set (hold_rows p holdId (sort (dedup (hp_seatIds p))))
          \<inter> lk_hold_id ` set (db_seat_locks db1) = {}"
        using fresh(2) hold_rows_facts(1) by (fastforce simp: findHoldById_None)
    qed
    ultimately show ?thesis by (rule locks_grow_trans)
  qed
qed (simp add: locks_grow_same)

lemma locks_grow_confirm:
  assumes "sale_matches_hold p db"
  shows "locks_grow db (fst (confirmBooking drawn p db))"
proof (cases "fst (confirmBooking drawn p db) = db")
  case False
  then obtain order where tx: "confirm_tx drawn p order db = Inr (fst (confirmBooking drawn p db), ())"
    using confirmBooking_db by blast
  have ne: "cp_seats p \<noteq> []" using assms by (simp add: sale_matches_hold_def)
  show ?thesis
    unfolding confirm_tx_ok(1) [OF tx ne]
    by (rule locks_grow_update [where P = "held_in (cp_holdId p)"])
      (simp, auto simp: held_in_def lock_evolves_def lock_moves_def lock_header_def)
qed (simp add: locks_grow_same)

lemma locks_grow_cancel: "locks_grow db (fst (applyCancellation p db))"
proof -
  have one: "locks_grow d (cancel_seat p x d)" for d x
    unfolding cancel_seat_def
    by (rule locks_grow_update [where P = "\<lambda>l. lk_booking_id l = Some (xp_bookingId p) \<and> lk_seat_id l = x \<and> lk_state l = BOOKED"
          and f = "\<lambda>l. l\<lparr>lk_state := RELEASED\<rparr>"])
      (auto simp: lock_evolves_def lock_moves_def lock_header_def)
  have "locks_grow d (foldl (\<lambda>d x. cancel_seat p x d) d ids)" for d ids
    by (induction ids arbitrary: d) (auto intro: locks_grow_same locks_grow_trans one)
  moreover have "db_seat_locks (fst (applyCancellation p db))
      = db_seat_locks (foldl (\<lambda>d x. cancel_seat p x d) db (xp_seatIds p))"
    by (simp add: applyCancellation_def withTransaction_def cancel_tx_def Let_def)
  ultimately show ?thesis by (simp add: locks_grow_def)
qed

lemma clear_manifests_locks [simp]: "db_seat_locks (clear_manifests stale db) = db_seat_locks db"
proof -
  have "db_seat_locks (clear_manifest b d) = db_seat_locks d" for b d
    by (simp add: clear_manifest_def updateStoredOrder_def)
  then show ?thesis unfolding clear_manifests_def by (induction stale arbitrary: db) simp_all
qed

lemma store_step_grows: "store_step db db' \<Longrightarrow> locks_grow db db'"
proof (induction rule: store_step.induct)
  case (step_quote db quote)
  show ?case using withTransaction_cases [of "saveRefundQuote quote" db]
    by (auto simp: saveRefundQuote_def split: if_splits intro!: locks_grow_same)
qed (auto simp: sweep_all updateStoredOrder_def intro: locks_grow_sweep locks_grow_acquire
    locks_grow_confirm locks_grow_cancel locks_grow_same)

interpretation store: monotone_system "\<lambda>db. db = empty_db" store_step store_inv locks_grow
  by unfold_locales (auto intro: locks_grow_same locks_grow_trans store_step_grows)

text \<open>
  The rows of a hold are fixed when it is taken, so a sale that matches its hold when the hold is
  read still matches it when the transaction commits, whatever ran in between.
\<close>

lemma hold_locks_evolve:
  assumes "locks_grow db db'" "hold_locks h db \<noteq> []"
  shows "list_all2 lock_evolves (hold_locks h db) (hold_locks h db')"
proof -
  obtain ls rest where g: "db_seat_locks db' = ls @ rest" "list_all2 lock_evolves (db_seat_locks db) ls"
    "lk_hold_id ` set rest \<inter> lk_hold_id ` set (db_seat_locks db) = {}"
    using assms(1) by (auto simp: locks_grow_def locks_evolve_def)
  have "Some h \<in> lk_hold_id ` set (db_seat_locks db)"
    using assms(2) unfolding hold_locks_def filter_empty_conv by (metis imageI)
  then have "filter (\<lambda>l. lk_hold_id l = Some h) rest = []"
    using g(3) by (auto simp: filter_empty_conv)
  moreover have "list_all2 lock_evolves (filter (\<lambda>l. lk_hold_id l = Some h) (db_seat_locks db))
      (filter (\<lambda>l. lk_hold_id l = Some h) ls)"
    using g(2) by (induction rule: list_all2_induct) (auto simp: lock_evolves_def)
  ultimately show ?thesis by (simp add: hold_locks_def g(1))
qed

lemma sale_match_stable:
  assumes "sale_matches_hold p db" "locks_grow db db'"
  shows "sale_matches_hold p db'"
proof -
  let ?old = "hold_locks (cp_holdId p) db" and ?new = "hold_locks (cp_holdId p) db'"
  have "?old \<noteq> []" using assms(1) by (auto simp: sale_matches_hold_def)
  from hold_locks_evolve [OF assms(2) this]
  have e: "map lk_seat_id ?new = map lk_seat_id ?old" "map lk_service_id ?new = map lk_service_id ?old"
    "map lk_travel_date ?new = map lk_travel_date ?old"
    by (induction rule: list_all2_induct) (auto simp: lock_evolves_def lock_header_def)
  have "list_all P (map f ?new) \<longleftrightarrow> list_all (\<lambda>l. P (f l)) ?new" for P :: "string \<Rightarrow> bool" and f
    by (simp add: list_all_iff)
  note la = this
  have s: "list_all (\<lambda>l. lk_service_id l = cp_serviceId p) ?new" "list_all (\<lambda>l. lk_travel_date l = cp_travelDate p) ?new"
    using assms(1) la [of "\<lambda>x. x = cp_serviceId p" lk_service_id] la [of "\<lambda>x. x = cp_travelDate p" lk_travel_date]
    unfolding e by (auto simp: sale_matches_hold_def list_all_iff)
  show ?thesis
    using assms(1) s arg_cong [OF e(1), of set] by (auto simp: sale_matches_hold_def list_all_iff)
qed

text \<open>A hold that is found is the whole of its rows.\<close>

lemma findLatestHold_locks:
  assumes inv: "store_inv db" and found: "findLatestHold op idn db = Some h"
  shows "hold_locks (hold_holdId h) db \<noteq> []"
    and "lk_seat_id ` set (hold_locks (hold_holdId h) db) = set (hold_seatIds h)"
    and "\<forall>l \<in> set (hold_locks (hold_holdId h) db). lk_service_id l = hold_serviceId h \<and> lk_travel_date l = hold_travelDate h"
proof -
  let ?rows = "latest_rows op idn db"
  let ?hrows = "filter (\<lambda>l. lk_hold_id l = lk_hold_id (hd ?rows)) ?rows"
  have ne: "?rows \<noteq> []" and h: "h = holdFromRows ?hrows"
    using found by (auto simp: findLatestHold_rows split: if_splits)
  have "hd ?rows \<in> set ?hrows" using ne by simp
  then have hne: "?hrows \<noteq> []" by force
  let ?m = "hd ?hrows"
  have m: "?m \<in> set ?rows" "lk_hold_id ?m = lk_hold_id (hd ?rows)"
    using hd_in_set [OF hne] by auto
  have L: "locks_inv (db_seat_locks db)" using inv by (simp add: store_inv_def)
  have mdb: "?m \<in> set (db_seat_locks db)" "owned_by op idn ?m" "lk_hold_id ?m \<noteq> None"
    using m(1) by (auto simp: latest_rows_def)
  have hid: "lk_hold_id ?m = Some (hold_holdId h)" using mdb(3) by (simp add: h holdFromRows_def Let_def)
  have same: "set (hold_locks (hold_holdId h) db) = set ?hrows"
  proof
    show "set ?hrows \<subseteq> set (hold_locks (hold_holdId h) db)"
      using hid m(2) by (auto simp: hold_locks_def dest: latest_rows_set)
    show "set (hold_locks (hold_holdId h) db) \<subseteq> set ?hrows"
    proof
      fix l assume "l \<in> set (hold_locks (hold_holdId h) db)"
      then have l: "l \<in> set (db_seat_locks db)" "lk_hold_id l = lk_hold_id ?m" using hid by (auto simp: hold_locks_def)
      from locks_invD(3) [OF L l(1) mdb(1) l(2)] mdb(2) have "owned_by op idn l"
        by (simp add: owned_by_def row_identity_def lock_header_def)
      with l mdb(3) m(2) show "l \<in> set ?hrows" by (auto simp: latest_rows_def)
    qed
  qed
  show "hold_locks (hold_holdId h) db \<noteq> []" using same hne by (metis set_empty)
  show "lk_seat_id ` set (hold_locks (hold_holdId h) db) = set (hold_seatIds h)"
    unfolding same by (simp add: h holdFromRows_def Let_def)
  show "\<forall>l \<in> set (hold_locks (hold_holdId h) db). lk_service_id l = hold_serviceId h \<and> lk_travel_date l = hold_travelDate h"
  proof
    fix l assume "l \<in> set (hold_locks (hold_holdId h) db)"
    then have l: "l \<in> set (db_seat_locks db)" "lk_hold_id l = lk_hold_id ?m" using hid by (auto simp: hold_locks_def)
    from locks_invD(3) [OF L l(1) mdb(1) l(2)]
    show "lk_service_id l = hold_serviceId h \<and> lk_travel_date l = hold_travelDate h"
      by (simp add: lock_header_def h holdFromRows_def Let_def)
  qed
qed

subsection \<open>Retention\<close>

text \<open>
  An order without passengers: no manifest group anywhere in it lists anything but seat ids.
\<close>

definition manifest_entries :: "(string \<times> json) list \<Rightarrow> json list option" where
  "manifest_entries kvs =
     (case (tag_code (JObj kvs), map_of kvs ''list'') of
        (Some (JStr c), Some (JArr entries)) \<Rightarrow> if c = ''MANIFEST'' then Some entries else None
      | _ \<Rightarrow> None)"

fun manifest_clean :: "json \<Rightarrow> bool" where
  "manifest_clean (JArr xs) \<longleftrightarrow> (\<forall>x \<in> set xs. manifest_clean x)"
| "manifest_clean (JObj kvs) \<longleftrightarrow>
     (case manifest_entries kvs of
        Some entries \<Rightarrow> (\<forall>e \<in> set entries. tag_code e = Some (JStr ''SEAT_ID''))
      | None \<Rightarrow> (\<forall>kv \<in> set kvs. manifest_clean (snd kv)))"
| "manifest_clean v \<longleftrightarrow> True"

lemma withoutManifestNames_obj:
  "withoutManifestNames (JObj kvs) =
     (case manifest_entries kvs of
        Some entries \<Rightarrow> JObj (put ''list'' (JArr (filter (\<lambda>e. tag_code e = Some (JStr ''SEAT_ID'')) entries)) kvs)
      | None \<Rightarrow> JObj (map (\<lambda>(k, v). (k, withoutManifestNames v)) kvs))"
  by (simp add: manifest_entries_def split: option.splits json.splits)

declare withoutManifestNames.simps(2) [simp del] withoutManifestNames_obj [simp]

lemma map_of_map_values: "map_of (map (\<lambda>(k, v). (k, f v)) kvs) k = map_option f (map_of kvs k)"
  by (induction kvs) auto

text \<open>Rewriting the members of an object does not turn it into a manifest group.\<close>

lemma withoutManifestNames_shape [simp]:
  "(withoutManifestNames v = JStr c) = (v = JStr c)"
  "(\<exists>xs. withoutManifestNames v = JArr xs) = (\<exists>xs. v = JArr xs)"
  by (cases v; simp split: option.splits)+

lemma field_code_without:
  "field (withoutManifestNames v) ''code'' = Some (JStr c) \<longleftrightarrow> field v ''code'' = Some (JStr c)"
  by (cases v) (auto simp: map_of_put map_of_map_values split: option.splits)

lemma manifest_entries_without:
  assumes "manifest_entries kvs = None"
  shows "manifest_entries (map (\<lambda>(k, v). (k, withoutManifestNames v)) kvs) = None"
proof -
  have code: "tag_code (JObj (map (\<lambda>(k, v). (k, withoutManifestNames v)) kvs)) = Some (JStr c) \<longleftrightarrow>
      tag_code (JObj kvs) = Some (JStr c)" for c
    by (auto simp: tag_code_def field2_def map_of_map_values field_code_without split: option.splits)
  have arr: "(\<exists>xs. map_of (map (\<lambda>(k, v). (k, withoutManifestNames v)) kvs) ''list'' = Some (JArr xs)) \<longleftrightarrow>
      (\<exists>xs. map_of kvs ''list'' = Some (JArr xs))"
    by (cases "map_of kvs ''list''") (simp_all add: map_of_map_values)
  have *: "manifest_entries ks = None \<longleftrightarrow>
      \<not> (tag_code (JObj ks) = Some (JStr ''MANIFEST'') \<and> (\<exists>xs. map_of ks ''list'' = Some (JArr xs)))" for ks
    by (auto simp: manifest_entries_def split: option.splits json.splits)
  show ?thesis using assms unfolding * code arr .
qed

lemma manifest_entries_filtered:
  assumes "manifest_entries kvs = Some entries"
  shows "manifest_entries (put ''list'' (JArr xs) kvs) = Some xs"
proof -
  have "tag_code (JObj (put ''list'' (JArr xs) kvs)) = tag_code (JObj kvs)"
    by (simp add: tag_code_def field2_def map_of_put)
  with assms show ?thesis
    by (auto simp: manifest_entries_def map_of_put split: option.splits json.splits if_splits)
qed

lemma withoutManifestNames_clean: "manifest_clean (withoutManifestNames v)"
proof (induction v rule: withoutManifestNames.induct)
  case (2 kvs)
  show ?case
  proof (cases "manifest_entries kvs")
    case None
    have "manifest_clean (withoutManifestNames v)" if "(k, v) \<in> set kvs" for k v
      using None 2 that by (auto simp: manifest_entries_def split: option.splits json.splits if_splits; blast)
    with None show ?thesis
      by (auto simp: manifest_entries_without)
  next
    case (Some entries)
    then show ?thesis by (simp add: manifest_entries_filtered)
  qed
qed auto

text \<open>What the transaction of the sweep leaves of the seats and of the orders.\<close>

lemma clear_manifests_seats:
  assumes "s \<in> set (db_booking_seats (clear_manifests stale db))" "sr_name s \<noteq> None"
  shows "s \<in> set (db_booking_seats db) \<and> sr_booking_id s \<notin> fst ` set stale"
  using assms unfolding clear_manifests_def
proof (induction stale arbitrary: db)
  case (Cons b stale)
  from Cons.IH [of "clear_manifest b db"] Cons.prems
  have s: "s \<in> set (db_booking_seats (clear_manifest b db))" "sr_booking_id s \<notin> fst ` set stale" by auto
  then obtain t where t: "t \<in> set (db_booking_seats db)" "s = nameless (fst b) t"
    by (auto simp: clear_manifest_db updateStoredOrder_def)
  with Cons.prems(2) have "sr_booking_id t \<noteq> fst b" by (auto simp: nameless_def)
  with s t show ?case by (auto simp: nameless_def)
qed simp

lemma clear_manifests_bookings:
  assumes "b \<in> set (db_bookings (clear_manifests stale db))"
  shows "\<exists>a \<in> set (db_bookings db). bk_id b = bk_id a \<and> bk_departure_at b = bk_departure_at a
     \<and> (bk_id a \<in> fst ` set stale \<longrightarrow> manifest_clean (bk_order_json b))
     \<and> (bk_id a \<notin> fst ` set stale \<longrightarrow> b = a)"
  using assms unfolding clear_manifests_def
proof (induction stale arbitrary: db)
  case (Cons x stale)
  then obtain c where c: "c \<in> set (db_bookings (clear_manifest x db))" "bk_id b = bk_id c"
    "bk_departure_at b = bk_departure_at c" "bk_id c \<in> fst ` set stale \<longrightarrow> manifest_clean (bk_order_json b)"
    "bk_id c \<notin> fst ` set stale \<longrightarrow> b = c"
    by (auto dest!: Cons.IH [of "clear_manifest x db"])
  then obtain a where a: "a \<in> set (db_bookings db)"
    "c = (if bk_id a = fst x then a\<lparr>bk_order_json := withoutManifestNames (snd x)\<rparr> else a)"
    by (auto simp: clear_manifest_db updateStoredOrder_def in_update_where)
  show ?case
  proof (rule bexI [OF _ a(1)])
    show "bk_id b = bk_id a \<and> bk_departure_at b = bk_departure_at a
       \<and> (bk_id a \<in> fst ` set (x # stale) \<longrightarrow> manifest_clean (bk_order_json b))
       \<and> (bk_id a \<notin> fst ` set (x # stale) \<longrightarrow> b = a)"
      using c a(2) withoutManifestNames_clean [of "snd x"] by (cases "bk_id a = fst x") auto
  qed
qed simp

lemma sweep_leaves_nothing_stale:
  "stale_bookings cutoff (clear_manifests (stale_bookings cutoff db) db) = []"
proof -
  let ?stale = "stale_bookings cutoff db"
  let ?d = "clear_manifests ?stale db"
  have False
    if b: "b \<in> set (db_bookings ?d)" "bk_departure_at b < cutoff" "s \<in> set (db_booking_seats ?d)"
      "sr_booking_id s = bk_id b" "sr_name s \<noteq> None" for b s
  proof -
    obtain a where a: "a \<in> set (db_bookings db)" "bk_id b = bk_id a" "bk_departure_at b = bk_departure_at a"
      using clear_manifests_bookings [OF b(1)] by auto
    have s: "s \<in> set (db_booking_seats db)" "sr_booking_id s \<notin> fst ` set ?stale"
      using clear_manifests_seats [OF b(3,5)] by simp_all
    have "bk_id a \<in> fst ` set ?stale"
      unfolding stale_bookings_def using a b s(1) by (force simp: list_ex_iff)
    with s(2) b(4) a(2) show False by simp
  qed
  then show ?thesis unfolding stale_bookings_def [of cutoff ?d]
    by (simp add: filter_empty_conv list_ex_iff) (metis option.exhaust)
qed

subsection \<open>What is owed\<close>

lemma owed_per_seat:
  assumes inv: "store_inv db" and b: "b \<in> set (db_bookings db)"
  shows "booking_owed db b = sum_list (map (\<lambda>s. sr_base_paise s + sr_reservation_fee_paise s
     - (if sr_status s = CANCELLED then refund_value s - sr_toll_paise s else 0)) (seats_of (bk_id b) db))"
proof -
  let ?ss = "seats_of (bk_id b) db"
  have M: "booking_money ?ss b" and R: "\<And>s. s \<in> set ?ss \<Longrightarrow> sr_status s = CONFIRMED \<Longrightarrow> refund_value s = 0"
    using inv b by (auto simp: store_inv_def money_inv_def seats_of_def refund_value_def)
  have cc: "sr_status s = CANCELLED \<longleftrightarrow> sr_status s \<noteq> CONFIRMED" for s by (cases "sr_status s") auto
  have refund: "(case bk_refund_paise b of None \<Rightarrow> 0 | Some r \<Rightarrow> r) = sum_list (map refund_value ?ss)"
  proof (cases "bk_refund_paise b")
    case None
    then have "\<forall>s \<in> set ?ss. refund_value s = 0" using M R by (auto simp: booking_money_def)
    then have "sum_list (map refund_value ?ss) = 0" by (induction ?ss) (simp_all add: sum_list_0 cong: map_cong)
    then show ?thesis using None by simp
  qed (use M in \<open>simp add: booking_money_def\<close>)
  have split: "sum_list (map (\<lambda>s. sr_base_paise s + sr_reservation_fee_paise s
       - (if sr_status s = CANCELLED then refund_value s - sr_toll_paise s else 0)) ss)
     = sum_list (map sr_base_paise ss) + sum_list (map sr_reservation_fee_paise ss)
       - sum_list (map refund_value ss)
       + sum_list (map sr_toll_paise (filter (\<lambda>s. sr_status s = CANCELLED) ss))"
    if "\<And>s. s \<in> set ss \<Longrightarrow> sr_status s = CONFIRMED \<Longrightarrow> refund_value s = 0" for ss
    using that by (induction ss) (auto simp: cc)
  show ?thesis
    using M split [OF R] by (simp add: booking_owed_def refund booking_money_def)
qed

subsection \<open>A concrete run\<close>

text \<open>One rider holds two seats, confirms them, and cancels one.\<close>

definition run_identity :: ReservedIdentity where
  "run_identity = \<lparr>ri_bapId = ''bap'', ri_bapUri = ''uri'', ri_transactionId = ''t1''\<rparr>"

definition run_hold :: HoldParams where
  "run_hold = \<lparr>hp_operator = ''ksrtc'', hp_identity = run_identity, hp_serviceId = ''S1'',
     hp_travelDate = ''2026-09-10'', hp_seatIds = [''2'', ''1''], hp_nowMs = 1000, hp_ttlSeconds = 60,
     hp_skipAvailabilityCheckForTest = False\<rparr>"

definition run_sale :: "string \<Rightarrow> SeatSale" where
  "run_sale seat = \<lparr>sale_seatId = seat, sale_name = ''A'', sale_age = None, sale_gender = Some Female,
     sale_basePaise = 10000, sale_reservationFeePaise = 500, sale_tollPaise = 300\<rparr>"

definition run_confirm :: ConfirmParams where
  "run_confirm = \<lparr>cp_holdId = ''HLD-KSRTC-AB1'', cp_operator = ''ksrtc'', cp_identity = run_identity,
     cp_serviceId = ''S1'', cp_travelDate = ''2026-09-10'', cp_serviceClass = ''AIRAVAT'',
     cp_fromBoardingPointId = ''B1'', cp_toBoardingPointId = ''B2'', cp_departureAt = 500000,
     cp_seats = [run_sale ''1'', run_sale ''2''], cp_settlementCorporation = None,
     cp_settlementBasis = NoProvenance, cp_nowMs = 2000, cp_order = (\<lambda>i r. Inr JNull)\<rparr>"

definition run_cancel :: CancelParams where
  "run_cancel = \<lparr>xp_bookingId = ''SPECIMEN-RSV-KSRTC-CD2'', xp_seatIds = [''1''], xp_slabCode = ''UNDER_2H'',
     xp_refundBySeat = [''1'' \<mapsto> 300], xp_nowMs = 3000\<rparr>"

definition held_db :: Database where
  "held_db = fst (acquireHold ''ab1'' run_hold empty_db)"

definition sold_db :: Database where
  "sold_db = fst (confirmBooking ''cd2'' run_confirm held_db)"

definition cancelled_db :: Database where
  "cancelled_db = fst (applyCancellation run_cancel sold_db)"

lemma run_matches: "sale_matches_hold run_confirm held_db"
  by code_simp

lemma run_reachable: "store_reachable held_db" "store_reachable sold_db" "store_reachable cancelled_db"
proof -
  show h: "store_reachable held_db"
    unfolding held_db_def by (rule store_reachable_step [OF store_reachable_empty step_acquire])
  show s: "store_reachable sold_db"
    unfolding sold_db_def by (rule store_reachable_step [OF h step_confirm [OF run_matches]])
  show "store_reachable cancelled_db"
    unfolding cancelled_db_def by (rule store_reachable_step [OF s step_cancel])
qed

lemma run_values:
  "length (filter (\<lambda>s. sr_status s = CONFIRMED) (db_booking_seats sold_db)) = 2"
  "map (\<lambda>l. (lk_seat_id l, lk_state l)) (db_seat_locks cancelled_db) = [(''1'', RELEASED), (''2'', BOOKED)]"
  by code_simp+

subsection \<open>Properties\<close>

text \<open>
  C15. A seat is never sold twice: whatever transactions ran, in whatever order, no two confirmed
  seats of bookings are the same seat of the same dated departure.
\<close>

theorem seat_never_sold_twice:
  assumes "store_reachable db"
  shows "distinct (map (sold_seat db) (filter (\<lambda>s. sr_status s = CONFIRMED) (db_booking_seats db)))"
  by (rule sold_seats_distinct [OF store_reachable_inv [OF assms]])

theorem seat_never_sold_twice_witness:
  "distinct (map (sold_seat sold_db) (filter (\<lambda>s. sr_status s = CONFIRMED) (db_booking_seats sold_db)))
   \<and> length (filter (\<lambda>s. sr_status s = CONFIRMED) (db_booking_seats sold_db)) = 2"
  using seat_never_sold_twice [OF run_reachable(2)] run_values(1) by blast

text \<open>
  A live lock is the only one on its seat, a sold seat has its booked lock and a booked lock its
  sold seat: after any run, the confirmed seats of the bookings are exactly the booked locks.
\<close>

theorem booked_locks_are_sold_seats:
  assumes "store_reachable db"
  shows "distinct (map lock_key (live_locks (db_seat_locks db)))
     \<and> (\<lambda>s. (Some (sr_booking_id s), sr_seat_id s)) ` {s \<in> set (db_booking_seats db). sr_status s = CONFIRMED}
       = (\<lambda>l. (lk_booking_id l, lk_seat_id l)) ` {l \<in> set (db_seat_locks db). lk_state l = BOOKED}"
proof
  have inv: "store_inv db" by (rule store_reachable_inv [OF assms])
  then show "distinct (map lock_key (live_locks (db_seat_locks db)))"
    by (simp add: store_inv_def locks_inv_def seat_locks_ok_def)
  have S: "sold_inv db" using inv by (simp add: store_inv_def)
  show "(\<lambda>s. (Some (sr_booking_id s), sr_seat_id s)) ` {s \<in> set (db_booking_seats db). sr_status s = CONFIRMED}
       = (\<lambda>l. (lk_booking_id l, lk_seat_id l)) ` {l \<in> set (db_seat_locks db). lk_state l = BOOKED}"
    using sold_invD(1,2) [OF S] by (fastforce simp: sells_def image_iff)
qed

theorem booked_locks_are_sold_seats_witness:
  "distinct (map lock_key (live_locks (db_seat_locks cancelled_db)))
   \<and> (\<lambda>s. (Some (sr_booking_id s), sr_seat_id s)) ` {s \<in> set (db_booking_seats cancelled_db). sr_status s = CONFIRMED}
       = (\<lambda>l. (lk_booking_id l, lk_seat_id l)) ` {l \<in> set (db_seat_locks cancelled_db). lk_state l = BOOKED}
   \<and> map (\<lambda>l. (lk_seat_id l, lk_state l)) (db_seat_locks cancelled_db) = [(''1'', RELEASED), (''2'', BOOKED)]"
  using booked_locks_are_sold_seats [OF run_reachable(3)] run_values(2) by blast

text \<open>
  A select that names exactly the seats its transaction already holds gets the same hold back,
  with the same expiry, at any later instant at which the hold is still live: the hold is neither
  replaced nor extended. The clock of the store has not run backwards for this transaction.
\<close>

theorem acquireHold_idempotent:
  assumes "store_reachable db" "acquireHold drawn p db = (db', Inr h)"
    and "\<forall>l \<in> set (db_seat_locks db). owned_by (hp_operator p) (hp_identity p) l \<longrightarrow> lk_created_at l \<le> hp_nowMs p"
    and "holdStatus h later = LIVE"
  shows "snd (acquireHold drawn' (p\<lparr>hp_nowMs := later\<rparr>) db') = Inr h"
  using acquire_again [OF store_reachable_inv [OF assms(1)] assms(2) _ assms(4)] assms(3) by blast

theorem acquireHold_idempotent_witness:
  "\<exists>h. snd (acquireHold ''zz9'' (run_hold\<lparr>hp_nowMs := 50000\<rparr>) held_db) = Inr h \<and> hold_expiresAt h = 61000"
proof -
  obtain h where h: "acquireHold ''ab1'' run_hold empty_db = (held_db, Inr h)" "hold_expiresAt h = 61000" "hold_state h = HELD"
  proof -
    have "\<exists>h. snd (acquireHold ''ab1'' run_hold empty_db) = Inr h \<and> hold_expiresAt h = 61000 \<and> hold_state h = HELD"
    proof -
      have "case snd (acquireHold ''ab1'' run_hold empty_db) of Inl _ \<Rightarrow> False
          | Inr h \<Rightarrow> hold_expiresAt h = 61000 \<and> hold_state h = HELD" by code_simp
      then show ?thesis by (auto split: sum.splits)
    qed
    then show thesis using that by (metis held_db_def prod.collapse)
  qed
  have "snd (acquireHold ''zz9'' (run_hold\<lparr>hp_nowMs := 50000\<rparr>) held_db) = Inr h"
    by (rule acquireHold_idempotent [OF store_reachable_empty h(1)])
      (simp_all add: empty_db_def holdStatus_def h)
  with h(2) show ?thesis by blast
qed

text \<open>
  C27. A transaction has at most one booking: once it has one, a confirm with any hold, seats and
  drawn id leaves the tables as they are, and answers, if at all, with the booking that exists.
\<close>

theorem one_booking_per_transaction:
  assumes "findBookingByTransaction (cp_operator p) (cp_identity p) db = Some b"
  shows "fst (confirmBooking drawn p db) = db
     \<and> (\<forall>c. snd (confirmBooking drawn p db) = Inr c \<longrightarrow> c = b)"
  by (rule confirmBooking_second [OF assms])

theorem one_booking_per_transaction_witness:
  "fst (confirmBooking ''ef3'' run_confirm sold_db) = sold_db"
proof -
  have "findBookingByTransaction (cp_operator run_confirm) (cp_identity run_confirm) sold_db \<noteq> None"
    by code_simp
  then show ?thesis using one_booking_per_transaction [of run_confirm sold_db] by blast
qed

text \<open>
  A hold or a confirm that is refused, for whatever reason, leaves every table as it was.
\<close>

theorem refused_writes_change_nothing:
  "((\<exists>e. snd (acquireHold drawn p db) = Inl e) \<longrightarrow> fst (acquireHold drawn p db) = db)
   \<and> ((\<exists>e. snd (confirmBooking drawn q db) = Inl e) \<longrightarrow> fst (confirmBooking drawn q db) = db)"
  using acquireHold_failed confirmBooking_failed by blast

theorem refused_writes_change_nothing_witness:
  "fst (acquireHold ''gh4'' (run_hold\<lparr>hp_identity := run_identity\<lparr>ri_transactionId := ''t2''\<rparr>\<rparr>) held_db) = held_db
   \<and> fst (confirmBooking ''ij5'' (run_confirm\<lparr>cp_holdId := ''none''\<rparr>) held_db) = held_db"
proof -
  have *: "(\<exists>e. r = Inl e) = (case r of Inl _ \<Rightarrow> True | Inr _ \<Rightarrow> False)" for r :: "'a + 'b"
    by (cases r) auto
  have "\<exists>e. snd (acquireHold ''gh4'' (run_hold\<lparr>hp_identity := run_identity\<lparr>ri_transactionId := ''t2''\<rparr>\<rparr>) held_db) = Inl e"
    "\<exists>e. snd (confirmBooking ''ij5'' (run_confirm\<lparr>cp_holdId := ''none''\<rparr>) held_db) = Inl e"
    unfolding * by code_simp+
  then show ?thesis using refused_writes_change_nothing by blast
qed

text \<open>
  Rows of \<open>seat_locks\<close> are never deleted and never revived: along any run from a reachable
  state, every row keeps its place, its owner, its departure and its seat, and its state only moves
  from \<open>HELD\<close> on, or from \<open>BOOKED\<close> to \<open>RELEASED\<close>.
\<close>

theorem locks_only_move_forward:
  assumes "store_reachable db" "store_step\<^sup>*\<^sup>* db db'"
  shows "length (db_seat_locks db) \<le> length (db_seat_locks db')
     \<and> (\<forall>i < length (db_seat_locks db). lock_evolves (db_seat_locks db ! i) (db_seat_locks db' ! i))"
proof
  obtain ls rest where g: "db_seat_locks db' = ls @ rest" "list_all2 lock_evolves (db_seat_locks db) ls"
    using store.le_steps [OF assms(2) store_reachable_inv [OF assms(1)]]
    by (auto simp: locks_grow_def locks_evolve_def)
  then show "length (db_seat_locks db) \<le> length (db_seat_locks db')" by (simp add: list_all2_lengthD)
  show "\<forall>i < length (db_seat_locks db). lock_evolves (db_seat_locks db ! i) (db_seat_locks db' ! i)"
    using g by (auto simp: list_all2_conv_all_nth nth_append)
qed

theorem locks_only_move_forward_witness:
  "lock_evolves (db_seat_locks held_db ! 1) (db_seat_locks sold_db ! 1)"
proof -
  have "length (db_seat_locks held_db) = 2" by code_simp
  moreover have "store_step\<^sup>*\<^sup>* held_db sold_db"
    unfolding sold_db_def using step_confirm [OF run_matches] by blast
  ultimately show ?thesis using locks_only_move_forward [OF run_reachable(1)] by auto
qed

text \<open>
  The batch forms of the sweep and of the claims, one statement for a whole search, do what a
  loop over the single-service forms does.
\<close>

theorem batch_queries_agree:
  "fst (sweepExpiredHoldsForServices serviceIds travelDate nowMs db)
     = foldl (\<lambda>db' serviceId. fst (sweepExpiredHolds serviceId travelDate nowMs db')) db serviceIds
   \<and> map_of (liveClaimsForServices serviceIds travelDate db) =
       (\<lambda>serviceId. if serviceId \<in> set serviceIds then Some (liveClaims serviceId travelDate db) else None)"
proof -
  have "map_of (liveClaimsForServices serviceIds travelDate db) sid = None" if "sid \<notin> set serviceIds" for sid
    using that by (auto simp: liveClaimsForServices_def Let_def map_of_eq_None_iff)
  then show ?thesis using batch_sweep_eq batch_claims_eq by (auto intro!: ext)
qed

text \<open>
  A retention sweep that is not throttled leaves no passenger of a departed coach: afterwards no
  booking past the cutoff still has a seat with a name, and the stored order of every booking it
  cleared lists nothing but seat ids in its manifest groups.
\<close>

theorem sweepManifests_clears:
  assumes "\<not> sweep_throttled interval lastSweepAt nowMs"
    and "sweepManifests interval nowMs retentionDays (lastSweepAt, db) = ((lastSweepAt', db'), n)"
  shows "lastSweepAt' = Some nowMs \<and> stale_bookings (retention_cutoff nowMs retentionDays) db' = []
     \<and> (\<forall>b \<in> set (db_bookings db'). bk_id b \<in> fst ` set (stale_bookings (retention_cutoff nowMs retentionDays) db)
           \<longrightarrow> manifest_clean (bk_order_json b))"
proof -
  let ?stale = "stale_bookings (retention_cutoff nowMs retentionDays) db"
  have db': "lastSweepAt' = Some nowMs" "db' = clear_manifests ?stale db"
    using assms by (auto simp: sweepManifests_def Let_def)
  moreover have "manifest_clean (bk_order_json b)" if "b \<in> set (db_bookings db')" "bk_id b \<in> fst ` set ?stale" for b
    using clear_manifests_bookings [of b ?stale db] that db'(2) by metis
  ultimately show ?thesis using sweep_leaves_nothing_stale by metis
qed

theorem sweepManifests_clears_witness:
  "stale_bookings (retention_cutoff 700000 0) (snd (fst (sweepManifests 60000 700000 0 (None, sold_db)))) = []
   \<and> snd (sweepManifests 60000 700000 0 (None, sold_db)) = 1"
proof -
  have "\<not> sweep_throttled 60000 None 700000" by (simp add: sweep_throttled_def)
  from sweepManifests_clears [OF this]
  have "stale_bookings (retention_cutoff 700000 0) (snd (fst (sweepManifests 60000 700000 0 (None, sold_db)))) = []"
    by (metis prod.collapse)
  moreover have "snd (sweepManifests 60000 700000 0 (None, sold_db)) = 1" by code_simp
  ultimately show ?thesis by blast
qed

text \<open>
  The backlog counts, for every booking of a reachable state, what its corporation is still
  owed seat by seat: the base fare and the fee of every seat, less what a cancelled seat gave back
  beyond the toll, which was never the corporation's.
\<close>

theorem owed_is_complement_of_refund:
  assumes "store_reachable db" "b \<in> set (db_bookings db)"
  shows "booking_owed db b = sum_list (map (\<lambda>s. sr_base_paise s + sr_reservation_fee_paise s
     - (if sr_status s = CANCELLED then refund_value s - sr_toll_paise s else 0)) (seats_of (bk_id b) db))"
  by (rule owed_per_seat [OF store_reachable_inv [OF assms(1)] assms(2)])

theorem owed_is_complement_of_refund_witness:
  "\<exists>b \<in> set (db_bookings cancelled_db). booking_owed cancelled_db b = 21000"
proof -
  have "\<exists>b. b \<in> set (db_bookings cancelled_db) \<and> sum_list (map (\<lambda>s. sr_base_paise s + sr_reservation_fee_paise s
     - (if sr_status s = CANCELLED then refund_value s - sr_toll_paise s else 0)) (seats_of (bk_id b) cancelled_db)) = 21000"
  proof -
    have "list_ex (\<lambda>b. sum_list (map (\<lambda>s. sr_base_paise s + sr_reservation_fee_paise s
     - (if sr_status s = CANCELLED then refund_value s - sr_toll_paise s else 0)) (seats_of (bk_id b) cancelled_db)) = 21000)
     (db_bookings cancelled_db)" by code_simp
    then show ?thesis by (auto simp: list_ex_iff)
  qed
  then show ?thesis using owed_is_complement_of_refund [OF run_reachable(3)] by metis
qed

text \<open>
  C28. A lapsed hold does not keep its seats: as soon as every live claim on the seats asked for is a
  hold whose expiry has come, a select of them with an unused id succeeds, and holds exactly those
  seats, without anything else having to run in between.
\<close>

theorem lapsed_seats_can_be_held:
  assumes "store_reachable db" "lapsed_seats p db" "hp_seatIds p \<noteq> []"
    and "shortId drawn ''HLD-KSRTC'' = Inr h" "fresh_hold h db"
  shows "\<exists>k. snd (acquireHold drawn p db) = Inr k \<and> hold_seatIds k = sort (dedup (hp_seatIds p))"
  by (rule acquire_succeeds [OF store_reachable_inv [OF assms(1)] assms(2-5)])

theorem lapsed_seats_can_be_held_witness:
  "\<exists>k. snd (acquireHold ''zz9'' (run_hold\<lparr>hp_identity := run_identity\<lparr>ri_transactionId := ''t2''\<rparr>,
       hp_nowMs := 61000\<rparr>) held_db) = Inr k \<and> hold_seatIds k = [''1'', ''2'']"
proof -
  let ?p = "run_hold\<lparr>hp_identity := run_identity\<lparr>ri_transactionId := ''t2''\<rparr>, hp_nowMs := 61000\<rparr>"
  have rows: "map (\<lambda>l. (lk_hold_id l, lk_id l)) (db_seat_locks held_db)
      = [(Some ''HLD-KSRTC-AB1'', ''HLD-KSRTC-AB1-1''), (Some ''HLD-KSRTC-AB1'', ''HLD-KSRTC-AB1-2'')]" by code_simp
  have "fresh_hold ''HLD-KSRTC-ZZ9'' held_db"
  proof -
    have "(lk_hold_id l, lk_id l) \<in> set [(Some ''HLD-KSRTC-AB1'', ''HLD-KSRTC-AB1-1''), (Some ''HLD-KSRTC-AB1'', ''HLD-KSRTC-AB1-2'')]"
      if "l \<in> set (db_seat_locks held_db)" for l
      unfolding rows [symmetric] using that by simp
    then show ?thesis by (fastforce simp: fresh_hold_def)
  qed
  moreover have "lapsed_seats ?p held_db" "hp_seatIds ?p \<noteq> []" "sort (dedup (hp_seatIds ?p)) = [''1'', ''2'']"
    "shortId ''zz9'' ''HLD-KSRTC'' = Inr ''HLD-KSRTC-ZZ9''" by code_simp+
  ultimately show ?thesis using lapsed_seats_can_be_held [OF run_reachable(1), of ?p] by metis
qed

end
