(* ===== verification/Reserved_Manifest.thy ===== *)
theory Reserved_Manifest
  imports JS_Number Store_Types
begin

text \<open>
  The passenger manifest (\<open>src/src/reserved/manifest.ts\<close>). An entry of a manifest group is its
  code and its value; the parser is the loop of the source over those entries, its local \<open>current\<close>
  and \<open>records\<close> passed along. A number outside the range of an age never reaches a record, so an
  age is an integer.
\<close>

record ManifestRecord =
  mr_seatId :: string
  mr_name :: string
  mr_age :: "int option"
  mr_gender :: "ManifestGender option"

definition ACCEPTED_CODES :: "string list" where
  "ACCEPTED_CODES = [''SEAT_ID'', ''NAME'', ''AGE'', ''GENDER'']"

definition gender_of :: "string \<Rightarrow> ManifestGender option" where
  "gender_of v = (if v = ''male'' then Some Male else if v = ''female'' then Some Female
     else if v = ''other'' then Some Other else None)"

record TagEntry =
  te_code :: "string option"
  te_value :: "string option"

fun json_string :: "json option \<Rightarrow> string option" where
  "json_string (Some (JStr s)) = Some s"
| "json_string _ = None"

definition tag_entry :: "json \<Rightarrow> TagEntry" where
  "tag_entry e = \<lparr>te_code = json_string (tag_code e), te_value = json_string (field e ''value'')\<rparr>"

definition manifestTag :: "json list option \<Rightarrow> TagEntry list option" where
  "manifestTag tags =
     (case tags of
        None \<Rightarrow> None
      | Some ts \<Rightarrow>
          (case List.find (\<lambda>t. tag_code t = Some (JStr ''MANIFEST'')) ts of
             None \<Rightarrow> None
           | Some grp \<Rightarrow>
               Some (map tag_entry (case field grp ''list'' of None \<Rightarrow> [] | Some l \<Rightarrow> elems l))))"

subsection \<open>Parsing\<close>

definition unexpected_codes :: "TagEntry list \<Rightarrow> string list" where
  "unexpected_codes entries =
     sort (dedup (filter (\<lambda>code. code \<notin> set ACCEPTED_CODES)
       (map (\<lambda>e. case te_code e of None \<Rightarrow> [] | Some c \<Rightarrow> c) entries)))"

text \<open>The record being read: \<open>Partial<ManifestRecord>\<close>, empty before the first \<open>SEAT_ID\<close>.\<close>

record Partial =
  pt_seatId :: "string option"
  pt_name :: "string option"
  pt_age :: "int option"
  pt_gender :: "ManifestGender option"

definition no_record :: Partial where
  "no_record = \<lparr>pt_seatId = None, pt_name = None, pt_age = None, pt_gender = None\<rparr>"

definition flush :: "ManifestRecord list \<times> Partial \<Rightarrow> failure + ManifestRecord list \<times> Partial" where
  "flush st =
     (case st of (records, current) \<Rightarrow>
        (case pt_seatId current of
           None \<Rightarrow> Inr (records, current)
         | Some seatId \<Rightarrow>
             (case pt_name current of
                None \<Rightarrow> refuse MANIFEST_INCOMPLETE
              | Some name \<Rightarrow>
                  if name = [] then refuse MANIFEST_INCOMPLETE
                  else Inr (records @ [\<lparr>mr_seatId = seatId, mr_name = name, mr_age = pt_age current,
                                        mr_gender = pt_gender current\<rparr>], no_record))))"

text \<open>\<open>Number(value)\<close> as an age; \<open>Number(undefined)\<close> is not a number.\<close>

definition parse_age :: "string option \<Rightarrow> int option" where
  "parse_age value =
     (case value of
        None \<Rightarrow> None
      | Some s \<Rightarrow>
          (case Number s of
             None \<Rightarrow> None
           | Some x \<Rightarrow> if isInteger x \<and> 0 \<le> x \<and> x \<le> 130 then Some \<lfloor>x\<rfloor> else None))"

definition absent :: "string option \<Rightarrow> bool" where
  "absent v \<longleftrightarrow> v = None \<or> v = Some []"

definition manifest_entry ::
    "TagEntry \<Rightarrow> ManifestRecord list \<times> Partial \<Rightarrow> failure + ManifestRecord list \<times> Partial" where
  "manifest_entry entry st =
     (let code = te_code entry; value = te_value entry in
      if code = Some ''SEAT_ID'' then
        andThen (flush st) (\<lambda>(records, current).
          if absent value then refuse MANIFEST_INCOMPLETE
          else Inr (records, no_record\<lparr>pt_seatId := value\<rparr>))
      else (case st of (records, current) \<Rightarrow>
        if pt_seatId current = None then refuse MANIFEST_INCOMPLETE
        else if code = Some ''NAME'' then
          (if absent value then refuse MANIFEST_INCOMPLETE
           else Inr (records, current\<lparr>pt_name := value\<rparr>))
        else if code = Some ''AGE'' then
          (case parse_age value of
             None \<Rightarrow> refuse MANIFEST_INCOMPLETE
           | Some age \<Rightarrow> Inr (records, current\<lparr>pt_age := Some age\<rparr>))
        else if code = Some ''GENDER'' then
          (case Option.bind value gender_of of
             None \<Rightarrow> refuse MANIFEST_INCOMPLETE
           | Some g \<Rightarrow> Inr (records, current\<lparr>pt_gender := Some g\<rparr>))
        else Inr st))"

fun manifest_entries_loop ::
    "TagEntry list \<Rightarrow> ManifestRecord list \<times> Partial \<Rightarrow> failure + ManifestRecord list \<times> Partial" where
  "manifest_entries_loop [] st = Inr st"
| "manifest_entries_loop (e # es) st =
     andThen (manifest_entry e st) (\<lambda>st'. manifest_entries_loop es st')"

definition parseManifest :: "TagEntry list \<Rightarrow> failure + ManifestRecord list" where
  "parseManifest entries =
     (let unexpected = unexpected_codes entries in
      if unexpected \<noteq> [] then
        Inl (Refusal MANIFEST_FIELD_NOT_ACCEPTED [(''unexpectedCodes'', JArr (map JStr unexpected))])
      else
        andThen (manifest_entries_loop entries ([], no_record)) (\<lambda>st.
        andThen (flush st) (\<lambda>(records, _).
          if length (dedup (map mr_seatId records)) \<noteq> length (map mr_seatId records)
          then refuse MANIFEST_INCOMPLETE
          else Inr records)))"

definition assertManifestMatchesHold :: "ManifestRecord list \<Rightarrow> string list \<Rightarrow> failure + unit" where
  "assertManifestMatchesHold records heldSeatIds =
     (let named = map mr_seatId records;
          extra = sort (filter (\<lambda>seatId. seatId \<notin> set heldSeatIds) (dedup named));
          missing = filter (\<lambda>seatId. seatId \<notin> set named) heldSeatIds
      in if extra \<noteq> [] then refuse HOLD_SEAT_MISMATCH
         else if missing \<noteq> [] then refuse MANIFEST_INCOMPLETE
         else Inr ())"

subsection \<open>Printing\<close>

definition code_entry :: "string \<Rightarrow> string \<Rightarrow> json" where
  "code_entry code value = JObj [(''descriptor'', JObj [(''code'', JStr code)]), (''value'', JStr value)]"

definition record_entries :: "ManifestRecord \<Rightarrow> json list" where
  "record_entries record =
     [code_entry ''SEAT_ID'' (mr_seatId record), code_entry ''NAME'' (mr_name record)]
     @ (case mr_age record of None \<Rightarrow> [] | Some a \<Rightarrow> [code_entry ''AGE'' (string_of_int a)])
     @ (case mr_gender record of None \<Rightarrow> [] | Some g \<Rightarrow> [code_entry ''GENDER'' (gender_wire g)])"

definition manifestTagFrom :: "ManifestRecord list \<Rightarrow> json" where
  "manifestTagFrom records =
     JObj [(''descriptor'', JObj [(''code'', JStr ''MANIFEST'')]), (''display'', JBool False),
           (''list'', JArr (concat (map record_entries records)))]"

subsection \<open>What a parsed manifest is\<close>

definition record_wf :: "ManifestRecord \<Rightarrow> bool" where
  "record_wf r \<longleftrightarrow> mr_seatId r \<noteq> [] \<and> mr_name r \<noteq> []
     \<and> (case mr_age r of None \<Rightarrow> True | Some a \<Rightarrow> 0 \<le> a \<and> a \<le> 130)"

definition partial_wf :: "Partial \<Rightarrow> bool" where
  "partial_wf c \<longleftrightarrow> pt_seatId c \<noteq> Some [] \<and> pt_name c \<noteq> Some []
     \<and> (case pt_age c of None \<Rightarrow> True | Some a \<Rightarrow> 0 \<le> a \<and> a \<le> 130)"

lemma flush_wf:
  assumes "flush (rs, c) = Inr (rs', c')" "list_all record_wf rs" "partial_wf c"
  shows "list_all record_wf rs'" "partial_wf c'"
  using assms
  by (auto simp: flush_def record_wf_def partial_wf_def no_record_def split: option.splits if_splits)

lemma parse_age_range: "parse_age v = Some a \<Longrightarrow> 0 \<le> a \<and> a \<le> 130"
  by (auto simp: parse_age_def isInteger_def split: option.splits if_splits)

lemma manifest_entry_wf:
  assumes "manifest_entry e (rs, c) = Inr (rs', c')" "list_all record_wf rs" "partial_wf c"
  shows "list_all record_wf rs' \<and> partial_wf c'"
proof (cases "te_code e = Some ''SEAT_ID''")
  case True
  with assms obtain rs1 c1 where f: "flush (rs, c) = Inr (rs1, c1)" "\<not> absent (te_value e)"
    "rs' = rs1" "c' = no_record\<lparr>pt_seatId := te_value e\<rparr>"
    by (auto simp: manifest_entry_def Let_def result_simps split: if_splits)
  from flush_wf [OF f(1) assms(2,3)] f(2-4) show ?thesis
    by (auto simp: partial_wf_def no_record_def absent_def)
next
  case False
  with assms show ?thesis
    by (auto simp: manifest_entry_def Let_def partial_wf_def absent_def dest: parse_age_range
        split: if_splits option.splits)
qed

lemma manifest_loop_wf:
  assumes "manifest_entries_loop es (rs, c) = Inr (rs', c')" "list_all record_wf rs" "partial_wf c"
  shows "list_all record_wf rs' \<and> partial_wf c'"
  using assms
proof (induction es arbitrary: rs c)
  case (Cons e es)
  then obtain rs1 c1 where "manifest_entry e (rs, c) = Inr (rs1, c1)" "manifest_entries_loop es (rs1, c1) = Inr (rs', c')"
    by (auto simp: result_simps)
  with manifest_entry_wf [OF this(1) Cons.prems(2,3)] Cons.IH show ?case by blast
qed auto

lemma parseManifest_wf:
  assumes "parseManifest es = Inr rs"
  shows "list_all record_wf rs" "distinct (map mr_seatId rs)"
proof -
  obtain rs1 c1 c2 where l: "manifest_entries_loop es ([], no_record) = Inr (rs1, c1)" "flush (rs1, c1) = Inr (rs, c2)"
    and d: "length (dedup (map mr_seatId rs)) = length (map mr_seatId rs)"
    using assms by (auto simp: parseManifest_def Let_def result_simps split: if_splits)
  have "list_all record_wf rs1 \<and> partial_wf c1"
    by (rule manifest_loop_wf [OF l(1)]) (simp_all add: partial_wf_def no_record_def)
  with flush_wf(1) [OF l(2)] show "list_all record_wf rs" by blast
  show "distinct (map mr_seatId rs)" using d by (simp only: length_dedup_eq_iff)
qed

subsection \<open>Reading back what was printed\<close>

definition partial_of :: "ManifestRecord \<Rightarrow> Partial" where
  "partial_of r = \<lparr>pt_seatId = Some (mr_seatId r), pt_name = Some (mr_name r), pt_age = mr_age r,
     pt_gender = mr_gender r\<rparr>"

lemma tag_entry_code [simp]: "tag_entry (code_entry c v) = \<lparr>te_code = Some c, te_value = Some v\<rparr>"
  by (simp add: tag_entry_def code_entry_def tag_code_def field2_def)

lemma gender_of_wire [simp]: "gender_of (gender_wire g) = Some g"
  by (cases g) (simp_all add: gender_of_def)

lemma parse_age_print:
  assumes "0 \<le> a" "a \<le> 130"
  shows "parse_age (Some (string_of_int a)) = Some a"
proof -
  have "Number (digits10 (nat a)) = Some (of_int a)"
    using Number_digits10 [of "nat a"] assms by simp
  then show ?thesis using assms by (simp add: parse_age_def string_of_int_def isInteger_def)
qed

lemma flush_partial_of: "record_wf r \<Longrightarrow> flush (rs, partial_of r) = Inr (rs @ [r], no_record)"
  by (simp add: flush_def partial_of_def record_wf_def)

lemma record_entries_loop:
  assumes "record_wf r" "flush (rs, c) = Inr (rs1, c1)"
  shows "manifest_entries_loop (map tag_entry (record_entries r) @ es) (rs, c)
     = manifest_entries_loop es (rs1, partial_of r)"
proof -
  have age: "parse_age (Some (string_of_int a)) = Some a" if "mr_age r = Some a" for a
    using assms(1) that parse_age_print by (simp add: record_wf_def)
  show ?thesis
    using assms age
    by (cases "mr_age r"; cases "mr_gender r")
      (simp_all add: record_entries_def manifest_entry_def absent_def record_wf_def partial_of_def no_record_def)
qed

lemma manifest_loop_print:
  assumes "list_all record_wf rs" "flush (acc, c) = Inr (acc1, c1)" "pt_seatId c1 = None"
  shows "\<exists>acc2 c2 c3. manifest_entries_loop (map tag_entry (concat (map record_entries rs))) (acc, c) = Inr (acc2, c2)
     \<and> flush (acc2, c2) = Inr (acc1 @ rs, c3)"
  using assms
proof (induction rs arbitrary: acc c acc1 c1)
  case (Cons r rs)
  then have r: "record_wf r" "list_all record_wf rs" by simp_all
  from Cons.IH [OF r(2) flush_partial_of [OF r(1)], of acc1] Cons.prems(2)
  show ?case by (simp add: record_entries_loop [OF r(1)] no_record_def)
qed auto

lemma print_codes_accepted:
  "unexpected_codes (map tag_entry (concat (map record_entries rs))) = []"
proof -
  have "te_code e \<in> Some ` set ACCEPTED_CODES" if "e \<in> tag_entry ` set (record_entries r)" for e r
    using that by (auto simp: record_entries_def ACCEPTED_CODES_def split: option.splits)
  then have "te_code e \<in> Some ` set ACCEPTED_CODES" if "e \<in> set (map tag_entry (concat (map record_entries rs)))" for e
    using that by auto
  then have "filter (\<lambda>code. code \<notin> set ACCEPTED_CODES)
     (map (\<lambda>e. case te_code e of None \<Rightarrow> [] | Some c \<Rightarrow> c) (map tag_entry (concat (map record_entries rs)))) = []"
    by (fastforce simp: filter_empty_conv)
  then show ?thesis unfolding unexpected_codes_def by (simp only: dedup.simps sort_key_simps)
qed

lemma parse_print:
  assumes "list_all record_wf rs" "distinct (map mr_seatId rs)"
  shows "parseManifest (map tag_entry (concat (map record_entries rs))) = Inr rs"
proof -
  have "flush ([], no_record) = Inr ([], no_record)" by (simp add: flush_def no_record_def)
  from manifest_loop_print [OF assms(1) this] obtain acc2 c2 c3 where
    "manifest_entries_loop (map tag_entry (concat (map record_entries rs))) ([], no_record) = Inr (acc2, c2)"
    "flush (acc2, c2) = Inr (rs, c3)" by (auto simp: no_record_def)
  then show ?thesis
    using assms(2) length_dedup_eq_iff [of "map mr_seatId rs"]
    by (simp add: parseManifest_def print_codes_accepted)
qed

subsection \<open>Refusals\<close>

lemma flush_refusal: "flush st = Inl e \<Longrightarrow> e = Refusal MANIFEST_INCOMPLETE []"
  by (auto simp: flush_def split: prod.splits option.splits if_splits)

lemma manifest_entry_refusal: "manifest_entry en st = Inl e \<Longrightarrow> e = Refusal MANIFEST_INCOMPLETE []"
  by (auto simp: manifest_entry_def Let_def result_simps dest: flush_refusal
      split: if_splits option.splits prod.splits)

lemma manifest_loop_refusal: "manifest_entries_loop es st = Inl e \<Longrightarrow> e = Refusal MANIFEST_INCOMPLETE []"
  by (induction es arbitrary: st) (auto simp: result_simps dest: manifest_entry_refusal)

lemma parseManifest_refusal:
  assumes "parseManifest es = Inl e"
  shows "e = Refusal MANIFEST_INCOMPLETE [] \<or>
     e = Refusal MANIFEST_FIELD_NOT_ACCEPTED [(''unexpectedCodes'', JArr (map JStr (unexpected_codes es)))]"
  using assms
  by (auto simp: parseManifest_def Let_def result_simps dest: manifest_loop_refusal flush_refusal
      split: if_splits prod.splits)

lemma manifest_matches_iff:
  "assertManifestMatchesHold rs ids = Inr () \<longleftrightarrow> mr_seatId ` set rs = set ids"
proof -
  have e: "sort (filter (\<lambda>x. x \<notin> set ids) (dedup (map mr_seatId rs))) = [] \<longleftrightarrow> mr_seatId ` set rs \<subseteq> set ids"
    by (auto simp: filter_empty_conv simp flip: length_0_conv [of "sort _"])
  have m: "filter (\<lambda>x. x \<notin> set (map mr_seatId rs)) ids = [] \<longleftrightarrow> set ids \<subseteq> mr_seatId ` set rs"
    by (auto simp: filter_empty_conv)
  show ?thesis unfolding assertManifestMatchesHold_def Let_def e m by auto
qed

subsection \<open>Properties\<close>

text \<open>
  C35. A manifest that parses is complete and unambiguous, and printing it and reading the printed
  group back gives the same records: every record has a seat and a name, an age between 0 and 130
  or none, and no seat is named twice.
\<close>

theorem manifest_roundtrip:
  assumes "parseManifest entries = Inr records"
  shows "list_all record_wf records \<and> distinct (map mr_seatId records)
     \<and> (case manifestTag (Some [manifestTagFrom records]) of
          None \<Rightarrow> False | Some printed \<Rightarrow> parseManifest printed = Inr records)"
  using parseManifest_wf [OF assms] parse_print [OF parseManifest_wf [OF assms]]
  by (simp add: manifestTag_def manifestTagFrom_def tag_code_def field2_def)

definition sample_entries :: "TagEntry list" where
  "sample_entries = [\<lparr>te_code = Some ''SEAT_ID'', te_value = Some ''7''\<rparr>,
     \<lparr>te_code = Some ''NAME'', te_value = Some ''Asha''\<rparr>,
     \<lparr>te_code = Some ''AGE'', te_value = Some '' 42 ''\<rparr>,
     \<lparr>te_code = Some ''GENDER'', te_value = Some ''female''\<rparr>]"

theorem manifest_roundtrip_witness:
  "case parseManifest sample_entries of Inl _ \<Rightarrow> False
   | Inr records \<Rightarrow> map mr_age records = [Some 42] \<and>
       (case manifestTag (Some [manifestTagFrom records]) of
          None \<Rightarrow> False | Some printed \<Rightarrow> parseManifest printed = Inr records)"
proof -
  have "case parseManifest sample_entries of Inl _ \<Rightarrow> False | Inr records \<Rightarrow> map mr_age records = [Some 42]"
    by code_simp
  then obtain records where "parseManifest sample_entries = Inr records" "map mr_age records = [Some 42]"
    by (auto split: sum.splits)
  with manifest_roundtrip [of sample_entries records] show ?thesis by simp
qed

text \<open>
  A refused manifest discloses no value: whatever the entries hold, the refusal is the bare
  \<open>MANIFEST-INCOMPLETE\<close> or the list of codes that are not accepted, and a manifest with such a code
  is refused alike whatever its values are.
\<close>

theorem manifest_refusal_discloses_no_value:
  assumes "map te_code entries = map te_code entries'"
  shows "(\<forall>e. parseManifest entries = Inl e \<longrightarrow> e = Refusal MANIFEST_INCOMPLETE []
       \<or> e = Refusal MANIFEST_FIELD_NOT_ACCEPTED [(''unexpectedCodes'', JArr (map JStr (unexpected_codes entries)))])
     \<and> (unexpected_codes entries \<noteq> [] \<longrightarrow> parseManifest entries' = parseManifest entries)"
proof -
  have codes: "map (\<lambda>e. case te_code e of None \<Rightarrow> [] | Some c \<Rightarrow> c) es
      = map (\<lambda>code. case code of None \<Rightarrow> [] | Some c \<Rightarrow> c) (map te_code es)" for es :: "TagEntry list"
    by simp
  have "unexpected_codes entries' = unexpected_codes entries"
    unfolding unexpected_codes_def codes assms ..
  then have "unexpected_codes entries \<noteq> [] \<longrightarrow> parseManifest entries' = parseManifest entries"
    by (simp add: parseManifest_def)
  then show ?thesis using parseManifest_refusal by blast
qed

theorem manifest_refusal_discloses_no_value_witness:
  "parseManifest [\<lparr>te_code = Some ''AADHAAR'', te_value = Some ''1234''\<rparr>]
     = parseManifest [\<lparr>te_code = Some ''AADHAAR'', te_value = Some ''9999''\<rparr>]"
proof -
  have "unexpected_codes [\<lparr>te_code = Some ''AADHAAR'', te_value = Some ''9999''\<rparr>] \<noteq> []" by code_simp
  then show ?thesis
    using manifest_refusal_discloses_no_value [of "[\<lparr>te_code = Some ''AADHAAR'', te_value = Some ''9999''\<rparr>]"
        "[\<lparr>te_code = Some ''AADHAAR'', te_value = Some ''1234''\<rparr>]"] by simp
qed

text \<open>
  A manifest is accepted for a hold exactly when it names the seats of the hold, all of them and
  no other.
\<close>

theorem manifest_matches_hold_exactly:
  "assertManifestMatchesHold records heldSeatIds = Inr () \<longleftrightarrow> mr_seatId ` set records = set heldSeatIds"
  by (rule manifest_matches_iff)

end
