(* ===== verification/Reserved_SeatState.thy ===== *)
theory Reserved_SeatState
  imports Store_Types
begin

text \<open>
  The published state of a seat and the female-only lock (\<open>src/src/reserved/seatstate.ts\<close>). A
  JavaScript map built from a list of pairs keeps the last value of a key at the place of its
  first occurrence; here it is the lookup of the reversed list, and the result of \<open>seatStates\<close> is
  a list of pairs in the order of the map.
\<close>

datatype SeededGender = SeededMale | SeededFemale

record SeatNeighbourhood =
  nb_map :: SeatMap
  nb_seededSold :: "string \<rightharpoonup> SeededGender"
  nb_claims :: "LiveSeatClaim list"
  nb_viewer :: "ReservedIdentity option"

definition sameParty :: "ReservedIdentity option \<Rightarrow> ReservedIdentity \<Rightarrow> bool" where
  "sameParty left right =
     (case left of None \<Rightarrow> False
      | Some l \<Rightarrow> ri_bapId l = ri_bapId right \<and> ri_bapUri l = ri_bapUri right
                  \<and> ri_transactionId l = ri_transactionId right)"

record Neighbourhood =
  ix_seats :: "string \<rightharpoonup> Seat"
  ix_claims :: "string \<rightharpoonup> LiveSeatClaim"

definition neighbourhood_index :: "SeatNeighbourhood \<Rightarrow> Neighbourhood" where
  "neighbourhood_index input =
     \<lparr>ix_seats = map_of (rev (map (\<lambda>seat. (seat_seatId seat, seat)) (map_seats (nb_map input)))),
      ix_claims = map_of (rev (map (\<lambda>claim. (claim_seatId claim, claim)) (nb_claims input)))\<rparr>"

text \<open>Whether the occupant is known to be female, and whose booking the occupant is in.\<close>

definition occupantGender ::
    "string \<Rightarrow> SeatNeighbourhood \<Rightarrow> (string \<rightharpoonup> LiveSeatClaim) \<Rightarrow> bool \<times> ReservedIdentity option" where
  "occupantGender seatId input claims =
     (case claims seatId of
        Some claim \<Rightarrow>
          (if claim_state claim = BOOKED then (claim_gender claim = Some Female, Some (claim_identity claim))
           else if claim_state claim = HELD then (False, Some (claim_identity claim))
           else (nb_seededSold input seatId = Some SeededFemale, None))
      | None \<Rightarrow> (nb_seededSold input seatId = Some SeededFemale, None))"

definition locks_beside :: "SeatNeighbourhood \<Rightarrow> (string \<rightharpoonup> LiveSeatClaim) \<Rightarrow> string \<Rightarrow> bool" where
  "locks_beside input claims neighbourId =
     (case occupantGender neighbourId input claims of
        (female, owner) \<Rightarrow>
          if \<not> female then False
          else (case owner of None \<Rightarrow> True | Some o1 \<Rightarrow> \<not> sameParty (nb_viewer input) o1))"

definition isFemaleOnly :: "string \<Rightarrow> SeatNeighbourhood \<Rightarrow> bool" where
  "isFemaleOnly seatId input =
     (let indexed = neighbourhood_index input in
      case ix_seats indexed seatId of
        None \<Rightarrow> False
      | Some seat \<Rightarrow> list_ex (locks_beside input (ix_claims indexed)) (seat_adjacentSeatIds seat))"

definition seat_state :: "SeatNeighbourhood \<Rightarrow> string \<Rightarrow> SeatState" where
  "seat_state input seatId =
     (let free = (if nb_seededSold input seatId \<noteq> None then SOLD_simulated
                  else if isFemaleOnly seatId input then FEMALE_ONLY else AVAILABLE)
      in case ix_claims (neighbourhood_index input) seatId of
           Some claim \<Rightarrow>
             (if claim_state claim = BOOKED then SOLD_booked
              else if claim_state claim = HELD then
                (if sameParty (nb_viewer input) (claim_identity claim) then HELD_BY_YOU else HELD_STATE)
              else free)
         | None \<Rightarrow> free)"

definition seatStates :: "SeatNeighbourhood \<Rightarrow> (string \<times> SeatState) list" where
  "seatStates input =
     map (\<lambda>seatId. (seatId, seat_state input seatId)) (dedup (map seat_seatId (map_seats (nb_map input))))"

definition availableSeatCount :: "SeatNeighbourhood \<Rightarrow> nat" where
  "availableSeatCount input =
     length (filter (\<lambda>(seatId, state). state = AVAILABLE \<or> state = FEMALE_ONLY) (seatStates input))"

record SeatAssignment =
  as_seatId :: string
  as_gender :: "ManifestGender option"

definition assertGenderLocks :: "SeatNeighbourhood \<Rightarrow> SeatAssignment list \<Rightarrow> failure + unit" where
  "assertGenderLocks input assignments =
     forEach (\<lambda>assignment.
        if as_gender assignment = Some Female then Inr ()
        else if \<not> isFemaleOnly (as_seatId assignment) input then Inr ()
        else Inl (Refusal SEAT_GENDER_LOCKED
               [(''seatId'', JStr (as_seatId assignment)), (''requiredGender'', JStr ''female'')]))
      assignments"

subsection \<open>The rule\<close>

lemma sameParty_iff: "sameParty v r \<longleftrightarrow> v = Some r"
  by (cases v) (auto simp: sameParty_def)

text \<open>
  A woman sits in a seat, and outside the viewer's booking: by a booking of another party, or by
  the simulation where nobody has a claim.
\<close>

definition woman_of_another_party :: "SeatNeighbourhood \<Rightarrow> string \<Rightarrow> bool" where
  "woman_of_another_party input seatId \<longleftrightarrow>
     (case ix_claims (neighbourhood_index input) seatId of
        Some claim \<Rightarrow> claim_state claim = BOOKED \<and> claim_gender claim = Some Female
          \<and> nb_viewer input \<noteq> Some (claim_identity claim)
      | None \<Rightarrow> nb_seededSold input seatId = Some SeededFemale)"

definition claims_live :: "SeatNeighbourhood \<Rightarrow> bool" where
  "claims_live input \<longleftrightarrow> list_all (\<lambda>c. claim_state c = HELD \<or> claim_state c = BOOKED) (nb_claims input)"

lemma indexed_claim:
  assumes "ix_claims (neighbourhood_index input) i = Some c"
  shows "c \<in> set (nb_claims input)" "claim_seatId c = i"
  using map_of_SomeD [of "rev (map (\<lambda>claim. (claim_seatId claim, claim)) (nb_claims input))" i c] assms
  by (auto simp: neighbourhood_index_def)

lemma locks_beside_iff:
  assumes "claims_live input"
  shows "locks_beside input (ix_claims (neighbourhood_index input)) i \<longleftrightarrow> woman_of_another_party input i"
proof (cases "ix_claims (neighbourhood_index input) i")
  case (Some c)
  then have "claim_state c = HELD \<or> claim_state c = BOOKED"
    using assms indexed_claim(1) [OF Some] by (auto simp: claims_live_def list_all_iff)
  with Some show ?thesis
    by (auto simp: locks_beside_def occupantGender_def woman_of_another_party_def sameParty_iff)
qed (simp add: locks_beside_def occupantGender_def woman_of_another_party_def)

lemma indexed_seat:
  assumes "distinct (map seat_seatId seats)" "s \<in> set seats"
  shows "map_of (rev (map (\<lambda>seat. (seat_seatId seat, seat)) seats)) (seat_seatId s) = Some s"
proof -
  have "distinct (map fst (rev (map (\<lambda>seat. (seat_seatId seat, seat)) seats)))"
    using assms(1) by (simp add: comp_def rev_map [symmetric])
  then show ?thesis using assms(2) by (simp add: map_of_eq_Some_iff)
qed

lemma isFemaleOnly_iff:
  assumes "claims_live input" "distinct (map seat_seatId (map_seats (nb_map input)))"
    and "s \<in> set (map_seats (nb_map input))"
  shows "isFemaleOnly (seat_seatId s) input \<longleftrightarrow>
     (\<exists>i \<in> set (seat_adjacentSeatIds s). woman_of_another_party input i)"
  using indexed_seat [OF assms(2,3)] locks_beside_iff [OF assms(1)]
  by (simp add: isFemaleOnly_def Let_def neighbourhood_index_def list_ex_iff)

definition unclaimed :: "SeatNeighbourhood \<Rightarrow> string \<Rightarrow> bool" where
  "unclaimed input i \<longleftrightarrow> i \<notin> claim_seatId ` set (nb_claims input) \<and> nb_seededSold input i = None"

lemma claim_index_None:
  "ix_claims (neighbourhood_index input) i = None \<longleftrightarrow> i \<notin> claim_seatId ` set (nb_claims input)"
  by (simp add: neighbourhood_index_def map_of_eq_None_iff image_image)

lemma seat_state_free_iff:
  assumes "claims_live input"
  shows "seat_state input i = AVAILABLE \<or> seat_state input i = FEMALE_ONLY \<longleftrightarrow> unclaimed input i"
proof (cases "ix_claims (neighbourhood_index input) i")
  case None
  then show ?thesis using claim_index_None [of input i]
    by (auto simp: seat_state_def unclaimed_def Let_def)
next
  case (Some c)
  then have "claim_state c = HELD \<or> claim_state c = BOOKED"
    using assms indexed_claim(1) [OF Some] by (auto simp: claims_live_def list_all_iff)
  with Some show ?thesis using claim_index_None [of input i]
    by (auto simp: seat_state_def unclaimed_def Let_def)
qed

subsection \<open>Properties\<close>

text \<open>
  A seat that is published as free is one nobody has a claim on and the simulation did not sell,
  and the advertised count is the number of such seats of the map.
\<close>

theorem available_seats_are_unclaimed:
  assumes "claims_live input"
  shows "availableSeatCount input = card {i \<in> seat_seatId ` set (map_seats (nb_map input)). unclaimed input i}"
proof -
  let ?ids = "dedup (map seat_seatId (map_seats (nb_map input)))"
  have "availableSeatCount input = length (filter (unclaimed input) ?ids)"
    unfolding availableSeatCount_def seatStates_def
    using seat_state_free_iff [OF assms] by (simp add: filter_map comp_def)
  also have "\<dots> = card (set (filter (unclaimed input) ?ids))"
    by (rule distinct_card [symmetric]) simp
  also have "set (filter (unclaimed input) ?ids) = {i \<in> seat_seatId ` set (map_seats (nb_map input)). unclaimed input i}"
    by auto
  finally show ?thesis .
qed

definition sample_seat :: "string \<Rightarrow> string list \<Rightarrow> Seat" where
  "sample_seat i beside = \<lparr>seat_seatId = i, seat_deck = 1, seat_row = 1, seat_column = 1, seat_kind = SEAT,
     seat_window = False, seat_pairedSeatId = None, seat_adjacentSeatIds = beside\<rparr>"

definition sample_neighbourhood :: SeatNeighbourhood where
  "sample_neighbourhood =
     \<lparr>nb_map = \<lparr>map_seatMapId = ''M'', map_serviceClass = ''AIRAVAT'', map_kind = SEATER, map_decks = 1,
        map_documentedCapacity = None,
        map_seats = [sample_seat ''1'' [''2''], sample_seat ''2'' [''1''], sample_seat ''3'' []]\<rparr>,
      nb_seededSold = Map.empty,
      nb_claims = [\<lparr>claim_seatId = ''1'', claim_state = BOOKED, claim_holdId = None, claim_bookingId = Some ''B'',
        claim_identity = \<lparr>ri_bapId = ''b'', ri_bapUri = ''u'', ri_transactionId = ''t''\<rparr>,
        claim_gender = Some Female\<rparr>],
      nb_viewer = None\<rparr>"

theorem available_seats_are_unclaimed_witness:
  "card {i \<in> seat_seatId ` set (map_seats (nb_map sample_neighbourhood)). unclaimed sample_neighbourhood i} = 2"
proof -
  have "claims_live sample_neighbourhood" "availableSeatCount sample_neighbourhood = 2" by code_simp+
  with available_seats_are_unclaimed show ?thesis by metis
qed

text \<open>
  C36. The female-only rule: on a map without repeated seat ids, a seat nobody has is reserved for a
  woman if and only if a woman of another party sits in one of the seats the map puts beside it.
\<close>

theorem female_only_rule:
  assumes "claims_live input" "distinct (map seat_seatId (map_seats (nb_map input)))"
    and "s \<in> set (map_seats (nb_map input))" "unclaimed input (seat_seatId s)"
  shows "seat_state input (seat_seatId s) =
     (if \<exists>i \<in> set (seat_adjacentSeatIds s). woman_of_another_party input i then FEMALE_ONLY else AVAILABLE)"
  using isFemaleOnly_iff [OF assms(1-3)] assms(4) claim_index_None [of input "seat_seatId s"]
  by (simp add: seat_state_def unclaimed_def Let_def)

theorem female_only_rule_witness:
  "seat_state sample_neighbourhood ''2'' = FEMALE_ONLY \<and> seat_state sample_neighbourhood ''3'' = AVAILABLE"
proof -
  have c: "claims_live sample_neighbourhood" "distinct (map seat_seatId (map_seats (nb_map sample_neighbourhood)))"
    by code_simp+
  have m: "sample_seat ''2'' [''1''] \<in> set (map_seats (nb_map sample_neighbourhood))"
    "sample_seat ''3'' [] \<in> set (map_seats (nb_map sample_neighbourhood))"
    "unclaimed sample_neighbourhood ''2''" "unclaimed sample_neighbourhood ''3''"
    "woman_of_another_party sample_neighbourhood ''1''" by code_simp+
  show ?thesis
    using female_only_rule [OF c m(1)] female_only_rule [OF c m(2)] m(3-5) by (simp add: sample_seat_def)
qed

text \<open>
  A manifest passes the gender check if and only if every passenger not declared female is in a
  seat that is not female-only for that booking; a refusal names the seat and the required gender,
  and nothing of the neighbour.
\<close>

theorem gender_locks_exact:
  "(assertGenderLocks input assignments = Inr () \<longleftrightarrow>
      filter (\<lambda>a. as_gender a \<noteq> Some Female \<and> isFemaleOnly (as_seatId a) input) assignments = [])
   \<and> (case assertGenderLocks input assignments of Inr _ \<Rightarrow> True
      | Inl e \<Rightarrow> e \<in> (\<lambda>a. Refusal SEAT_GENDER_LOCKED
            [(''seatId'', JStr (as_seatId a)), (''requiredGender'', JStr ''female'')]) ` set assignments)"
proof
  show "assertGenderLocks input assignments = Inr () \<longleftrightarrow>
      filter (\<lambda>a. as_gender a \<noteq> Some Female \<and> isFemaleOnly (as_seatId a) input) assignments = []"
    unfolding assertGenderLocks_def forEach_ok by (auto simp: filter_empty_conv)
  show "case assertGenderLocks input assignments of Inr _ \<Rightarrow> True
      | Inl e \<Rightarrow> e \<in> (\<lambda>a. Refusal SEAT_GENDER_LOCKED
            [(''seatId'', JStr (as_seatId a)), (''requiredGender'', JStr ''female'')]) ` set assignments"
    unfolding assertGenderLocks_def
    by (auto split: sum.splits if_splits dest!: forEach_error)
qed

end
