(* ===== verification/Reserved_Occupancy.thy ===== *)
theory Reserved_Occupancy
  imports JS_Number Reserved_Calendar Reserved_SeatState "HOL-Library.Word"
begin

unbundle bit_operations_syntax

text \<open>
  The seeded occupancy (\<open>src/src/reserved/occupancy.ts\<close>) over the keyed generator
  (\<open>rand.ts\<close>). The generator works on 32-bit words; the ranks are doubles, every operation of the
  source followed by \<^const>\<open>fl\<close>. \<open>localeCompare\<close>, which is the host's, is an argument. A class
  with no multiplier gives \<open>NaN\<close>, written \<open>None\<close>.
\<close>

subsection \<open>The keyed generator\<close>

type_synonym u32 = "32 word"

definition fnv1a :: "string \<Rightarrow> u32" where
  "fnv1a value = foldl (\<lambda>hash c. (hash XOR of_char c) * 0x01000193) 0x811c9dc5 value"

definition splitMix32 :: "u32 \<Rightarrow> u32" where
  "splitMix32 value =
     (let m0 = value + 0x9e3779b9;
          m1 = (m0 XOR drop_bit 16 m0) * 0x21f0aaad;
          m2 = (m1 XOR drop_bit 15 m1) * 0x735a2d97
      in m2 XOR drop_bit 15 m2)"

definition rotateLeft :: "u32 \<Rightarrow> nat \<Rightarrow> u32" where
  "rotateLeft value k = push_bit k value OR drop_bit (32 - k) value"

fun rand_values :: "nat \<Rightarrow> u32 \<Rightarrow> u32 list" where
  "rand_values 0 state = []"
| "rand_values (Suc n) state = (let s = splitMix32 state in s # rand_values n s)"

definition rand :: "int \<Rightarrow> string \<Rightarrow> string \<Rightarrow> string \<Rightarrow> rat" where
  "rand seed subject purpose bucket =
     (let v0 = rand_values 4 (fnv1a (string_of_int seed @ ''|'' @ subject @ ''|'' @ purpose @ ''|'' @ bucket));
          values = (if list_all (\<lambda>v. v = 0) v0 then v0[0 := 1] else v0);
          result = rotateLeft (values ! 1 * 5) 7
      in fl (of_nat (unat (result * 9)) / 4294967296))"

subsection \<open>How full a coach is\<close>

definition MIN_FILL :: rat where "MIN_FILL = fl (8 / 100)"
definition MAX_FILL :: rat where "MAX_FILL = fl (95 / 100)"

definition DAY_OF_WEEK_MULTIPLIER :: "rat list" where
  "DAY_OF_WEEK_MULTIPLIER =
     [fl (115 / 100), fl (92 / 100), fl (88 / 100), fl (9 / 10), 1, fl (12 / 10), fl (105 / 100)]"

definition CLASS_MULTIPLIER :: "ServiceClass \<Rightarrow> rat option" where
  "CLASS_MULTIPLIER cls = map_of
     [(''RAJAHAMSA_EXECUTIVE'', fl (11 / 10)), (''PALLAKKI'', fl (105 / 100)), (''AIRAVAT'', 1),
      (''AMBAARI_UTSAV'', fl (92 / 100)), (''AIRAVAT_CLUB_CLASS'', fl (9 / 10)),
      (''ASHWAMEDHA'', fl (115 / 100)), (''AC_SLEEPER'', fl (108 / 100)),
      (''AC_SEATER_EXECUTIVE_CHAIR'', fl (102 / 100)), (''AMOGHAVARSHA'', 1),
      (''EV_POWER_PLUS'', fl (98 / 100)), (''NON_AC_SLEEPER'', fl (98 / 100)),
      (''KALYANA_RATHA'', fl (9 / 10)), (''AIRAVAT_CLUB_CLASS_2'', fl (88 / 100)),
      (''FLYBUS'', fl (87 / 100)), (''AMBAARI_DREAM_CLASS'', fl (87 / 100))] cls"

definition PERTURBATION_WEIGHT :: rat where "PERTURBATION_WEIGHT = fl (35 / 100)"
definition WINDOW_BONUS :: rat where "WINDOW_BONUS = fl (45 / 100)"
definition LOWER_DECK_BONUS :: rat where "LOWER_DECK_BONUS = fl (35 / 100)"
definition SINGLE_BERTH_BONUS :: rat where "SINGLE_BERTH_BONUS = fl (3 / 10)"
definition FORWARD_ROW_BONUS :: rat where "FORWARD_ROW_BONUS = fl (2 / 10)"
definition REAR_BENCH_PENALTY :: rat where "REAR_BENCH_PENALTY = fl (4 / 10)"

definition dayOfWeek :: "string \<Rightarrow> failure + int" where
  "dayOfWeek travelDate =
     (case calendar_date travelDate of
        None \<Rightarrow> Inl PlainError
      | Some (year, month, day) \<Rightarrow> Inr (getUTCDay (dateUTC year (month - 1) day)))"

definition clamp :: "rat \<Rightarrow> rat \<Rightarrow> rat \<Rightarrow> rat" where
  "clamp value low high = min high (max low value)"

definition fillFraction :: "rat \<Rightarrow> ServiceClass \<Rightarrow> string \<Rightarrow> failure + rat option" where
  "fillFraction popularity serviceClass travelDate =
     andThen (dayOfWeek travelDate) (\<lambda>d.
       Inr (case CLASS_MULTIPLIER serviceClass of
              None \<Rightarrow> None
            | Some c \<Rightarrow> Some (clamp (fl (fl (popularity * (DAY_OF_WEEK_MULTIPLIER ! nat d)) * c)) MIN_FILL MAX_FILL)))"

definition isBenchRow :: "SeatMap \<Rightarrow> Seat \<Rightarrow> bool" where
  "isBenchRow m seat =
     (let columns = sort (map seat_column (filter (\<lambda>c. seat_deck c = seat_deck seat \<and> seat_row c = seat_row seat)
                             (map_seats m)))
      in if length columns < 3 then False
         else list_all (\<lambda>i. columns ! Suc i - columns ! i = 1) [0..<length columns - 1])"

definition max_list :: "int list \<Rightarrow> int" where
  "max_list xs = foldl max (hd xs) (tl xs)"

definition seatDesirability :: "Seat \<Rightarrow> SeatMap \<Rightarrow> rat" where
  "seatDesirability seat m =
     (let maxRow = max_list (map seat_row (map_seats m));
          forward = (if maxRow > 1 then fl (1 - fl (of_int (seat_row seat - 1) / of_int (maxRow - 1))) else 1);
          a = (if seat_window seat then WINDOW_BONUS else 0);
          b = fl (a + (if map_decks m = 2 \<and> seat_deck seat = 1 then LOWER_DECK_BONUS else 0));
          c = fl (b + (if seat_kind seat = BERTH \<and> seat_pairedSeatId seat = None then SINGLE_BERTH_BONUS else 0));
          d = fl (c + fl (FORWARD_ROW_BONUS * forward))
      in fl (d - (if isBenchRow m seat then REAR_BENCH_PENALTY else 0)))"

text \<open>\<open>Math.round\<close> of a double.\<close>

definition Math_round :: "rat \<Rightarrow> int" where
  "Math_round x = \<lfloor>x + 1 / 2\<rfloor>"

text \<open>
  \<open>Array.prototype.sort\<close> with a comparator, which is a stable sort: each element goes behind the
  ones before it that do not compare greater.
\<close>

fun insert_by :: "('a \<Rightarrow> 'a \<Rightarrow> int) \<Rightarrow> 'a \<Rightarrow> 'a list \<Rightarrow> 'a list" where
  "insert_by cmp x [] = [x]"
| "insert_by cmp x (y # ys) = (if cmp x y \<le> 0 then x # y # ys else y # insert_by cmp x ys)"

fun sort_by :: "('a \<Rightarrow> 'a \<Rightarrow> int) \<Rightarrow> 'a list \<Rightarrow> 'a list" where
  "sort_by cmp [] = []"
| "sort_by cmp (x # xs) = insert_by cmp x (sort_by cmp xs)"

definition rank_compare :: "(string \<Rightarrow> string \<Rightarrow> int) \<Rightarrow> string \<times> rat \<Rightarrow> string \<times> rat \<Rightarrow> int" where
  "rank_compare localeCompare left right =
     (if snd right = snd left then localeCompare (fst left) (fst right)
      else if snd right < snd left then -1 else 1)"

definition seat_rank :: "SeatMap \<Rightarrow> string \<Rightarrow> string \<Rightarrow> int \<Rightarrow> Seat \<Rightarrow> string \<times> rat" where
  "seat_rank m serviceId travelDate seed seat =
     (seat_seatId seat,
      fl (seatDesirability seat m
          + fl (PERTURBATION_WEIGHT * rand seed serviceId (''seat-rank|'' @ travelDate) (seat_seatId seat))))"

text \<open>\<open>xs.slice(0, k)\<close>.\<close>

definition slice_to :: "int \<Rightarrow> 'a list \<Rightarrow> 'a list" where
  "slice_to k xs = (if k < 0 then take (nat (int (length xs) + k)) xs else take (nat k) xs)"

definition selectSoldSeats ::
    "(string \<Rightarrow> string \<Rightarrow> int) \<Rightarrow> SeatMap \<Rightarrow> rat option \<Rightarrow> string \<Rightarrow> string \<Rightarrow> int \<Rightarrow> string list" where
  "selectSoldSeats localeCompare m fraction serviceId travelDate seed =
     (let k = (case fraction of None \<Rightarrow> 0
               | Some f \<Rightarrow> Math_round (fl (f * of_nat (length (map_seats m)))));
          ranked = sort_by (rank_compare localeCompare)
                     (map (seat_rank m serviceId travelDate seed) (map_seats m))
      in sort (map fst (slice_to k ranked)))"

definition soldSeatIds ::
    "(string \<Rightarrow> string \<Rightarrow> int) \<Rightarrow> ReservedService \<Rightarrow> SeatMap \<Rightarrow> string \<Rightarrow> int \<Rightarrow> failure + string list" where
  "soldSeatIds localeCompare service m travelDate seed =
     andThen (fillFraction (svc_popularity service) (svc_serviceClass service) travelDate) (\<lambda>fraction.
       Inr (selectSoldSeats localeCompare m fraction (svc_serviceId service) travelDate seed))"

definition seededGender :: "int \<Rightarrow> string \<Rightarrow> string \<Rightarrow> string \<Rightarrow> SeededGender" where
  "seededGender seed serviceId travelDate seatId =
     (if rand seed serviceId (''seat-gender|'' @ travelDate) seatId < 1 / 2 then SeededMale else SeededFemale)"

definition seededOccupancy ::
    "(string \<Rightarrow> string \<Rightarrow> int) \<Rightarrow> ReservedService \<Rightarrow> SeatMap \<Rightarrow> string \<Rightarrow> int \<Rightarrow> failure + (string \<rightharpoonup> SeededGender)" where
  "seededOccupancy localeCompare service m travelDate seed =
     andThen (soldSeatIds localeCompare service m travelDate seed) (\<lambda>ids.
       Inr (map_of (map (\<lambda>seatId. (seatId, seededGender seed (svc_serviceId service) travelDate seatId)) ids)))"

subsection \<open>Draws\<close>

lemma fl_dyadic32:
  assumes "n < 4294967296"
  shows "fl (of_nat n / 4294967296) = of_nat n / 4294967296"
proof -
  have "fl (of_int (int n) * 2 powi (-32)) = of_int (int n) * 2 powi (-32)"
    by (rule fl_representable) (use assms in simp)
  then show ?thesis by (simp add: power_int_minus field_simps)
qed

lemma fl_fraction32:
  assumes "n < 4294967296"
  shows "0 \<le> fl (of_nat n / 4294967296) \<and> fl (of_nat n / 4294967296) < 1"
proof -
  have "(of_nat n :: rat) < 4294967296" using assms by (metis of_nat_less_iff of_nat_numeral)
  then show ?thesis unfolding fl_dyadic32 [OF assms] by simp
qed

lemma rand_range: "0 \<le> rand seed subject purpose bucket \<and> rand seed subject purpose bucket < 1"
proof -
  have "unat w < 4294967296" for w :: u32
    using unsigned_less [of w, where 'a = nat] by simp
  then show ?thesis unfolding rand_def Let_def by (intro fl_fraction32)
qed

subsection \<open>The sorting\<close>

lemma mset_insert_by [simp]: "mset (insert_by cmp x xs) = add_mset x (mset xs)"
  by (induction xs) auto

lemma mset_sort_by [simp]: "mset (sort_by cmp xs) = mset xs"
  by (induction xs) auto

lemma length_sort_by [simp]: "length (sort_by cmp xs) = length xs"
  by (metis mset_sort_by size_mset)

text \<open>
  What the sort needs of a comparator: it is total, and its order is transitive. A client that
  sorts with it gets a list in which no element compares greater than a later one.
\<close>

locale comparator =
  fixes cmp :: "'a \<Rightarrow> 'a \<Rightarrow> int"
  assumes total: "cmp x y \<le> 0 \<or> cmp y x \<le> 0"
    and trans: "cmp x y \<le> 0 \<Longrightarrow> cmp y z \<le> 0 \<Longrightarrow> cmp x z \<le> 0"
begin

lemma sorted_insert_by:
  "sorted_wrt (\<lambda>a b. cmp a b \<le> 0) xs \<Longrightarrow> sorted_wrt (\<lambda>a b. cmp a b \<le> 0) (insert_by cmp x xs)"
proof (induction xs)
  case (Cons y ys)
  have s: "set (insert_by cmp x ys) = insert x (set ys)"
    by (metis mset_insert_by set_mset_add_mset_insert set_mset_mset)
  show ?case
    using Cons s total [of x y] by (auto intro: trans)
qed simp

lemma sorted_sort_by: "sorted_wrt (\<lambda>a b. cmp a b \<le> 0) (sort_by cmp xs)"
  by (induction xs) (auto intro: sorted_insert_by)

text \<open>The first of the sorted list rank no lower than the rest.\<close>

lemma take_before_drop:
  assumes "x \<in> set (take k (sort_by cmp xs))" "y \<in> set (drop k (sort_by cmp xs))"
  shows "cmp x y \<le> 0"
proof -
  have "sorted_wrt (\<lambda>a b. cmp a b \<le> 0) (take k (sort_by cmp xs) @ drop k (sort_by cmp xs))"
    using sorted_sort_by [of xs] by simp
  then show ?thesis using assms unfolding sorted_wrt_append by blast
qed

end

text \<open>A comparison of strings that is total and transitive makes the comparison of ranks so.\<close>

locale collation = comparator localeCompare for localeCompare :: "string \<Rightarrow> string \<Rightarrow> int"
begin

lemma rank_comparator: "comparator (rank_compare localeCompare)"
proof
  fix x y z :: "string \<times> rat"
  show "rank_compare localeCompare x y \<le> 0 \<or> rank_compare localeCompare y x \<le> 0"
    using total by (auto simp: rank_compare_def)
  have le: "rank_compare localeCompare a b \<le> 0 \<longleftrightarrow>
      snd b < snd a \<or> snd a = snd b \<and> localeCompare (fst a) (fst b) \<le> 0" for a b
    by (auto simp: rank_compare_def)
  assume "rank_compare localeCompare x y \<le> 0" "rank_compare localeCompare y z \<le> 0"
  then show "rank_compare localeCompare x z \<le> 0"
    unfolding le using trans [of "fst x" "fst y" "fst z"] by fastforce
qed

end

sublocale collation \<subseteq> ranks: comparator "rank_compare localeCompare"
  by (rule rank_comparator)

text \<open>The comparison of code units is such a comparison.\<close>

definition code_unit_compare :: "string \<Rightarrow> string \<Rightarrow> int" where
  "code_unit_compare a b = (if a < b then -1 else if a = b then 0 else 1)"

interpretation code_units: collation code_unit_compare
  by unfold_locales (auto simp: code_unit_compare_def split: if_splits)

subsection \<open>The sold set\<close>

lemma slice_to_nonneg: "0 \<le> k \<Longrightarrow> slice_to k xs = take (nat k) xs"
  by (simp add: slice_to_def)

lemma fst_ranked: "mset (map fst (sort_by cmp (map (seat_rank m sid d seed) seats))) = mset (map seat_seatId seats)"
proof -
  have "mset (map fst (sort_by cmp (map (seat_rank m sid d seed) seats)))
      = image_mset fst (mset (map (seat_rank m sid d seed) seats))"
    unfolding mset_map mset_sort_by ..
  also have "\<dots> = mset (map seat_seatId seats)"
    by (simp add: seat_rank_def multiset.map_comp comp_def)
  finally show ?thesis .
qed

definition sold_count :: "rat \<Rightarrow> SeatMap \<Rightarrow> nat" where
  "sold_count f m = min (nat (Math_round (fl (f * of_nat (length (map_seats m)))))) (length (map_seats m))"

lemma Math_round_nonneg: "0 \<le> x \<Longrightarrow> 0 \<le> Math_round x"
  by (simp add: Math_round_def)

lemma fl_nonneg: "0 \<le> x \<Longrightarrow> 0 \<le> fl x"
  using fl_mono [of 0 x] by simp

lemma selectSoldSeats_take:
  assumes "0 \<le> f"
  shows "selectSoldSeats lc m (Some f) sid d seed = sort (map fst (take (sold_count f m)
     (sort_by (rank_compare lc) (map (seat_rank m sid d seed) (map_seats m)))))"
proof -
  have "0 \<le> Math_round (fl (f * of_nat (length (map_seats m))))"
    using assms by (intro Math_round_nonneg fl_nonneg) simp
  moreover have "take (min n (length xs)) xs = take n xs" for n and xs :: "(string \<times> rat) list"
    by (simp add: min_def)
  ultimately show ?thesis
    using \<open>\<And>xs n. take (min n (length xs)) xs = take n xs\<close>
      [of "nat (Math_round (fl (f * of_nat (length (map_seats m)))))"
          "sort_by (rank_compare lc) (map (seat_rank m sid d seed) (map_seats m))"]
    by (simp add: selectSoldSeats_def slice_to_nonneg sold_count_def Let_def)
qed

lemma selectSoldSeats_facts:
  fixes lc m f sid d seed
  assumes "0 \<le> f"
  defines "ids \<equiv> selectSoldSeats lc m (Some f) sid d seed"
  shows "length ids = sold_count f m" "sorted ids" "set ids \<subseteq> seat_seatId ` set (map_seats m)"
    "distinct (map seat_seatId (map_seats m)) \<Longrightarrow> distinct ids"
proof -
  let ?r = "sort_by (rank_compare lc) (map (seat_rank m sid d seed) (map_seats m))"
  have ids: "ids = sort (take (sold_count f m) (map fst ?r))"
    unfolding ids_def selectSoldSeats_take [OF assms(1)] take_map ..
  have ms: "mset (map fst ?r) = mset (map seat_seatId (map_seats m))" by (rule fst_ranked)
  have st: "set (map fst ?r) = seat_seatId ` set (map_seats m)" using mset_eq_setD [OF ms] by simp
  show "length ids = sold_count f m" by (simp add: ids sold_count_def)
  show "sorted ids" by (simp add: ids)
  show "set ids \<subseteq> seat_seatId ` set (map_seats m)"
    unfolding ids set_sort st [symmetric] by (rule set_take_subset)
  show "distinct ids" if "distinct (map seat_seatId (map_seats m))"
    using that mset_eq_imp_distinct_iff [OF ms] by (simp add: ids distinct_take)
qed

lemma fill_bounds:
  assumes "fillFraction p cls d = Inr (Some f)"
  shows "MIN_FILL \<le> f" "f \<le> MAX_FILL"
proof -
  have "MIN_FILL \<le> MAX_FILL" by code_simp
  then show "MIN_FILL \<le> f" "f \<le> MAX_FILL"
    using assms by (auto simp: fillFraction_def clamp_def result_simps split: option.splits)
qed

lemma max_fill_le: "MAX_FILL \<le> 95 / 100"
  by code_simp

lemma sold_count_less:
  assumes "f \<le> 95 / 100" "11 \<le> n" "n \<le> 2 ^ 40"
  shows "nat (Math_round (fl (f * of_nat n))) < n"
proof -
  have n: "(11 :: rat) \<le> of_nat n" using assms(2) by (metis of_nat_le_iff of_nat_numeral)
  have "f * of_nat n \<le> 95 / 100 * of_nat n" using assms(1) by (intro mult_right_mono) simp_all
  also have "\<dots> \<le> of_int (64 * int n - 33) * 2 powi (-6)"
    using n by (simp add: power_int_minus field_simps)
  finally have "fl (f * of_nat n) \<le> fl (of_int (64 * int n - 33) * 2 powi (-6))" by (rule fl_mono)
  also have "\<dots> = of_int (64 * int n - 33) * 2 powi (-6)"
    by (rule fl_representable) (use assms(2,3) in simp)
  also have "\<dots> < of_nat n - 1 / 2" by (simp add: power_int_minus field_simps)
  finally have "Math_round (fl (f * of_nat n)) < int n"
    unfolding Math_round_def floor_less_iff by simp
  then show ?thesis using assms(2) by simp
qed

subsection \<open>Properties\<close>

text \<open>
  The simulation sells the seats that rank highest: with a comparison of strings that is total and
  transitive, and a map without repeated ids, the sold ids are as many as the rounded fraction, all
  of the map, each once, in order, and no unsold seat outranks a sold one.
\<close>

theorem sold_seats_are_top_ranked:
  assumes "comparator localeCompare" "0 \<le> f" "distinct (map seat_seatId (map_seats m))"
  shows "length (selectSoldSeats localeCompare m (Some f) serviceId travelDate seed) = sold_count f m
     \<and> sorted (selectSoldSeats localeCompare m (Some f) serviceId travelDate seed)
     \<and> distinct (selectSoldSeats localeCompare m (Some f) serviceId travelDate seed)
     \<and> (\<forall>s \<in> set (map_seats m). \<forall>t \<in> set (map_seats m).
          seat_seatId s \<in> set (selectSoldSeats localeCompare m (Some f) serviceId travelDate seed) \<longrightarrow>
          seat_seatId t \<notin> set (selectSoldSeats localeCompare m (Some f) serviceId travelDate seed) \<longrightarrow>
          snd (seat_rank m serviceId travelDate seed t) \<le> snd (seat_rank m serviceId travelDate seed s))"
proof -
  let ?ids = "selectSoldSeats localeCompare m (Some f) serviceId travelDate seed"
  let ?rank = "seat_rank m serviceId travelDate seed"
  let ?r = "sort_by (rank_compare localeCompare) (map ?rank (map_seats m))"
  let ?k = "sold_count f m"
  have cmp: "comparator (rank_compare localeCompare)"
    by (rule collation.rank_comparator) (simp add: collation_def assms(1))
  have ids: "set ?ids = fst ` set (take ?k ?r)"
    unfolding selectSoldSeats_take [OF assms(2)] by simp
  have all: "set ?r = ?rank ` set (map_seats m)"
    using mset_eq_setD [OF mset_sort_by, of "rank_compare localeCompare" "map ?rank (map_seats m)"] by simp
  have le: "rank_compare localeCompare a b \<le> 0 \<Longrightarrow> snd b \<le> snd a" for a b
    by (auto simp: rank_compare_def split: if_splits)
  have "snd (?rank t) \<le> snd (?rank s)"
    if s: "s \<in> set (map_seats m)" "seat_seatId s \<in> set ?ids"
      and t: "t \<in> set (map_seats m)" "seat_seatId t \<notin> set ?ids" for s t
  proof -
    obtain x where x: "x \<in> set (take ?k ?r)" "fst x = seat_seatId s" using s(2) ids by auto
    then obtain s' where s': "s' \<in> set (map_seats m)" "x = ?rank s'" using all in_set_takeD [OF x(1)] by auto
    have "s' = s" using assms(3) s(1) s' x(2) by (auto simp: distinct_map inj_on_def seat_rank_def)
    have "?rank t \<in> set ?r" using t(1) all by auto
    moreover have "?rank t \<notin> set (take ?k ?r)" using t(2) ids by (auto simp: seat_rank_def image_iff)
    ultimately have "?rank t \<in> set (drop ?k ?r)" by (metis Un_iff append_take_drop_id set_append)
    from comparator.take_before_drop [OF cmp x(1) this] le show ?thesis using s'(2) \<open>s' = s\<close> by blast
  qed
  then show ?thesis
    using selectSoldSeats_facts(1,2) [OF assms(2), of localeCompare m serviceId travelDate seed]
      selectSoldSeats_facts(4) [OF assms(2,3), of localeCompare serviceId travelDate seed] by simp
qed

definition sample_map :: SeatMap where
  "sample_map = \<lparr>map_seatMapId = ''M'', map_serviceClass = ''AIRAVAT'', map_kind = SEATER, map_decks = 1,
     map_documentedCapacity = None, map_seats = [sample_seat ''2'' [], sample_seat ''1'' []]\<rparr>"

theorem sold_seats_are_top_ranked_witness:
  "length (selectSoldSeats code_unit_compare sample_map (Some (1 / 2)) ''S1'' ''2026-09-10'' 7) = 1"
proof -
  have "distinct (map seat_seatId (map_seats sample_map))" "sold_count (1 / 2) sample_map = 1" by code_simp+
  with sold_seats_are_top_ranked [OF code_units.comparator_axioms, of "1 / 2" sample_map] show ?thesis by simp
qed

text \<open>
  A simulated coach is never sold out: on a map of 11 to \<open>2 ^ 40\<close> seats, whatever the service,
  the date and the seed, fewer seats are sold than the coach has.
\<close>

theorem simulated_coach_never_full:
  assumes "soldSeatIds localeCompare service m travelDate seed = Inr ids"
    and "11 \<le> length (map_seats m)" "length (map_seats m) \<le> 2 ^ 40"
  shows "length ids < length (map_seats m)"
proof -
  obtain fr where fr: "fillFraction (svc_popularity service) (svc_serviceClass service) travelDate = Inr fr"
    "ids = selectSoldSeats localeCompare m fr (svc_serviceId service) travelDate seed"
    using assms(1) by (auto simp: soldSeatIds_def result_simps)
  show ?thesis
  proof (cases fr)
    case None
    then have "ids = []" using fr(2) by (simp add: selectSoldSeats_def slice_to_def)
    then show ?thesis using assms(2) by (metis list.size(3) not_numeral_le_zero not_gr_zero)
  next
    case (Some f)
    have "0 \<le> MIN_FILL" by code_simp
    with fill_bounds fr(1) Some have f: "0 \<le> f" "f \<le> 95 / 100" using max_fill_le by force+
    have "length ids = sold_count f m" unfolding fr(2) Some by (rule selectSoldSeats_facts(1) [OF f(1)])
    with sold_count_less [OF f(2) assms(2,3)] show ?thesis by (simp add: sold_count_def)
  qed
qed

definition sample_service :: ReservedService where
  "sample_service = \<lparr>svc_serviceId = ''S1'', svc_serviceNumber = ''N1'', svc_brand = KSRTC,
     svc_operatingCorporation = None, svc_operatingCorporationBasis = NoProvenance,
     svc_provenance = Confirmed, svc_provenanceSourceCount = 1, svc_serviceClass = ''AIRAVAT'',
     svc_boardingPoints = [], svc_droppingPoints = [], svc_operatingPattern = Daily,
     svc_departureMinute = 60, svc_runningMinutes = 60, svc_seatMapId = ''M'', svc_fareTableId = ''T'',
     svc_popularity = 1, svc_reservationFeePaise = 500, svc_tollPaise = 300\<rparr>"

definition sample_coach :: SeatMap where
  "sample_coach = sample_map\<lparr>map_seats := map (\<lambda>i. sample_seat (digits10 i) []) [1..<13]\<rparr>"

theorem simulated_coach_never_full_witness:
  "case soldSeatIds code_unit_compare sample_service sample_coach ''2026-09-11'' 7 of
     Inl _ \<Rightarrow> False | Inr ids \<Rightarrow> length ids < 12"
proof -
  have d: "\<exists>d. dayOfWeek ''2026-09-11'' = Inr d"
  proof -
    have "case dayOfWeek ''2026-09-11'' of Inl _ \<Rightarrow> False | Inr _ \<Rightarrow> True" by code_simp
    then show ?thesis by (auto split: sum.splits)
  qed
  then obtain ids where "soldSeatIds code_unit_compare sample_service sample_coach ''2026-09-11'' 7 = Inr ids"
    by (auto simp: soldSeatIds_def fillFraction_def)
  moreover have "length (map_seats sample_coach) = 12" by (simp add: sample_coach_def)
  ultimately show ?thesis using simulated_coach_never_full by fastforce
qed

end
