(* ===== verification/Reserved_Catalog.thy ===== *)
theory Reserved_Catalog
  imports Reserved_Calendar Reserved_Money Reserved_Fares Reserved_Manifest
begin

text \<open>
  The catalogue and every tag of the category (\<open>src/src/reserved/catalog.ts\<close>, with the
  constants of \<open>domain.ts\<close> it prints). Payloads are JSON values. An optional key of the source is
  left out of the object, as its spread does.
\<close>

subsection \<open>Constants\<close>

definition RESERVED_CATEGORY_ID :: string where "RESERVED_CATEGORY_ID = ''C3''"
definition RESERVED_CATEGORY_CODE :: string where "RESERVED_CATEGORY_CODE = ''RESERVED''"
definition RESERVED_ITEM_CODE :: string where "RESERVED_ITEM_CODE = ''RESERVED''"
definition RESERVED_FULFILLMENT_TYPE :: string where "RESERVED_FULFILLMENT_TYPE = ''RESERVATION''"
definition RESERVED_VEHICLE_CATEGORY :: string where "RESERVED_VEHICLE_CATEGORY = ''COACH''"

definition SIMULATED_INVENTORY_MARK :: string where
  "SIMULATED_INVENTORY_MARK = 
     ''Modelled inventory. The seats shown as sold are simulated by this specimen provider, not KSRTC's live availability.''"

definition SPECIMEN_NOTICE :: string where
  "SPECIMEN_NOTICE = ''SPECIMEN - NOT VALID FOR TRAVEL''"

definition CONFIRMED_SPECIMEN_NOTICE :: string where
  "CONFIRMED_SPECIMEN_NOTICE = 
     ''SPECIMEN - NOT VALID FOR TRAVEL - not issued by KSRTC, NWKRTC or KKRTC''"

definition SERVICE_CLASS_NAMES :: "ServiceClass \<Rightarrow> string option" where
  "SERVICE_CLASS_NAMES cls = map_of
     [(''RAJAHAMSA_EXECUTIVE'', ''Rajahamsa Executive''), (''AIRAVAT'', ''Airavat''),
      (''AIRAVAT_CLUB_CLASS'', ''Airavat Club Class''), (''PALLAKKI'', ''Pallakki non-AC sleeper''),
      (''AMBAARI_UTSAV'', ''Ambaari Utsav''), (''ASHWAMEDHA'', ''Ashwamedha (Point to Point Express)''),
      (''NON_AC_SLEEPER'', ''Non-AC Sleeper''), (''AMBAARI_DREAM_CLASS'', ''Ambaari Dream Class''),
      (''AIRAVAT_CLUB_CLASS_2'', ''Airavat Club Class 2.0''), (''EV_POWER_PLUS'', ''EV Power Plus''),
      (''FLYBUS'', ''Flybus''), (''KALYANA_RATHA'', ''Kalyana Ratha (AC Sleeper)''),
      (''AMOGHAVARSHA'', ''Amoghavarsha (Non-AC Sleeper)''),
      (''AC_SEATER_EXECUTIVE_CHAIR'', ''AC Seater Executive Chair''), (''AC_SLEEPER'', ''AC Sleeper'')] cls"

fun corporation_wire :: "Corporation \<Rightarrow> string" where
  "corporation_wire KSRTC = ''KSRTC''"
| "corporation_wire NWKRTC = ''NWKRTC''"
| "corporation_wire KKRTC = ''KKRTC''"

fun provenance_wire :: "ServiceProvenance \<Rightarrow> string" where
  "provenance_wire Confirmed = ''confirmed''"
| "provenance_wire Inferred = ''inferred''"
| "provenance_wire NoProvenance = ''none''"

fun map_kind_wire :: "MapKind \<Rightarrow> string" where
  "map_kind_wire SEATER = ''SEATER''"
| "map_kind_wire SLEEPER = ''SLEEPER''"

subsection \<open>Tags\<close>

definition tag :: "string \<Rightarrow> bool \<Rightarrow> json list \<Rightarrow> json" where
  "tag code display entries =
     JObj [(''descriptor'', JObj [(''code'', JStr code)]), (''display'', JBool display), (''list'', JArr entries)]"

definition entry :: "string \<Rightarrow> string \<Rightarrow> json" where
  "entry code value = JObj [(''descriptor'', JObj [(''code'', JStr code)]), (''value'', JStr value)]"

definition serviceInfoTag :: "ReservedService \<Rightarrow> string \<Rightarrow> json" where
  "serviceInfoTag service travelDate = tag ''SERVICE_INFO'' True
     [entry ''SERVICE_ID'' (svc_serviceId service), entry ''SERVICE_NUMBER'' (svc_serviceNumber service),
      entry ''TRAVEL_DATE'' travelDate, entry ''SERVICE_CLASS'' (svc_serviceClass service),
      entry ''RUNNING_MINUTES'' (string_of_int (svc_runningMinutes service))]"

definition pricedForTag :: "BoardingPair \<Rightarrow> SourcingLabel \<Rightarrow> json" where
  "pricedForTag pair sourcing = tag ''PRICED_FOR'' False
     [entry ''FROM_BOARDING_POINT_ID'' (pair_from pair), entry ''TO_BOARDING_POINT_ID'' (pair_to pair),
      entry ''FARE_SOURCING'' sourcing]"

definition serviceProvenanceTag :: "ReservedService \<Rightarrow> json" where
  "serviceProvenanceTag service = tag ''SERVICE_PROVENANCE'' False
     [entry ''BASIS'' (provenance_wire (svc_provenance service)),
      entry ''SOURCE_COUNT'' (string_of_int (svc_provenanceSourceCount service))]"

definition operatorDisclosureTag :: "ReservedService \<Rightarrow> json" where
  "operatorDisclosureTag service =
     tag ''OPERATOR_DISCLOSURE'' True [entry ''BRAND'' (corporation_wire (svc_brand service))]"

definition simulatedInventoryTag :: json where
  "simulatedInventoryTag = tag ''SIMULATED_INVENTORY'' True [entry ''NOTICE'' SIMULATED_INVENTORY_MARK]"

definition specimenTag :: "string \<Rightarrow> json" where
  "specimenTag notice = tag ''SPECIMEN_INFO'' True [entry ''NOTICE'' notice]"

definition seatMapRefTag :: "string \<Rightarrow> json" where
  "seatMapRefTag seatMapId = tag ''SEAT_MAP_REF'' False [entry ''SEAT_MAP_ID'' seatMapId]"

definition seatMapTag :: "string \<Rightarrow> (string \<times> SeatState) list \<Rightarrow> json" where
  "seatMapTag seatMapId states = tag ''SEAT_MAP'' False
     (entry ''SEAT_MAP_ID'' seatMapId
      # map (\<lambda>(seatId, state). entry seatId (seat_state_wire state)) states)"

definition holdInfoTag :: "string \<Rightarrow> int \<Rightarrow> int \<Rightarrow> json" where
  "holdInfoTag holdId expiresAt ttlSeconds = tag ''HOLD_INFO'' True
     [entry ''HOLD_ID'' holdId, entry ''EXPIRES_AT'' (istIsoInstant expiresAt),
      entry ''TTL_SECONDS'' (string_of_int ttlSeconds)]"

text \<open>\<open>xs.join(",")\<close>.\<close>

fun join_comma :: "string list \<Rightarrow> string" where
  "join_comma [] = []"
| "join_comma [x] = x"
| "join_comma (x # xs) = x @ '','' @ join_comma xs"

definition layout_entries :: "Seat \<Rightarrow> json list" where
  "layout_entries seat =
     [entry ''SEAT_ID'' (seat_seatId seat), entry ''DECK'' (string_of_int (seat_deck seat)),
      entry ''ROW'' (string_of_int (seat_row seat)), entry ''COLUMN'' (string_of_int (seat_column seat)),
      entry ''WINDOW'' (if seat_window seat then ''true'' else ''false'')]
     @ (case seat_pairedSeatId seat of
          None \<Rightarrow> [] | Some p \<Rightarrow> if p = [] then [] else [entry ''PAIRED_SEAT_ID'' p])
     @ (if seat_adjacentSeatIds seat \<noteq> []
        then [entry ''ADJACENT_SEAT_IDS'' (join_comma (seat_adjacentSeatIds seat))] else [])"

definition seatMapLayoutTag :: "SeatMap \<Rightarrow> json" where
  "seatMapLayoutTag seatMap = tag ''SEAT_MAP_LAYOUT'' False
     ([entry ''SEAT_MAP_ID'' (map_seatMapId seatMap), entry ''KIND'' (map_kind_wire (map_kind seatMap)),
       entry ''DECKS'' (string_of_int (map_decks seatMap))]
      @ (case map_documentedCapacity seatMap of
           None \<Rightarrow> [] | Some c \<Rightarrow> [entry ''DOCUMENTED_CAPACITY'' (string_of_int c)])
      @ concat (map layout_entries (map_seats seatMap)))"

definition seatsTag :: "string list \<Rightarrow> json" where
  "seatsTag seatIds = tag ''SEATS'' False (map (entry ''SEAT_ID'') seatIds)"

definition cancelledSeatsTag :: "string list \<Rightarrow> json" where
  "cancelledSeatsTag seatIds = tag ''CANCELLED_SEATS'' True (map (entry ''SEAT_ID'') seatIds)"

definition unavailableSeatsTag :: "string list \<Rightarrow> json" where
  "unavailableSeatsTag seatIds = tag ''UNAVAILABLE_SEATS'' False (map (entry ''SEAT_ID'') seatIds)"

definition bookingRefTag :: "string \<Rightarrow> json" where
  "bookingRefTag reference = tag ''BOOKING_REF'' True [entry ''NUMBER'' reference]"

definition vehicleLookupTag :: "ReservedService \<Rightarrow> string \<Rightarrow> json" where
  "vehicleLookupTag service travelDate = tag ''VEHICLE_LOOKUP'' False
     [entry ''SERVICE_ID'' (svc_serviceId service), entry ''TRAVEL_DATE'' travelDate]"

definition refundSlabTag :: "string \<Rightarrow> int \<Rightarrow> string \<Rightarrow> int \<Rightarrow> json" where
  "refundSlabTag slabCode slabPercent quoteId quoteExpiresAt = tag ''REFUND_SLAB'' True
     [entry ''SLAB_CODE'' slabCode, entry ''PERCENT'' (string_of_int slabPercent),
      entry ''REFUND_QUOTE_ID'' quoteId, entry ''QUOTE_EXPIRES_AT'' (istIsoInstant quoteExpiresAt)]"

subsection \<open>Items and fulfillments\<close>

record ItemInput =
  it_service :: ReservedService
  it_travelDate :: string
  it_pricePaise :: int
  it_pair :: BoardingPair
  it_fareSourcing :: SourcingLabel
  it_availableCount :: "int option"
  it_selectedCount :: "int option"

definition count_obj :: "int \<Rightarrow> json" where
  "count_obj n = JObj [(''count'', JNum n)]"

definition inr_price :: "string \<Rightarrow> json" where
  "inr_price value = JObj [(''currency'', JStr ''INR''), (''value'', JStr value)]"

definition reservedItem :: "ItemInput \<Rightarrow> failure + json" where
  "reservedItem input =
     (let service = it_service input in
      andThen (reservedItemId (svc_serviceId service) (it_travelDate input) (svc_serviceClass service)) (\<lambda>itemId.
      andThen (paiseToRupees (it_pricePaise input)) (\<lambda>price.
      andThen (stopInstant (it_travelDate input) (svc_departureMinute service) 0) (\<lambda>departs.
      Inr (JObj
        [(''id'', JStr itemId),
         (''category_ids'', JArr [JStr RESERVED_CATEGORY_ID]),
         (''descriptor'', JObj (opt_field ''name'' (map_option JStr (SERVICE_CLASS_NAMES (svc_serviceClass service)))
                            @ [(''code'', JStr RESERVED_ITEM_CODE)])),
         (''price'', inr_price price),
         (''quantity'', JObj (opt_field ''available'' (map_option count_obj (it_availableCount input))
                          @ opt_field ''selected'' (map_option count_obj (it_selectedCount input))
                          @ [(''maximum'', count_obj 6), (''minimum'', count_obj 1)])),
         (''fulfillment_ids'', JArr [JStr (reservedFulfillmentId itemId)]),
         (''time'', JObj [(''label'', JStr ''Departure''), (''timestamp'', JStr departs)]),
         (''tags'', JArr [serviceInfoTag service (it_travelDate input),
                        pricedForTag (it_pair input) (it_fareSourcing input),
                        operatorDisclosureTag service, serviceProvenanceTag service,
                        simulatedInventoryTag, specimenTag SPECIMEN_NOTICE])])))))"

definition stopLocation :: "BoardingPoint \<Rightarrow> json" where
  "stopLocation point =
     JObj ((''descriptor'', JObj [(''name'', JStr (bp_name point)), (''code'', JStr (bp_boardingPointId point))])
           # opt_field ''gps'' (map_option (\<lambda>(lat, lon). JStr (lat @ '', '' @ lon)) (bp_gps point)))"

definition stopRoleTag :: "string list \<Rightarrow> json" where
  "stopRoleTag roles = tag ''STOP_ROLE'' True (map (entry ''ROLE'') roles)"

record RunStop =
  rst_point :: BoardingPoint
  rst_roles :: "string list"

text \<open>\<open>add\<close> of the loop: a point that is there gains the role, another goes to the end.\<close>

fun add_stop :: "BoardingPoint \<Rightarrow> string \<Rightarrow> RunStop list \<Rightarrow> RunStop list" where
  "add_stop point role [] = [\<lparr>rst_point = point, rst_roles = [role]\<rparr>]"
| "add_stop point role (s # ss) =
     (if bp_boardingPointId (rst_point s) = bp_boardingPointId point
      then (if role \<in> set (rst_roles s) then s else s\<lparr>rst_roles := rst_roles s @ [role]\<rparr>) # ss
      else s # add_stop point role ss)"

definition runStops :: "ReservedService \<Rightarrow> RunStop list" where
  "runStops service =
     foldl (\<lambda>ordered point. add_stop point ''DROPPING'' ordered)
       (foldl (\<lambda>ordered point. add_stop point ''BOARDING'' ordered) [] (svc_boardingPoints service))
       (svc_droppingPoints service)"

definition stop_type :: "nat \<Rightarrow> nat \<Rightarrow> string" where
  "stop_type n i = (if i = 0 then ''START'' else if i = n - 1 then ''END'' else ''INTERMEDIATE_STOP'')"

definition run_stop_json :: "ReservedService \<Rightarrow> string \<Rightarrow> nat \<Rightarrow> nat \<times> RunStop \<Rightarrow> failure + json" where
  "run_stop_json service travelDate n istop =
     (case istop of (i, stop) \<Rightarrow>
        andThen (stopInstant travelDate (svc_departureMinute service)
                   (bp_reportingOffsetMinutes (rst_point stop))) (\<lambda>t.
        Inr (JObj ([(''id'', JStr (digits10 (i + 1)))]
             @ (if i = 0 then [] else [(''parent_stop_id'', JStr (digits10 i))])
             @ [(''type'', JStr (stop_type n i)), (''location'', stopLocation (rst_point stop)),
                (''time'', JObj [(''timestamp'', JStr t)]), (''tags'', JArr [stopRoleTag (rst_roles stop)])]))))"

definition fulfillment_obj :: "string \<Rightarrow> json list \<Rightarrow> json list \<Rightarrow> json" where
  "fulfillment_obj itemId stops tags =
     JObj [(''id'', JStr (reservedFulfillmentId itemId)), (''type'', JStr RESERVED_FULFILLMENT_TYPE),
           (''vehicle'', JObj [(''category'', JStr RESERVED_VEHICLE_CATEGORY)]),
           (''stops'', JArr stops), (''tags'', JArr tags)]"

definition catalogueFulfillment :: "ReservedService \<Rightarrow> string \<Rightarrow> failure + json" where
  "catalogueFulfillment service travelDate =
     andThen (reservedItemId (svc_serviceId service) travelDate (svc_serviceClass service)) (\<lambda>itemId.
       let stops = runStops service in
       andThen (traverse (run_stop_json service travelDate (length stops)) (enumerate 0 stops)) (\<lambda>ss.
       Inr (fulfillment_obj itemId ss [seatMapRefTag (svc_seatMapId service)])))"

definition order_stop :: "ReservedService \<Rightarrow> string \<Rightarrow> BoardingPoint \<Rightarrow> bool \<Rightarrow> failure + json" where
  "order_stop service travelDate point starts =
     andThen (stopInstant travelDate (svc_departureMinute service) (bp_reportingOffsetMinutes point)) (\<lambda>t.
     Inr (JObj ([(''id'', JStr (if starts then ''1'' else ''2''))]
       @ (if starts then [] else [(''parent_stop_id'', JStr ''1'')])
       @ [(''type'', JStr (if starts then ''START'' else ''END'')), (''location'', stopLocation point),
          (''time'', JObj [(''timestamp'', JStr t)]),
          (''tags'', JArr [stopRoleTag [if starts then ''BOARDING'' else ''DROPPING'']])])))"

definition orderFulfillment :: "ReservedService \<Rightarrow> string \<Rightarrow> BoardingPair \<Rightarrow> json list \<Rightarrow> failure + json" where
  "orderFulfillment service travelDate pair tags =
     andThen (reservedItemId (svc_serviceId service) travelDate (svc_serviceClass service)) (\<lambda>itemId.
       let points = svc_boardingPoints service @ svc_droppingPoints service;
           find = (\<lambda>i. required (List.find (\<lambda>c. bp_boardingPointId c = i) points) (Refusal SERVICE_NOT_FOUND []))
       in andThen (find (pair_from pair)) (\<lambda>f.
          andThen (find (pair_to pair)) (\<lambda>t.
          andThen (order_stop service travelDate f True) (\<lambda>s1.
          andThen (order_stop service travelDate t False) (\<lambda>s2.
          Inr (fulfillment_obj itemId [s1, s2] tags))))))"

definition RESERVED_CATEGORY :: json where
  "RESERVED_CATEGORY = JObj [(''id'', JStr RESERVED_CATEGORY_ID),
     (''descriptor'', JObj [(''name'', JStr ''Reserved''), (''code'', JStr RESERVED_CATEGORY_CODE)])]"

subsection \<open>The search intent\<close>

record ReservedSearchIntent =
  si_travelDate :: "string option"
  si_stops :: "StopInput list option"
  si_itemCode :: "string option"
  si_cityCode :: "string option"

definition nonempty :: "string option \<Rightarrow> string option" where
  "nonempty v = (if v = Some [] then None else v)"

definition reservedSearchQuery :: "ReservedSearchIntent \<Rightarrow> failure + ReservedSearchQuery" where
  "reservedSearchQuery intent =
     (case map_option trim (si_travelDate intent) of
        None \<Rightarrow> refuse TRAVEL_DATE_REQUIRED
      | Some travelDate \<Rightarrow>
          if travelDate = [] \<or> \<not> is_calendar_date travelDate then refuse TRAVEL_DATE_REQUIRED
          else
            let stops = (case si_stops intent of None \<Rightarrow> [] | Some ss \<Rightarrow> ss) in
            (case (nonempty (stopCode ''START'' stops), nonempty (stopCode ''END'' stops)) of
               (Some fromTown, Some toTown) \<Rightarrow>
                 Inr \<lparr>qry_fromTownCode = fromTown, qry_toTownCode = toTown, qry_travelDate = travelDate,
                      qry_serviceClass = nonempty (si_itemCode intent),
                      qry_cityCode = (case si_cityCode intent of None \<Rightarrow> [] | Some c \<Rightarrow> c)\<rparr>
             | _ \<Rightarrow> refuse SERVICE_NOT_FOUND))"

subsection \<open>The published run\<close>

definition stop_ids :: "RunStop list \<Rightarrow> string list" where
  "stop_ids ss = map (\<lambda>s. bp_boardingPointId (rst_point s)) ss"

lemma add_stop_ids:
  "stop_ids (add_stop p r ss) = (if bp_boardingPointId p \<in> set (stop_ids ss) then stop_ids ss
     else stop_ids ss @ [bp_boardingPointId p])"
  by (induction ss) (auto simp: stop_ids_def)

definition has_role :: "RunStop list \<Rightarrow> string \<Rightarrow> string \<Rightarrow> bool" where
  "has_role ss i r \<longleftrightarrow> (\<exists>s \<in> set ss. bp_boardingPointId (rst_point s) = i \<and> r \<in> set (rst_roles s))"

lemma add_stop_roles:
  assumes "distinct (stop_ids ss)"
  shows "has_role (add_stop p r ss) i q \<longleftrightarrow> has_role ss i q \<or> (i = bp_boardingPointId p \<and> q = r)"
  using assms by (induction ss) (auto simp: has_role_def stop_ids_def)

lemma run_fold:
  assumes "distinct (stop_ids ss)"
  shows "distinct (stop_ids (foldl (\<lambda>o1 p. add_stop p r o1) ss ps))
     \<and> set (stop_ids (foldl (\<lambda>o1 p. add_stop p r o1) ss ps)) = set (stop_ids ss) \<union> bp_boardingPointId ` set ps
     \<and> (\<forall>i q. has_role (foldl (\<lambda>o1 p. add_stop p r o1) ss ps) i q \<longleftrightarrow>
          has_role ss i q \<or> (i \<in> bp_boardingPointId ` set ps \<and> q = r))"
  using assms
proof (induction ps arbitrary: ss)
  case (Cons p ps)
  have "distinct (stop_ids (add_stop p r ss))" using Cons.prems by (simp add: add_stop_ids)
  from Cons.IH [OF this] show ?case
    by (auto simp: add_stop_ids add_stop_roles [OF Cons.prems] split: if_splits)
qed simp

lemma runStops_facts:
  "distinct (stop_ids (runStops service))"
  "set (stop_ids (runStops service)) = bp_boardingPointId ` set (svc_boardingPoints service @ svc_droppingPoints service)"
  "has_role (runStops service) i q \<longleftrightarrow>
     (q = ''BOARDING'' \<and> i \<in> bp_boardingPointId ` set (svc_boardingPoints service))
     \<or> (q = ''DROPPING'' \<and> i \<in> bp_boardingPointId ` set (svc_droppingPoints service))"
proof -
  let ?b = "foldl (\<lambda>ordered point. add_stop point ''BOARDING'' ordered) [] (svc_boardingPoints service)"
  have e: "distinct (stop_ids [])" "stop_ids [] = []" "\<not> has_role [] i q" for i q
    by (simp_all add: stop_ids_def has_role_def)
  note b = run_fold [OF e(1), of "''BOARDING''" "svc_boardingPoints service"]
  note d = run_fold [of ?b "''DROPPING''" "svc_droppingPoints service"]
  show "distinct (stop_ids (runStops service))"
    "set (stop_ids (runStops service)) = bp_boardingPointId ` set (svc_boardingPoints service @ svc_droppingPoints service)"
    "has_role (runStops service) i q \<longleftrightarrow>
     (q = ''BOARDING'' \<and> i \<in> bp_boardingPointId ` set (svc_boardingPoints service))
     \<or> (q = ''DROPPING'' \<and> i \<in> bp_boardingPointId ` set (svc_droppingPoints service))"
    unfolding runStops_def using b d e by (auto simp: image_Un)
qed

subsection \<open>Properties\<close>

text \<open>
  The published run names every point of the service once, and says of each exactly where it may
  be used: a point has the boarding role if and only if it is a boarding point and the dropping role
  if and only if it is a dropping point, and it has no other role.
\<close>

theorem run_stops_have_their_roles:
  "distinct (stop_ids (runStops service))
   \<and> set (stop_ids (runStops service)) = bp_boardingPointId ` set (svc_boardingPoints service @ svc_droppingPoints service)
   \<and> has_role (runStops service) i r =
       ((r = ''BOARDING'' \<and> i \<in> bp_boardingPointId ` set (svc_boardingPoints service))
        \<or> (r = ''DROPPING'' \<and> i \<in> bp_boardingPointId ` set (svc_droppingPoints service)))"
  by (intro conjI; rule runStops_facts)

end
