(* ===== verification/Reserved_Order.thy ===== *)
theory Reserved_Order
  imports Reserved_Store Reserved_Catalog Reserved_Occupancy
begin

text \<open>
  The order flow of a reserved seat (\<open>src/src/reserved/order.ts\<close>): search, select, init, confirm,
  status and cancel, with the seat counts pushed to the fleet simulator (\<open>fleetManifest.ts\<close>). An
  action runs on the tables of the store, the time of the last retention sweep and the list of
  manifest pushes started; it returns its message or the error it threw, and the state it left,
  since a refused action may have swept or quoted before it was refused. The instant the clock
  shows and the id the generator draws are arguments of the action.
\<close>

subsection \<open>Actions\<close>

record OrderState =
  os_db :: Database
  os_lastSweep :: "int option"
  os_pushes :: "(string \<times> string) list"

type_synonym 'a act = "OrderState \<Rightarrow> (failure + 'a) \<times> OrderState"

definition act_bind :: "'a act \<Rightarrow> ('a \<Rightarrow> 'b act) \<Rightarrow> 'b act" where
  "act_bind m f s = (case m s of (Inl e, s') \<Rightarrow> (Inl e, s') | (Inr x, s') \<Rightarrow> f x s')"

definition act_lift :: "failure + 'a \<Rightarrow> 'a act" where
  "act_lift r s = (r, s)"

definition act_read :: "(Database \<Rightarrow> 'a) \<Rightarrow> 'a act" where
  "act_read f s = (Inr (f (os_db s)), s)"

definition act_store :: "(Database \<Rightarrow> 'a outcome) \<Rightarrow> 'a act" where
  "act_store f s = (case f (os_db s) of (db, r) \<Rightarrow> (r, s\<lparr>os_db := db\<rparr>))"

definition startManifestPush :: "string \<Rightarrow> string \<Rightarrow> unit act" where
  "startManifestPush serviceId travelDate s =
     (Inr (), s\<lparr>os_pushes := os_pushes s @ [(serviceId, travelDate)]\<rparr>)"

subsection \<open>What a service is built with\<close>

record ReservationRuntime =
  rt_closeMinutes :: int
  rt_horizonDays :: int
  rt_occupancySeed :: int
  rt_holdTtlSeconds :: int
  rt_manifestRetentionDays :: int

record OrderEnv =
  env_operatorKey :: string
  env_source :: ReservedServiceSource
  env_subscriberId :: string
  env_subscriberUri :: string
  env_publicBaseUrl :: string
  env_reservation :: ReservationRuntime
  env_localeCompare :: "string \<Rightarrow> string \<Rightarrow> int"

record ReservedContext =
  ctx_transaction_id :: string
  ctx_bap_id :: string
  ctx_bap_uri :: string
  ctx_bpp_id :: "string option"
  ctx_bpp_uri :: "string option"

text \<open>An item is its id and the selected count; the stops are those of the first fulfillment.\<close>

record OrderInput =
  oi_items :: "(string \<times> int option) list option"
  oi_providerId :: "string option"
  oi_stops :: "StopInput list option"
  oi_billing :: "json option"
  oi_payments :: "json list option"
  oi_tags :: "json list option"

record Resolved =
  rv_service :: ReservedService
  rv_seatMap :: SeatMap
  rv_fareTable :: FareTable
  rv_travelDate :: string
  rv_departureAt :: int

record Snapshot =
  sn_seeded :: "string \<rightharpoonup> SeededGender"
  sn_claims :: "LiveSeatClaim list"
  sn_states :: "(string \<times> SeatState) list"
  sn_availableCount :: nat

subsection \<open>Shared work\<close>

definition assertBppAddress :: "OrderEnv \<Rightarrow> ReservedContext \<Rightarrow> failure + unit" where
  "assertBppAddress env context =
     ensure (ctx_bpp_id context = Some (env_subscriberId env) \<and> ctx_bpp_uri context = Some (env_subscriberUri env))
       (Refusal BPP_ADDRESS_MISMATCH [])"

definition identity :: "ReservedContext \<Rightarrow> ReservedIdentity" where
  "identity context = \<lparr>ri_bapId = ctx_bap_id context, ri_bapUri = ctx_bap_uri context,
     ri_transactionId = ctx_transaction_id context\<rparr>"

definition assertPaymentStatus :: "json list option \<Rightarrow> string \<Rightarrow> failure + unit" where
  "assertPaymentStatus payments expected =
     (case payments of
        None \<Rightarrow> refuse INVALID_PAYMENT_STATUS
      | Some ps \<Rightarrow>
          if ps = [] \<or> list_ex (\<lambda>payment. field payment ''status'' \<noteq> Some (JStr expected)) ps
          then refuse INVALID_PAYMENT_STATUS else Inr ())"

definition tag_list :: "json list option \<Rightarrow> string \<Rightarrow> json list option" where
  "tag_list tags groupCode =
     Option.bind tags (\<lambda>ts. map_option (\<lambda>grp. case field grp ''list'' of None \<Rightarrow> [] | Some l \<Rightarrow> elems l)
       (List.find (\<lambda>t. tag_code t = Some (JStr groupCode)) ts))"

text \<open>\<open>String(item.value)\<close>, for the string, number and absent values a tag entry can have.\<close>

definition entry_text :: "json \<Rightarrow> string" where
  "entry_text e =
     (case field e ''value'' of
        None \<Rightarrow> ''undefined'' | Some (JStr s) \<Rightarrow> s | Some (JNum n) \<Rightarrow> string_of_int n
      | Some JNull \<Rightarrow> ''null'' | Some (JBool b) \<Rightarrow> (if b then ''true'' else ''false'')
      | Some _ \<Rightarrow> ''[object Object]'')"

definition seatIdsFrom :: "json list option \<Rightarrow> string list" where
  "seatIdsFrom tags =
     (case tag_list tags ''SEATS'' of
        None \<Rightarrow> []
      | Some entries \<Rightarrow>
          filter (\<lambda>seatId. seatId \<noteq> []) (map entry_text
            (filter (\<lambda>e. tag_code e = Some (JStr ''SEAT_ID'')) entries)))"

definition tagValue :: "json list option \<Rightarrow> string \<Rightarrow> string \<Rightarrow> string option" where
  "tagValue tags groupCode entryCode =
     (case tag_list tags groupCode of
        None \<Rightarrow> None
      | Some entries \<Rightarrow>
          Option.bind (List.find (\<lambda>e. tag_code e = Some (JStr entryCode)) entries)
            (\<lambda>e. json_string (field e ''value'')))"

definition assertSeatsOnMap :: "SeatMap \<Rightarrow> string list \<Rightarrow> failure + unit" where
  "assertSeatsOnMap seatMap seatIds =
     ensure (list_all (\<lambda>seatId. seatId \<in> seat_seatId ` set (map_seats seatMap)) seatIds)
       (Refusal SEAT_NOT_ON_MAP [])"

definition windowStatus :: "OrderEnv \<Rightarrow> int \<Rightarrow> int \<Rightarrow> BookingWindowVerdict" where
  "windowStatus env departureAt nowMs =
     bookingWindowStatus departureAt nowMs
       \<lparr>win_closeMinutes = rt_closeMinutes (env_reservation env),
        win_horizonDays = rt_horizonDays (env_reservation env)\<rparr>"

definition seatMapFor :: "OrderEnv \<Rightarrow> ReservedService \<Rightarrow> failure + SeatMap" where
  "seatMapFor env service =
     required (src_seatMap (env_source env) (svc_seatMapId service)) (Refusal SERVICE_NOT_FOUND [])"

definition fareTableFor :: "OrderEnv \<Rightarrow> ReservedService \<Rightarrow> failure + FareTable" where
  "fareTableFor env service =
     required (src_fareTable (env_source env) (svc_fareTableId service)) (Refusal FARE_NOT_PUBLISHED [])"

definition resolveSelection :: "OrderEnv \<Rightarrow> int \<Rightarrow> OrderInput \<Rightarrow> failure + Resolved" where
  "resolveSelection env nowMs input =
     andThen (ensure (oi_providerId input = Some (op_id (src_operator (env_source env))))
                (Refusal SERVICE_NOT_FOUND [])) (\<lambda>_.
     let items = (case oi_items input of None \<Rightarrow> [] | Some is \<Rightarrow> is) in
     andThen (ensure (length items = 1) (Refusal MIXED_CATEGORY_ORDER [])) (\<lambda>_.
     andThen (required (parseReservedItemId (fst (hd items))) (Refusal SERVICE_NOT_FOUND []))
       (\<lambda>(serviceId, travelDate, serviceClass).
     andThen (required (src_service (env_source env) serviceId) (Refusal SERVICE_NOT_FOUND [])) (\<lambda>service.
     andThen (ensure (svc_serviceClass service = serviceClass) (Refusal SERVICE_NOT_FOUND [])) (\<lambda>_.
     andThen (runsOn (svc_operatingPattern service) travelDate) (\<lambda>runs.
     andThen (ensure runs (Refusal SERVICE_NOT_FOUND [])) (\<lambda>_.
     andThen (stopInstantMilliseconds travelDate (svc_departureMinute service) 0) (\<lambda>departureAt.
     andThen (ensure (windowStatus env departureAt nowMs = OPEN) (Refusal OUTSIDE_BOOKING_WINDOW [])) (\<lambda>_.
     andThen (seatMapFor env service) (\<lambda>seatMap.
     andThen (fareTableFor env service) (\<lambda>fareTable.
     Inr \<lparr>rv_service = service, rv_seatMap = seatMap, rv_fareTable = fareTable,
          rv_travelDate = travelDate, rv_departureAt = departureAt\<rparr>)))))))))))"

definition snapshotFromClaims ::
    "OrderEnv \<Rightarrow> ReservedService \<Rightarrow> SeatMap \<Rightarrow> string \<Rightarrow> LiveSeatClaim list \<Rightarrow> ReservedIdentity option
     \<Rightarrow> failure + Snapshot" where
  "snapshotFromClaims env service seatMap travelDate claims viewer =
     andThen (seededOccupancy (env_localeCompare env) service seatMap travelDate
                (rt_occupancySeed (env_reservation env))) (\<lambda>seeded.
     let nb = \<lparr>nb_map = seatMap, nb_seededSold = seeded, nb_claims = claims, nb_viewer = viewer\<rparr> in
     Inr \<lparr>sn_seeded = seeded, sn_claims = claims, sn_states = seatStates nb,
          sn_availableCount = availableSeatCount nb\<rparr>)"

definition sweep_act :: "string \<Rightarrow> string \<Rightarrow> int \<Rightarrow> nat act" where
  "sweep_act serviceId travelDate nowMs =
     act_store (withTransaction (\<lambda>db. Inr (sweepExpiredHolds serviceId travelDate nowMs db)))"

definition snapshot ::
    "OrderEnv \<Rightarrow> int \<Rightarrow> ReservedService \<Rightarrow> SeatMap \<Rightarrow> string \<Rightarrow> ReservedIdentity option \<Rightarrow> Snapshot act" where
  "snapshot env nowMs service seatMap travelDate viewer =
     act_bind (sweep_act (svc_serviceId service) travelDate nowMs) (\<lambda>_.
     act_bind (act_read (liveClaims (svc_serviceId service) travelDate)) (\<lambda>claims.
     act_lift (snapshotFromClaims env service seatMap travelDate claims viewer)))"

definition findBookingOrRefuse :: "OrderEnv \<Rightarrow> ReservedContext \<Rightarrow> string \<Rightarrow> BookingRecord act" where
  "findBookingOrRefuse env context reference =
     act_bind (act_read (findBooking (env_operatorKey env) (ctx_bap_id context) (ctx_bap_uri context) reference))
       (\<lambda>b. act_lift (required b (Refusal BOOKING_NOT_FOUND [])))"

definition sweepManifests_act :: "OrderEnv \<Rightarrow> int \<Rightarrow> nat act" where
  "sweepManifests_act env nowMs s =
     (case sweepManifests MANIFEST_SWEEP_INTERVAL_MS nowMs (rt_manifestRetentionDays (env_reservation env))
             (os_lastSweep s, os_db s) of
        ((lastSweep, db), n) \<Rightarrow> (Inr n, s\<lparr>os_lastSweep := lastSweep, os_db := db\<rparr>))"

subsection \<open>The order\<close>

record BuildInput =
  bi_resolved :: Resolved
  bi_pair :: BoardingPair
  bi_farePaise :: int
  bi_fareSourcing :: SourcingLabel
  bi_seatCount :: int
  bi_identity :: ReservedIdentity
  bi_seatIds :: "string list"
  bi_hold :: "HoldRecord option"
  bi_concessionClaim :: "string option"
  bi_fulfillmentTags :: "json list"
  bi_billing :: "json option"
  bi_payments :: "json list option"
  bi_id :: "string option"
  bi_status :: "string option"
  bi_createdAt :: "int option"

text \<open>The four amounts of a quote: base fare, discount, fee and toll.\<close>

definition quote_amounts :: "BuildInput \<Rightarrow> failure + int \<times> int \<times> int \<times> int" where
  "quote_amounts input =
     (let service = rv_service (bi_resolved input);
          basePaise = bi_farePaise input * bi_seatCount input;
          feePaise = svc_reservationFeePaise service * bi_seatCount input;
          tollPaise = svc_tollPaise service * bi_seatCount input
      in andThen (case bi_concessionClaim input of
                    None \<Rightarrow> Inr 0
                  | Some claim \<Rightarrow>
                      if claim = [] then Inr 0
                      else andThen (concessionRatePercent claim (svc_serviceClass service))
                             (\<lambda>percent. Inr (concessionDiscountPaise basePaise percent)))
           (\<lambda>discountPaise. Inr (basePaise, discountPaise, feePaise, tollPaise)))"

definition breakup_line :: "string \<Rightarrow> string \<Rightarrow> string \<Rightarrow> json" where
  "breakup_line code title value =
     JObj [(''code'', JStr code), (''title'', JStr title), (''price'', inr_price value)]"

text \<open>The lines of the quote and its total in paise; the total is printed last.\<close>

definition quote_breakup :: "BuildInput \<Rightarrow> failure + json list \<times> int" where
  "quote_breakup input =
     andThen (quote_amounts input) (\<lambda>(basePaise, discountPaise, feePaise, tollPaise).
       let claim = (case bi_concessionClaim input of None \<Rightarrow> [] | Some c \<Rightarrow> c);
           totalPaise = basePaise - discountPaise + feePaise + tollPaise
       in andThen (paiseToRupees basePaise) (\<lambda>base.
          andThen (if discountPaise > 0
                   then andThen (signedPaiseToRupees (- discountPaise)) (\<lambda>v.
                     Inr [breakup_line (claim @ ''_CONCESSION'') (concessionLabel claim @ '' concession'') v])
                   else Inr []) (\<lambda>discount.
          andThen (paiseToRupees feePaise) (\<lambda>fee.
          andThen (paiseToRupees tollPaise) (\<lambda>toll.
          Inr ([breakup_line ''BASE_FARE'' ''Base fare'' base] @ discount
               @ [breakup_line ''RESERVATION_FEE'' ''Reservation fee'' fee,
                  breakup_line ''TOLL'' ''Toll'' toll], totalPaise))))))"

definition payment_json :: "OrderEnv \<Rightarrow> nat \<times> json \<Rightarrow> json" where
  "payment_json env ip =
     (case ip of (i, payment) \<Rightarrow>
        (case field payment ''id'' of
           Some JNull \<Rightarrow> set_field ''id'' (JStr (''PAY-'' @ toUpperCase (env_operatorKey env) @ ''-'' @ digits10 (i + 1))) payment
         | Some v \<Rightarrow> set_field ''id'' v payment
         | None \<Rightarrow> set_field ''id'' (JStr (''PAY-'' @ toUpperCase (env_operatorKey env) @ ''-'' @ digits10 (i + 1))) payment))"

definition order_tags :: "OrderEnv \<Rightarrow> BuildInput \<Rightarrow> Snapshot \<Rightarrow> json list" where
  "order_tags env input snap =
     (let seatMap = rv_seatMap (bi_resolved input) in
      [specimenTag SPECIMEN_NOTICE, seatMapTag (map_seatMapId seatMap) (sn_states snap), seatMapLayoutTag seatMap]
      @ (if bi_seatIds input \<noteq> [] then [seatsTag (bi_seatIds input)] else [])
      @ (case bi_hold input of
           None \<Rightarrow> []
         | Some hold \<Rightarrow> [holdInfoTag (hold_holdId hold) (hold_expiresAt hold)
                           (rt_holdTtlSeconds (env_reservation env))]))"

text \<open>The rendering half of \<open>buildOrder\<close>, given the snapshot.\<close>

definition render_order :: "OrderEnv \<Rightarrow> BuildInput \<Rightarrow> Snapshot \<Rightarrow> failure + json" where
  "render_order env input snap =
     (let resolved = bi_resolved input; service = rv_service resolved;
          operator = src_operator (env_source env)
      in andThen (quote_breakup input) (\<lambda>(breakup, totalPaise).
         andThen (reservedItem \<lparr>it_service = service, it_travelDate = rv_travelDate resolved,
                    it_pricePaise = bi_farePaise input, it_pair = bi_pair input,
                    it_fareSourcing = bi_fareSourcing input,
                    it_availableCount = Some (int (sn_availableCount snap)),
                    it_selectedCount = Some (bi_seatCount input)\<rparr>) (\<lambda>item.
         andThen (orderFulfillment service (rv_travelDate resolved) (bi_pair input) (bi_fulfillmentTags input)) (\<lambda>fulfillment.
         andThen (paiseToRupees totalPaise) (\<lambda>total.
         Inr (JObj
           (opt_field ''id'' (map_option JStr (nonempty (bi_id input)))
            @ opt_field ''status'' (map_option JStr (nonempty (bi_status input)))
            @ [(''provider'', JObj [(''id'', JStr (op_id operator)),
                 (''descriptor'', JObj [(''name'', JStr (op_name operator))])]),
               (''items'', JArr [item]), (''fulfillments'', JArr [fulfillment]), 
               (''quote'', JObj [(''price'', inr_price total), (''breakup'', JArr breakup)])]
            @ opt_field ''billing'' (bi_billing input)
            @ opt_field ''payments'' (map_option (\<lambda>ps. JArr (map (payment_json env) (enumerate 0 ps))) (bi_payments input))
            @ [(''cancellation_terms'', JArr [JObj [(''external_ref'',
                 JObj [(''mimetype'', JStr ''text/html''), (''url'', JStr (env_publicBaseUrl env @ ''/terms''))])]])]
            @ (case bi_createdAt input of
                 None \<Rightarrow> []
               | Some t \<Rightarrow> if t = 0 then []
                   else [(''created_at'', JStr (istIsoInstant t)), (''updated_at'', JStr (istIsoInstant t))])
            @ [(''tags'', JArr (order_tags env input snap))])))))))"

definition buildOrder :: "OrderEnv \<Rightarrow> int \<Rightarrow> BuildInput \<Rightarrow> json act" where
  "buildOrder env nowMs input =
     (let resolved = bi_resolved input in
      act_bind (snapshot env nowMs (rv_service resolved) (rv_seatMap resolved) (rv_travelDate resolved)
                  (Some (bi_identity input))) (\<lambda>snap.
      act_lift (render_order env input snap)))"

definition order_message :: "json \<Rightarrow> json" where
  "order_message order = JObj [(''order'', order)]"

subsection \<open>search\<close>

record Eligible =
  el_service :: ReservedService
  el_seatMap :: SeatMap
  el_pair :: BoardingPair
  el_cell :: FareCell

text \<open>One round of the first pass: \<open>None\<close> is a \<open>continue\<close>.\<close>

definition eligible_service ::
    "OrderEnv \<Rightarrow> int \<Rightarrow> ReservedSearchQuery \<Rightarrow> ReservedService \<Rightarrow> failure + Eligible option" where
  "eligible_service env nowMs query service =
     andThen (stopInstantMilliseconds (qry_travelDate query) (svc_departureMinute service) 0) (\<lambda>departureAt.
     if windowStatus env departureAt nowMs \<noteq> OPEN then Inr None
     else
       andThen (seatMapFor env service) (\<lambda>seatMap.
       andThen (fareTableFor env service) (\<lambda>fareTable.
       andThen (headlinePair service) (\<lambda>pair.
       Inr (case findFareCell fareTable pair (svc_serviceClass service) of
              None \<Rightarrow> None
            | Some cell \<Rightarrow> Some \<lparr>el_service = service, el_seatMap = seatMap, el_pair = pair, el_cell = cell\<rparr>)))))"

definition eligible_item ::
    "OrderEnv \<Rightarrow> ReservedSearchQuery \<Rightarrow> (string \<times> LiveSeatClaim list) list \<Rightarrow> Eligible \<Rightarrow> failure + json \<times> json" where
  "eligible_item env query claimsByService e =
     (let service = el_service e;
          claims = (case map_of claimsByService (svc_serviceId service) of None \<Rightarrow> [] | Some cs \<Rightarrow> cs)
      in andThen (snapshotFromClaims env service (el_seatMap e) (qry_travelDate query) claims None) (\<lambda>snap.
         andThen (reservedItem \<lparr>it_service = service, it_travelDate = qry_travelDate query,
                    it_pricePaise = cell_farePaise (el_cell e), it_pair = el_pair e,
                    it_fareSourcing = cell_sourcing (el_cell e),
                    it_availableCount = Some (int (sn_availableCount snap)), it_selectedCount = None\<rparr>) (\<lambda>item.
         andThen (catalogueFulfillment service (qry_travelDate query)) (\<lambda>fulfillment.
         Inr (item, fulfillment)))))"

definition catalogue_json :: "OrderEnv \<Rightarrow> (json \<times> json) list \<Rightarrow> json" where
  "catalogue_json env published =
     (let operator = src_operator (env_source env) in
      JObj [(''catalog'', JObj
        [(''descriptor'', JObj [(''name'', JStr (op_name operator @ '' Specimen Reserved Catalogue''))]),
         (''providers'', JArr [JObj
           [(''id'', JStr (op_id operator)), (''descriptor'', JObj [(''name'', JStr (op_name operator))]),
            (''categories'', JArr [RESERVED_CATEGORY]), (''items'', JArr (map fst published)),
            (''fulfillments'', JArr (map snd published))]])])])"

definition search :: "OrderEnv \<Rightarrow> int \<Rightarrow> ReservedSearchIntent \<Rightarrow> json act" where
  "search env nowMs request =
     act_bind (act_lift (reservedSearchQuery request)) (\<lambda>query.
     act_bind (sweepManifests_act env nowMs) (\<lambda>_.
     act_bind (act_lift (traverse (eligible_service env nowMs query) (src_services (env_source env) query))) (\<lambda>es.
     let eligible = List.map_filter id es;
         serviceIds = map (\<lambda>e. svc_serviceId (el_service e)) eligible
     in act_bind (act_store (withTransaction (\<lambda>db.
            Inr (sweepExpiredHoldsForServices serviceIds (qry_travelDate query) nowMs db)))) (\<lambda>_.
        act_bind (act_read (liveClaimsForServices serviceIds (qry_travelDate query))) (\<lambda>claimsByService.
        act_bind (act_lift (traverse (eligible_item env query claimsByService) eligible)) (\<lambda>published.
        act_lift (Inr (catalogue_json env published))))))))"

subsection \<open>select\<close>

definition selected_count :: "OrderInput \<Rightarrow> int" where
  "selected_count input =
     (case oi_items input of
        Some ((_, Some n) # _) \<Rightarrow> n
      | _ \<Rightarrow> 1)"

definition input_stops :: "OrderInput \<Rightarrow> StopInput list" where
  "input_stops input = (case oi_stops input of None \<Rightarrow> [] | Some ss \<Rightarrow> ss)"

definition unavailable :: "SeatMap \<Rightarrow> (string \<times> json) list \<Rightarrow> Snapshot \<Rightarrow> failure" where
  "unavailable seatMap attachment snap =
     Refusal SEAT_UNAVAILABLE (put ''seatMapLayout'' (seatMapLayoutTag seatMap)
       (put ''seatMap'' (seatMapTag (map_seatMapId seatMap) (sn_states snap)) attachment))"

definition select_hold :: "OrderEnv \<Rightarrow> int \<Rightarrow> string \<Rightarrow> Resolved \<Rightarrow> ReservedIdentity \<Rightarrow> string list \<Rightarrow> HoldRecord act" where
  "select_hold env nowMs drawn resolved idn seatIds =
     (let service = rv_service resolved; seatMap = rv_seatMap resolved; travelDate = rv_travelDate resolved in
      act_bind (act_lift (assertSeatsOnMap seatMap seatIds)) (\<lambda>_.
      act_bind (snapshot env nowMs service seatMap travelDate (Some idn)) (\<lambda>snap.
      let simulated = filter (\<lambda>seatId. sn_seeded snap seatId \<noteq> None) seatIds in
      if simulated \<noteq> [] then
        act_lift (Inl (unavailable seatMap (seat_ids_attachment ''unavailableSeatIds'' simulated) snap))
      else (\<lambda>s.
        case act_store (acquireHold drawn
               \<lparr>hp_operator = env_operatorKey env, hp_identity = idn, hp_serviceId = svc_serviceId service,
                hp_travelDate = travelDate, hp_seatIds = seatIds, hp_nowMs = nowMs,
                hp_ttlSeconds = rt_holdTtlSeconds (env_reservation env),
                hp_skipAvailabilityCheckForTest = False\<rparr>) s of
          (Inl (Refusal SEAT_UNAVAILABLE attachment), s') \<Rightarrow>
            act_bind (snapshot env nowMs service seatMap travelDate (Some idn))
              (\<lambda>after. act_lift (Inl (unavailable seatMap attachment after))) s'
        | r \<Rightarrow> r))))"

definition select :: "OrderEnv \<Rightarrow> int \<Rightarrow> string \<Rightarrow> ReservedContext \<Rightarrow> OrderInput \<Rightarrow> json act" where
  "select env nowMs drawn context input =
     act_bind (act_lift (assertBppAddress env context)) (\<lambda>_.
     act_bind (act_lift (resolveSelection env nowMs input)) (\<lambda>resolved.
     let idn = identity context; seatIds = seatIdsFrom (oi_tags input); n = selected_count input in
     act_bind (act_lift (ensure (seatIds = [] \<or> int (length seatIds) = n) (Refusal SEAT_COUNT_MISMATCH []))) (\<lambda>_.
     act_bind (act_lift (boardingPairFromStops (rv_service resolved) (input_stops input))) (\<lambda>pair.
     act_bind (act_lift (fareCell (rv_fareTable resolved) pair (svc_serviceClass (rv_service resolved)))) (\<lambda>cell.
     act_bind (if seatIds = [] then act_lift (Inr None)
               else act_bind (select_hold env nowMs drawn resolved idn seatIds) (\<lambda>h. act_lift (Inr (Some h)))) (\<lambda>hold.
     act_bind (buildOrder env nowMs
        \<lparr>bi_resolved = resolved, bi_pair = pair, bi_farePaise = cell_farePaise cell,
         bi_fareSourcing = cell_sourcing cell,
         bi_seatCount = (if seatIds \<noteq> [] then int (length seatIds) else n), bi_identity = idn,
         bi_seatIds = seatIds, bi_hold = hold, bi_concessionClaim = concessionFromOrderTags (oi_tags input),
         bi_fulfillmentTags = [seatMapRefTag (map_seatMapId (rv_seatMap resolved))],
         bi_billing = None, bi_payments = None, bi_id = None, bi_status = None, bi_createdAt = None\<rparr>) (\<lambda>order.
     act_lift (Inr (order_message order)))))))))"

subsection \<open>init and confirm\<close>

definition hold_expired :: "HoldRecord \<Rightarrow> failure" where
  "hold_expired hold = Refusal HOLD_EXPIRED
     [(''holdId'', JStr (hold_holdId hold)), (''expiresAt'', JStr (istIsoInstant (hold_expiresAt hold)))]"

definition liveHoldAndManifest ::
    "OrderEnv \<Rightarrow> int \<Rightarrow> Resolved \<Rightarrow> ReservedIdentity \<Rightarrow> OrderInput \<Rightarrow> (HoldRecord \<times> ManifestRecord list) act" where
  "liveHoldAndManifest env nowMs resolved idn input =
     (let service = rv_service resolved; travelDate = rv_travelDate resolved in
      act_bind (sweep_act (svc_serviceId service) travelDate nowMs) (\<lambda>_.
      act_bind (act_read (findLatestHold (env_operatorKey env) idn)) (\<lambda>found.
      act_bind (act_lift (required found (Refusal HOLD_REQUIRED []))) (\<lambda>hold.
      act_bind (act_lift (ensure (holdStatus hold nowMs = LIVE) (hold_expired hold))) (\<lambda>_.
      act_bind (act_lift (ensure (hold_serviceId hold = svc_serviceId service \<and> hold_travelDate hold = travelDate)
                            (Refusal HOLD_SEAT_MISMATCH []))) (\<lambda>_.
      act_bind (act_lift (required (manifestTag (oi_tags input)) (Refusal MANIFEST_INCOMPLETE []))) (\<lambda>entries.
      act_bind (act_lift (parseManifest entries)) (\<lambda>records.
      act_bind (act_lift (assertManifestMatchesHold records (hold_seatIds hold))) (\<lambda>_.
      act_bind (act_read (liveClaims (svc_serviceId service) travelDate)) (\<lambda>claims.
      act_bind (act_lift (snapshotFromClaims env service (rv_seatMap resolved) travelDate claims (Some idn))) (\<lambda>snap.
      act_bind (act_lift (assertGenderLocks
         \<lparr>nb_map = rv_seatMap resolved, nb_seededSold = sn_seeded snap, nb_claims = sn_claims snap,
          nb_viewer = Some idn\<rparr>
         (map (\<lambda>r. \<lparr>as_seatId = mr_seatId r, as_gender = mr_gender r\<rparr>) records))) (\<lambda>_.
      act_lift (Inr (hold, records))))))))))))))"

definition init :: "OrderEnv \<Rightarrow> int \<Rightarrow> ReservedContext \<Rightarrow> OrderInput \<Rightarrow> json act" where
  "init env nowMs context input =
     act_bind (act_lift (assertBppAddress env context)) (\<lambda>_.
     act_bind (act_lift (assertPaymentStatus (oi_payments input) ''NOT_PAID'')) (\<lambda>_.
     let idn = identity context in
     act_bind (act_lift (resolveSelection env nowMs input)) (\<lambda>resolved.
     act_bind (liveHoldAndManifest env nowMs resolved idn input) (\<lambda>(hold, records).
     act_bind (act_lift (boardingPairFromStops (rv_service resolved) (input_stops input))) (\<lambda>pair.
     act_bind (act_lift (fareCell (rv_fareTable resolved) pair (svc_serviceClass (rv_service resolved)))) (\<lambda>cell.
     act_bind (buildOrder env nowMs
        \<lparr>bi_resolved = resolved, bi_pair = pair, bi_farePaise = cell_farePaise cell,
         bi_fareSourcing = cell_sourcing cell, bi_seatCount = int (length (hold_seatIds hold)),
         bi_identity = idn, bi_seatIds = hold_seatIds hold, bi_hold = Some hold,
         bi_concessionClaim = concessionFromOrderTags (oi_tags input),
         bi_fulfillmentTags = [seatMapRefTag (map_seatMapId (rv_seatMap resolved)), manifestTagFrom records],
         bi_billing = oi_billing input, bi_payments = oi_payments input, bi_id = None, bi_status = None,
         bi_createdAt = None\<rparr>) (\<lambda>order.
     act_lift (Inr (order_message order)))))))))"

text \<open>The order a confirm stores, for the ids the store draws and a snapshot already taken.\<close>

definition confirm_order ::
    "OrderEnv \<Rightarrow> int \<Rightarrow> Resolved \<Rightarrow> BoardingPair \<Rightarrow> FareCell \<Rightarrow> ReservedIdentity \<Rightarrow> OrderInput
     \<Rightarrow> ManifestRecord list \<Rightarrow> Snapshot \<Rightarrow> string \<Rightarrow> string \<Rightarrow> failure + json" where
  "confirm_order env nowMs resolved pair cell idn input records snap orderId reference =
     render_order env
       \<lparr>bi_resolved = resolved, bi_pair = pair, bi_farePaise = cell_farePaise cell,
        bi_fareSourcing = cell_sourcing cell, bi_seatCount = int (length records), bi_identity = idn,
        bi_seatIds = map mr_seatId records, bi_hold = None,
        bi_concessionClaim = concessionFromOrderTags (oi_tags input),
        bi_fulfillmentTags = [seatMapRefTag (map_seatMapId (rv_seatMap resolved)), bookingRefTag reference,
           manifestTagFrom records, vehicleLookupTag (rv_service resolved) (rv_travelDate resolved),
           specimenTag CONFIRMED_SPECIMEN_NOTICE],
        bi_billing = oi_billing input, bi_payments = oi_payments input, bi_id = Some orderId,
        bi_status = Some ''ACTIVE'', bi_createdAt = Some nowMs\<rparr> snap"

definition record_sale :: "ReservedService \<Rightarrow> FareCell \<Rightarrow> ManifestRecord \<Rightarrow> SeatSale" where
  "record_sale service cell r =
     \<lparr>sale_seatId = mr_seatId r, sale_name = mr_name r, sale_age = mr_age r, sale_gender = mr_gender r,
      sale_basePaise = cell_farePaise cell, sale_reservationFeePaise = svc_reservationFeePaise service,
      sale_tollPaise = svc_tollPaise service\<rparr>"

definition confirm_params ::
    "OrderEnv \<Rightarrow> int \<Rightarrow> Resolved \<Rightarrow> BoardingPair \<Rightarrow> FareCell \<Rightarrow> ReservedIdentity \<Rightarrow> HoldRecord
     \<Rightarrow> ManifestRecord list \<Rightarrow> (string \<Rightarrow> string \<Rightarrow> failure + json) \<Rightarrow> ConfirmParams" where
  "confirm_params env nowMs resolved pair cell idn hold records order =
     (let service = rv_service resolved; attributed = (svc_operatingCorporationBasis service = Confirmed) in
      \<lparr>cp_holdId = hold_holdId hold, cp_operator = env_operatorKey env, cp_identity = idn,
       cp_serviceId = svc_serviceId service, cp_travelDate = rv_travelDate resolved,
       cp_serviceClass = svc_serviceClass service, cp_fromBoardingPointId = pair_from pair,
       cp_toBoardingPointId = pair_to pair, cp_departureAt = rv_departureAt resolved,
       cp_seats = map (record_sale service cell) records,
       cp_settlementCorporation = (if attributed then svc_operatingCorporation service else None),
       cp_settlementBasis = svc_operatingCorporationBasis service, cp_nowMs = nowMs, cp_order = order\<rparr>)"

definition confirmNew ::
    "OrderEnv \<Rightarrow> int \<Rightarrow> string \<Rightarrow> OrderInput \<Rightarrow> ReservedIdentity \<Rightarrow> BookingRecord act" where
  "confirmNew env nowMs drawn input idn =
     act_bind (act_lift (resolveSelection env nowMs input)) (\<lambda>resolved.
     act_bind (liveHoldAndManifest env nowMs resolved idn input) (\<lambda>(hold, records).
     act_bind (act_lift (boardingPairFromStops (rv_service resolved) (input_stops input))) (\<lambda>pair.
     act_bind (act_lift (fareCell (rv_fareTable resolved) pair (svc_serviceClass (rv_service resolved)))) (\<lambda>cell.
     act_bind (snapshot env nowMs (rv_service resolved) (rv_seatMap resolved) (rv_travelDate resolved) (Some idn)) (\<lambda>snap.
     act_bind (act_store (confirmBooking drawn (confirm_params env nowMs resolved pair cell idn hold records
                 (confirm_order env nowMs resolved pair cell idn input records snap)))) (\<lambda>booking.
     act_bind (startManifestPush (svc_serviceId (rv_service resolved)) (rv_travelDate resolved)) (\<lambda>_.
     act_lift (Inr booking))))))))"

definition confirm :: "OrderEnv \<Rightarrow> int \<Rightarrow> string \<Rightarrow> ReservedContext \<Rightarrow> OrderInput \<Rightarrow> json act" where
  "confirm env nowMs drawn context input =
     act_bind (act_lift (assertBppAddress env context)) (\<lambda>_.
     act_bind (act_lift (assertPaymentStatus (oi_payments input) ''PAID'')) (\<lambda>_.
     let idn = identity context in
     act_bind (act_read (findBookingByTransaction (env_operatorKey env) idn)) (\<lambda>existing.
     case existing of
       Some booking \<Rightarrow> act_lift (Inr (order_message (b_order booking)))
     | None \<Rightarrow> act_bind (confirmNew env nowMs drawn input idn) (\<lambda>booking.
                 act_lift (Inr (order_message (b_order booking)))))))"

subsection \<open>Refunds\<close>

definition refund_lines :: "int \<Rightarrow> int \<Rightarrow> int \<Rightarrow> int \<Rightarrow> failure + json" where
  "refund_lines refundPaise basePaise deductionPaise tollPaise =
     andThen (signedPaiseToRupees refundPaise) (\<lambda>price.
     andThen (signedPaiseToRupees basePaise) (\<lambda>base.
     andThen (signedPaiseToRupees deductionPaise) (\<lambda>deduction.
     andThen (signedPaiseToRupees 0) (\<lambda>fee.
     andThen (signedPaiseToRupees tollPaise) (\<lambda>toll.
     Inr (JObj [(''price'', inr_price price),
       (''breakup'', JArr [breakup_line ''BASE_FARE'' ''Base fare'' base,
          breakup_line ''SLAB_DEDUCTION'' ''Cancellation deduction'' deduction,
          breakup_line ''RESERVATION_FEE'' ''Reservation fee'' fee,
          breakup_line ''TOLL_REFUND'' ''Toll refund'' toll])]))))))"

definition refundPayload :: "RefundComputation \<Rightarrow> failure + json" where
  "refundPayload refund =
     refund_lines (rc_refundPaise refund) (rc_basePaise refund) (- rc_slabDeductionPaise refund)
       (rc_tollRefundPaise refund)"

definition cancelled_seats :: "BookingRecord \<Rightarrow> BookingSeatRecord list" where
  "cancelled_seats booking = filter (\<lambda>s. bs_status s = CANCELLED) (b_seats booking)"

definition stored_deduction :: "BookingRecord \<Rightarrow> int" where
  "stored_deduction booking =
     (let basePaise = foldl (\<lambda>sum seat. sum + bs_basePaise seat) 0 (cancelled_seats booking);
          tollPaise = foldl (\<lambda>sum seat. sum + bs_tollPaise seat) 0 (cancelled_seats booking);
          refundPaise = (case b_refundPaise booking of None \<Rightarrow> 0 | Some r \<Rightarrow> r)
      in - (basePaise + tollPaise - refundPaise))"

definition storedRefund :: "BookingRecord \<Rightarrow> failure + json" where
  "storedRefund booking =
     refund_lines (case b_refundPaise booking of None \<Rightarrow> 0 | Some r \<Rightarrow> r)
       (foldl (\<lambda>sum seat. sum + bs_basePaise seat) 0 (cancelled_seats booking))
       (stored_deduction booking)
       (foldl (\<lambda>sum seat. sum + bs_tollPaise seat) 0 (cancelled_seats booking))"

subsection \<open>The order after a cancellation\<close>

definition array_field :: "json \<Rightarrow> string \<Rightarrow> failure + json list" where
  "array_field v k = (case field v k of Some (JArr xs) \<Rightarrow> Inr xs | _ \<Rightarrow> Inl PlainError)"

text \<open>\<open>flatMap\<close> over the order's tags with \<open>seatTagsPlaced\<close> carried along.\<close>

fun place_seat_tags :: "json list \<Rightarrow> bool \<Rightarrow> json list \<Rightarrow> json list" where
  "place_seat_tags seatTags placed [] = []"
| "place_seat_tags seatTags placed (t # ts) =
     (if tag_code t \<noteq> Some (JStr ''SEATS'') \<and> tag_code t \<noteq> Some (JStr ''CANCELLED_SEATS'')
      then t # place_seat_tags seatTags placed ts
      else if placed then place_seat_tags seatTags placed ts
      else seatTags @ place_seat_tags seatTags True ts)"

definition remaining_record :: "BookingSeatRecord \<Rightarrow> ManifestRecord" where
  "remaining_record seat =
     \<lparr>mr_seatId = bs_seatId seat, mr_name = (case bs_name seat of None \<Rightarrow> [] | Some n \<Rightarrow> n),
      mr_age = bs_age seat, mr_gender = bs_gender seat\<rparr>"

definition remaining_manifest :: "BookingSeatRecord list \<Rightarrow> json \<Rightarrow> json list" where
  "remaining_manifest remaining t =
     (if tag_code t \<noteq> Some (JStr ''MANIFEST'') then [t]
      else if remaining = [] then []
      else [manifestTagFrom (map remaining_record remaining)])"

definition cancelledOrder :: "BookingRecord \<Rightarrow> failure + json" where
  "cancelledOrder booking =
     (let remaining = filter (\<lambda>s. bs_status s = CONFIRMED) (b_seats booking);
          released = cancelled_seats booking;
          order = set_field ''status'' (JStr (if b_status booking = CANCELLED then ''CANCELLED'' else ''ACTIVE''))
                    (b_order booking);
          seatTags = (if remaining \<noteq> [] then [seatsTag (map bs_seatId remaining)] else [])
                     @ (if released \<noteq> [] then [cancelledSeatsTag (map bs_seatId released)] else [])
      in andThen (array_field order ''tags'') (\<lambda>tags.
         andThen (array_field order ''fulfillments'') (\<lambda>fulfillments.
         andThen (traverse (\<lambda>f. andThen (array_field f ''tags'') (\<lambda>ts.
                    Inr (set_field ''tags'' (JArr (concat (map (remaining_manifest remaining) ts))) f))) fulfillments)
           (\<lambda>rewritten.
         Inr (set_field ''fulfillments'' (JArr rewritten)
               (set_field ''tags'' (JArr (place_seat_tags seatTags False tags)) order))))))"

subsection \<open>status and cancel\<close>

definition status_refund :: "BookingRecord \<Rightarrow> failure + (string \<times> json) list" where
  "status_refund booking =
     (case b_refundPaise booking of
        None \<Rightarrow> Inr []
      | Some _ \<Rightarrow> andThen (storedRefund booking) (\<lambda>r. Inr [(''refund'', r)]))"

definition status :: "OrderEnv \<Rightarrow> int \<Rightarrow> ReservedContext \<Rightarrow> string option \<Rightarrow> string option \<Rightarrow> json act" where
  "status env nowMs context orderId refId =
     act_bind (act_lift (assertBppAddress env context)) (\<lambda>_.
     act_bind (act_lift (required (nonempty (case orderId of None \<Rightarrow> refId | Some i \<Rightarrow> Some i))
                           (Refusal BOOKING_NOT_FOUND []))) (\<lambda>reference.
     act_bind (findBookingOrRefuse env context reference) (\<lambda>_.
     act_bind (sweepManifests_act env nowMs) (\<lambda>_.
     act_bind (findBookingOrRefuse env context reference) (\<lambda>fresh.
     act_bind (act_lift (status_refund fresh)) (\<lambda>refund.
     act_lift (Inr (JObj ((''order'', b_order fresh) # refund)))))))))"

definition refundable :: "BookingSeatRecord \<Rightarrow> RefundableSeat" where
  "refundable s = \<lparr>rs_seatId = bs_seatId s, rs_basePaise = bs_basePaise s,
     rs_reservationFeePaise = bs_reservationFeePaise s, rs_tollPaise = bs_tollPaise s\<rparr>"

definition QUOTE_TTL_MS :: int where
  "QUOTE_TTL_MS = 2 * 60 * 1000"

definition refund_quote :: "string \<Rightarrow> BookingRecord \<Rightarrow> string list \<Rightarrow> RefundComputation \<Rightarrow> int \<Rightarrow> RefundQuoteRecord" where
  "refund_quote quoteId booking seatIds refund nowMs =
     \<lparr>rq_id = quoteId, rq_bookingId = b_id booking, rq_seatIds = seatIds,
      rq_slabCode = slab_code_wire (slab_code (rc_slab refund)),
      rq_slabPercent = slab_deductionPercent (rc_slab refund), rq_refundPaise = rc_refundPaise refund,
      rq_quotedAt = nowMs, rq_expiresAt = nowMs + QUOTE_TTL_MS\<rparr>"

text \<open>\<open>newRefundQuoteId\<close> and \<open>saveRefundQuote\<close> in one transaction.\<close>

definition quote_act :: "string \<Rightarrow> BookingRecord \<Rightarrow> string list \<Rightarrow> RefundComputation \<Rightarrow> int \<Rightarrow> RefundQuoteRecord act" where
  "quote_act drawn booking seatIds refund nowMs =
     act_store (withTransaction (\<lambda>db.
       andThen (newRefundQuoteId drawn) (\<lambda>quoteId.
         saveRefundQuote (refund_quote quoteId booking seatIds refund nowMs) db)))"

definition slab_tag_of :: "RefundQuoteRecord \<Rightarrow> json" where
  "slab_tag_of q = refundSlabTag (rq_slabCode q) (rq_slabPercent q) (rq_id q) (rq_expiresAt q)"

definition cancel_message :: "json \<Rightarrow> json \<Rightarrow> json list option \<Rightarrow> json" where
  "cancel_message order refund tags =
     JObj ([(''order'', order), (''refund'', refund)] @ opt_field ''tags'' (map_option JArr tags))"

definition stored_answer :: "BookingRecord \<Rightarrow> json act" where
  "stored_answer booking =
     act_bind (act_lift (storedRefund booking)) (\<lambda>r.
     act_lift (Inr (cancel_message (b_order booking) r None)))"

definition softCancel :: "int \<Rightarrow> string \<Rightarrow> BookingRecord \<Rightarrow> BookingSeatRecord list \<Rightarrow> json act" where
  "softCancel nowMs drawn booking seats =
     (let live = filter (\<lambda>s. bs_status s = CONFIRMED) seats in
      if live = [] then stored_answer booking
      else
        let refund = computeRefund (map refundable live) (b_departureAt booking) nowMs in
        act_bind (quote_act drawn booking (sort (map bs_seatId live)) refund nowMs) (\<lambda>quote.
        act_bind (act_lift (refundPayload refund)) (\<lambda>payload.
        act_lift (Inr (cancel_message (b_order booking) payload (Some [slab_tag_of quote]))))))"

definition quote_fits :: "BookingRecord \<Rightarrow> string list \<Rightarrow> RefundQuoteRecord \<Rightarrow> bool" where
  "quote_fits booking wanted quote \<longleftrightarrow>
     rq_bookingId quote = b_id booking \<and> join_comma (rq_seatIds quote) = join_comma wanted"

definition slab_moved :: "json \<Rightarrow> RefundQuoteRecord \<Rightarrow> failure" where
  "slab_moved payload replacement =
     Refusal REFUND_SLAB_MOVED [(''refund'', payload), (''tags'', JArr [slab_tag_of replacement])]"

definition commit_cancel :: "int \<Rightarrow> BookingRecord \<Rightarrow> string list \<Rightarrow> RefundComputation \<Rightarrow> RefundQuoteRecord \<Rightarrow> json act" where
  "commit_cancel nowMs booking wanted refund quote =
     act_bind (act_store (applyCancellation
        \<lparr>xp_bookingId = b_id booking, xp_seatIds = wanted,
         xp_slabCode = slab_code_wire (slab_code (rc_slab refund)),
         xp_refundBySeat = rc_perSeatPaise refund, xp_nowMs = nowMs\<rparr>)) (\<lambda>updated.
     act_bind (act_lift (cancelledOrder updated)) (\<lambda>rewritten.
     act_bind (act_store (withTransaction (\<lambda>db. Inr (updateStoredOrder (b_id updated) rewritten db, ())))) (\<lambda>_.
     act_bind (startManifestPush (b_serviceId booking) (b_travelDate booking)) (\<lambda>_.
     act_bind (act_lift (refundPayload refund)) (\<lambda>payload.
     act_lift (Inr (cancel_message rewritten payload
       (Some [refundSlabTag (slab_code_wire (slab_code (rc_slab refund)))
                (slab_deductionPercent (rc_slab refund)) (rq_id quote) (rq_expiresAt quote)]))))))))"

definition confirmCancel ::
    "int \<Rightarrow> string \<Rightarrow> BookingRecord \<Rightarrow> BookingSeatRecord list \<Rightarrow> json list option \<Rightarrow> json act" where
  "confirmCancel nowMs drawn booking seats tags =
     (let live = filter (\<lambda>s. bs_status s = CONFIRMED) seats;
          wanted = sort (map bs_seatId live);
          quoteId = nonempty (tagValue tags ''REFUND_SLAB'' ''REFUND_QUOTE_ID'')
      in if live = [] then stored_answer booking
         else
           act_bind (act_read (\<lambda>db. Option.bind quoteId (\<lambda>q. findRefundQuote q db))) (\<lambda>found.
           act_bind (act_lift (required found (Refusal REFUND_QUOTE_EXPIRED []))) (\<lambda>quote.
           act_bind (act_lift (ensure (quote_fits booking wanted quote) (Refusal REFUND_QUOTE_EXPIRED []))) (\<lambda>_.
           act_bind (act_lift (ensure (nowMs < rq_expiresAt quote) (Refusal REFUND_QUOTE_EXPIRED []))) (\<lambda>_.
           let refund = computeRefund (map refundable live) (b_departureAt booking) nowMs in
           if slab_code_wire (slab_code (rc_slab refund)) \<noteq> rq_slabCode quote then
             act_bind (quote_act drawn booking wanted refund nowMs) (\<lambda>replacement.
             act_bind (act_lift (refundPayload refund)) (\<lambda>payload.
             act_lift (Inl (slab_moved payload replacement))))
           else commit_cancel nowMs booking wanted refund quote)))))"

definition cancel ::
    "OrderEnv \<Rightarrow> int \<Rightarrow> string \<Rightarrow> ReservedContext \<Rightarrow> string \<Rightarrow> string \<Rightarrow> json list option \<Rightarrow> json act" where
  "cancel env nowMs drawn context orderId code tags =
     act_bind (act_lift (assertBppAddress env context)) (\<lambda>_.
     act_bind (findBookingOrRefuse env context orderId) (\<lambda>booking.
     let named = seatIdsFrom tags;
         targetSeats = (if named \<noteq> [] then filter (\<lambda>s. bs_seatId s \<in> set named) (b_seats booking)
                        else filter (\<lambda>s. bs_status s = CONFIRMED) (b_seats booking))
     in act_bind (act_lift (ensure (set named \<subseteq> bs_seatId ` set (b_seats booking))
                    (Refusal CANCEL_SEAT_NOT_ON_BOOKING []))) (\<lambda>_.
        if code = ''SOFT_CANCEL'' then softCancel nowMs drawn booking targetSeats
        else confirmCancel nowMs drawn booking targetSeats tags)))"

subsection \<open>The push to the fleet simulator\<close>

record ManifestSeatCounts =
  sc_total :: nat
  sc_booked :: nat
  sc_held :: nat
  sc_simulated :: nat

definition manifestSeatCounts ::
    "OrderEnv \<Rightarrow> ReservedService \<Rightarrow> SeatMap \<Rightarrow> string \<Rightarrow> LiveSeatClaim list \<Rightarrow> failure + ManifestSeatCounts" where
  "manifestSeatCounts env service seatMap travelDate claims =
     andThen (soldSeatIds (env_localeCompare env) service seatMap travelDate
                (rt_occupancySeed (env_reservation env))) (\<lambda>sold.
     Inr \<lparr>sc_total = length (map_seats seatMap),
          sc_booked = length (filter (\<lambda>c. claim_state c = BOOKED) claims),
          sc_held = length (filter (\<lambda>c. claim_state c = HELD) claims),
          sc_simulated = length (dedup sold)\<rparr>)"

datatype FleetPush =
    NoPush
  | FleetClear string string
  | FleetPublish string string int ManifestSeatCounts
  | PushFailed string string

definition publishManifestFor :: "OrderEnv \<Rightarrow> int \<Rightarrow> Database \<Rightarrow> string \<times> string \<Rightarrow> FleetPush" where
  "publishManifestFor env asOf db departure =
     (case departure of (serviceId, travelDate) \<Rightarrow>
        (case src_service (env_source env) serviceId of
           None \<Rightarrow> NoPush
         | Some service \<Rightarrow>
             (case andThen (seatMapFor env service) (\<lambda>seatMap.
                     let claims = liveClaims serviceId travelDate db in
                     if claims = [] then Inr (FleetClear serviceId travelDate)
                     else andThen (manifestSeatCounts env service seatMap travelDate claims) (\<lambda>seats.
                            Inr (FleetPublish serviceId travelDate asOf seats))) of
                Inl _ \<Rightarrow> PushFailed serviceId travelDate
              | Inr push \<Rightarrow> push)))"

end
