(* ===== verification/Order_Safety.thy ===== *)
theory Order_Safety
  imports Reserved_Order Store_Properties
begin

text \<open>
  Reasoning about the actions of the order flow. An action is a chain of reads, checks and store
  writes; a relation between the tables before and after that every write respects is respected by
  the action, however it ends. The locales state this once, per kind of action, and are interpreted
  with the steps of the store and with the record of what was sold.
\<close>

subsection \<open>Running an action\<close>

lemma act_bind_Inr [result_simps]:
  "act_bind m f s = (Inr y, s') \<longleftrightarrow> (\<exists>x s1. m s = (Inr x, s1) \<and> f x s1 = (Inr y, s'))"
  by (auto simp: act_bind_def split: prod.splits sum.splits)

lemma act_bind_Inl [result_simps]:
  "act_bind m f s = (Inl e, s') \<longleftrightarrow> m s = (Inl e, s') \<or> (\<exists>x s1. m s = (Inr x, s1) \<and> f x s1 = (Inl e, s'))"
  by (auto simp: act_bind_def split: prod.splits sum.splits)

lemma act_lift_eq [result_simps]:
  "act_lift r s = (q, s') \<longleftrightarrow> r = q \<and> s' = s"
  by (auto simp: act_lift_def)

lemma act_read_eq [result_simps]:
  "act_read f s = (q, s') \<longleftrightarrow> q = Inr (f (os_db s)) \<and> s' = s"
  by (auto simp: act_read_def)

lemma act_store_eq [result_simps]:
  "act_store f s = (q, s') \<longleftrightarrow> snd (f (os_db s)) = q \<and> s' = s\<lparr>os_db := fst (f (os_db s))\<rparr>"
  by (auto simp: act_store_def split: prod.splits)

lemma startManifestPush_eq [result_simps]:
  "startManifestPush sid d s = (q, s') \<longleftrightarrow> q = Inr () \<and> s' = s\<lparr>os_pushes := os_pushes s @ [(sid, d)]\<rparr>"
  by (auto simp: startManifestPush_def)

lemma sweep_act_eq [result_simps]:
  "sweep_act sid d n s = (q, s') \<longleftrightarrow>
     q = Inr (snd (sweepExpiredHolds sid d n (os_db s)))
     \<and> s' = s\<lparr>os_db := fst (sweepExpiredHolds sid d n (os_db s))\<rparr>"
  by (auto simp: sweep_act_def act_store_eq withTransaction_def split: prod.splits)

text \<open>What \<open>init\<close> and \<open>confirm\<close> know once the hold and the manifest have been accepted.\<close>

lemma liveHold_accepted:
  assumes "liveHoldAndManifest env n rv idn input s = (Inr (hold, records), s')"
  shows "s' = s\<lparr>os_db := fst (sweepExpiredHolds (svc_serviceId (rv_service rv)) (rv_travelDate rv) n (os_db s))\<rparr>"
    and "findLatestHold (env_operatorKey env) idn (os_db s') = Some hold"
    and "holdStatus hold n = LIVE" and "hold_serviceId hold = svc_serviceId (rv_service rv)"
    and "hold_travelDate hold = rv_travelDate rv"
    and "mr_seatId ` set records = set (hold_seatIds hold)" and "distinct (map mr_seatId records)"
proof -
  from assms show "s' = s\<lparr>os_db := fst (sweepExpiredHolds (svc_serviceId (rv_service rv)) (rv_travelDate rv) n (os_db s))\<rparr>"
    "findLatestHold (env_operatorKey env) idn (os_db s') = Some hold"
    "holdStatus hold n = LIVE" "hold_serviceId hold = svc_serviceId (rv_service rv)"
    "hold_travelDate hold = rv_travelDate rv" "mr_seatId ` set records = set (hold_seatIds hold)"
    by (auto simp: liveHoldAndManifest_def Let_def result_simps manifest_matches_iff)
  from assms obtain es where "parseManifest es = Inr records"
    by (auto simp: liveHoldAndManifest_def Let_def result_simps)
  then show "distinct (map mr_seatId records)" by (rule parseManifest_wf(2))
qed

lemma accepted_sale_matches:
  assumes "liveHoldAndManifest env n rv idn input s = (Inr (hold, records), s')" "store_inv (os_db s')"
  shows "sale_matches_hold (confirm_params env n rv pair cell idn hold records order) (os_db s')"
proof -
  note a = liveHold_accepted [OF assms(1)]
  note f = findLatestHold_locks [OF assms(2) a(2)]
  have "records \<noteq> []" using f(1,2) a(6) by auto
  moreover have "map sale_seatId (map (record_sale (rv_service rv) cell) records) = map mr_seatId records"
    by (simp add: record_sale_def)
  ultimately show ?thesis
    using a(4-7) f by (simp only: sale_matches_hold_def confirm_params_def Let_def list_all_iff
        ConfirmParams.simps map_is_Nil_conv set_map simp_thms)
qed

subsection \<open>Relations every action respects\<close>

locale act_logic =
  fixes R :: "Database \<Rightarrow> Database \<Rightarrow> bool"
  assumes R_refl: "R a a"
    and R_trans: "R a b \<Longrightarrow> R b c \<Longrightarrow> R a c"
begin

definition safe :: "'a act \<Rightarrow> OrderState \<Rightarrow> bool" where
  "safe m s \<longleftrightarrow> R (os_db s) (os_db (snd (m s)))"

lemma safe_bind:
  assumes "safe m s" "\<And>x s'. m s = (Inr x, s') \<Longrightarrow> safe (f x) s'"
  shows "safe (act_bind m f) s"
  using assms R_trans unfolding safe_def act_bind_def by (fastforce split: prod.splits sum.splits)

lemma safe_lift: "safe (act_lift r) s"
  by (simp add: safe_def act_lift_def R_refl)

lemma safe_read: "safe (act_read f) s"
  by (simp add: safe_def act_read_def R_refl)

lemma safe_store: "R (os_db s) (fst (f (os_db s))) \<Longrightarrow> safe (act_store f) s"
  by (simp add: safe_def act_store_def case_prod_beta)

lemma safe_push: "safe (startManifestPush sid d) s"
  by (simp add: safe_def startManifestPush_def R_refl)

lemma safe_if: "(b \<Longrightarrow> safe m s) \<Longrightarrow> (\<not> b \<Longrightarrow> safe k s) \<Longrightarrow> safe (if b then m else k) s"
  by simp

lemma safe_pair: "(\<And>a b. p = (a, b) \<Longrightarrow> safe (f a b) s) \<Longrightarrow> safe (case p of (a, b) \<Rightarrow> f a b) s"
  by (cases p) simp

lemma safe_option:
  "(\<And>x. v = Some x \<Longrightarrow> safe (f x) s) \<Longrightarrow> safe m s \<Longrightarrow> safe (case v of None \<Rightarrow> m | Some x \<Rightarrow> f x) s"
  by (cases v) simp_all

lemmas safe_rules = safe_bind safe_lift safe_read safe_push safe_if safe_pair safe_option

end

text \<open>Actions that sweep: \<open>search\<close>, \<open>init\<close> and \<open>status\<close>.\<close>

locale sweeping = act_logic R for R :: "Database \<Rightarrow> Database \<Rightarrow> bool" +
  assumes R_sweep: "R db (fst (sweepExpiredHoldsForServices sids d n db))"
    and R_clear: "R db (clear_manifests (stale_bookings cutoff db) db)"
begin

lemma safe_sweep: "safe (sweep_act sid d n) s"
  unfolding sweep_act_def
  by (rule safe_store) (use R_sweep [of _ "[sid]"] in \<open>simp add: withTransaction_def sweep_all case_prod_beta\<close>)

lemma safe_sweep_services:
  "safe (act_store (withTransaction (\<lambda>db. Inr (sweepExpiredHoldsForServices sids d n db)))) s"
  by (rule safe_store) (use R_sweep in \<open>simp add: withTransaction_def case_prod_beta\<close>)

lemma safe_sweepManifests: "safe (sweepManifests_act env n) s"
  using R_refl R_clear by (simp add: safe_def sweepManifests_act_def sweepManifests_def Let_def)

lemmas sweeping_rules = safe_rules safe_sweep safe_sweep_services safe_sweepManifests

lemma safe_snapshot: "safe (snapshot env n svc sm d v) s"
  unfolding snapshot_def by (intro sweeping_rules)

lemma safe_liveHold: "safe (liveHoldAndManifest env n rv idn input) s"
  unfolding liveHoldAndManifest_def Let_def by (intro sweeping_rules)

lemma safe_buildOrder: "safe (buildOrder env n bi) s"
  unfolding buildOrder_def Let_def by (intro sweeping_rules safe_snapshot)

lemma safe_search: "safe (search env n q) s"
  unfolding search_def Let_def by (intro sweeping_rules)

lemma safe_init: "safe (init env n ctx input) s"
  unfolding init_def Let_def by (intro sweeping_rules safe_liveHold safe_buildOrder)

lemma safe_find: "safe (findBookingOrRefuse env ctx r) s"
  unfolding findBookingOrRefuse_def by (intro sweeping_rules)

lemma safe_status: "safe (status env n ctx i r) s"
  unfolding status_def by (intro sweeping_rules safe_find)

end

text \<open>\<open>select\<close> also takes holds.\<close>

locale holding = sweeping R for R :: "Database \<Rightarrow> Database \<Rightarrow> bool" +
  assumes R_acquire: "R db (fst (acquireHold drawn p db))"
begin

lemma safe_select_hold: "safe (select_hold env n drawn rv idn ids) s"
proof -
  have "safe (\<lambda>s. case act_store (acquireHold drawn p) s of
          (Inl (Refusal SEAT_UNAVAILABLE attachment), s') \<Rightarrow>
            act_bind (snapshot env n svc sm d v) (\<lambda>after. act_lift (Inl (g attachment after))) s'
        | r \<Rightarrow> r) s" (is "safe ?m s") for p svc sm d v g s
  proof -
    obtain r s1 where r: "act_store (acquireHold drawn p) s = (r, s1)" by fastforce
    then have one: "R (os_db s) (os_db s1)"
      using R_acquire by (auto simp: act_store_def case_prod_beta)
    have two: "R (os_db s1) (os_db (snd (act_bind (snapshot env n svc sm d v) (\<lambda>x. act_lift (k x)) s1)))" for k :: "Snapshot \<Rightarrow> failure + HoldRecord"
      using safe_bind [OF safe_snapshot safe_lift] by (simp add: safe_def)
    show ?thesis
      using one R_trans [OF one two] unfolding safe_def r
      by (simp split: sum.split failure.split ReservedErrorCode.split)
  qed
  then show ?thesis unfolding select_hold_def Let_def by (intro sweeping_rules safe_snapshot)
qed

lemma safe_select: "safe (select env n drawn ctx input) s"
  unfolding select_def Let_def by (intro sweeping_rules safe_select_hold safe_buildOrder)

end

text \<open>
  \<open>confirm\<close> and \<open>cancel\<close> commit. The sale is only known to match its hold where the tables are sound,
  and what is known of the hold has to survive the sweeps between the read and the commit.
\<close>

locale committing = holding R for R :: "Database \<Rightarrow> Database \<Rightarrow> bool" +
  assumes R_unsound: "\<not> store_inv a \<Longrightarrow> R a b"
    and R_sound: "R a b \<Longrightarrow> store_inv a \<Longrightarrow> store_inv b \<and> locks_grow a b"
    and R_confirm: "sale_matches_hold q db \<Longrightarrow> R db (fst (confirmBooking drawn q db))"
    and R_quote: "R db (fst (withTransaction (saveRefundQuote quote) db))"
    and R_cancel: "R db (fst (applyCancellation x db))"
    and R_order: "R db (updateStoredOrder i order db)"
begin

lemma safe_quote: "safe (quote_act drawn booking ids refund n) s"
proof (cases "newRefundQuoteId drawn")
  case (Inl e)
  then show ?thesis unfolding quote_act_def
    by (intro safe_store) (simp add: withTransaction_def R_refl)
next
  case (Inr i)
  then show ?thesis unfolding quote_act_def by (intro safe_store) (simp add: R_quote)
qed

lemma safe_commit_cancel: "safe (commit_cancel n booking wanted refund quote) s"
  unfolding commit_cancel_def
  by (intro safe_rules safe_store) (use R_cancel R_order in \<open>simp_all add: withTransaction_def\<close>)

lemma safe_cancel: "safe (cancel env n drawn ctx i code tags) s"
  unfolding cancel_def softCancel_def confirmCancel_def stored_answer_def Let_def
  by (intro safe_rules safe_find safe_quote safe_commit_cancel)

lemma safe_confirmNew: "safe (confirmNew env n drawn input idn) s"
proof (cases "store_inv (os_db s)")
  case False
  then show ?thesis by (simp add: safe_def R_unsound)
next
  case sound: True
  show ?thesis unfolding confirmNew_def
  proof (intro safe_rules safe_liveHold safe_snapshot safe_store)
    fix rv s0 p s1 hold records pair s2 cell s3 snap s4
    assume 0: "act_lift (resolveSelection env n input) s = (Inr rv, s0)"
      and 1: "liveHoldAndManifest env n rv idn input s0 = (Inr p, s1)" "p = (hold, records)"
      and 2: "act_lift (boardingPairFromStops (rv_service rv) (input_stops input)) s1 = (Inr pair, s2)"
      and 3: "act_lift (fareCell (rv_fareTable rv) pair (svc_serviceClass (rv_service rv))) s2 = (Inr cell, s3)"
      and 4: "snapshot env n (rv_service rv) (rv_seatMap rv) (rv_travelDate rv) (Some idn) s3 = (Inr snap, s4)"
    have e: "s0 = s" "s2 = s1" "s3 = s1" using 0 2 3 by (simp_all add: act_lift_eq)
    have s1: "store_inv (os_db s1)"
      using safe_liveHold [of env n rv idn input s0] 1 sound R_sound unfolding e safe_def by fastforce
    have grow: "locks_grow (os_db s1) (os_db s4)"
      using safe_snapshot [of env n "rv_service rv" "rv_seatMap rv" "rv_travelDate rv" "Some idn" s3] 4 s1 R_sound
      unfolding e safe_def by fastforce
    have "liveHoldAndManifest env n rv idn input s0 = (Inr (hold, records), s1)" using 1 by simp
    from sale_match_stable [OF accepted_sale_matches [OF this s1] grow]
    show "R (os_db s4) (fst (confirmBooking drawn (confirm_params env n rv pair cell idn hold records
             (confirm_order env n rv pair cell idn input records snap)) (os_db s4)))"
      by (rule R_confirm)
  qed
qed

lemma safe_confirm: "safe (confirm env n drawn ctx input) s"
  unfolding confirm_def Let_def by (intro safe_rules safe_confirmNew)

end

subsection \<open>The store under the order flow\<close>

definition sound_run :: "Database \<Rightarrow> Database \<Rightarrow> bool" where
  "sound_run a b \<longleftrightarrow> (store_inv a \<longrightarrow> store_step\<^sup>*\<^sup>* a b)"

lemma sound_run_step: "store_step a b \<Longrightarrow> sound_run a b"
  by (simp add: sound_run_def r_into_rtranclp)

interpretation flow: committing sound_run
proof unfold_locales
  show "sound_run a a" for a by (simp add: sound_run_def)
  show "sound_run a c" if "sound_run a b" "sound_run b c" for a b c
    using that store.inv_steps unfolding sound_run_def by (meson rtranclp_trans)
  show "sound_run db (fst (sweepExpiredHoldsForServices sids d n db))" for db sids d n
    by (rule sound_run_step [OF step_sweep_services])
  show "sound_run db (clear_manifests (stale_bookings cutoff db) db)" for db cutoff
    by (rule sound_run_step [OF step_clear])
  show "sound_run db (fst (acquireHold drawn p db))" for db drawn p
    by (rule sound_run_step [OF step_acquire])
  show "sound_run a b" if "\<not> store_inv a" for a b using that by (simp add: sound_run_def)
  show "store_inv b \<and> locks_grow a b" if "sound_run a b" "store_inv a" for a b
    using that store.inv_steps store.le_steps by (auto simp: sound_run_def)
  show "sound_run db (fst (confirmBooking drawn q db))" if "sale_matches_hold q db" for q db drawn
    by (rule sound_run_step [OF step_confirm [OF that]])
  show "sound_run db (fst (withTransaction (saveRefundQuote quote) db))" for db quote
    by (rule sound_run_step [OF step_quote])
  show "sound_run db (fst (applyCancellation x db))" for db x
    by (rule sound_run_step [OF step_cancel])
  show "sound_run db (updateStoredOrder i order db)" for db i order
    by (rule sound_run_step [OF step_order])
qed

text \<open>Where an action starts from tables the store can reach, it ends in such tables.\<close>

lemma flow_reachable:
  assumes "flow.safe m s" "store_reachable (os_db s)"
  shows "store_reachable (os_db (snd (m s)))"
  using assms store_reachable_inv [OF assms(2)] unfolding flow.safe_def sound_run_def store_reachable_def
  by (meson rtranclp_trans)

text \<open>
  What was sold: the bookings and their seats without the stored order and the passengers, which the
  retention sweep may drop.
\<close>

definition sale_record :: "Database \<Rightarrow> BookingRow list \<times> SeatRow list" where
  "sale_record db =
     (map (\<lambda>b. b\<lparr>bk_order_json := JNull\<rparr>) (db_bookings db),
      map (\<lambda>s. s\<lparr>sr_name := None, sr_age := None, sr_gender := None\<rparr>) (db_booking_seats db))"

lemma sale_record_clear: "sale_record (clear_manifests stale db) = sale_record db"
proof -
  have "sale_record (clear_manifest b db) = sale_record db" for b db
    by (simp add: sale_record_def clear_manifest_def updateStoredOrder_def update_where_def)
  then show ?thesis
    unfolding clear_manifests_def by (induction stale arbitrary: db) auto
qed

interpretation sales: holding "\<lambda>a b. sale_record b = sale_record a"
proof unfold_locales
  show "sale_record (fst (sweepExpiredHoldsForServices sids d n db)) = sale_record db" for db sids d n
    by (simp add: sweep_db sale_record_def)
  show "sale_record (fst (acquireHold drawn p db)) = sale_record db" for db drawn p
  proof -
    have same: "sale_record (db\<lparr>db_seat_locks := ls\<rparr>) = sale_record db" for db ls by (simp add: sale_record_def)
    consider "fst (acquireHold drawn p db) = db" | h where "acquire_tx drawn p db = Inr (fst (acquireHold drawn p db), h)"
      using acquireHold_db by blast
    then show ?thesis
    proof cases
      case 2
      then show ?thesis
        by (cases rule: acquire_tx_cases)
          (auto simp: sweep_all sweep_db release_hold_def insert_locks_def same split: if_splits dest!: sym [of _ "fst _"])
    qed simp
  qed
qed (simp_all add: sale_record_clear)

end
