(* ===== verification/Order_Run.thy ===== *)
theory Order_Run
  imports Order_Safety
begin

text \<open>
  One concrete coach and one rider, to run the order flow on: a service with two seats whose coach
  the simulation leaves empty, a rider who holds both, confirms and cancels. The properties of the
  order flow are instantiated on it.
\<close>

subsection \<open>The coach\<close>

definition coach_point :: "string \<Rightarrow> BoardingPoint" where
  "coach_point i = \<lparr>bp_boardingPointId = i, bp_name = i, bp_nameLocal = None, bp_townCode = ''BLR'', bp_gps = None,
     bp_reportingOffsetMinutes = 0, bp_stopCode = None\<rparr>"

definition coach_service :: ReservedService where
  "coach_service = sample_service\<lparr>svc_serviceClass := ''ASHWAMEDHA'', svc_boardingPoints := [coach_point ''B1''],
     svc_droppingPoints := [coach_point ''B2''], svc_popularity := 0\<rparr>"

definition coach_fares :: FareTable where
  "coach_fares = \<lparr>table_fareTableId = ''T'', table_fares = [\<lparr>cell_fromBoardingPointId = ''B1'', cell_toBoardingPointId = ''B2'',
     cell_serviceClass = ''ASHWAMEDHA'', cell_farePaise = 10000, cell_sourcing = ''V''\<rparr>]\<rparr>"

definition coach_source :: ReservedServiceSource where
  "coach_source = \<lparr>src_operator = \<lparr>op_id = ''OP'', op_name = ''Operator'', op_serviceWindow = (''a'', ''b'')\<rparr>,
     src_services = (\<lambda>q. [coach_service]), src_service = (\<lambda>i. if i = ''S1'' then Some coach_service else None),
     src_seatMap = (\<lambda>i. if i = ''M'' then Some sample_map else None),
     src_fareTable = (\<lambda>i. if i = ''T'' then Some coach_fares else None)\<rparr>"

definition coach_env :: OrderEnv where
  "coach_env = \<lparr>env_operatorKey = ''ksrtc'', env_source = coach_source, env_subscriberId = ''bpp'', env_subscriberUri = ''bppuri'',
     env_publicBaseUrl = ''url'', env_reservation = \<lparr>rt_closeMinutes = 30, rt_horizonDays = 30000, rt_occupancySeed = 7,
       rt_holdTtlSeconds = 60, rt_manifestRetentionDays = 30\<rparr>, env_localeCompare = code_unit_compare\<rparr>"

text \<open>The simulation rounds eight per cent of two seats to none.\<close>

lemma coach_unsold:
  "seededOccupancy code_unit_compare coach_service sample_map ''2026-09-10'' 7 = Inr Map.empty"
proof -
  have "case fillFraction 0 ''ASHWAMEDHA'' ''2026-09-10'' of
      Inr (Some f) \<Rightarrow> 0 \<le> f \<and> sold_count f sample_map = 0 | _ \<Rightarrow> False" by code_simp
  then obtain f where f: "fillFraction 0 ''ASHWAMEDHA'' ''2026-09-10'' = Inr (Some f)" "0 \<le> f" "sold_count f sample_map = 0"
    by (auto split: sum.splits option.splits)
  have "length (selectSoldSeats code_unit_compare sample_map (Some f) ''S1'' ''2026-09-10'' 7) = 0"
    using selectSoldSeats_facts(1) [OF f(2)] f(3) by simp
  then show ?thesis
    using f(1) by (simp add: seededOccupancy_def soldSeatIds_def coach_service_def sample_service_def)
qed

definition coach_snapshot :: "LiveSeatClaim list \<Rightarrow> ReservedIdentity option \<Rightarrow> Snapshot" where
  "coach_snapshot claims viewer =
     (let nb = \<lparr>nb_map = sample_map, nb_seededSold = Map.empty, nb_claims = claims, nb_viewer = viewer\<rparr> in
      \<lparr>sn_seeded = Map.empty, sn_claims = claims, sn_states = seatStates nb, sn_availableCount = availableSeatCount nb\<rparr>)"

lemma coach_snapshotFromClaims:
  "snapshotFromClaims coach_env coach_service sample_map ''2026-09-10'' claims viewer = Inr (coach_snapshot claims viewer)"
  using coach_unsold by (simp add: snapshotFromClaims_def coach_env_def coach_snapshot_def Let_def)

subsection \<open>The rider\<close>

definition rider_context :: ReservedContext where
  "rider_context = \<lparr>ctx_transaction_id = ''t1'', ctx_bap_id = ''bap'', ctx_bap_uri = ''uri'', ctx_bpp_id = Some ''bpp'',
     ctx_bpp_uri = Some ''bppuri''\<rparr>"

definition rider_passenger :: "string \<Rightarrow> json list" where
  "rider_passenger seat = [entry ''SEAT_ID'' seat, entry ''NAME'' ''A'', entry ''AGE'' ''30'', entry ''GENDER'' ''female'']"

definition rider_input :: OrderInput where
  "rider_input = \<lparr>oi_items = Some [(''RSV-S1-2026-09-10-ASHWAMEDHA'', Some 2)], oi_providerId = Some ''OP'', oi_stops = None,
     oi_billing = None, oi_payments = Some [JObj [(''status'', JStr ''PAID'')]],
     oi_tags = Some [seatsTag [''1'', ''2''],
       tag ''MANIFEST'' False (rider_passenger ''1'' @ rider_passenger ''2'')]\<rparr>"

definition rider_state :: OrderState where
  "rider_state = \<lparr>os_db = held_db, os_lastSweep = None, os_pushes = []\<rparr>"

definition rider_resolved :: Resolved where
  "rider_resolved = \<lparr>rv_service = coach_service, rv_seatMap = sample_map, rv_fareTable = coach_fares,
     rv_travelDate = ''2026-09-10'', rv_departureAt = 1788982200000\<rparr>"

definition rider_hold :: HoldRecord where
  "rider_hold = \<lparr>hold_holdId = ''HLD-KSRTC-AB1'', hold_operator = ''ksrtc'', hold_identity = run_identity, hold_serviceId = ''S1'',
     hold_travelDate = ''2026-09-10'', hold_seatIds = [''1'', ''2''], hold_state = HELD, hold_expiresAt = 61000,
     hold_createdAt = 1000\<rparr>"

definition rider_records :: "ManifestRecord list" where
  "rider_records = map (\<lambda>i. \<lparr>mr_seatId = i, mr_name = ''A'', mr_age = Some 30, mr_gender = Some Female\<rparr>) [''1'', ''2'']"

definition rider_entries :: "TagEntry list" where
  "rider_entries = (case manifestTag (oi_tags rider_input) of None \<Rightarrow> [] | Some es \<Rightarrow> es)"

definition rider_pair :: BoardingPair where
  "rider_pair = \<lparr>pair_from = ''B1'', pair_to = ''B2''\<rparr>"

definition rider_claims :: "LiveSeatClaim list" where
  "rider_claims = liveClaims ''S1'' ''2026-09-10'' held_db"

definition rider_params :: ConfirmParams where
  "rider_params = confirm_params coach_env 2000 rider_resolved rider_pair (hd (table_fares coach_fares)) run_identity rider_hold
     rider_records (confirm_order coach_env 2000 rider_resolved rider_pair (hd (table_fares coach_fares)) run_identity rider_input
       rider_records (coach_snapshot rider_claims (Some run_identity)))"

lemma rider_identity: "identity rider_context = run_identity"
  by (simp add: identity_def rider_context_def run_identity_def)

lemma rider_checks:
  "assertBppAddress coach_env rider_context = Inr ()"
  "assertPaymentStatus (oi_payments rider_input) ''PAID'' = Inr ()"
  "resolveSelection coach_env 2000 rider_input = Inr rider_resolved"
  "sweepExpiredHolds ''S1'' ''2026-09-10'' 2000 held_db = (held_db, 0)"
  "findLatestHold ''ksrtc'' run_identity held_db = Some rider_hold"
  "holdStatus rider_hold 2000 = LIVE"
  "boardingPairFromStops coach_service (input_stops rider_input) = Inr rider_pair"
  "fareCell coach_fares rider_pair (svc_serviceClass coach_service) = Inr (hd (table_fares coach_fares))"
  by code_simp+

lemma rider_manifest:
  "manifestTag (oi_tags rider_input) = Some rider_entries"
  "parseManifest rider_entries = Inr rider_records"
  "assertManifestMatchesHold rider_records (hold_seatIds rider_hold) = Inr ()"
  by code_simp+

lemma rider_gender:
  "assertGenderLocks \<lparr>nb_map = sample_map, nb_seededSold = Map.empty, nb_claims = rider_claims, nb_viewer = Some run_identity\<rparr>
     (map (\<lambda>r. \<lparr>as_seatId = mr_seatId r, as_gender = mr_gender r\<rparr>) rider_records) = Inr ()"
  by code_simp

lemmas rider_fields = rider_resolved_def [THEN arg_cong [where f = rv_service], simplified]
  rider_resolved_def [THEN arg_cong [where f = rv_seatMap], simplified]
  rider_resolved_def [THEN arg_cong [where f = rv_fareTable], simplified]
  rider_resolved_def [THEN arg_cong [where f = rv_travelDate], simplified]

lemma coach_fields: "svc_serviceId coach_service = ''S1''" "env_operatorKey coach_env = ''ksrtc''"
  "hold_serviceId rider_hold = ''S1''" "hold_travelDate rider_hold = ''2026-09-10''" "os_db rider_state = held_db"
  by (simp_all add: coach_service_def sample_service_def coach_env_def rider_hold_def rider_state_def)

lemma rider_sweep: "sweep_act ''S1'' ''2026-09-10'' 2000 rider_state = (Inr 0, rider_state)"
  by (simp add: sweep_act_eq rider_checks(4) rider_state_def)

lemma rider_live:
  "liveHoldAndManifest coach_env 2000 rider_resolved run_identity rider_input rider_state
     = (Inr (rider_hold, rider_records), rider_state)"
  using rider_gender
  by (simp add: liveHoldAndManifest_def act_bind_def act_lift_def act_read_def Let_def rider_fields coach_fields rider_sweep
      rider_checks rider_manifest coach_snapshotFromClaims flip: rider_claims_def) (simp add: coach_snapshot_def Let_def act_lift_def)

lemma rider_snapshot:
  "snapshot coach_env 2000 coach_service sample_map ''2026-09-10'' (Some run_identity) rider_state
     = (Inr (coach_snapshot rider_claims (Some run_identity)), rider_state)"
  by (simp add: snapshot_def act_bind_def act_lift_def act_read_def coach_fields rider_sweep coach_snapshotFromClaims
      rider_claims_def)

text \<open>An order for the two seats renders, whatever tags and ids it carries.\<close>

lemma coach_renders:
  assumes "bi_resolved bi = rider_resolved" "bi_pair bi = rider_pair" "bi_farePaise bi = 10000" "bi_fareSourcing bi = ''V''"
    "bi_seatCount bi = 2" "bi_concessionClaim bi = None"
  shows "\<exists>order. render_order coach_env bi snap = Inr order"
proof -
  have "case midnightMilliseconds ''2026-09-10'' of Inl _ \<Rightarrow> False | Inr _ \<Rightarrow> True" by code_simp
  then obtain m where m: "midnightMilliseconds ''2026-09-10'' = Inr m" by (auto split: sum.splits)
  have "case paiseToRupees 10000 of Inl _ \<Rightarrow> False | Inr _ \<Rightarrow> True" "case paiseToRupees 20000 of Inl _ \<Rightarrow> False | Inr _ \<Rightarrow> True"
    "case paiseToRupees 1000 of Inl _ \<Rightarrow> False | Inr _ \<Rightarrow> True" "case paiseToRupees 600 of Inl _ \<Rightarrow> False | Inr _ \<Rightarrow> True"
    "case paiseToRupees 21600 of Inl _ \<Rightarrow> False | Inr _ \<Rightarrow> True" by code_simp+
  then obtain p1 p2 p3 p4 p5 where price: "paiseToRupees 10000 = Inr p1" "paiseToRupees 20000 = Inr p2"
    "paiseToRupees 1000 = Inr p3" "paiseToRupees 600 = Inr p4" "paiseToRupees 21600 = Inr p5"
    by (auto split: sum.splits)
  have "case reservedItemId ''S1'' ''2026-09-10'' ''ASHWAMEDHA'' of Inl _ \<Rightarrow> False | Inr _ \<Rightarrow> True" by code_simp
  then obtain item where item: "reservedItemId ''S1'' ''2026-09-10'' ''ASHWAMEDHA'' = Inr item" by (auto split: sum.splits)
  have svc: "svc_serviceId coach_service = ''S1''" "svc_serviceClass coach_service = ''ASHWAMEDHA''"
    "svc_boardingPoints coach_service = [coach_point ''B1'']" "svc_droppingPoints coach_service = [coach_point ''B2'']"
    "svc_reservationFeePaise coach_service = 500" "svc_tollPaise coach_service = 300"
    by (simp_all add: coach_service_def sample_service_def)
  have "\<exists>x. reservedItem \<lparr>it_service = coach_service, it_travelDate = ''2026-09-10'', it_pricePaise = 10000, it_pair = rider_pair,
      it_fareSourcing = ''V'', it_availableCount = k, it_selectedCount = l\<rparr> = Inr x" for k l
    by (simp add: reservedItem_def Let_def svc item price stopInstant_def m)
  then obtain f where f: "reservedItem \<lparr>it_service = coach_service, it_travelDate = ''2026-09-10'', it_pricePaise = 10000, it_pair = rider_pair,
      it_fareSourcing = ''V'', it_availableCount = k, it_selectedCount = l\<rparr> = Inr (f k l)" for k l by metis
  have "\<exists>x. orderFulfillment coach_service ''2026-09-10'' rider_pair ts = Inr x" for ts
    by (simp add: orderFulfillment_def Let_def svc item rider_pair_def coach_point_def order_stop_def stopInstant_def m)
  then obtain g where g: "orderFulfillment coach_service ''2026-09-10'' rider_pair ts = Inr (g ts)" for ts by metis
  have "\<exists>b. quote_breakup bi = Inr (b, 21600)"
    using assms by (simp add: quote_breakup_def quote_amounts_def Let_def rider_fields svc price)
  then show ?thesis using assms by (auto simp: render_order_def Let_def rider_fields price f g)
qed

lemma rider_facts:
  "concessionFromOrderTags (oi_tags rider_input) = None" "length rider_records = 2"
  "cell_farePaise (hd (table_fares coach_fares)) = 10000" "cell_sourcing (hd (table_fares coach_fares)) = ''V''"
  by code_simp+

lemma rider_order: "\<exists>order. cp_order rider_params i r = Inr order"
  unfolding rider_params_def confirm_params_def confirm_order_def Let_def
  using coach_renders by (simp add: rider_facts)

lemma rider_commits:
  "case confirm_tx ''cd2'' rider_params order held_db of Inl _ \<Rightarrow> False | Inr _ \<Rightarrow> True"
proof -
  have "confirm_tx ''cd2'' rider_params order held_db = confirm_tx ''cd2'' (rider_params\<lparr>cp_order := f\<rparr>) order held_db" for f
    by (simp add: confirm_tx_def booking_row_def Let_def cong: if_cong)
  moreover have "case confirm_tx ''cd2'' (rider_params\<lparr>cp_order := (\<lambda>i r. Inr JNull)\<rparr>) order held_db of Inl _ \<Rightarrow> False | Inr _ \<Rightarrow> True"
    by code_simp
  ultimately show ?thesis by metis
qed

lemma rider_confirms:
  "\<exists>msg s. confirm coach_env 2000 ''cd2'' rider_context rider_input rider_state = (Inr msg, s)"
proof -
  obtain order where o: "cp_order rider_params (order_id (cp_operator rider_params) ''cd2'')
      (order_reference (cp_operator rider_params) ''cd2'') = Inr order" using rider_order by blast
  obtain db where "confirm_tx ''cd2'' rider_params order held_db = Inr (db, ())"
    using rider_commits [of order] by (auto split: sum.splits)
  from confirmBooking_committed [OF o this] obtain b where b: "confirmBooking ''cd2'' rider_params held_db = (db, Inr b)"
    by (metis prod.collapse)
  have none: "findBookingByTransaction ''ksrtc'' run_identity held_db = None" by code_simp
  show ?thesis
    using b none
    by (simp add: confirm_def confirmNew_def act_bind_def act_lift_def act_read_def act_store_def startManifestPush_def Let_def
        rider_identity rider_checks rider_live rider_snapshot rider_fields coach_fields rider_params_def)
qed

text \<open>The select before it, on tables nobody has written to.\<close>

lemma rider_select_checks:
  "resolveSelection coach_env 1000 rider_input = Inr rider_resolved"
  "sweepExpiredHolds ''S1'' ''2026-09-10'' 1000 empty_db = (empty_db, 0)"
  "sweepExpiredHolds ''S1'' ''2026-09-10'' 1000 held_db = (held_db, 0)"
  "seatIdsFrom (oi_tags rider_input) = [''1'', ''2'']" "selected_count rider_input = 2"
  "assertSeatsOnMap sample_map [''1'', ''2''] = Inr ()"
  by code_simp+

lemma rider_acquires:
  "acquireHold ''ab1'' \<lparr>hp_operator = ''ksrtc'', hp_identity = run_identity, hp_serviceId = ''S1'', hp_travelDate = ''2026-09-10'',
     hp_seatIds = [''1'', ''2''], hp_nowMs = 1000, hp_ttlSeconds = 60, hp_skipAvailabilityCheckForTest = False\<rparr> empty_db
   = (held_db, Inr rider_hold)"
  by code_simp

lemma rider_selects:
  "\<exists>msg. select coach_env 1000 ''ab1'' rider_context rider_input \<lparr>os_db = empty_db, os_lastSweep = None, os_pushes = []\<rparr>
     = (Inr msg, rider_state)"
proof -
  have rt: "rt_holdTtlSeconds (env_reservation coach_env) = 60" by (simp add: coach_env_def)
  have sweep: "sweep_act ''S1'' ''2026-09-10'' 1000 \<lparr>os_db = empty_db, os_lastSweep = None, os_pushes = []\<rparr>
      = (Inr 0, \<lparr>os_db = empty_db, os_lastSweep = None, os_pushes = []\<rparr>)"
    "sweep_act ''S1'' ''2026-09-10'' 1000 rider_state = (Inr 0, rider_state)"
    by (simp_all add: sweep_act_eq rider_select_checks rider_state_def)
  have snap: "snapshot coach_env 1000 coach_service sample_map ''2026-09-10'' v \<lparr>os_db = empty_db, os_lastSweep = None, os_pushes = []\<rparr>
      = (Inr (coach_snapshot (liveClaims ''S1'' ''2026-09-10'' empty_db) v), \<lparr>os_db = empty_db, os_lastSweep = None, os_pushes = []\<rparr>)"
    "snapshot coach_env 1000 coach_service sample_map ''2026-09-10'' v rider_state
      = (Inr (coach_snapshot (liveClaims ''S1'' ''2026-09-10'' held_db) v), rider_state)" for v
    by (simp_all add: snapshot_def act_bind_def act_lift_def act_read_def coach_fields sweep coach_snapshotFromClaims)
  have hold: "select_hold coach_env 1000 ''ab1'' rider_resolved run_identity [''1'', ''2''] \<lparr>os_db = empty_db, os_lastSweep = None, os_pushes = []\<rparr>
      = (Inr rider_hold, rider_state)"
    by (simp add: select_hold_def act_bind_def act_lift_def Let_def rider_fields coach_fields snap rider_select_checks)
      (simp add: coach_snapshot_def Let_def act_store_def rt rider_acquires rider_state_def)
  have order: "\<exists>order. buildOrder coach_env 1000 bi rider_state = (Inr order, rider_state)"
    if "bi_resolved bi = rider_resolved" "bi_pair bi = rider_pair" "bi_farePaise bi = 10000" "bi_fareSourcing bi = ''V''"
      "bi_seatCount bi = 2" "bi_concessionClaim bi = None" for bi
    using coach_renders [OF that] that(1)
    by (simp add: buildOrder_def act_bind_def act_lift_def Let_def rider_fields snap)
  show ?thesis
    unfolding select_def Let_def using hold order
    by (simp add: act_bind_Inr act_lift_eq rider_checks rider_select_checks rider_identity rider_fields rider_facts coach_fields)
qed

end
