(* ===== verification/Order_Cancel.thy ===== *)
theory Order_Cancel
  imports Order_Run
begin

text \<open>
  Cancelling through the order flow: the figure a rider commits to is the figure that is paid, a
  repeated cancellation is answered from the record, the rewritten order says which seats are left,
  and a booking is only ever answered to the buyer app that made it.
\<close>

subsection \<open>The refund depends on the clock through its slab\<close>

lemma slab_code_wire_inj: "slab_code_wire a = slab_code_wire b \<Longrightarrow> a = b"
  by (cases a; cases b) simp_all

lemma slabFor_cong: "slab_code (slabFor d n) = slab_code (slabFor d m) \<Longrightarrow> slabFor d n = slabFor d m"
  by (auto simp: slabFor_def Let_def split: if_splits)

lemma computeRefund_cong:
  assumes "slab_code_wire (slab_code (rc_slab (computeRefund seats d n))) = slab_code_wire (slab_code (rc_slab (computeRefund seats d m)))"
  shows "computeRefund seats d n = computeRefund seats d m"
proof -
  have "slabFor d n = slabFor d m"
    by (intro slabFor_cong slab_code_wire_inj) (use assms in \<open>simp add: computeRefund_sums(1)\<close>)
  then show ?thesis by (simp add: computeRefund_def)
qed

subsection \<open>Quotes\<close>

lemma quote_act_saved:
  assumes "quote_act drawn booking ids refund n s = (Inr q, s')"
  shows "\<exists>i. newRefundQuoteId drawn = Inr i \<and> q = refund_quote i booking ids refund n
     \<and> findRefundQuote i (os_db s') = Some q"
proof -
  obtain i where i: "newRefundQuoteId drawn = Inr i"
    using assms by (cases "newRefundQuoteId drawn") (auto simp: quote_act_def result_simps withTransaction_def)
  have new: "List.find (\<lambda>q. rq_id q = i) (qs @ [q]) = Some q" if "i \<notin> rq_id ` set qs" "rq_id q = i" for qs q
    using that by (induction qs) auto
  show ?thesis
    using assms i new [of "db_refund_quotes (os_db s)" "refund_quote i booking ids refund n"]
    by (auto simp: quote_act_def result_simps withTransaction_def saveRefundQuote_def findRefundQuote_def
        refund_quote_def split: if_splits)
qed

definition live_seats :: "BookingSeatRecord list \<Rightarrow> BookingSeatRecord list" where
  "live_seats seats = filter (\<lambda>x. bs_status x = CONFIRMED) seats"

lemma softCancel_quotes:
  assumes "softCancel n drawn booking seats s = (Inr msg, s')" "live_seats seats \<noteq> []"
  shows "\<exists>i q payload. newRefundQuoteId drawn = Inr i \<and> findRefundQuote i (os_db s') = Some q
     \<and> q = refund_quote i booking (sort (map bs_seatId (live_seats seats)))
             (computeRefund (map refundable (live_seats seats)) (b_departureAt booking) n) n
     \<and> refundPayload (computeRefund (map refundable (live_seats seats)) (b_departureAt booking) n) = Inr payload
     \<and> field msg ''refund'' = Some payload"
proof -
  let ?r = "computeRefund (map refundable (live_seats seats)) (b_departureAt booking) n"
  from assms obtain q s1 payload where "quote_act drawn booking (sort (map bs_seatId (live_seats seats))) ?r n s = (Inr q, s1)"
    "refundPayload ?r = Inr payload" "msg = cancel_message (b_order booking) payload (Some [slab_tag_of q])" "s' = s1"
    by (auto simp: softCancel_def live_seats_def Let_def result_simps)
  then show ?thesis using quote_act_saved by (fastforce simp: cancel_message_def)
qed

lemma confirmCancel_pays:
  assumes "confirmCancel n drawn booking seats tags s = (Inr msg, s')" "live_seats seats \<noteq> []"
    and "nonempty (tagValue tags ''REFUND_SLAB'' ''REFUND_QUOTE_ID'') = Some i" "findRefundQuote i (os_db s) = Some q"
  shows "\<exists>payload. n < rq_expiresAt q
     \<and> slab_code_wire (slab_code (rc_slab (computeRefund (map refundable (live_seats seats)) (b_departureAt booking) n))) = rq_slabCode q
     \<and> refundPayload (computeRefund (map refundable (live_seats seats)) (b_departureAt booking) n) = Inr payload
     \<and> field msg ''refund'' = Some payload"
  using assms
  by (auto simp: confirmCancel_def commit_cancel_def live_seats_def Let_def result_simps cancel_message_def
      split: if_splits)

lemma paid_as_quoted:
  assumes "softCancel n1 drawn1 booking seats s = (Inr quoted, s1)" "live_seats seats \<noteq> []"
    and "newRefundQuoteId drawn1 = Inr i" "nonempty (tagValue tags ''REFUND_SLAB'' ''REFUND_QUOTE_ID'') = Some i"
    and "findRefundQuote i (os_db s2) = findRefundQuote i (os_db s1)"
    and "confirmCancel n2 drawn2 booking seats tags s2 = (Inr paid, s3)"
  shows "field paid ''refund'' = field quoted ''refund'' \<and> field quoted ''refund'' \<noteq> None \<and> n2 < n1 + QUOTE_TTL_MS"
proof -
  let ?r = "\<lambda>n. computeRefund (map refundable (live_seats seats)) (b_departureAt booking) n"
  obtain q p1 where q: "findRefundQuote i (os_db s1) = Some q"
    "q = refund_quote i booking (sort (map bs_seatId (live_seats seats))) (?r n1) n1"
    "refundPayload (?r n1) = Inr p1" "field quoted ''refund'' = Some p1"
    using softCancel_quotes [OF assms(1,2)] assms(3) by auto
  obtain p2 where p: "n2 < rq_expiresAt q" "slab_code_wire (slab_code (rc_slab (?r n2))) = rq_slabCode q"
    "refundPayload (?r n2) = Inr p2" "field paid ''refund'' = Some p2"
    using confirmCancel_pays [OF assms(6,2,4)] assms(5) q(1) by metis
  have "?r n2 = ?r n1" using p(2) by (intro computeRefund_cong) (simp add: q(2) refund_quote_def)
  then show ?thesis using p q by (simp add: refund_quote_def)
qed

subsection \<open>The endpoint\<close>

definition cancel_targets :: "json list option \<Rightarrow> BookingRecord \<Rightarrow> BookingSeatRecord list" where
  "cancel_targets tags booking =
     (if seatIdsFrom tags \<noteq> [] then filter (\<lambda>x. bs_seatId x \<in> set (seatIdsFrom tags)) (b_seats booking)
      else filter (\<lambda>x. bs_status x = CONFIRMED) (b_seats booking))"

lemma cancel_run:
  assumes "findBooking (env_operatorKey env) (ctx_bap_id ctx) (ctx_bap_uri ctx) orderId (os_db s) = Some booking"
  shows "cancel env n drawn ctx orderId code tags s =
     (case assertBppAddress env ctx of
        Inl e \<Rightarrow> (Inl e, s)
      | Inr _ \<Rightarrow>
          (if set (seatIdsFrom tags) \<subseteq> bs_seatId ` set (b_seats booking)
           then (if code = ''SOFT_CANCEL'' then softCancel n drawn booking (cancel_targets tags booking)
                 else confirmCancel n drawn booking (cancel_targets tags booking) tags) s
           else (Inl (Refusal CANCEL_SEAT_NOT_ON_BOOKING []), s)))"
proof (cases "assertBppAddress env ctx")
  case (Inl e)
  then show ?thesis by (simp add: cancel_def act_bind_def act_lift_def)
next
  case (Inr u)
  then show ?thesis using assms
    by (simp add: cancel_def findBookingOrRefuse_def act_bind_def act_lift_def act_read_def Let_def cancel_targets_def
        ensure_def)
qed

lemma cancel_nothing_live:
  assumes "live_seats seats = []"
  shows "softCancel n drawn booking seats = stored_answer booking"
    and "confirmCancel n drawn booking seats tags = stored_answer booking"
  using assms by (simp_all add: softCancel_def confirmCancel_def live_seats_def)

lemma stored_answer_state: "snd (stored_answer booking s) = s"
  by (auto simp: stored_answer_def act_bind_def act_lift_def split: sum.splits)

subsection \<open>The rewritten order\<close>

definition is_seat_tag :: "json \<Rightarrow> bool" where
  "is_seat_tag t \<longleftrightarrow> tag_code t = Some (JStr ''SEATS'') \<or> tag_code t = Some (JStr ''CANCELLED_SEATS'')"

definition seat_tags :: "BookingRecord \<Rightarrow> json list" where
  "seat_tags b =
     (let remaining = live_seats (b_seats b); released = cancelled_seats b in
      (if remaining \<noteq> [] then [seatsTag (map bs_seatId remaining)] else [])
      @ (if released \<noteq> [] then [cancelledSeatsTag (map bs_seatId released)] else []))"

lemma seat_tags_are: "t \<in> set (seat_tags b) \<Longrightarrow> is_seat_tag t"
  by (auto simp: seat_tags_def Let_def is_seat_tag_def seatsTag_def cancelledSeatsTag_def tag_def tag_code_def field2_def
      split: if_splits)

lemma place_seat_tags_Cons:
  "place_seat_tags new placed (t # ts) =
     (if \<not> is_seat_tag t then t # place_seat_tags new placed ts
      else if placed then place_seat_tags new placed ts else new @ place_seat_tags new True ts)"
  by (simp add: is_seat_tag_def)

lemma place_seat_tags_filter:
  assumes "\<And>t. t \<in> set new \<Longrightarrow> is_seat_tag t"
  shows "filter (\<lambda>t. \<not> is_seat_tag t) (place_seat_tags new placed ts) = filter (\<lambda>t. \<not> is_seat_tag t) ts"
    and "filter is_seat_tag (place_seat_tags new placed ts) = (if placed \<or> \<not> list_ex is_seat_tag ts then [] else new)"
proof -
  have new: "filter is_seat_tag new = new" "filter (\<lambda>t. \<not> is_seat_tag t) new = []"
    using assms by (simp_all add: filter_id_conv filter_empty_conv)
  show "filter (\<lambda>t. \<not> is_seat_tag t) (place_seat_tags new placed ts) = filter (\<lambda>t. \<not> is_seat_tag t) ts"
    "filter is_seat_tag (place_seat_tags new placed ts) = (if placed \<or> \<not> list_ex is_seat_tag ts then [] else new)"
    by (induction ts arbitrary: placed) (simp_all add: place_seat_tags_Cons new del: place_seat_tags.simps(2))
qed

lemma array_field_eq: "array_field v k = Inr xs \<longleftrightarrow> field v k = Some (JArr xs)"
  by (auto simp: array_field_def split: option.splits json.splits)

lemma field_object: "field v k = Some w \<Longrightarrow> \<exists>kvs. v = JObj kvs"
  by (cases v) auto

lemma cancelledOrder_tags:
  assumes "cancelledOrder b = Inr order" "array_field (b_order b) ''tags'' = Inr tags"
  shows "array_field order ''tags'' = Inr (place_seat_tags (seat_tags b) False tags)"
    and "field order ''status'' = Some (JStr (if b_status b = CANCELLED then ''CANCELLED'' else ''ACTIVE''))"
proof -
  obtain kvs where o: "b_order b = JObj kvs"
    using assms(2) field_object unfolding array_field_eq by metis
  let ?st = "JStr (if b_status b = CANCELLED then ''CANCELLED'' else ''ACTIVE'')"
  obtain fs where "order = set_field ''fulfillments'' (JArr fs) (set_field ''tags''
      (JArr (place_seat_tags (seat_tags b) False tags)) (set_field ''status'' ?st (JObj kvs)))"
    using assms by (auto simp: cancelledOrder_def Let_def result_simps array_field_eq o map_of_put seat_tags_def live_seats_def)
  then show "array_field order ''tags'' = Inr (place_seat_tags (seat_tags b) False tags)" "field order ''status'' = Some ?st"
    by (simp_all add: array_field_eq map_of_put)
qed

subsection \<open>A cancellation to run\<close>

definition paid_order :: json where
  "paid_order = JObj [(''tags'', JArr [specimenTag SPECIMEN_NOTICE, seatsTag [''1'', ''2'']]),
     (''fulfillments'', JArr [JObj [(''tags'', JArr [manifestTagFrom rider_records])]])]"

definition paid_seat :: "string \<Rightarrow> SeatRow" where
  "paid_seat i = \<lparr>sr_booking_id = ''ORD'', sr_seat_id = i, sr_name = Some ''A'', sr_age = None, sr_gender = None,
     sr_base_paise = 10000, sr_reservation_fee_paise = 500, sr_toll_paise = 300, sr_status = CONFIRMED,
     sr_cancelled_at = None, sr_refund_paise = None, sr_slab_code = None\<rparr>"

definition paid_row :: BookingRow where
  "paid_row = \<lparr>bk_id = ''ORD'', bk_reference = ''REF'', bk_operator = ''ksrtc'', bk_bap_id = ''bap'', bk_bap_uri = ''uri'',
     bk_transaction_id = ''t1'', bk_service_id = ''S1'', bk_travel_date = ''2026-09-10'', bk_service_class = ''AIRAVAT'',
     bk_from_boarding_point_id = ''B1'', bk_to_boarding_point_id = ''B2'', bk_departure_at = 500000000, bk_status = CONFIRMED,
     bk_base_paise = 20000, bk_reservation_fee_paise = 1000, bk_toll_paise = 600, bk_created_at = 2000,
     bk_cancelled_at = None, bk_refund_paise = None, bk_slab_code = None, bk_order_json = paid_order,
     bk_settlement_corporation = None, bk_settlement_basis = NoProvenance\<rparr>"

definition paid_state :: OrderState where
  "paid_state = \<lparr>os_db = \<lparr>db_seat_locks = [], db_bookings = [paid_row], db_booking_seats = [paid_seat ''1'', paid_seat ''2''],
     db_refund_quotes = []\<rparr>, os_lastSweep = None, os_pushes = []\<rparr>"

definition paid_booking :: BookingRecord where
  "paid_booking = bookingFromRow (os_db paid_state) paid_row"

definition soft_tags :: "json list" where
  "soft_tags = [seatsTag [''1'']]"

definition hard_tags :: "json list" where
  "hard_tags = soft_tags @ [tag ''REFUND_SLAB'' False [entry ''REFUND_QUOTE_ID'' ''RFQ-KSRTC-Q1'']]"

definition run_seat :: BookingSeatRecord where
  "run_seat = seat_record (paid_seat ''1'')"

definition run_refund :: "int \<Rightarrow> RefundComputation" where
  "run_refund n = computeRefund [refundable run_seat] 500000000 n"

definition run_quote :: RefundQuoteRecord where
  "run_quote = refund_quote ''RFQ-KSRTC-Q1'' paid_booking [''1''] (run_refund 3000) 3000"

definition quoted_state :: OrderState where
  "quoted_state = paid_state\<lparr>os_db := (os_db paid_state)\<lparr>db_refund_quotes := [run_quote]\<rparr>\<rparr>"

lemma run_lookups:
  "findBooking ''ksrtc'' ''bap'' ''uri'' ''ORD'' (os_db paid_state) = Some paid_booking"
  "findBooking ''ksrtc'' ''bap'' ''uri'' ''ORD'' (os_db quoted_state) = Some paid_booking"
  "b_departureAt paid_booking = 500000000" "set (seatIdsFrom (Some soft_tags)) \<subseteq> bs_seatId ` set (b_seats paid_booking)"
  "seatIdsFrom (Some hard_tags) = seatIdsFrom (Some soft_tags)"
  "cancel_targets (Some soft_tags) paid_booking = [run_seat]" "cancel_targets (Some hard_tags) paid_booking = [run_seat]" "bs_status run_seat = CONFIRMED" "bs_seatId run_seat = ''1''"
  "newRefundQuoteId ''q1'' = Inr ''RFQ-KSRTC-Q1''"
  "nonempty (tagValue (Some hard_tags) ''REFUND_SLAB'' ''REFUND_QUOTE_ID'') = Some ''RFQ-KSRTC-Q1''"
  "quote_fits paid_booking [''1''] run_quote" "rq_expiresAt run_quote = 123000"
  "ctx_bap_id rider_context = ''bap''" "ctx_bap_uri rider_context = ''uri''"
  by code_simp+

lemma run_quote_saved:
  "quote_act ''q1'' paid_booking [''1''] (run_refund 3000) 3000 paid_state = (Inr run_quote, quoted_state)"
  by (simp add: quote_act_def act_store_def withTransaction_def saveRefundQuote_def run_lookups quoted_state_def run_quote_def
      paid_state_def refund_quote_def paid_booking_def bookingFromRow_def)

lemma run_refund_later: "run_refund 4000 = run_refund 3000"
  unfolding run_refund_def by (rule computeRefund_cong) code_simp

lemma run_payload: "\<exists>payload. refundPayload (run_refund 3000) = Inr payload"
proof -
  have "case refundPayload (run_refund 3000) of Inl _ \<Rightarrow> False | Inr _ \<Rightarrow> True" by code_simp
  then show ?thesis by (auto split: sum.splits)
qed

lemma run_committed: "\<exists>msg s. commit_cancel 4000 paid_booking [''1''] (run_refund 3000) run_quote quoted_state = (Inr msg, s)"
proof -
  let ?x = "\<lparr>xp_bookingId = b_id paid_booking, xp_seatIds = [''1''], xp_slabCode = slab_code_wire (slab_code (rc_slab (run_refund 3000))),
         xp_refundBySeat = rc_perSeatPaise (run_refund 3000), xp_nowMs = 4000\<rparr>"
  have "case applyCancellation ?x (os_db quoted_state) of (db, r) \<Rightarrow>
      (case r of Inl _ \<Rightarrow> False | Inr u \<Rightarrow> (case cancelledOrder u of Inl _ \<Rightarrow> False | Inr _ \<Rightarrow> True))" by code_simp
  then obtain db u order where "applyCancellation ?x (os_db quoted_state) = (db, Inr u)" "cancelledOrder u = Inr order"
    by (auto split: prod.splits sum.splits)
  then show ?thesis
    using run_payload
    by (auto simp: commit_cancel_def act_bind_def act_store_def act_lift_def startManifestPush_def withTransaction_def)
qed

lemma run_quoted:
  "\<exists>msg. cancel coach_env 3000 ''q1'' rider_context ''ORD'' ''SOFT_CANCEL'' (Some soft_tags) paid_state = (Inr msg, quoted_state)"
proof -
  have b: "findBooking (env_operatorKey coach_env) (ctx_bap_id rider_context) (ctx_bap_uri rider_context) ''ORD'' (os_db paid_state)
      = Some paid_booking" by (simp add: run_lookups coach_fields)
  show ?thesis
    using run_payload unfolding cancel_run [OF b]
    by (auto simp: rider_checks run_lookups softCancel_def Let_def act_bind_def act_lift_def run_quote_saved
        simp flip: run_refund_def)
qed

lemma run_paid:
  "\<exists>msg s. cancel coach_env 4000 ''zz'' rider_context ''ORD'' ''CONFIRM_CANCEL'' (Some hard_tags) quoted_state = (Inr msg, s)"
proof -
  have b: "findBooking (env_operatorKey coach_env) (ctx_bap_id rider_context) (ctx_bap_uri rider_context) ''ORD'' (os_db quoted_state)
      = Some paid_booking" by (simp add: run_lookups coach_fields)
  have q: "findRefundQuote ''RFQ-KSRTC-Q1'' (os_db quoted_state) = Some run_quote"
    by (simp add: findRefundQuote_def quoted_state_def run_quote_def refund_quote_def)
  have s: "rq_slabCode run_quote = slab_code_wire (slab_code (rc_slab (run_refund 3000)))"
    by (simp add: run_quote_def refund_quote_def)
  show ?thesis
    using run_committed unfolding cancel_run [OF b]
    by (auto simp: rider_checks run_lookups confirmCancel_def Let_def act_bind_def act_lift_def act_read_def q s
        run_refund_later simp flip: run_refund_def)
qed

lemma privacy_refusal:
  assumes "\<not> list_ex (\<lambda>b. bk_operator b = env_operatorKey env \<and> bk_bap_id b = ctx_bap_id ctx \<and> bk_bap_uri b = ctx_bap_uri ctx
      \<and> (bk_id b = i \<or> bk_reference b = i)) (db_bookings (os_db s))"
  shows "findBookingOrRefuse env ctx i s = (Inl (Refusal BOOKING_NOT_FOUND []), s)"
proof -
  have "findBooking (env_operatorKey env) (ctx_bap_id ctx) (ctx_bap_uri ctx) i (os_db s) = None"
    using assms by (auto simp: findBooking_def find_None_iff list_ex_iff)
  then show ?thesis by (simp add: findBookingOrRefuse_def act_bind_def act_read_def act_lift_def)
qed

subsection \<open>Properties\<close>

text \<open>
  C5. What is paid is what was quoted: when a soft cancellation has quoted a refund for some seats and
  the cancellation that carries the quote is accepted, at whatever later instant and after whatever
  other requests that left the booking and the quote alone, the refund it reports is the quoted one to
  the paisa and it came within the two minutes of the quote. A quote that crossed into another slab is
  never committed at the old figure.
\<close>

theorem cancellation_pays_the_quote:
  assumes "cancel env n1 drawn1 ctx i ''SOFT_CANCEL'' tags1 s = (Inr quoted, s1)"
    and "cancel env n2 drawn2 ctx i code tags2 s2 = (Inr paid, s3)" "code \<noteq> ''SOFT_CANCEL''"
    and "findBooking (env_operatorKey env) (ctx_bap_id ctx) (ctx_bap_uri ctx) i (os_db s) = Some b"
    and "findBooking (env_operatorKey env) (ctx_bap_id ctx) (ctx_bap_uri ctx) i (os_db s2) = Some b"
    and "seatIdsFrom tags2 = seatIdsFrom tags1" "live_seats (cancel_targets tags1 b) \<noteq> []"
    and "newRefundQuoteId drawn1 = Inr q" "nonempty (tagValue tags2 ''REFUND_SLAB'' ''REFUND_QUOTE_ID'') = Some q"
    and "findRefundQuote q (os_db s2) = findRefundQuote q (os_db s1)"
  shows "field paid ''refund'' = field quoted ''refund'' \<and> field quoted ''refund'' \<noteq> None \<and> n2 < n1 + QUOTE_TTL_MS"
proof -
  have "softCancel n1 drawn1 b (cancel_targets tags1 b) s = (Inr quoted, s1)"
    using assms(1) unfolding cancel_run [OF assms(4)] by (auto split: sum.splits if_splits)
  moreover have "confirmCancel n2 drawn2 b (cancel_targets tags1 b) tags2 s2 = (Inr paid, s3)"
    using assms(2,3,6) unfolding cancel_run [OF assms(5)] by (auto simp: cancel_targets_def split: sum.splits if_splits)
  ultimately show ?thesis using paid_as_quoted assms(7-10) by blast
qed

theorem cancellation_pays_the_quote_witness:
  "\<exists>quoted paid s3.
     cancel coach_env 3000 ''q1'' rider_context ''ORD'' ''SOFT_CANCEL'' (Some soft_tags) paid_state = (Inr quoted, quoted_state)
     \<and> cancel coach_env 4000 ''zz'' rider_context ''ORD'' ''CONFIRM_CANCEL'' (Some hard_tags) quoted_state = (Inr paid, s3)
     \<and> field paid ''refund'' = field quoted ''refund'' \<and> field quoted ''refund'' \<noteq> None"
proof -
  obtain quoted where q: "cancel coach_env 3000 ''q1'' rider_context ''ORD'' ''SOFT_CANCEL'' (Some soft_tags) paid_state
      = (Inr quoted, quoted_state)" using run_quoted by blast
  obtain paid s3 where p: "cancel coach_env 4000 ''zz'' rider_context ''ORD'' ''CONFIRM_CANCEL'' (Some hard_tags) quoted_state
      = (Inr paid, s3)" using run_paid by blast
  have "live_seats (cancel_targets (Some soft_tags) paid_booking) \<noteq> []" by (simp add: run_lookups live_seats_def)
  with cancellation_pays_the_quote [OF q p, of paid_booking "''RFQ-KSRTC-Q1''"] q p show ?thesis
    by (auto simp: run_lookups coach_fields)
qed

text \<open>
  C25. Cancelling is idempotent: where every seat a request is about has already been cancelled, the
  request changes nothing and its answer is the recorded one. It is the same whether it asks for a quote
  or for the cancellation, whatever the clock shows and whatever quote it carries, so a retry never
  looks like a penalty.
\<close>

theorem repeated_cancel_same_answer:
  assumes "findBooking (env_operatorKey env) (ctx_bap_id ctx) (ctx_bap_uri ctx) i (os_db s) = Some b"
    and "live_seats (cancel_targets tags b) = []"
  shows "cancel env n drawn ctx i code tags s = cancel env n' drawn' ctx i code' tags s
     \<and> snd (cancel env n drawn ctx i code tags s) = s"
  unfolding cancel_run [OF assms(1)]
  using cancel_nothing_live [OF assms(2)] by (simp add: stored_answer_state split: sum.splits)

theorem repeated_cancel_same_answer_witness:
  "let s = paid_state\<lparr>os_db := (os_db paid_state)\<lparr>db_booking_seats := map (\<lambda>i. paid_seat i\<lparr>sr_status := CANCELLED\<rparr>) [''1'', ''2'']\<rparr>\<rparr> in
     cancel coach_env 5000 ''a'' rider_context ''ORD'' ''CONFIRM_CANCEL'' None s
       = cancel coach_env 99999999 ''b'' rider_context ''ORD'' ''SOFT_CANCEL'' None s"
proof -
  let ?s = "paid_state\<lparr>os_db := (os_db paid_state)\<lparr>db_booking_seats := map (\<lambda>i. paid_seat i\<lparr>sr_status := CANCELLED\<rparr>) [''1'', ''2'']\<rparr>\<rparr>"
  let ?b = "bookingFromRow (os_db ?s) paid_row"
  have "findBooking (env_operatorKey coach_env) (ctx_bap_id rider_context) (ctx_bap_uri rider_context) ''ORD'' (os_db ?s) = Some ?b"
    by (simp add: coach_fields run_lookups findBooking_def paid_state_def paid_row_def)
  moreover have "live_seats (cancel_targets None ?b) = []" by code_simp
  ultimately show ?thesis using repeated_cancel_same_answer by (metis (no_types, lifting))
qed

text \<open>
  The order a cancellation stores says exactly which seats are left: wherever the order had a seat
  list, the new one has one list of the seats still confirmed, if there are any, and one of the seats
  given back, if there are any, and every other tag is kept in place; no empty list is ever published.
\<close>

theorem cancelled_order_lists_seats:
  assumes "cancelledOrder b = Inr order" "array_field (b_order b) ''tags'' = Inr tags" "list_ex is_seat_tag tags"
  shows "\<exists>tags'. array_field order ''tags'' = Inr tags'
     \<and> filter is_seat_tag tags' =
         (if live_seats (b_seats b) = [] then [] else [seatsTag (map bs_seatId (live_seats (b_seats b)))])
         @ (if cancelled_seats b = [] then [] else [cancelledSeatsTag (map bs_seatId (cancelled_seats b))])
     \<and> filter (\<lambda>t. \<not> is_seat_tag t) tags' = filter (\<lambda>t. \<not> is_seat_tag t) tags
     \<and> field order ''status'' = Some (JStr (if b_status b = CANCELLED then ''CANCELLED'' else ''ACTIVE''))"
  using cancelledOrder_tags [OF assms(1,2)] place_seat_tags_filter [of "seat_tags b" False tags] seat_tags_are assms(3)
  by (simp add: seat_tags_def Let_def)

theorem cancelled_order_lists_seats_witness:
  "\<exists>order tags. cancelledOrder paid_booking = Inr order \<and> array_field order ''tags'' = Inr tags
     \<and> filter is_seat_tag tags = [seatsTag [''1'', ''2'']]"
proof -
  have "case cancelledOrder paid_booking of Inl _ \<Rightarrow> False | Inr _ \<Rightarrow> True" by code_simp
  then obtain order where o: "cancelledOrder paid_booking = Inr order" by (auto split: sum.splits)
  have t: "array_field (b_order paid_booking) ''tags'' = Inr [specimenTag SPECIMEN_NOTICE, seatsTag [''1'', ''2'']]"
    "list_ex is_seat_tag [specimenTag SPECIMEN_NOTICE, seatsTag [''1'', ''2'']]"
    "map bs_seatId (live_seats (b_seats paid_booking)) = [''1'', ''2'']" "cancelled_seats paid_booking = []"
    "live_seats (b_seats paid_booking) \<noteq> []" by code_simp+
  from cancelled_order_lists_seats [OF o t(1,2)] o t(3-5) show ?thesis by auto
qed

text \<open>
  A booking is only ever answered to the buyer app that made it: a status or a cancellation whose
  reference names no booking of the calling app, be it unknown or somebody else's, is refused as not
  found, with nothing of the booking in the refusal, and changes nothing.
\<close>

theorem bookings_are_private:
  assumes "assertBppAddress env ctx = Inr ()" "i \<noteq> []"
    and "\<not> list_ex (\<lambda>b. bk_operator b = env_operatorKey env \<and> bk_bap_id b = ctx_bap_id ctx \<and> bk_bap_uri b = ctx_bap_uri ctx
      \<and> (bk_id b = i \<or> bk_reference b = i)) (db_bookings (os_db s))"
  shows "status env n ctx (Some i) refId s = (Inl (Refusal BOOKING_NOT_FOUND []), s)
     \<and> cancel env n drawn ctx i code tags s = (Inl (Refusal BOOKING_NOT_FOUND []), s)"
  using privacy_refusal [OF assms(3)] assms(1,2)
  by (simp add: status_def cancel_def act_bind_def act_lift_def nonempty_def)

theorem bookings_are_private_witness:
  "status coach_env 5000 (rider_context\<lparr>ctx_bap_id := ''other''\<rparr>) (Some ''ORD'') None paid_state
     = (Inl (Refusal BOOKING_NOT_FOUND []), paid_state)"
proof -
  have "assertBppAddress coach_env (rider_context\<lparr>ctx_bap_id := ''other''\<rparr>) = Inr ()" by code_simp
  then show ?thesis
    using bookings_are_private [of coach_env "rider_context\<lparr>ctx_bap_id := ''other''\<rparr>" "''ORD''" paid_state]
    by (simp add: paid_state_def paid_row_def)
qed

text \<open>
  C26. A concession is taken off the quote and not off the record: a passenger who travels free under the
  Shakti scheme is charged the fee and the toll only, yet the seat is recorded at the full fare, so a
  cancellation gives back the kept share of a fare that was never paid. It exceeds what was charged
  whenever that share exceeds the reservation fee.
\<close>

theorem concession_refund_exceeds_charge:
  assumes "svc_serviceClass (rv_service (bi_resolved bi)) = ''ASHWAMEDHA''" "bi_concessionClaim bi = Some ''SHAKTI''"
    and "bi_seatCount bi = 1" "bi_farePaise bi = cell_farePaise cell" "fare_ok (cell_farePaise cell)"
    and "svc_reservationFeePaise (rv_service (bi_resolved bi))
           < keptPaise (cell_farePaise cell) (slab_deductionPercent (slabFor dep n))"
  shows "\<exists>base discount fee toll. quote_amounts bi = Inr (base, discount, fee, toll)
     \<and> base - discount + fee + toll
         < rc_refundPaise (computeRefund [refundable (seat_record (sale_row i (record_sale (rv_service (bi_resolved bi)) cell r)))] dep n)"
proof -
  let ?f = "cell_farePaise cell"
  have "concessionDiscountPaise ?f 100 = ?f"
    using concessionDiscountPaise_exact [OF assms(5), of 100] by simp
  then have "quote_amounts bi = Inr (?f, ?f, svc_reservationFeePaise (rv_service (bi_resolved bi)),
      svc_tollPaise (rv_service (bi_resolved bi)))"
    using assms(1-4) by (simp add: quote_amounts_def concessionRatePercent_def Let_def)
  then show ?thesis
    using assms(6) by (simp add: computeRefund_sums refundable_def seat_record_def record_sale_def)
qed

theorem concession_refund_exceeds_charge_witness:
  "\<exists>base discount fee toll. quote_amounts \<lparr>bi_resolved = rider_resolved, bi_pair = rider_pair, bi_farePaise = 10000,
      bi_fareSourcing = ''V'', bi_seatCount = 1, bi_identity = run_identity, bi_seatIds = [''1''], bi_hold = None,
      bi_concessionClaim = Some ''SHAKTI'', bi_fulfillmentTags = [], bi_billing = None, bi_payments = None, bi_id = None,
      bi_status = None, bi_createdAt = None\<rparr> = Inr (base, discount, fee, toll) \<and> base - discount + fee + toll
     < rc_refundPaise (computeRefund [refundable (seat_record (sale_row ''ORD'' (record_sale coach_service
         (hd (table_fares coach_fares)) (hd rider_records))))] 500000000 3000)"
proof -
  have "svc_serviceClass coach_service = ''ASHWAMEDHA''" "svc_reservationFeePaise coach_service = 500"
    by (simp_all add: coach_service_def sample_service_def)
  moreover have "fare_ok 10000" by (simp add: fare_ok_def)
  moreover have "keptPaise 10000 (slab_deductionPercent (slabFor 500000000 3000)) = 9000" by code_simp
  ultimately show ?thesis
    using concession_refund_exceeds_charge [of "\<lparr>bi_resolved = rider_resolved, bi_pair = rider_pair, bi_farePaise = 10000,
      bi_fareSourcing = ''V'', bi_seatCount = 1, bi_identity = run_identity, bi_seatIds = [''1''], bi_hold = None,
      bi_concessionClaim = Some ''SHAKTI'', bi_fulfillmentTags = [], bi_billing = None, bi_payments = None, bi_id = None,
      bi_status = None, bi_createdAt = None\<rparr>" "hd (table_fares coach_fares)" 500000000 3000 "''ORD''" "hd rider_records"]
    by (simp add: rider_fields rider_facts)
qed

end
