(* ===== verification/Reserved_Db.thy ===== *)
theory Reserved_Db
  imports Bpp_Prelude "HOL-Library.AList"
begin

text \<open>
  The database handle of the reserved category (\<open>src/src/reserved/db.ts\<close>): the errors it recognises,
  the plain and the reconnecting handle over the libSQL driver, the transaction, the queue that
  serialises transactions, and the migrations run when the database is opened.

  The driver is the third-party package \<open>libsql\<close>: it is the argument \<open>d\<close> of the definitions, a
  \<open>Driver\<close> record over a world \<open>'w\<close> of connections \<open>'c\<close> and prepared statements \<open>'s\<close>. A call that
  awaits returns what it throws or yields, with the state after it; a call of a handle runs to its end
  before the next call on that handle, and calls of different requests interleave between calls, which
  is what the step relation of the queue says.
\<close>

subsection \<open>Thrown values and what the handle recognises in them\<close>

text \<open>An \<open>Error\<close> with its message, or any other thrown value with its \<open>String(...)\<close>.\<close>

datatype Thrown = ErrorWith string | NonError string

fun thrown_text :: "Thrown \<Rightarrow> string" where
  "thrown_text (ErrorWith m) = m"
| "thrown_text (NonError s) = s"

definition startsWith :: "string \<Rightarrow> string \<Rightarrow> bool" where
  "startsWith s p \<longleftrightarrow> take (length p) s = p"

fun some_suffix :: "(string \<Rightarrow> bool) \<Rightarrow> string \<Rightarrow> bool" where
  "some_suffix P [] = P []"
| "some_suffix P (c # s) = (P (c # s) \<or> some_suffix P s)"

text \<open>
  \<open>/literal/i.test(s)\<close>: some suffix starts with the literal. Matching without regard to case compares
  the capitals, as the language does, and the literals below are in capitals.
\<close>

definition test_ignoring_case :: "string \<Rightarrow> string \<Rightarrow> bool" where
  "test_ignoring_case literal s = some_suffix (\<lambda>t. startsWith t literal) (toUpperCase s)"

definition DEAD_STREAM_PATTERNS :: "string list" where
  "DEAD_STREAM_PATTERNS =
     [''STREAM NOT FOUND'',
      ''STREAM EXPIRED'', ''STREAM HAS EXPIRED'',
      ''STREAM CLOSED'', ''STREAM HAS BEEN CLOSED'', ''STREAM WAS CLOSED'']"

fun isDeadStreamError :: "Thrown \<Rightarrow> bool" where
  "isDeadStreamError (ErrorWith message) = list_ex (\<lambda>p. test_ignoring_case p message) DEAD_STREAM_PATTERNS"
| "isDeadStreamError (NonError _) = False"

text \<open>The class \<open>\s\<close>, and \<open>\s*-?\s*no transaction is active\<close> from the first character on.\<close>

definition regex_space :: "char \<Rightarrow> bool" where
  "regex_space c \<longleftrightarrow> is_space c \<or> (of_char c :: nat) = 160"

definition no_transaction_follows :: "string \<Rightarrow> bool" where
  "no_transaction_follows s =
     (let t = dropWhile regex_space s;
          u = (case t of [] \<Rightarrow> t | c # r \<Rightarrow> if c = CHR ''-'' then r else t)
      in startsWith (dropWhile regex_space u) ''NO TRANSACTION IS ACTIVE'')"

definition cannot_end :: "string \<Rightarrow> string \<Rightarrow> bool" where
  "cannot_end verb message =
     (let start = ''CANNOT '' @ verb in
      some_suffix (\<lambda>t. startsWith t start \<and> no_transaction_follows (drop (length start) t))
        (toUpperCase message))"

fun isNothingToRollBack :: "Thrown \<Rightarrow> bool" where
  "isNothingToRollBack (ErrorWith message) = cannot_end ''ROLLBACK'' message"
| "isNothingToRollBack (NonError _) = False"

fun isTransactionAlreadyGone :: "Thrown \<Rightarrow> bool" where
  "isTransactionAlreadyGone (ErrorWith message) =
     (isNothingToRollBack (ErrorWith message)
      \<or> cannot_end ''COMMIT'' message
      \<or> test_ignoring_case ''INTERACTIVE TRANSACTION WAS ROLLED BACK'' message)"
| "isTransactionAlreadyGone (NonError _) = False"

datatype OperationKind = OpBegin | OpCommit | OpRollback | OpOther

definition commandKind :: "string \<Rightarrow> OperationKind" where
  "commandKind sql =
     (let trimmed = toUpperCase (dropWhile regex_space sql) in
      if startsWith trimmed ''BEGIN'' then OpBegin
      else if startsWith trimmed ''COMMIT'' then OpCommit
      else if startsWith trimmed ''ROLLBACK'' then OpRollback
      else OpOther)"

subsection \<open>The driver and the interface of a handle\<close>

datatype SqlValue = SqlNull | SqlInt int | SqlText string

type_synonym SqlRow = "(string \<times> SqlValue) list"

record RunInfo =
  run_changes :: int
  run_lastInsertRowid :: int

type_synonym ('h, 'a) io = "'h \<Rightarrow> (Thrown + 'a) \<times> 'h"

definition io_bind :: "('h, 'a) io \<Rightarrow> ('a \<Rightarrow> ('h, 'b) io) \<Rightarrow> ('h, 'b) io" where
  "io_bind m f h = (case m h of (Inl e, h') \<Rightarrow> (Inl e, h') | (Inr x, h') \<Rightarrow> f x h')"

definition io_return :: "'a \<Rightarrow> ('h, 'a) io" where
  "io_return x h = (Inr x, h)"

definition io_throw :: "Thrown \<Rightarrow> ('h, 'a) io" where
  "io_throw e h = (Inl e, h)"

text \<open>\<open>DriverDatabase\<close> and \<open>DriverStatement\<close>, and the constructor \<open>new Database(path, options)\<close>.\<close>

record ('c, 's, 'w) Driver =
  drv_open :: "('w, 'c) io"
  drv_prepare :: "'c \<Rightarrow> string \<Rightarrow> ('w, 's) io"
  drv_exec :: "'c \<Rightarrow> string \<Rightarrow> ('w, unit) io"
  drv_close :: "'c \<Rightarrow> ('w, unit) io"
  drv_run :: "'s \<Rightarrow> SqlValue list \<Rightarrow> ('w, RunInfo) io"
  drv_all :: "'s \<Rightarrow> SqlValue list \<Rightarrow> ('w, SqlRow list) io"

text \<open>\<open>ReservedDatabase\<close> and \<open>ReservedStatement\<close>: the calls of a handle whose state is \<open>'h\<close>.\<close>

record 'h ReservedDatabase =
  db_exec :: "string \<Rightarrow> ('h, unit) io"
  db_run :: "string \<Rightarrow> SqlValue list \<Rightarrow> ('h, RunInfo) io"
  db_get :: "string \<Rightarrow> SqlValue list \<Rightarrow> ('h, SqlRow option) io"
  db_all :: "string \<Rightarrow> SqlValue list \<Rightarrow> ('h, SqlRow list) io"
  db_close :: "('h, unit) io"

definition first_row :: "'a list \<Rightarrow> 'a option" where
  "first_row rows = (case rows of [] \<Rightarrow> None | r # _ \<Rightarrow> Some r)"

subsection \<open>The plain handle\<close>

text \<open>\<open>PromiseDatabase\<close> holds its one connection, and \<open>statementOver\<close> prepares at every call.\<close>

record ('c, 'w) PlainHandle =
  pl_driver :: 'c
  pl_world :: 'w

definition on_plain :: "('c \<Rightarrow> ('w, 'a) io) \<Rightarrow> (('c, 'w) PlainHandle, 'a) io" where
  "on_plain m h = (case m (pl_driver h) (pl_world h) of (r, w) \<Rightarrow> (r, h\<lparr>pl_world := w\<rparr>))"

definition statement_run :: "('c, 's, 'w) Driver \<Rightarrow> string \<Rightarrow> SqlValue list \<Rightarrow> 'c \<Rightarrow> ('w, RunInfo) io" where
  "statement_run d sql params c = io_bind (drv_prepare d c sql) (\<lambda>s. drv_run d s params)"

definition statement_all ::
    "('c, 's, 'w) Driver \<Rightarrow> string \<Rightarrow> SqlValue list \<Rightarrow> 'c \<Rightarrow> ('w, SqlRow list) io" where
  "statement_all d sql params c = io_bind (drv_prepare d c sql) (\<lambda>s. drv_all d s params)"

definition statement_get ::
    "('c, 's, 'w) Driver \<Rightarrow> string \<Rightarrow> SqlValue list \<Rightarrow> 'c \<Rightarrow> ('w, SqlRow option) io" where
  "statement_get d sql params c =
     io_bind (statement_all d sql params c) (\<lambda>rows. io_return (first_row rows))"

definition promise_database :: "('c, 's, 'w) Driver \<Rightarrow> ('c, 'w) PlainHandle ReservedDatabase" where
  "promise_database d =
     \<lparr>db_exec = (\<lambda>sql. on_plain (\<lambda>c. drv_exec d c sql)),
      db_run = (\<lambda>sql params. on_plain (statement_run d sql params)),
      db_get = (\<lambda>sql params. on_plain (statement_get d sql params)),
      db_all = (\<lambda>sql params. on_plain (statement_all d sql params)),
      db_close = on_plain (drv_close d)\<rparr>"

subsection \<open>The reconnecting handle\<close>

text \<open>
  The fields of \<open>ReconnectingDatabase\<close>, the world its driver acts on, and the errors its event
  logger was told of. The cache keeps the statement of a resolved preparation; one that fails is
  evicted before the call returns.
\<close>

record ('c, 's, 'w) Handle =
  current :: 'c
  generation :: nat
  inTransaction :: bool
  statementCache :: "(string \<times> (nat \<times> 's)) list"
  events :: "string list"
  world :: 'w

definition on_driver :: "('w, 'a) io \<Rightarrow> (('c, 's, 'w) Handle, 'a) io" where
  "on_driver m h = (case m (world h) of (r, w) \<Rightarrow> (r, h\<lparr>world := w\<rparr>))"

definition new_handle :: "('c, 's, 'w) Driver \<Rightarrow> 'w \<Rightarrow> (Thrown + ('c, 's, 'w) Handle) \<times> 'w" where
  "new_handle d w =
     (case drv_open d w of
        (Inl e, w') \<Rightarrow> (Inl e, w')
      | (Inr c, w') \<Rightarrow>
          (Inr \<lparr>current = c, generation = 0, inTransaction = False, statementCache = [],
                events = [], world = w'\<rparr>, w'))"

definition reconnect :: "('c, 's, 'w) Driver \<Rightarrow> Thrown \<Rightarrow> (('c, 's, 'w) Handle, unit) io" where
  "reconnect d cause h =
     (let w1 = snd (drv_close d (current h) (world h)) in
      case drv_open d w1 of
        (Inl e, w2) \<Rightarrow> (Inl e, h\<lparr>world := w2\<rparr>)
      | (Inr c, w2) \<Rightarrow>
          on_driver (drv_exec d c ''PRAGMA foreign_keys = ON'')
            (h\<lparr>current := c, generation := generation h + 1, statementCache := [],
               inTransaction := False, events := events h @ [thrown_text cause], world := w2\<rparr>))"

definition mark_begin :: "OperationKind \<Rightarrow> ('c, 's, 'w) Handle \<Rightarrow> ('c, 's, 'w) Handle" where
  "mark_begin kind h = (if kind = OpBegin then h\<lparr>inTransaction := True\<rparr> else h)"

definition mark_done :: "OperationKind \<Rightarrow> ('c, 's, 'w) Handle \<Rightarrow> ('c, 's, 'w) Handle" where
  "mark_done kind h =
     (if kind = OpBegin then h\<lparr>inTransaction := True\<rparr>
      else if kind = OpCommit \<or> kind = OpRollback then h\<lparr>inTransaction := False\<rparr>
      else h)"

text \<open>\<open>attempt\<close>; \<open>Inr None\<close> is the \<open>undefined\<close> of a rollback that had nothing to roll back.\<close>

definition attempt ::
    "('c, 's, 'w) Driver \<Rightarrow> OperationKind \<Rightarrow> ('c \<Rightarrow> (('c, 's, 'w) Handle, 'a) io)
      \<Rightarrow> (('c, 's, 'w) Handle, 'a option) io" where
  "attempt d kind operation h =
     (let wasInTransaction = inTransaction h in
      case operation (current h) h of
        (Inr x, h1) \<Rightarrow> (Inr (Some x), mark_done kind h1)
      | (Inl e, h1) \<Rightarrow>
          if kind = OpRollback \<and> isNothingToRollBack e then (Inr None, h1\<lparr>inTransaction := False\<rparr>)
          else if wasInTransaction \<and> isTransactionAlreadyGone e then (Inl e, h1\<lparr>inTransaction := False\<rparr>)
          else if \<not> isDeadStreamError e then (Inl e, h1)
          else (case reconnect d e h1 of
              (Inl e', h2) \<Rightarrow> (Inl e', h2)
            | (Inr _, h2) \<Rightarrow>
                if wasInTransaction then (Inl e, h2\<lparr>inTransaction := False\<rparr>)
                else (case operation (current h2) h2 of
                    (Inl e2, h3) \<Rightarrow> (Inl e2, h3)
                  | (Inr x, h3) \<Rightarrow> (Inr (Some x), mark_begin kind h3))))"

text \<open>A preparation that succeeds is cached for this generation, and one that fails is evicted.\<close>

definition prepare_fresh ::
    "('c, 's, 'w) Driver \<Rightarrow> 'c \<Rightarrow> string \<Rightarrow> (('c, 's, 'w) Handle, 's) io" where
  "prepare_fresh d db sql h =
     (case drv_prepare d db sql (world h) of
        (Inl e, w) \<Rightarrow> (Inl e, h\<lparr>statementCache := AList.delete sql (statementCache h), world := w\<rparr>)
      | (Inr s, w) \<Rightarrow>
          (Inr s, h\<lparr>statementCache := AList.update sql (generation h, s) (statementCache h), world := w\<rparr>))"

definition statementFor ::
    "('c, 's, 'w) Driver \<Rightarrow> 'c \<Rightarrow> string \<Rightarrow> (('c, 's, 'w) Handle, 's) io" where
  "statementFor d db sql h =
     (case map_of (statementCache h) sql of
        Some (g, s) \<Rightarrow> if g = generation h then (Inr s, h) else prepare_fresh d db sql h
      | None \<Rightarrow> prepare_fresh d db sql h)"

definition withStatement ::
    "('c, 's, 'w) Driver \<Rightarrow> string \<Rightarrow> ('s \<Rightarrow> ('w, 'a) io) \<Rightarrow> (('c, 's, 'w) Handle, 'a option) io" where
  "withStatement d sql run =
     attempt d OpOther (\<lambda>db. io_bind (statementFor d db sql) (\<lambda>s. on_driver (run s)))"

definition reconnecting_database ::
    "('c, 's, 'w) Driver \<Rightarrow> ('c, 's, 'w) Handle ReservedDatabase" where
  "reconnecting_database d =
     \<lparr>db_exec = (\<lambda>sql. io_bind (attempt d (commandKind sql) (\<lambda>c. on_driver (drv_exec d c sql)))
                  (\<lambda>_. io_return ())),
      db_run = (\<lambda>sql params. io_bind (withStatement d sql (\<lambda>s. drv_run d s params))
                  (\<lambda>r. io_return (the r))),
      db_get = (\<lambda>sql params. io_bind (withStatement d sql
                  (\<lambda>s. io_bind (drv_all d s params) (\<lambda>rows. io_return (first_row rows))))
                  (\<lambda>r. io_return (the r))),
      db_all = (\<lambda>sql params. io_bind (withStatement d sql (\<lambda>s. drv_all d s params))
                  (\<lambda>r. io_return (the r))),
      db_close = (\<lambda>h. on_driver (drv_close d (current h)) h)\<rparr>"

subsection \<open>Transactions\<close>

text \<open>
  The statements a transaction issues and what they answer. The body \<open>fn\<close> of a transaction is a
  program that issues statements one after another; no body of the store catches the error of a
  statement, so an error of one is the error of the body.
\<close>

datatype Query =
    QueryExec string
  | QueryRun string "SqlValue list"
  | QueryGet string "SqlValue list"
  | QueryAll string "SqlValue list"

datatype Reply = Done | Changed RunInfo | Row "SqlRow option" | Rows "SqlRow list"

fun perform :: "'h ReservedDatabase \<Rightarrow> Query \<Rightarrow> ('h, Reply) io" where
  "perform db (QueryExec sql) = io_bind (db_exec db sql) (\<lambda>_. io_return Done)"
| "perform db (QueryRun sql params) = io_bind (db_run db sql params) (\<lambda>i. io_return (Changed i))"
| "perform db (QueryGet sql params) = io_bind (db_get db sql params) (\<lambda>r. io_return (Row r))"
| "perform db (QueryAll sql params) = io_bind (db_all db sql params) (\<lambda>rs. io_return (Rows rs))"

datatype 'a Body =
    Return 'a
  | Throw Thrown
  | Call Query "Reply \<Rightarrow> 'a Body"

primrec run_body :: "'h ReservedDatabase \<Rightarrow> 'a Body \<Rightarrow> ('h, 'a) io" where
  "run_body db (Return x) = io_return x"
| "run_body db (Throw e) = io_throw e"
| "run_body db (Call q k) = io_bind (perform db q) (\<lambda>r. run_body db (k r))"

text \<open>The error of the body or of the commit is what is thrown, whatever the rollback says.\<close>

definition runTransaction :: "'h ReservedDatabase \<Rightarrow> 'a Body \<Rightarrow> ('h, 'a) io" where
  "runTransaction db fn =
     io_bind (db_exec db ''BEGIN IMMEDIATE'') (\<lambda>_ h.
       case io_bind (run_body db fn) (\<lambda>x. io_bind (db_exec db ''COMMIT'') (\<lambda>_. io_return x)) h of
         (Inr x, h1) \<Rightarrow> (Inr x, h1)
       | (Inl e, h1) \<Rightarrow> (Inl e, snd (db_exec db ''ROLLBACK'' h1)))"

subsection \<open>The queue of a handle\<close>

text \<open>
  \<open>withTransaction\<close> appends its transaction to the chain of promises of the handle; the head of the
  chain runs, statement by statement, and settles its promise before the next one begins. Between
  two steps of a transaction another request may use the same handle outside a transaction, which is
  the rule \<open>outside\<close>; \<open>allowed\<close> says with which statements. A transaction is known by its place
  among the calls, which \<open>q_called\<close> keeps; \<open>q_settled\<close> is how the promises settled, in that order.
\<close>

datatype 'a Phase = InBody "'a Body" | RollingBack Thrown

record ('h, 'a) Queue =
  q_handle :: 'h
  q_running :: "(nat \<times> 'a Phase) option"
  q_waiting :: "(nat \<times> 'a Body) list"
  q_settled :: "(nat \<times> (Thrown + 'a)) list"
  q_called :: "'a Body list"

definition new_queue :: "'h \<Rightarrow> ('h, 'a) Queue" where
  "new_queue h = \<lparr>q_handle = h, q_running = None, q_waiting = [], q_settled = [], q_called = []\<rparr>"

definition withTransaction_call :: "'a Body \<Rightarrow> ('h, 'a) Queue \<Rightarrow> ('h, 'a) Queue" where
  "withTransaction_call fn q =
     q\<lparr>q_waiting := q_waiting q @ [(length (q_called q), fn)], q_called := q_called q @ [fn]\<rparr>"

definition settle :: "nat \<Rightarrow> Thrown + 'a \<Rightarrow> 'h \<Rightarrow> ('h, 'a) Queue \<Rightarrow> ('h, 'a) Queue" where
  "settle i r h q = q\<lparr>q_handle := h, q_running := None, q_settled := q_settled q @ [(i, r)]\<rparr>"

definition run_phase :: "nat \<Rightarrow> 'a Phase \<Rightarrow> 'h \<Rightarrow> ('h, 'a) Queue \<Rightarrow> ('h, 'a) Queue" where
  "run_phase i p h q = q\<lparr>q_handle := h, q_running := Some (i, p)\<rparr>"

fun start_next :: "'h ReservedDatabase \<Rightarrow> ('h, 'a) Queue \<Rightarrow> ('h, 'a) Queue" where
  "start_next db q =
     (case (q_running q, q_waiting q) of
        (None, (i, fn) # rest) \<Rightarrow>
          (case db_exec db ''BEGIN IMMEDIATE'' (q_handle q) of
             (Inl e, h) \<Rightarrow> settle i (Inl e) h (q\<lparr>q_waiting := rest\<rparr>)
           | (Inr _, h) \<Rightarrow> run_phase i (InBody fn) h (q\<lparr>q_waiting := rest\<rparr>))
      | _ \<Rightarrow> q)"

fun advance :: "'h ReservedDatabase \<Rightarrow> ('h, 'a) Queue \<Rightarrow> ('h, 'a) Queue" where
  "advance db q =
     (case q_running q of
        None \<Rightarrow> q
      | Some (i, InBody (Return x)) \<Rightarrow>
          (case db_exec db ''COMMIT'' (q_handle q) of
             (Inl e, h) \<Rightarrow> run_phase i (RollingBack e) h q
           | (Inr _, h) \<Rightarrow> settle i (Inr x) h q)
      | Some (i, InBody (Throw e)) \<Rightarrow> run_phase i (RollingBack e) (q_handle q) q
      | Some (i, InBody (Call s k)) \<Rightarrow>
          (case perform db s (q_handle q) of
             (Inl e, h) \<Rightarrow> run_phase i (RollingBack e) h q
           | (Inr r, h) \<Rightarrow> run_phase i (InBody (k r)) h q)
      | Some (i, RollingBack e) \<Rightarrow> settle i (Inl e) (snd (db_exec db ''ROLLBACK'' (q_handle q))) q)"

inductive queue_step ::
    "'h ReservedDatabase \<Rightarrow> (Query \<Rightarrow> 'h \<Rightarrow> bool) \<Rightarrow> ('h, 'a) Queue \<Rightarrow> ('h, 'a) Queue \<Rightarrow> bool"
  for db :: "'h ReservedDatabase" and allowed :: "Query \<Rightarrow> 'h \<Rightarrow> bool" where
  called: "queue_step db allowed q (withTransaction_call fn q)"
| started: "q_running q = None \<Longrightarrow> q_waiting q \<noteq> [] \<Longrightarrow> queue_step db allowed q (start_next db q)"
| advanced: "q_running q \<noteq> None \<Longrightarrow> queue_step db allowed q (advance db q)"
| outside: "allowed s (q_handle q) \<Longrightarrow>
    queue_step db allowed q (q\<lparr>q_handle := snd (perform db s (q_handle q))\<rparr>)"

subsection \<open>Migrations\<close>

record Migration =
  mg_version :: nat
  mg_name :: string
  mg_sql :: string

definition name_char :: "char \<Rightarrow> bool" where
  "name_char c \<longleftrightarrow> is_lower c \<or> is_digit c \<or> c = CHR ''_''"

text \<open>\<open>/^(\d{4})_([a-z0-9_]+)\.sql$/\<close> and its two groups.\<close>

definition MIGRATION_FILE :: "string \<Rightarrow> (string \<times> string) option" where
  "MIGRATION_FILE file =
     (let number = take 4 file; rest = drop 5 file; name = take (length rest - 4) rest in
      if length number = 4 \<and> list_all is_digit number
         \<and> take 1 (drop 4 file) = ''_''
         \<and> name \<noteq> [] \<and> list_all name_char name \<and> drop (length rest - 4) rest = ''.sql''
      then Some (number, name) else None)"

fun migration_of :: "string \<times> string \<Rightarrow> Migration option" where
  "migration_of (file, contents) =
     map_option (\<lambda>(number, name). \<lparr>mg_version = digits_value number, mg_name = name, mg_sql = contents\<rparr>)
       (MIGRATION_FILE file)"

fun check_versions :: "nat \<Rightarrow> nat \<Rightarrow> Migration list \<Rightarrow> Thrown + unit" where
  "check_versions expected previous [] = Inr ()"
| "check_versions expected previous (m # ms) =
     (if mg_version m \<noteq> expected
      then Inl (ErrorWith (''Reserved migration '' @ digits10 expected @ '' is missing: the tree jumps from ''
                  @ digits10 previous @ '' to '' @ digits10 (mg_version m)))
      else check_versions (expected + 1) (mg_version m) ms)"

text \<open>The directory is its files with their contents, in the order \<open>readdirSync\<close> lists them.\<close>

definition migrationsUnder :: "(string \<times> string) list \<Rightarrow> Thrown + Migration list" where
  "migrationsUnder files =
     (let migrations = sort_key mg_version (List.map_filter migration_of files) in
      andThen (check_versions 1 0 migrations) (\<lambda>_. Inr migrations))"

subsection \<open>Opening the database\<close>

definition isRemoteDatabaseUrl :: "string \<Rightarrow> bool" where
  "isRemoteDatabaseUrl url \<longleftrightarrow> startsWith url ''libsql:'' \<or> startsWith url ''https:''"

definition resolveDatabasePath :: "string \<Rightarrow> string" where
  "resolveDatabasePath url =
     (if url = '':memory:'' then '':memory:''
      else if isRemoteDatabaseUrl url then url
      else if startsWith url ''file:'' then drop (length ''file:'') url
      else url)"

definition row_version :: "SqlRow \<Rightarrow> int option" where
  "row_version row = (case map_of row ''version'' of Some (SqlInt i) \<Rightarrow> Some i | _ \<Rightarrow> None)"

definition CREATE_SCHEMA_MIGRATIONS :: string where
  "CREATE_SCHEMA_MIGRATIONS =
     ''CREATE TABLE IF NOT EXISTS schema_migrations (version INTEGER PRIMARY KEY, applied_at INTEGER NOT NULL)''"

definition INSERT_VERSION :: string where
  "INSERT_VERSION = ''INSERT INTO schema_migrations (version, applied_at) VALUES (?, ?)''"

definition SELECT_VERSIONS :: string where
  "SELECT_VERSIONS = ''SELECT version FROM schema_migrations''"

text \<open>One migration: its change and the record of it in one transaction.\<close>

definition migration_body :: "int \<Rightarrow> Migration \<Rightarrow> unit Body" where
  "migration_body nowMs m =
     Call (QueryExec (mg_sql m)) (\<lambda>_.
     Call (QueryRun INSERT_VERSION [SqlInt (int (mg_version m)), SqlInt nowMs]) (\<lambda>_. Return ()))"

definition migration_failed :: "Migration \<Rightarrow> Thrown \<Rightarrow> Thrown" where
  "migration_failed m e =
     ErrorWith (''Reserved migration '' @ digits10 (mg_version m) @ '' ('' @ mg_name m @ '') failed: ''
       @ thrown_text e)"

definition apply_migration :: "'h ReservedDatabase \<Rightarrow> int \<Rightarrow> Migration \<Rightarrow> ('h, unit) io" where
  "apply_migration db nowMs m =
     io_bind (db_exec db ''BEGIN'') (\<lambda>_ h.
       case io_bind (run_body db (migration_body nowMs m)) (\<lambda>_. db_exec db ''COMMIT'') h of
         (Inr _, h1) \<Rightarrow> (Inr (), h1)
       | (Inl e, h1) \<Rightarrow>
           (case db_exec db ''ROLLBACK'' h1 of
              (Inl e', h2) \<Rightarrow> (Inl e', h2)
            | (Inr _, h2) \<Rightarrow> (Inl (migration_failed m e), h2)))"

fun apply_migrations :: "'h ReservedDatabase \<Rightarrow> int \<Rightarrow> Migration list \<Rightarrow> ('h, unit) io" where
  "apply_migrations db nowMs [] = io_return ()"
| "apply_migrations db nowMs (m # ms) =
     io_bind (apply_migration db nowMs m) (\<lambda>_. apply_migrations db nowMs ms)"

definition ahead_of_build :: "int list \<Rightarrow> nat \<Rightarrow> Thrown" where
  "ahead_of_build ahead known =
     ErrorWith (''Reserved database is at schema version '' @ string_of_int (fold max ahead (hd ahead))
       @ '' and this build knows '' @ digits10 known
       @ ''; a newer schema read by older code is refused rather than tolerated'')"

text \<open>The part of \<open>openReservedDatabase\<close> after the handle exists.\<close>

definition bring_up_to_date ::
    "'h ReservedDatabase \<Rightarrow> (string \<times> string) list \<Rightarrow> int \<Rightarrow> ('h, unit) io" where
  "bring_up_to_date db files nowMs =
     io_bind (db_exec db ''PRAGMA foreign_keys = ON'') (\<lambda>_.
     io_bind (db_exec db CREATE_SCHEMA_MIGRATIONS) (\<lambda>_ h.
       case migrationsUnder files of
         Inl e \<Rightarrow> (Inl e, h)
       | Inr migrations \<Rightarrow>
           io_bind (db_all db SELECT_VERSIONS []) (\<lambda>rows.
             let knownVersion = (if migrations = [] then 0 else mg_version (last migrations));
                 applied = dedup (map row_version rows);
                 ahead = filter (\<lambda>v. v > int knownVersion) (List.map_filter id applied)
             in if ahead \<noteq> [] then io_throw (ahead_of_build ahead knownVersion)
                else apply_migrations db nowMs
                       (filter (\<lambda>m. Some (int (mg_version m)) \<notin> set applied) migrations)) h))"

text \<open>The two classes behind the interface, and the dispatch of a call to the one at hand.\<close>

datatype ('c, 's, 'w) AnyHandle = Plain "('c, 'w) PlainHandle" | Reconnecting "('c, 's, 'w) Handle"

fun either :: "(('c, 'w) PlainHandle, 'a) io \<Rightarrow> (('c, 's, 'w) Handle, 'a) io
    \<Rightarrow> (('c, 's, 'w) AnyHandle, 'a) io" where
  "either f g (Plain p) = map_prod id Plain (f p)"
| "either f g (Reconnecting h) = map_prod id Reconnecting (g h)"

definition any_database :: "('c, 's, 'w) Driver \<Rightarrow> ('c, 's, 'w) AnyHandle ReservedDatabase" where
  "any_database d =
     (let p = promise_database d; r = reconnecting_database d in
      \<lparr>db_exec = (\<lambda>sql. either (db_exec p sql) (db_exec r sql)),
       db_run = (\<lambda>sql params. either (db_run p sql params) (db_run r sql params)),
       db_get = (\<lambda>sql params. either (db_get p sql params) (db_get r sql params)),
       db_all = (\<lambda>sql params. either (db_all p sql params) (db_all r sql params)),
       db_close = either (db_close p) (db_close r)\<rparr>)"

record ('c, 's, 'w) OpenOptions =
  opt_url :: string
  opt_authToken :: "string option"
  opt_handle :: "('c, 's, 'w) AnyHandle option"

text \<open>
  \<open>libsql path token\<close> is the driver whose constructor opens \<open>path\<close> with \<open>token\<close>. A caller is given the
  handle, or the error; a handle that failed to come up to date is dropped.
\<close>

definition open_handle ::
    "(string \<Rightarrow> string option \<Rightarrow> ('c, 's, 'w) Driver) \<Rightarrow> ('c, 's, 'w) OpenOptions \<Rightarrow> 'w
      \<Rightarrow> Thrown + ('c, 's, 'w) AnyHandle" where
  "open_handle libsql options w =
     (let remote = isRemoteDatabaseUrl (opt_url options);
          d = libsql (resolveDatabasePath (opt_url options)) (if remote then opt_authToken options else None)
      in case opt_handle options of
           Some h \<Rightarrow> Inr h
         | None \<Rightarrow>
             if remote then (case new_handle d w of (Inl e, _) \<Rightarrow> Inl e | (Inr h, _) \<Rightarrow> Inr (Reconnecting h))
             else (case drv_open d w of
                 (Inl e, _) \<Rightarrow> Inl e
               | (Inr c, w') \<Rightarrow> Inr (Plain \<lparr>pl_driver = c, pl_world = w'\<rparr>)))"

definition falsy :: "string option \<Rightarrow> bool" where
  "falsy s \<longleftrightarrow> s = None \<or> s = Some []"

definition openReservedDatabase ::
    "(string \<Rightarrow> string option \<Rightarrow> ('c, 's, 'w) Driver) \<Rightarrow> ('c, 's, 'w) OpenOptions
      \<Rightarrow> (string \<times> string) list \<Rightarrow> int \<Rightarrow> 'w \<Rightarrow> Thrown + ('c, 's, 'w) AnyHandle" where
  "openReservedDatabase libsql options files nowMs w =
     (let remote = isRemoteDatabaseUrl (opt_url options);
          d = libsql (resolveDatabasePath (opt_url options)) (if remote then opt_authToken options else None)
      in if opt_handle options = None \<and> remote \<and> falsy (opt_authToken options)
         then Inl (ErrorWith (''Reserved database URL '' @ opt_url options
                     @ '' is remote and needs an auth token, but none was given''))
         else andThen (open_handle libsql options w) (\<lambda>h.
           case bring_up_to_date (any_database d) files nowMs h of
             (Inl e, _) \<Rightarrow> Inl e
           | (Inr _, h') \<Rightarrow> Inr h'))"

end
