(* ===== verification/Db_Transactions.thy ===== *)
theory Db_Transactions
  imports Reserved_Db
begin

text \<open>
  What a handle promises a transaction. The abstract transaction is atomic: it maps the tables to the
  tables after it, or leaves them alone. The locale \<open>transactional_handle\<close> states what the calls of a
  handle guarantee, and its lemmas derive that a transaction run through them is atomic and that a
  queue of transactions, interleaved with reads, is a serial execution in the order of the calls. The
  locale \<open>sql_driver\<close> states what the libSQL driver documents, and gives the contract of both handles.
\<close>

subsection \<open>The abstract transaction\<close>

primrec denote :: "(Query \<Rightarrow> 'd \<Rightarrow> ('d \<times> Reply) option) \<Rightarrow> 'a Body \<Rightarrow> 'd \<Rightarrow> ('d \<times> 'a) option" where
  "denote m (Return x) t = Some (t, x)"
| "denote m (Throw e) t = None"
| "denote m (Call q k) t = (case m q t of None \<Rightarrow> None | Some (t', r) \<Rightarrow> denote m (k r) t')"

primrec body_calls :: "(Query \<Rightarrow> bool) \<Rightarrow> 'a Body \<Rightarrow> bool" where
  "body_calls P (Return x) \<longleftrightarrow> True"
| "body_calls P (Throw e) \<longleftrightarrow> True"
| "body_calls P (Call q k) \<longleftrightarrow> P q \<and> (\<forall>r. body_calls P (k r))"

text \<open>
  How an atomic transaction on the tables \<open>t\<close> may end: with the value and the tables of its body, or
  with an error and the tables as they were. An error of the commit itself may hide that the server
  did commit; then the tables are those of the whole body.
\<close>

definition atomic_outcome ::
    "(Query \<Rightarrow> 'd \<Rightarrow> ('d \<times> Reply) option) \<Rightarrow> 'a Body \<Rightarrow> 'd \<Rightarrow> Thrown + 'a \<Rightarrow> 'd \<Rightarrow> bool" where
  "atomic_outcome m fn t r t' \<longleftrightarrow>
     (case r of
        Inr x \<Rightarrow> denote m fn t = Some (t', x)
      | Inl e \<Rightarrow> t' = t \<or> (\<exists>x. denote m fn t = Some (t', x)))"

lemma atomic_outcome_simps [simp]:
  "atomic_outcome m fn t (Inr x) t' \<longleftrightarrow> denote m fn t = Some (t', x)"
  "atomic_outcome m fn t (Inl e) t' \<longleftrightarrow> t' = t \<or> (\<exists>x. denote m fn t = Some (t', x))"
  by (simp_all add: atomic_outcome_def)

inductive serial ::
    "(Query \<Rightarrow> 'd \<Rightarrow> ('d \<times> Reply) option) \<Rightarrow> 'd \<Rightarrow> 'a Body list \<Rightarrow> (Thrown + 'a) list \<Rightarrow> 'd \<Rightarrow> bool"
  for m :: "Query \<Rightarrow> 'd \<Rightarrow> ('d \<times> Reply) option" and t0 :: 'd where
  serial_none: "serial m t0 [] [] t0"
| serial_one_more: "serial m t0 fns rs t \<Longrightarrow> atomic_outcome m fn t r t' \<Longrightarrow>
    serial m t0 (fns @ [fn]) (rs @ [r]) t'"

fun migrated :: "(Query \<Rightarrow> 'd \<Rightarrow> ('d \<times> Reply) option) \<Rightarrow> int \<Rightarrow> Migration list \<Rightarrow> 'd \<Rightarrow> 'd option" where
  "migrated m nowMs [] t = Some t"
| "migrated m nowMs (g # gs) t =
     (case denote m (migration_body nowMs g) t of None \<Rightarrow> None | Some (t', _) \<Rightarrow> migrated m nowMs gs t')"

subsection \<open>Steps of the calls\<close>

lemma io_simps [simp]:
  "io_bind (io_return x) f = f x"
  "io_bind (io_throw e) f = io_throw e"
  "io_return x h = (Inr x, h)"
  "io_throw e h = (Inl e, h)"
  by (auto simp: io_bind_def io_return_def io_throw_def fun_eq_iff)

lemma io_bind_return [simp]: "io_bind m io_return = m" "io_bind m (\<lambda>x. io_return x) = m"
  by (auto simp: io_bind_def io_return_def fun_eq_iff split: prod.splits sum.splits)

lemma io_bind_assoc: "io_bind (io_bind m f) g = io_bind m (\<lambda>x. io_bind (f x) g)"
  by (auto simp: io_bind_def fun_eq_iff split: prod.splits sum.splits)

lemma io_bind_unit: "io_bind m (\<lambda>_. io_return u) = m" for u :: unit
  by (auto simp: io_bind_def io_return_def fun_eq_iff split: prod.splits sum.splits)

lemma io_bind_Inr [simp]: "m h = (Inr x, h1) \<Longrightarrow> io_bind m f h = f x h1"
  by (simp add: io_bind_def)

lemma io_bind_Inl [simp]: "m h = (Inl e, h1) \<Longrightarrow> io_bind m f h = (Inl e, h1)"
  by (simp add: io_bind_def)

lemma io_bind_cases:
  assumes "io_bind m f h = (r, h')"
  obtains (thrown) e where "m h = (Inl e, h')" and "r = Inl e"
  | (went_on) x h1 where "m h = (Inr x, h1)" and "f x h1 = (r, h')"
  using assms by (auto simp: io_bind_def split: prod.splits sum.splits)

lemma command_kinds [simp]:
  "commandKind ''BEGIN IMMEDIATE'' = OpBegin"
  "commandKind ''BEGIN'' = OpBegin"
  "commandKind ''COMMIT'' = OpCommit"
  "commandKind ''ROLLBACK'' = OpRollback"
  "commandKind ''PRAGMA foreign_keys = ON'' = OpOther"
  by code_simp+

subsection \<open>The contract of a handle\<close>

locale transactional_handle =
  fixes db :: "'h ReservedDatabase"
    and tables :: "'h \<Rightarrow> 'd"
    and sound :: "'h \<Rightarrow> bool"
    and open_with :: "'h \<Rightarrow> 'd \<Rightarrow> bool"
    and meaning :: "Query \<Rightarrow> 'd \<Rightarrow> ('d \<times> Reply) option"
    and plain :: "Query \<Rightarrow> bool"
  assumes open_sound: "open_with h t \<Longrightarrow> sound h"
    and begin_opens: "sound h \<Longrightarrow> commandKind sql = OpBegin \<Longrightarrow> db_exec db sql h = (r, h') \<Longrightarrow>
      sound h' \<and> tables h' = tables h \<and> (\<forall>u. r = Inr u \<longrightarrow> open_with h' (tables h))"
    and statement_works: "open_with h t \<Longrightarrow> plain q \<Longrightarrow> perform db q h = (a, h') \<Longrightarrow>
      sound h' \<and> tables h' = tables h
      \<and> (\<forall>v. a = Inr v \<longrightarrow> (\<exists>t'. meaning q t = Some (t', v) \<and> open_with h' t'))"
    and commit_publishes: "open_with h t \<Longrightarrow> db_exec db ''COMMIT'' h = (r, h') \<Longrightarrow>
      sound h' \<and> (case r of Inr u \<Rightarrow> tables h' = t | Inl e \<Rightarrow> tables h' = tables h \<or> tables h' = t)"
    and rollback_keeps: "sound h \<Longrightarrow> db_exec db ''ROLLBACK'' h = (r, h') \<Longrightarrow>
      sound h' \<and> tables h' = tables h"
begin

lemma run_body_refines:
  assumes "open_with h t" and "body_calls plain fn" and "run_body db fn h = (r, h')"
  shows "sound h' \<and> tables h' = tables h
    \<and> (\<forall>x. r = Inr x \<longrightarrow> (\<exists>t'. denote meaning fn t = Some (t', x) \<and> open_with h' t'))"
  using assms
proof (induction fn arbitrary: h t)
  case (Call q k)
  from Call.prems(3) have "io_bind (perform db q) (\<lambda>r. run_body db (k r)) h = (r, h')" by simp
  then show ?case
  proof (cases rule: io_bind_cases)
    case (thrown e)
    then show ?thesis using statement_works [of h t q] Call.prems by auto
  next
    case (went_on v h1)
    then obtain t1 where "meaning q t = Some (t1, v)" "open_with h1 t1" "tables h1 = tables h"
      using statement_works [of h t q] Call.prems by fastforce
    then show ?thesis using Call.IH [of "k v" h1 t1] Call.prems went_on by auto
  qed
qed (auto dest: open_sound)

text \<open>The body and its commit: the whole of its effect, or none of it so far.\<close>

lemma body_and_commit:
  assumes "open_with h (tables h)" and "body_calls plain fn"
    and "io_bind (run_body db fn) (\<lambda>x. io_bind (db_exec db ''COMMIT'') (\<lambda>_. io_return x)) h = (r, h')"
  shows "sound h' \<and> atomic_outcome meaning fn (tables h) r (tables h')"
  using assms(3)
proof (cases rule: io_bind_cases)
  case (thrown e)
  then show ?thesis using run_body_refines [OF assms(1,2)] by auto
next
  case (went_on x h1)
  obtain t' where t': "denote meaning fn (tables h) = Some (t', x)" "open_with h1 t'" "tables h1 = tables h"
    using run_body_refines [OF assms(1,2) went_on(1)] by auto
  from went_on(2) show ?thesis
  proof (cases rule: io_bind_cases)
    case (thrown e)
    then show ?thesis using commit_publishes [OF t'(2) thrown(1)] t' by auto
  next
    case (went_on u h2)
    then show ?thesis using commit_publishes [OF t'(2) went_on(1)] t' by auto
  qed
qed

lemma runTransaction_atomic:
  assumes "sound h" and "body_calls plain fn" and "runTransaction db fn h = (r, h')"
  shows "sound h' \<and> atomic_outcome meaning fn (tables h) r (tables h')"
  using assms(3) unfolding runTransaction_def
proof (cases rule: io_bind_cases)
  case (thrown e)
  then show ?thesis using begin_opens [OF assms(1) _ thrown(1)] by simp
next
  case (went_on u h1)
  have h1: "open_with h1 (tables h1)" "tables h1 = tables h"
    using begin_opens [OF assms(1) _ went_on(1)] by auto
  obtain s h2 where run: "io_bind (run_body db fn) (\<lambda>x. io_bind (db_exec db ''COMMIT'') (\<lambda>_. io_return x)) h1 = (s, h2)"
    by fastforce
  then have h2: "sound h2" "atomic_outcome meaning fn (tables h) s (tables h2)"
    using body_and_commit [OF h1(1) assms(2) run] h1(2) by auto
  show ?thesis
  proof (cases s)
    case (Inl e)
    obtain u' h3 where "db_exec db ''ROLLBACK'' h2 = (u', h3)" by fastforce
    then show ?thesis using rollback_keeps [OF h2(1)] h2 went_on(2) run Inl by auto
  next
    case (Inr x)
    then show ?thesis using h2 went_on(2) run by auto
  qed
qed

lemma apply_migration_atomic:
  assumes "sound h" and "body_calls plain (migration_body nowMs m)"
    and "apply_migration db nowMs m h = (r, h')"
  shows "sound h' \<and> atomic_outcome meaning (migration_body nowMs m) (tables h) r (tables h')"
  using assms(3) unfolding apply_migration_def
proof (cases rule: io_bind_cases)
  case (thrown e)
  then show ?thesis using begin_opens [OF assms(1) _ thrown(1)] by simp
next
  case (went_on u h1)
  have h1: "open_with h1 (tables h1)" "tables h1 = tables h"
    using begin_opens [OF assms(1) _ went_on(1)] by auto
  obtain s h2 where run: "io_bind (run_body db (migration_body nowMs m)) (\<lambda>_. db_exec db ''COMMIT'') h1 = (s, h2)"
    by fastforce
  then have h2: "sound h2" "atomic_outcome meaning (migration_body nowMs m) (tables h) s (tables h2)"
    using body_and_commit [OF h1(1) assms(2), of s h2] h1(2) by (simp_all only: io_bind_unit)
  show ?thesis
  proof (cases s)
    case (Inl e)
    obtain u' h3 where "db_exec db ''ROLLBACK'' h2 = (u', h3)" by fastforce
    then show ?thesis using rollback_keeps [OF h2(1)] h2 went_on(2) run Inl by (auto split: sum.splits)
  next
    case (Inr x)
    then show ?thesis using h2 went_on(2) run by auto
  qed
qed

lemma apply_migrations_prefix:
  assumes "sound h" and "list_all (\<lambda>m. body_calls plain (migration_body nowMs m)) ms"
    and "apply_migrations db nowMs ms h = (r, h')"
  shows "\<exists>k \<le> length ms. migrated meaning nowMs (take k ms) (tables h) = Some (tables h')
    \<and> (r = Inr () \<longrightarrow> k = length ms)"
  using assms
proof (induction ms arbitrary: h)
  case (Cons m ms)
  from Cons.prems(3) have "io_bind (apply_migration db nowMs m) (\<lambda>_. apply_migrations db nowMs ms) h = (r, h')"
    by simp
  then show ?case
  proof (cases rule: io_bind_cases)
    case (thrown e)
    then consider "tables h' = tables h" | "denote meaning (migration_body nowMs m) (tables h) = Some (tables h', ())"
      using apply_migration_atomic [OF Cons.prems(1) _ thrown(1)] Cons.prems(2) by auto
    then show ?thesis
    proof cases
      case 1
      then show ?thesis using thrown by (intro exI [of _ 0]) simp
    next
      case 2
      then show ?thesis using thrown by (intro exI [of _ 1]) simp
    qed
  next
    case (went_on u h1)
    then have h1: "sound h1" "denote meaning (migration_body nowMs m) (tables h) = Some (tables h1, ())"
      using apply_migration_atomic [OF Cons.prems(1) _ went_on(1)] Cons.prems(2) by auto
    obtain k where "k \<le> length ms" "migrated meaning nowMs (take k ms) (tables h1) = Some (tables h')"
        "r = Inr () \<longrightarrow> k = length ms"
      using Cons.IH [OF h1(1) _ went_on(2)] Cons.prems(2) by auto
    then show ?thesis using h1(2) by (intro exI [of _ "Suc k"]) simp
  qed
qed simp

end

subsection \<open>A queue of transactions\<close>

declare start_next.simps [simp del] advance.simps [simp del]

text \<open>
  Where a running transaction stands against the atomic one: its remaining body on its uncommitted
  tables gives what the whole body gives on the committed ones, or it failed and only has to roll back.
\<close>

definition phase_stands ::
    "('h \<Rightarrow> 'd) \<Rightarrow> ('h \<Rightarrow> bool) \<Rightarrow> ('h \<Rightarrow> 'd \<Rightarrow> bool) \<Rightarrow> (Query \<Rightarrow> 'd \<Rightarrow> ('d \<times> Reply) option)
      \<Rightarrow> (Query \<Rightarrow> bool) \<Rightarrow> 'a Body \<Rightarrow> 'd \<Rightarrow> 'h \<Rightarrow> 'a Phase \<Rightarrow> bool" where
  "phase_stands tables sound open_with meaning plain fn t h p \<longleftrightarrow>
     (case p of
        InBody b \<Rightarrow> tables h = t \<and> body_calls plain b
          \<and> (\<exists>x. open_with h x \<and> denote meaning b x = denote meaning fn t)
      | RollingBack e \<Rightarrow> sound h \<and> atomic_outcome meaning fn t (Inl e :: Thrown + 'a) (tables h))"

text \<open>The transactions called so far: the settled ones, the running one, the waiting ones, in order.\<close>

definition serialised ::
    "('h \<Rightarrow> 'd) \<Rightarrow> ('h \<Rightarrow> bool) \<Rightarrow> ('h \<Rightarrow> 'd \<Rightarrow> bool) \<Rightarrow> (Query \<Rightarrow> 'd \<Rightarrow> ('d \<times> Reply) option)
      \<Rightarrow> (Query \<Rightarrow> bool) \<Rightarrow> 'd \<Rightarrow> ('h, 'a) Queue \<Rightarrow> bool" where
  "serialised tables sound open_with meaning plain t0 q \<longleftrightarrow>
     (let k = length (q_settled q) in
      map fst (q_settled q) = [0..<k] \<and> k \<le> length (q_called q)
      \<and> (case q_running q of
           None \<Rightarrow> sound (q_handle q)
             \<and> q_waiting q = drop k (List.enumerate 0 (q_called q))
             \<and> serial meaning t0 (take k (q_called q)) (map snd (q_settled q)) (tables (q_handle q))
         | Some (i, p) \<Rightarrow> i = k \<and> k < length (q_called q)
             \<and> q_waiting q = drop (Suc k) (List.enumerate 0 (q_called q))
             \<and> (\<exists>t. serial meaning t0 (take k (q_called q)) (map snd (q_settled q)) t
                  \<and> phase_stands tables sound open_with meaning plain (q_called q ! k) t (q_handle q) p)))"

locale queued_handle = transactional_handle db tables sound open_with meaning plain
  for db :: "'h ReservedDatabase" and tables :: "'h \<Rightarrow> 'd" and sound :: "'h \<Rightarrow> bool"
    and open_with :: "'h \<Rightarrow> 'd \<Rightarrow> bool" and meaning :: "Query \<Rightarrow> 'd \<Rightarrow> ('d \<times> Reply) option"
    and plain :: "Query \<Rightarrow> bool" +
  fixes allowed :: "Query \<Rightarrow> 'h \<Rightarrow> bool"
  assumes outside_keeps: "sound h \<Longrightarrow> allowed q h \<Longrightarrow> perform db q h = (a, h') \<Longrightarrow>
      sound h' \<and> tables h' = tables h \<and> (\<forall>t. open_with h t \<longrightarrow> open_with h' t)"
begin

abbreviation stands :: "'a Body \<Rightarrow> 'd \<Rightarrow> 'h \<Rightarrow> 'a Phase \<Rightarrow> bool" where
  "stands \<equiv> phase_stands tables sound open_with meaning plain"

abbreviation in_order :: "'d \<Rightarrow> ('h, 'a) Queue \<Rightarrow> bool" where
  "in_order \<equiv> serialised tables sound open_with meaning plain"

lemma stands_sound: "stands fn t h p \<Longrightarrow> sound h"
  by (auto simp: phase_stands_def open_sound split: Phase.splits)

lemma stands_outside:
  assumes "stands fn t h p" and "allowed q h" and "perform db q h = (a, h')"
  shows "stands fn t h' p"
  using outside_keeps [OF stands_sound [OF assms(1)] assms(2,3)] assms(1)
  by (auto simp: phase_stands_def split: Phase.splits)

text \<open>One step of the running transaction keeps it where it stands, or settles it atomically.\<close>

lemma statement_stands:
  assumes "stands fn t h (InBody (Call s k))" and "perform db s h = (a, h')"
  shows "case a of Inl e \<Rightarrow> stands fn t h' (RollingBack e) | Inr v \<Rightarrow> stands fn t h' (InBody (k v))"
proof -
  obtain x where x: "open_with h x" "denote meaning (Call s k) x = denote meaning fn t" "plain s"
      "\<forall>v. body_calls plain (k v)" "tables h = t"
    using assms(1) by (auto simp: phase_stands_def)
  show ?thesis
    using statement_works [OF x(1,3) assms(2)] x by (fastforce simp: phase_stands_def split: sum.splits)
qed

lemma commit_stands:
  assumes "stands fn t h (InBody (Return x))" and "db_exec db ''COMMIT'' h = (r, h')"
  shows "case r of Inl e \<Rightarrow> stands fn t h' (RollingBack e)
    | Inr u \<Rightarrow> sound h' \<and> atomic_outcome meaning fn t (Inr x) (tables h')"
proof -
  obtain y where y: "open_with h y" "denote meaning fn t = Some (y, x)" "tables h = t"
    using assms(1) by (auto simp: phase_stands_def)
  show ?thesis
    using commit_publishes [OF y(1) assms(2)] y by (auto simp: phase_stands_def split: sum.splits)
qed

lemma throw_stands: "stands fn t h (InBody (Throw e)) \<Longrightarrow> stands fn t h (RollingBack e)"
  by (auto simp: phase_stands_def open_sound)

lemma rollback_stands:
  assumes "stands fn t h (RollingBack e)" and "db_exec db ''ROLLBACK'' h = (r, h')"
  shows "sound h' \<and> atomic_outcome meaning fn t (Inl e) (tables h')"
  using rollback_keeps [OF stands_sound [OF assms(1)] assms(2)] assms(1)
  by (auto simp: phase_stands_def)

lemma begin_stands:
  assumes "sound h" and "body_calls plain fn" and "db_exec db ''BEGIN IMMEDIATE'' h = (Inr u, h')"
  shows "stands fn (tables h) h' (InBody fn)"
  using begin_opens [OF assms(1) _ assms(3)] assms(2) by (auto simp: phase_stands_def)

lemma in_order_phase:
  assumes "in_order t0 q" and "q_running q = Some (i, p)"
  obtains t where "serial meaning t0 (take i (q_called q)) (map snd (q_settled q)) t"
    and "stands (q_called q ! i) t (q_handle q) p" and "i = length (q_settled q)"
  using assms by (auto simp: serialised_def Let_def)

lemma in_order_run:
  assumes "in_order t0 q" and "q_running q = Some (i, p)"
    and "\<And>t. stands (q_called q ! i) t (q_handle q) p \<Longrightarrow> stands (q_called q ! i) t h p'"
  shows "in_order t0 (run_phase i p' h q)"
  using assms by (auto simp: serialised_def Let_def run_phase_def)

lemma in_order_settle:
  assumes "in_order t0 q" and "q_running q = Some (i, p)"
    and "\<And>t. stands (q_called q ! i) t (q_handle q) p \<Longrightarrow>
      sound h \<and> atomic_outcome meaning (q_called q ! i) t r (tables h)"
  shows "in_order t0 (settle i r h q)"
proof -
  obtain t where t: "serial meaning t0 (take i (q_called q)) (map snd (q_settled q)) t"
      "stands (q_called q ! i) t (q_handle q) p" "i = length (q_settled q)"
    by (rule in_order_phase [OF assms(1,2)])
  moreover have "serial meaning t0 (take i (q_called q) @ [q_called q ! i]) (map snd (q_settled q) @ [r]) (tables h)"
    using t assms(3) [OF t(2)] by (blast intro: serial_one_more)
  ultimately show ?thesis
    using assms t(3) by (auto simp: serialised_def Let_def settle_def take_Suc_conv_app_nth)
qed

lemma in_order_advance:
  assumes "in_order t0 q" and "q_running q = Some (i, p)"
  shows "in_order t0 (advance db q)"
proof (cases p)
  case (InBody b)
  show ?thesis
  proof (cases b)
    case (Return x)
    obtain r h where run: "db_exec db ''COMMIT'' (q_handle q) = (r, h)" by fastforce
    show ?thesis
    proof (cases r)
      case (Inl e)
      then show ?thesis
        using in_order_run [OF assms, of h "RollingBack e"] commit_stands [of _ _ "q_handle q" x, OF _ run]
          assms InBody Return run by (auto simp: advance.simps)
    next
      case (Inr u)
      then show ?thesis
        using in_order_settle [OF assms, of h "Inr x"] commit_stands [of _ _ "q_handle q" x, OF _ run]
          assms InBody Return run by (auto simp: advance.simps)
    qed
  next
    case (Throw e)
    then show ?thesis
      using in_order_run [OF assms, of "q_handle q" "RollingBack e"] throw_stands assms InBody
      by (auto simp: advance.simps)
  next
    case (Call s k)
    obtain a h where run: "perform db s (q_handle q) = (a, h)" by fastforce
    show ?thesis
    proof (cases a)
      case (Inl e)
      then show ?thesis
        using in_order_run [OF assms, of h "RollingBack e"] statement_stands [of _ _ "q_handle q" s k, OF _ run]
          assms InBody Call run by (auto simp: advance.simps)
    next
      case (Inr v)
      then show ?thesis
        using in_order_run [OF assms, of h "InBody (k v)"] statement_stands [of _ _ "q_handle q" s k, OF _ run]
          assms InBody Call run by (auto simp: advance.simps)
    qed
  qed
next
  case (RollingBack e)
  obtain r h where run: "db_exec db ''ROLLBACK'' (q_handle q) = (r, h)" by fastforce
  then show ?thesis
    using in_order_settle [OF assms, of h "Inl e"] rollback_stands [of _ _ "q_handle q" e, OF _ run] assms RollingBack
    by (auto simp: advance.simps)
qed

lemma in_order_start:
  assumes "in_order t0 q" and "q_running q = None" and "q_waiting q \<noteq> []"
    and "list_all (body_calls plain) (q_called q)"
  shows "in_order t0 (start_next db q)"
proof -
  define k where "k = length (q_settled q)"
  have k: "k < length (q_called q)" and w: "q_waiting q = drop k (List.enumerate 0 (q_called q))"
    and h: "sound (q_handle q)" and ids: "map fst (q_settled q) = [0..<k]"
    and past: "serial meaning t0 (take k (q_called q)) (map snd (q_settled q)) (tables (q_handle q))"
    using assms(1-3) by (auto simp: serialised_def Let_def k_def)
  have wk: "q_waiting q = (k, q_called q ! k) # drop (Suc k) (List.enumerate 0 (q_called q))"
    using k w by (simp add: Cons_nth_drop_Suc [symmetric] nth_enumerate_eq)
  have pk: "body_calls plain (q_called q ! k)" using assms(4) k by (simp add: list_all_length)
  obtain r h' where run: "db_exec db ''BEGIN IMMEDIATE'' (q_handle q) = (r, h')" by fastforce
  show ?thesis
  proof (cases r)
    case (Inl e)
    then have b: "sound h'" "tables h' = tables (q_handle q)" using begin_opens [OF h _ run] by auto
    have "serial meaning t0 (take k (q_called q) @ [q_called q ! k]) (map snd (q_settled q) @ [Inl e]) (tables h')"
      using past b by (auto intro!: serial_one_more)
    moreover have "start_next db q = settle k (Inl e) h' (q\<lparr>q_waiting := drop (Suc k) (List.enumerate 0 (q_called q))\<rparr>)"
      using assms(2) wk run Inl by (simp add: start_next.simps)
    ultimately show ?thesis
      using ids b k by (simp add: serialised_def settle_def k_def [symmetric] take_Suc_conv_app_nth)
  next
    case (Inr u)
    then have "stands (q_called q ! k) (tables (q_handle q)) h' (InBody (q_called q ! k))"
      using begin_stands [OF h pk] run by simp
    moreover have "start_next db q = run_phase k (InBody (q_called q ! k)) h' (q\<lparr>q_waiting := drop (Suc k) (List.enumerate 0 (q_called q))\<rparr>)"
      using assms(2) wk run Inr by (simp add: start_next.simps)
    ultimately show ?thesis
      using ids past k by (auto simp: serialised_def run_phase_def k_def [symmetric])
  qed
qed

lemma in_order_call: "in_order t0 q \<Longrightarrow> in_order t0 (withTransaction_call fn q)"
  by (auto simp: serialised_def Let_def withTransaction_call_def enumerate_append_eq nth_append
      split: option.splits)

lemma in_order_outside:
  assumes "in_order t0 q" and "allowed s (q_handle q)"
  shows "in_order t0 (q\<lparr>q_handle := snd (perform db s (q_handle q))\<rparr>)"
proof -
  obtain a h' where run: "perform db s (q_handle q) = (a, h')" by fastforce
  show ?thesis
    using assms outside_keeps [OF _ assms(2) run] stands_outside [OF _ assms(2) run] run
    by (fastforce simp: serialised_def Let_def split: option.splits)
qed

lemma queue_step_called: "queue_step db allowed q q' \<Longrightarrow> \<exists>fns. q_called q' = q_called q @ fns"
  by (induction rule: queue_step.induct)
    (auto simp: withTransaction_call_def settle_def run_phase_def start_next.simps advance.simps
      split: option.splits prod.splits sum.splits list.splits Phase.splits Body.splits)

lemma queue_step_in_order:
  assumes "queue_step db allowed q q'" and "in_order t0 q" and "list_all (body_calls plain) (q_called q')"
  shows "in_order t0 q'"
  using assms
proof cases
  case started
  have "list_all (body_calls plain) (q_called q)"
    using queue_step_called [OF assms(1)] assms(3) by auto
  then show ?thesis using started in_order_start assms(2) by simp
next
  case advanced
  then show ?thesis using in_order_advance assms(2) by auto
qed (auto intro: in_order_call in_order_outside assms(2))

theorem queue_is_serial:
  assumes "(queue_step db allowed)\<^sup>*\<^sup>* q q'" and "in_order t0 q"
    and "list_all (body_calls plain) (q_called q')"
  shows "in_order t0 q'"
  using assms
proof (induction rule: rtranclp_induct)
  case (step q1 q2)
  have "list_all (body_calls plain) (q_called q1)"
    using queue_step_called [OF step.hyps(2)] step.prems(2) by auto
  then show ?case using step queue_step_in_order by blast
qed

lemma new_queue_in_order: "sound h \<Longrightarrow> in_order (tables h) (new_queue h)"
  by (auto simp: serialised_def Let_def new_queue_def intro: serial_none)

end

end
