(* ===== verification/Db_Driver.thy ===== *)
theory Db_Driver
  imports Db_Transactions
begin

text \<open>
  The two handles over the driver. The locale \<open>sql_driver\<close> has the laws of the libSQL driver that
  the handles rely on; both handles satisfy the contract of \<open>Db_Transactions\<close> over any such driver,
  the reconnecting one whatever stream is lost at whatever call.
\<close>

subsection \<open>What a call of the reconnecting handle does\<close>

text \<open>A cached statement of this generation was prepared on the current connection, from its text.\<close>

definition cache_ok :: "('s \<Rightarrow> 'c \<times> string) \<Rightarrow> ('c, 's, 'w) Handle \<Rightarrow> bool" where
  "cache_ok prepared h \<longleftrightarrow>
     (\<forall>sql g s. map_of (statementCache h) sql = Some (g, s) \<longrightarrow> g = generation h
        \<longrightarrow> prepared s = (current h, sql))"

lemma cache_ok_simps [simp]:
  "cache_ok p (h\<lparr>inTransaction := b\<rparr>) = cache_ok p h"
  "cache_ok p (h\<lparr>world := w\<rparr>) = cache_ok p h"
  "cache_ok p (h\<lparr>events := ls\<rparr>) = cache_ok p h"
  "cache_ok p (mark_done kind h) = cache_ok p h"
  "cache_ok p (mark_begin kind h) = cache_ok p h"
  by (simp_all add: cache_ok_def mark_done_def mark_begin_def)

lemma mark_simps [simp]:
  "world (mark_done kind h) = world h" "current (mark_done kind h) = current h"
  "world (mark_begin kind h) = world h" "current (mark_begin kind h) = current h"
  "mark_done OpOther h = h" "mark_begin OpOther h = h"
  "inTransaction (mark_done OpBegin h)" "inTransaction (mark_begin OpBegin h)"
  by (simp_all add: mark_done_def mark_begin_def)

lemma on_driver_eq:
  "on_driver m h = (r, h') \<longleftrightarrow> (\<exists>w. m (world h) = (r, w) \<and> h' = h\<lparr>world := w\<rparr>)"
  by (auto simp: on_driver_def split: prod.splits)

lemma attempt_cases:
  assumes "attempt d kind operation h = (r, h')"
  obtains (answered) x h1 where "operation (current h) h = (Inr x, h1)"
      and "r = Inr (Some x)" and "h' = mark_done kind h1"
  | (failed) e h1 b where "operation (current h) h = (Inl e, h1)"
      and "r = Inl e \<or> kind = OpRollback \<and> r = Inr None"
      and "h' = h1\<lparr>inTransaction := b\<rparr>"
      and "b = inTransaction h1 \<or> \<not> b \<and> (kind = OpRollback \<or> inTransaction h)"
  | (lost) e h1 s h2 e' b where "operation (current h) h = (Inl e, h1)" and "isDeadStreamError e"
      and "reconnect d e h1 = (s, h2)" and "r = Inl e'" and "h' = h2\<lparr>inTransaction := b\<rparr>"
  | (retried) e h1 h2 s h3 where "operation (current h) h = (Inl e, h1)" and "isDeadStreamError e"
      and "\<not> inTransaction h"
      and "reconnect d e h1 = (Inr (), h2)" and "operation (current h2) h2 = (s, h3)"
      and "case s of Inl e2 \<Rightarrow> r = Inl e2 \<and> h' = h3 | Inr x \<Rightarrow> r = Inr (Some x) \<and> h' = mark_begin kind h3"
proof (cases "operation (current h) h")
  case op: (Pair s h1)
  show thesis
  proof (cases s)
    case (Inr x)
    then show thesis using assms op answered by (simp add: attempt_def)
  next
    case (Inl e)
    show thesis
    proof (cases "isDeadStreamError e \<and> \<not> (kind = OpRollback \<and> isNothingToRollBack e)
        \<and> \<not> (inTransaction h \<and> isTransactionAlreadyGone e)")
      case False
      then show thesis
        using assms op Inl failed [of e h1 "inTransaction h'"]
        by (auto simp: attempt_def Let_def split: if_splits)
    next
      case True
      obtain u h2 where re: "reconnect d e h1 = (u, h2)" by fastforce
      show thesis
      proof (cases "inTransaction h \<or> (\<exists>e'. u = Inl e')")
        case True': True
        then show thesis
          using assms op Inl True re lost [of e h1 u h2 _ "inTransaction h'"]
          by (auto simp: attempt_def Let_def split: sum.splits if_splits)
      next
        case False
        then show thesis
          using assms op Inl True re retried [of e h1 h2]
          by (cases u) (auto simp: attempt_def Let_def split: sum.splits prod.splits)
      qed
    qed
  qed
qed

text \<open>
  A read outside any transaction that does not lose the stream or the transaction another request has
  open on the handle.
\<close>

definition lost_by :: "('c, 's, 'w) Driver \<Rightarrow> string \<Rightarrow> SqlValue list \<Rightarrow> ('c, 's, 'w) Handle \<Rightarrow> bool" where
  "lost_by d sql ps h =
     (case io_bind (statementFor d (current h) sql) (\<lambda>s. on_driver (drv_all d s ps)) h of
        (Inl e, _) \<Rightarrow> isDeadStreamError e \<or> isTransactionAlreadyGone e
      | (Inr _, _) \<Rightarrow> False)"

fun quiet_read :: "(Query \<Rightarrow> bool) \<Rightarrow> ('c, 's, 'w) Driver \<Rightarrow> Query \<Rightarrow> ('c, 's, 'w) Handle \<Rightarrow> bool" where
  "quiet_read reads d (QueryAll sql ps) h \<longleftrightarrow>
     reads (QueryAll sql ps) \<and> (inTransaction h \<longrightarrow> \<not> lost_by d sql ps h)"
| "quiet_read reads d (QueryGet sql ps) h \<longleftrightarrow>
     reads (QueryAll sql ps) \<and> (inTransaction h \<longrightarrow> \<not> lost_by d sql ps h)"
| "quiet_read reads d _ h \<longleftrightarrow> False"

subsection \<open>The laws of the driver\<close>

text \<open>
  \<open>committed\<close> is what is durable, \<open>working c\<close> the tables as the open transaction of connection \<open>c\<close>
  sees them, \<open>prepared\<close> the connection and the text of a prepared statement, \<open>sem\<close> what a statement
  of SQL does. \<open>plain\<close> are the statements without transaction control, \<open>reads\<close> the queries. A commit
  that fails may have been carried out; any other call that fails leaves the durable tables alone.
\<close>

fun meaning_of :: "(Query \<Rightarrow> 'd \<Rightarrow> ('d \<times> Reply) option) \<Rightarrow> Query \<Rightarrow> 'd \<Rightarrow> ('d \<times> Reply) option" where
  "meaning_of sem (QueryGet sql params) t =
     (case sem (QueryAll sql params) t of
        Some (t', Rows rs) \<Rightarrow> Some (t', Row (first_row rs))
      | _ \<Rightarrow> None)"
| "meaning_of sem q t = sem q t"

locale sql_driver =
  fixes d :: "('c, 's, 'w) Driver"
    and committed :: "'w \<Rightarrow> 'd"
    and working :: "'c \<Rightarrow> 'w \<Rightarrow> 'd option"
    and prepared :: "'s \<Rightarrow> 'c \<times> string"
    and sem :: "Query \<Rightarrow> 'd \<Rightarrow> ('d \<times> Reply) option"
    and plain :: "Query \<Rightarrow> bool"
    and reads :: "Query \<Rightarrow> bool"
  assumes plain_get: "plain (QueryGet sql ps) \<Longrightarrow> plain (QueryAll sql ps)"
    and plain_exec: "plain (QueryExec sql) \<Longrightarrow> commandKind sql = OpOther"
    and open_keeps: "drv_open d w = (opened, w') \<Longrightarrow> committed w' = committed w"
    and close_keeps: "drv_close d c w = (r, w') \<Longrightarrow> committed w' = committed w"
    and prepare_keeps: "drv_prepare d c sql w = (ready, w') \<Longrightarrow> committed w' = committed w"
    and prepare_ready: "drv_prepare d c sql w = (Inr s, w') \<Longrightarrow>
      prepared s = (c, sql) \<and> working c w' = working c w"
    and prepare_refused: "drv_prepare d c sql w = (Inl e, w') \<Longrightarrow>
      \<not> isDeadStreamError e \<Longrightarrow> \<not> isTransactionAlreadyGone e \<Longrightarrow> working c w' = working c w"
    and pragma_keeps: "drv_exec d c ''PRAGMA foreign_keys = ON'' w = (r, w') \<Longrightarrow> committed w' = committed w"
    and begin_keeps: "commandKind sql = OpBegin \<Longrightarrow> drv_exec d c sql w = (r, w') \<Longrightarrow> committed w' = committed w"
    and begin_starts: "commandKind sql = OpBegin \<Longrightarrow> drv_exec d c sql w = (Inr u, w') \<Longrightarrow>
      working c w' = Some (committed w)"
    and commit_done: "drv_exec d c ''COMMIT'' w = (Inr u, w') \<Longrightarrow> working c w = Some (committed w')"
    and commit_failed: "drv_exec d c ''COMMIT'' w = (Inl e, w') \<Longrightarrow>
      committed w' = committed w \<or> working c w = Some (committed w')"
    and rollback_harmless: "drv_exec d c ''ROLLBACK'' w = (r, w') \<Longrightarrow> committed w' = committed w"
    and exec_works: "working c w = Some t \<Longrightarrow> plain (QueryExec sql) \<Longrightarrow> drv_exec d c sql w = (r, w') \<Longrightarrow>
      committed w' = committed w
      \<and> (\<forall>u. r = Inr u \<longrightarrow> (\<exists>t'. sem (QueryExec sql) t = Some (t', Done) \<and> working c w' = Some t'))"
    and run_works: "working c w = Some t \<Longrightarrow> prepared s = (c, sql) \<Longrightarrow> plain (QueryRun sql ps) \<Longrightarrow>
      drv_run d s ps w = (answer, w') \<Longrightarrow>
      committed w' = committed w
      \<and> (\<forall>i. answer = Inr i \<longrightarrow> (\<exists>t'. sem (QueryRun sql ps) t = Some (t', Changed i) \<and> working c w' = Some t'))"
    and all_works: "working c w = Some t \<Longrightarrow> prepared s = (c, sql) \<Longrightarrow> plain (QueryAll sql ps) \<Longrightarrow>
      drv_all d s ps w = (listed, w') \<Longrightarrow>
      committed w' = committed w
      \<and> (\<forall>rs. listed = Inr rs \<longrightarrow> (\<exists>t'. sem (QueryAll sql ps) t = Some (t', Rows rs) \<and> working c w' = Some t'))"
    and reads_all: "reads (QueryAll sql ps) \<Longrightarrow> prepared s = (c, sql) \<Longrightarrow> drv_all d s ps w = (listed, w') \<Longrightarrow>
      committed w' = committed w
      \<and> ((\<forall>e. listed = Inl e \<longrightarrow> \<not> isDeadStreamError e \<and> \<not> isTransactionAlreadyGone e)
          \<longrightarrow> working c w' = working c w)"
begin

definition tables :: "('c, 's, 'w) Handle \<Rightarrow> 'd" where
  "tables h = committed (world h)"

definition open_with :: "('c, 's, 'w) Handle \<Rightarrow> 'd \<Rightarrow> bool" where
  "open_with h t \<longleftrightarrow> inTransaction h \<and> cache_ok prepared h \<and> working (current h) (world h) = Some t"

lemma tables_simps [simp]:
  "tables (h\<lparr>inTransaction := b\<rparr>) = tables h"
  "tables (mark_done kind h) = tables h"
  "tables (mark_begin kind h) = tables h"
  by (simp_all add: tables_def)

lemma reconnect_keeps:
  assumes "reconnect d e h = (r, h')" and "cache_ok prepared h"
  shows "cache_ok prepared h' \<and> tables h' = tables h"
proof -
  obtain x w1 where cl: "drv_close d (current h) (world h) = (x, w1)" by fastforce
  obtain y w2 where op: "drv_open d w1 = (y, w2)" by fastforce
  have w2: "committed w2 = committed (world h)"
    using close_keeps [OF cl] open_keeps [OF op] by simp
  show ?thesis
  proof (cases y)
    case (Inl e')
    then show ?thesis using assms cl op w2 by (auto simp: reconnect_def tables_def)
  next
    case (Inr c)
    then obtain u w3 where "drv_exec d c ''PRAGMA foreign_keys = ON'' w2 = (u, w3)" by fastforce
    then show ?thesis
      using assms cl op w2 Inr pragma_keeps
      by (auto simp: reconnect_def tables_def on_driver_def cache_ok_def)
  qed
qed

text \<open>
  What holds of every call: an operation that keeps the cache sound and the durable tables as they
  are, wherever it runs, does so through \<open>attempt\<close> too.
\<close>

lemma attempt_keeps:
  assumes "attempt d kind operation h = (r, h')" and "cache_ok prepared h"
    and "\<And>h a h'. cache_ok prepared h \<Longrightarrow> operation (current h) h = (a, h') \<Longrightarrow>
      cache_ok prepared h' \<and> tables h' = tables h"
  shows "cache_ok prepared h' \<and> tables h' = tables h"
  using assms(1)
proof (cases rule: attempt_cases)
  case answered
  then show ?thesis using assms(2,3) by simp
next
  case failed
  then show ?thesis using assms(2,3) by simp
next
  case (lost e h1 s h2 e' b)
  then show ?thesis using assms(3) [OF assms(2) lost(1)] reconnect_keeps [OF lost(3)] by simp
next
  case (retried e h1 h2 s h3)
  then show ?thesis
    using assms(3) [OF assms(2) retried(1)] reconnect_keeps [OF retried(4)] assms(3) [OF _ retried(5)]
    by (auto split: sum.splits)
qed

text \<open>Inside a transaction an operation is tried once: either it answered, or the call throws.\<close>

lemma attempt_inside:
  assumes "attempt d kind operation h = (r, h')" and "cache_ok prepared h" and "inTransaction h"
    and "kind \<noteq> OpRollback"
    and "\<And>a h'. operation (current h) h = (a, h') \<Longrightarrow> cache_ok prepared h'"
  obtains (answered) x h1 where "operation (current h) h = (Inr x, h1)"
      and "r = Inr (Some x)" and "h' = mark_done kind h1"
  | (threw) e e' h1 where "operation (current h) h = (Inl e, h1)" and "r = Inl e'"
      and "cache_ok prepared h'" and "tables h' = tables h1"
  using assms(1)
proof (cases rule: attempt_cases)
  case (lost e h1 s h2 e' b)
  then show ?thesis using threw [OF lost(1)] assms(5) reconnect_keeps [OF lost(3)] by simp
qed (use assms answered threw in auto)

lemma exec_keeps:
  assumes "on_driver (drv_exec d c sql) h = (a, h')" and "cache_ok prepared h"
    and "\<And>w r w'. drv_exec d c sql w = (r, w') \<Longrightarrow> committed w' = committed w"
  shows "cache_ok prepared h' \<and> tables h' = tables h"
  using assms by (auto simp: on_driver_eq tables_def)

lemma prepare_fresh_ready:
  assumes "prepare_fresh d (current h) sql h = (a, h1)" and "cache_ok prepared h"
  shows "cache_ok prepared h1 \<and> tables h1 = tables h \<and> current h1 = current h
    \<and> inTransaction h1 = inTransaction h \<and> generation h1 = generation h
    \<and> (\<forall>s. a = Inr s \<longrightarrow> prepared s = (current h, sql)
         \<and> working (current h) (world h1) = working (current h) (world h))
    \<and> (\<forall>e. a = Inl e \<longrightarrow> \<not> isDeadStreamError e \<longrightarrow> \<not> isTransactionAlreadyGone e
         \<longrightarrow> working (current h) (world h1) = working (current h) (world h))"
proof -
  obtain p w where p: "drv_prepare d (current h) sql (world h) = (p, w)" by fastforce
  show ?thesis
    using assms p prepare_keeps [OF p]
    by (cases p)
      (auto simp: prepare_fresh_def tables_def cache_ok_def update_conv' delete_conv'
        dest: prepare_ready prepare_refused split: if_splits)
qed

lemma statementFor_ready:
  assumes "statementFor d (current h) sql h = (a, h1)" and "cache_ok prepared h"
  shows "cache_ok prepared h1 \<and> tables h1 = tables h \<and> current h1 = current h
    \<and> inTransaction h1 = inTransaction h \<and> generation h1 = generation h
    \<and> (\<forall>s. a = Inr s \<longrightarrow> prepared s = (current h, sql)
         \<and> working (current h) (world h1) = working (current h) (world h))
    \<and> (\<forall>e. a = Inl e \<longrightarrow> \<not> isDeadStreamError e \<longrightarrow> \<not> isTransactionAlreadyGone e
         \<longrightarrow> working (current h) (world h1) = working (current h) (world h))"
proof (cases "\<exists>s. map_of (statementCache h) sql = Some (generation h, s)")
  case True
  then show ?thesis using assms by (auto simp: statementFor_def cache_ok_def)
next
  case False
  then have "prepare_fresh d (current h) sql h = (a, h1)"
    using assms(1) by (auto simp: statementFor_def split: option.splits prod.splits if_splits)
  then show ?thesis using prepare_fresh_ready assms(2) by blast
qed

lemma begin_opens:
  assumes "cache_ok prepared h" and "commandKind sql = OpBegin"
    and "db_exec (reconnecting_database d) sql h = (r, h')"
  shows "cache_ok prepared h' \<and> tables h' = tables h \<and> (\<forall>u. r = Inr u \<longrightarrow> open_with h' (tables h))"
proof -
  let ?op = "\<lambda>c. on_driver (drv_exec d c sql) :: (('c, 's, 'w) Handle, unit) io"
  obtain a where a: "attempt d OpBegin ?op h = (a, h')" and r: "\<And>u. r = Inr u \<Longrightarrow> \<exists>x. a = Inr x"
    using assms(2,3) by (auto simp: reconnecting_database_def elim!: io_bind_cases)
  have keeps: "cache_ok prepared h' \<and> tables h' = tables h"
    if "cache_ok prepared h" "?op c h = (a, h')" for a c and h h' :: "('c, 's, 'w) Handle"
    using exec_keeps [OF that(2,1)] begin_keeps [OF assms(2)] by blast
  have opens: "working c (world h') = Some (tables h) \<and> current h' = current h"
    if "?op c h = (Inr x, h')" for c x and h h' :: "('c, 's, 'w) Handle"
    using that begin_starts [OF assms(2)] by (auto simp: on_driver_eq tables_def)
  have all: "cache_ok prepared h' \<and> tables h' = tables h"
    using attempt_keeps [OF a assms(1)] keeps by blast
  moreover have "open_with h' (tables h)" if ok: "r = Inr u" for u
    using a
  proof (cases rule: attempt_cases)
    case (answered x h1)
    then show ?thesis using all opens [OF answered(1)] by (auto simp: open_with_def)
  next
    case (retried e h1 h2 s h3)
    obtain x where x: "s = Inr x" using retried r [OF ok] by (cases s) auto
    have "tables h2 = tables h"
      using keeps [OF assms(1) retried(1)] reconnect_keeps [OF retried(4)] by simp
    then show ?thesis using all retried x opens [of "current h2" h2 x h3] by (auto simp: open_with_def)
  qed (use r [OF ok] in auto)
  ultimately show ?thesis by blast
qed

lemma exec_inside:
  assumes "open_with h t" and "plain (QueryExec sql)"
    and "attempt d OpOther (\<lambda>c. on_driver (drv_exec d c sql)) h = (r, h')"
  shows "cache_ok prepared h' \<and> tables h' = tables h
    \<and> (\<forall>x. r = Inr x \<longrightarrow> (\<exists>t'. sem (QueryExec sql) t = Some (t', Done) \<and> open_with h' t'))"
proof -
  have o: "inTransaction h" "cache_ok prepared h" "working (current h) (world h) = Some t"
    using assms(1) by (auto simp: open_with_def)
  have keeps: "cache_ok prepared h'" if "on_driver (drv_exec d (current h) sql) h = (a, h')" for a h'
    using that o(2) by (auto simp: on_driver_eq)
  note works = exec_works [OF o(3) assms(2)]
  show ?thesis
    by (rule attempt_inside [OF assms(3) o(2,1) _ keeps])
      (auto simp: on_driver_eq open_with_def tables_def o dest!: works)
qed

lemma statement_inside:
  assumes "open_with h t" and "withStatement d sql run h = (r, h')"
    and law: "\<And>s w a w'. working (current h) w = Some t \<Longrightarrow> prepared s = (current h, sql) \<Longrightarrow>
      run s w = (a, w') \<Longrightarrow> committed w' = committed w
      \<and> (\<forall>x. a = Inr x \<longrightarrow> (\<exists>t'. M x t' \<and> working (current h) w' = Some t'))"
  shows "cache_ok prepared h' \<and> tables h' = tables h
    \<and> (\<forall>x. r = Inr x \<longrightarrow> (\<exists>y t'. x = Some y \<and> M y t' \<and> open_with h' t'))"
proof -
  let ?op = "\<lambda>c. io_bind (statementFor d c sql) (\<lambda>s. on_driver (run s))"
  have o: "inTransaction h" "cache_ok prepared h" "working (current h) (world h) = Some t"
    using assms(1) by (auto simp: open_with_def)
  have run: "cache_ok prepared h1 \<and> tables h1 = tables h \<and> current h1 = current h \<and> inTransaction h1
      \<and> (\<forall>x. a = Inr x \<longrightarrow> (\<exists>t'. M x t' \<and> working (current h) (world h1) = Some t'))"
    if "?op (current h) h = (a, h1)" for a h1
    using that
  proof (cases rule: io_bind_cases)
    case (thrown e)
    then show ?thesis using statementFor_ready [OF thrown(1) o(2)] o by auto
  next
    case (went_on s h2)
    note ready = statementFor_ready [OF went_on(1) o(2)]
    obtain w where w: "run s (world h2) = (a, w)" "h1 = h2\<lparr>world := w\<rparr>"
      using went_on(2) by (auto simp: on_driver_eq)
    show ?thesis using law [OF _ _ w(1)] ready o w by (auto simp: tables_def)
  qed
  show ?thesis
    by (rule attempt_inside [OF assms(2) [unfolded withStatement_def] o(2,1)])
      (auto simp: open_with_def dest: run)
qed

lemma perform_inside:
  assumes "open_with h t" and "plain q" and "perform (reconnecting_database d) q h = (r, h')"
  shows "cache_ok prepared h' \<and> tables h' = tables h
    \<and> (\<forall>v. r = Inr v \<longrightarrow> (\<exists>t'. meaning_of sem q t = Some (t', v) \<and> open_with h' t'))"
proof (cases q)
  case (QueryExec sql)
  with assms(2) have kind: "commandKind sql = OpOther" using plain_exec by blast
  show ?thesis
    using assms exec_inside [OF assms(1)] QueryExec kind
    by (fastforce simp: reconnecting_database_def elim!: io_bind_cases)
next
  case (QueryRun sql ps)
  obtain a where a: "withStatement d sql (\<lambda>s. drv_run d s ps) h = (a, h')"
    and r: "r = (case a of Inl e \<Rightarrow> Inl e | Inr x \<Rightarrow> Inr (Changed (the x)))"
    using assms(3) QueryRun by (auto simp: reconnecting_database_def elim!: io_bind_cases)
  show ?thesis
    using statement_inside [OF assms(1) a, of "\<lambda>i t'. sem (QueryRun sql ps) t = Some (t', Changed i)"]
      run_works assms(2) QueryRun r by (auto split: sum.splits)
next
  case (QueryAll sql ps)
  obtain a where a: "withStatement d sql (\<lambda>s. drv_all d s ps) h = (a, h')"
    and r: "r = (case a of Inl e \<Rightarrow> Inl e | Inr x \<Rightarrow> Inr (Rows (the x)))"
    using assms(3) QueryAll by (auto simp: reconnecting_database_def elim!: io_bind_cases)
  show ?thesis
    using statement_inside [OF assms(1) a, of "\<lambda>rs t'. sem (QueryAll sql ps) t = Some (t', Rows rs)"]
      all_works assms(2) QueryAll r by (auto split: sum.splits)
next
  case (QueryGet sql ps)
  let ?run = "\<lambda>s. io_bind (drv_all d s ps) (\<lambda>rows. io_return (first_row rows))"
  obtain a where a: "withStatement d sql ?run h = (a, h')"
    and r: "r = (case a of Inl e \<Rightarrow> Inl e | Inr x \<Rightarrow> Inr (Row (the x)))"
    using assms(3) QueryGet by (auto simp: reconnecting_database_def elim!: io_bind_cases)
  have pa: "plain (QueryAll sql ps)" using assms(2) QueryGet plain_get by simp
  have law: "committed w' = committed w
      \<and> (\<forall>x. b = Inr x \<longrightarrow> (\<exists>t'. meaning_of sem q t = Some (t', Row x) \<and> working (current h) w' = Some t'))"
    if "working (current h) w = Some t" "prepared s = (current h, sql)" "?run s w = (b, w')" for s w b w'
    using that(3)
  proof (cases rule: io_bind_cases)
    case (thrown e)
    then show ?thesis using all_works [OF that(1,2) pa thrown(1)] by auto
  next
    case (went_on rows w1)
    then show ?thesis using all_works [OF that(1,2) pa went_on(1)] QueryGet by auto
  qed
  show ?thesis
    using statement_inside [OF assms(1) a, of "\<lambda>x t'. meaning_of sem q t = Some (t', Row x)"] law r
    by (auto split: sum.splits)
qed

lemma commit_publishes:
  assumes "open_with h t" and "db_exec (reconnecting_database d) ''COMMIT'' h = (r, h')"
  shows "cache_ok prepared h'
    \<and> (case r of Inr u \<Rightarrow> tables h' = t | Inl e \<Rightarrow> tables h' = tables h \<or> tables h' = t)"
proof -
  have o: "inTransaction h" "cache_ok prepared h" "working (current h) (world h) = Some t"
    using assms(1) by (auto simp: open_with_def)
  obtain a where a: "attempt d OpCommit (\<lambda>c. on_driver (drv_exec d c ''COMMIT'')) h = (a, h')"
    and r: "r = (case a of Inl e \<Rightarrow> Inl e | Inr x \<Rightarrow> Inr ())"
    using assms(2) by (auto simp: reconnecting_database_def elim!: io_bind_cases)
  show ?thesis
    by (rule attempt_inside [OF a o(2,1)])
      (auto simp: r on_driver_eq tables_def o dest: commit_done commit_failed)
qed

lemma rollback_keeps:
  assumes "cache_ok prepared h" and "db_exec (reconnecting_database d) ''ROLLBACK'' h = (r, h')"
  shows "cache_ok prepared h' \<and> tables h' = tables h"
proof -
  obtain a where "attempt d OpRollback (\<lambda>c. on_driver (drv_exec d c ''ROLLBACK'')) h = (a, h')"
    using assms(2) by (auto simp: reconnecting_database_def elim!: io_bind_cases)
  then show ?thesis
    by (rule attempt_keeps [OF _ assms(1)]) (auto simp: on_driver_eq tables_def dest: rollback_harmless)
qed

text \<open>A read through the handle, on the rows or on the first of them.\<close>

lemma read_keeps:
  assumes "cache_ok prepared h" and "reads (QueryAll sql ps)"
    and "io_bind (statementFor d (current h) sql)
           (\<lambda>s. on_driver (io_bind (drv_all d s ps) (\<lambda>rows. io_return (f rows)))) h = (a, h')"
  shows "cache_ok prepared h' \<and> tables h' = tables h \<and> current h' = current h
    \<and> inTransaction h' = inTransaction h
    \<and> (\<not> lost_by d sql ps h \<longrightarrow> working (current h) (world h') = working (current h) (world h))"
  using assms(3)
proof (cases rule: io_bind_cases)
  case (thrown e)
  then show ?thesis using statementFor_ready [OF thrown(1) assms(1)] by (auto simp: lost_by_def)
next
  case (went_on s h1)
  note ready = statementFor_ready [OF went_on(1) assms(1)]
  obtain b w where w: "drv_all d s ps (world h1) = (b, w)" and h': "h' = h1\<lparr>world := w\<rparr>"
    using went_on(2) by (auto simp: on_driver_eq elim!: io_bind_cases)
  have "lost_by d sql ps h \<longleftrightarrow> (\<exists>e. b = Inl e \<and> (isDeadStreamError e \<or> isTransactionAlreadyGone e))"
    using went_on(1) w by (auto simp: lost_by_def on_driver_def split: sum.splits)
  then show ?thesis
    using reads_all [OF assms(2) _ w] ready h' by (auto simp: tables_def)
qed

lemma read_outside:
  assumes "cache_ok prepared h" and "reads (QueryAll sql ps)" and "inTransaction h \<longrightarrow> \<not> lost_by d sql ps h"
    and "withStatement d sql (\<lambda>s. io_bind (drv_all d s ps) (\<lambda>rows. io_return (f rows))) h = (a, h')"
  shows "cache_ok prepared h' \<and> tables h' = tables h \<and> (\<forall>t. open_with h t \<longrightarrow> open_with h' t)"
proof -
  note at = assms(4) [unfolded withStatement_def]
  note read = read_keeps [OF _ assms(2)]
  have "cache_ok prepared h' \<and> tables h' = tables h"
    by (rule attempt_keeps [OF at assms(1)]) (blast dest: read)
  moreover have "open_with h' t" if "open_with h t" for t
  proof -
    have tx: "inTransaction h" using that by (simp add: open_with_def)
    have quiet: "\<not> isDeadStreamError e \<and> \<not> isTransactionAlreadyGone e"
      if "io_bind (statementFor d (current h) sql)
           (\<lambda>s. on_driver (io_bind (drv_all d s ps) (\<lambda>rows. io_return (f rows)))) h = (Inl e, h1)" for e h1
      using that assms(3) tx
      by (auto simp: lost_by_def on_driver_def io_bind_def io_return_def split: prod.splits sum.splits)
    obtain b h1 where op: "io_bind (statementFor d (current h) sql)
        (\<lambda>s. on_driver (io_bind (drv_all d s ps) (\<lambda>rows. io_return (f rows)))) h = (b, h1)"
      by fastforce
    have "h' = h1" using at op quiet tx by (auto simp: attempt_def split: sum.splits)
    then show ?thesis using read [OF assms(1) op] that assms(3) tx by (auto simp: open_with_def)
  qed
  ultimately show ?thesis by blast
qed

lemma outside_keeps:
  assumes "cache_ok prepared h" and "quiet_read reads d q h"
    and "perform (reconnecting_database d) q h = (a, h')"
  shows "cache_ok prepared h' \<and> tables h' = tables h \<and> (\<forall>t. open_with h t \<longrightarrow> open_with h' t)"
proof (cases q)
  case (QueryAll sql ps)
  have "\<exists>b. withStatement d sql (\<lambda>s. io_bind (drv_all d s ps) (\<lambda>rows. io_return (id rows))) h = (b, h')"
    using assms(3) QueryAll by (auto simp: reconnecting_database_def elim!: io_bind_cases)
  then show ?thesis using assms QueryAll read_outside [where f = id] by auto
next
  case (QueryGet sql ps)
  have "\<exists>b. withStatement d sql (\<lambda>s. io_bind (drv_all d s ps) (\<lambda>rows. io_return (first_row rows))) h = (b, h')"
    using assms(3) QueryGet by (auto simp: reconnecting_database_def elim!: io_bind_cases)
  then show ?thesis using assms QueryGet read_outside [where f = first_row] by auto
qed (use assms in auto)

end

sublocale sql_driver \<subseteq> remote: queued_handle "reconnecting_database d" tables "cache_ok prepared" open_with
    "meaning_of sem" plain "quiet_read reads d"
  by unfold_locales (simp add: open_with_def, rule begin_opens, assumption+, rule perform_inside, assumption+,
    rule commit_publishes, assumption+, rule rollback_keeps, assumption+, rule outside_keeps, assumption+)

subsection \<open>The plain handle\<close>

text \<open>A read on the plain handle that does not lose the transaction open on its one connection.\<close>

definition kept_by :: "('c, 's, 'w) Driver \<Rightarrow> string \<Rightarrow> SqlValue list \<Rightarrow> ('c, 'w) PlainHandle \<Rightarrow> bool" where
  "kept_by d sql ps p =
     (case statement_all d sql ps (pl_driver p) (pl_world p) of
        (Inl e, _) \<Rightarrow> \<not> isDeadStreamError e \<and> \<not> isTransactionAlreadyGone e
      | (Inr _, _) \<Rightarrow> True)"

fun local_read :: "(Query \<Rightarrow> bool) \<Rightarrow> ('c, 's, 'w) Driver \<Rightarrow> Query \<Rightarrow> ('c, 'w) PlainHandle \<Rightarrow> bool" where
  "local_read reads d (QueryAll sql ps) p \<longleftrightarrow> reads (QueryAll sql ps) \<and> kept_by d sql ps p"
| "local_read reads d (QueryGet sql ps) p \<longleftrightarrow> reads (QueryAll sql ps) \<and> kept_by d sql ps p"
| "local_read reads d _ p \<longleftrightarrow> False"

lemma on_plain_eq:
  "on_plain m p = (r, p') \<longleftrightarrow> (\<exists>w. m (pl_driver p) (pl_world p) = (r, w) \<and> p' = p\<lparr>pl_world := w\<rparr>)"
  by (auto simp: on_plain_def split: prod.splits)

context sql_driver
begin

definition file_tables :: "('c, 'w) PlainHandle \<Rightarrow> 'd" where
  "file_tables p = committed (pl_world p)"

definition file_open :: "('c, 'w) PlainHandle \<Rightarrow> 'd \<Rightarrow> bool" where
  "file_open p t \<longleftrightarrow> working (pl_driver p) (pl_world p) = Some t"

lemma file_statement_run:
  assumes "working c w = Some t" and "plain (QueryRun sql ps)" and "statement_run d sql ps c w = (a, w')"
  shows "committed w' = committed w
    \<and> (\<forall>i. a = Inr i \<longrightarrow> (\<exists>t'. sem (QueryRun sql ps) t = Some (t', Changed i) \<and> working c w' = Some t'))"
  using assms(3) unfolding statement_run_def
proof (cases rule: io_bind_cases)
  case (thrown e)
  then show ?thesis using prepare_keeps by auto
next
  case (went_on s w1)
  then show ?thesis
    using prepare_keeps [OF went_on(1)] prepare_ready [OF went_on(1)] run_works [OF _ _ assms(2) went_on(2)] assms(1)
    by auto
qed

lemma file_statement_all:
  assumes "working c w = Some t" and "plain (QueryAll sql ps)" and "statement_all d sql ps c w = (a, w')"
  shows "committed w' = committed w
    \<and> (\<forall>rs. a = Inr rs \<longrightarrow> (\<exists>t'. sem (QueryAll sql ps) t = Some (t', Rows rs) \<and> working c w' = Some t'))"
  using assms(3) unfolding statement_all_def
proof (cases rule: io_bind_cases)
  case (thrown e)
  then show ?thesis using prepare_keeps by auto
next
  case (went_on s w1)
  then show ?thesis
    using prepare_keeps [OF went_on(1)] prepare_ready [OF went_on(1)] all_works [OF _ _ assms(2) went_on(2)] assms(1)
    by auto
qed

lemma file_read:
  assumes "reads (QueryAll sql ps)" and "statement_all d sql ps c w = (a, w')"
    and "\<And>e. a = Inl e \<Longrightarrow> \<not> isDeadStreamError e \<and> \<not> isTransactionAlreadyGone e"
  shows "committed w' = committed w \<and> working c w' = working c w"
  using assms(2) unfolding statement_all_def
proof (cases rule: io_bind_cases)
  case (thrown e)
  then show ?thesis using prepare_keeps prepare_refused assms(3) by auto
next
  case (went_on s w1)
  then show ?thesis
    using prepare_keeps [OF went_on(1)] prepare_ready [OF went_on(1)] reads_all [OF assms(1) _ went_on(2)] assms(3)
    by auto
qed

lemma file_perform:
  assumes "file_open p t" and "plain q" and "perform (promise_database d) q p = (a, p')"
  shows "True \<and> file_tables p' = file_tables p
    \<and> (\<forall>v. a = Inr v \<longrightarrow> (\<exists>t'. meaning_of sem q t = Some (t', v) \<and> file_open p' t'))"
proof (cases q)
  case (QueryExec sql)
  then show ?thesis
    using assms exec_works [of "pl_driver p" "pl_world p" t sql]
    by (fastforce simp: promise_database_def file_open_def file_tables_def on_plain_eq elim!: io_bind_cases)
next
  case (QueryRun sql ps)
  then show ?thesis
    using assms file_statement_run [of "pl_driver p" "pl_world p" t sql ps]
    by (fastforce simp: promise_database_def file_open_def file_tables_def on_plain_eq elim!: io_bind_cases)
next
  case (QueryAll sql ps)
  then show ?thesis
    using assms file_statement_all [of "pl_driver p" "pl_world p" t sql ps]
    by (fastforce simp: promise_database_def file_open_def file_tables_def on_plain_eq elim!: io_bind_cases)
next
  case (QueryGet sql ps)
  then show ?thesis
    using assms file_statement_all [of "pl_driver p" "pl_world p" t sql ps] plain_get
    by (fastforce simp: promise_database_def statement_get_def file_open_def file_tables_def on_plain_eq
        elim!: io_bind_cases)
qed

lemma file_outside:
  assumes "local_read reads d q p" and "perform (promise_database d) q p = (a, p')"
  shows "True \<and> file_tables p' = file_tables p \<and> (\<forall>t. file_open p t \<longrightarrow> file_open p' t)"
proof (cases q)
  case (QueryAll sql ps)
  then show ?thesis
    using assms file_read [of sql ps "pl_driver p" "pl_world p"]
    by (fastforce simp: promise_database_def kept_by_def file_open_def file_tables_def on_plain_eq
        elim!: io_bind_cases)
next
  case (QueryGet sql ps)
  then show ?thesis
    using assms file_read [of sql ps "pl_driver p" "pl_world p"]
    by (fastforce simp: promise_database_def kept_by_def statement_get_def file_open_def file_tables_def on_plain_eq
        elim!: io_bind_cases)
qed (use assms in auto)

end

sublocale sql_driver \<subseteq> disk: queued_handle "promise_database d" file_tables "\<lambda>_. True" file_open
    "meaning_of sem" plain "local_read reads d"
proof unfold_locales
  show "True \<and> file_tables h' = file_tables h \<and> (\<forall>u. r = Inr u \<longrightarrow> file_open h' (file_tables h))"
    if "commandKind sql = OpBegin" "db_exec (promise_database d) sql h = (r, h')" for sql h r h'
    using that begin_keeps begin_starts
    by (auto simp: promise_database_def on_plain_eq file_tables_def file_open_def)
  show "True \<and> (case r of Inr u \<Rightarrow> file_tables h' = t | Inl e \<Rightarrow> file_tables h' = file_tables h \<or> file_tables h' = t)"
    if "file_open h t" "db_exec (promise_database d) ''COMMIT'' h = (r, h')" for h t r h'
    using that
    by (auto simp: promise_database_def on_plain_eq file_tables_def file_open_def split: sum.splits
        dest: commit_done commit_failed)
  show "True \<and> file_tables h' = file_tables h" if "db_exec (promise_database d) ''ROLLBACK'' h = (r, h')" for h r h'
    using that rollback_harmless by (auto simp: promise_database_def on_plain_eq file_tables_def)
qed (simp, (rule file_perform file_outside, assumption+)+)

subsection \<open>The contracts, over the driver\<close>

context sql_driver
begin

lemma remote_transaction:
  assumes "cache_ok prepared h" and "body_calls plain fn" and "runTransaction (reconnecting_database d) fn h = (r, h')"
  shows "cache_ok prepared h' \<and> atomic_outcome (meaning_of sem) fn (committed (world h)) r (committed (world h'))"
  using remote.runTransaction_atomic [OF assms] by (simp add: tables_def)

lemma remote_migrations:
  assumes "cache_ok prepared h" and "list_all (\<lambda>m. body_calls plain (migration_body nowMs m)) ms"
    and "apply_migrations (reconnecting_database d) nowMs ms h = (r, h')"
  shows "\<exists>k \<le> length ms. migrated (meaning_of sem) nowMs (take k ms) (committed (world h)) = Some (committed (world h'))
    \<and> (r = Inr () \<longrightarrow> k = length ms)"
  using remote.apply_migrations_prefix [OF assms] by (simp add: tables_def)

lemma remote_queue:
  assumes "(queue_step (reconnecting_database d) (quiet_read reads d))\<^sup>*\<^sup>* (new_queue h) q"
    and "cache_ok prepared h" and "list_all (body_calls plain) (q_called q)"
  shows "remote.in_order (committed (world h)) q"
  using remote.queue_is_serial [OF assms(1) remote.new_queue_in_order [OF assms(2)] assms(3)]
  by (simp add: tables_def)

end

end
