(* ===== verification/Db_Properties.thy ===== *)
theory Db_Properties
  imports Db_Driver Reserved_Store
begin

text \<open>
  What the database handle gives the store: transactions that are whole or absent whatever call loses
  the stream, a queue that runs them in the order they were called and always drains, and migrations
  applied as a prefix of a gapless sequence. The last property is a limit of the handle: a read of
  another request that loses the stream tears the transaction that is open on it.
\<close>

subsection \<open>A scripted server\<close>

text \<open>
  A server to run the handle on, over any meaning \<open>sem\<close> of the statements: each call of the driver
  takes the next entry of a script, which is a fault or lets the call through; a lost stream or a
  discarded transaction drops what its connection had not committed.
\<close>

record 'd Server =
  srv_tables :: 'd
  srv_open :: "(nat \<times> 'd) list"
  srv_next :: nat
  srv_faults :: "Thrown option list"

definition server_call :: "nat \<Rightarrow> ('d Server, 'a) io \<Rightarrow> ('d Server, 'a) io" where
  "server_call c m w =
     (case srv_faults w of
        Some e # fs \<Rightarrow>
          (Inl e, if isDeadStreamError e \<or> isTransactionAlreadyGone e
                  then w\<lparr>srv_faults := fs, srv_open := AList.delete c (srv_open w)\<rparr>
                  else w\<lparr>srv_faults := fs\<rparr>)
      | None # fs \<Rightarrow> m (w\<lparr>srv_faults := fs\<rparr>)
      | [] \<Rightarrow> m w)"

definition server_statement ::
    "(Query \<Rightarrow> 'd \<Rightarrow> ('d \<times> Reply) option) \<Rightarrow> (Reply \<Rightarrow> 'a option) \<Rightarrow> nat \<Rightarrow> Query \<Rightarrow> ('d Server, 'a) io" where
  "server_statement sem f c q w =
     (let refused = (Inl (ErrorWith ''constraint failed''), w) in
      case map_of (srv_open w) c of
        Some t \<Rightarrow>
          (case sem q t of
             Some (t', v) \<Rightarrow> (case f v of Some x \<Rightarrow> (Inr x, w\<lparr>srv_open := AList.update c t' (srv_open w)\<rparr>) | None \<Rightarrow> refused)
           | None \<Rightarrow> refused)
      | None \<Rightarrow>
          (case sem q (srv_tables w) of
             Some (t', v) \<Rightarrow> (case f v of Some x \<Rightarrow> (Inr x, w\<lparr>srv_tables := t'\<rparr>) | None \<Rightarrow> refused)
           | None \<Rightarrow> refused))"

fun reply_done :: "Reply \<Rightarrow> unit option" where
  "reply_done Done = Some ()" | "reply_done _ = None"

fun reply_changed :: "Reply \<Rightarrow> RunInfo option" where
  "reply_changed (Changed i) = Some i" | "reply_changed _ = None"

fun reply_rows :: "Reply \<Rightarrow> SqlRow list option" where
  "reply_rows (Rows rs) = Some rs" | "reply_rows _ = None"

definition server_exec :: "(Query \<Rightarrow> 'd \<Rightarrow> ('d \<times> Reply) option) \<Rightarrow> nat \<Rightarrow> string \<Rightarrow> ('d Server, unit) io" where
  "server_exec sem c sql = server_call c (\<lambda>w.
     case commandKind sql of
       OpBegin \<Rightarrow>
         (case map_of (srv_open w) c of
            Some t \<Rightarrow> (Inl (ErrorWith ''cannot start a transaction within a transaction''), w)
          | None \<Rightarrow> (Inr (), w\<lparr>srv_open := AList.update c (srv_tables w) (srv_open w)\<rparr>))
     | OpCommit \<Rightarrow>
         (case map_of (srv_open w) c of
            Some t \<Rightarrow> (Inr (), w\<lparr>srv_tables := t, srv_open := AList.delete c (srv_open w)\<rparr>)
          | None \<Rightarrow> (Inl (ErrorWith ''cannot commit - no transaction is active''), w))
     | OpRollback \<Rightarrow>
         (case map_of (srv_open w) c of
            Some t \<Rightarrow> (Inr (), w\<lparr>srv_open := AList.delete c (srv_open w)\<rparr>)
          | None \<Rightarrow> (Inl (ErrorWith ''cannot rollback - no transaction is active''), w))
     | OpOther \<Rightarrow>
         if sql = ''PRAGMA foreign_keys = ON'' then (Inr (), w)
         else server_statement sem reply_done c (QueryExec sql) w)"

definition server_driver ::
    "(Query \<Rightarrow> 'd \<Rightarrow> ('d \<times> Reply) option) \<Rightarrow> (nat, nat \<times> string, 'd Server) Driver" where
  "server_driver sem =
     \<lparr>drv_open = (\<lambda>w. (Inr (srv_next w), w\<lparr>srv_next := srv_next w + 1\<rparr>)),
      drv_prepare = (\<lambda>c sql. server_call c (\<lambda>w. (Inr (c, sql), w))),
      drv_exec = server_exec sem,
      drv_close = (\<lambda>c w. (Inr (), w\<lparr>srv_open := AList.delete c (srv_open w)\<rparr>)),
      drv_run = (\<lambda>(c, sql) ps. server_call c (server_statement sem reply_changed c (QueryRun sql ps))),
      drv_all = (\<lambda>(c, sql) ps. server_call c (server_statement sem reply_rows c (QueryAll sql ps)))\<rparr>"

definition server_working :: "nat \<Rightarrow> 'd Server \<Rightarrow> 'd option" where
  "server_working c w = map_of (srv_open w) c"

fun server_plain :: "Query \<Rightarrow> bool" where
  "server_plain (QueryExec sql) \<longleftrightarrow> commandKind sql = OpOther \<and> sql \<noteq> ''PRAGMA foreign_keys = ON''"
| "server_plain _ \<longleftrightarrow> True"

definition server_reads :: "(Query \<Rightarrow> 'd \<Rightarrow> ('d \<times> Reply) option) \<Rightarrow> Query \<Rightarrow> bool" where
  "server_reads sem q \<longleftrightarrow> (\<forall>t t' v. sem q t = Some (t', v) \<longrightarrow> t' = t)"

lemma server_call_cases:
  assumes "server_call c m w = (r, w')"
  obtains (fault) e where "r = Inl e" and "srv_tables w' = srv_tables w"
      and "isDeadStreamError e \<or> isTransactionAlreadyGone e \<or> srv_open w' = srv_open w"
  | (through) w1 where "m w1 = (r, w')" and "srv_tables w1 = srv_tables w" and "srv_open w1 = srv_open w"
  using assms by (auto simp: server_call_def split: list.splits option.splits if_splits)

lemma server_statement_eq:
  assumes "server_statement sem f c q w = (r, w')"
  shows "(\<exists>e. r = Inl e \<and> w' = w)
    \<or> (\<exists>t t' v x. map_of (srv_open w) c = Some t \<and> sem q t = Some (t', v) \<and> f v = Some x \<and> r = Inr x
         \<and> w' = w\<lparr>srv_open := AList.update c t' (srv_open w)\<rparr>)
    \<or> (\<exists>t' v x. map_of (srv_open w) c = None \<and> sem q (srv_tables w) = Some (t', v) \<and> f v = Some x \<and> r = Inr x
         \<and> w' = w\<lparr>srv_tables := t'\<rparr>)"
  using assms by (auto simp: server_statement_def Let_def split: option.splits prod.splits)

lemma reply_eq [simp]:
  "reply_done v = Some u \<longleftrightarrow> v = Done" "reply_changed v = Some i \<longleftrightarrow> v = Changed i"
  "reply_rows v = Some rs \<longleftrightarrow> v = Rows rs"
  by (cases v; auto)+

lemma server_statement_inside:
  assumes "server_call c (server_statement sem f c q) w = (r, w')" and "server_working c w = Some t"
  shows "srv_tables w' = srv_tables w
    \<and> (\<forall>x. r = Inr x \<longrightarrow> (\<exists>t' v. sem q t = Some (t', v) \<and> f v = Some x \<and> server_working c w' = Some t'))"
  using assms(1)
proof (cases rule: server_call_cases)
  case (through w1)
  then show ?thesis
    using server_statement_eq [OF through(1)] assms(2) by (auto simp: server_working_def update_conv')
qed auto

lemma server_statement_reads:
  assumes "server_call c (server_statement sem f c q) w = (r, w')" and "server_reads sem q"
  shows "srv_tables w' = srv_tables w
    \<and> ((\<forall>e. r = Inl e \<longrightarrow> \<not> isDeadStreamError e \<and> \<not> isTransactionAlreadyGone e)
        \<longrightarrow> server_working c w' = server_working c w)"
  using assms(1)
proof (cases rule: server_call_cases)
  case (fault e)
  then show ?thesis by (auto simp: server_working_def)
next
  case (through w1)
  then show ?thesis
    using server_statement_eq [OF through(1)] assms(2)
    by (auto simp: server_working_def server_reads_def update_conv')
qed

lemma server_control:
  assumes "server_exec sem c sql w = (r, w')" and "commandKind sql \<noteq> OpOther \<or> sql = ''PRAGMA foreign_keys = ON''"
  shows "(r = Inr () \<longrightarrow> (case commandKind sql of
        OpBegin \<Rightarrow> srv_tables w' = srv_tables w \<and> server_working c w' = Some (srv_tables w)
      | OpCommit \<Rightarrow> server_working c w = Some (srv_tables w')
      | _ \<Rightarrow> srv_tables w' = srv_tables w))
    \<and> (\<forall>e. r = Inl e \<longrightarrow> srv_tables w' = srv_tables w)"
  using assms(1) unfolding server_exec_def
proof (cases rule: server_call_cases)
  case (through w1)
  then show ?thesis
    using assms(2)
    by (auto simp: server_working_def update_conv' split: OperationKind.splits option.splits if_splits)
qed auto

lemma server_control_keeps:
  assumes "server_exec sem c sql w = (r, w')"
    and "commandKind sql = OpBegin \<or> commandKind sql = OpRollback \<or> sql = ''PRAGMA foreign_keys = ON''"
  shows "srv_tables w' = srv_tables w"
  using server_control [OF assms(1)] assms(2) by (cases r) (auto split: OperationKind.splits)

lemma server_exec_statement:
  assumes "server_plain (QueryExec sql)"
  shows "server_exec sem c sql = server_call c (server_statement sem reply_done c (QueryExec sql))"
  using assms by (auto simp: server_exec_def fun_eq_iff server_call_def split: list.splits option.splits)

interpretation server: sql_driver "server_driver sem" srv_tables server_working "\<lambda>s. s" sem server_plain
    "server_reads sem" for sem :: "Query \<Rightarrow> 'd \<Rightarrow> ('d \<times> Reply) option"
proof
  fix c :: nat and sql ps and s :: "nat \<times> string" and w w' :: "'d Server" and t
  show "srv_tables w' = srv_tables w
      \<and> (\<forall>u. r = Inr u \<longrightarrow> (\<exists>t'. sem (QueryExec sql) t = Some (t', Done) \<and> server_working c w' = Some t'))"
    if "server_working c w = Some t" "server_plain (QueryExec sql)" "drv_exec (server_driver sem) c sql w = (r, w')" for r
    using server_statement_inside [of c sem reply_done "QueryExec sql" w r w' t] that
      server_exec_statement [OF that(2), of sem c]
    by (auto simp: server_driver_def)
  show "srv_tables w' = srv_tables w
      \<and> (\<forall>i. answer = Inr i \<longrightarrow> (\<exists>t'. sem (QueryRun sql ps) t = Some (t', Changed i) \<and> server_working c w' = Some t'))"
    if "server_working c w = Some t" "s = (c, sql)" "drv_run (server_driver sem) s ps w = (answer, w')" for answer
    using server_statement_inside [of c sem reply_changed "QueryRun sql ps" w answer w' t] that by (auto simp: server_driver_def)
  show "srv_tables w' = srv_tables w
      \<and> (\<forall>rs. listed = Inr rs \<longrightarrow> (\<exists>t'. sem (QueryAll sql ps) t = Some (t', Rows rs) \<and> server_working c w' = Some t'))"
    if "server_working c w = Some t" "s = (c, sql)" "drv_all (server_driver sem) s ps w = (listed, w')" for listed
    using server_statement_inside [of c sem reply_rows "QueryAll sql ps" w listed w' t] that by (auto simp: server_driver_def)
  show "srv_tables w' = srv_tables w
      \<and> ((\<forall>e. listed = Inl e \<longrightarrow> \<not> isDeadStreamError e \<and> \<not> isTransactionAlreadyGone e)
          \<longrightarrow> server_working c w' = server_working c w)"
    if "server_reads sem (QueryAll sql ps)" "s = (c, sql)" "drv_all (server_driver sem) s ps w = (listed, w')" for listed
    using server_statement_reads [of c sem reply_rows "QueryAll sql ps" w listed w'] that by (auto simp: server_driver_def)
qed (auto simp: server_driver_def server_working_def delete_conv' elim!: server_call_cases
    dest: server_control_keeps server_control [unfolded server_working_def])

subsection \<open>Transactions\<close>

text \<open>C12. A transaction run through the reconnecting handle is atomic, whatever calls of the driver
  fail and wherever the stream is lost: when it returns, the durable tables are those of its whole body;
  when it throws, they are as they were before it, or, when the commit was carried out and only its answer
  was lost, those of the whole body. No statement of a transaction is ever carried out on its own.\<close>

theorem transactions_are_atomic:
  assumes "sql_driver d committed working prepared sem plain reads"
    and "cache_ok prepared h" and "body_calls plain fn"
    and "runTransaction (reconnecting_database d) fn h = (r, h')"
  shows "atomic_outcome (meaning_of sem) fn (committed (world h)) r (committed (world h'))"
  using sql_driver.remote_transaction [OF assms] by blast

text \<open>A server whose only table is a list of texts, with an insert, and a transaction of two inserts.\<close>

fun row_sem :: "Query \<Rightarrow> string list \<Rightarrow> (string list \<times> Reply) option" where
  "row_sem (QueryRun sql [SqlText s]) t = Some (t @ [s], Changed \<lparr>run_changes = 1, run_lastInsertRowid = int (length t) + 1\<rparr>)"
| "row_sem (QueryAll sql []) t = Some (t, Rows (map (\<lambda>s. [(''name'', SqlText s)]) t))"
| "row_sem (QueryExec sql) t = Some (t @ [sql], Done)"
| "row_sem (QueryRun sql [SqlInt v, SqlInt nowMs]) t =
     Some (t @ [''v'' @ string_of_int v], Changed \<lparr>run_changes = 1, run_lastInsertRowid = v\<rparr>)"
| "row_sem _ t = None"

definition two_inserts :: "unit Body" where
  "two_inserts =
     Call (QueryRun ''INSERT'' [SqlText ''A'']) (\<lambda>_. Call (QueryRun ''INSERT'' [SqlText ''B'']) (\<lambda>_. Return ()))"

definition stream_lost :: Thrown where
  "stream_lost = ErrorWith ''stream not found: 1''"

definition scripted_handle :: "Thrown option list \<Rightarrow> (nat, nat \<times> string, string list Server) Handle" where
  "scripted_handle faults =
     \<lparr>current = 0, generation = 0, inTransaction = False, statementCache = [], events = [],
      world = \<lparr>srv_tables = [], srv_open = [], srv_next = 1, srv_faults = faults\<rparr>\<rparr>"

lemma two_inserts_plain: "body_calls server_plain two_inserts"
  by (simp add: two_inserts_def)

lemma scripted_handle_ok: "cache_ok prepared (scripted_handle faults)"
  by (simp add: cache_ok_def scripted_handle_def)

lemma lost_before_transaction:
  "runTransaction (reconnecting_database (server_driver row_sem)) two_inserts (scripted_handle [Some stream_lost]) =
   (Inr (), \<lparr>current = 1, generation = 1, inTransaction = False,
      statementCache = [(''INSERT'', (1, (1, ''INSERT'')))], events = [thrown_text stream_lost],
      world = \<lparr>srv_tables = [''A'', ''B''], srv_open = [], srv_next = 2, srv_faults = []\<rparr>\<rparr>)"
  by code_simp

theorem transactions_are_atomic_witness:
  "atomic_outcome (meaning_of row_sem) two_inserts [] (Inr ()) [''A'', ''B'']"
  using transactions_are_atomic [OF server.sql_driver_axioms scripted_handle_ok two_inserts_plain
      lost_before_transaction]
  by (simp add: scripted_handle_def)









subsection \<open>The queue\<close>

text \<open>C29. Transactions called on one handle take effect one after another, in the order they were called,
  whatever reads of other requests run between their statements, as long as none of those reads loses the
  stream or the open transaction: the settled promises are those of the first calls, in order, the
  durable tables between transactions are those of that serial execution, and each one ended atomically.\<close>

theorem queue_runs_in_call_order:
  assumes "sql_driver d committed working prepared sem plain reads"
    and "(queue_step (reconnecting_database d) (quiet_read reads d))\<^sup>*\<^sup>* (new_queue h) q"
    and "cache_ok prepared h" and "list_all (body_calls plain) (q_called q)"
  shows "\<exists>t. map fst (q_settled q) = [0..<length (q_settled q)]
    \<and> serial (meaning_of sem) (committed (world h)) (take (length (q_settled q)) (q_called q)) (map snd (q_settled q)) t
    \<and> (q_running q = None \<longrightarrow> committed (world (q_handle q)) = t)"
  using sql_driver.remote_queue [OF assms] sql_driver.tables_def [OF assms(1)]
  by (auto simp: serialised_def Let_def split: option.splits)

text \<open>A schedule of turns, to run a queue by.\<close>

datatype 'a Turn = Calls "'a Body" | Starts | Advances | Reads Query

fun turn :: "'h ReservedDatabase \<Rightarrow> 'a Turn \<Rightarrow> ('h, 'a) Queue \<Rightarrow> ('h, 'a) Queue" where
  "turn db (Calls fn) q = withTransaction_call fn q"
| "turn db Starts q = start_next db q"
| "turn db Advances q = advance db q"
| "turn db (Reads s) q = q\<lparr>q_handle := snd (perform db s (q_handle q))\<rparr>"

fun enabled :: "(Query \<Rightarrow> 'h \<Rightarrow> bool) \<Rightarrow> 'a Turn \<Rightarrow> ('h, 'a) Queue \<Rightarrow> bool" where
  "enabled allowed (Calls fn) q \<longleftrightarrow> True"
| "enabled allowed Starts q \<longleftrightarrow> Option.is_none (q_running q) \<and> 0 < length (q_waiting q)"
| "enabled allowed Advances q \<longleftrightarrow> \<not> Option.is_none (q_running q)"
| "enabled allowed (Reads s) q \<longleftrightarrow> allowed s (q_handle q)"

fun schedule ::
    "'h ReservedDatabase \<Rightarrow> (Query \<Rightarrow> 'h \<Rightarrow> bool) \<Rightarrow> 'a Turn list \<Rightarrow> ('h, 'a) Queue \<Rightarrow> ('h, 'a) Queue option" where
  "schedule db allowed [] q = Some q"
| "schedule db allowed (t # ts) q =
     (if enabled allowed t q then schedule db allowed ts (turn db t q) else None)"

lemma turn_step: "enabled allowed t q \<Longrightarrow> queue_step db allowed q (turn db t q)"
  by (cases t) (auto simp: Option.is_none_def intro: queue_step.intros)

lemma schedule_steps: "schedule db allowed ts q = Some q' \<Longrightarrow> (queue_step db allowed)\<^sup>*\<^sup>* q q'"
  by (induction ts arbitrary: q)
    (auto split: if_splits intro: converse_rtranclp_into_rtranclp turn_step)

lemma queue_step_mono:
  assumes "(queue_step db allowed)\<^sup>*\<^sup>* q q'" and "\<And>s h. allowed s h \<Longrightarrow> allowed' s h"
  shows "(queue_step db allowed')\<^sup>*\<^sup>* q q'"
  using assms(1)
proof (induction rule: rtranclp_induct)
  case (step q1 q2)
  have "queue_step db allowed' q1 q2" using step.hyps(2) assms(2) by cases (auto intro: queue_step.intros)
  then show ?case using step.IH by simp
qed simp

text \<open>A transaction of two inserts and a read of another request between them.\<close>

abbreviation rows_db :: "(nat, nat \<times> string, string list Server) Handle ReservedDatabase" where
  "rows_db \<equiv> reconnecting_database (server_driver row_sem)"

definition handle_with ::
    "nat \<Rightarrow> bool \<Rightarrow> string list \<Rightarrow> string list \<Rightarrow> (nat \<times> string list) list \<Rightarrow> Thrown option list
      \<Rightarrow> (nat, nat \<times> string, string list Server) Handle" where
  "handle_with g tx cached rows pending faults =
     \<lparr>current = g, generation = g, inTransaction = tx,
      statementCache = map (\<lambda>sql. (sql, (g, (g, sql)))) cached,
      events = replicate g (thrown_text stream_lost),
      world = \<lparr>srv_tables = rows, srv_open = pending, srv_next = Suc g, srv_faults = faults\<rparr>\<rparr>"

definition insert_row :: "string \<Rightarrow> Query" where
  "insert_row s = QueryRun ''INSERT'' [SqlText s]"

definition seen_rows :: Query where
  "seen_rows = QueryAll ''SELECT'' []"

definition gentle_read :: "Query \<Rightarrow> (nat, nat \<times> string, string list Server) Handle \<Rightarrow> bool" where
  "gentle_read s h \<longleftrightarrow> s = seen_rows \<and> \<not> lost_by (server_driver row_sem) ''SELECT'' [] h"

lemma gentle_read_quiet: "gentle_read s h \<Longrightarrow> quiet_read (server_reads row_sem) (server_driver row_sem) s h"
  by (auto simp: gentle_read_def seen_rows_def server_reads_def)

lemma two_inserts_rows: "two_inserts = Call (insert_row ''A'') (\<lambda>_. Call (insert_row ''B'') (\<lambda>_. Return ()))"
  by (simp add: two_inserts_def insert_row_def)

lemma script_errors [simp]:
  "isDeadStreamError stream_lost" "\<not> isTransactionAlreadyGone stream_lost" "\<not> isNothingToRollBack stream_lost"
  "\<not> isDeadStreamError (ErrorWith ''cannot commit - no transaction is active'')"
  "isTransactionAlreadyGone (ErrorWith ''cannot commit - no transaction is active'')"
  "isNothingToRollBack (ErrorWith ''cannot rollback - no transaction is active'')"
  by code_simp+

lemmas script_run = handle_with_def insert_row_def seen_rows_def reconnecting_database_def server_driver_def
  server_exec_def server_call_def server_statement_def attempt_def reconnect_def withStatement_def statementFor_def
  prepare_fresh_def on_driver_def mark_done_def mark_begin_def io_bind_def io_return_def Let_def

lemma gentle_run:
  "db_exec rows_db ''BEGIN IMMEDIATE'' (handle_with 0 False [] [] [] []) = (Inr (), handle_with 0 True [] [] [(0, [])] [])"
  "perform rows_db (insert_row ''A'') (handle_with 0 True [] [] [(0, [])] []) =
     (Inr (Changed \<lparr>run_changes = 1, run_lastInsertRowid = 1\<rparr>), handle_with 0 True [''INSERT''] [] [(0, [''A''])] [])"
  "perform rows_db seen_rows (handle_with 0 True [''INSERT''] [] [(0, [''A''])] []) =
     (Inr (Rows [[(''name'', SqlText ''A'')]]), handle_with 0 True [''INSERT'', ''SELECT''] [] [(0, [''A''])] [])"
  "gentle_read seen_rows (handle_with 0 True [''INSERT''] [] [(0, [''A''])] [])"
  "perform rows_db (insert_row ''B'') (handle_with 0 True [''INSERT'', ''SELECT''] [] [(0, [''A''])] []) =
     (Inr (Changed \<lparr>run_changes = 1, run_lastInsertRowid = 2\<rparr>),
      handle_with 0 True [''INSERT'', ''SELECT''] [] [(0, [''A'', ''B''])] [])"
  "db_exec rows_db ''COMMIT'' (handle_with 0 True [''INSERT'', ''SELECT''] [] [(0, [''A'', ''B''])] []) =
     (Inr (), handle_with 0 False [''INSERT'', ''SELECT''] [''A'', ''B''] [] [])"
  by (simp_all add: script_run gentle_read_def lost_by_def)


lemmas scheduled = two_inserts_rows new_queue_def withTransaction_call_def start_next.simps advance.simps
  settle_def run_phase_def

lemma gentle_schedule:
  "schedule rows_db gentle_read [Calls two_inserts, Starts, Advances, Reads seen_rows, Advances, Advances]
     (new_queue (handle_with 0 False [] [] [] [])) =
   Some \<lparr>q_handle = handle_with 0 False [''INSERT'', ''SELECT''] [''A'', ''B''] [] [], q_running = None, q_waiting = [],
         q_settled = [(0, Inr ())], q_called = [two_inserts]\<rparr>"
  by (simp add: scheduled gentle_run)

theorem queue_runs_in_call_order_witness:
  "\<exists>t. serial (meaning_of row_sem) [] [two_inserts] [Inr ()] t \<and> [''A'', ''B''] = t"
  using queue_runs_in_call_order [OF server.sql_driver_axioms
      queue_step_mono [OF schedule_steps [OF gentle_schedule] gentle_read_quiet]]
  by (simp add: two_inserts_plain cache_ok_def handle_with_def)




subsection \<open>The queue drains\<close>

definition drive :: "'h ReservedDatabase \<Rightarrow> ('h, 'a) Queue \<Rightarrow> ('h, 'a) Queue" where
  "drive db q = (if Option.is_none (q_running q) then start_next db q else advance db q)"

fun run_all :: "'h ReservedDatabase \<Rightarrow> (nat \<times> 'a Body) list \<Rightarrow> 'h \<Rightarrow> (nat \<times> (Thrown + 'a)) list \<times> 'h" where
  "run_all db [] h = ([], h)"
| "run_all db ((i, fn) # rest) h =
     (let (r, h1) = runTransaction db fn h; (rs, h2) = run_all db rest h1 in ((i, r) # rs, h2))"

lemma drive_more: "\<exists>n. (drive db ^^ n) (drive db q) = q' \<Longrightarrow> \<exists>n. (drive db ^^ n) q = q'"
  by (metis comp_apply funpow_Suc_right)

lemma drive_once: "drive db q = q' \<Longrightarrow> \<exists>n. (drive db ^^ n) q = q'"
  by (rule exI [of _ 1]) simp

lemma drive_trans:
  "\<exists>n. (drive db ^^ n) q = q1 \<Longrightarrow> \<exists>n. (drive db ^^ n) q1 = q2 \<Longrightarrow> \<exists>n. (drive db ^^ n) q = q2"
  by (metis comp_apply funpow_add)

lemma settle_run_phase [simp]: "settle i r h (run_phase i p h' q) = settle i r h q"
  by (simp add: settle_def run_phase_def)

lemma run_phase_fields [simp]:
  "q_running (run_phase i p h q) = Some (i, p)" "q_handle (run_phase i p h q) = h"
  by (simp_all add: run_phase_def)

lemma drive_rollback:
  "q_running q = Some (i, RollingBack e) \<Longrightarrow>
   \<exists>n. (drive db ^^ n) q = settle i (Inl e) (snd (db_exec db ''ROLLBACK'' (q_handle q))) q"
  by (rule drive_more, rule exI [of _ 0]) (simp add: drive_def advance.simps)

definition ended :: "'h ReservedDatabase \<Rightarrow> nat \<Rightarrow> (Thrown + 'a) \<times> 'h \<Rightarrow> ('h, 'a) Queue \<Rightarrow> ('h, 'a) Queue" where
  "ended db i res q =
     (case res of
        (Inr x, h) \<Rightarrow> settle i (Inr x) h q
      | (Inl e, h) \<Rightarrow> settle i (Inl e) (snd (db_exec db ''ROLLBACK'' h)) q)"

lemma ended_run_phase [simp]: "ended db i res (run_phase i p h q) = ended db i res q"
  by (auto simp: ended_def split: prod.splits sum.splits)

lemma drive_failed:
  assumes "drive db q = run_phase i (RollingBack e) h q"
  shows "\<exists>n. (drive db ^^ n) q = ended db i (Inl e, h) q"
  using drive_more [of db q] drive_rollback [of "run_phase i (RollingBack e) h q" i e db] assms
  by (simp add: ended_def)

lemma drive_body:
  assumes "q_running q = Some (i, InBody b)"
  shows "\<exists>n. (drive db ^^ n) q =
    ended db i (io_bind (run_body db b) (\<lambda>x. io_bind (db_exec db ''COMMIT'') (\<lambda>_. io_return x)) (q_handle q)) q"
  using assms
proof (induction b arbitrary: q)
  case (Return x)
  obtain r h where run: "db_exec db ''COMMIT'' (q_handle q) = (r, h)" by fastforce
  show ?case
  proof (cases r)
    case (Inl e)
    then have "drive db q = run_phase i (RollingBack e) h q"
      using Return run by (simp add: drive_def advance.simps)
    then show ?thesis using drive_failed run Inl by simp
  next
    case (Inr u)
    then have "drive db q = settle i (Inr x) h q"
      using Return run by (simp add: drive_def advance.simps)
    then show ?thesis using drive_once [of db q "settle i (Inr x) h q"] run Inr by (simp add: ended_def)
  qed
next
  case (Throw e)
  then have "drive db q = run_phase i (RollingBack e) (q_handle q) q" by (simp add: drive_def advance.simps)
  then show ?case using drive_failed by simp
next
  case (Call s k)
  obtain a h where run: "perform db s (q_handle q) = (a, h)" by fastforce
  show ?case
  proof (cases a)
    case (Inl e)
    then have "drive db q = run_phase i (RollingBack e) h q"
      using Call.prems run by (simp add: drive_def advance.simps)
    then show ?thesis using drive_failed run Inl by simp
  next
    case (Inr v)
    then have "drive db q = run_phase i (InBody (k v)) h q"
      using Call.prems run by (simp add: drive_def advance.simps)
    then show ?thesis
      using drive_more [of db q] Call.IH [of "k v" "run_phase i (InBody (k v)) h q"] run Inr
      by (simp add: io_bind_assoc)
  qed
qed

lemma drive_transaction:
  assumes "q_running q = None" and "q_waiting q = (i, fn) # rest"
  shows "\<exists>n. (drive db ^^ n) q =
    settle i (fst (runTransaction db fn (q_handle q))) (snd (runTransaction db fn (q_handle q))) (q\<lparr>q_waiting := rest\<rparr>)"
proof -
  obtain r h where run: "db_exec db ''BEGIN IMMEDIATE'' (q_handle q) = (r, h)" by fastforce
  show ?thesis
  proof (cases r)
    case (Inl e)
    then have "drive db q = settle i (Inl e) h (q\<lparr>q_waiting := rest\<rparr>)"
      using assms run by (simp add: drive_def start_next.simps)
    then show ?thesis
      using drive_once [of db q "settle i (Inl e) h (q\<lparr>q_waiting := rest\<rparr>)"] run Inl
      by (simp add: runTransaction_def)
  next
    case (Inr u)
    let ?q = "run_phase i (InBody fn) h (q\<lparr>q_waiting := rest\<rparr>)"
    have "drive db q = ?q" using assms run Inr by (simp add: drive_def start_next.simps)
    then have "\<exists>n. (drive db ^^ n) q = ended db i (io_bind (run_body db fn)
        (\<lambda>x. io_bind (db_exec db ''COMMIT'') (\<lambda>_. io_return x)) h) (q\<lparr>q_waiting := rest\<rparr>)"
      using drive_more [of db q] drive_body [of ?q i fn db] by simp
    moreover have "ended db i (io_bind (run_body db fn) (\<lambda>x. io_bind (db_exec db ''COMMIT'') (\<lambda>_. io_return x)) h) q' =
        settle i (fst (runTransaction db fn (q_handle q))) (snd (runTransaction db fn (q_handle q))) q'" for q'
      using run Inr by (auto simp: runTransaction_def ended_def split: prod.splits sum.splits)
    ultimately show ?thesis by simp
  qed
qed

lemma drive_all:
  assumes "q_running q = None"
  shows "\<exists>n. (drive db ^^ n) q =
    (let (rs, h) = run_all db (q_waiting q) (q_handle q)
     in q\<lparr>q_handle := h, q_waiting := [], q_settled := q_settled q @ rs\<rparr>)"
  using assms
proof (induction "q_waiting q" arbitrary: q)
  case Nil
  then show ?case by (intro exI [of _ 0]) (simp add: Nil(1) [symmetric])
next
  case (Cons w rest)
  obtain i fn where w: "w = (i, fn)" by fastforce
  obtain r h where r: "runTransaction db fn (q_handle q) = (r, h)" by fastforce
  let ?q = "settle i r h (q\<lparr>q_waiting := rest\<rparr>)"
  have one: "\<exists>n. (drive db ^^ n) q = ?q"
    using drive_transaction [of q i fn rest db] Cons.hyps(2) Cons.prems w r by simp
  have rest: "\<exists>n. (drive db ^^ n) ?q =
      (let (rs, h) = run_all db (q_waiting ?q) (q_handle ?q)
       in ?q\<lparr>q_handle := h, q_waiting := [], q_settled := q_settled ?q @ rs\<rparr>)"
    by (rule Cons.hyps(1)) (simp_all add: settle_def)
  have idle: "q\<lparr>q_running := None, q_handle := h, q_waiting := ws, q_settled := ss\<rparr> = q\<lparr>q_handle := h, q_waiting := ws, q_settled := ss\<rparr>"
    for h ws ss using Cons.prems by (cases q) simp
  show ?case
    using drive_trans [OF one rest] Cons.hyps(2) [symmetric] w r
    by (simp add: settle_def idle split: prod.splits)
qed

text \<open>C30. A queue always drains: whatever handle it runs on and however its transactions end, after
  finitely many steps every transaction that was called has settled its promise with what
  \<open>runTransaction\<close> gives on the handle as the transactions before it left it. A transaction that throws
  does not keep the later ones from running.\<close>

theorem queue_drains:
  "\<exists>n. (drive db ^^ n) (fold withTransaction_call fns (new_queue h)) =
     (case run_all db (List.enumerate 0 fns) h of
        (rs, h') \<Rightarrow> \<lparr>q_handle = h', q_running = None, q_waiting = [], q_settled = rs, q_called = fns\<rparr>)"
proof -
  have calls: "fold withTransaction_call fns q =
      q\<lparr>q_waiting := q_waiting q @ List.enumerate (length (q_called q)) fns, q_called := q_called q @ fns\<rparr>"
    for q
    by (induction fns arbitrary: q) (auto simp: withTransaction_call_def)
  show ?thesis
    using drive_all [of "fold withTransaction_call fns (new_queue h)" db]
    by (simp add: calls new_queue_def split: prod.splits)
qed

subsection \<open>Migrations\<close>

lemma check_versions_ok: "check_versions n p ms = Inr u \<longleftrightarrow> map mg_version ms = [n..<n + length ms]"
  by (induction ms arbitrary: n p) (auto simp: upt_rec)

text \<open>The migration directory is accepted exactly when the versions of its migration files are
  1, 2, ..., n with none missing and none twice, in whatever order the files are listed; the migrations
  are then those of the files, in that order. Anything else is refused before any of them is run.\<close>

theorem migrations_are_gapless:
  "(\<exists>ms. migrationsUnder files = Inr ms) \<longleftrightarrow>
     mset (map mg_version (List.map_filter migration_of files)) = mset [1..<Suc (length (List.map_filter migration_of files))]"
proof -
  define ms where "ms = sort_key mg_version (List.map_filter migration_of files)"
  have mset: "mset (map mg_version (List.map_filter migration_of files)) = mset (map mg_version ms)"
    by (simp add: ms_def)
  have len: "length (List.map_filter migration_of files) = length ms" by (simp add: ms_def)
  have "sorted (map mg_version ms)" by (simp add: ms_def)
  then have "mset (map mg_version ms) = mset [1..<Suc (length ms)] \<longleftrightarrow> map mg_version ms = [1..<Suc (length ms)]"
    by (metis properties_for_sort sorted_upt sort_upt)
  moreover have "(\<exists>ms. migrationsUnder files = Inr ms) \<longleftrightarrow> map mg_version ms = [1..<Suc (length ms)]"
    by (auto simp: migrationsUnder_def Let_def ms_def [symmetric] andThen_eq_Inr check_versions_ok)
  ultimately show ?thesis unfolding mset len by blast
qed

text \<open>C32. Running the migrations leaves the durable tables as some number of whole migrations from the
  front of the list left them, each with the record of its version, whatever fails on the way; when it
  returns, as all of them did.\<close>

theorem migrations_apply_as_a_prefix:
  assumes "sql_driver d committed working prepared sem plain reads"
    and "cache_ok prepared h" and "list_all (\<lambda>m. body_calls plain (migration_body nowMs m)) ms"
    and "apply_migrations (reconnecting_database d) nowMs ms h = (r, h')"
  shows "\<exists>k \<le> length ms. migrated (meaning_of sem) nowMs (take k ms) (committed (world h)) = Some (committed (world h'))
    \<and> (r = Inr () \<longrightarrow> k = length ms)"
  using sql_driver.remote_migrations [OF assms] .

definition two_migrations :: "Migration list" where
  "two_migrations = [\<lparr>mg_version = 1, mg_name = ''a'', mg_sql = ''one''\<rparr>, \<lparr>mg_version = 2, mg_name = ''b'', mg_sql = ''two''\<rparr>]"

lemma two_migrations_run:
  "apply_migrations rows_db 7 two_migrations (handle_with 0 False [] [] [] (replicate 6 None @ [Some stream_lost])) =
   (Inl (migration_failed \<lparr>mg_version = 2, mg_name = ''b'', mg_sql = ''two''\<rparr> stream_lost),
    handle_with (Suc 0) False [] [''one'', ''v1''] [] [])"
  by code_simp

theorem migrations_apply_as_a_prefix_witness:
  "\<exists>k \<le> 2. migrated (meaning_of row_sem) 7 (take k two_migrations) [] = Some [''one'', ''v1'']"
proof -
  have plain: "list_all (\<lambda>m. body_calls server_plain (migration_body 7 m)) two_migrations"
    by (simp add: two_migrations_def migration_body_def) code_simp
  have ok: "cache_ok (\<lambda>s. s) (handle_with 0 False [] [] [] (replicate 6 None @ [Some stream_lost]))"
    by (simp add: cache_ok_def handle_with_def)
  have len: "length two_migrations = 2" by (simp add: two_migrations_def)
  show ?thesis
    using migrations_apply_as_a_prefix [OF server.sql_driver_axioms ok plain two_migrations_run]
    by (auto simp: handle_with_def len)
qed

end
