(* ===== verification/Trv11_Totp.thy ===== *)
theory Trv11_Totp
  imports Bpp_Prelude "HOL-Library.Word"
begin

unbundle bit_operations_syntax

text \<open>
  The rotating code of a pass (\<open>src/src/trv11/totp.ts\<close>): the base32 text of the secret, on the 32-bit
  words the shifts of the language work on, and the code of a time step. The keyed hash is the host's
  HMAC-SHA1, the argument \<open>hmac\<close>, from the key and the message to the digest.

  \<open>atMilliseconds\<close> is the time of a \<open>Date\<close>; in its range the two divisions of the source are exact
  and are written as integer division.
\<close>

subsection \<open>Base32\<close>

type_synonym byte = "8 word"

definition BASE32_ALPHABET :: string where
  "BASE32_ALPHABET = ''ABCDEFGHIJKLMNOPQRSTUVWXYZ234567''"

definition TOTP_ALGORITHM :: string where "TOTP_ALGORITHM = ''SHA1''"
definition TOTP_DIGITS :: int where "TOTP_DIGITS = 6"
definition TOTP_PERIOD_SECONDS :: int where "TOTP_PERIOD_SECONDS = 30"
definition TOTP_SECRET_BYTES :: int where "TOTP_SECRET_BYTES = 20"
definition TOTP_STEP_DRIFT :: int where "TOTP_STEP_DRIFT = 1"

record TotpParameters =
  tp_algorithm :: string
  tp_digits :: int
  tp_periodSeconds :: int

definition TOTP_PARAMETERS :: TotpParameters where
  "TOTP_PARAMETERS =
     \<lparr>tp_algorithm = TOTP_ALGORITHM, tp_digits = TOTP_DIGITS, tp_periodSeconds = TOTP_PERIOD_SECONDS\<rparr>"

text \<open>The character \<open>BASE32_ALPHABET[w & 31]\<close>.\<close>

definition symbol :: "32 word \<Rightarrow> char" where
  "symbol w = BASE32_ALPHABET ! unat (w AND 31)"

text \<open>\<open>while (bits >= 5)\<close>: the characters taken off the buffer and the bits that are left.\<close>

fun take_symbols :: "32 word \<Rightarrow> nat \<Rightarrow> string \<times> nat" where
  "take_symbols buffer bits =
     (if 5 \<le> bits
      then case take_symbols buffer (bits - 5) of
             (rest, left) \<Rightarrow> (symbol (drop_bit (bits - 5) buffer) # rest, left)
      else ([], bits))"

declare take_symbols.simps [simp del]

fun encode_bytes :: "32 word \<Rightarrow> nat \<Rightarrow> byte list \<Rightarrow> string" where
  "encode_bytes buffer bits [] =
     (if 0 < bits then [symbol (push_bit (5 - bits) buffer)] else [])"
| "encode_bytes buffer bits (b # bs) =
     (let buffer' = push_bit 8 buffer OR ucast b;
          (encoded, left) = take_symbols buffer' (bits + 8)
      in encoded @ encode_bytes buffer' left bs)"

definition encodeBase32 :: "byte list \<Rightarrow> string" where
  "encodeBase32 = encode_bytes 0 0"

fun index_of :: "char \<Rightarrow> string \<Rightarrow> nat option" where
  "index_of c [] = None"
| "index_of c (d # s) = (if c = d then Some 0 else map_option Suc (index_of c s))"

definition strip_padding :: "string \<Rightarrow> string" where
  "strip_padding s = rev (dropWhile (\<lambda>c. c = CHR ''='') (rev s))"

datatype TotpError =
    NotBase32 | SecretTooShort | WrongSecretLength | UnsupportedAlgorithm
  | BadDigits | BadPeriod | BeforeEpoch | CounterTooLarge

fun decode_symbols :: "32 word \<Rightarrow> nat \<Rightarrow> string \<Rightarrow> TotpError + byte list" where
  "decode_symbols buffer bits [] = Inr []"
| "decode_symbols buffer bits (c # s) =
     (case index_of c BASE32_ALPHABET of
        None \<Rightarrow> Inl NotBase32
      | Some i \<Rightarrow>
          let buffer' = push_bit 5 buffer OR of_nat i; bits' = bits + 5 in
          if 8 \<le> bits'
          then andThen (decode_symbols buffer' (bits' - 8) s)
                 (\<lambda>bs. Inr (ucast (drop_bit (bits' - 8) buffer' AND 0xff) # bs))
          else decode_symbols buffer' bits' s)"

definition decodeBase32 :: "string \<Rightarrow> TotpError + byte list" where
  "decodeBase32 encoded = decode_symbols 0 0 (toUpperCase (strip_padding encoded))"

subsection \<open>Secrets and codes\<close>

definition isSafe :: "int \<Rightarrow> bool" where
  "isSafe n \<longleftrightarrow> \<bar>n\<bar> \<le> 9007199254740991"

text \<open>\<open>random\<close> is the source of secret bytes.\<close>

definition mintPassSecret :: "(int \<Rightarrow> byte list) \<Rightarrow> int \<Rightarrow> TotpError + string" where
  "mintPassSecret random byteLength =
     (if \<not> isSafe byteLength \<or> byteLength < TOTP_SECRET_BYTES then Inl SecretTooShort
      else let bytes = random byteLength in
        if int (length bytes) \<noteq> byteLength then Inl WrongSecretLength
        else Inr (encodeBase32 bytes))"

definition hmacName :: "string \<Rightarrow> TotpError + string" where
  "hmacName algorithm = (if algorithm \<noteq> TOTP_ALGORITHM then Inl UnsupportedAlgorithm else Inr ''sha1'')"

text \<open>The eight bytes \<open>writeBigUInt64BE\<close> writes.\<close>

definition counter_bytes :: "int \<Rightarrow> byte list" where
  "counter_bytes n = map (\<lambda>k. of_int (n div 256 ^ (7 - k))) [0..<8]"

text \<open>The dynamic truncation of RFC 4226, a 31-bit number.\<close>

definition truncated :: "byte list \<Rightarrow> nat" where
  "truncated digest =
     (let offset = unat (last digest AND 0x0f);
          nth_byte = (\<lambda>i. ucast (digest ! (offset + i)) :: 32 word)
      in unat (push_bit 24 (nth_byte 0 AND 0x7f) OR push_bit 16 (nth_byte 1) OR push_bit 8 (nth_byte 2) OR nth_byte 3))"

type_synonym hmac_sha1 = "byte list \<Rightarrow> byte list \<Rightarrow> byte list"

definition totp_counter :: "int \<Rightarrow> int \<Rightarrow> int" where
  "totp_counter atMilliseconds periodSeconds = (atMilliseconds div 1000) div periodSeconds"

definition totpCode :: "hmac_sha1 \<Rightarrow> string \<Rightarrow> int \<Rightarrow> TotpParameters \<Rightarrow> TotpError + string" where
  "totpCode hmac secretBase32 atMilliseconds parameters =
     (let digits = tp_digits parameters; periodSeconds = tp_periodSeconds parameters in
      if \<not> isSafe digits \<or> digits < 6 \<or> digits > 10 then Inl BadDigits
      else if \<not> isSafe periodSeconds \<or> periodSeconds \<le> 0 then Inl BadPeriod
      else let counter = totp_counter atMilliseconds periodSeconds in
        if counter < 0 then Inl BeforeEpoch
        else if counter \<ge> 2 ^ 64 then Inl CounterTooLarge
        else andThen (hmacName (tp_algorithm parameters)) (\<lambda>_.
          andThen (decodeBase32 secretBase32) (\<lambda>key.
            Inr (padStart (nat digits) (CHR ''0'')
              (digits10 (truncated (hmac key (counter_bytes counter)) mod 10 ^ nat digits))))))"

text \<open>The steps tried, \<open>-stepDrift\<close> to \<open>stepDrift\<close>; each is computed, whether an earlier one matched or not.\<close>

fun try_steps ::
    "hmac_sha1 \<Rightarrow> string \<Rightarrow> string \<Rightarrow> int \<Rightarrow> TotpParameters \<Rightarrow> int list \<Rightarrow> TotpError + bool" where
  "try_steps hmac secretBase32 presented atMilliseconds parameters [] = Inr False"
| "try_steps hmac secretBase32 presented atMilliseconds parameters (step # steps) =
     andThen (totpCode hmac secretBase32 (atMilliseconds + step * tp_periodSeconds parameters * 1000) parameters)
       (\<lambda>candidate. andThen (try_steps hmac secretBase32 presented atMilliseconds parameters steps)
         (\<lambda>matched. Inr (candidate = presented \<or> matched)))"

definition verifyTotpCode ::
    "hmac_sha1 \<Rightarrow> string \<Rightarrow> string \<Rightarrow> int \<Rightarrow> TotpParameters \<Rightarrow> int \<Rightarrow> TotpError + bool" where
  "verifyTotpCode hmac secretBase32 presented atMilliseconds parameters stepDrift =
     (if int (length presented) \<noteq> tp_digits parameters \<or> \<not> (presented \<noteq> [] \<and> list_all is_digit presented)
      then Inr False
      else try_steps hmac secretBase32 presented atMilliseconds parameters [- stepDrift..stepDrift])"

end
