(* ===== verification/Trv11_Types.thy ===== *)
theory Trv11_Types
  imports JS_Date JS_Number Json Trv11_Totp
begin

text \<open>
  The vocabulary of the single-journey category: its errors, the times of \<open>src/src/trv11/time.ts\<close>, the
  operators, offers and sources of \<open>src/src/sources/types.ts\<close> and the requests of
  \<open>src/src/protocol/types.ts\<close>. An error carries its code and its message, so that what a message
  discloses can be stated. A \<open>Date\<close> is its time value; \<open>date_parse\<close> is the parser of the host's
  \<open>Date\<close>, of which the language fixes the ISO format only.
\<close>

datatype OrderError =
    LifecycleError string string
  | ThrownError string
  | TotpFailure TotpError

subsection \<open>Times\<close>

definition INDIA_OFFSET :: int where
  "INDIA_OFFSET = 19800000"

text \<open>An optional group \<open>(?:(\d+)X)?\<close>: its number, and the text after it.\<close>

definition number_before :: "char \<Rightarrow> string \<Rightarrow> nat option \<times> string" where
  "number_before unit s =
     (let ds = takeWhile is_digit s; rest = dropWhile is_digit s in
      if ds \<noteq> [] \<and> rest \<noteq> [] \<and> hd rest = unit then (Some (digits_value ds), tl rest) else (None, s))"

definition ISO_DURATION :: "string \<Rightarrow> (nat option \<times> nat option \<times> nat option \<times> nat option) option" where
  "ISO_DURATION s =
     (case s of
        [] \<Rightarrow> None
      | c # r \<Rightarrow>
          if c \<noteq> CHR ''P'' then None
          else let (days, r1) = number_before (CHR ''D'') r in
            (case r1 of
               [] \<Rightarrow> Some (days, None, None, None)
             | t # r2 \<Rightarrow>
                 if t \<noteq> CHR ''T'' then None
                 else let (hours, r3) = number_before (CHR ''H'') r2;
                          (minutes, r4) = number_before (CHR ''M'') r3;
                          (seconds, r5) = number_before (CHR ''S'') r4
                      in if r5 = [] then Some (days, hours, minutes, seconds) else None))"

definition or_zero :: "nat option \<Rightarrow> int" where
  "or_zero n = (case n of None \<Rightarrow> 0 | Some k \<Rightarrow> int k)"

definition durationMilliseconds :: "string \<Rightarrow> OrderError + int" where
  "durationMilliseconds duration =
     (case ISO_DURATION duration of
        None \<Rightarrow> Inl (ThrownError (''Unsupported ticket validity duration '' @ duration))
      | Some (days, hours, minutes, seconds) \<Rightarrow>
          let ms = (((or_zero days * 24 + or_zero hours) * 60 + or_zero minutes) * 60 + or_zero seconds) * 1000 in
          if \<not> isSafeInteger ms \<or> ms \<le> 0
          then Inl (ThrownError (''Ticket validity must be a positive duration: '' @ duration))
          else Inr ms)"

fun HHMM :: "string \<Rightarrow> bool" where
  "HHMM [a, b, c, d, e] \<longleftrightarrow>
     ((a = CHR ''0'' \<or> a = CHR ''1'') \<and> is_digit b \<or> a = CHR ''2'' \<and> is_digit b \<and> digit_val b \<le> 3)
     \<and> c = CHR '':'' \<and> is_digit d \<and> digit_val d \<le> 5 \<and> is_digit e"
| "HHMM _ \<longleftrightarrow> False"

definition serviceInstant :: "(string \<Rightarrow> int option) \<Rightarrow> string \<Rightarrow> string \<Rightarrow> OrderError + string" where
  "serviceInstant date_parse timestamp hhmm =
     (case date_parse timestamp of
        None \<Rightarrow> Inl (ThrownError (''Invalid service timestamp '' @ timestamp))
      | Some instant \<Rightarrow>
          if \<not> HHMM hhmm then Inl (ThrownError (''Invalid service time '' @ hhmm))
          else if \<bar>instant + INDIA_OFFSET\<bar> > 8640000000000000 then Inl (ThrownError ''Invalid time value'')
          else Inr (take 10 (toISOString (instant + INDIA_OFFSET)) @ ''T'' @ hhmm @ '':00.000+05:30''))"

subsection \<open>Operators, tiers and the parts of the catalogue the passes use\<close>

datatype PassOperatorKey = Bmtc | Bmrcl | Ksrtc

fun operator_wire :: "PassOperatorKey \<Rightarrow> string" where
  "operator_wire Bmtc = ''bmtc''"
| "operator_wire Bmrcl = ''bmrcl''"
| "operator_wire Ksrtc = ''ksrtc''"

datatype ServiceTier = ORDINARY_BUS | AC_BUS | METRO

fun tier_wire :: "ServiceTier \<Rightarrow> string" where
  "tier_wire ORDINARY_BUS = ''ORDINARY_BUS''"
| "tier_wire AC_BUS = ''AC_BUS''"
| "tier_wire METRO = ''METRO''"

datatype VehicleCategory = BUS_VEHICLE | METRO_VEHICLE

record OperatorProfile =
  op_id :: string
  op_name :: string
  op_vehicleCategory :: VehicleCategory
  op_startHHMM :: string
  op_endHHMM :: string

subsection \<open>Offers\<close>

record RouteStop =
  rs_code :: "string option"
  rs_name :: string
  rs_nameLocal :: "string option"
  rs_lat :: rat
  rs_lon :: rat
  rs_isInterchange :: bool
  rs_changeHint :: "string option"

record TransitOffer =
  of_offerId :: string
  of_productCode :: string
  of_productName :: string
  of_farePaise :: int
  of_serviceTier :: "ServiceTier option"
  of_validity :: string
  of_route :: "RouteStop list"
  of_routeId :: string
  of_routeName :: string
  of_routeColor :: "string option"

record SearchQuery =
  sq_fromCode :: "string option"
  sq_toCode :: "string option"
  sq_fromGps :: "(rat \<times> rat) option"
  sq_toGps :: "(rat \<times> rat) option"
  sq_departAt :: "string option"
  sq_cityCode :: string

text \<open>A journey source: the operator it speaks for and how it answers a search.\<close>

record JourneySource =
  js_operator :: OperatorProfile
  js_search :: "SearchQuery \<Rightarrow> TransitOffer list"

subsection \<open>Requests\<close>

record Trv11Context =
  cx_domain :: string
  cx_location :: json
  cx_city :: string
  cx_action :: string
  cx_version :: string
  cx_bap_id :: string
  cx_bap_uri :: string
  cx_bpp_id :: "string option"
  cx_bpp_uri :: "string option"
  cx_transaction_id :: string
  cx_message_id :: string
  cx_timestamp :: string
  cx_ttl :: string

record SearchStop =
  st_type :: string
  st_code :: "string option"
  st_gps :: "string option"
  st_time :: "string option"

record SearchRequest =
  sr_context :: Trv11Context
  sr_stops :: "SearchStop list option"
  sr_category :: "string option"

record SelectedItem =
  si_id :: string
  si_count :: rat

text \<open>A payment is the JSON object it was sent as.\<close>

type_synonym Payment = "(string \<times> json) list"

text \<open>The order of a select, an init or a confirm; select has no billing and no payments.\<close>

record TransitOrderInput =
  oi_items :: "SelectedItem list"
  oi_provider_id :: string
  oi_billing :: json
  oi_payments :: "Payment list"
  oi_tags :: "json option"

record OrderRequest =
  rq_context :: Trv11Context
  rq_order :: TransitOrderInput

record StatusRequest =
  sx_context :: Trv11Context
  sx_order_id :: "string option"
  sx_ref_id :: "string option"

text \<open>Truthiness of an optional string, and \<open>a ?? b\<close>.\<close>

definition truthy :: "string option \<Rightarrow> bool" where
  "truthy s \<longleftrightarrow> s \<noteq> None \<and> s \<noteq> Some []"

definition coalesce :: "'a option \<Rightarrow> 'a option \<Rightarrow> 'a option" where
  "coalesce a b = (case a of None \<Rightarrow> b | Some x \<Rightarrow> Some x)"

text \<open>The JSON of a descriptor, a tag entry and a tag group.\<close>

definition code_of :: "string \<Rightarrow> json" where
  "code_of c = JObj [(''code'', JStr c)]"

definition entry_of :: "string \<Rightarrow> string \<Rightarrow> json" where
  "entry_of c v = JObj [(''descriptor'', code_of c), (''value'', JStr v)]"

definition group_of :: "string \<Rightarrow> bool option \<Rightarrow> json list \<Rightarrow> json" where
  "group_of c display entries =
     JObj ([(''descriptor'', code_of c)] @ opt_field ''display'' (map_option JBool display)
           @ [(''list'', JArr entries)])"

definition rupee_price :: "string \<Rightarrow> json" where
  "rupee_price v = JObj [(''currency'', JStr ''INR''), (''value'', JStr v)]"

end
