(* ===== verification/Trv11_Catalog.thy ===== *)
theory Trv11_Catalog
  imports Trv11_Types
begin

text \<open>
  The catalogue of single journeys (\<open>src/src/trv11/catalog.ts\<close>): reading the query off a search,
  fares in rupees, trips and items, and the answer to a search. \<open>show_num\<close> is how the language prints
  a number, used for the coordinates of a stop.
\<close>

definition fulfillmentIdForOffer :: "string \<Rightarrow> string" where
  "fulfillmentIdForOffer offerId = ''F-'' @ offerId"

definition fareToRupees :: "int \<Rightarrow> OrderError + string" where
  "fareToRupees farePaise =
     (if \<not> isSafeInteger farePaise \<or> farePaise < 0
      then Inl (ThrownError ''farePaise must be a non-negative safe integer'')
      else let rupees = floor_div100 farePaise; paise = farePaise mod 100 in
        Inr (if paise = 0 then string_of_int rupees
             else string_of_int rupees @ ''.'' @ padStart 2 (CHR ''0'') (string_of_int paise)))"

definition signedFareToRupees :: "int \<Rightarrow> OrderError + string" where
  "signedFareToRupees paise =
     (if paise < 0 then andThen (fareToRupees (- paise)) (\<lambda>s. Inr (''-'' @ s)) else fareToRupees paise)"

subsection \<open>The query of a search\<close>

definition take_sign :: "string \<Rightarrow> string" where
  "take_sign s = (if take 1 s = ''+'' \<or> take 1 s = ''-'' then drop 1 s else s)"

text \<open>\<open>/^[+-]?(?:\d+(?:\.\d+)?|\.\d+)$/\<close>.\<close>

definition DECIMAL_COORDINATE :: "string \<Rightarrow> bool" where
  "DECIMAL_COORDINATE s =
     (let u = take_sign s; whole = takeWhile is_digit u; rest = dropWhile is_digit u in
      if rest = [] then whole \<noteq> []
      else hd rest = CHR ''.'' \<and> tl rest \<noteq> [] \<and> list_all is_digit (tl rest))"

text \<open>\<open>value.split(",")\<close>.\<close>

fun split_commas :: "string \<Rightarrow> string list" where
  "split_commas [] = [[]]"
| "split_commas (c # s) =
     (if c = CHR '','' then [] # split_commas s
      else case split_commas s of [] \<Rightarrow> [[c]] | p # ps \<Rightarrow> (c # p) # ps)"

definition parseGps :: "string option \<Rightarrow> OrderError + (rat \<times> rat) option" where
  "parseGps v =
     (if \<not> truthy v then Inr None
      else let value = the v; parts = split_commas value in
        if length parts \<noteq> 2
        then Inl (ThrownError (''GPS must contain exactly one latitude/longitude pair: '' @ value))
        else let coordinates = map trim parts in
          if list_ex (\<lambda>p. \<not> DECIMAL_COORDINATE p) coordinates
          then Inl (ThrownError (''GPS coordinates must be decimal numbers: '' @ value))
          else (case (Number (coordinates ! 0), Number (coordinates ! 1)) of
              (Some lat, Some lon) \<Rightarrow>
                if lat < -90 \<or> lat > 90 \<or> lon < -180 \<or> lon > 180
                then Inl (ThrownError (''GPS coordinates are outside valid ranges: '' @ value))
                else Inr (Some (lat, lon))
            | _ \<Rightarrow> Inl (ThrownError (''GPS coordinates are outside valid ranges: '' @ value))))"

definition searchQueryFromRequest :: "SearchRequest \<Rightarrow> OrderError + SearchQuery" where
  "searchQueryFromRequest request =
     (case sr_stops request of
        None \<Rightarrow> Inl (ThrownError ''Search intent carries no fulfillment; a stop-pair search needs one and a PASS-category search is answered from the pass catalogue instead'')
      | Some stops \<Rightarrow>
          let starts = filter (\<lambda>s. st_type s = ''START'') stops; ends = filter (\<lambda>s. st_type s = ''END'') stops in
          if length starts \<noteq> 1 \<or> length ends \<noteq> 1
          then Inl (ThrownError ''Search fulfillment must contain exactly one START and one END stop'')
          else let start = hd starts; fin = hd ends;
                   fromCode = map_option trim (st_code start); toCode = map_option trim (st_code fin) in
            andThen (parseGps (st_gps start)) (\<lambda>fromGps.
            andThen (parseGps (st_gps fin)) (\<lambda>toGps.
              if \<not> truthy fromCode \<and> fromGps = None \<or> \<not> truthy toCode \<and> toGps = None
              then Inl (ThrownError ''Each search endpoint must contain a stop code or valid GPS'')
              else Inr \<lparr>sq_fromCode = (if truthy fromCode then fromCode else None),
                        sq_toCode = (if truthy toCode then toCode else None),
                        sq_fromGps = fromGps, sq_toGps = toGps,
                        sq_departAt = coalesce (st_time start) (Some (cx_timestamp (sr_context request))),
                        sq_cityCode = cx_city (sr_context request)\<rparr>)))"

subsection \<open>Trips and items\<close>

definition stopType :: "RouteStop \<Rightarrow> nat \<Rightarrow> nat \<Rightarrow> string" where
  "stopType stop index stop_count =
     (if index = 0 then ''START''
      else if index = stop_count - 1 then ''END''
      else if rs_isInterchange stop then ''TRANSIT_STOP'' else ''INTERMEDIATE_STOP'')"

definition mapStop :: "(rat \<Rightarrow> string) \<Rightarrow> RouteStop \<Rightarrow> nat \<Rightarrow> nat \<Rightarrow> json" where
  "mapStop show_num stop index stop_count =
     JObj ([(''id'', JStr (digits10 (index + 1)))]
       @ (if index = 0 then [] else [(''parent_stop_id'', JStr (digits10 index))])
       @ [(''type'', JStr (stopType stop index stop_count))]
       @ (if truthy (rs_changeHint stop)
          then [(''instructions'', JObj [(''name'', JStr (rs_name stop)),
                                        (''short_desc'', JStr (the (rs_changeHint stop)))])]
          else [])
       @ [(''location'', JObj
            [(''descriptor'', JObj ([(''name'', JStr (rs_name stop))]
                @ (if truthy (rs_code stop) then [(''code'', JStr (the (rs_code stop)))] else []))),
             (''gps'', JStr (show_num (rs_lat stop) @ '', '' @ show_num (rs_lon stop)))])]
       @ (if truthy (rs_nameLocal stop)
          then [(''tags'', JArr [group_of ''LOCAL_NAME'' None [entry_of ''NAME'' (the (rs_nameLocal stop))]])]
          else []))"

definition providerPayments :: "string \<Rightarrow> json" where
  "providerPayments publicBaseUrl =
     JArr [JObj
       [(''collected_by'', JStr ''BPP''),
        (''tags'', JArr
          [group_of ''BUYER_FINDER_FEES'' (Some False) [entry_of ''BUYER_FINDER_FEES_PERCENTAGE'' ''1''],
           group_of ''SETTLEMENT_TERMS'' (Some False)
             [entry_of ''SETTLEMENT_WINDOW'' ''P30D'',
              entry_of ''SETTLEMENT_BASIS'' ''INVOICE_RECEIPT'',
              entry_of ''MANDATORY_ARBITRATION'' ''TRUE'',
              entry_of ''COURT_JURISDICTION'' ''Bengaluru'',
              entry_of ''STATIC_TERMS'' (publicBaseUrl @ ''/terms'')]])]]"

fun vehicle_wire :: "VehicleCategory \<Rightarrow> string" where
  "vehicle_wire BUS_VEHICLE = ''BUS''"
| "vehicle_wire METRO_VEHICLE = ''METRO''"

definition tripFulfillmentForOffer ::
    "(rat \<Rightarrow> string) \<Rightarrow> TransitOffer \<Rightarrow> VehicleCategory \<Rightarrow> string \<Rightarrow> json" where
  "tripFulfillmentForOffer show_num offer category fid =
     (let route = of_route offer in
      JObj [(''id'', JStr fid),
            (''type'', JStr ''TRIP''),
            (''stops'', JArr (map (\<lambda>(i, s). mapStop show_num s i (length route)) (List.enumerate 0 route))),
            (''vehicle'', JObj [(''category'', JStr (vehicle_wire category))]),
            (''tags'', JArr [group_of ''ROUTE_INFO'' None
               ([entry_of ''ROUTE_ID'' (of_routeId offer), entry_of ''ROUTE_NAME'' (of_routeName offer)]
                @ (if truthy (of_routeColor offer) then [entry_of ''ROUTE_COLOR'' (the (of_routeColor offer))] else []))])])"

definition service_range :: "(string \<Rightarrow> int option) \<Rightarrow> string \<Rightarrow> OperatorProfile \<Rightarrow> OrderError + json" where
  "service_range date_parse timestamp profile =
     andThen (serviceInstant date_parse timestamp (op_startHHMM profile)) (\<lambda>start.
     andThen (serviceInstant date_parse timestamp (op_endHHMM profile)) (\<lambda>fin.
       Inr (JObj [(''range'', JObj [(''start'', JStr start), (''end'', JStr fin)])])))"

definition quantity_bounds :: json where
  "quantity_bounds = JObj [(''maximum'', JObj [(''count'', JNum 6)]), (''minimum'', JObj [(''count'', JNum 1)])]"

definition validity_time :: "string \<Rightarrow> string \<Rightarrow> json" where
  "validity_time duration timestamp =
     JObj [(''label'', JStr ''Validity''), (''duration'', JStr duration), (''timestamp'', JStr timestamp)]"

definition offer_item :: "string \<Rightarrow> TransitOffer \<Rightarrow> OrderError + json" where
  "offer_item timestamp offer =
     andThen (fareToRupees (of_farePaise offer)) (\<lambda>price.
       Inr (JObj [(''id'', JStr (of_offerId offer)),
                  (''category_ids'', JArr [JStr ''C1'']),
                  (''descriptor'', JObj [(''name'', JStr (of_productName offer)), (''code'', JStr (of_productCode offer))]),
                  (''price'', rupee_price price),
                  (''quantity'', quantity_bounds),
                  (''fulfillment_ids'', JArr [JStr (fulfillmentIdForOffer (of_offerId offer))]),
                  (''time'', validity_time (of_validity offer) timestamp)]))"

subsection \<open>The answer to a search\<close>

record OnSearchResponse =
  os_context :: Trv11Context
  os_catalog_name :: string
  os_providers :: "json list"

text \<open>The identity of this provider for an operator, of \<open>config.ts\<close>.\<close>

record OperatorRuntimeConfig =
  rt_subscriberId :: string
  rt_subscriberUri :: string

definition on_search_context ::
    "Trv11Context \<Rightarrow> OperatorRuntimeConfig \<Rightarrow> string \<Rightarrow> string \<Rightarrow> Trv11Context" where
  "on_search_context context operator timestamp ttl =
     context\<lparr>cx_action := ''on_search'', cx_bpp_id := Some (rt_subscriberId operator),
             cx_bpp_uri := Some (rt_subscriberUri operator), cx_timestamp := timestamp, cx_ttl := ttl\<rparr>"

record Host =
  host_date_parse :: "string \<Rightarrow> int option"
  host_show_num :: "rat \<Rightarrow> string"

text \<open>\<open>offers\<close> is \<open>options.offers\<close>; without it the source is asked.\<close>

definition buildOnSearch ::
    "Host \<Rightarrow> SearchRequest \<Rightarrow> JourneySource \<Rightarrow> OperatorRuntimeConfig \<Rightarrow> string \<Rightarrow> string \<Rightarrow> int
      \<Rightarrow> TransitOffer list option \<Rightarrow> OrderError + OnSearchResponse" where
  "buildOnSearch host request source operator publicBaseUrl contextTtl nowMs offers_option =
     (let timestamp = toISOString nowMs; profile = js_operator source in
      andThen (case offers_option of
                 Some offers \<Rightarrow> Inr offers
               | None \<Rightarrow> andThen (searchQueryFromRequest request) (\<lambda>q. Inr (js_search source q))) (\<lambda>offers.
      andThen (service_range (host_date_parse host) (cx_timestamp (sr_context request)) profile) (\<lambda>times.
      andThen (traverse (offer_item timestamp) offers) (\<lambda>items.
        let provider = JObj
              [(''id'', JStr (op_id profile)),
               (''descriptor'', JObj [(''name'', JStr (op_name profile))]),
               (''categories'', JArr [JObj [(''id'', JStr ''C1''),
                  (''descriptor'', JObj [(''name'', JStr ''Ticket''), (''code'', JStr ''TICKET'')])]]),
               (''time'', times),
               (''items'', JArr items),
               (''fulfillments'', JArr (map (\<lambda>o1. tripFulfillmentForOffer (host_show_num host) o1
                  (op_vehicleCategory profile) (fulfillmentIdForOffer (of_offerId o1))) offers)),
               (''payments'', providerPayments publicBaseUrl)]
        in Inr \<lparr>os_context = on_search_context (sr_context request) operator timestamp contextTtl,
                os_catalog_name = op_name profile @ '' Specimen Catalogue'',
                os_providers = (if offers = [] then [] else [provider])\<rparr>))))"

end
