(* ===== verification/Trv11_Pass.thy ===== *)
theory Trv11_Pass
  imports Trv11_Catalog
begin

text \<open>
  The passes of the single-journey category (\<open>src/src/trv11/pass.ts\<close>): the catalogue of eleven items,
  their prices and concessions, the validity window, the tags, and the answer to a pass search.
\<close>

subsection \<open>The pass catalogue\<close>

datatype PassWindow = DAY | WEEKLY | MONTHLY
datatype PassScope = Tier ServiceTier | KSRTC_SARIGE
datatype ConcessionClass = SENIOR | STUDENT

fun window_wire :: "PassWindow \<Rightarrow> string" where
  "window_wire DAY = ''DAY''"
| "window_wire WEEKLY = ''WEEKLY''"
| "window_wire MONTHLY = ''MONTHLY''"

fun scope_wire :: "PassScope \<Rightarrow> string" where
  "scope_wire (Tier t) = tier_wire t"
| "scope_wire KSRTC_SARIGE = ''KSRTC_SARIGE''"

fun class_wire :: "ConcessionClass \<Rightarrow> string" where
  "class_wire SENIOR = ''SENIOR''"
| "class_wire STUDENT = ''STUDENT''"

definition CONCESSION_CLASSES :: "ConcessionClass list" where
  "CONCESSION_CLASSES = [SENIOR, STUDENT]"

definition PASS_CATEGORY_ID :: string where "PASS_CATEGORY_ID = ''C2''"
definition PASS_CATEGORY_CODE :: string where "PASS_CATEGORY_CODE = ''PASS''"
definition TICKET_CATEGORY_ID :: string where "TICKET_CATEGORY_ID = ''C1''"
definition PASS_ITEM_CODE :: string where "PASS_ITEM_CODE = ''PASS''"
definition PASS_FULFILLMENT_TYPE :: string where "PASS_FULFILLMENT_TYPE = ''PASS''"

definition SYNTHETIC_PASS_MARK :: string where
  "SYNTHETIC_PASS_MARK =
     ''Modelled pass. The rules and the price are set by this specimen provider, not by BMTC or BMRCL.''"

definition WEEKLY_DAY_MULTIPLE :: int where "WEEKLY_DAY_MULTIPLE = 5"
definition MONTHLY_DAY_MULTIPLE :: int where "MONTHLY_DAY_MULTIPLE = 18"

fun CEILING_SINGLE_FARE_PAISE :: "PassScope \<Rightarrow> int" where
  "CEILING_SINGLE_FARE_PAISE (Tier ORDINARY_BUS) = 3000"
| "CEILING_SINGLE_FARE_PAISE (Tier AC_BUS) = 6000"
| "CEILING_SINGLE_FARE_PAISE (Tier METRO) = 9000"
| "CEILING_SINGLE_FARE_PAISE KSRTC_SARIGE = 9500"

fun WINDOW_MULTIPLE :: "PassWindow \<Rightarrow> int" where
  "WINDOW_MULTIPLE DAY = 1"
| "WINDOW_MULTIPLE WEEKLY = WEEKLY_DAY_MULTIPLE"
| "WINDOW_MULTIPLE MONTHLY = MONTHLY_DAY_MULTIPLE"

fun WINDOW_DURATION :: "PassWindow \<Rightarrow> string" where
  "WINDOW_DURATION DAY = ''P1D''"
| "WINDOW_DURATION WEEKLY = ''P7D''"
| "WINDOW_DURATION MONTHLY = ''P1M''"

fun WINDOW_LABEL :: "PassWindow \<Rightarrow> string" where
  "WINDOW_LABEL DAY = ''day''"
| "WINDOW_LABEL WEEKLY = ''weekly''"
| "WINDOW_LABEL MONTHLY = ''monthly''"

fun SCOPE_LABEL :: "PassScope \<Rightarrow> string" where
  "SCOPE_LABEL (Tier ORDINARY_BUS) = ''Ordinary bus''"
| "SCOPE_LABEL (Tier AC_BUS) = ''AC bus''"
| "SCOPE_LABEL (Tier METRO) = ''Metro''"
| "SCOPE_LABEL KSRTC_SARIGE = ''Karnataka Sarige''"

fun SCOPE_OPERATOR :: "PassScope \<Rightarrow> PassOperatorKey" where
  "SCOPE_OPERATOR (Tier ORDINARY_BUS) = Bmtc"
| "SCOPE_OPERATOR (Tier AC_BUS) = Bmtc"
| "SCOPE_OPERATOR (Tier METRO) = Bmrcl"
| "SCOPE_OPERATOR KSRTC_SARIGE = Ksrtc"

fun SENIOR_DISCOUNT_PERCENT :: "PassWindow \<Rightarrow> int" where
  "SENIOR_DISCOUNT_PERCENT DAY = 25"
| "SENIOR_DISCOUNT_PERCENT WEEKLY = 25"
| "SENIOR_DISCOUNT_PERCENT MONTHLY = 10"

definition STUDENT_DISCOUNT_PERCENT :: int where "STUDENT_DISCOUNT_PERCENT = 33"

record PassCatalogueItem =
  pi_id :: string
  pi_operator :: PassOperatorKey
  pi_window :: PassWindow
  pi_scope :: PassScope
  pi_duration :: string
  pi_name :: string
  pi_pricePaise :: int
  pi_seniorDiscountPercent :: int
  pi_studentDiscountPercent :: int

text \<open>\<open>(fare * 5) / 2\<close> is a whole number exactly when \<open>fare * 5\<close> is even.\<close>

definition dayPricePaise :: "PassScope \<Rightarrow> OrderError + int" where
  "dayPricePaise scope =
     (let fare5 = CEILING_SINGLE_FARE_PAISE scope * 5; price = fare5 div 2 in
      if fare5 mod 2 \<noteq> 0 \<or> \<not> isSafeInteger price
      then Inl (ThrownError (''Ceiling fare for '' @ scope_wire scope @ '' does not yield a whole-paise day pass price''))
      else Inr price)"

definition passItem :: "PassWindow \<Rightarrow> PassScope \<Rightarrow> OrderError + PassCatalogueItem" where
  "passItem window scope =
     andThen (dayPricePaise scope) (\<lambda>day.
       let pricePaise = day * WINDOW_MULTIPLE window in
       if \<not> isSafeInteger pricePaise
       then Inl (ThrownError (''Derived pass price for '' @ window_wire window @ ''/'' @ scope_wire scope
                   @ '' is not a safe integer''))
       else Inr \<lparr>pi_id = ''PASS-'' @ window_wire window @ ''-'' @ scope_wire scope,
                 pi_operator = SCOPE_OPERATOR scope,
                 pi_window = window,
                 pi_scope = scope,
                 pi_duration = WINDOW_DURATION window,
                 pi_name = SCOPE_LABEL scope @ '' '' @ WINDOW_LABEL window @ '' pass'',
                 pi_pricePaise = pricePaise,
                 pi_seniorDiscountPercent = SENIOR_DISCOUNT_PERCENT window,
                 pi_studentDiscountPercent = STUDENT_DISCOUNT_PERCENT\<rparr>)"

text \<open>The module-level table; loading the module throws when one of the items does.\<close>

definition load_catalogue :: "OrderError + PassCatalogueItem list" where
  "load_catalogue = traverse (\<lambda>(window, scope). passItem window scope)
     (concat (map (\<lambda>w. map (\<lambda>s. (w, Tier s)) [ORDINARY_BUS, AC_BUS]) [DAY, WEEKLY, MONTHLY])
      @ map (\<lambda>w. (w, Tier METRO)) [DAY, WEEKLY, MONTHLY]
      @ map (\<lambda>w. (w, KSRTC_SARIGE)) [DAY, MONTHLY])"

definition PASS_CATALOGUE :: "PassCatalogueItem list" where
  "PASS_CATALOGUE = (case load_catalogue of Inl e \<Rightarrow> [] | Inr items \<Rightarrow> items)"

text \<open>\<open>new Map(entries).get(id)\<close>: the last entry of an id wins.\<close>

definition PASS_BY_ID :: "string \<Rightarrow> PassCatalogueItem option" where
  "PASS_BY_ID itemId = List.find (\<lambda>item. pi_id item = itemId) (rev PASS_CATALOGUE)"

definition passCatalogueFor :: "PassOperatorKey \<Rightarrow> PassCatalogueItem list" where
  "passCatalogueFor operator = filter (\<lambda>item. pi_operator item = operator) PASS_CATALOGUE"

definition isPassItemId :: "string \<Rightarrow> bool" where
  "isPassItemId itemId \<longleftrightarrow> PASS_BY_ID itemId \<noteq> None"

definition passItemById :: "PassOperatorKey \<Rightarrow> string \<Rightarrow> PassCatalogueItem option" where
  "passItemById operator itemId =
     (case PASS_BY_ID itemId of
        Some item \<Rightarrow> if pi_operator item = operator then Some item else None
      | None \<Rightarrow> None)"

definition passCovers :: "PassScope \<Rightarrow> ServiceTier \<Rightarrow> bool" where
  "passCovers scope tier =
     (if scope = KSRTC_SARIGE then False
      else if scope = Tier METRO \<or> tier = METRO then scope = Tier tier
      else if scope = Tier AC_BUS then tier = AC_BUS \<or> tier = ORDINARY_BUS
      else tier = ORDINARY_BUS)"

definition passConcessionRatePercent :: "PassCatalogueItem \<Rightarrow> ConcessionClass \<Rightarrow> int" where
  "passConcessionRatePercent item concession =
     (if concession = SENIOR then pi_seniorDiscountPercent item else pi_studentDiscountPercent item)"

definition concessionRateCode :: "string \<Rightarrow> string" where
  "concessionRateCode concession = concession @ ''_DISCOUNT_PERCENT''"

text \<open>\<open>Math.round\<close>: the nearest integer, a half goes up.\<close>

definition math_round :: "rat \<Rightarrow> int" where
  "math_round x = \<lfloor>x + 1/2\<rfloor>"

definition passConcessionDiscountPaise :: "int \<Rightarrow> int \<Rightarrow> int" where
  "passConcessionDiscountPaise pricePaise percent =
     pricePaise - math_round (div100 (pricePaise * (100 - percent)))"

subsection \<open>The validity window\<close>

definition istCalendarDay :: "int \<Rightarrow> int \<times> int \<times> int" where
  "istCalendarDay atMilliseconds =
     (let shifted = atMilliseconds + INDIA_OFFSET in
      (getUTCFullYear shifted, getUTCMonth shifted, getUTCDate shifted))"

definition istMidnightMilliseconds :: "int \<Rightarrow> int \<Rightarrow> int \<Rightarrow> int" where
  "istMidnightMilliseconds year month day = dateUTC year month day - INDIA_OFFSET"

definition istMidnightIso :: "int \<Rightarrow> string" where
  "istMidnightIso milliseconds =
     (case istCalendarDay milliseconds of
        (year, month, day) \<Rightarrow>
          padStart 4 (CHR ''0'') (string_of_int year) @ ''-'' @ padStart 2 (CHR ''0'') (string_of_int (month + 1))
          @ ''-'' @ padStart 2 (CHR ''0'') (string_of_int day) @ ''T00:00:00.000+05:30'')"

definition daysInMonth :: "int \<Rightarrow> int \<Rightarrow> int" where
  "daysInMonth year month = getUTCDate (dateUTC year (month + 1) 0)"

record PassValidityWindow =
  pw_validFrom :: string
  pw_validTo :: string
  pw_validFromMs :: int
  pw_validToMs :: int

text \<open>A time value is finite; the invalid date of the source is the \<open>None\<close> of its parser.\<close>

definition passValidityWindow :: "int \<Rightarrow> PassWindow \<Rightarrow> PassValidityWindow" where
  "passValidityWindow issuedAtMs window =
     (case istCalendarDay issuedAtMs of
        (year, month, day) \<Rightarrow>
          let validFromMs = istMidnightMilliseconds year month day;
              validToMs =
                (case window of
                   DAY \<Rightarrow> istMidnightMilliseconds year month (day + 1)
                 | WEEKLY \<Rightarrow> istMidnightMilliseconds year month (day + 7)
                 | MONTHLY \<Rightarrow>
                     let targetYear = (if month = 11 then year + 1 else year);
                         targetMonth = (month + 1) mod 12
                     in if day \<le> daysInMonth targetYear targetMonth
                        then istMidnightMilliseconds targetYear targetMonth day
                        else istMidnightMilliseconds targetYear (targetMonth + 1) 1)
          in \<lparr>pw_validFrom = istMidnightIso validFromMs, pw_validTo = istMidnightIso validToMs,
              pw_validFromMs = validFromMs, pw_validToMs = validToMs\<rparr>)"

subsection \<open>Tags\<close>

definition passInfoTag :: "PassCatalogueItem \<Rightarrow> json" where
  "passInfoTag item =
     group_of ''PASS_INFO'' None
       [entry_of ''WINDOW'' (window_wire (pi_window item)), entry_of ''SCOPE'' (scope_wire (pi_scope item))]"

definition concessionInfoTag :: "PassCatalogueItem \<Rightarrow> json" where
  "concessionInfoTag item =
     group_of ''CONCESSION_INFO'' (Some False)
       [entry_of ''SENIOR_DISCOUNT_PERCENT'' (string_of_int (pi_seniorDiscountPercent item)),
        entry_of ''STUDENT_DISCOUNT_PERCENT'' (string_of_int (pi_studentDiscountPercent item))]"

definition syntheticPassTag :: json where
  "syntheticPassTag = group_of ''SYNTHETIC_PASS_INFO'' (Some True) [entry_of ''NOTICE'' SYNTHETIC_PASS_MARK]"

definition passConcessionTag :: "ConcessionClass \<Rightarrow> json" where
  "passConcessionTag concession = group_of ''CONCESSION'' (Some False) [entry_of ''CLASS'' (class_wire concession)]"

definition totpInfoTag :: "TotpParameters \<Rightarrow> json" where
  "totpInfoTag parameters =
     group_of ''TOTP_INFO'' (Some False)
       [entry_of ''ALGORITHM'' (tp_algorithm parameters),
        entry_of ''DIGITS'' (string_of_int (tp_digits parameters)),
        entry_of ''PERIOD_SECONDS'' (string_of_int (tp_periodSeconds parameters))]"

definition passFulfillment :: "PassCatalogueItem \<Rightarrow> json" where
  "passFulfillment item =
     JObj [(''id'', JStr (fulfillmentIdForOffer (pi_id item))), (''type'', JStr PASS_FULFILLMENT_TYPE),
           (''tags'', JArr [passInfoTag item])]"

subsection \<open>The pass search\<close>

definition isPassSearch :: "SearchRequest \<Rightarrow> bool" where
  "isPassSearch request \<longleftrightarrow> map_option (\<lambda>c. toUpperCase (trim c)) (sr_category request) = Some PASS_CATEGORY_CODE"

definition pass_item_json :: "string \<Rightarrow> PassCatalogueItem \<Rightarrow> OrderError + json" where
  "pass_item_json timestamp item =
     andThen (fareToRupees (pi_pricePaise item)) (\<lambda>price.
       Inr (JObj [(''id'', JStr (pi_id item)),
                  (''category_ids'', JArr [JStr PASS_CATEGORY_ID]),
                  (''descriptor'', JObj [(''name'', JStr (pi_name item)), (''code'', JStr PASS_ITEM_CODE)]),
                  (''price'', rupee_price price),
                  (''quantity'', quantity_bounds),
                  (''fulfillment_ids'', JArr [JStr (fulfillmentIdForOffer (pi_id item))]),
                  (''time'', validity_time (pi_duration item) timestamp),
                  (''tags'', JArr [passInfoTag item, concessionInfoTag item, syntheticPassTag])]))"

definition buildPassOnSearch ::
    "Host \<Rightarrow> SearchRequest \<Rightarrow> OperatorProfile \<Rightarrow> PassOperatorKey \<Rightarrow> OperatorRuntimeConfig \<Rightarrow> string \<Rightarrow> string
      \<Rightarrow> int \<Rightarrow> OrderError + OnSearchResponse" where
  "buildPassOnSearch host request profile operatorKey operator publicBaseUrl contextTtl nowMs =
     (let items = passCatalogueFor operatorKey; timestamp = toISOString nowMs in
      andThen (service_range (host_date_parse host) (cx_timestamp (sr_context request)) profile) (\<lambda>times.
      andThen (traverse (pass_item_json timestamp) items) (\<lambda>item_jsons.
        let provider = JObj
              [(''id'', JStr (op_id profile)),
               (''descriptor'', JObj [(''name'', JStr (op_name profile))]),
               (''categories'', JArr
                  [JObj [(''id'', JStr TICKET_CATEGORY_ID),
                         (''descriptor'', JObj [(''name'', JStr ''Ticket''), (''code'', JStr ''TICKET'')])],
                   JObj [(''id'', JStr PASS_CATEGORY_ID),
                         (''descriptor'', JObj [(''name'', JStr ''Pass''), (''code'', JStr PASS_CATEGORY_CODE)])]]),
               (''time'', times),
               (''items'', JArr item_jsons),
               (''fulfillments'', JArr (map passFulfillment items)),
               (''payments'', providerPayments publicBaseUrl)]
        in Inr \<lparr>os_context = on_search_context (sr_context request) operator timestamp contextTtl,
                os_catalog_name = op_name profile @ '' Specimen Pass Catalogue'',
                os_providers = (if items = [] then [] else [provider])\<rparr>)))"

end
