(* ===== verification/Trv11_Settlement.thy ===== *)
theory Trv11_Settlement
  imports Trv11_Pass
begin

text \<open>
  What an order claims: the concession of a pass order (\<open>src/src/trv11/concession.ts\<close>), the pass that
  settles a ride (\<open>settlement.ts\<close>), and the ticket of a single journey (\<open>ticket.ts\<close>). The image of a
  QR code is made by a library; \<open>qr\<close> is its base64 text.
\<close>

subsection \<open>Concessions\<close>

text \<open>\<open>typeof v === "string"\<close>, with the value.\<close>

fun as_string :: "json option \<Rightarrow> string option" where
  "as_string (Some (JStr s)) = Some s"
| "as_string _ = None"

definition groupCode :: "json \<Rightarrow> string option" where
  "groupCode g = map_option (\<lambda>c. toUpperCase (trim c)) (as_string (tag_code g))"

definition concession_invalid :: "string \<Rightarrow> OrderError" where
  "concession_invalid message = LifecycleError ''CONCESSION-TAG-INVALID'' message"

definition is_code_char :: "char \<Rightarrow> bool" where
  "is_code_char c \<longleftrightarrow> is_upper c \<or> is_digit c \<or> c = CHR ''_''"

text \<open>\<open>/^[A-Z][A-Z0-9_]{0,31}$/\<close>.\<close>

definition SAFE_TO_ECHO :: "string \<Rightarrow> bool" where
  "SAFE_TO_ECHO s \<longleftrightarrow> s \<noteq> [] \<and> is_upper (hd s) \<and> list_all is_code_char (tl s) \<and> length s \<le> 32"

fun join :: "string \<Rightarrow> string list \<Rightarrow> string" where
  "join sep [] = []"
| "join sep [s] = s"
| "join sep (s # t # ss) = s @ sep @ join sep (t # ss)"

definition PUBLISHED_RATES :: string where
  "PUBLISHED_RATES = join '' and '' (map (\<lambda>c. concessionRateCode (class_wire c)) CONCESSION_CLASSES)"

definition assertPublishedClass :: "string \<Rightarrow> OrderError + ConcessionClass" where
  "assertPublishedClass value =
     (let candidate = toUpperCase value in
      case List.find (\<lambda>c. class_wire c = candidate) CONCESSION_CLASSES of
        Some c \<Rightarrow> Inr c
      | None \<Rightarrow> Inl (LifecycleError ''CONCESSION-RATE-NOT-PUBLISHED''
          (if SAFE_TO_ECHO candidate
           then ''No '' @ concessionRateCode candidate @ '' rate is published on this catalogue; this provider publishes ''
                @ PUBLISHED_RATES @ '' only''
           else ''The order names a concession class this provider publishes no rate for; this provider publishes ''
                @ PUBLISHED_RATES @ '' only. The class value is withheld from this message because a class value is never stored or logged'')))"

definition entry_code :: "json \<Rightarrow> string" where
  "entry_code e = (case as_string (tag_code e) of Some c \<Rightarrow> toUpperCase (trim c) | None \<Rightarrow> [])"

definition concession_entries :: "json list \<Rightarrow> OrderError + ConcessionClass" where
  "concession_entries entries =
     (let codes = map entry_code entries; unexpected = filter (\<lambda>c. c \<noteq> ''CLASS'') codes in
      if unexpected \<noteq> []
      then Inl (concession_invalid (''CONCESSION tag group accepts CLASS only; this provider never accepts, stores or logs a rider identity or document. Unexpected: ''
             @ join '', '' (dedup (map (\<lambda>c. if c = [] then ''(missing code)'' else c) unexpected))))
      else if length codes > 1
      then Inl (concession_invalid (''CONCESSION tag group must carry exactly one CLASS entry; ''
             @ digits10 (length codes) @ '' were sent''))
      else (case as_string (field (hd entries) ''value'') of
          Some v \<Rightarrow> if trim v = [] then Inl (concession_invalid ''CONCESSION CLASS must be a non-empty string'')
                   else assertPublishedClass (trim v)
        | None \<Rightarrow> Inl (concession_invalid ''CONCESSION CLASS must be a non-empty string'')))"

fun concessionFromTags :: "json option \<Rightarrow> OrderError + ConcessionClass option" where
  "concessionFromTags None = Inr None"
| "concessionFromTags (Some JNull) = Inr None"
| "concessionFromTags (Some (JArr tags)) =
     (let groups = filter (\<lambda>g. groupCode g = Some ''CONCESSION'') tags in
      if groups = [] then Inr None
      else if length groups > 1
      then Inl (concession_invalid (''An order carries at most one CONCESSION tag group; ''
             @ digits10 (length groups) @ '' were sent''))
      else (case field (hd groups) ''list'' of
          Some (JArr (e # es)) \<Rightarrow> andThen (concession_entries (e # es)) (\<lambda>c. Inr (Some c))
        | _ \<Rightarrow> Inl (concession_invalid ''CONCESSION tag group must carry a non-empty list'')))"
| "concessionFromTags (Some _) = Inl (concession_invalid ''order.tags must be an array of tag groups'')"

fun assertNoConcessionOnTicketOrder :: "json option \<Rightarrow> OrderError + unit" where
  "assertNoConcessionOnTicketOrder (Some (JArr tags)) =
     (if list_ex (\<lambda>g. groupCode g = Some ''CONCESSION'') tags
      then Inl (LifecycleError ''CONCESSION-NOT-APPLICABLE''
             ''A concession applies to a pass item only; this order selects single-journey items, which this provider prices at the full fare'')
      else Inr ())"
| "assertNoConcessionOnTicketOrder _ = Inr ()"

subsection \<open>Settlement by a pass\<close>

record PassSettlementClaim =
  cl_passOrderId :: string
  cl_passCode :: string

record PassCredentialRecord =
  cr_fulfillmentId :: string
  cr_itemId :: string
  cr_scope :: PassScope
  cr_validFromMs :: int
  cr_validToMs :: int
  cr_secretBase32 :: string
  cr_algorithm :: string
  cr_digits :: int
  cr_periodSeconds :: int

fun entryValue :: "json option \<Rightarrow> string \<Rightarrow> string option" where
  "entryValue (Some (JArr entries)) code =
     (case filter (\<lambda>e. map_option (\<lambda>c. toUpperCase (trim c)) (as_string (tag_code e)) = Some code) entries of
        [e] \<Rightarrow> (case as_string (field e ''value'') of
                  Some v \<Rightarrow> if trim v = [] then None else Some (trim v)
                | None \<Rightarrow> None)
      | _ \<Rightarrow> None)"
| "entryValue _ code = None"

definition settlement_groups :: "Payment list \<Rightarrow> json list" where
  "settlement_groups payments =
     concat (map (\<lambda>p. filter (\<lambda>g. groupCode g = Some ''PASS_SETTLEMENT'')
                        (case map_of p ''tags'' of Some (JArr gs) \<Rightarrow> gs | _ \<Rightarrow> [])) payments)"

definition passSettlementClaim :: "Payment list \<Rightarrow> OrderError + PassSettlementClaim option" where
  "passSettlementClaim payments =
     (let groups = settlement_groups payments in
      if groups = [] then Inr None
      else if length groups > 1
      then Inl (LifecycleError ''PASS-SETTLEMENT-INVALID''
             (''An order carries at most one PASS_SETTLEMENT tag group; '' @ digits10 (length groups) @ '' were sent''))
      else let l = field (hd groups) ''list'' in
        (case (entryValue l ''PASS_ORDER_ID'', entryValue l ''PASS_CODE'') of
           (Some passOrderId, Some passCode) \<Rightarrow>
             Inr (Some \<lparr>cl_passOrderId = passOrderId, cl_passCode = passCode\<rparr>)
         | _ \<Rightarrow> Inl (LifecycleError ''PASS-SETTLEMENT-INVALID''
             ''PASS_SETTLEMENT needs exactly one PASS_ORDER_ID and one PASS_CODE entry'')))"

definition defaultServiceTier :: "OperatorProfile \<Rightarrow> ServiceTier" where
  "defaultServiceTier profile = (if op_vehicleCategory profile = METRO_VEHICLE then METRO else ORDINARY_BUS)"

definition serviceTierForOffer :: "TransitOffer \<Rightarrow> OperatorProfile \<Rightarrow> ServiceTier" where
  "serviceTierForOffer offer profile =
     (case of_serviceTier offer of Some t \<Rightarrow> t | None \<Rightarrow> defaultServiceTier profile)"

definition credential_parameters :: "PassCredentialRecord \<Rightarrow> TotpParameters" where
  "credential_parameters c =
     \<lparr>tp_algorithm = cr_algorithm c, tp_digits = cr_digits c, tp_periodSeconds = cr_periodSeconds c\<rparr>"

text \<open>\<open>inWindow.find(...)\<close>; the check of a code may throw.\<close>

fun find_verified ::
    "hmac_sha1 \<Rightarrow> string \<Rightarrow> int \<Rightarrow> PassCredentialRecord list \<Rightarrow> TotpError + PassCredentialRecord option" where
  "find_verified hmac code atMs [] = Inr None"
| "find_verified hmac code atMs (c # cs) =
     andThen (verifyTotpCode hmac (cr_secretBase32 c) code atMs (credential_parameters c) TOTP_STEP_DRIFT)
       (\<lambda>ok. if ok then Inr (Some c) else find_verified hmac code atMs cs)"

definition covering :: "ServiceTier list \<Rightarrow> PassCredentialRecord \<Rightarrow> bool" where
  "covering tiers c \<longleftrightarrow> list_all (passCovers (cr_scope c)) tiers"

definition in_window :: "int \<Rightarrow> PassCredentialRecord \<Rightarrow> bool" where
  "in_window atMs c \<longleftrightarrow> cr_validFromMs c \<le> atMs \<and> atMs < cr_validToMs c"

definition assertPassSettlement ::
    "hmac_sha1 \<Rightarrow> PassSettlementClaim \<Rightarrow> PassCredentialRecord list \<Rightarrow> ServiceTier list \<Rightarrow> int
      \<Rightarrow> OrderError + PassCredentialRecord" where
  "assertPassSettlement hmac claim credentials tiers atMs =
     (if credentials = []
      then Inl (LifecycleError ''PASS-ORDER-NOT-FOUND''
             (''This operator holds no pass under order id '' @ cl_passOrderId claim
              @ '' for this buyer app; an operator can only verify a pass it issued itself''))
      else let cover = filter (covering tiers) credentials in
        if cover = []
        then Inl (LifecycleError ''PASS-SCOPE-MISMATCH''
               (''Pass '' @ cl_passOrderId claim @ '' is scoped to ''
                @ join '', '' (dedup (map (\<lambda>c. scope_wire (cr_scope c)) credentials))
                @ '', which does not cover '' @ join '', '' (dedup (map tier_wire tiers))
                @ ''. An uncovered service is charged the full fare, with no PASS_SETTLEMENT tag''))
        else let inWindow = filter (in_window atMs) cover in
          if inWindow = []
          then Inl (LifecycleError ''PASS-WINDOW-EXPIRED''
                 (''Pass '' @ cl_passOrderId claim
                  @ '' is outside its validity window. A verifier checks the window first and the code second''))
          else (case find_verified hmac (cl_passCode claim) atMs inWindow of
              Inl e \<Rightarrow> Inl (TotpFailure e)
            | Inr (Some c) \<Rightarrow> Inr c
            | Inr None \<Rightarrow> Inl (LifecycleError ''PASS-CODE-INVALID''
                (''The code presented for pass '' @ cl_passOrderId claim
                 @ '' does not match its credential for the current time window''))))"

subsection \<open>Tickets\<close>

definition specimenTicketPayload :: "string \<Rightarrow> string \<Rightarrow> string" where
  "specimenTicketPayload orderId ticketNumber =
     ''SPECIMEN|TRV11|'' @ orderId @ ''|'' @ ticketNumber @ ''|NOT VALID FOR TRAVEL''"

definition ticketAuthorization ::
    "(string \<Rightarrow> string) \<Rightarrow> string \<Rightarrow> string \<Rightarrow> string \<Rightarrow> int \<Rightarrow> OrderError + json" where
  "ticketAuthorization qr orderId ticketNumber validity issuedAt =
     andThen (durationMilliseconds validity) (\<lambda>ms.
       if \<bar>issuedAt + ms\<bar> > 8640000000000000 then Inl (ThrownError ''Invalid time value'')
       else Inr (JObj [(''type'', JStr ''QR''),
                  (''token'', JStr (qr (specimenTicketPayload orderId ticketNumber))),
                  (''valid_to'', JStr (toISOString (issuedAt + ms))),
                  (''status'', JStr ''UNCLAIMED'')]))"

end
