(* ===== verification/Trv11_Orders.thy ===== *)
theory Trv11_Orders
  imports Trv11_Settlement
begin

text \<open>
  Orders of the single-journey category: the in-memory store (\<open>src/src/orders/store.ts\<close>) and the order
  service (\<open>src/src/orders/service.ts\<close>). The keys of the store are the JSON texts of lists of strings,
  which determine the lists; they are written as tuples. The clock is read once per request
  (\<open>nowMs\<close>); what the generators of ids and secrets draw is in \<open>Draws\<close>. \<open>trv11_confirm\<close> is a confirm
  nothing interleaves with; the theory \<open>Trv11_Flow\<close> has the confirms in flight.
\<close>

subsection \<open>The store\<close>

record TransactionIdentity =
  ti_transactionId :: string
  ti_bapId :: string
  ti_bapUri :: string

type_synonym TransactionKey = "PassOperatorKey \<times> string \<times> string \<times> string"

definition transactionKey :: "PassOperatorKey \<Rightarrow> TransactionIdentity \<Rightarrow> TransactionKey" where
  "transactionKey operator idn = (operator, ti_bapId idn, ti_bapUri idn, ti_transactionId idn)"

definition passKey :: "PassOperatorKey \<Rightarrow> TransactionIdentity \<Rightarrow> string \<Rightarrow> TransactionKey" where
  "passKey operator idn orderId = (operator, ti_bapId idn, ti_bapUri idn, orderId)"

record StoredOrder =
  so_operator :: PassOperatorKey
  so_identity :: TransactionIdentity
  so_order :: json

record OrderStore =
  catalogues :: "TransactionKey \<rightharpoonup> (string \<rightharpoonup> TransitOffer)"
  orders :: "string \<rightharpoonup> StoredOrder"
  ordersByTransaction :: "TransactionKey \<rightharpoonup> string"
  passCredentials :: "TransactionKey \<rightharpoonup> PassCredentialRecord list"

definition empty_store :: OrderStore where
  "empty_store = \<lparr>catalogues = Map.empty, orders = Map.empty, ordersByTransaction = Map.empty,
                  passCredentials = Map.empty\<rparr>"

definition store_cacheCatalogue ::
    "PassOperatorKey \<Rightarrow> TransactionIdentity \<Rightarrow> TransitOffer list \<Rightarrow> OrderStore \<Rightarrow> OrderStore" where
  "store_cacheCatalogue operator idn offers st =
     st\<lparr>catalogues := (catalogues st)(transactionKey operator idn \<mapsto>
          map_of (rev (map (\<lambda>offer. (of_offerId offer, offer)) offers)))\<rparr>"

definition selectedOffers ::
    "PassOperatorKey \<Rightarrow> TransactionIdentity \<Rightarrow> string list \<Rightarrow> OrderStore \<Rightarrow> OrderError + TransitOffer list" where
  "selectedOffers operator idn itemIds st =
     (case catalogues st (transactionKey operator idn) of
        None \<Rightarrow> Inl (LifecycleError ''CATALOGUE-NOT-FOUND''
                 (''No search catalogue exists for transaction '' @ ti_transactionId idn))
      | Some catalogue \<Rightarrow>
          traverse (\<lambda>itemId. case catalogue itemId of
              Some offer \<Rightarrow> Inr offer
            | None \<Rightarrow> Inl (LifecycleError ''ITEM-NOT-FOUND''
                (''Unknown item.id '' @ itemId @ '' for transaction '' @ ti_transactionId idn))) itemIds)"

definition store_save ::
    "PassOperatorKey \<Rightarrow> TransactionIdentity \<Rightarrow> string \<Rightarrow> json \<Rightarrow> OrderStore \<Rightarrow> OrderError + OrderStore" where
  "store_save operator idn orderId order st =
     (if orders st orderId \<noteq> None
      then Inl (LifecycleError ''ORDER-ID-COLLISION'' (''Generated order.id '' @ orderId @ '' already exists''))
      else let key = transactionKey operator idn in
        if ordersByTransaction st key \<noteq> None
        then Inl (LifecycleError ''ORDER-ALREADY-CONFIRMED''
               (''Transaction '' @ ti_transactionId idn @ '' already has a confirmed order''))
        else Inr (st\<lparr>orders := (orders st)(orderId \<mapsto>
                       \<lparr>so_operator = operator, so_identity = idn, so_order = order\<rparr>),
                     ordersByTransaction := (ordersByTransaction st)(key \<mapsto> orderId)\<rparr>))"

definition savePassCredentials ::
    "PassOperatorKey \<Rightarrow> TransactionIdentity \<Rightarrow> string \<Rightarrow> PassCredentialRecord list \<Rightarrow> OrderStore \<Rightarrow> OrderStore" where
  "savePassCredentials operator idn orderId credentials st =
     (if credentials = [] then st
      else st\<lparr>passCredentials := (passCredentials st)(passKey operator idn orderId \<mapsto> credentials)\<rparr>)"

definition findPassCredentials ::
    "PassOperatorKey \<Rightarrow> TransactionIdentity \<Rightarrow> string \<Rightarrow> OrderStore \<Rightarrow> PassCredentialRecord list" where
  "findPassCredentials operator idn orderId st =
     (case passCredentials st (passKey operator idn orderId) of None \<Rightarrow> [] | Some cs \<Rightarrow> cs)"

text \<open>The transaction index only names orders that are stored, see \<open>index_sound\<close> in the properties.\<close>

definition findByTransaction :: "PassOperatorKey \<Rightarrow> TransactionIdentity \<Rightarrow> OrderStore \<Rightarrow> json option" where
  "findByTransaction operator idn st =
     (let orderId = ordersByTransaction st (transactionKey operator idn) in
      if \<not> truthy orderId then None
      else map_option so_order (orders st (the orderId)))"

definition store_get ::
    "PassOperatorKey \<Rightarrow> TransactionIdentity \<Rightarrow> string \<Rightarrow> OrderStore \<Rightarrow> OrderError + json" where
  "store_get operator idn orderId st =
     (let missing = Inl (LifecycleError ''ORDER-NOT-FOUND''
            (''Unknown order.id '' @ orderId @ '' for operator '' @ operator_wire operator)) in
      case orders st orderId of
        None \<Rightarrow> missing
      | Some stored \<Rightarrow>
          if so_operator stored \<noteq> operator
             \<or> transactionKey operator (so_identity stored) \<noteq> transactionKey operator idn
          then missing else Inr (so_order stored))"

definition store_inspect :: "string \<Rightarrow> OrderStore \<Rightarrow> json option" where
  "store_inspect orderId st = map_option so_order (orders st orderId)"

subsection \<open>The service\<close>

record Service =
  sv_operatorKey :: PassOperatorKey
  sv_profile :: OperatorProfile
  sv_runtime :: OperatorRuntimeConfig
  sv_publicBaseUrl :: string
  sv_host :: Host
  sv_qr :: "string \<Rightarrow> string"
  sv_hmac :: hmac_sha1

record Draws =
  dr_id :: string
  dr_secrets :: "nat \<Rightarrow> int \<Rightarrow> byte list"

record TicketSpec =
  ts_id :: string
  ts_parentId :: string
  ts_validity :: string
  ts_sequence :: nat

record PassCredentialSpec =
  ps_id :: string
  ps_parentId :: string
  ps_sequence :: nat
  ps_item :: PassCatalogueItem

record BaseOrder =
  bo_order :: json
  bo_fulfillments :: "json list"
  bo_tickets :: "TicketSpec list"
  bo_passCredentials :: "PassCredentialSpec list"
  bo_offers :: "TransitOffer list"

definition ticketTags :: "string \<Rightarrow> json list" where
  "ticketTags parentId =
     [group_of ''INFO'' None [entry_of ''PARENT_ID'' parentId],
      group_of ''SPECIMEN_INFO'' (Some True) [entry_of ''NOTICE'' ''SPECIMEN - NOT VALID FOR TRAVEL'']]"

definition specimenOrderTags :: "json list" where
  "specimenOrderTags =
     [group_of ''SPECIMEN_INFO'' (Some True)
        [entry_of ''NOTICE'' ''SPECIMEN - NOT VALID FOR TRAVEL - not issued by BMTC or BMRCL'']]"

definition paymentWithId :: "Payment \<Rightarrow> PassOperatorKey \<Rightarrow> string \<Rightarrow> nat \<Rightarrow> json" where
  "paymentWithId payment operator transactionId index =
     (let default = JStr (''PAY-'' @ toUpperCase (operator_wire operator) @ ''-'' @ take 8 transactionId @ ''-''
                          @ digits10 (index + 1));
          pid = (case map_of payment ''id'' of None \<Rightarrow> default | Some JNull \<Rightarrow> default | Some v \<Rightarrow> v)
      in JObj (put ''id'' pid payment))"

definition payments_with_ids :: "Service \<Rightarrow> OrderRequest \<Rightarrow> json" where
  "payments_with_ids sv request =
     JArr (map (\<lambda>(i, p). paymentWithId p (sv_operatorKey sv) (cx_transaction_id (rq_context request)) i)
            (List.enumerate 0 (oi_payments (rq_order request))))"

definition identity_of :: "Trv11Context \<Rightarrow> TransactionIdentity" where
  "identity_of context =
     \<lparr>ti_transactionId = cx_transaction_id context, ti_bapId = cx_bap_id context, ti_bapUri = cx_bap_uri context\<rparr>"

definition assertTransitPayment :: "Payment list \<Rightarrow> string \<Rightarrow> OrderError + unit" where
  "assertTransitPayment payments expected =
     (if payments = [] \<or> list_ex (\<lambda>p. map_of p ''status'' \<noteq> Some (JStr expected)) payments
      then Inl (LifecycleError ''INVALID-PAYMENT-STATUS'' (''All payments must have status '' @ expected))
      else Inr ())"

definition assertTransitAddress :: "Service \<Rightarrow> Trv11Context \<Rightarrow> OrderError + unit" where
  "assertTransitAddress sv context =
     (if cx_bpp_id context \<noteq> Some (rt_subscriberId (sv_runtime sv))
         \<or> cx_bpp_uri context \<noteq> Some (rt_subscriberUri (sv_runtime sv))
      then Inl (LifecycleError ''BPP-ADDRESS-MISMATCH''
             (''Request must address '' @ rt_subscriberId (sv_runtime sv) @ '' at '' @ rt_subscriberUri (sv_runtime sv)))
      else Inr ())"

subsection \<open>The lines of an order\<close>

text \<open>\<open>item.quantity.selected.count\<close>, checked to be an integer from 1 to 6 before it is used.\<close>

definition item_count :: "SelectedItem \<Rightarrow> nat" where
  "item_count item = nat \<lfloor>si_count item\<rfloor>"

definition count_ok :: "SelectedItem \<Rightarrow> bool" where
  "count_ok item \<longleftrightarrow> isInteger (si_count item) \<and> 1 \<le> si_count item \<and> si_count item \<le> 6"

definition selected_quantity :: "nat \<Rightarrow> json" where
  "selected_quantity n = JObj [(''selected'', JObj [(''count'', JNum (int n))])]"

definition unit_id :: "string \<Rightarrow> nat \<Rightarrow> string" where
  "unit_id itemId k = ''T-'' @ itemId @ ''-'' @ digits10 k"

definition unit_ids :: "string \<Rightarrow> nat \<Rightarrow> string list" where
  "unit_ids itemId n = map (unit_id itemId) [1..<n + 1]"

definition ticket_fulfillment :: "string \<Rightarrow> string \<Rightarrow> json" where
  "ticket_fulfillment parentId tid =
     JObj [(''id'', JStr tid), (''type'', JStr ''TICKET''), (''tags'', JArr (ticketTags parentId))]"

definition base_fare_line :: "string \<Rightarrow> string \<Rightarrow> nat \<Rightarrow> string \<Rightarrow> json" where
  "base_fare_line itemId unitPrice n linePrice =
     JObj [(''title'', JStr ''BASE_FARE''),
           (''item'', JObj [(''id'', JStr itemId), (''price'', rupee_price unitPrice),
                           (''quantity'', selected_quantity n)]),
           (''price'', rupee_price linePrice)]"

record OrderLine =
  ol_item :: json
  ol_fulfillments :: "json list"
  ol_breakup :: json
  ol_tickets :: "TicketSpec list"
  ol_passes :: "PassCredentialSpec list"
  ol_paise :: int
  ol_discount :: int

definition ticket_line ::
    "Service \<Rightarrow> string \<Rightarrow> nat \<Rightarrow> int \<Rightarrow> SelectedItem \<Rightarrow> TransitOffer \<Rightarrow> OrderError + OrderLine" where
  "ticket_line sv timestamp sequence totalPaise selected offer =
     (let n = item_count selected; tripId = fulfillmentIdForOffer (of_offerId offer);
          ids = unit_ids (of_offerId offer) n; linePaise = of_farePaise offer * int n in
      if \<not> isSafeInteger (linePaise + totalPaise)
      then Inl (LifecycleError ''PRICE-OVERFLOW'' ''Selected fare total exceeds safe integer paise'')
      else andThen (fareToRupees (of_farePaise offer)) (\<lambda>unitPrice.
           andThen (fareToRupees linePaise) (\<lambda>linePrice.
             Inr \<lparr>ol_item = JObj
                    [(''id'', JStr (of_offerId offer)), (''category_ids'', JArr [JStr ''C1'']),
                     (''descriptor'', JObj [(''name'', JStr (of_productName offer)), (''code'', JStr (of_productCode offer))]),
                     (''price'', rupee_price unitPrice), (''quantity'', selected_quantity n),
                     (''fulfillment_ids'', JArr (map JStr (tripId # ids))),
                     (''time'', validity_time (of_validity offer) timestamp)],
                  ol_fulfillments =
                    tripFulfillmentForOffer (host_show_num (sv_host sv)) offer (op_vehicleCategory (sv_profile sv)) tripId
                    # map (ticket_fulfillment tripId) ids,
                  ol_breakup = base_fare_line (of_offerId offer) unitPrice n linePrice,
                  ol_tickets = map (\<lambda>k. \<lparr>ts_id = unit_id (of_offerId offer) k, ts_parentId = tripId,
                                  ts_validity = of_validity offer, ts_sequence = sequence + k\<rparr>) [1..<n + 1],
                  ol_passes = [], ol_paise = linePaise, ol_discount = 0\<rparr>)))"

fun ticket_lines ::
    "Service \<Rightarrow> string \<Rightarrow> nat \<Rightarrow> int \<Rightarrow> (SelectedItem \<times> TransitOffer) list \<Rightarrow> OrderError + OrderLine list" where
  "ticket_lines sv timestamp sequence totalPaise [] = Inr []"
| "ticket_lines sv timestamp sequence totalPaise ((selected, offer) # rest) =
     andThen (ticket_line sv timestamp sequence totalPaise selected offer) (\<lambda>line.
     andThen (ticket_lines sv timestamp (sequence + item_count selected) (totalPaise + ol_paise line) rest) (\<lambda>lines.
       Inr (line # lines)))"

definition pass_line ::
    "Service \<Rightarrow> string \<Rightarrow> ConcessionClass option \<Rightarrow> nat \<Rightarrow> int \<Rightarrow> SelectedItem \<Rightarrow> OrderError + OrderLine" where
  "pass_line sv timestamp concession sequence basePaise selected =
     (case passItemById (sv_operatorKey sv) (si_id selected) of
        None \<Rightarrow> Inl (LifecycleError ''ITEM-NOT-FOUND''
                 (op_name (sv_profile sv) @ '' does not sell pass item '' @ si_id selected))
      | Some item \<Rightarrow>
          let n = item_count selected; fid = fulfillmentIdForOffer (pi_id item);
              ids = unit_ids (pi_id item) n; linePaise = pi_pricePaise item * int n in
          if \<not> isSafeInteger (linePaise + basePaise)
          then Inl (LifecycleError ''PRICE-OVERFLOW'' ''Selected pass total exceeds safe integer paise'')
          else andThen (fareToRupees (pi_pricePaise item)) (\<lambda>unitPrice.
               andThen (fareToRupees linePaise) (\<lambda>linePrice.
                 Inr \<lparr>ol_item = JObj
                        [(''id'', JStr (pi_id item)), (''category_ids'', JArr [JStr PASS_CATEGORY_ID]),
                         (''descriptor'', JObj [(''name'', JStr (pi_name item)), (''code'', JStr PASS_ITEM_CODE)]),
                         (''price'', rupee_price unitPrice), (''quantity'', selected_quantity n),
                         (''fulfillment_ids'', JArr (map JStr (fid # ids))),
                         (''time'', validity_time (pi_duration item) timestamp),
                         (''tags'', JArr [passInfoTag item, concessionInfoTag item, syntheticPassTag])],
                      ol_fulfillments = passFulfillment item # map (ticket_fulfillment fid) ids,
                      ol_breakup = base_fare_line (pi_id item) unitPrice n linePrice,
                      ol_tickets = [],
                      ol_passes = map (\<lambda>k. \<lparr>ps_id = unit_id (pi_id item) k, ps_parentId = fid,
                                     ps_sequence = sequence + k, ps_item = item\<rparr>) [1..<n + 1],
                      ol_paise = linePaise,
                      ol_discount =
                        (case concession of
                           None \<Rightarrow> 0
                         | Some c \<Rightarrow> passConcessionDiscountPaise (pi_pricePaise item)
                                       (passConcessionRatePercent item c) * int n)\<rparr>)))"

fun pass_lines ::
    "Service \<Rightarrow> string \<Rightarrow> ConcessionClass option \<Rightarrow> nat \<Rightarrow> int \<Rightarrow> SelectedItem list \<Rightarrow> OrderError + OrderLine list" where
  "pass_lines sv timestamp concession sequence basePaise [] = Inr []"
| "pass_lines sv timestamp concession sequence basePaise (selected # rest) =
     andThen (pass_line sv timestamp concession sequence basePaise selected) (\<lambda>line.
     andThen (pass_lines sv timestamp concession (sequence + item_count selected) (basePaise + ol_paise line) rest) (\<lambda>lines.
       Inr (line # lines)))"

subsection \<open>The base order\<close>

definition sum_of :: "(OrderLine \<Rightarrow> int) \<Rightarrow> OrderLine list \<Rightarrow> int" where
  "sum_of f lines = sum_list (map f lines)"

definition order_json ::
    "Service \<Rightarrow> json \<Rightarrow> OrderLine list \<Rightarrow> string \<Rightarrow> json list \<Rightarrow> json list \<Rightarrow> json" where
  "order_json sv service_time lines totalPrice extra_breakup tags =
     JObj [(''items'', JArr (map ol_item lines)),
           (''provider'', JObj [(''id'', JStr (op_id (sv_profile sv))),
                               (''descriptor'', JObj [(''name'', JStr (op_name (sv_profile sv)))]),
                               (''time'', service_time)]),
           (''fulfillments'', JArr (concat (map ol_fulfillments lines))),
           (''quote'', JObj [(''price'', rupee_price totalPrice),
                            (''breakup'', JArr (map ol_breakup lines @ extra_breakup))]),
           (''cancellation_terms'', JArr [JObj [(''external_ref'', JObj
              [(''mimetype'', JStr ''text/html''), (''url'', JStr (sv_publicBaseUrl sv @ ''/terms''))])]]),
           (''tags'', JArr tags)]"

definition base_of :: "json \<Rightarrow> OrderLine list \<Rightarrow> TransitOffer list \<Rightarrow> BaseOrder" where
  "base_of order lines offers =
     \<lparr>bo_order = order, bo_fulfillments = concat (map ol_fulfillments lines),
      bo_tickets = concat (map ol_tickets lines), bo_passCredentials = concat (map ol_passes lines),
      bo_offers = offers\<rparr>"

definition ticketBaseOrder ::
    "Service \<Rightarrow> int \<Rightarrow> OrderStore \<Rightarrow> Trv11Context \<Rightarrow> TransitOrderInput \<Rightarrow> OrderError + BaseOrder" where
  "ticketBaseOrder sv nowMs st context input =
     andThen (assertNoConcessionOnTicketOrder (oi_tags input)) (\<lambda>_.
     andThen (selectedOffers (sv_operatorKey sv) (identity_of context) (map si_id (oi_items input)) st) (\<lambda>offers.
     andThen (ticket_lines sv (toISOString nowMs) 0 0 (zip (oi_items input) offers)) (\<lambda>lines.
     andThen (service_range (host_date_parse (sv_host sv)) (cx_timestamp context) (sv_profile sv)) (\<lambda>times.
     andThen (fareToRupees (sum_of ol_paise lines)) (\<lambda>totalPrice.
       Inr (base_of (order_json sv times lines totalPrice [] specimenOrderTags) lines offers))))))"

definition concession_line :: "ConcessionClass option \<Rightarrow> int \<Rightarrow> OrderError + json list" where
  "concession_line concession discountPaise =
     (case concession of
        Some c \<Rightarrow>
          if discountPaise > 0
          then andThen (signedFareToRupees (- discountPaise)) (\<lambda>price.
                 Inr [JObj [(''title'', JStr (class_wire c @ ''_CONCESSION'')), (''price'', rupee_price price)]])
          else Inr []
      | None \<Rightarrow> Inr [])"

definition passBaseOrder ::
    "Service \<Rightarrow> int \<Rightarrow> Trv11Context \<Rightarrow> TransitOrderInput \<Rightarrow> OrderError + BaseOrder" where
  "passBaseOrder sv nowMs context input =
     andThen (concessionFromTags (oi_tags input)) (\<lambda>concession.
     andThen (pass_lines sv (toISOString nowMs) concession 0 0 (oi_items input)) (\<lambda>lines.
     andThen (concession_line concession (sum_of ol_discount lines)) (\<lambda>extra.
       let totalPaise = sum_of ol_paise lines - sum_of ol_discount lines in
       if totalPaise < 0
       then Inl (LifecycleError ''PRICE-UNDERFLOW'' ''A concession cannot discount a pass below zero'')
       else andThen (service_range (host_date_parse (sv_host sv)) (cx_timestamp context) (sv_profile sv)) (\<lambda>times.
            andThen (fareToRupees totalPaise) (\<lambda>totalPrice.
              Inr (base_of (order_json sv times lines totalPrice extra
                     (specimenOrderTags @ (case concession of None \<Rightarrow> [] | Some c \<Rightarrow> [passConcessionTag c])
                      @ [syntheticPassTag])) lines []))))))"

definition baseOrder ::
    "Service \<Rightarrow> int \<Rightarrow> OrderStore \<Rightarrow> Trv11Context \<Rightarrow> TransitOrderInput \<Rightarrow> OrderError + BaseOrder" where
  "baseOrder sv nowMs st context input =
     andThen (assertTransitAddress sv context) (\<lambda>_.
       if oi_provider_id input \<noteq> op_id (sv_profile sv)
       then Inl (LifecycleError ''PROVIDER-NOT-FOUND'' (''Unknown provider.id '' @ oi_provider_id input))
       else let itemIds = map si_id (oi_items input) in
         if length (dedup itemIds) \<noteq> length itemIds
         then Inl (LifecycleError ''DUPLICATE-ITEM'' ''Each selected item.id must be unique'')
         else andThen (forEach (\<lambda>item. ensure (count_ok item) (LifecycleError ''INVALID-QUANTITY''
                  (''Selected quantity for '' @ si_id item @ '' must be an integer from 1 to 6''))) (oi_items input)) (\<lambda>_.
           let passItemCount = length (filter isPassItemId itemIds) in
           if passItemCount = 0 then ticketBaseOrder sv nowMs st context input
           else if passItemCount \<noteq> length itemIds
           then Inl (LifecycleError ''MIXED-CATEGORY-ORDER''
                  ''An order selects pass items or single-journey items, never both'')
           else passBaseOrder sv nowMs context input))"

subsection \<open>The actions\<close>

definition trv11_select :: "Service \<Rightarrow> int \<Rightarrow> OrderStore \<Rightarrow> OrderRequest \<Rightarrow> OrderError + json" where
  "trv11_select sv nowMs st request =
     andThen (baseOrder sv nowMs st (rq_context request) (rq_order request)) (\<lambda>base. Inr (bo_order base))"

definition trv11_init :: "Service \<Rightarrow> int \<Rightarrow> OrderStore \<Rightarrow> OrderRequest \<Rightarrow> OrderError + json" where
  "trv11_init sv nowMs st request =
     andThen (assertTransitPayment (oi_payments (rq_order request)) ''NOT_PAID'') (\<lambda>_.
     andThen (baseOrder sv nowMs st (rq_context request) (rq_order request)) (\<lambda>base.
       Inr (set_field ''payments'' (payments_with_ids sv request)
             (set_field ''billing'' (oi_billing (rq_order request)) (bo_order base)))))"

definition checkPassSettlement ::
    "Service \<Rightarrow> OrderRequest \<Rightarrow> TransactionIdentity \<Rightarrow> BaseOrder \<Rightarrow> int \<Rightarrow> OrderStore \<Rightarrow> OrderError + unit" where
  "checkPassSettlement sv request idn base issuedAt st =
     andThen (passSettlementClaim (oi_payments (rq_order request))) (\<lambda>claim_option.
       case claim_option of
         None \<Rightarrow> Inr ()
       | Some claim \<Rightarrow>
           if bo_passCredentials base \<noteq> []
           then Inl (LifecycleError ''PASS-SETTLEMENT-INVALID''
                  ''A pass purchase cannot itself be settled by a pass; PASS_SETTLEMENT belongs on a single-journey order'')
           else andThen (assertPassSettlement (sv_hmac sv) claim
                  (findPassCredentials (sv_operatorKey sv) idn (cl_passOrderId claim) st)
                  (map (\<lambda>offer. serviceTierForOffer offer (sv_profile sv)) (bo_offers base)) issuedAt) (\<lambda>_. Inr ()))"

definition ticket_number :: "PassOperatorKey \<Rightarrow> string \<Rightarrow> nat \<Rightarrow> string" where
  "ticket_number operator orderId sequence =
     ''SPECIMEN-'' @ toUpperCase (operator_wire operator) @ ''-'' @ drop (length orderId - 8) orderId @ ''-''
     @ padStart 2 (CHR ''0'') (digits10 sequence)"

definition ticket_info :: "string \<Rightarrow> json" where
  "ticket_info number = group_of ''TICKET_INFO'' None [entry_of ''NUMBER'' number]"

definition authorized :: "json \<Rightarrow> json \<Rightarrow> json list \<Rightarrow> json" where
  "authorized fulfillment authorization tags =
     set_field ''tags'' (JArr tags)
       (set_field ''stops'' (JArr [JObj [(''type'', JStr ''START''), (''authorization'', authorization)]]) fulfillment)"

text \<open>One pass credential; \<open>draw\<close> is the secret factory at this call.\<close>

definition mintPassCredential ::
    "(int \<Rightarrow> byte list) \<Rightarrow> json \<Rightarrow> PassCredentialSpec \<Rightarrow> string \<Rightarrow> int \<Rightarrow> OrderError + json \<times> PassCredentialRecord" where
  "mintPassCredential draw fulfillment credential number issuedAt =
     (case mintPassSecret draw TOTP_SECRET_BYTES of
        Inl e \<Rightarrow> Inl (TotpFailure e)
      | Inr secret \<Rightarrow>
          let window = passValidityWindow issuedAt (pi_window (ps_item credential)) in
          Inr (authorized fulfillment
                 (JObj [(''type'', JStr ''TOTP''), (''token'', JStr secret), (''valid_from'', JStr (pw_validFrom window)),
                        (''valid_to'', JStr (pw_validTo window)), (''status'', JStr ''ISSUED'')])
                 (ticketTags (ps_parentId credential) @ [totpInfoTag TOTP_PARAMETERS, ticket_info number]),
               \<lparr>cr_fulfillmentId = ps_id credential, cr_itemId = pi_id (ps_item credential),
                cr_scope = pi_scope (ps_item credential), cr_validFromMs = pw_validFromMs window,
                cr_validToMs = pw_validToMs window, cr_secretBase32 = secret,
                cr_algorithm = tp_algorithm TOTP_PARAMETERS, cr_digits = tp_digits TOTP_PARAMETERS,
                cr_periodSeconds = tp_periodSeconds TOTP_PARAMETERS\<rparr>))"

text \<open>\<open>String(fulfillment.id)\<close>; the fulfillments of a base order have string ids.\<close>

definition fulfillment_id :: "json \<Rightarrow> string" where
  "fulfillment_id f = (case field f ''id'' of Some (JStr s) \<Rightarrow> s | _ \<Rightarrow> ''undefined'')"

definition ticket_json ::
    "Service \<Rightarrow> string \<Rightarrow> int \<Rightarrow> json \<Rightarrow> TicketSpec \<Rightarrow> OrderError + json" where
  "ticket_json sv orderId issuedAt fulfillment ticket =
     (let number = ticket_number (sv_operatorKey sv) orderId (ts_sequence ticket) in
      andThen (ticketAuthorization (sv_qr sv) orderId number (ts_validity ticket) issuedAt) (\<lambda>authorization.
        Inr (authorized fulfillment authorization (ticketTags (ts_parentId ticket) @ [ticket_info number]))))"

fun issue_fulfillments ::
    "Service \<Rightarrow> (nat \<Rightarrow> int \<Rightarrow> byte list) \<Rightarrow> string \<Rightarrow> int \<Rightarrow> BaseOrder \<Rightarrow> nat \<Rightarrow> json list
      \<Rightarrow> OrderError + json list \<times> PassCredentialRecord list" where
  "issue_fulfillments sv secrets orderId issuedAt base k [] = Inr ([], [])"
| "issue_fulfillments sv secrets orderId issuedAt base k (f # fs) =
     (let fid = fulfillment_id f in
      case List.find (\<lambda>c. ps_id c = fid) (rev (bo_passCredentials base)) of
        Some credential \<Rightarrow>
          andThen (mintPassCredential (secrets k) f credential
                     (ticket_number (sv_operatorKey sv) orderId (ps_sequence credential)) issuedAt) (\<lambda>(g, minted).
          andThen (issue_fulfillments sv secrets orderId issuedAt base (k + 1) fs) (\<lambda>(gs, ms).
            Inr (g # gs, minted # ms)))
      | None \<Rightarrow>
          andThen (case List.find (\<lambda>t. ts_id t = fid) (rev (bo_tickets base)) of
                     None \<Rightarrow> Inr f
                   | Some ticket \<Rightarrow> ticket_json sv orderId issuedAt f ticket) (\<lambda>g.
          andThen (issue_fulfillments sv secrets orderId issuedAt base k fs) (\<lambda>(gs, ms).
            Inr (g # gs, ms))))"

definition order_id_of :: "Service \<Rightarrow> string \<Rightarrow> OrderError + string" where
  "order_id_of sv drawn =
     (let component = filter is_alnum drawn in
      if component = []
      then Inl (LifecycleError ''INVALID-ORDER-ID'' ''Order id generator returned no usable characters'')
      else Inr (''SPECIMEN-ORD-'' @ toUpperCase (operator_wire (sv_operatorKey sv)) @ ''-'' @ toUpperCase component))"

definition confirmed_json :: "Service \<Rightarrow> OrderRequest \<Rightarrow> json \<Rightarrow> string \<Rightarrow> json list \<Rightarrow> int \<Rightarrow> json" where
  "confirmed_json sv request order orderId fulfillments issuedAt =
     foldl (\<lambda>o1 (k, v). set_field k v o1) order
       [(''id'', JStr orderId), (''status'', JStr ''ACTIVE''), (''fulfillments'', JArr fulfillments),
        (''billing'', oi_billing (rq_order request)), (''payments'', payments_with_ids sv request),
        (''created_at'', JStr (toISOString issuedAt)), (''updated_at'', JStr (toISOString issuedAt))]"

text \<open>What a confirm computes before it waits for the images, and what it saves afterwards.\<close>

record Prepared =
  pr_orderId :: string
  pr_order :: json
  pr_minted :: "PassCredentialRecord list"

definition prepare_confirm ::
    "Service \<Rightarrow> Draws \<Rightarrow> int \<Rightarrow> OrderRequest \<Rightarrow> TransactionIdentity \<Rightarrow> OrderStore \<Rightarrow> OrderError + Prepared" where
  "prepare_confirm sv draws nowMs request idn st =
     andThen (baseOrder sv nowMs st (rq_context request) (rq_order request)) (\<lambda>base.
     andThen (checkPassSettlement sv request idn base nowMs st) (\<lambda>_.
     andThen (order_id_of sv (dr_id draws)) (\<lambda>orderId.
     andThen (issue_fulfillments sv (dr_secrets draws) orderId nowMs base 0 (bo_fulfillments base)) (\<lambda>(fulfillments, minted).
       Inr \<lparr>pr_orderId = orderId,
            pr_order = confirmed_json sv request (bo_order base) orderId fulfillments nowMs,
            pr_minted = minted\<rparr>))))"

definition save_confirm ::
    "PassOperatorKey \<Rightarrow> TransactionIdentity \<Rightarrow> Prepared \<Rightarrow> OrderStore \<Rightarrow> OrderError + json \<times> OrderStore" where
  "save_confirm operator idn prepared st =
     andThen (store_save operator idn (pr_orderId prepared) (pr_order prepared) st) (\<lambda>st'.
       Inr (pr_order prepared, savePassCredentials operator idn (pr_orderId prepared) (pr_minted prepared) st'))"

definition confirm_new ::
    "Service \<Rightarrow> Draws \<Rightarrow> int \<Rightarrow> OrderRequest \<Rightarrow> TransactionIdentity \<Rightarrow> OrderStore
      \<Rightarrow> OrderError + json \<times> OrderStore" where
  "confirm_new sv draws nowMs request idn st =
     andThen (prepare_confirm sv draws nowMs request idn st) (\<lambda>prepared.
       save_confirm (sv_operatorKey sv) idn prepared st)"

definition trv11_confirm ::
    "Service \<Rightarrow> Draws \<Rightarrow> int \<Rightarrow> OrderRequest \<Rightarrow> OrderStore \<Rightarrow> (OrderError + json) \<times> OrderStore" where
  "trv11_confirm sv draws nowMs request st =
     (case andThen (assertTransitPayment (oi_payments (rq_order request)) ''PAID'')
             (\<lambda>_. assertTransitAddress sv (rq_context request)) of
        Inl e \<Rightarrow> (Inl e, st)
      | Inr _ \<Rightarrow>
          let idn = identity_of (rq_context request) in
          case findByTransaction (sv_operatorKey sv) idn st of
            Some confirmed \<Rightarrow> (Inr confirmed, st)
          | None \<Rightarrow>
              (case confirm_new sv draws nowMs request idn st of
                 Inl e \<Rightarrow> (Inl e, st)
               | Inr (confirmed, st') \<Rightarrow> (Inr confirmed, st')))"

definition trv11_status :: "Service \<Rightarrow> OrderStore \<Rightarrow> StatusRequest \<Rightarrow> OrderError + json" where
  "trv11_status sv st request =
     andThen (assertTransitAddress sv (sx_context request)) (\<lambda>_.
       let orderId = coalesce (sx_order_id request) (sx_ref_id request) in
       if \<not> truthy orderId
       then Inl (LifecycleError ''ORDER-ID-REQUIRED'' ''status requires order_id or ref_id'')
       else store_get (sv_operatorKey sv) (identity_of (sx_context request)) (the orderId) st)"

definition cache_offers :: "Service \<Rightarrow> Trv11Context \<Rightarrow> TransitOffer list \<Rightarrow> OrderStore \<Rightarrow> OrderStore" where
  "cache_offers sv context offers st = store_cacheCatalogue (sv_operatorKey sv) (identity_of context) offers st"

end
