(* ===== verification/Totp_Properties.thy ===== *)
theory Totp_Properties
  imports Trv11_Totp
begin

text \<open>
  The secret survives its base32 text, the code has its digits, and a code is accepted exactly in the
  step it was computed for and the two steps beside it.
\<close>

unbundle bit_operations_syntax

subsection \<open>The bits of a buffer\<close>

text \<open>The lowest \<open>n\<close> bits of a word, the highest of them first.\<close>

definition low_bits :: "nat \<Rightarrow> 'a :: len word \<Rightarrow> bool list" where
  "low_bits n w = map (bit w) (rev [0..<n])"

lemma length_low_bits [simp]: "length (low_bits n w) = n"
  by (simp add: low_bits_def)

lemma low_bits_Suc: "low_bits (Suc n) w = bit w n # low_bits n w"
  by (simp add: low_bits_def)

lemma low_bits_0 [simp]: "low_bits 0 w = []"
  by (simp add: low_bits_def)

lemma low_bits_append: "low_bits (m + n) w = low_bits m (drop_bit n w) @ low_bits n w"
  by (induction m) (simp_all add: low_bits_Suc bit_drop_bit_eq add.commute)

lemma low_bits_eqI: "(\<And>i. i < n \<Longrightarrow> bit v i = bit w i) \<Longrightarrow> low_bits n v = low_bits n w"
  by (simp add: low_bits_def)

lemma low_bits_nth: "low_bits n v = low_bits n w \<Longrightarrow> i < n \<Longrightarrow> bit v i = bit w i"
  by (auto simp: low_bits_def)

lemma low_bits_8_inj: "low_bits 8 v = low_bits 8 w \<Longrightarrow> v = w" for v w :: byte
  by (rule bit_word_eqI) (auto dest: low_bits_nth)

lemma low_bits_pushed:
  fixes buffer :: "32 word" and b :: "'a :: len word"
  assumes "n + k \<le> 32" and "\<And>i. k \<le> i \<Longrightarrow> \<not> bit b i" and "LENGTH('a) \<le> 32"
  shows "low_bits (n + k) (push_bit k buffer OR ucast b) = low_bits n buffer @ low_bits k b"
proof -
  have hi: "bit (drop_bit k (push_bit k buffer OR ucast b)) i = bit buffer i" if "i < n" for i
    using that assms by (auto simp: bit_simps)
  have lo: "bit (push_bit k buffer OR ucast b) i = bit b i" if "i < k" for i
    using that assms(1,3) by (auto simp: bit_simps dest: bit_imp_le_length)
  have "low_bits n (drop_bit k (push_bit k buffer OR ucast b)) = low_bits n buffer"
    by (rule low_bits_eqI) (rule hi)
  moreover have "low_bits k (push_bit k buffer OR ucast b :: 32 word) = low_bits k b"
    using lo by (auto simp: low_bits_def)
  ultimately show ?thesis by (simp add: low_bits_append)
qed

subsection \<open>The bits of a text\<close>

definition char_bits :: "char \<Rightarrow> bool list" where
  "char_bits c = low_bits 5 (of_nat (the (index_of c BASE32_ALPHABET)) :: 32 word)"

lemma index_of_nth: "distinct s \<Longrightarrow> i < length s \<Longrightarrow> index_of (s ! i) s = Some i"
  by (induction s arbitrary: i) (auto simp: nth_Cons split: nat.splits)

lemma index_of_less: "index_of c s = Some i \<Longrightarrow> i < length s"
  by (induction s arbitrary: i) (auto split: if_splits)

lemma index_of_Some: "c \<in> set s \<Longrightarrow> \<exists>i. index_of c s = Some i"
  by (induction s) auto

lemma alphabet_facts: "distinct BASE32_ALPHABET" "length BASE32_ALPHABET = 32"
  by code_simp+

lemma unat_five_bits: "unat (w AND 31) < 32" for w :: "32 word"
proof -
  have "w AND 31 \<le> 31" by (rule word_and_le1)
  then show ?thesis by (simp add: word_le_nat_alt)
qed

lemma symbol_in_alphabet [simp]: "symbol w \<in> set BASE32_ALPHABET"
  using unat_five_bits [of w] by (simp add: symbol_def alphabet_facts)

lemma char_bits_symbol [simp]: "char_bits (symbol w) = low_bits 5 w"
proof -
  have "index_of (symbol w) BASE32_ALPHABET = Some (unat (w AND 31))"
    using unat_five_bits [of w] by (simp add: symbol_def index_of_nth alphabet_facts)
  moreover have "bit (w AND 31) i = bit w i" if "i < 5" for i
    using that by (simp add: bit_simps numeral_eq_Suc less_Suc_eq) auto
  ultimately show ?thesis by (auto simp: char_bits_def intro!: low_bits_eqI)
qed

subsection \<open>Encoding and decoding\<close>

lemma take_symbols_more:
  assumes "5 \<le> bits" and "take_symbols buffer bits = (cs, rest)"
  obtains cs1 where "take_symbols buffer (bits - 5) = (cs1, rest)"
    and "cs = symbol (drop_bit (bits - 5) buffer) # cs1"
  using assms by (subst (asm) take_symbols.simps) (auto split: prod.splits)

lemma take_symbols_bits:
  "take_symbols buffer bits = (cs, rest) \<Longrightarrow>
   low_bits bits buffer = concat (map char_bits cs) @ low_bits rest buffer
   \<and> rest < 5 \<and> set cs \<subseteq> set BASE32_ALPHABET"
proof (induction bits arbitrary: cs rest rule: less_induct)
  case (less bits)
  show ?case
  proof (cases "5 \<le> bits")
    case True
    obtain cs1 where cs1: "take_symbols buffer (bits - 5) = (cs1, rest)"
        "cs = symbol (drop_bit (bits - 5) buffer) # cs1"
      by (rule take_symbols_more [OF True less.prems])
    have "low_bits bits buffer = low_bits 5 (drop_bit (bits - 5) buffer) @ low_bits (bits - 5) buffer"
      using low_bits_append [of 5 "bits - 5" buffer] True by simp
    then show ?thesis using less.IH [OF _ cs1(1)] cs1(2) True by simp
  next
    case False
    then show ?thesis using less.prems by (subst (asm) take_symbols.simps) simp
  qed
qed

lemma low_bits_padded:
  fixes buffer :: "32 word"
  assumes "bits \<le> 5"
  shows "low_bits 5 (push_bit (5 - bits) buffer) = low_bits bits buffer @ replicate (5 - bits) False"
proof -
  have "low_bits (bits + (5 - bits)) (push_bit (5 - bits) buffer OR ucast (0 :: 32 word)) =
      low_bits bits buffer @ low_bits (5 - bits) (0 :: 32 word)"
    by (rule low_bits_pushed) (use assms in auto)
  moreover have "low_bits n (0 :: 32 word) = replicate n False" for n
    by (induction n) (simp_all add: low_bits_Suc)
  ultimately show ?thesis using assms by simp
qed

lemma encode_bits:
  "bits < 5 \<Longrightarrow>
   \<exists>z < 5. concat (map char_bits (encode_bytes buffer bits bs)) =
     low_bits bits buffer @ concat (map (low_bits 8) bs) @ replicate z False"
proof (induction bs arbitrary: buffer bits)
  case Nil
  then show ?case by (auto simp: low_bits_padded intro!: exI [of _ "5 - bits"] exI [of _ 0])
next
  case (Cons b bs)
  define buffer' where "buffer' = push_bit 8 buffer OR ucast b"
  obtain cs left where cs: "take_symbols buffer' (bits + 8) = (cs, left)" by fastforce
  have "low_bits (bits + 8) buffer' = low_bits bits buffer @ low_bits 8 b"
    unfolding buffer'_def by (rule low_bits_pushed) (use Cons.prems in \<open>auto dest: bit_imp_le_length\<close>)
  moreover obtain z where "z < 5" "concat (map char_bits (encode_bytes buffer' left bs)) =
      low_bits left buffer' @ concat (map (low_bits 8) bs) @ replicate z False"
    using Cons.IH take_symbols_bits [OF cs] by blast
  ultimately show ?case
    using take_symbols_bits [OF cs] cs
    by (auto simp: buffer'_def [symmetric] Let_def intro!: exI [of _ z])
qed

lemma encode_alphabet: "set (encode_bytes buffer bits bs) \<subseteq> set BASE32_ALPHABET"
proof (induction bs arbitrary: buffer bits)
  case (Cons b bs)
  obtain cs left where cs: "take_symbols (push_bit 8 buffer OR ucast b) (bits + 8) = (cs, left)" by fastforce
  then show ?case using Cons.IH take_symbols_bits [OF cs] by (auto simp: Let_def)
qed auto

lemma low_bits_byte: "low_bits 8 (ucast (w AND 0xff) :: byte) = low_bits 8 w" for w :: "32 word"
proof -
  have "bit (ucast (w AND 0xff) :: byte) i = bit w i" if "i < 8" for i
    using that by (simp add: bit_simps numeral_eq_Suc less_Suc_eq) auto
  then show ?thesis by (auto simp: low_bits_def)
qed

lemma decode_bits:
  "bits < 8 \<Longrightarrow> set s \<subseteq> set BASE32_ALPHABET \<Longrightarrow>
   \<exists>bs rest. decode_symbols buffer bits s = Inr bs \<and> length rest < 8
     \<and> low_bits bits buffer @ concat (map char_bits s) = concat (map (low_bits 8) bs) @ rest"
proof (induction s arbitrary: buffer bits)
  case Nil
  then show ?case by (intro exI [of _ "[]"] exI [of _ "low_bits bits buffer"]) simp
next
  case (Cons c s)
  obtain i where i: "index_of c BASE32_ALPHABET = Some i" "i < 32"
    using index_of_Some [of c BASE32_ALPHABET] index_of_less Cons.prems(2) by (fastforce simp: alphabet_facts)
  define buffer' where "buffer' = push_bit 5 buffer OR (of_nat i :: 32 word)"
  have "\<not> bit (of_nat i :: 32 word) k" if "5 \<le> k" for k
  proof -
    have "take_bit 5 i = i" using i(2) by (simp add: take_bit_nat_eq_self_iff)
    then show ?thesis using that by (metis bit_of_nat_iff bit_take_bit_iff not_le)
  qed
  then have b': "low_bits (bits + 5) buffer' = low_bits bits buffer @ char_bits c"
    using low_bits_pushed [of bits 5 "of_nat i :: 32 word" buffer] Cons.prems(1) i
    by (simp add: buffer'_def char_bits_def)
  show ?case
  proof (cases "8 \<le> bits + 5")
    case True
    obtain bs rest where IH: "decode_symbols buffer' (bits + 5 - 8) s = Inr bs" "length rest < 8"
        "low_bits (bits + 5 - 8) buffer' @ concat (map char_bits s) = concat (map (low_bits 8) bs) @ rest"
      using Cons.IH [of "bits + 5 - 8" buffer'] Cons.prems by (fastforce simp del: diff_is_0_eq)
    have "low_bits (bits + 5) buffer' = low_bits 8 (drop_bit (bits + 5 - 8) buffer') @ low_bits (bits + 5 - 8) buffer'"
      using low_bits_append [of 8 "bits + 5 - 8" buffer'] True by (simp add: add.commute)
    then have "low_bits bits buffer @ char_bits c @ concat (map char_bits s) =
        low_bits 8 (drop_bit (bits + 5 - 8) buffer') @ concat (map (low_bits 8) bs) @ rest"
      using b' IH(3) by (metis append_assoc)
    then show ?thesis
      using IH(1,2) True i by (intro exI [of _ "ucast (drop_bit (bits + 5 - 8) buffer' AND 0xff) # bs"] exI [of _ rest])
        (simp add: buffer'_def [symmetric] low_bits_byte Let_def)
  next
    case False
    obtain bs rest where IH: "decode_symbols buffer' (bits + 5) s = Inr bs" "length rest < 8"
        "low_bits (bits + 5) buffer' @ concat (map char_bits s) = concat (map (low_bits 8) bs) @ rest"
      using Cons.IH [of "bits + 5" buffer'] Cons.prems False by auto
    then show ?thesis
      using False i b' by (intro exI [of _ bs] exI [of _ rest]) (simp add: buffer'_def [symmetric] Let_def)
  qed
qed

lemma concat_low_bits_inj:
  "length bs = length cs \<Longrightarrow> concat (map (low_bits 8) bs) = concat (map (low_bits 8) cs) \<Longrightarrow> bs = cs"
  for bs cs :: "byte list"
  by (induction bs cs rule: list_induct2) (auto dest: low_bits_8_inj)

lemma length_concat_low_bits: "length (concat (map (low_bits 8) bs)) = 8 * length bs"
  by (induction bs) auto

lemma alphabet_normalized:
  assumes "set s \<subseteq> set BASE32_ALPHABET"
  shows "toUpperCase (strip_padding s) = s"
proof -
  have up: "list_all (\<lambda>c. upper_char c = c \<and> c \<noteq> CHR ''='') BASE32_ALPHABET" by code_simp
  have "map upper_char s = s"
    using assms up by (induction s) (auto simp: list_all_iff)
  moreover have "dropWhile (\<lambda>c. c = CHR ''='') (rev s) = rev s"
    using assms up by (cases "rev s") (auto simp: list_all_iff dest!: arg_cong [where f = set])
  ultimately show ?thesis by (simp add: strip_padding_def toUpperCase_def)
qed

text \<open>Decoding the base32 text of a secret gives back the secret, whatever its length and bytes, on
  the 32-bit buffer both directions shift through.\<close>

theorem base32_roundtrip: "decodeBase32 (encodeBase32 bs) = Inr bs"
proof -
  obtain z where z: "z < 5" "concat (map char_bits (encodeBase32 bs)) = concat (map (low_bits 8) bs) @ replicate z False"
    using encode_bits [of 0 0 bs] by (auto simp: encodeBase32_def)
  obtain cs rest where cs: "decode_symbols 0 0 (encodeBase32 bs) = Inr cs" "length rest < 8"
      "concat (map char_bits (encodeBase32 bs)) = concat (map (low_bits 8) cs) @ rest"
    using decode_bits [of 0 "encodeBase32 bs" 0] encode_alphabet by (auto simp: encodeBase32_def)
  have eq: "concat (map (low_bits 8) bs) @ replicate z False = concat (map (low_bits 8) cs) @ rest"
    using z cs by simp
  have "length (concat (map (low_bits 8) bs) @ replicate z False) = length (concat (map (low_bits 8) cs) @ rest)"
    by (simp only: eq)
  then have "8 * length bs + z = 8 * length cs + length rest"
    by (simp only: length_append length_concat_low_bits length_replicate)
  then have "length bs = length cs" using z(1) cs(2) by presburger
  then have "bs = cs"
    using eq concat_low_bits_inj by (auto simp: length_concat_low_bits append_eq_append_conv)
  then show ?thesis
    using cs(1) alphabet_normalized [of "encodeBase32 bs"] encode_alphabet
    by (simp add: decodeBase32_def encodeBase32_def)
qed

subsection \<open>Codes\<close>

lemma totp_counter_shift:
  assumes "0 < period"
  shows "totp_counter (t + step * period * 1000) period = totp_counter t period + step"
proof -
  have "(t + step * period * 1000) div 1000 = t div 1000 + step * period" by simp
  then show ?thesis using assms by (simp add: totp_counter_def)
qed

lemma totpCode_digits:
  assumes "totpCode hmac secret t p = Inr code"
  shows "int (length code) = tp_digits p \<and> code \<noteq> [] \<and> list_all is_digit code \<and> 0 < tp_periodSeconds p"
proof -
  define v where "v = truncated (hmac (projr (decodeBase32 secret)) (counter_bytes (totp_counter t (tp_periodSeconds p))))
    mod 10 ^ nat (tp_digits p)"
  have code: "code = padStart (nat (tp_digits p)) (CHR ''0'') (digits10 v)" and d: "6 \<le> tp_digits p"
    and period: "0 < tp_periodSeconds p"
    using assms by (auto simp: totpCode_def v_def Let_def result_simps split: if_splits)
  have "v < 10 ^ nat (tp_digits p)" by (simp add: v_def)
  then have "length (digits10 v) \<le> nat (tp_digits p)" using d by (intro length_digits10_le) auto
  then have "length code = nat (tp_digits p)" by (simp add: code)
  then show ?thesis using d period by (auto simp: code list_all_iff dest: padStart_digits)
qed

lemma totpCode_counter:
  "totp_counter t (tp_periodSeconds p) = totp_counter t' (tp_periodSeconds p) \<Longrightarrow>
   totpCode hmac secret t p = totpCode hmac secret t' p"
  by (simp add: totpCode_def Let_def)

lemma try_steps_exact:
  "try_steps hmac secret presented t p steps = Inr b \<Longrightarrow>
   b \<longleftrightarrow> (\<exists>step \<in> set steps. totpCode hmac secret (t + step * tp_periodSeconds p * 1000) p = Inr presented)"
  by (induction steps arbitrary: b) (auto simp: result_simps)

text \<open>C38. A presented code is accepted exactly when it is the code of the same secret at some instant
  whose time step is the current one or at most the drift away from it; every other text is refused.\<close>

theorem code_accepted_exactly_near_its_step:
  assumes "verifyTotpCode hmac secret presented t p drift = Inr b"
  shows "b \<longleftrightarrow> (\<exists>t0. \<bar>totp_counter t0 (tp_periodSeconds p) - totp_counter t (tp_periodSeconds p)\<bar> \<le> drift
    \<and> totpCode hmac secret t0 p = Inr presented)"
proof (cases "int (length presented) = tp_digits p \<and> presented \<noteq> [] \<and> list_all is_digit presented")
  case False
  then show ?thesis using assms by (auto simp: verifyTotpCode_def dest: totpCode_digits)
next
  case True
  let ?at = "\<lambda>step. t + step * tp_periodSeconds p * 1000"
  have b: "b \<longleftrightarrow> (\<exists>step \<in> {- drift..drift}. totpCode hmac secret (?at step) p = Inr presented)"
    using assms True try_steps_exact [of hmac secret presented t p "[- drift..drift]" b]
    by (simp add: verifyTotpCode_def)
  show ?thesis
  proof
    assume b
    then obtain step where "step \<in> {- drift..drift}" "totpCode hmac secret (?at step) p = Inr presented"
      using b by blast
    then show "\<exists>t0. \<bar>totp_counter t0 (tp_periodSeconds p) - totp_counter t (tp_periodSeconds p)\<bar> \<le> drift
        \<and> totpCode hmac secret t0 p = Inr presented"
      using totpCode_digits [of hmac secret "?at step" p presented] totp_counter_shift [of "tp_periodSeconds p" t step]
      by (intro exI [of _ "?at step"]) auto
  next
    assume "\<exists>t0. \<bar>totp_counter t0 (tp_periodSeconds p) - totp_counter t (tp_periodSeconds p)\<bar> \<le> drift
        \<and> totpCode hmac secret t0 p = Inr presented"
    then obtain t0 where t0: "\<bar>totp_counter t0 (tp_periodSeconds p) - totp_counter t (tp_periodSeconds p)\<bar> \<le> drift"
        "totpCode hmac secret t0 p = Inr presented" by blast
    define step where "step = totp_counter t0 (tp_periodSeconds p) - totp_counter t (tp_periodSeconds p)"
    have "0 < tp_periodSeconds p" using totpCode_digits [OF t0(2)] by blast
    then have "totp_counter (?at step) (tp_periodSeconds p) = totp_counter t0 (tp_periodSeconds p)"
      by (simp add: totp_counter_shift step_def)
    then have "totpCode hmac secret (?at step) p = Inr presented"
      using totpCode_counter t0(2) by metis
    moreover have "step \<in> {- drift..drift}" using t0(1) by (auto simp: step_def)
    ultimately show b using b by blast
  qed
qed

definition echo_hmac :: hmac_sha1 where
  "echo_hmac key message = replicate 12 0 @ message"

lemma echo_codes:
  assumes "t \<in> {29000, 59000, 89000}"
  shows "totpCode echo_hmac ''AAAA'' t TOTP_PARAMETERS = Inr ''000000''"
proof -
  have key: "decodeBase32 ''AAAA'' = Inr [0, 0]" by code_simp
  have zeros: "padStart 6 (CHR ''0'') (digits10 0) = ''000000''" by code_simp
  have hash: "truncated (echo_hmac k (counter_bytes 0)) = 0" "truncated (echo_hmac k (counter_bytes 1)) = 0"
      "truncated (echo_hmac k (counter_bytes 2)) = 0" for k
    by code_simp+
  show ?thesis
    using assms
    by (auto simp: totpCode_def Let_def totp_counter_def hmacName_def key zeros hash isSafe_def
        TOTP_PARAMETERS_def TOTP_ALGORITHM_def TOTP_DIGITS_def TOTP_PERIOD_SECONDS_def)
qed

theorem code_accepted_exactly_near_its_step_witness:
  "\<exists>t0. \<bar>totp_counter t0 30 - totp_counter 59000 30\<bar> \<le> 1 \<and> totpCode echo_hmac ''AAAA'' t0 TOTP_PARAMETERS = Inr ''000000''"
proof -
  have steps: "[- 1..1] = [- 1, 0, 1 :: int]" by (simp add: upto.simps)
  have par: "tp_periodSeconds TOTP_PARAMETERS = 30" "tp_digits TOTP_PARAMETERS = 6"
    by (simp_all add: TOTP_PARAMETERS_def TOTP_PERIOD_SECONDS_def TOTP_DIGITS_def)
  have "verifyTotpCode echo_hmac ''AAAA'' ''000000'' 59000 TOTP_PARAMETERS 1 = Inr True"
    by (simp add: verifyTotpCode_def steps par echo_codes is_digit_def)
  from code_accepted_exactly_near_its_step [OF this] show ?thesis by (simp add: par)
qed

end
