(* ===== verification/Trv11_Flow.thy ===== *)
theory Trv11_Flow
  imports Trv11_Orders Totp_Properties Transition
begin

text \<open>
  Confirms in flight (\<open>confirm\<close> of \<open>src/src/orders/service.ts\<close>). A confirm runs without interruption up to
  the wait for the images of its tickets, and saves after it; other requests are served in between. A
  confirm of a transaction that is already being confirmed joins it and gets its answer.

  The state is the store, the confirms in flight of all operators (the map \<open>confirmations\<close> of each
  service), and the log of the answers given. The lemmas show that the index of the store is exact,
  that the orders only grow, and that a transaction has one answer.
\<close>

subsection \<open>The flow\<close>

type_synonym Purchase = "PassOperatorKey \<times> TransactionIdentity"

record Pending =
  pd_outcome :: "OrderError + Prepared"
  pd_joined :: nat

record Orders =
  of_store :: OrderStore
  confirmations :: "Purchase \<rightharpoonup> Pending"
  answers :: "(Purchase \<times> (OrderError + json)) list"

definition confirm_call :: "Service \<Rightarrow> Draws \<Rightarrow> int \<Rightarrow> OrderRequest \<Rightarrow> Orders \<Rightarrow> Orders" where
  "confirm_call sv draws nowMs request s =
     (let purchase = (sv_operatorKey sv, identity_of (rq_context request)) in
      case andThen (assertTransitPayment (oi_payments (rq_order request)) ''PAID'')
             (\<lambda>_. assertTransitAddress sv (rq_context request)) of
        Inl e \<Rightarrow> s\<lparr>answers := answers s @ [(purchase, Inl e)]\<rparr>
      | Inr _ \<Rightarrow>
          (case findByTransaction (sv_operatorKey sv) (snd purchase) (of_store s) of
             Some confirmed \<Rightarrow> s\<lparr>answers := answers s @ [(purchase, Inr confirmed)]\<rparr>
           | None \<Rightarrow>
               (case confirmations s purchase of
                  Some pending \<Rightarrow>
                    s\<lparr>confirmations := (confirmations s)(purchase \<mapsto> pending\<lparr>pd_joined := pd_joined pending + 1\<rparr>)\<rparr>
                | None \<Rightarrow>
                    s\<lparr>confirmations := (confirmations s)(purchase \<mapsto>
                        \<lparr>pd_outcome = prepare_confirm sv draws nowMs request (snd purchase) (of_store s),
                         pd_joined = 1\<rparr>)\<rparr>)))"

definition settle_outcome :: "Purchase \<Rightarrow> OrderError + Prepared \<Rightarrow> OrderStore \<Rightarrow> (OrderError + json) \<times> OrderStore" where
  "settle_outcome purchase outcome st =
     (case andThen outcome (\<lambda>prepared. save_confirm (fst purchase) (snd purchase) prepared st) of
        Inl e \<Rightarrow> (Inl e, st)
      | Inr (confirmed, st') \<Rightarrow> (Inr confirmed, st'))"

definition confirm_settle :: "Purchase \<Rightarrow> Orders \<Rightarrow> Orders" where
  "confirm_settle purchase s =
     (case confirmations s purchase of
        None \<Rightarrow> s
      | Some pending \<Rightarrow>
          (case settle_outcome purchase (pd_outcome pending) (of_store s) of
             (answer, st') \<Rightarrow>
               \<lparr>of_store = st', confirmations = (confirmations s)(purchase := None),
                answers = answers s @ replicate (pd_joined pending) (purchase, answer)\<rparr>))"

definition no_orders :: Orders where
  "no_orders = \<lparr>of_store = empty_store, confirmations = Map.empty, answers = []\<rparr>"

inductive order_step :: "Orders \<Rightarrow> Orders \<Rightarrow> bool" where
  searched: "order_step s (s\<lparr>of_store := cache_offers sv context offers (of_store s)\<rparr>)"
| called: "order_step s (confirm_call sv draws nowMs request s)"
| settled: "order_step s (confirm_settle purchase s)"

inductive_cases order_stepE [elim!]: "order_step s s'"

abbreviation purchase_key :: "Purchase \<Rightarrow> TransactionKey" where
  "purchase_key p \<equiv> transactionKey (fst p) (snd p)"

lemma transactionKey_inj: "transactionKey op1 i1 = transactionKey op2 i2 \<longleftrightarrow> op1 = op2 \<and> i1 = i2"
  by (cases i1; cases i2) (auto simp: transactionKey_def)

lemma purchase_key_inj: "purchase_key p = purchase_key q \<longleftrightarrow> p = q"
  by (auto simp only: transactionKey_inj intro: prod_eqI)

text \<open>A call and its settlement with nothing in between are the atomic confirm.\<close>

lemma uninterrupted_confirm:
  assumes "confirmations s (sv_operatorKey sv, identity_of (rq_context request)) = None"
    and "trv11_confirm sv draws nowMs request (of_store s) = (answer, st')"
  shows "\<exists>ps. confirm_settle (sv_operatorKey sv, identity_of (rq_context request)) (confirm_call sv draws nowMs request s) =
    \<lparr>of_store = st', confirmations = ps, answers = answers s @ [((sv_operatorKey sv, identity_of (rq_context request)), answer)]\<rparr>
    \<and> ps = confirmations s"
  using assms
  by (auto simp: trv11_confirm_def confirm_call_def confirm_settle_def settle_outcome_def confirm_new_def Let_def
      fun_upd_idem split: sum.splits option.splits)

subsection \<open>What a store keeps\<close>

text \<open>
  A credential as this provider mints it: for an item of the operator's own catalogue, over the window
  of some instant of issue, with a fresh secret of twenty bytes and the published code parameters.
\<close>

definition credential_minted :: "PassOperatorKey \<Rightarrow> PassCredentialRecord \<Rightarrow> bool" where
  "credential_minted operator c \<longleftrightarrow>
     (\<exists>item \<in> set (passCatalogueFor operator). \<exists>issuedAt secret.
        cr_itemId c = pi_id item \<and> cr_scope c = pi_scope item
        \<and> cr_validFromMs c = pw_validFromMs (passValidityWindow issuedAt (pi_window item))
        \<and> cr_validToMs c = pw_validToMs (passValidityWindow issuedAt (pi_window item))
        \<and> cr_secretBase32 c = encodeBase32 secret \<and> length secret = 20
        \<and> credential_parameters c = TOTP_PARAMETERS)"

definition index_exact :: "OrderStore \<Rightarrow> bool" where
  "index_exact st \<longleftrightarrow> orders st [] = None
     \<and> (\<forall>operator idn oid. ordersByTransaction st (transactionKey operator idn) = Some oid
          \<longleftrightarrow> (\<exists>order. orders st oid = Some \<lparr>so_operator = operator, so_identity = idn, so_order = order\<rparr>))"

definition sold_to :: "OrderStore \<Rightarrow> PassOperatorKey \<Rightarrow> TransactionIdentity \<Rightarrow> string \<Rightarrow> bool" where
  "sold_to st operator idn oid \<longleftrightarrow>
     (\<exists>stored. orders st oid = Some stored \<and> so_operator stored = operator
        \<and> ti_bapId (so_identity stored) = ti_bapId idn \<and> ti_bapUri (so_identity stored) = ti_bapUri idn)"

definition credentials_owned :: "OrderStore \<Rightarrow> bool" where
  "credentials_owned st \<longleftrightarrow>
     (\<forall>operator idn oid c. c \<in> set (findPassCredentials operator idn oid st) \<longrightarrow>
        sold_to st operator idn oid \<and> credential_minted operator c)"

text \<open>The id a stored order shows is the one it is stored under.\<close>

definition ids_shown :: "OrderStore \<Rightarrow> bool" where
  "ids_shown st \<longleftrightarrow> (\<forall>oid stored. orders st oid = Some stored \<longrightarrow> field (so_order stored) ''id'' = Some (JStr oid))"

definition store_ok :: "OrderStore \<Rightarrow> bool" where
  "store_ok st \<longleftrightarrow> index_exact st \<and> ids_shown st \<and> credentials_owned st"

definition prepared_ok :: "PassOperatorKey \<Rightarrow> Prepared \<Rightarrow> bool" where
  "prepared_ok operator p \<longleftrightarrow> pr_orderId p \<noteq> [] \<and> field (pr_order p) ''id'' = Some (JStr (pr_orderId p))
     \<and> list_all (credential_minted operator) (pr_minted p)"

definition pending_ok :: "OrderStore \<Rightarrow> Purchase \<Rightarrow> Pending \<Rightarrow> bool" where
  "pending_ok st p pd \<longleftrightarrow> ordersByTransaction st (purchase_key p) = None \<and> 1 \<le> pd_joined pd
     \<and> (\<forall>prepared. pd_outcome pd = Inr prepared \<longrightarrow> prepared_ok (fst p) prepared)"

definition orders_inv :: "Orders \<Rightarrow> bool" where
  "orders_inv s \<longleftrightarrow> store_ok (of_store s)
     \<and> (\<forall>p pd. confirmations s p = Some pd \<longrightarrow> pending_ok (of_store s) p pd)
     \<and> (\<forall>p confirmed. (p, Inr confirmed) \<in> set (answers s) \<longrightarrow>
          findByTransaction (fst p) (snd p) (of_store s) = Some confirmed)"

subsection \<open>What a confirm mints\<close>

lemma passItemById_catalogue:
  "passItemById operator i = Some item \<Longrightarrow> item \<in> set (passCatalogueFor operator) \<and> pi_id item = i"
  by (auto simp: passItemById_def PASS_BY_ID_def passCatalogueFor_def split: option.splits if_splits dest: find_SomeD)

lemma pass_lines_specs:
  "pass_lines sv ts c k b items = Inr lines \<Longrightarrow> spec \<in> set (concat (map ol_passes lines)) \<Longrightarrow>
   ps_item spec \<in> set (passCatalogueFor (sv_operatorKey sv))"
proof (induction items arbitrary: k b lines)
  case (Cons i items)
  then show ?case
    by (fastforce simp: result_simps pass_line_def Let_def split: option.splits if_splits dest: passItemById_catalogue)
qed auto

lemma ticket_lines_no_passes: "ticket_lines sv ts k t items = Inr lines \<Longrightarrow> concat (map ol_passes lines) = []"
  by (induction items arbitrary: k t lines)
    (auto simp: result_simps ticket_line_def Let_def split: if_splits)

lemma base_specs:
  assumes "baseOrder sv nowMs st context input = Inr base" and "spec \<in> set (bo_passCredentials base)"
  shows "ps_item spec \<in> set (passCatalogueFor (sv_operatorKey sv))"
  using assms
  by (auto simp: baseOrder_def ticketBaseOrder_def passBaseOrder_def base_of_def Let_def result_simps
      split: if_splits dest: ticket_lines_no_passes pass_lines_specs)

lemma mint_minted:
  assumes "mintPassCredential draw f spec number issuedAt = Inr (g, c)"
    and "ps_item spec \<in> set (passCatalogueFor operator)"
  shows "credential_minted operator c"
proof -
  obtain secret where "mintPassSecret draw TOTP_SECRET_BYTES = Inr (encodeBase32 secret)" "length secret = 20"
      "cr_secretBase32 c = encodeBase32 secret"
    using assms(1) by (auto simp: mintPassCredential_def mintPassSecret_def TOTP_SECRET_BYTES_def Let_def
        result_simps split: sum.splits if_splits)
  then show ?thesis
    using assms unfolding credential_minted_def
    by (intro bexI [of _ "ps_item spec"] exI [of _ issuedAt] exI [of _ secret])
      (auto simp: mintPassCredential_def credential_parameters_def Let_def)
qed

lemma issue_minted:
  "issue_fulfillments sv secrets oid t base k fs = Inr (gs, ms) \<Longrightarrow>
   (\<And>spec. spec \<in> set (bo_passCredentials base) \<Longrightarrow> ps_item spec \<in> set (passCatalogueFor operator)) \<Longrightarrow>
   list_all (credential_minted operator) ms"
proof (induction fs arbitrary: k gs ms)
  case (Cons f fs)
  then show ?case
    by (auto simp: result_simps Let_def split: option.splits dest!: find_SomeD(1) dest: mint_minted [where operator = operator])
qed simp

lemma order_id_nonempty: "order_id_of sv d = Inr oid \<Longrightarrow> oid \<noteq> []"
  by (auto simp: order_id_of_def Let_def split: if_splits)

lemma base_is_object:
  "baseOrder sv nowMs st context input = Inr base \<Longrightarrow> \<exists>kvs. bo_order base = JObj kvs"
  by (auto simp: baseOrder_def ticketBaseOrder_def passBaseOrder_def base_of_def order_json_def Let_def result_simps
      split: if_splits)

lemma confirmed_json_id:
  "order = JObj kvs \<Longrightarrow> field (confirmed_json sv request order oid fs t) ''id'' = Some (JStr oid)"
  by (simp add: confirmed_json_def map_of_put)

lemma prepare_ok:
  assumes "prepare_confirm sv draws nowMs request idn st = Inr prepared"
  shows "prepared_ok (sv_operatorKey sv) prepared"
proof -
  obtain base oid fs ms where b: "baseOrder sv nowMs st (rq_context request) (rq_order request) = Inr base"
      "order_id_of sv (dr_id draws) = Inr oid"
      "issue_fulfillments sv (dr_secrets draws) oid nowMs base 0 (bo_fulfillments base) = Inr (fs, ms)"
      "prepared = \<lparr>pr_orderId = oid, pr_order = confirmed_json sv request (bo_order base) oid fs nowMs, pr_minted = ms\<rparr>"
    using assms by (auto simp: prepare_confirm_def result_simps)
  obtain kvs where "bo_order base = JObj kvs" using base_is_object [OF b(1)] by blast
  then show ?thesis
    using issue_minted [OF b(3)] base_specs [OF b(1)] order_id_nonempty [OF b(2)] confirmed_json_id
    by (auto simp: prepared_ok_def b(4) simp del: field.simps)
qed

subsection \<open>What a save changes\<close>

lemma store_saveE:
  assumes "store_save operator idn oid order st = Inr st'"
  obtains "orders st oid = None" "ordersByTransaction st (transactionKey operator idn) = None"
    "st' = st\<lparr>orders := (orders st)(oid \<mapsto> \<lparr>so_operator = operator, so_identity = idn, so_order = order\<rparr>),
              ordersByTransaction := (ordersByTransaction st)(transactionKey operator idn \<mapsto> oid)\<rparr>"
  using assms by (auto simp: store_save_def Let_def split: if_splits)

lemma index_exactD:
  "index_exact st \<Longrightarrow> ordersByTransaction st (transactionKey operator idn) = Some oid \<longleftrightarrow>
     (\<exists>order. orders st oid = Some \<lparr>so_operator = operator, so_identity = idn, so_order = order\<rparr>)"
  "index_exact st \<Longrightarrow> orders st [] = None"
  by (auto simp: index_exact_def)

lemma findByTransaction_iff:
  assumes "index_exact st"
  shows "findByTransaction operator idn st = Some o1 \<longleftrightarrow>
    (\<exists>oid. orders st oid = Some \<lparr>so_operator = operator, so_identity = idn, so_order = o1\<rparr>)"
proof (cases "ordersByTransaction st (transactionKey operator idn)")
  case None
  then show ?thesis
    using index_exactD(1) [OF assms, of operator idn] by (auto simp: findByTransaction_def Let_def truthy_def)
next
  case (Some oid)
  obtain o2 where o2: "orders st oid = Some \<lparr>so_operator = operator, so_identity = idn, so_order = o2\<rparr>"
    using Some index_exactD(1) [OF assms] by blast
  have "oid' = oid" if "orders st oid' = Some \<lparr>so_operator = operator, so_identity = idn, so_order = o1\<rparr>" for oid'
    using that Some index_exactD(1) [OF assms, of operator idn oid'] by simp
  moreover have "oid \<noteq> []" using o2 index_exactD(2) [OF assms] by auto
  ultimately show ?thesis using Some o2 by (auto simp: findByTransaction_def Let_def truthy_def)
qed

lemma index_fresh:
  assumes "index_exact st"
  shows "ordersByTransaction st (transactionKey operator idn) = None \<longleftrightarrow> findByTransaction operator idn st = None"
  using findByTransaction_iff [OF assms, of operator idn] index_exactD(1) [OF assms, of operator idn]
  by (metis not_Some_eq)

lemma save_index:
  assumes "index_exact st" and "store_save operator idn oid order st = Inr st'" and "oid \<noteq> []"
  shows "index_exact st'"
  using assms(2)
proof (cases rule: store_saveE)
  case 1
  have "ordersByTransaction st' (transactionKey o2 i2) = Some d \<longleftrightarrow>
      (\<exists>x. orders st' d = Some \<lparr>so_operator = o2, so_identity = i2, so_order = x\<rparr>)" for o2 i2 d
  proof (cases "o2 = operator \<and> i2 = idn")
    case True
    then show ?thesis
      using 1 index_exactD(1) [OF assms(1), of operator idn] by (auto simp: transactionKey_inj)
  next
    case False
    then show ?thesis
      using 1 index_exactD(1) [OF assms(1), of o2 i2] by (auto simp: transactionKey_inj)
  qed
  then show ?thesis using 1 assms(3) index_exactD(2) [OF assms(1)] by (simp add: index_exact_def)
qed

lemma save_credentials:
  assumes "credentials_owned st" and "store_save operator idn oid order st = Inr st'"
    and "list_all (credential_minted operator) minted"
  shows "credentials_owned (savePassCredentials operator idn oid minted st')"
  using assms(2)
proof (cases rule: store_saveE)
  case 1
  have keep: "sold_to st o2 i2 d \<Longrightarrow> sold_to (savePassCredentials operator idn oid minted st') o2 i2 d" for o2 i2 d
    using 1 by (auto simp: sold_to_def savePassCredentials_def)
  have new: "sold_to (savePassCredentials operator idn oid minted st') operator i2 oid"
    if "passKey operator i2 oid = passKey operator idn oid" for i2
    using that 1 by (auto simp: sold_to_def savePassCredentials_def passKey_def)
  show ?thesis
    unfolding credentials_owned_def
  proof (intro allI impI)
    fix o2 i2 d c
    assume c: "c \<in> set (findPassCredentials o2 i2 d (savePassCredentials operator idn oid minted st'))"
    show "sold_to (savePassCredentials operator idn oid minted st') o2 i2 d \<and> credential_minted o2 c"
    proof (cases "minted \<noteq> [] \<and> passKey o2 i2 d = passKey operator idn oid")
      case True
      then have "o2 = operator" "d = oid" "c \<in> set minted"
        using c by (auto simp: passKey_def findPassCredentials_def savePassCredentials_def)
      then show ?thesis using True new assms(3) by (auto simp: list_all_iff)
    next
      case False
      then have "c \<in> set (findPassCredentials o2 i2 d st)"
        using c 1 by (auto simp: findPassCredentials_def savePassCredentials_def split: if_splits option.splits)
      then show ?thesis using assms(1) keep by (auto simp: credentials_owned_def)
    qed
  qed
qed

text \<open>The parts of the store that a reader of the orders sees.\<close>

lemma credentials_no_index [simp]:
  "orders (savePassCredentials operator idn oid ms st) = orders st"
  "ordersByTransaction (savePassCredentials operator idn oid ms st) = ordersByTransaction st"
  by (simp_all add: savePassCredentials_def)

lemma index_exact_cong:
  "orders st' = orders st \<Longrightarrow> ordersByTransaction st' = ordersByTransaction st \<Longrightarrow> index_exact st' = index_exact st"
  by (simp add: index_exact_def)

lemma find_cong:
  "orders st' = orders st \<Longrightarrow> ordersByTransaction st' = ordersByTransaction st \<Longrightarrow>
   findByTransaction o2 i2 st' = findByTransaction o2 i2 st"
  by (simp add: findByTransaction_def Let_def)

lemma save_confirm_ok:
  assumes "store_ok st" and "prepared_ok operator p" and "save_confirm operator idn p st = Inr (confirmed, st')"
  shows "store_ok st'" and "findByTransaction operator idn st = None"
    and "findByTransaction operator idn st' = Some confirmed"
    and "orders st \<subseteq>\<^sub>m orders st'"
    and "ordersByTransaction st' = (ordersByTransaction st)(transactionKey operator idn \<mapsto> pr_orderId p)"
proof -
  obtain st1 where s1: "store_save operator idn (pr_orderId p) (pr_order p) st = Inr st1"
      "st' = savePassCredentials operator idn (pr_orderId p) (pr_minted p) st1" "confirmed = pr_order p"
    using assms(3) by (auto simp: save_confirm_def result_simps)
  have ix: "index_exact st1" using save_index [OF _ s1(1)] assms(1,2) by (auto simp: store_ok_def prepared_ok_def)
  have ix': "index_exact st'" using ix index_exact_cong [of st' st1] s1(2) by simp
  have "ids_shown st'"
    using s1 assms(1,2) by (auto elim!: store_saveE simp: ids_shown_def store_ok_def prepared_ok_def split: if_splits)
  then show "store_ok st'"
    using ix' save_credentials [OF _ s1(1)] assms(1,2) s1(2) by (simp add: store_ok_def prepared_ok_def)
  show "findByTransaction operator idn st = None"
    using s1(1) index_fresh [of st operator idn] assms(1) by (auto elim!: store_saveE simp: store_ok_def)
  show "findByTransaction operator idn st' = Some confirmed"
    using s1 by (intro findByTransaction_iff [OF ix', THEN iffD2] exI [of _ "pr_orderId p"]) (auto elim!: store_saveE)
  show "orders st \<subseteq>\<^sub>m orders st'"
    using s1 by (auto elim!: store_saveE simp: map_le_def)
  show "ordersByTransaction st' = (ordersByTransaction st)(transactionKey operator idn \<mapsto> pr_orderId p)"
    using s1 by (auto elim!: store_saveE)
qed

lemma find_mono:
  assumes "index_exact st" "index_exact st'" "orders st \<subseteq>\<^sub>m orders st'" "findByTransaction o2 i2 st = Some x"
  shows "findByTransaction o2 i2 st' = Some x"
proof -
  obtain oid where "orders st oid = Some \<lparr>so_operator = o2, so_identity = i2, so_order = x\<rparr>"
    using assms(1,4) findByTransaction_iff by blast
  then have "orders st' oid = Some \<lparr>so_operator = o2, so_identity = i2, so_order = x\<rparr>"
    using assms(3) by (metis domIff map_le_def option.distinct(1))
  then show ?thesis using assms(2) findByTransaction_iff by blast
qed

subsection \<open>The invariant of the flow\<close>

lemma cache_offers_no_index [simp]:
  "orders (cache_offers sv context offers st) = orders st"
  "ordersByTransaction (cache_offers sv context offers st) = ordersByTransaction st"
  "passCredentials (cache_offers sv context offers st) = passCredentials st"
  by (simp_all add: cache_offers_def store_cacheCatalogue_def)

lemma store_ok_cong:
  "orders st' = orders st \<Longrightarrow> ordersByTransaction st' = ordersByTransaction st \<Longrightarrow>
   passCredentials st' = passCredentials st \<Longrightarrow> store_ok st' = store_ok st"
  by (simp add: store_ok_def index_exact_def ids_shown_def credentials_owned_def sold_to_def findPassCredentials_def)

lemma searched_inv: "orders_inv s \<Longrightarrow> orders_inv (s\<lparr>of_store := cache_offers sv context offers (of_store s)\<rparr>)"
  using store_ok_cong [of "cache_offers sv context offers (of_store s)" "of_store s"]
    find_cong [of "cache_offers sv context offers (of_store s)" "of_store s"]
  by (simp add: orders_inv_def pending_ok_def)

lemma orders_invD:
  assumes "orders_inv s"
  shows "store_ok (of_store s)" and "index_exact (of_store s)"
    and "confirmations s p = Some pd \<Longrightarrow> pending_ok (of_store s) p pd"
    and "(p, Inr x) \<in> set (answers s) \<Longrightarrow> findByTransaction (fst p) (snd p) (of_store s) = Some x"
  using assms unfolding orders_inv_def store_ok_def by blast+

lemma called_inv:
  assumes "orders_inv s"
  shows "orders_inv (confirm_call sv draws nowMs request s)"
  using assms index_fresh [OF orders_invD(2) [OF assms]]
  by (auto simp: confirm_call_def orders_inv_def pending_ok_def Let_def dest: prepare_ok
      split: sum.splits option.splits)

lemma settle_outcome_cases:
  obtains (refused) e where "settle_outcome p outcome st = (Inl e, st)"
    | (saved) prepared confirmed st' where "outcome = Inr prepared"
        "save_confirm (fst p) (snd p) prepared st = Inr (confirmed, st')"
        "settle_outcome p outcome st = (Inr confirmed, st')"
  by (cases outcome; cases "save_confirm (fst p) (snd p) (projr outcome) st")
    (auto simp: settle_outcome_def split: prod.splits)

lemma settled_inv:
  assumes inv: "orders_inv s"
  shows "orders_inv (confirm_settle p s) \<and> orders (of_store s) \<subseteq>\<^sub>m orders (of_store (confirm_settle p s))"
proof (cases "confirmations s p")
  case None
  then show ?thesis using inv by (simp add: confirm_settle_def)
next
  case (Some pd)
  note pd = orders_invD(3) [OF inv Some]
  show ?thesis
  proof (cases rule: settle_outcome_cases [of p "pd_outcome pd" "of_store s"])
    case (refused e)
    then show ?thesis using inv Some by (auto simp: confirm_settle_def orders_inv_def)
  next
    case (saved prepared confirmed st')
    have ok: "prepared_ok (fst p) prepared" using pd saved(1) by (simp add: pending_ok_def)
    note sv = save_confirm_ok [OF orders_invD(1) [OF inv] ok saved(2)]
    have "index_exact st'" using sv(1) by (simp add: store_ok_def)
    note keep = find_mono [OF orders_invD(2) [OF inv] this sv(4)]
    have "pending_ok st' q qd" if "confirmations s q = Some qd" "q \<noteq> p" for q qd
      using orders_invD(3) [OF inv that(1)] that(2) sv(5) purchase_key_inj [of q p] by (auto simp: pending_ok_def)
    then show ?thesis
      using Some saved(3) sv(1,3,4) keep orders_invD(4) [OF inv]
      by (auto simp: confirm_settle_def orders_inv_def)
  qed
qed

lemma call_keeps_store [simp]: "of_store (confirm_call sv draws nowMs request s) = of_store s"
  by (auto simp: confirm_call_def Let_def split: sum.splits option.splits)

lemma no_orders_inv: "orders_inv no_orders"
  by (simp add: orders_inv_def no_orders_def store_ok_def index_exact_def ids_shown_def credentials_owned_def empty_store_def
      findPassCredentials_def)

definition orders_grow :: "Orders \<Rightarrow> Orders \<Rightarrow> bool" where
  "orders_grow s s' \<longleftrightarrow> orders (of_store s) \<subseteq>\<^sub>m orders (of_store s') \<and> set (answers s) \<subseteq> set (answers s')"

lemma call_answers: "set (answers s) \<subseteq> set (answers (confirm_call sv draws nowMs request s))"
  by (auto simp: confirm_call_def Let_def split: sum.splits option.splits)

lemma settle_answers: "set (answers s) \<subseteq> set (answers (confirm_settle p s))"
  by (auto simp: confirm_settle_def split: option.splits prod.splits)

lemma orders_step_inv: "orders_inv s \<Longrightarrow> order_step s s' \<Longrightarrow> orders_inv s'"
  using settled_inv by (auto intro: searched_inv called_inv)

lemma orders_step_grow: "orders_inv s \<Longrightarrow> order_step s s' \<Longrightarrow> orders_grow s s'"
  unfolding orders_grow_def using settled_inv subsetD [OF call_answers] subsetD [OF settle_answers]
  by (auto simp del: split_paired_All)

interpretation order_flow: monotone_system "\<lambda>s. s = no_orders" order_step orders_inv orders_grow
proof unfold_locales
  show "orders_inv s" if "s = no_orders" for s using that no_orders_inv by simp
  show "orders_inv s'" if "orders_inv s" "order_step s s'" for s s' using that by (rule orders_step_inv)
  show "orders_grow s s" for s by (simp add: orders_grow_def)
  show "orders_grow s u" if "orders_grow s t" "orders_grow t u" for s t u
    using that by (auto simp: orders_grow_def intro: map_le_trans)
  show "orders_grow s s'" if "orders_inv s" "order_step s s'" for s s' using that by (rule orders_step_grow)
qed

end
