(* ===== verification/Trv11_Pricing.thy ===== *)
theory Trv11_Pricing
  imports Trv11_Orders
begin

text \<open>
  Prices and windows of passes, and the totals of orders: the published catalogue, the discount of a
  concession, the validity window on the calendar, and the quotes of pass orders and ticket orders.
\<close>

subsection \<open>The calendar of a window\<close>

lemma makeDay_days: "makeDay y m (d + k) = makeDay y m d + k"
  by (simp add: makeDay_def Let_def)

lemma makeDay_end_of_month:
  assumes "0 \<le> m" "m < 12"
  shows "makeDay y (m + 1) d = makeDay y m d + monthLength (leapYear y) m"
proof (cases "m = 11")
  case True
  then show ?thesis
    by (simp add: makeDay_def monthLength_def dayFromYear_Suc daysInYear_leap)
next
  case False
  then have "m div 12 = 0" "m mod 12 = m" "(m + 1) div 12 = 0" "(m + 1) mod 12 = m + 1" using assms by auto
  then show ?thesis by (simp add: makeDay_def monthLength_def)
qed

lemma makeDay_carry: "makeDay (y + (m div 12)) (m mod 12) d = makeDay y m d"
  by (simp add: makeDay_def)

lemma daysInMonth_length:
  assumes "0 \<le> m" "m < 12" "100 \<le> y"
  shows "daysInMonth y m = monthLength (leapYear y) m"
proof -
  let ?l = "monthLength (leapYear y) m"
  have "makeDay y (m + 1) 0 = makeDay y m ?l"
    using makeDay_end_of_month [OF assms(1,2), of y 0] makeDay_days [of y m 0 ?l] by simp
  then show ?thesis
    using civil_roundtrip(3) [OF assms(1,2), of ?l y 0] monthLength_bounds [OF assms(1,2), of "leapYear y"] assms(3)
    by (simp add: daysInMonth_def dateUTC_def msPerDay_def)
qed

lemma year_after_epoch:
  assumes "0 \<le> t"
  shows "1970 \<le> getUTCFullYear t"
proof (rule ccontr)
  assume "\<not> 1970 \<le> getUTCFullYear t"
  then have "yearOfDay (dayOf t) + 1 \<le> 1970" by (simp add: getUTCFullYear_def)
  then have "dayFromYear (yearOfDay (dayOf t) + 1) \<le> dayFromYear 1970" by (rule dayFromYear_mono)
  moreover have "dayFromYear 1970 = 0" by (simp add: dayFromYear_def)
  moreover have "0 \<le> dayOf t" using assms by (simp add: dayOf_def msPerDay_def pos_imp_zdiv_nonneg_iff)
  ultimately show False using yearOfDay_bounds(2) [of "dayOf t"] by linarith
qed

definition window_days :: "PassWindow \<Rightarrow> int set" where
  "window_days w = (case w of DAY \<Rightarrow> {1} | WEEKLY \<Rightarrow> {7} | MONTHLY \<Rightarrow> {28..31})"

text \<open>The two midnights of a window, as days of the Indian calendar.\<close>

lemma window_midnights:
  assumes "0 \<le> t"
  obtains start n where
    "pw_validFromMs (passValidityWindow t w) = start * msPerDay - INDIA_OFFSET"
    "pw_validToMs (passValidityWindow t w) = (start + n) * msPerDay - INDIA_OFFSET"
    "n \<in> window_days w" "start * msPerDay \<le> t + INDIA_OFFSET" "t + INDIA_OFFSET < (start + 1) * msPerDay"
proof -
  define s where "s = t + INDIA_OFFSET"
  define y m d where "y = getUTCFullYear s" and "m = getUTCMonth s" and "d = getUTCDate s"
  have s0: "0 \<le> s" using assms by (simp add: s_def INDIA_OFFSET_def)
  have y: "1970 \<le> y" using year_after_epoch [OF s0] by (simp add: y_def)
  have m: "0 \<le> m" "m < 12" and d: "1 \<le> d" "d \<le> monthLength (leapYear y) m"
    using civil_ranges [of s] by (simp_all add: y_def m_def d_def)
  have day: "istCalendarDay t = (y, m, d)"
    by (simp add: istCalendarDay_def s_def y_def m_def d_def Let_def)
  have mid: "istMidnightMilliseconds y' m' d' = makeDay y' m' d' * msPerDay - INDIA_OFFSET" if "1970 \<le> y'" for y' m' d'
    using that by (simp add: istMidnightMilliseconds_def dateUTC_def)
  define ty where "ty = (if m = 11 then y + 1 else y)"
  define tm where "tm = (m + 1) mod 12"
  have ty: "1970 \<le> ty" using y by (simp add: ty_def)
  have tm: "0 \<le> tm" "tm < 12" by (simp_all add: tm_def)
  have later: "makeDay ty tm d' = makeDay y m d' + monthLength (leapYear y) m" for d'
  proof -
    have "ty = y + (m + 1) div 12" using m by (auto simp: ty_def)
    then show ?thesis using makeDay_carry [of y "m + 1" d'] makeDay_end_of_month [OF m, of y d'] by (simp add: tm_def)
  qed
  have len: "daysInMonth ty tm = monthLength (leapYear ty) tm" using daysInMonth_length [OF tm] ty by simp
  have b: "28 \<le> monthLength (leapYear y) m" "monthLength (leapYear y) m \<le> 31" "28 \<le> monthLength (leapYear ty) tm"
    using monthLength_bounds [OF m] monthLength_bounds [OF tm] by auto
  define n where "n = (case w of DAY \<Rightarrow> 1 | WEEKLY \<Rightarrow> 7 | MONTHLY \<Rightarrow>
    if d \<le> daysInMonth ty tm then monthLength (leapYear y) m
    else monthLength (leapYear y) m + monthLength (leapYear ty) tm + 1 - d)"
  have first: "makeDay ty (tm + 1) 1 = makeDay y m d + (monthLength (leapYear y) m + monthLength (leapYear ty) tm + 1 - d)"
    using makeDay_end_of_month [OF tm, of ty 1] later [of 1] makeDay_days [of y m d "1 - d"] by simp
  show thesis
  proof
    show "pw_validFromMs (passValidityWindow t w) = makeDay y m d * msPerDay - INDIA_OFFSET"
      by (simp add: passValidityWindow_def day mid y Let_def)
    show "pw_validToMs (passValidityWindow t w) = (makeDay y m d + n) * msPerDay - INDIA_OFFSET"
      by (cases w) (simp_all add: passValidityWindow_def day mid y ty Let_def n_def makeDay_days later first
          flip: ty_def tm_def)
    show "n \<in> window_days w"
      using b d(2) len by (cases w) (auto simp: n_def window_days_def)
    show "makeDay y m d * msPerDay \<le> t + INDIA_OFFSET" "t + INDIA_OFFSET < (makeDay y m d + 1) * msPerDay"
      using civil_inverse [of s] by (simp_all add: s_def y_def m_def d_def distrib_right)
  qed
qed

lemma window_shape:
  assumes "0 \<le> t"
  shows "pw_validFromMs (passValidityWindow t w) \<le> t" "t < pw_validToMs (passValidityWindow t w)"
    "(pw_validFromMs (passValidityWindow t w) + INDIA_OFFSET) mod msPerDay = 0"
    "\<exists>n \<in> window_days w. pw_validToMs (passValidityWindow t w) = pw_validFromMs (passValidityWindow t w) + n * msPerDay"
proof -
  obtain start n where w: "pw_validFromMs (passValidityWindow t w) = start * msPerDay - INDIA_OFFSET"
      "pw_validToMs (passValidityWindow t w) = (start + n) * msPerDay - INDIA_OFFSET"
      "n \<in> window_days w" "start * msPerDay \<le> t + INDIA_OFFSET" "t + INDIA_OFFSET < (start + 1) * msPerDay"
    by (rule window_midnights [OF assms])
  have "1 \<le> n" using w(3) by (auto simp: window_days_def split: PassWindow.splits)
  then have "(start + 1) * msPerDay \<le> (start + n) * msPerDay" by (intro mult_right_mono) (auto simp: msPerDay_def)
  then show "t < pw_validToMs (passValidityWindow t w)" using w(2,5) by linarith
  show "pw_validFromMs (passValidityWindow t w) \<le> t" "(pw_validFromMs (passValidityWindow t w) + INDIA_OFFSET) mod msPerDay = 0"
    "\<exists>n \<in> window_days w. pw_validToMs (passValidityWindow t w) = pw_validFromMs (passValidityWindow t w) + n * msPerDay"
    using w by (auto simp: distrib_right intro!: bexI [of _ n])
qed

subsection \<open>Concession prices\<close>

definition concession_price :: "ConcessionClass option \<Rightarrow> PassCatalogueItem \<Rightarrow> int" where
  "concession_price concession item =
     (case concession of None \<Rightarrow> pi_pricePaise item
      | Some c \<Rightarrow> (pi_pricePaise item * (100 - passConcessionRatePercent item c) + 50) div 100)"

lemma math_round_div100:
  assumes "0 \<le> n" "n < 100 * 2 ^ 46"
  shows "math_round (div100 n) = (n + 50) div 100"
proof (cases "n mod 100 < 50")
  case True
  then show ?thesis
    using div100_bounds(1,2) [OF assms] unfolding math_round_def half_up_div
    by (intro floor_unique) auto
next
  case False
  then show ?thesis
    using div100_bounds(3,4) [OF assms] unfolding math_round_def half_up_div
    by (intro floor_unique) auto
qed

lemma catalogue_checked:
  "list_all (\<lambda>item. 0 < pi_pricePaise item \<and> pi_pricePaise item \<le> 427500
     \<and> pi_seniorDiscountPercent item \<in> {10, 25} \<and> pi_studentDiscountPercent item = 33) PASS_CATALOGUE"
  by code_simp

lemma catalogue_item:
  assumes "item \<in> set (passCatalogueFor operator)"
  shows "0 < pi_pricePaise item" "pi_pricePaise item \<le> 427500"
    "0 < passConcessionRatePercent item c" "passConcessionRatePercent item c < 100"
  using assms catalogue_checked
  by (auto simp: list_all_iff passCatalogueFor_def passConcessionRatePercent_def)

lemma discount_exact:
  assumes "item \<in> set (passCatalogueFor operator)"
  shows "pi_pricePaise item - passConcessionDiscountPaise (pi_pricePaise item) (passConcessionRatePercent item c)
      = concession_price (Some c) item"
    and "0 \<le> concession_price cs item" "concession_price cs item \<le> pi_pricePaise item"
proof -
  note i = catalogue_item [OF assms]
  have b: "0 \<le> pi_pricePaise item * (100 - passConcessionRatePercent item c)"
      "pi_pricePaise item * (100 - passConcessionRatePercent item c) \<le> pi_pricePaise item * 100" for c
    using i by (auto intro!: mult_nonneg_nonneg mult_left_mono simp: less_imp_le)
  have "pi_pricePaise item * (100 - passConcessionRatePercent item c) < 100 * 2 ^ 46" using b(2) [of c] i(2) by simp
  then show "pi_pricePaise item - passConcessionDiscountPaise (pi_pricePaise item) (passConcessionRatePercent item c)
      = concession_price (Some c) item"
    using math_round_div100 [OF b(1)] by (simp add: passConcessionDiscountPaise_def concession_price_def)
  show "0 \<le> concession_price cs item"
    using b(1) i by (auto simp: concession_price_def pos_imp_zdiv_nonneg_iff split: option.splits intro: less_imp_le)
  have "(pi_pricePaise item * (100 - passConcessionRatePercent item c) + 50) div 100 \<le> (pi_pricePaise item * 100 + 50) div 100" for c
    by (rule zdiv_mono1) (use b(2) [of c] in auto)
  then show "concession_price cs item \<le> pi_pricePaise item"
    by (auto simp: concession_price_def split: option.splits)
qed

subsection \<open>Quotes\<close>

definition quote_value :: "json \<Rightarrow> json option" where
  "quote_value order = (case field order ''quote'' of None \<Rightarrow> None | Some q \<Rightarrow> field2 q ''price'' ''value'')"

lemma quote_of_order_json [simp]:
  "quote_value (order_json sv hours lines totalPrice extra tags) = Some (JStr totalPrice)"
  by (simp add: quote_value_def order_json_def field2_def rupee_price_def)

lemma pass_lines_total:
  assumes "pass_lines sv ts concession k b items = Inr lines"
  shows "\<exists>its. list_all2 (\<lambda>i item. passItemById (sv_operatorKey sv) (si_id i) = Some item) items its
    \<and> sum_of ol_paise lines - sum_of ol_discount lines
       = sum_list (map2 (\<lambda>i item. concession_price concession item * int (item_count i)) items its)"
  using assms
proof (induction items arbitrary: k b lines)
  case Nil
  then show ?case by (auto simp: sum_of_def)
next
  case (Cons i items)
  then obtain line rest item where l: "pass_line sv ts concession k b i = Inr line"
      "pass_lines sv ts concession (k + item_count i) (b + ol_paise line) items = Inr rest" "lines = line # rest"
      "passItemById (sv_operatorKey sv) (si_id i) = Some item"
    by (auto simp: result_simps pass_line_def split: option.splits)
  obtain its where its: "list_all2 (\<lambda>i item. passItemById (sv_operatorKey sv) (si_id i) = Some item) items its"
      "sum_of ol_paise rest - sum_of ol_discount rest
       = sum_list (map2 (\<lambda>i item. concession_price concession item * int (item_count i)) items its)"
    using Cons.IH [OF l(2)] by blast
  have item: "item \<in> set (passCatalogueFor (sv_operatorKey sv))"
    using l(4) by (auto simp: passItemById_def PASS_BY_ID_def passCatalogueFor_def split: option.splits if_splits dest: find_SomeD)
  have "ol_paise line - ol_discount line = concession_price concession item * int (item_count i)"
  proof (cases concession)
    case None
    then show ?thesis
      using l(1,4) by (auto simp: pass_line_def Let_def result_simps concession_price_def split: if_splits)
  next
    case (Some c)
    have "concession_price (Some c) item = pi_pricePaise item
        - passConcessionDiscountPaise (pi_pricePaise item) (passConcessionRatePercent item c)"
      using discount_exact(1) [OF item] by simp
    then show ?thesis
      using l(1,4) Some by (auto simp: pass_line_def Let_def result_simps left_diff_distrib split: if_splits)
  qed
  then show ?case
    using l its by (intro exI [of _ "item # its"]) (simp add: sum_of_def)
qed

lemma pass_base_quote:
  assumes "passBaseOrder sv nowMs context input = Inr base"
  shows "\<exists>concession its v. concessionFromTags (oi_tags input) = Inr concession
    \<and> list_all2 (\<lambda>i item. passItemById (sv_operatorKey sv) (si_id i) = Some item) (oi_items input) its
    \<and> quote_value (bo_order base) = Some (JStr v)
    \<and> fareToRupees (sum_list (map2 (\<lambda>i item. concession_price concession item * int (item_count i)) (oi_items input) its)) = Inr v"
proof -
  obtain concession lines extra hours v tags where b: "concessionFromTags (oi_tags input) = Inr concession"
      "pass_lines sv (toISOString nowMs) concession 0 0 (oi_items input) = Inr lines"
      "fareToRupees (sum_of ol_paise lines - sum_of ol_discount lines) = Inr v"
      "bo_order base = order_json sv hours lines v extra tags"
    using assms by (auto simp: passBaseOrder_def base_of_def Let_def result_simps simp del: append_assoc split: if_splits)
  then show ?thesis using pass_lines_total [OF b(2)] by auto
qed

lemma ticket_lines_total:
  "ticket_lines sv ts k t pairs = Inr lines \<Longrightarrow>
   sum_of ol_paise lines = sum_list (map (\<lambda>(i, offer). of_farePaise offer * int (item_count i)) pairs)"
proof (induction pairs arbitrary: k t lines)
  case (Cons p pairs)
  then show ?case
    by (cases p) (auto simp: sum_of_def result_simps ticket_line_def Let_def split: if_splits)
qed (simp add: sum_of_def)

lemma ticket_base_quote:
  assumes "ticketBaseOrder sv nowMs st context input = Inr base"
  shows "\<exists>catalogue v. catalogues st (transactionKey (sv_operatorKey sv) (identity_of context)) = Some catalogue
    \<and> map catalogue (map si_id (oi_items input)) = map Some (bo_offers base)
    \<and> quote_value (bo_order base) = Some (JStr v)
    \<and> fareToRupees (sum_list (map (\<lambda>(i, offer). of_farePaise offer * int (item_count i)) (zip (oi_items input) (bo_offers base)))) = Inr v"
proof -
  obtain offers lines hours v where b:
      "selectedOffers (sv_operatorKey sv) (identity_of context) (map si_id (oi_items input)) st = Inr offers"
      "ticket_lines sv (toISOString nowMs) 0 0 (zip (oi_items input) offers) = Inr lines"
      "fareToRupees (sum_of ol_paise lines) = Inr v" "bo_offers base = offers"
      "bo_order base = order_json sv hours lines v [] specimenOrderTags"
    using assms by (auto simp: ticketBaseOrder_def base_of_def result_simps)
  obtain catalogue where c: "catalogues st (transactionKey (sv_operatorKey sv) (identity_of context)) = Some catalogue"
    using b(1) by (auto simp: selectedOffers_def split: option.splits)
  have "list_all2 (\<lambda>i offer. catalogue i = Some offer) (map si_id (oi_items input)) offers"
    using b(1) c by (auto simp: selectedOffers_def traverse_ok elim!: list_all2_mono split: option.splits)
  then have "map catalogue (map si_id (oi_items input)) = map Some offers"
    by (induction rule: list_all2_induct) auto
  then show ?thesis using b c ticket_lines_total [OF b(2)] by auto
qed

lemma base_of_passes:
  assumes "baseOrder sv nowMs st context input = Inr base" and "i \<in> set (oi_items input)"
  shows "if isPassItemId (si_id i) then passBaseOrder sv nowMs context input = Inr base
    else ticketBaseOrder sv nowMs st context input = Inr base"
proof -
  define ids where "ids = map si_id (oi_items input)"
  have i: "si_id i \<in> set ids" using assms(2) by (simp add: ids_def)
  have branches: "if filter isPassItemId ids = [] then ticketBaseOrder sv nowMs st context input = Inr base
      else length (filter isPassItemId ids) = length ids \<and> passBaseOrder sv nowMs context input = Inr base"
    using assms(1) by (auto simp: baseOrder_def ids_def filter_map Let_def result_simps split: if_splits)
  show ?thesis
  proof (cases "filter isPassItemId ids = []")
    case True
    then show ?thesis using branches i by (auto simp: filter_empty_conv)
  next
    case False
    then have "filter isPassItemId ids = ids" using branches length_filter_less [of _ ids isPassItemId]
      by (metis filter_True less_irrefl)
    then have "isPassItemId (si_id i)" using i by (metis mem_Collect_eq set_filter)
    then show ?thesis using branches False by simp
  qed
qed

end
