(* ===== verification/Trv11_Specimen.thy ===== *)
theory Trv11_Specimen
  imports Trv11_Pricing Totp_Properties
begin

text \<open>
  Concrete requests of the single-journey category, for the witnesses: a day pass bought on the bus
  operator, a ride settled by it, and a concession pass of the third operator.
\<close>

definition a_context :: "string \<Rightarrow> Trv11Context" where
  "a_context transaction = \<lparr>cx_domain = ''ONDC:TRV11'', cx_location = JNull, cx_city = ''std:080'', cx_action = ''confirm'',
     cx_version = ''2.0.1'', cx_bap_id = ''bap'', cx_bap_uri = ''https://bap'', cx_bpp_id = Some ''bpp'',
     cx_bpp_uri = Some ''https://bpp'', cx_transaction_id = transaction, cx_message_id = ''m'', cx_timestamp = ''now'',
     cx_ttl = ''PT30S''\<rparr>"

definition a_service :: "PassOperatorKey \<Rightarrow> Service" where
  "a_service operator = \<lparr>sv_operatorKey = operator,
     sv_profile = \<lparr>op_id = ''P1'', op_name = ''Operator'', op_vehicleCategory = BUS_VEHICLE,
                   op_startHHMM = ''05:00'', op_endHHMM = ''23:00''\<rparr>,
     sv_runtime = \<lparr>rt_subscriberId = ''bpp'', rt_subscriberUri = ''https://bpp''\<rparr>, sv_publicBaseUrl = ''https://bpp'',
     sv_host = \<lparr>host_date_parse = (\<lambda>_. Some 0), host_show_num = (\<lambda>_. ''0'')\<rparr>, sv_qr = (\<lambda>p. p), sv_hmac = echo_hmac\<rparr>"

definition an_order :: "string \<Rightarrow> string \<Rightarrow> (string \<times> json) list \<Rightarrow> json option \<Rightarrow> OrderRequest" where
  "an_order transaction itemId payment tags = \<lparr>rq_context = a_context transaction,
     rq_order = \<lparr>oi_items = [\<lparr>si_id = itemId, si_count = 1\<rparr>], oi_provider_id = ''P1'', oi_billing = JNull,
                 oi_payments = [payment], oi_tags = tags\<rparr>\<rparr>"

lemma an_order_simps [simp]:
  "rq_context (an_order t i p g) = a_context t"
  "oi_items (rq_order (an_order t i p g)) = [\<lparr>si_id = i, si_count = 1\<rparr>]"
  "oi_provider_id (rq_order (an_order t i p g)) = ''P1''" "oi_billing (rq_order (an_order t i p g)) = JNull"
  "oi_payments (rq_order (an_order t i p g)) = [p]" "oi_tags (rq_order (an_order t i p g)) = g"
  by (simp_all add: an_order_def)

lemma a_context_simps [simp]:
  "cx_transaction_id (a_context t) = t" "cx_bap_id (a_context t) = ''bap''" "cx_bap_uri (a_context t) = ''https://bap''"
  "cx_bpp_id (a_context t) = Some ''bpp''" "cx_bpp_uri (a_context t) = Some ''https://bpp''" "cx_timestamp (a_context t) = ''now''"
  by (simp_all add: a_context_def)

lemma a_service_simps [simp]:
  "sv_operatorKey (a_service op) = op" "op_id (sv_profile (a_service op)) = ''P1''"
  "op_vehicleCategory (sv_profile (a_service op)) = BUS_VEHICLE"
  "sv_hmac (a_service op) = echo_hmac" "sv_qr (a_service op) = (\<lambda>p. p)"
  by (simp_all add: a_service_def)

definition day_pass :: PassCatalogueItem where
  "day_pass = \<lparr>pi_id = ''PASS-DAY-ORDINARY_BUS'', pi_operator = Bmtc, pi_window = DAY, pi_scope = Tier ORDINARY_BUS,
     pi_duration = ''P1D'', pi_name = ''Ordinary bus day pass'', pi_pricePaise = 7500, pi_seniorDiscountPercent = 25,
     pi_studentDiscountPercent = 33\<rparr>"

definition sarige_pass :: PassCatalogueItem where
  "sarige_pass = \<lparr>pi_id = ''PASS-DAY-KSRTC_SARIGE'', pi_operator = Ksrtc, pi_window = DAY, pi_scope = KSRTC_SARIGE,
     pi_duration = ''P1D'', pi_name = ''Karnataka Sarige day pass'', pi_pricePaise = 23750, pi_seniorDiscountPercent = 25,
     pi_studentDiscountPercent = 33\<rparr>"

definition an_offer :: TransitOffer where
  "an_offer = \<lparr>of_offerId = ''O1'', of_productCode = ''SJT'', of_productName = ''Single'', of_farePaise = 2500,
     of_serviceTier = None, of_validity = ''P1D'', of_route = [], of_routeId = ''R'', of_routeName = ''N'', of_routeColor = None\<rparr>"

lemma specimen_items:
  "passItemById Bmtc ''PASS-DAY-ORDINARY_BUS'' = Some day_pass" "isPassItemId ''PASS-DAY-ORDINARY_BUS''"
  "passItemById Ksrtc ''PASS-DAY-KSRTC_SARIGE'' = Some sarige_pass" "isPassItemId ''PASS-DAY-KSRTC_SARIGE''"
  "\<not> isPassItemId ''O1''"
  by code_simp+

lemma specimen_rupees:
  "fareToRupees 7500 = Inr ''75''" "fareToRupees 23750 = Inr ''237.50''" "fareToRupees 17813 = Inr ''178.13''"
  "fareToRupees 2500 = Inr ''25''" "signedFareToRupees (- 5937) = Inr ''-59.37''"
  by code_simp+

lemma digits10_one: "digits10 (Suc 0) = ''1''"
  by code_simp

lemma specimen_hours:
  "\<exists>hours. service_range (host_date_parse (sv_host (a_service op))) ''now'' (sv_profile (a_service op)) = Inr hours"
proof -
  have "HHMM ''05:00''" "HHMM ''23:00''" by code_simp+
  then show ?thesis
    by (simp add: service_range_def serviceInstant_def a_service_def INDIA_OFFSET_def)
qed

lemma specimen_address: "assertTransitAddress (a_service op) (a_context t) = Inr ()"
  by (simp add: assertTransitAddress_def a_service_def)

lemmas specimen_order = specimen_address specimen_items specimen_rupees count_ok_def isInteger_def
  base_of_def sum_of_def concession_line_def item_count_def isSafeInteger_def MAX_SAFE_INTEGER_def
  digits10_one unit_ids_def unit_id_def fulfillmentIdForOffer_def upt_rec

subsection \<open>Orders of passes\<close>

lemma specimen_line:
  "\<exists>line. pass_line (a_service Bmtc) ts None 0 0 \<lparr>si_id = ''PASS-DAY-ORDINARY_BUS'', si_count = 1\<rparr> = Inr line
   \<and> ol_passes line = [\<lparr>ps_id = ''T-PASS-DAY-ORDINARY_BUS-1'', ps_parentId = ''F-PASS-DAY-ORDINARY_BUS'',
        ps_sequence = 1, ps_item = day_pass\<rparr>]
   \<and> ol_tickets line = [] \<and> ol_paise line = 7500 \<and> ol_discount line = 0
   \<and> ol_fulfillments line = [passFulfillment day_pass, ticket_fulfillment ''F-PASS-DAY-ORDINARY_BUS'' ''T-PASS-DAY-ORDINARY_BUS-1'']"
proof -
  have "pi_id day_pass = ''PASS-DAY-ORDINARY_BUS''" "pi_pricePaise day_pass = 7500" by (simp_all add: day_pass_def)
  then show ?thesis by (simp add: pass_line_def specimen_order Let_def)
qed

lemma specimen_fulfillment_ids:
  "fulfillment_id (passFulfillment day_pass) = ''F-PASS-DAY-ORDINARY_BUS''"
  "fulfillment_id (ticket_fulfillment p t) = t"
  by (simp_all add: fulfillment_id_def passFulfillment_def ticket_fulfillment_def day_pass_def fulfillmentIdForOffer_def)

lemma specimen_base:
  "\<exists>base. baseOrder (a_service Bmtc) nowMs st (a_context t) (rq_order (an_order t ''PASS-DAY-ORDINARY_BUS'' p None)) = Inr base
   \<and> bo_passCredentials base = [\<lparr>ps_id = ''T-PASS-DAY-ORDINARY_BUS-1'', ps_parentId = ''F-PASS-DAY-ORDINARY_BUS'',
        ps_sequence = 1, ps_item = day_pass\<rparr>]
   \<and> bo_tickets base = []
   \<and> bo_fulfillments base = [passFulfillment day_pass, ticket_fulfillment ''F-PASS-DAY-ORDINARY_BUS'' ''T-PASS-DAY-ORDINARY_BUS-1'']"
proof -
  obtain line where "pass_line (a_service Bmtc) (toISOString nowMs) None 0 0 \<lparr>si_id = ''PASS-DAY-ORDINARY_BUS'', si_count = 1\<rparr> = Inr line"
      "ol_passes line = [\<lparr>ps_id = ''T-PASS-DAY-ORDINARY_BUS-1'', ps_parentId = ''F-PASS-DAY-ORDINARY_BUS'',
        ps_sequence = 1, ps_item = day_pass\<rparr>]"
      "ol_tickets line = []" "ol_paise line = 7500" "ol_discount line = 0"
      "ol_fulfillments line = [passFulfillment day_pass, ticket_fulfillment ''F-PASS-DAY-ORDINARY_BUS'' ''T-PASS-DAY-ORDINARY_BUS-1'']"
    using specimen_line by blast
  moreover obtain hours where "service_range (host_date_parse (sv_host (a_service Bmtc))) ''now'' (sv_profile (a_service Bmtc)) = Inr hours"
    using specimen_hours by blast
  ultimately show ?thesis
    by (auto simp: baseOrder_def specimen_address specimen_items specimen_rupees count_ok_def isInteger_def
        passBaseOrder_def concession_line_def sum_of_def base_of_def)
qed

definition the_draws :: Draws where
  "the_draws = \<lparr>dr_id = ''x'', dr_secrets = (\<lambda>_ _. replicate 20 0)\<rparr>"

definition paid :: "(string \<times> json) list" where
  "paid = [(''status'', JStr ''PAID'')]"

definition pass_order :: "string \<Rightarrow> OrderRequest" where
  "pass_order t = an_order t ''PASS-DAY-ORDINARY_BUS'' paid None"

definition pass_order_id :: string where
  "pass_order_id = ''SPECIMEN-ORD-BMTC-X''"

lemma specimen_order_id: "order_id_of (a_service Bmtc) (dr_id the_draws) = Inr pass_order_id"
  by code_simp

text \<open>The credential of the specimen pass, issued at an instant.\<close>

definition specimen_credential :: "int \<Rightarrow> PassCredentialRecord" where
  "specimen_credential t = \<lparr>cr_fulfillmentId = ''T-PASS-DAY-ORDINARY_BUS-1'', cr_itemId = ''PASS-DAY-ORDINARY_BUS'',
     cr_scope = Tier ORDINARY_BUS, cr_validFromMs = pw_validFromMs (passValidityWindow t DAY),
     cr_validToMs = pw_validToMs (passValidityWindow t DAY), cr_secretBase32 = encodeBase32 (replicate 20 0),
     cr_algorithm = tp_algorithm TOTP_PARAMETERS, cr_digits = tp_digits TOTP_PARAMETERS,
     cr_periodSeconds = tp_periodSeconds TOTP_PARAMETERS\<rparr>"

lemma specimen_prepared:
  "\<exists>order. prepare_confirm (a_service Bmtc) the_draws nowMs (pass_order t) idn st =
     Inr \<lparr>pr_orderId = pass_order_id, pr_order = order, pr_minted = [specimen_credential nowMs]\<rparr>"
proof -
  obtain base where b: "baseOrder (a_service Bmtc) nowMs st (rq_context (pass_order t)) (rq_order (pass_order t)) = Inr base"
      "bo_passCredentials base = [\<lparr>ps_id = ''T-PASS-DAY-ORDINARY_BUS-1'', ps_parentId = ''F-PASS-DAY-ORDINARY_BUS'',
        ps_sequence = 1, ps_item = day_pass\<rparr>]"
      "bo_tickets base = []"
      "bo_fulfillments base = [passFulfillment day_pass, ticket_fulfillment ''F-PASS-DAY-ORDINARY_BUS'' ''T-PASS-DAY-ORDINARY_BUS-1'']"
    using specimen_base [of nowMs st t paid] by (auto simp: pass_order_def)
  have "passSettlementClaim (oi_payments (rq_order (pass_order t))) = Inr None"
    by (simp add: pass_order_def paid_def passSettlementClaim_def settlement_groups_def)
  then show ?thesis
    using b(1) specimen_order_id
    by (simp add: prepare_confirm_def checkPassSettlement_def b(2-) specimen_fulfillment_ids mintPassCredential_def
        mintPassSecret_def TOTP_SECRET_BYTES_def isSafe_def Let_def the_draws_def specimen_credential_def)
      (simp add: day_pass_def)
qed

subsection \<open>A ride, and a concession\<close>

definition senior_tags :: "json option" where
  "senior_tags = Some (JArr [group_of ''CONCESSION'' None [entry_of ''CLASS'' ''senior'']])"

lemma senior_read: "concessionFromTags senior_tags = Inr (Some SENIOR)"
  by code_simp

lemma specimen_concession_select:
  "\<exists>order. trv11_select (a_service Ksrtc) nowMs st (an_order t ''PASS-DAY-KSRTC_SARIGE'' p senior_tags) = Inr order"
proof -
  have price: "pi_id sarige_pass = ''PASS-DAY-KSRTC_SARIGE''" "pi_pricePaise sarige_pass = 23750"
    by (simp_all add: sarige_pass_def)
  have discount: "passConcessionDiscountPaise 23750 (passConcessionRatePercent sarige_pass SENIOR) = 5937" by code_simp
  obtain line where "pass_line (a_service Ksrtc) (toISOString nowMs) (Some SENIOR) 0 0 \<lparr>si_id = ''PASS-DAY-KSRTC_SARIGE'', si_count = 1\<rparr> = Inr line"
      "ol_paise line = 23750" "ol_discount line = 5937"
    using price discount by (simp add: pass_line_def specimen_order Let_def)
  moreover obtain hours where "service_range (host_date_parse (sv_host (a_service Ksrtc))) ''now'' (sv_profile (a_service Ksrtc)) = Inr hours"
    using specimen_hours by blast
  ultimately show ?thesis
    by (simp add: trv11_select_def baseOrder_def specimen_address specimen_items specimen_rupees count_ok_def isInteger_def
        passBaseOrder_def concession_line_def sum_of_def senior_read)
qed

definition settled_payment :: "string \<Rightarrow> (string \<times> json) list" where
  "settled_payment code = [(''status'', JStr ''PAID''),
     (''tags'', JArr [group_of ''PASS_SETTLEMENT'' None
        [entry_of ''PASS_ORDER_ID'' pass_order_id, entry_of ''PASS_CODE'' code]])]"

definition the_claim :: PassSettlementClaim where
  "the_claim = \<lparr>cl_passOrderId = pass_order_id, cl_passCode = ''000000''\<rparr>"

lemma specimen_claim: "passSettlementClaim [settled_payment ''000000''] = Inr (Some the_claim)"
  by code_simp

definition ride_order :: OrderRequest where
  "ride_order = an_order ''t2'' ''O1'' (settled_payment ''000000'') None"

text \<open>The store after the search of the ride.\<close>

lemma specimen_ride_base:
  assumes "catalogues st (transactionKey Bmtc (identity_of (a_context t))) = Some [''O1'' \<mapsto> an_offer]"
  shows "\<exists>base. baseOrder (a_service Bmtc) nowMs st (a_context t) (rq_order (an_order t ''O1'' p None)) = Inr base
    \<and> bo_offers base = [an_offer] \<and> bo_passCredentials base = []"
proof -
  have offer: "of_offerId an_offer = ''O1''" "of_farePaise an_offer = 2500" by (simp_all add: an_offer_def)
  obtain line where "ticket_line (a_service Bmtc) (toISOString nowMs) 0 0 \<lparr>si_id = ''O1'', si_count = 1\<rparr> an_offer = Inr line"
      "ol_paise line = 2500" "ol_passes line = []"
    using offer by (simp add: ticket_line_def specimen_order Let_def)
  moreover obtain hours where "service_range (host_date_parse (sv_host (a_service Bmtc))) ''now'' (sv_profile (a_service Bmtc)) = Inr hours"
    using specimen_hours by blast
  moreover have "selectedOffers Bmtc (identity_of (a_context t)) [''O1''] st = Inr [an_offer]"
    using assms by (simp add: selectedOffers_def)
  ultimately show ?thesis
    by (simp add: baseOrder_def specimen_address specimen_items specimen_rupees count_ok_def isInteger_def
        ticketBaseOrder_def sum_of_def base_of_def)
qed

text \<open>The code is checked against the credential of the pass in the minute it was sold.\<close>

lemma specimen_window: "in_window 59000 (specimen_credential 59000)"
  using window_shape(1,2) [of 59000 DAY] by (simp add: in_window_def specimen_credential_def)

lemma specimen_codes:
  assumes "t \<in> {29000, 59000, 89000}"
  shows "totpCode echo_hmac (encodeBase32 (replicate 20 0)) t TOTP_PARAMETERS = Inr ''000000''"
proof -
  have zeros: "padStart 6 (CHR ''0'') (digits10 0) = ''000000''" by code_simp
  have hash: "truncated (echo_hmac k (counter_bytes 0)) = 0" "truncated (echo_hmac k (counter_bytes 1)) = 0"
      "truncated (echo_hmac k (counter_bytes 2)) = 0" for k
    by code_simp+
  show ?thesis
    using assms
    by (auto simp: totpCode_def Let_def totp_counter_def hmacName_def base32_roundtrip zeros hash isSafe_def
        TOTP_PARAMETERS_def TOTP_ALGORITHM_def TOTP_DIGITS_def TOTP_PERIOD_SECONDS_def)
qed

lemma specimen_settlement:
  "assertPassSettlement echo_hmac the_claim [specimen_credential 59000] [ORDINARY_BUS] 59000 = Inr (specimen_credential 59000)"
proof -
  have steps: "[- 1..1] = [- 1, 0, 1 :: int]" by (simp add: upto.simps)
  have par: "tp_periodSeconds TOTP_PARAMETERS = 30" "tp_digits TOTP_PARAMETERS = 6"
    by (simp_all add: TOTP_PARAMETERS_def TOTP_PERIOD_SECONDS_def TOTP_DIGITS_def)
  have cred: "credential_parameters (specimen_credential 59000) = TOTP_PARAMETERS"
      "cr_secretBase32 (specimen_credential 59000) = encodeBase32 (replicate 20 0)"
      "covering [ORDINARY_BUS] (specimen_credential 59000)"
    by (simp_all add: credential_parameters_def specimen_credential_def covering_def passCovers_def)
  have "verifyTotpCode echo_hmac (encodeBase32 (replicate 20 0)) ''000000'' 59000 TOTP_PARAMETERS TOTP_STEP_DRIFT = Inr True"
    by (simp add: verifyTotpCode_def steps par specimen_codes is_digit_def TOTP_STEP_DRIFT_def)
  then show ?thesis
    by (simp add: assertPassSettlement_def cred specimen_window the_claim_def)
qed

end
