(* ===== verification/Trv11_Properties.thy ===== *)
theory Trv11_Properties
  imports Trv11_Flow Trv11_Specimen
begin

text \<open>
  What the single-journey category promises: orders that are final and private, rides settled only by
  a pass this operator sold to the same buyer app, the prices and windows of passes.
\<close>

subsection \<open>Passes and quotes\<close>

text \<open>A pass issued at an instant is valid at that instant. Its window runs between two midnights of
  the Indian calendar: one day for a day pass, seven for a weekly pass, and from 28 to 31 days for a
  monthly pass, whatever the month and the day of issue.\<close>

theorem pass_window_contains_its_issue:
  assumes "0 \<le> t"
  shows "pw_validFromMs (passValidityWindow t w) \<le> t \<and> t < pw_validToMs (passValidityWindow t w)
    \<and> (pw_validFromMs (passValidityWindow t w) + INDIA_OFFSET) mod msPerDay = 0
    \<and> (\<exists>n \<in> window_days w. pw_validToMs (passValidityWindow t w) = pw_validFromMs (passValidityWindow t w) + n * msPerDay)"
  using window_shape [OF assms] by blast

theorem pass_window_contains_its_issue_witness:
  "\<exists>n \<in> window_days MONTHLY. pw_validToMs (passValidityWindow 1738261800000 MONTHLY)
     = pw_validFromMs (passValidityWindow 1738261800000 MONTHLY) + n * msPerDay"
  using pass_window_contains_its_issue [of 1738261800000 MONTHLY] by simp

text \<open>C37. An answered select of passes is quoted at the sum over its items of quantity times the price of the
  catalogue, each less its concession: the price at the published rate, rounded half up to a paisa. The
  items are passes of this operator's own catalogue, and the total is never negative.\<close>

theorem pass_quote_is_concession_price:
  assumes "trv11_select sv nowMs st request = Inr order"
    and "i \<in> set (oi_items (rq_order request))" and "isPassItemId (si_id i)"
  shows "\<exists>concession its v. concessionFromTags (oi_tags (rq_order request)) = Inr concession
    \<and> list_all2 (\<lambda>i item. passItemById (sv_operatorKey sv) (si_id i) = Some item) (oi_items (rq_order request)) its
    \<and> quote_value order = Some (JStr v)
    \<and> fareToRupees (sum_list (map2 (\<lambda>i item. concession_price concession item * int (item_count i))
         (oi_items (rq_order request)) its)) = Inr v"
proof -
  obtain base where "baseOrder sv nowMs st (rq_context request) (rq_order request) = Inr base" "order = bo_order base"
    using assms(1) by (auto simp: trv11_select_def result_simps)
  then show ?thesis using base_of_passes [of sv nowMs st _ _ base i] assms(2,3) pass_base_quote by fastforce
qed

text \<open>An answered select of single journeys is quoted at the sum of fare times quantity over the offers the
  search of the same transaction cached under the selected ids; the buyer app names ids, never prices.\<close>

theorem ticket_quote_is_cached_fare:
  assumes "trv11_select sv nowMs st request = Inr order"
    and "i \<in> set (oi_items (rq_order request))" and "\<not> isPassItemId (si_id i)"
  shows "\<exists>catalogue offers v. catalogues st (transactionKey (sv_operatorKey sv) (identity_of (rq_context request))) = Some catalogue
    \<and> map catalogue (map si_id (oi_items (rq_order request))) = map Some offers
    \<and> quote_value order = Some (JStr v)
    \<and> fareToRupees (sum_list (map (\<lambda>(i, offer). of_farePaise offer * int (item_count i))
         (zip (oi_items (rq_order request)) offers))) = Inr v"
proof -
  obtain base where "baseOrder sv nowMs st (rq_context request) (rq_order request) = Inr base" "order = bo_order base"
    using assms(1) by (auto simp: trv11_select_def result_simps)
  then show ?thesis using base_of_passes [of sv nowMs st _ _ base i] assms(2,3) ticket_base_quote by fastforce
qed

theorem pass_quote_is_concession_price_witness:
  "\<exists>order v. trv11_select (a_service Ksrtc) 0 empty_store (an_order ''t'' ''PASS-DAY-KSRTC_SARIGE'' paid senior_tags) = Inr order
    \<and> quote_value order = Some (JStr v) \<and> v = ''178.13''"
proof -
  obtain order where o1: "trv11_select (a_service Ksrtc) 0 empty_store (an_order ''t'' ''PASS-DAY-KSRTC_SARIGE'' paid senior_tags) = Inr order"
    using specimen_concession_select by blast
  have price: "concession_price (Some SENIOR) sarige_pass = 17813" by code_simp
  show ?thesis
    using pass_quote_is_concession_price [OF o1, of "\<lparr>si_id = ''PASS-DAY-KSRTC_SARIGE'', si_count = 1\<rparr>"] o1
    by (auto simp: specimen_items senior_read list_all2_Cons1 price item_count_def specimen_rupees)
qed

definition ride_store :: OrderStore where
  "ride_store = store_cacheCatalogue Bmtc (identity_of (a_context ''t2'')) [an_offer] empty_store"

lemma ride_store_catalogue:
  "catalogues ride_store (transactionKey Bmtc (identity_of (a_context ''t2''))) = Some [''O1'' \<mapsto> an_offer]"
  by (simp add: ride_store_def store_cacheCatalogue_def an_offer_def)

theorem ticket_quote_is_cached_fare_witness:
  "\<exists>order. trv11_select (a_service Bmtc) 0 ride_store ride_order = Inr order \<and> quote_value order = Some (JStr ''25'')"
proof -
  obtain base where "baseOrder (a_service Bmtc) 0 ride_store (rq_context ride_order) (rq_order ride_order) = Inr base"
    using specimen_ride_base [OF ride_store_catalogue, of 0 "settled_payment ''000000''"] by (auto simp: ride_order_def)
  then have o1: "trv11_select (a_service Bmtc) 0 ride_store ride_order = Inr (bo_order base)"
    by (simp add: trv11_select_def)
  then show ?thesis
    using ticket_quote_is_cached_fare [OF o1, of "\<lparr>si_id = ''O1'', si_count = 1\<rparr>"] ride_store_catalogue
    by (auto simp: ride_order_def specimen_items item_count_def specimen_rupees an_offer_def)
qed

subsection \<open>Orders\<close>

text \<open>C6. However searches, confirms and their completions interleave, over all operators and buyer apps,
  a transaction has one order: two confirms of it that were ever answered with an order were answered with
  the same one, and the order is in the store from then on.\<close>

theorem one_order_per_purchase:
  assumes "order_step\<^sup>*\<^sup>* no_orders s" and "order_step\<^sup>*\<^sup>* s s'"
    and "(p, Inr first) \<in> set (answers s)" and "(p, Inr later) \<in> set (answers s')"
  shows "later = first \<and> findByTransaction (fst p) (snd p) (of_store s') = Some first"
proof -
  have inv: "orders_inv s" by (rule order_flow.inv_steps [OF assms(1)]) (rule no_orders_inv)
  have "orders_inv s'" by (rule order_flow.inv_steps [OF assms(2) inv])
  moreover have "(p, Inr first) \<in> set (answers s')"
    using order_flow.le_steps [OF assms(2) inv] assms(3) by (auto simp: orders_grow_def)
  ultimately show ?thesis
    using orders_invD(4) [of s' p first] orders_invD(4) [of s' p later] assms(4) by simp
qed

text \<open>The run of the witnesses: the specimen pass is confirmed, then the ride is searched.\<close>

definition pass_buyer :: TransactionIdentity where
  "pass_buyer = identity_of (a_context ''t1'')"

definition after_pass :: Orders where
  "after_pass = confirm_settle (Bmtc, pass_buyer) (confirm_call (a_service Bmtc) the_draws 59000 (pass_order ''t1'') no_orders)"

definition before_ride :: Orders where
  "before_ride = after_pass\<lparr>of_store := cache_offers (a_service Bmtc) (a_context ''t2'') [an_offer] (of_store after_pass)\<rparr>"

lemma after_pass_run: "order_step\<^sup>*\<^sup>* no_orders after_pass" "order_step\<^sup>*\<^sup>* no_orders before_ride"
proof -
  have "order_step no_orders (confirm_call (a_service Bmtc) the_draws 59000 (pass_order ''t1'') no_orders)"
    by (rule order_step.called)
  moreover have "order_step (confirm_call (a_service Bmtc) the_draws 59000 (pass_order ''t1'') no_orders) after_pass"
    unfolding after_pass_def by (rule order_step.settled)
  ultimately show r: "order_step\<^sup>*\<^sup>* no_orders after_pass" by simp
  have "order_step after_pass before_ride" unfolding before_ride_def by (rule order_step.searched)
  then show "order_step\<^sup>*\<^sup>* no_orders before_ride" using r by simp
qed

lemma after_pass_state:
  "\<exists>order. answers after_pass = [((Bmtc, pass_buyer), Inr order)]
    \<and> orders (of_store after_pass) = [pass_order_id \<mapsto> \<lparr>so_operator = Bmtc, so_identity = pass_buyer, so_order = order\<rparr>]
    \<and> passCredentials (of_store after_pass) = [passKey Bmtc pass_buyer pass_order_id \<mapsto> [specimen_credential 59000]]
    \<and> confirmations after_pass = Map.empty"
proof -
  obtain order where p: "prepare_confirm (a_service Bmtc) the_draws 59000 (pass_order ''t1'') pass_buyer empty_store =
      Inr \<lparr>pr_orderId = pass_order_id, pr_order = order, pr_minted = [specimen_credential 59000]\<rparr>"
    using specimen_prepared by blast
  have "assertTransitPayment (oi_payments (rq_order (pass_order ''t1''))) ''PAID'' = Inr ()"
    by (simp add: assertTransitPayment_def pass_order_def paid_def)
  moreover have "assertTransitAddress (a_service Bmtc) (rq_context (pass_order ''t1'')) = Inr ()"
    by (simp add: pass_order_def specimen_address)
  moreover have "identity_of (rq_context (pass_order ''t1'')) = pass_buyer" by (simp add: pass_order_def pass_buyer_def)
  moreover have "findByTransaction Bmtc pass_buyer empty_store = None"
    by (simp add: findByTransaction_def empty_store_def truthy_def)
  ultimately have "confirm_call (a_service Bmtc) the_draws 59000 (pass_order ''t1'') no_orders =
      no_orders\<lparr>confirmations := [(Bmtc, pass_buyer) \<mapsto>
        \<lparr>pd_outcome = Inr \<lparr>pr_orderId = pass_order_id, pr_order = order, pr_minted = [specimen_credential 59000]\<rparr>, pd_joined = 1\<rparr>]\<rparr>"
    by (simp add: confirm_call_def no_orders_def p)
  then show ?thesis
    by (simp add: after_pass_def confirm_settle_def settle_outcome_def save_confirm_def store_save_def no_orders_def
        empty_store_def savePassCredentials_def)
qed

theorem one_order_per_purchase_witness:
  "\<exists>order. answers after_pass = [((Bmtc, pass_buyer), Inr order)]
    \<and> findByTransaction Bmtc pass_buyer (of_store before_ride) = Some order"
proof -
  obtain order where o1: "answers after_pass = [((Bmtc, pass_buyer), Inr order)]" using after_pass_state by blast
  have "order_step\<^sup>*\<^sup>* after_pass before_ride"
    unfolding before_ride_def by (intro r_into_rtranclp order_step.searched)
  then show ?thesis
    using one_order_per_purchase [OF after_pass_run(1), of before_ride "(Bmtc, pass_buyer)" order order] o1
    by (simp add: before_ride_def)
qed

text \<open>A confirm that ran to its end is refused only for an error of its own checks or for a collision
  of the drawn order id with a stored one: no other confirm of its transaction was saved in between, so the
  store never reports that the transaction is already confirmed.\<close>

theorem save_refused_only_on_collision:
  assumes "order_step\<^sup>*\<^sup>* no_orders s" and "confirmations s p = Some pending"
    and "settle_outcome p (pd_outcome pending) (of_store s) = (Inl e, st')"
  shows "pd_outcome pending = Inl e
    \<or> (\<exists>prepared. pd_outcome pending = Inr prepared \<and> orders (of_store s) (pr_orderId prepared) \<noteq> None
        \<and> e = LifecycleError ''ORDER-ID-COLLISION'' (''Generated order.id '' @ pr_orderId prepared @ '' already exists''))"
proof -
  have inv: "orders_inv s" by (rule order_flow.inv_steps [OF assms(1)]) (rule no_orders_inv)
  have "pending_ok (of_store s) p pending" by (rule orders_invD(3) [OF inv assms(2)])
  then show ?thesis
    using assms(3)
    by (cases "pd_outcome pending")
      (auto simp: settle_outcome_def save_confirm_def store_save_def pending_ok_def Let_def split: if_splits)
qed

text \<open>A status answers with the order its own operator, buyer app and transaction confirmed, and with
  nothing else: the order the confirm was answered with, under the id that order shows.\<close>

theorem status_returns_own_order:
  assumes "order_step\<^sup>*\<^sup>* no_orders s" and "trv11_status sv (of_store s) request = Inr order"
  shows "findByTransaction (sv_operatorKey sv) (identity_of (sx_context request)) (of_store s) = Some order
    \<and> field order ''id'' = Some (JStr (the (coalesce (sx_order_id request) (sx_ref_id request))))"
proof -
  have "orders_inv s" by (rule order_flow.inv_steps [OF assms(1)]) (rule no_orders_inv)
  then have ok: "index_exact (of_store s)" "ids_shown (of_store s)" by (auto simp: orders_inv_def store_ok_def)
  obtain oid where oid: "coalesce (sx_order_id request) (sx_ref_id request) = Some oid"
    and got: "store_get (sv_operatorKey sv) (identity_of (sx_context request)) oid (of_store s) = Inr order"
    using assms(2) by (auto simp: trv11_status_def truthy_def Let_def result_simps split: if_splits)
  obtain stored where stored: "orders (of_store s) oid = Some stored" "so_operator stored = sv_operatorKey sv"
      "so_identity stored = identity_of (sx_context request)" "so_order stored = order"
    using got by (auto simp: store_get_def Let_def transactionKey_inj split: option.splits if_splits)
  then have "orders (of_store s) oid = Some \<lparr>so_operator = sv_operatorKey sv,
      so_identity = identity_of (sx_context request), so_order = order\<rparr>" by (cases stored) simp
  then have "findByTransaction (sv_operatorKey sv) (identity_of (sx_context request)) (of_store s) = Some order"
    using findByTransaction_iff [OF ok(1)] by blast
  then show ?thesis using ok(2) stored oid by (auto simp: ids_shown_def)
qed

text \<open>An order that was answered to a confirm can be read back: a status of the same transaction that
  names the id the order shows is answered with that order, in every later state.\<close>

theorem confirmed_order_reads_back:
  assumes "order_step\<^sup>*\<^sup>* no_orders s" and "order_step\<^sup>*\<^sup>* s s'"
    and "((sv_operatorKey sv, identity_of (sx_context request)), Inr order) \<in> set (answers s)"
    and "assertTransitAddress sv (sx_context request) = Inr ()"
  shows "\<exists>oid. field order ''id'' = Some (JStr oid)
    \<and> trv11_status sv (of_store s') (request\<lparr>sx_order_id := Some oid\<rparr>) = Inr order"
proof -
  have inv: "orders_inv s" by (rule order_flow.inv_steps [OF assms(1)]) (rule no_orders_inv)
  have inv': "orders_inv s'" by (rule order_flow.inv_steps [OF assms(2) inv])
  then have ok: "index_exact (of_store s')" "ids_shown (of_store s')" by (auto simp: orders_inv_def store_ok_def)
  have "((sv_operatorKey sv, identity_of (sx_context request)), Inr order) \<in> set (answers s')"
    using order_flow.le_steps [OF assms(2) inv] assms(3) by (auto simp: orders_grow_def)
  then have "findByTransaction (sv_operatorKey sv) (identity_of (sx_context request)) (of_store s') = Some order"
    using orders_invD(4) [OF inv'] by fastforce
  then obtain oid where oid: "orders (of_store s') oid = Some \<lparr>so_operator = sv_operatorKey sv,
      so_identity = identity_of (sx_context request), so_order = order\<rparr>"
    using findByTransaction_iff [OF ok(1)] by blast
  then have "field order ''id'' = Some (JStr oid)" "oid \<noteq> []"
    using ok(2) index_exactD(2) [OF ok(1)] by (fastforce simp: ids_shown_def)+
  then show ?thesis
    using oid assms(4)
    by (intro exI [of _ oid]) (auto simp: trv11_status_def coalesce_def truthy_def store_get_def)
qed

definition first_status :: StatusRequest where
  "first_status = \<lparr>sx_context = a_context ''t1'', sx_order_id = Some pass_order_id, sx_ref_id = None\<rparr>"

lemma first_status_answer: "\<exists>order. trv11_status (a_service Bmtc) (of_store after_pass) first_status = Inr order"
  using after_pass_state
  by (auto simp: trv11_status_def first_status_def specimen_address coalesce_def truthy_def store_get_def pass_buyer_def
      pass_order_id_def)

text \<open>Another buyer app's transaction draws the same order id.\<close>

definition colliding :: Orders where
  "colliding = confirm_call (a_service Bmtc) the_draws 59000 (pass_order ''t3'') after_pass"

lemma colliding_state:
  "\<exists>order. confirmations colliding (Bmtc, identity_of (a_context ''t3'')) = Some
      \<lparr>pd_outcome = Inr \<lparr>pr_orderId = pass_order_id, pr_order = order, pr_minted = [specimen_credential 59000]\<rparr>, pd_joined = 1\<rparr>
    \<and> of_store colliding = of_store after_pass"
proof -
  obtain order where p: "prepare_confirm (a_service Bmtc) the_draws 59000 (pass_order ''t3'') (identity_of (a_context ''t3''))
      (of_store after_pass) = Inr \<lparr>pr_orderId = pass_order_id, pr_order = order, pr_minted = [specimen_credential 59000]\<rparr>"
    using specimen_prepared by blast
  have "assertTransitPayment (oi_payments (rq_order (pass_order ''t3''))) ''PAID'' = Inr ()"
    by (simp add: assertTransitPayment_def pass_order_def paid_def)
  moreover have "assertTransitAddress (a_service Bmtc) (rq_context (pass_order ''t3'')) = Inr ()"
    by (simp add: pass_order_def specimen_address)
  moreover have "rq_context (pass_order ''t3'') = a_context ''t3''" by (simp add: pass_order_def)
  moreover have "findByTransaction Bmtc (identity_of (a_context ''t3'')) (of_store after_pass) = None"
  proof -
    have "orders_inv after_pass" by (rule order_flow.inv_steps [OF after_pass_run(1) no_orders_inv])
    then have "index_exact (of_store after_pass)" by (auto simp: orders_inv_def store_ok_def)
    moreover have "pass_buyer \<noteq> identity_of (a_context ''t3'')" by (simp add: pass_buyer_def identity_of_def)
    ultimately have "findByTransaction Bmtc (identity_of (a_context ''t3'')) (of_store after_pass) \<noteq> Some o1" for o1
      using after_pass_state by (auto simp: findByTransaction_iff split: if_splits)
    then show ?thesis by (metis not_Some_eq)
  qed
  moreover have "confirmations after_pass = Map.empty" using after_pass_state by blast
  ultimately show ?thesis by (simp add: colliding_def confirm_call_def p)
qed

theorem save_refused_only_on_collision_witness:
  "\<exists>e st. settle_outcome (Bmtc, identity_of (a_context ''t3''))
      (pd_outcome (the (confirmations colliding (Bmtc, identity_of (a_context ''t3''))))) (of_store colliding) = (Inl e, st)
    \<and> e = LifecycleError ''ORDER-ID-COLLISION'' (''Generated order.id '' @ pass_order_id @ '' already exists'')"
proof -
  let ?p = "(Bmtc, identity_of (a_context ''t3''))"
  obtain order where c: "confirmations colliding ?p = Some
      \<lparr>pd_outcome = Inr \<lparr>pr_orderId = pass_order_id, pr_order = order, pr_minted = [specimen_credential 59000]\<rparr>, pd_joined = 1\<rparr>"
      "of_store colliding = of_store after_pass"
    using colliding_state by blast
  have r: "order_step\<^sup>*\<^sup>* no_orders colliding"
    unfolding colliding_def by (rule rtranclp.rtrancl_into_rtrancl [OF after_pass_run(1) order_step.called])
  obtain e st where e: "settle_outcome ?p (pd_outcome (the (confirmations colliding ?p))) (of_store colliding) = (Inl e, st)"
    using after_pass_state by (auto simp: c settle_outcome_def save_confirm_def store_save_def)
  from save_refused_only_on_collision [OF r c(1) e [unfolded c(1) option.sel]] show ?thesis using e by auto
qed

theorem status_returns_own_order_witness:
  "\<exists>order. trv11_status (a_service Bmtc) (of_store after_pass) first_status = Inr order
    \<and> findByTransaction Bmtc pass_buyer (of_store after_pass) = Some order
    \<and> field order ''id'' = Some (JStr pass_order_id)"
proof -
  obtain order where o1: "trv11_status (a_service Bmtc) (of_store after_pass) first_status = Inr order"
    using first_status_answer by blast
  show ?thesis
    using status_returns_own_order [OF after_pass_run(1) o1] o1
    by (simp add: first_status_def coalesce_def pass_buyer_def)
qed

theorem confirmed_order_reads_back_witness:
  "\<exists>order oid. answers after_pass = [((Bmtc, pass_buyer), Inr order)]
    \<and> trv11_status (a_service Bmtc) (of_store before_ride) (first_status\<lparr>sx_order_id := Some oid\<rparr>) = Inr order"
proof -
  obtain order where o1: "answers after_pass = [((Bmtc, pass_buyer), Inr order)]" using after_pass_state by blast
  have r: "order_step\<^sup>*\<^sup>* after_pass before_ride"
    unfolding before_ride_def by (intro r_into_rtranclp order_step.searched)
  have "((sv_operatorKey (a_service Bmtc), identity_of (sx_context first_status)), Inr order) \<in> set (answers after_pass)"
      "assertTransitAddress (a_service Bmtc) (sx_context first_status) = Inr ()"
    using o1 by (simp_all add: first_status_def pass_buyer_def specimen_address)
  from confirmed_order_reads_back [OF after_pass_run(1) r this] show ?thesis using o1 by blast
qed

subsection \<open>Settlement by a pass\<close>






text \<open>A refusal of a settlement tells nothing of the presented code: two claims of the same pass order
  that are both refused are refused with the same error and the same text.\<close>

theorem settlement_refusal_hides_code:
  assumes "assertPassSettlement hmac claim cs tiers t = Inl (LifecycleError code1 text1)"
    and "assertPassSettlement hmac claim' cs tiers t = Inl (LifecycleError code2 text2)"
    and "cl_passOrderId claim' = cl_passOrderId claim"
  shows "code2 = code1 \<and> text2 = text1"
  using assms by (auto simp: assertPassSettlement_def Let_def split: if_splits sum.splits option.splits)

theorem settlement_refusal_hides_code_witness:
  "\<exists>e. assertPassSettlement echo_hmac (the_claim\<lparr>cl_passCode := ''12''\<rparr>) [specimen_credential 59000] [ORDINARY_BUS] 59000 = Inl e
    \<and> assertPassSettlement echo_hmac (the_claim\<lparr>cl_passCode := ''abcdef''\<rparr>) [specimen_credential 59000] [ORDINARY_BUS] 59000 = Inl e"
proof -
  have cred: "covering [ORDINARY_BUS] (specimen_credential 59000)" "tp_digits TOTP_PARAMETERS = 6"
      "credential_parameters (specimen_credential 59000) = TOTP_PARAMETERS"
    by (simp_all add: credential_parameters_def specimen_credential_def covering_def passCovers_def
        TOTP_PARAMETERS_def TOTP_DIGITS_def)
  obtain t1 t2 where t: "assertPassSettlement echo_hmac (the_claim\<lparr>cl_passCode := ''12''\<rparr>) [specimen_credential 59000] [ORDINARY_BUS] 59000
      = Inl (LifecycleError ''PASS-CODE-INVALID'' t1)"
    "assertPassSettlement echo_hmac (the_claim\<lparr>cl_passCode := ''abcdef''\<rparr>) [specimen_credential 59000] [ORDINARY_BUS] 59000
      = Inl (LifecycleError ''PASS-CODE-INVALID'' t2)"
    by (simp add: assertPassSettlement_def cred specimen_window verifyTotpCode_def is_digit_def)
  from settlement_refusal_hides_code [OF t] show ?thesis using t by simp
qed

text \<open>C14. The store is well typed in every state the requests can reach: the transaction index names
  exactly the stored orders, an order shows the id it is stored under, and every credential belongs to an
  order of its operator and buyer app and has the item, scope, window, secret and code parameters this
  provider mints.\<close>

theorem reachable_store_well_typed:
  assumes "order_step\<^sup>*\<^sup>* no_orders s"
  shows "index_exact (of_store s) \<and> ids_shown (of_store s) \<and> credentials_owned (of_store s)"
  using order_flow.inv_steps [OF assms no_orders_inv] by (simp add: orders_inv_def store_ok_def)

theorem reachable_store_well_typed_witness:
  "index_exact (of_store before_ride) \<and> ids_shown (of_store before_ride) \<and> credentials_owned (of_store before_ride)"
  by (rule reachable_store_well_typed) (rule after_pass_run(2))

end
