(* ===== verification/Reserved_Source.thy ===== *)
theory Reserved_Source
  imports Reserved_Calendar JS_Number
begin

text \<open>
  Where the reserved catalogue comes from: the checks a catalogue passes before it is used
  (\<open>src/src/reserved/integrity.ts\<close>), the fixture source (\<open>fixture.ts\<close>) and the source over http with its
  cache and its fallback (\<open>http.ts\<close>).

  A check that fails names its fault; the sentence of the error is not modelled. The types of a loaded
  catalogue already say that the minutes and the amounts are whole numbers, so of the tests for that
  only the bounds remain.
\<close>

subsection \<open>Integrity of a catalogue\<close>

datatype IntegrityFault =
    DuplicateSeat string string
  | DeckBeyondCoach string string
  | AdjacentToItself string string
  | AdjacentNotOnMap string string string
  | AsymmetricAdjacency string string string
  | PairNotOnMap string string string
  | AsymmetricPairing string string string
  | CapacityMismatch string
  | PointInUnknownTown string
  | DuplicateService string
  | ClassNotSold string
  | ClassUnknown string
  | MapUnknown string
  | FareTableUnknown string
  | NoStops string
  | StopUnknown string string
  | ConfirmedWithoutSources string
  | NegativeSourceCount string
  | CorporationUnconfirmed string
  | BasisWithoutCorporation string
  | PopularityOutOfRange string
  | BadDepartureMinute string
  | BadRunningTime string
  | BadAmount string string
  | NoSourcingLabel string
  | BadFare string
  | ClassNotRun string string
  | PointNotServed string string

text \<open>The keys of \<open>REFUSED_CLASSES\<close>, and the names every object of the language inherits: looking one of
  these up gives a value that is not undefined.\<close>

definition REFUSED_CLASSES :: "string list" where
  "REFUSED_CLASSES = [''SARIGE'', ''CORONA'', ''CORONA_CLUB_CLASS'']"

definition inherited_names :: "string list" where
  "inherited_names = [''constructor'', ''__defineGetter__'', ''__defineSetter__'', ''hasOwnProperty'', ''__lookupGetter__'',
     ''__lookupSetter__'', ''isPrototypeOf'', ''propertyIsEnumerable'', ''toString'', ''valueOf'', ''__proto__'', ''toLocaleString'']"

definition class_refused :: "string \<Rightarrow> bool" where
  "class_refused cls \<longleftrightarrow> cls \<in> set REFUSED_CLASSES \<or> cls \<in> set inherited_names"

fun check_seat_ids :: "SeatMap \<Rightarrow> string list \<Rightarrow> Seat list \<Rightarrow> IntegrityFault + unit" where
  "check_seat_ids m seen [] = Inr ()"
| "check_seat_ids m seen (s # ss) =
     andThen (ensure (seat_seatId s \<notin> set seen) (DuplicateSeat (map_seatMapId m) (seat_seatId s))) (\<lambda>_.
     andThen (ensure (seat_deck s \<le> map_decks m) (DeckBeyondCoach (map_seatMapId m) (seat_seatId s))) (\<lambda>_.
       check_seat_ids m (seat_seatId s # seen) ss))"

text \<open>\<open>new Map(seats.map(...)).get(id)\<close>: the last seat of an id.\<close>

definition seat_by_id :: "SeatMap \<Rightarrow> string \<Rightarrow> Seat option" where
  "seat_by_id m i = List.find (\<lambda>s. seat_seatId s = i) (rev (map_seats m))"

definition check_neighbour :: "SeatMap \<Rightarrow> Seat \<Rightarrow> string \<Rightarrow> IntegrityFault + unit" where
  "check_neighbour m s i =
     (case seat_by_id m i of
        None \<Rightarrow> Inl (AdjacentNotOnMap (map_seatMapId m) (seat_seatId s) i)
      | Some neighbour \<Rightarrow>
          ensure (seat_seatId s \<in> set (seat_adjacentSeatIds neighbour))
            (AsymmetricAdjacency (map_seatMapId m) (seat_seatId s) i))"

definition check_pair :: "SeatMap \<Rightarrow> Seat \<Rightarrow> IntegrityFault + unit" where
  "check_pair m s =
     (case seat_pairedSeatId s of
        None \<Rightarrow> Inr ()
      | Some i \<Rightarrow>
          (case seat_by_id m i of
             None \<Rightarrow> Inl (PairNotOnMap (map_seatMapId m) (seat_seatId s) i)
           | Some partner \<Rightarrow>
               ensure (seat_pairedSeatId partner = Some (seat_seatId s))
                 (AsymmetricPairing (map_seatMapId m) (seat_seatId s) i)))"

definition check_seat_links :: "SeatMap \<Rightarrow> Seat \<Rightarrow> IntegrityFault + unit" where
  "check_seat_links m s =
     andThen (ensure (seat_seatId s \<notin> set (seat_adjacentSeatIds s)) (AdjacentToItself (map_seatMapId m) (seat_seatId s))) (\<lambda>_.
     andThen (forEach (check_neighbour m s) (seat_adjacentSeatIds s)) (\<lambda>_.
       check_pair m s))"

definition checkSeatMap :: "SeatMap \<Rightarrow> IntegrityFault + unit" where
  "checkSeatMap m =
     andThen (check_seat_ids m [] (map_seats m)) (\<lambda>_.
     andThen (forEach (check_seat_links m) (map_seats m)) (\<lambda>_.
       ensure (map_documentedCapacity m = None \<or> map_documentedCapacity m = Some (int (length (map_seats m))))
         (CapacityMismatch (map_seatMapId m))))"

definition all_stops :: "ReservedService \<Rightarrow> BoardingPoint list" where
  "all_stops service = svc_boardingPoints service @ svc_droppingPoints service"

definition paise_ok :: "int \<Rightarrow> bool" where
  "paise_ok n \<longleftrightarrow> isSafeInteger n \<and> 0 \<le> n"

text \<open>The checks of one service, after its id is known to be new, in the order of the source.\<close>

definition check_service :: "ReservedCatalogue \<Rightarrow> ReservedService \<Rightarrow> IntegrityFault + unit" where
  "check_service cat s =
     (let i = svc_serviceId s in
      forEach (\<lambda>(ok, fault). ensure ok fault)
        ([(\<not> class_refused (svc_serviceClass s), ClassNotSold i),
          (svc_serviceClass s \<in> set SERVICE_CLASSES, ClassUnknown i),
          (svc_seatMapId s \<in> map_seatMapId ` set (cat_seatMaps cat), MapUnknown i),
          (svc_fareTableId s \<in> table_fareTableId ` set (cat_fareTables cat), FareTableUnknown i),
          (svc_boardingPoints s \<noteq> [] \<and> svc_droppingPoints s \<noteq> [], NoStops i)]
         @ map (\<lambda>p. (bp_boardingPointId p \<in> bp_boardingPointId ` set (cat_boardingPoints cat),
                     StopUnknown i (bp_boardingPointId p))) (all_stops s)
         @ [(\<not> (svc_provenance s = Confirmed \<and> svc_provenanceSourceCount s < 2), ConfirmedWithoutSources i),
            (0 \<le> svc_provenanceSourceCount s, NegativeSourceCount i),
            (\<not> (svc_operatingCorporation s \<noteq> None \<and> svc_operatingCorporationBasis s \<noteq> Confirmed), CorporationUnconfirmed i),
            (\<not> (svc_operatingCorporation s = None \<and> svc_operatingCorporationBasis s \<noteq> NoProvenance), BasisWithoutCorporation i),
            (0 \<le> svc_popularity s \<and> svc_popularity s \<le> 1, PopularityOutOfRange i),
            (0 \<le> svc_departureMinute s, BadDepartureMinute i),
            (0 < svc_runningMinutes s, BadRunningTime i),
            (paise_ok (svc_reservationFeePaise s), BadAmount i ''reservationFeePaise''),
            (paise_ok (svc_tollPaise s), BadAmount i ''tollPaise'')]))"

fun check_services :: "ReservedCatalogue \<Rightarrow> string list \<Rightarrow> ReservedService list \<Rightarrow> IntegrityFault + unit" where
  "check_services cat seen [] = Inr ()"
| "check_services cat seen (s # ss) =
     andThen (ensure (svc_serviceId s \<notin> set seen) (DuplicateService (svc_serviceId s))) (\<lambda>_.
     andThen (check_service cat s) (\<lambda>_.
       check_services cat (svc_serviceId s # seen) ss))"

definition add_stops :: "ReservedService \<Rightarrow> (ServiceClass \<rightharpoonup> string list) \<Rightarrow> (ServiceClass \<rightharpoonup> string list)" where
  "add_stops s m = m(svc_serviceClass s \<mapsto>
     (case m (svc_serviceClass s) of None \<Rightarrow> [] | Some ps \<Rightarrow> ps) @ map bp_boardingPointId (all_stops s))"

definition reachable_stops :: "ReservedService list \<Rightarrow> (ServiceClass \<rightharpoonup> string list)" where
  "reachable_stops services = fold add_stops services Map.empty"

definition check_cell :: "string \<Rightarrow> (ServiceClass \<rightharpoonup> string list) \<Rightarrow> FareCell \<Rightarrow> IntegrityFault + unit" where
  "check_cell tid stops cell =
     andThen (ensure (cell_sourcing cell \<in> {''V'', ''S'', ''I''}) (NoSourcingLabel tid)) (\<lambda>_.
     andThen (ensure (paise_ok (cell_farePaise cell)) (BadFare tid)) (\<lambda>_.
       case stops (cell_serviceClass cell) of
         None \<Rightarrow> Inl (ClassNotRun tid (cell_serviceClass cell))
       | Some points \<Rightarrow>
           forEach (\<lambda>p. ensure (p \<in> set points) (PointNotServed tid p))
             [cell_fromBoardingPointId cell, cell_toBoardingPointId cell]))"

definition check_fare_table :: "ReservedCatalogue \<Rightarrow> FareTable \<Rightarrow> IntegrityFault + unit" where
  "check_fare_table cat t =
     (let users = filter (\<lambda>s. svc_fareTableId s = table_fareTableId t) (cat_services cat)
      in forEach (check_cell (table_fareTableId t) (reachable_stops users)) (table_fares t))"

definition validateReservedCatalogue :: "ReservedCatalogue \<Rightarrow> IntegrityFault + unit" where
  "validateReservedCatalogue cat =
     andThen (forEach (\<lambda>p. ensure (bp_townCode p \<in> town_code ` set (cat_towns cat))
                (PointInUnknownTown (bp_boardingPointId p))) (cat_boardingPoints cat)) (\<lambda>_.
     andThen (forEach checkSeatMap (cat_seatMaps cat)) (\<lambda>_.
     andThen (check_services cat [] (cat_services cat)) (\<lambda>_.
       forEach (check_fare_table cat) (cat_fareTables cat))))"

subsection \<open>The fixture source\<close>

text \<open>
  The files of the fixture directory, as they parse. A service on disk names its stops by id and offset;
  \<open>se_service\<close> holds its other fields. The points of a town are in the order of its entry.
\<close>

record ServiceEntry =
  se_service :: ReservedService
  se_boarding :: "(string \<times> int) list"
  se_dropping :: "(string \<times> int) list"

record FixtureFiles =
  ff_operator :: ReservedOperatorProfile
  ff_towns :: "Town list"
  ff_points :: "(string \<times> BoardingPoint list) list"
  ff_services :: "ServiceEntry list"
  ff_seatMap :: "string \<Rightarrow> SeatMap option"
  ff_fareTable :: "string \<Rightarrow> FareTable option"

datatype LoadError =
    PointUndeclared string string
  | FileUnreadable string
  | Integrity IntegrityFault

definition town_points :: "(string \<times> BoardingPoint list) list \<Rightarrow> BoardingPoint list" where
  "town_points entries = concat (map (\<lambda>(town, ps). map (\<lambda>p. p\<lparr>bp_townCode := town\<rparr>) ps) entries)"

definition resolvePoints ::
    "(string \<times> int) list \<Rightarrow> BoardingPoint list \<Rightarrow> string \<Rightarrow> LoadError + BoardingPoint list" where
  "resolvePoints refs points serviceId =
     traverse (\<lambda>(pid, offset).
       case List.find (\<lambda>p. bp_boardingPointId p = pid) (rev points) of
         None \<Rightarrow> Inl (PointUndeclared serviceId pid)
       | Some p \<Rightarrow> Inr (p\<lparr>bp_reportingOffsetMinutes := offset\<rparr>)) refs"

definition resolve_service :: "BoardingPoint list \<Rightarrow> ServiceEntry \<Rightarrow> LoadError + ReservedService" where
  "resolve_service points e =
     andThen (resolvePoints (se_boarding e) points (svc_serviceId (se_service e))) (\<lambda>bs.
     andThen (resolvePoints (se_dropping e) points (svc_serviceId (se_service e))) (\<lambda>ds.
       Inr ((se_service e)\<lparr>svc_boardingPoints := bs, svc_droppingPoints := ds\<rparr>)))"

definition loadReservedCatalogue :: "FixtureFiles \<Rightarrow> LoadError + ReservedCatalogue" where
  "loadReservedCatalogue files =
     (let points = town_points (ff_points files) in
      andThen (traverse (resolve_service points) (ff_services files)) (\<lambda>services.
      andThen (traverse (\<lambda>i. required (ff_seatMap files i) (FileUnreadable i)) (dedup (map svc_seatMapId services))) (\<lambda>maps.
      andThen (traverse (\<lambda>i. required (ff_fareTable files i) (FileUnreadable i)) (dedup (map svc_fareTableId services))) (\<lambda>tables.
        Inr \<lparr>cat_operator = ff_operator files, cat_towns = ff_towns files,
             cat_boardingPoints = map (\<lambda>p. p\<lparr>bp_reportingOffsetMinutes := 0\<rparr>) points,
             cat_services = services, cat_seatMaps = maps, cat_fareTables = tables\<rparr>))))"

definition fixture_load :: "FixtureFiles \<Rightarrow> LoadError + ReservedCatalogue" where
  "fixture_load files =
     andThen (loadReservedCatalogue files) (\<lambda>cat.
       case validateReservedCatalogue cat of Inl f \<Rightarrow> Inl (Integrity f) | Inr _ \<Rightarrow> Inr cat)"

text \<open>\<open>runsOn\<close> throws on a malformed date; the answer of a search is then that error.\<close>

definition service_matches :: "ReservedSearchQuery \<Rightarrow> ReservedService \<Rightarrow> failure + bool" where
  "service_matches query s =
     (if list_ex (\<lambda>p. bp_townCode p = qry_fromTownCode query) (svc_boardingPoints s)
         \<and> list_ex (\<lambda>p. bp_townCode p = qry_toTownCode query) (svc_droppingPoints s)
         \<and> (qry_serviceClass query = None \<or> qry_serviceClass query = Some (svc_serviceClass s))
      then runsOn (svc_operatingPattern s) (qry_travelDate query)
      else Inr False)"

definition catalogue_services :: "ReservedCatalogue \<Rightarrow> ReservedSearchQuery \<Rightarrow> failure + ReservedService list" where
  "catalogue_services cat query =
     andThen (traverse (\<lambda>s. andThen (service_matches query s) (\<lambda>b. Inr (b, s))) (cat_services cat)) (\<lambda>marked.
       Inr (map snd (filter fst marked)))"

definition catalogue_service :: "ReservedCatalogue \<Rightarrow> string \<Rightarrow> ReservedService option" where
  "catalogue_service cat i = List.find (\<lambda>s. svc_serviceId s = i) (cat_services cat)"

definition catalogue_seatMap :: "ReservedCatalogue \<Rightarrow> string \<Rightarrow> SeatMap option" where
  "catalogue_seatMap cat i = List.find (\<lambda>m. map_seatMapId m = i) (cat_seatMaps cat)"

definition catalogue_fareTable :: "ReservedCatalogue \<Rightarrow> string \<Rightarrow> FareTable option" where
  "catalogue_fareTable cat i = List.find (\<lambda>t. table_fareTableId t = i) (cat_fareTables cat)"

subsection \<open>The source over http\<close>

text \<open>
  What a fetch comes to: nothing (the network failed or the deadline passed), a status that is not ok,
  or a body. The compiled schema turns a body that passes it into a catalogue; \<open>parse\<close> stands for it.
\<close>

datatype 'b Fetched = NoResponse | NotOk int | BodyUnreadable | Body 'b

definition HTTP_RESERVED_SOURCE_TTL_MS :: int where "HTTP_RESERVED_SOURCE_TTL_MS = 60000"

record HttpCache =
  hc_catalogue :: ReservedCatalogue
  hc_fetchedAt :: int

record HttpSource =
  hs_cached :: "HttpCache option"
  hs_fallbacks :: nat

definition fresh :: "int \<Rightarrow> int \<Rightarrow> HttpSource \<Rightarrow> bool" where
  "fresh ttl nowMs s = (case hs_cached s of None \<Rightarrow> False | Some c \<Rightarrow> nowMs - hc_fetchedAt c < ttl)"

text \<open>The end of a fetch begun at \<open>startedAt\<close>.\<close>

definition fetch_settled ::
    "('b \<Rightarrow> ReservedCatalogue option) \<Rightarrow> int \<Rightarrow> 'b Fetched \<Rightarrow> HttpSource \<Rightarrow> ReservedCatalogue option \<times> HttpSource" where
  "fetch_settled parse startedAt response s =
     (let failed = (None, s\<lparr>hs_fallbacks := hs_fallbacks s + 1\<rparr>) in
      case response of
        Body b \<Rightarrow>
          (case parse b of
             None \<Rightarrow> failed
           | Some cat \<Rightarrow>
               (case validateReservedCatalogue cat of
                  Inl _ \<Rightarrow> failed
                | Inr _ \<Rightarrow> (Some cat, s\<lparr>hs_cached := Some \<lparr>hc_catalogue = cat, hc_fetchedAt = startedAt\<rparr>\<rparr>)))
      | _ \<Rightarrow> failed)"

text \<open>One call of \<open>catalogue()\<close> with nothing in between; \<open>response\<close> is what a fetch would give.\<close>

definition http_catalogue ::
    "('b \<Rightarrow> ReservedCatalogue option) \<Rightarrow> int \<Rightarrow> int \<Rightarrow> 'b Fetched \<Rightarrow> HttpSource \<Rightarrow> ReservedCatalogue option \<times> HttpSource" where
  "http_catalogue parse ttl nowMs response s =
     (if fresh ttl nowMs s then (map_option hc_catalogue (hs_cached s), s)
      else fetch_settled parse nowMs response s)"

text \<open>The catalogue a request is answered from: the fetched one, or the fixtures.\<close>

definition answering :: "ReservedCatalogue \<Rightarrow> ReservedCatalogue option \<Rightarrow> ReservedCatalogue" where
  "answering fixtures fetched = (case fetched of None \<Rightarrow> fixtures | Some cat \<Rightarrow> cat)"

definition http_services ::
    "ReservedCatalogue \<Rightarrow> ReservedCatalogue option \<Rightarrow> ReservedSearchQuery \<Rightarrow> failure + ReservedService list" where
  "http_services fixtures fetched query = catalogue_services (answering fixtures fetched) query"

definition http_service :: "ReservedCatalogue \<Rightarrow> ReservedCatalogue option \<Rightarrow> string \<Rightarrow> ReservedService option" where
  "http_service fixtures fetched i = catalogue_service (answering fixtures fetched) i"

definition http_seatMap :: "ReservedCatalogue \<Rightarrow> ReservedCatalogue option \<Rightarrow> string \<Rightarrow> SeatMap option" where
  "http_seatMap fixtures fetched i = catalogue_seatMap (answering fixtures fetched) i"

definition http_fareTable :: "ReservedCatalogue \<Rightarrow> ReservedCatalogue option \<Rightarrow> string \<Rightarrow> FareTable option" where
  "http_fareTable fixtures fetched i = catalogue_fareTable (answering fixtures fetched) i"

end
