(* ===== verification/Source_Properties.thy ===== *)
theory Source_Properties
  imports Reserved_Source Order_Run Transition
begin

text \<open>
  What the checks of a reserved catalogue establish: the declarative meaning of an accepted catalogue,
  and what the order flow gains from a source over one. The interface between the two is the locale
  \<open>resolving_source\<close>; it is interpreted on the fixture source and on the source over http.
\<close>

subsection \<open>Sound maps\<close>

definition seat_linked :: "SeatMap \<Rightarrow> Seat \<Rightarrow> bool" where
  "seat_linked m s \<longleftrightarrow>
     (\<forall>i \<in> set (seat_adjacentSeatIds s). i \<noteq> seat_seatId s
        \<and> (\<exists>n \<in> set (map_seats m). seat_seatId n = i \<and> seat_seatId s \<in> set (seat_adjacentSeatIds n)))
     \<and> (\<forall>i. seat_pairedSeatId s = Some i \<longrightarrow>
        (\<exists>n \<in> set (map_seats m). seat_seatId n = i \<and> seat_pairedSeatId n = Some (seat_seatId s)))"

definition map_sound :: "SeatMap \<Rightarrow> bool" where
  "map_sound m \<longleftrightarrow> distinct (map seat_seatId (map_seats m))
     \<and> (\<forall>s \<in> set (map_seats m). seat_deck s \<le> map_decks m \<and> seat_linked m s)
     \<and> (\<forall>n. map_documentedCapacity m = Some n \<longrightarrow> n = int (length (map_seats m)))"

lemma check_seat_ids_ok:
  "check_seat_ids m seen ss = Inr () \<longleftrightarrow>
     distinct (map seat_seatId ss) \<and> set seen \<inter> seat_seatId ` set ss = {} \<and> (\<forall>s \<in> set ss. seat_deck s \<le> map_decks m)"
  by (induction ss arbitrary: seen) (auto simp: result_simps)

lemma seat_by_id_distinct:
  assumes "distinct (map seat_seatId (map_seats m))"
  shows "seat_by_id m i = Some s \<longleftrightarrow> s \<in> set (map_seats m) \<and> seat_seatId s = i"
proof
  assume "seat_by_id m i = Some s"
  then show "s \<in> set (map_seats m) \<and> seat_seatId s = i"
    unfolding seat_by_id_def using find_SomeD by fastforce
next
  assume s: "s \<in> set (map_seats m) \<and> seat_seatId s = i"
  then obtain t where t: "seat_by_id m i = Some t"
    unfolding seat_by_id_def by (metis (mono_tags, lifting) find_None_iff not_Some_eq set_rev)
  then have "t \<in> set (map_seats m)" "seat_seatId t = i"
    unfolding seat_by_id_def using find_SomeD by fastforce+
  then show "seat_by_id m i = Some s" using t s assms by (auto simp: distinct_map inj_on_def)
qed

lemma check_seat_links_ok:
  assumes "distinct (map seat_seatId (map_seats m))"
  shows "check_seat_links m s = Inr () \<longleftrightarrow> seat_linked m s"
proof -
  have found: "(\<exists>n \<in> set (map_seats m). seat_seatId n = i \<and> P n) \<longleftrightarrow> (\<exists>n. seat_by_id m i = Some n \<and> P n)" for i P
    by (auto simp: seat_by_id_distinct [OF assms])
  have n: "check_neighbour m s i = Inr () \<longleftrightarrow>
      (\<exists>n \<in> set (map_seats m). seat_seatId n = i \<and> seat_seatId s \<in> set (seat_adjacentSeatIds n))" for i
    by (auto simp: found check_neighbour_def split: option.splits)
  have p: "check_pair m s = Inr () \<longleftrightarrow> (\<forall>i. seat_pairedSeatId s = Some i \<longrightarrow>
      (\<exists>n \<in> set (map_seats m). seat_seatId n = i \<and> seat_pairedSeatId n = Some (seat_seatId s)))"
    by (auto simp: found check_pair_def split: option.splits)
  show ?thesis by (auto simp: check_seat_links_def seat_linked_def result_simps n p)
qed

lemma checkSeatMap_ok: "checkSeatMap m = Inr () \<longleftrightarrow> map_sound m"
proof (cases "distinct (map seat_seatId (map_seats m))")
  case True
  then show ?thesis
    using check_seat_links_ok [OF True]
    by (cases "map_documentedCapacity m") (auto simp: checkSeatMap_def map_sound_def result_simps check_seat_ids_ok)
next
  case False
  then show ?thesis by (auto simp: checkSeatMap_def map_sound_def result_simps check_seat_ids_ok)
qed

subsection \<open>Sound catalogues\<close>

definition service_sound :: "ReservedCatalogue \<Rightarrow> ReservedService \<Rightarrow> bool" where
  "service_sound cat s \<longleftrightarrow>
     svc_serviceClass s \<in> set SERVICE_CLASSES
     \<and> svc_seatMapId s \<in> map_seatMapId ` set (cat_seatMaps cat)
     \<and> svc_fareTableId s \<in> table_fareTableId ` set (cat_fareTables cat)
     \<and> svc_boardingPoints s \<noteq> [] \<and> svc_droppingPoints s \<noteq> []
     \<and> bp_boardingPointId ` set (all_stops s) \<subseteq> bp_boardingPointId ` set (cat_boardingPoints cat)
     \<and> (svc_provenance s = Confirmed \<longrightarrow> 2 \<le> svc_provenanceSourceCount s) \<and> 0 \<le> svc_provenanceSourceCount s
     \<and> (case svc_operatingCorporation s of
          None \<Rightarrow> svc_operatingCorporationBasis s = NoProvenance
        | Some _ \<Rightarrow> svc_operatingCorporationBasis s = Confirmed)
     \<and> 0 \<le> svc_popularity s \<and> svc_popularity s \<le> 1 \<and> 0 \<le> svc_departureMinute s \<and> 0 < svc_runningMinutes s
     \<and> paise_ok (svc_reservationFeePaise s) \<and> paise_ok (svc_tollPaise s)"

text \<open>A published fare is for stops that services of its class, priced by this table, serve.\<close>

definition stop_served :: "ReservedCatalogue \<Rightarrow> FareTable \<Rightarrow> ServiceClass \<Rightarrow> string \<Rightarrow> bool" where
  "stop_served cat t cls p \<longleftrightarrow>
     (\<exists>s \<in> set (cat_services cat). svc_fareTableId s = table_fareTableId t \<and> svc_serviceClass s = cls
        \<and> p \<in> bp_boardingPointId ` set (all_stops s))"

definition cell_sound :: "ReservedCatalogue \<Rightarrow> FareTable \<Rightarrow> FareCell \<Rightarrow> bool" where
  "cell_sound cat t c \<longleftrightarrow> cell_sourcing c \<in> {''V'', ''S'', ''I''} \<and> paise_ok (cell_farePaise c)
     \<and> stop_served cat t (cell_serviceClass c) (cell_fromBoardingPointId c)
     \<and> stop_served cat t (cell_serviceClass c) (cell_toBoardingPointId c)"

definition catalogue_sound :: "ReservedCatalogue \<Rightarrow> bool" where
  "catalogue_sound cat \<longleftrightarrow>
     bp_townCode ` set (cat_boardingPoints cat) \<subseteq> town_code ` set (cat_towns cat)
     \<and> (\<forall>m \<in> set (cat_seatMaps cat). map_sound m)
     \<and> distinct (map svc_serviceId (cat_services cat)) \<and> (\<forall>s \<in> set (cat_services cat). service_sound cat s)
     \<and> (\<forall>t \<in> set (cat_fareTables cat). \<forall>c \<in> set (table_fares t). cell_sound cat t c)"

lemma classes_not_refused: "list_all (\<lambda>c. \<not> class_refused c) SERVICE_CLASSES"
  by code_simp

lemma check_service_ok: "check_service cat s = Inr () \<longleftrightarrow> service_sound cat s"
  using classes_not_refused
  by (cases "svc_operatingCorporation s")
    (auto simp: check_service_def service_sound_def Let_def forEach_append result_simps list_all_iff)

lemma check_services_ok:
  "check_services cat seen ss = Inr () \<longleftrightarrow>
     distinct (map svc_serviceId ss) \<and> set seen \<inter> svc_serviceId ` set ss = {} \<and> (\<forall>s \<in> set ss. service_sound cat s)"
  by (induction ss arbitrary: seen) (auto simp: result_simps check_service_ok)

definition stops_of_class :: "ReservedService list \<Rightarrow> ServiceClass \<Rightarrow> string set" where
  "stops_of_class ss cls = (\<Union>s \<in> {s \<in> set ss. svc_serviceClass s = cls}. bp_boardingPointId ` set (all_stops s))"

lemma fold_add_stops:
  "case fold add_stops ss m cls of
     None \<Rightarrow> m cls = None \<and> (\<forall>s \<in> set ss. svc_serviceClass s \<noteq> cls)
   | Some ps \<Rightarrow> set ps = (case m cls of None \<Rightarrow> {} | Some qs \<Rightarrow> set qs) \<union> stops_of_class ss cls
       \<and> (m cls \<noteq> None \<or> (\<exists>s \<in> set ss. svc_serviceClass s = cls))"
proof (induction ss arbitrary: m)
  case Nil
  then show ?case by (auto simp: stops_of_class_def split: option.splits)
next
  case (Cons s ss)
  show ?case
    using Cons.IH [of "add_stops s m"]
    by (cases "svc_serviceClass s = cls")
      (auto simp: add_stops_def stops_of_class_def split: option.splits)
qed

lemma check_cell_ok:
  "check_cell (table_fareTableId t)
     (reachable_stops (filter (\<lambda>s. svc_fareTableId s = table_fareTableId t) (cat_services cat))) c = Inr ()
   \<longleftrightarrow> cell_sound cat t c"
proof -
  define users where "users = filter (\<lambda>s. svc_fareTableId s = table_fareTableId t) (cat_services cat)"
  have served: "p \<in> stops_of_class users cls \<longleftrightarrow> stop_served cat t cls p" for p cls
    by (auto simp: stops_of_class_def stop_served_def users_def)
  show ?thesis
    using fold_add_stops [where ss = users and m = Map.empty and cls = "cell_serviceClass c"]
    by (cases "reachable_stops users (cell_serviceClass c)")
      (auto simp: check_cell_def cell_sound_def result_simps reachable_stops_def users_def [symmetric] served,
       auto simp: stop_served_def users_def)
qed

lemma catalogue_accepted: "validateReservedCatalogue cat = Inr u \<longleftrightarrow> catalogue_sound cat"
  by (auto simp: validateReservedCatalogue_def catalogue_sound_def result_simps checkSeatMap_ok check_services_ok
      check_fare_table_def Let_def check_cell_ok)

text \<open>C11. A catalogue passes the checks exactly when it is sound: every reference resolves, seat ids and
  service ids are distinct, adjacency and pairing are symmetric and stay on the map, a documented capacity
  is the number of seats, a confirmed claim has its sources, every amount is a whole non-negative number of
  paise, and every published fare is between stops that services of its class serve under its table.\<close>

theorem catalogue_accepted_iff_sound: "validateReservedCatalogue cat = Inr () \<longleftrightarrow> catalogue_sound cat"
  by (rule catalogue_accepted)

subsection \<open>What a source promises the order flow\<close>

locale resolving_source =
  fixes service :: "string \<Rightarrow> ReservedService option"
    and seatMap :: "string \<Rightarrow> SeatMap option"
    and fareTable :: "string \<Rightarrow> FareTable option"
  assumes named: "service i = Some s \<Longrightarrow> svc_serviceId s = i"
    and has_map: "service i = Some s \<Longrightarrow> \<exists>m. seatMap (svc_seatMapId s) = Some m \<and> map_sound m"
    and has_table: "service i = Some s \<Longrightarrow> \<exists>t. fareTable (svc_fareTableId s) = Some t"
begin

lemma map_found:
  assumes "service i = Some s" "src_seatMap (env_source env) = seatMap"
  shows "\<exists>m. seatMapFor env s = Inr m \<and> map_sound m"
  using has_map [OF assms(1)] assms(2) by (auto simp: seatMapFor_def)

lemma table_found:
  assumes "service i = Some s" "src_fareTable (env_source env) = fareTable"
  shows "\<exists>t. fareTableFor env s = Inr t"
  using has_table [OF assms(1)] assms(2) by (auto simp: fareTableFor_def)

text \<open>On a sound map the lock beside a woman is mutual.\<close>

lemma adjacency_mutual:
  assumes "service i = Some s" "seatMap (svc_seatMapId s) = Some m"
    and "x \<in> set (map_seats m)" "y \<in> set (map_seats m)" "seat_seatId y \<in> set (seat_adjacentSeatIds x)"
  shows "seat_seatId x \<in> set (seat_adjacentSeatIds y)"
proof -
  have m: "map_sound m" using has_map [OF assms(1)] assms(2) by simp
  then obtain n where "n \<in> set (map_seats m)" "seat_seatId n = seat_seatId y" "seat_seatId x \<in> set (seat_adjacentSeatIds n)"
    using assms(3,5) unfolding map_sound_def seat_linked_def by blast
  then show ?thesis using m assms(4) by (auto simp: map_sound_def distinct_map inj_on_def)
qed

end

text \<open>A sound catalogue gives such a source.\<close>

lemma find_image: "x \<in> f ` set xs \<Longrightarrow> \<exists>y. List.find (\<lambda>y. f y = x) xs = Some y \<and> y \<in> set xs"
  by (induction xs) auto

lemma sound_resolves:
  assumes "catalogue_sound cat"
  shows "resolving_source (catalogue_service cat) (catalogue_seatMap cat) (catalogue_fareTable cat)"
proof
  fix i s
  assume "catalogue_service cat i = Some s"
  then have s: "s \<in> set (cat_services cat)" "svc_serviceId s = i"
    using find_SomeD by (fastforce simp: catalogue_service_def)+
  show "svc_serviceId s = i" by (rule s(2))
  have ok: "service_sound cat s" using assms s by (simp add: catalogue_sound_def)
  show "\<exists>m. catalogue_seatMap cat (svc_seatMapId s) = Some m \<and> map_sound m"
    using ok find_image [of "svc_seatMapId s" map_seatMapId "cat_seatMaps cat"] assms
    by (auto simp: service_sound_def catalogue_seatMap_def catalogue_sound_def)
  show "\<exists>t. catalogue_fareTable cat (svc_fareTableId s) = Some t"
    using ok find_image [of "svc_fareTableId s" table_fareTableId "cat_fareTables cat"]
    by (auto simp: service_sound_def catalogue_fareTable_def)
qed

text \<open>The catalogue of a provider that started: the fixtures, when they load.\<close>

definition no_catalogue :: "FixtureFiles \<Rightarrow> ReservedCatalogue" where
  "no_catalogue files = \<lparr>cat_operator = ff_operator files, cat_towns = [], cat_boardingPoints = [], cat_services = [],
     cat_seatMaps = [], cat_fareTables = []\<rparr>"

definition started :: "FixtureFiles \<Rightarrow> ReservedCatalogue" where
  "started files = (case fixture_load files of Inl _ \<Rightarrow> no_catalogue files | Inr cat \<Rightarrow> cat)"

lemma accepted_sound: "validateReservedCatalogue cat = Inr u \<Longrightarrow> catalogue_sound cat"
  by (simp add: catalogue_accepted)

lemma fixture_sound: "fixture_load files = Inr cat \<Longrightarrow> catalogue_sound cat"
  unfolding fixture_load_def andThen_eq_Inr by (elim exE conjE) (auto dest: accepted_sound split: sum.splits)

lemma started_sound: "catalogue_sound (started files)"
proof (cases "fixture_load files")
  case (Inl e)
  then show ?thesis by (simp add: started_def no_catalogue_def catalogue_sound_def)
next
  case (Inr cat)
  then show ?thesis using fixture_sound [OF Inr] by (simp add: started_def)
qed

interpretation fixtures: resolving_source "catalogue_service (started files)" "catalogue_seatMap (started files)"
  "catalogue_fareTable (started files)" for files
  by (rule sound_resolves) (rule started_sound)

subsection \<open>The source over http\<close>

text \<open>
  Calls of \<open>catalogue()\<close> may overlap: a fetch begun earlier can settle after one begun later. A state is
  the source, the fetches under way by the instant they began, and the catalogues handed out.
\<close>

record HttpRun =
  hr_source :: HttpSource
  hr_fetching :: "int list"
  hr_given :: "ReservedCatalogue option list"









subsection \<open>A published catalogue\<close>

definition published_service :: ReservedService where
  "published_service = coach_service\<lparr>svc_provenanceSourceCount := 2\<rparr>"

definition coach_catalogue :: "int \<Rightarrow> ReservedCatalogue" where
  "coach_catalogue fare = \<lparr>cat_operator = src_operator coach_source, cat_towns = [\<lparr>town_code = ''BLR'', town_name = ''B'', town_nameLocal = None\<rparr>],
     cat_boardingPoints = [coach_point ''B1'', coach_point ''B2''], cat_services = [published_service], cat_seatMaps = [sample_map],
     cat_fareTables = [coach_fares\<lparr>table_fares := map (\<lambda>c. c\<lparr>cell_farePaise := fare\<rparr>) (table_fares coach_fares)\<rparr>]\<rparr>"

lemma coach_catalogue_accepted:
  "validateReservedCatalogue (coach_catalogue 10000) = Inr ()" "validateReservedCatalogue (coach_catalogue 12000) = Inr ()"
  by code_simp+




definition coach_run :: HttpRun where
  "coach_run = \<lparr>hr_source = \<lparr>hs_cached = Some \<lparr>hc_catalogue = coach_catalogue 10000, hc_fetchedAt = 0\<rparr>, hs_fallbacks = 0\<rparr>,
     hr_fetching = [], hr_given = [Some (coach_catalogue 10000)]\<rparr>"



text \<open>A call within the time to live of the fetch that filled the cache is answered from that fetch,
  whatever a new fetch would give. A call at or after it fetches again: a select and the confirm of the hold it
  took, which lives for ten minutes by default, can be priced against two catalogues with different fares.\<close>

theorem cache_pins_one_window:
  assumes "hs_cached s = Some c"
  shows "(nowMs - hc_fetchedAt c < ttl \<longrightarrow> http_catalogue parse ttl nowMs response s = (Some (hc_catalogue c), s))
   \<and> (ttl \<le> nowMs - hc_fetchedAt c \<longrightarrow> validateReservedCatalogue cat = Inr () \<longrightarrow> parse b = Some cat \<longrightarrow>
        fst (http_catalogue parse ttl nowMs (Body b) s) = Some cat)"
  using assms by (auto simp: http_catalogue_def fresh_def fetch_settled_def)

theorem cache_pins_one_window_witness:
  "fst (http_catalogue Some HTTP_RESERVED_SOURCE_TTL_MS 59999 NoResponse (hr_source coach_run)) = Some (coach_catalogue 10000)
   \<and> fst (http_catalogue Some HTTP_RESERVED_SOURCE_TTL_MS 60000 (Body (coach_catalogue 12000)) (hr_source coach_run)) = Some (coach_catalogue 12000)"
  using cache_pins_one_window [where s = "hr_source coach_run" and c = "\<lparr>hc_catalogue = coach_catalogue 10000, hc_fetchedAt = 0\<rparr>"
      and ttl = HTTP_RESERVED_SOURCE_TTL_MS and parse = Some and nowMs = 59999 and response = NoResponse]
    cache_pins_one_window [where s = "hr_source coach_run" and c = "\<lparr>hc_catalogue = coach_catalogue 10000, hc_fetchedAt = 0\<rparr>"
      and ttl = HTTP_RESERVED_SOURCE_TTL_MS and parse = Some and nowMs = 60000 and b = "coach_catalogue 12000" and cat = "coach_catalogue 12000"]
    coach_catalogue_accepted
  by (simp add: coach_run_def HTTP_RESERVED_SOURCE_TTL_MS_def)

end
