(* ===== verification/Journey_Source.thy ===== *)
theory Journey_Source
  imports Reserved_Source Trv11_Catalog
begin

text \<open>
  Where the offers of single journeys come from (\<open>src/src/sources\<close>): the checks of a set of offers
  (\<open>validate.ts\<close>), the fixture source that finds an offer by stop code or by nearest stop (\<open>fixture.ts\<close>),
  and the source over http with the fixtures underneath (\<open>http.ts\<close>). Coordinates and distances are
  doubles; the functions of \<open>Math\<close> are those of the host, \<open>None\<close> standing for \<open>NaN\<close>.
\<close>

subsection \<open>Checks of a set of offers\<close>

datatype OfferFault = OfferShape | DuplicateOffer string | OfferFare | OfferValidity OrderError

definition check_offer :: "string list \<Rightarrow> TransitOffer \<Rightarrow> OfferFault + unit" where
  "check_offer seen offer =
     andThen (ensure (of_offerId offer \<noteq> [] \<and> 2 \<le> length (of_route offer)) OfferShape) (\<lambda>_.
     andThen (ensure (of_offerId offer \<notin> set seen) (DuplicateOffer (of_offerId offer))) (\<lambda>_.
     andThen (ensure (isSafeInteger (of_farePaise offer) \<and> 0 \<le> of_farePaise offer) OfferFare) (\<lambda>_.
       case durationMilliseconds (of_validity offer) of Inl e \<Rightarrow> Inl (OfferValidity e) | Inr _ \<Rightarrow> Inr ())))"

fun check_offers :: "string list \<Rightarrow> TransitOffer list \<Rightarrow> OfferFault + unit" where
  "check_offers seen [] = Inr ()"
| "check_offers seen (offer # offers) =
     andThen (check_offer seen offer) (\<lambda>_. check_offers (of_offerId offer # seen) offers)"

definition validateOfferSet :: "TransitOffer list \<Rightarrow> OfferFault + unit" where
  "validateOfferSet offers = check_offers [] offers"

subsection \<open>Distances\<close>

record MathHost =
  mh_sin :: "rat \<Rightarrow> rat"
  mh_cos :: "rat \<Rightarrow> rat"
  mh_pow :: "rat \<Rightarrow> nat \<Rightarrow> rat"
  mh_sqrt :: "rat \<Rightarrow> rat option"
  mh_asin :: "rat \<Rightarrow> rat option"

definition EARTH_RADIUS_KM :: rat where "EARTH_RADIUS_KM = 6371"

text \<open>\<open>Math.PI\<close>, the double nearest to the ratio.\<close>

definition MATH_PI :: rat where "MATH_PI = 884279719003555 / 2 ^ 48"

definition radians :: "rat \<Rightarrow> rat" where
  "radians degrees = fl (fl (degrees * MATH_PI) / 180)"

definition haversineKm :: "MathHost \<Rightarrow> rat \<times> rat \<Rightarrow> rat \<times> rat \<Rightarrow> rat option" where
  "haversineKm m p q =
     (let (p_lat, p_lon) = p; (q_lat, q_lon) = q;
          latitudeDelta = radians (fl (q_lat - p_lat)); longitudeDelta = radians (fl (q_lon - p_lon));
          fromLatitude = radians p_lat; toLatitude = radians q_lat;
          a = fl (mh_pow m (mh_sin m (fl (latitudeDelta / 2))) 2
                + fl (fl (mh_cos m fromLatitude * mh_cos m toLatitude) * mh_pow m (mh_sin m (fl (longitudeDelta / 2))) 2))
      in Option.bind (mh_sqrt m a) (\<lambda>r. map_option (\<lambda>x. fl (fl (2 * EARTH_RADIUS_KM) * x)) (mh_asin m r)))"

subsection \<open>The fixture source\<close>

definition normalized :: "string \<Rightarrow> string" where
  "normalized s = toUpperCase (trim s)"

text \<open>\<open>findIndex\<close>; \<open>None\<close> is -1.\<close>

fun find_index :: "('a \<Rightarrow> bool) \<Rightarrow> 'a list \<Rightarrow> nat option" where
  "find_index P [] = None"
| "find_index P (x # xs) = (if P x then Some 0 else map_option Suc (find_index P xs))"

definition codeIndex :: "RouteStop list \<Rightarrow> string \<Rightarrow> nat option" where
  "codeIndex route code = find_index (\<lambda>stop. map_option normalized (rs_code stop) = Some (normalized code)) route"

text \<open>The nearest stop so far: no index and an infinite distance at first.\<close>

definition nearer :: "MathHost \<Rightarrow> rat \<times> rat \<Rightarrow> (nat \<times> rat) option \<Rightarrow> nat \<times> RouteStop \<Rightarrow> (nat \<times> rat) option" where
  "nearer m point best indexed =
     (case haversineKm m point (rs_lat (snd indexed), rs_lon (snd indexed)) of
        None \<Rightarrow> best
      | Some d \<Rightarrow> (case best of None \<Rightarrow> Some (fst indexed, d)
                  | Some (i, b) \<Rightarrow> if d < b then Some (fst indexed, d) else best))"

definition nearestIndex :: "MathHost \<Rightarrow> RouteStop list \<Rightarrow> rat \<times> rat \<Rightarrow> (nat \<times> rat) option" where
  "nearestIndex m route point = foldl (nearer m point) None (List.enumerate 0 route)"

definition sliceOffer :: "TransitOffer \<Rightarrow> nat option \<Rightarrow> nat option \<Rightarrow> TransitOffer option" where
  "sliceOffer offer fromIndex toIndex =
     (case (fromIndex, toIndex) of
        (Some f, Some t) \<Rightarrow>
          if t \<le> f then None else Some (offer\<lparr>of_route := drop f (take (t + 1) (of_route offer))\<rparr>)
      | _ \<Rightarrow> None)"

record FixtureJourneySource =
  fj_offers :: "TransitOffer list"
  fj_operator :: OperatorProfile
  fj_radiusKm :: rat

text \<open>A fixture file as parsed; the fare of an offer on disk is the fare of its whole route.\<close>

record FixtureFile =
  jf_operator :: "OperatorProfile option"
  jf_offers :: "TransitOffer list option"

datatype FixtureError = InvalidFixture | InvalidOffers OfferFault

definition journey_load :: "FixtureFile \<Rightarrow> rat \<Rightarrow> FixtureError + FixtureJourneySource" where
  "journey_load source_file radiusKm =
     andThen (required (jf_operator source_file) InvalidFixture) (\<lambda>operator.
     andThen (required (jf_offers source_file) InvalidFixture) (\<lambda>offers.
       case validateOfferSet offers of
         Inl f \<Rightarrow> Inl (InvalidOffers f)
       | Inr _ \<Rightarrow> Inr \<lparr>fj_offers = offers, fj_operator = operator, fj_radiusKm = radiusKm\<rparr>))"

definition nearestStopIndex :: "MathHost \<Rightarrow> rat \<Rightarrow> RouteStop list \<Rightarrow> rat \<times> rat \<Rightarrow> nat option" where
  "nearestStopIndex m radiusKm route point =
     (case nearestIndex m route point of None \<Rightarrow> None | Some (i, d) \<Rightarrow> if d \<le> radiusKm then Some i else None)"

text \<open>The stop of a route an endpoint names: by its code when it gives one, otherwise by its point.\<close>

definition end_index :: "MathHost \<Rightarrow> rat \<Rightarrow> RouteStop list \<Rightarrow> string option \<Rightarrow> (rat \<times> rat) option \<Rightarrow> nat option" where
  "end_index m radiusKm route code gps =
     (if truthy code then codeIndex route (the code)
      else case gps of None \<Rightarrow> None | Some point \<Rightarrow> nearestStopIndex m radiusKm route point)"

definition match_offer :: "MathHost \<Rightarrow> rat \<Rightarrow> SearchQuery \<Rightarrow> TransitOffer \<Rightarrow> TransitOffer option" where
  "match_offer m radiusKm query offer = sliceOffer offer
     (end_index m radiusKm (of_route offer) (sq_fromCode query) (sq_fromGps query))
     (end_index m radiusKm (of_route offer) (sq_toCode query) (sq_toGps query))"

definition fixture_search :: "MathHost \<Rightarrow> FixtureJourneySource \<Rightarrow> SearchQuery \<Rightarrow> TransitOffer list" where
  "fixture_search m source query =
     (let hasFrom = (truthy (sq_fromCode query) \<or> sq_fromGps query \<noteq> None);
          hasTo = (truthy (sq_toCode query) \<or> sq_toGps query \<noteq> None)
      in if hasFrom \<and> hasTo then List.map_filter (match_offer m (fj_radiusKm source) query) (fj_offers source)
         else fj_offers source)"

subsection \<open>The source over http\<close>

record Endpoint =
  ep_code :: "string option"
  ep_gps :: "(rat \<times> rat) option"

definition endpoint :: "string option \<Rightarrow> (rat \<times> rat) option \<Rightarrow> Endpoint" where
  "endpoint code gps = \<lparr>ep_code = (if truthy code then code else None), ep_gps = gps\<rparr>"

record SourceRequest =
  sq_operator :: PassOperatorKey
  sq_from :: Endpoint
  sq_to :: Endpoint
  sq_depart :: string

definition source_request :: "PassOperatorKey \<Rightarrow> int \<Rightarrow> SearchQuery \<Rightarrow> SourceRequest" where
  "source_request operatorKey nowMs query =
     \<lparr>sq_operator = operatorKey, sq_from = endpoint (sq_fromCode query) (sq_fromGps query),
      sq_to = endpoint (sq_toCode query) (sq_toGps query),
      sq_depart = (case sq_departAt query of None \<Rightarrow> toISOString nowMs | Some d \<Rightarrow> d)\<rparr>"

text \<open>The answer of the peer to a request, and the offers a body that passes the schema carries.\<close>

definition http_search ::
    "(SourceRequest \<Rightarrow> 'b Fetched) \<Rightarrow> ('b \<Rightarrow> TransitOffer list option) \<Rightarrow> PassOperatorKey \<Rightarrow> int
      \<Rightarrow> (SearchQuery \<Rightarrow> TransitOffer list) \<Rightarrow> SearchQuery \<Rightarrow> TransitOffer list" where
  "http_search peer parse operatorKey nowMs fallback query =
     (case peer (source_request operatorKey nowMs query) of
        Body b \<Rightarrow>
          (case parse b of
             None \<Rightarrow> fallback query
           | Some offers \<Rightarrow> (case validateOfferSet offers of Inl _ \<Rightarrow> fallback query | Inr _ \<Rightarrow> offers))
      | _ \<Rightarrow> fallback query)"

end
