(* ===== verification/Journey_Properties.thy ===== *)
theory Journey_Properties
  imports Journey_Source Trv11_Orders
begin

text \<open>
  What a journey source promises the order service: whatever the query, and whatever the peer answers,
  the offers it hands over are a set that passed the checks, with distinct ids and fares that are whole
  numbers of paise. The promise is the locale \<open>offer_source\<close>, interpreted on both sources. An offer
  found for a pair of ends is a stretch of a loaded route, in the direction of travel.
\<close>

subsection \<open>Valid sets\<close>

definition offer_ok :: "TransitOffer \<Rightarrow> bool" where
  "offer_ok offer \<longleftrightarrow> of_offerId offer \<noteq> [] \<and> 2 \<le> length (of_route offer) \<and> isSafeInteger (of_farePaise offer)
     \<and> 0 \<le> of_farePaise offer \<and> (\<exists>ms. durationMilliseconds (of_validity offer) = Inr ms)"

definition offers_ok :: "TransitOffer list \<Rightarrow> bool" where
  "offers_ok offers \<longleftrightarrow> distinct (map of_offerId offers) \<and> (\<forall>offer \<in> set offers. offer_ok offer)"

lemma check_offer_ok: "check_offer seen offer = Inr () \<longleftrightarrow> of_offerId offer \<notin> set seen \<and> offer_ok offer"
  by (auto simp: check_offer_def offer_ok_def result_simps split: sum.splits)

lemma check_offers_ok:
  "check_offers seen offers = Inr () \<longleftrightarrow> offers_ok offers \<and> set seen \<inter> of_offerId ` set offers = {}"
  by (induction offers arbitrary: seen) (auto simp: result_simps check_offer_ok offers_ok_def)

lemma valid_offers: "validateOfferSet offers = Inr () \<longleftrightarrow> offers_ok offers"
  by (simp add: validateOfferSet_def check_offers_ok)

lemma accepted_offers: "validateOfferSet offers = Inr u \<Longrightarrow> offers_ok offers"
  by (simp add: valid_offers)

locale offer_source =
  fixes search :: "SearchQuery \<Rightarrow> TransitOffer list"
  assumes offers: "offers_ok (search q)"
begin

text \<open>The catalogue a search caches returns each offer under its id.\<close>

lemma cached:
  assumes "offer \<in> set (search q)"
  shows "map_of (rev (map (\<lambda>offer. (of_offerId offer, offer)) (search q))) (of_offerId offer) = Some offer"
proof -
  have d: "distinct (map of_offerId (search q))" using offers by (simp add: offers_ok_def)
  then have "distinct (map fst (rev (map (\<lambda>offer. (of_offerId offer, offer)) (search q))))"
    by (simp add: rev_map [symmetric] comp_def)
  then show ?thesis using assms by (intro map_of_is_SomeI) auto
qed

lemma priced: "offer \<in> set (search q) \<Longrightarrow> \<exists>price. fareToRupees (of_farePaise offer) = Inr price"
  using offers [of q] by (auto simp: offers_ok_def offer_ok_def fareToRupees_def Let_def)

end

subsection \<open>Stretches of a route\<close>

lemma sliceOffer_cases:
  assumes "sliceOffer offer f t = Some found"
  obtains i j where "f = Some i" "t = Some j" "i < j" "found = offer\<lparr>of_route := drop i (take (j + 1) (of_route offer))\<rparr>"
  using assms by (auto simp: sliceOffer_def split: option.splits if_splits)

lemma find_index_Some: "find_index P xs = Some i \<Longrightarrow> i < length xs \<and> P (xs ! i) \<and> (\<forall>j < i. \<not> P (xs ! j))"
  by (induction P xs arbitrary: i rule: find_index.induct) (auto simp: less_Suc_eq_0_disj split: if_splits)

definition best_of :: "MathHost \<Rightarrow> rat \<times> rat \<Rightarrow> RouteStop list \<Rightarrow> (nat \<times> rat) option \<Rightarrow> bool" where
  "best_of m point route best \<longleftrightarrow>
     (\<forall>i d. best = Some (i, d) \<longrightarrow> i < length route
        \<and> haversineKm m point (rs_lat (route ! i), rs_lon (route ! i)) = Some d)
     \<and> (\<forall>k < length route. \<forall>e. haversineKm m point (rs_lat (route ! k), rs_lon (route ! k)) = Some e \<longrightarrow>
          (\<exists>i d. best = Some (i, d) \<and> d \<le> e))"

lemma nearer_best:
  assumes "best_of m point route best"
  shows "best_of m point (route @ [stop]) (nearer m point best (length route, stop))"
proof (cases "haversineKm m point (rs_lat stop, rs_lon stop)")
  case None
  then show ?thesis using assms by (auto simp: best_of_def nearer_def nth_append less_Suc_eq)
next
  case (Some d)
  show ?thesis
  proof (cases best)
    case None
    then show ?thesis using assms Some by (auto simp: best_of_def nearer_def nth_append less_Suc_eq)
  next
    case (Some b)
    obtain i e where b: "b = (i, e)" by force
    have far: "e \<le> x" if "k < length route" "haversineKm m point (rs_lat (route ! k), rs_lon (route ! k)) = Some x" for k x
      using assms that unfolding best_of_def Some b by auto
    have near: "i < length route" "haversineKm m point (rs_lat (route ! i), rs_lon (route ! i)) = Some e"
      using assms unfolding best_of_def Some b by auto
    show ?thesis
    proof (cases "d < e")
      case True
      then have "nearer m point best (length route, stop) = Some (length route, d)"
        using \<open>haversineKm m point (rs_lat stop, rs_lon stop) = Some d\<close> by (simp add: nearer_def Some b)
      then show ?thesis
        using \<open>haversineKm m point (rs_lat stop, rs_lon stop) = Some d\<close> True
        by (auto simp: best_of_def nth_append less_Suc_eq dest!: far)
    next
      case False
      then have "nearer m point best (length route, stop) = Some (i, e)"
        using \<open>haversineKm m point (rs_lat stop, rs_lon stop) = Some d\<close> by (simp add: nearer_def Some b)
      then show ?thesis
        using \<open>haversineKm m point (rs_lat stop, rs_lon stop) = Some d\<close> False near
        by (auto simp: best_of_def nth_append less_Suc_eq dest!: far)
    qed
  qed
qed

lemma nearestIndex_best: "best_of m point route (nearestIndex m route point)"
proof (induction route rule: rev_induct)
  case Nil
  then show ?case by (simp add: best_of_def nearestIndex_def)
next
  case (snoc stop route)
  then show ?case using nearer_best by (simp add: nearestIndex_def enumerate_append_eq)
qed

text \<open>Where an endpoint is on a route: at the stop with its code, or at a stop within the radius, no other being nearer.\<close>

definition stop_meets :: "MathHost \<Rightarrow> rat \<Rightarrow> RouteStop list \<Rightarrow> string option \<Rightarrow> (rat \<times> rat) option \<Rightarrow> nat \<Rightarrow> bool" where
  "stop_meets m radiusKm route code gps i \<longleftrightarrow> i < length route \<and>
     (if truthy code then map_option normalized (rs_code (route ! i)) = Some (normalized (the code))
      else \<exists>point d. gps = Some point \<and> haversineKm m point (rs_lat (route ! i), rs_lon (route ! i)) = Some d \<and> d \<le> radiusKm
        \<and> (\<forall>k < length route. \<forall>e. haversineKm m point (rs_lat (route ! k), rs_lon (route ! k)) = Some e \<longrightarrow> d \<le> e))"

lemma end_index_meets:
  assumes "end_index m radiusKm route code gps = Some i"
  shows "stop_meets m radiusKm route code gps i"
proof (cases "truthy code")
  case True
  then show ?thesis using assms find_index_Some by (fastforce simp: end_index_def codeIndex_def stop_meets_def)
next
  case False
  then obtain point d where p: "gps = Some point" "nearestIndex m route point = Some (i, d)" "d \<le> radiusKm"
    using assms by (auto simp: end_index_def nearestStopIndex_def split: option.splits if_splits)
  show ?thesis
    using nearestIndex_best [of m point route] p False unfolding stop_meets_def best_of_def by auto
qed

text \<open>C20. An offer found for a pair of ends is a loaded offer whose route is cut to the stretch between two of
  its stops, the first before the last: a rider never boards after alighting. Each end is the stop with the
  code that was asked for, or, for a point, the nearest stop of the route, within the radius.\<close>

theorem found_offers_run_from_start_to_end:
  assumes "found \<in> set (fixture_search m source query)"
    and "truthy (sq_fromCode query) \<or> sq_fromGps query \<noteq> None" and "truthy (sq_toCode query) \<or> sq_toGps query \<noteq> None"
  shows "\<exists>offer i j. offer \<in> set (fj_offers source) \<and> i < j
     \<and> found = offer\<lparr>of_route := drop i (take (j + 1) (of_route offer))\<rparr> \<and> length (of_route found) = j + 1 - i
     \<and> stop_meets m (fj_radiusKm source) (of_route offer) (sq_fromCode query) (sq_fromGps query) i
     \<and> stop_meets m (fj_radiusKm source) (of_route offer) (sq_toCode query) (sq_toGps query) j"
proof -
  obtain offer where o: "offer \<in> set (fj_offers source)" "match_offer m (fj_radiusKm source) query offer = Some found"
    using assms by (auto simp: fixture_search_def map_filter_def)
  from o(2) obtain i j where ij:
    "end_index m (fj_radiusKm source) (of_route offer) (sq_fromCode query) (sq_fromGps query) = Some i"
    "end_index m (fj_radiusKm source) (of_route offer) (sq_toCode query) (sq_toGps query) = Some j"
    "i < j" "found = offer\<lparr>of_route := drop i (take (j + 1) (of_route offer))\<rparr>"
    unfolding match_offer_def by (rule sliceOffer_cases)
  note meets = ij(1,2) [THEN end_index_meets]
  have "length (of_route found) = j + 1 - i" using meets(2) by (auto simp: ij(4) stop_meets_def)
  then show ?thesis using o(1) ij(3,4) meets by blast
qed

subsection \<open>Both sources keep the promise\<close>

lemma match_offer_ok: "match_offer m r query offer = Some found \<Longrightarrow> offer_ok offer \<Longrightarrow>
    offer_ok found \<and> of_offerId found = of_offerId offer"
  unfolding match_offer_def by (erule sliceOffer_cases) (auto simp: offer_ok_def dest!: end_index_meets simp: stop_meets_def)

lemma filtered_ids:
  assumes "\<And>x y. x \<in> set xs \<Longrightarrow> f x = Some y \<Longrightarrow> g y = g x" and "distinct (map g xs)"
  shows "distinct (map g (List.map_filter f xs))"
  using assms
proof (induction xs)
  case (Cons x xs)
  have fresh: "g y \<noteq> g x" if "y \<in> set (List.map_filter f xs)" for y
    using that Cons.prems by (force simp: map_filter_def)
  show ?case
  proof (cases "f x")
    case (Some y)
    have "g y = g x" using Cons.prems(1) Some by simp
    then show ?thesis using Cons fresh Some by (force simp: map_filter_simps)
  qed (use Cons in \<open>simp add: map_filter_simps\<close>)
qed (simp add: map_filter_simps)

lemma fixture_search_ok:
  assumes "offers_ok (fj_offers source)"
  shows "offers_ok (fixture_search m source query)"
proof (cases "(truthy (sq_fromCode query) \<or> sq_fromGps query \<noteq> None) \<and> (truthy (sq_toCode query) \<or> sq_toGps query \<noteq> None)")
  case True
  then have s: "fixture_search m source query = List.map_filter (match_offer m (fj_radiusKm source) query) (fj_offers source)"
    by (simp add: fixture_search_def)
  show ?thesis
    unfolding offers_ok_def s
  proof
    show "distinct (map of_offerId (List.map_filter (match_offer m (fj_radiusKm source) query) (fj_offers source)))"
      using assms match_offer_ok by (intro filtered_ids) (auto simp: offers_ok_def)
    show "\<forall>offer \<in> set (List.map_filter (match_offer m (fj_radiusKm source) query) (fj_offers source)). offer_ok offer"
      using assms match_offer_ok by (force simp: offers_ok_def map_filter_def)
  qed
next
  case False
  then show ?thesis using assms by (auto simp: fixture_search_def)
qed

text \<open>The source of a process that started on a fixture file.\<close>

definition loaded :: "FixtureFile \<Rightarrow> OperatorProfile \<Rightarrow> rat \<Rightarrow> FixtureJourneySource" where
  "loaded source_file operator radiusKm = (case journey_load source_file radiusKm of
     Inl _ \<Rightarrow> \<lparr>fj_offers = [], fj_operator = operator, fj_radiusKm = radiusKm\<rparr> | Inr source \<Rightarrow> source)"

lemma journey_load_ok: "journey_load source_file radiusKm = Inr source \<Longrightarrow> offers_ok (fj_offers source)"
  unfolding journey_load_def andThen_eq_Inr required_eq by (elim exE conjE) (auto dest: accepted_offers split: sum.splits)

lemma loaded_ok: "offers_ok (fj_offers (loaded source_file operator radiusKm))"
proof (cases "journey_load source_file radiusKm")
  case (Inl e)
  then show ?thesis by (simp add: loaded_def offers_ok_def)
next
  case (Inr source)
  then show ?thesis using journey_load_ok [OF Inr] by (simp add: loaded_def)
qed

interpretation fixture_journeys: offer_source "fixture_search m (loaded source_file operator radiusKm)" for m source_file operator radiusKm
  by unfold_locales (rule fixture_search_ok [OF loaded_ok])

interpretation http_journeys: offer_source
  "http_search peer parse operatorKey nowMs (fixture_search m (loaded source_file operator radiusKm))"
  for peer parse operatorKey nowMs m source_file operator radiusKm
  by unfold_locales
    (auto simp: http_search_def fixture_journeys.offers split: Fetched.splits option.splits sum.splits dest: accepted_offers)

text \<open>C19. Whatever a peer over http answers (nothing, an error, a body of another shape, offers that repeat an id,
  cost a negative fare or run to a single stop), the search is answered with offers that passed the checks,
  and once their catalogue is cached each of them can be selected by its id: the selection reads back that offer.\<close>

theorem peer_cannot_break_a_search:
  assumes "offer \<in> set (http_search peer parse operatorKey nowMs (fixture_search m (loaded source_file operator radiusKm)) query)"
  shows "offer_ok offer \<and> selectedOffers key idn [of_offerId offer] (store_cacheCatalogue key idn
      (http_search peer parse operatorKey nowMs (fixture_search m (loaded source_file operator radiusKm)) query) st) = Inr [offer]"
  using assms http_journeys.cached [OF assms] http_journeys.offers [of peer parse operatorKey nowMs m source_file operator radiusKm query]
  by (simp add: selectedOffers_def store_cacheCatalogue_def offers_ok_def)

subsection \<open>One line\<close>

definition line_stop :: "string \<Rightarrow> RouteStop" where
  "line_stop c = \<lparr>rs_code = Some c, rs_name = c, rs_nameLocal = None, rs_lat = 0, rs_lon = 0, rs_isInterchange = False,
     rs_changeHint = None\<rparr>"

definition line_offer :: TransitOffer where
  "line_offer = \<lparr>of_offerId = ''L'', of_productCode = ''SJT'', of_productName = ''Ticket'', of_farePaise = 1000,
     of_serviceTier = None, of_validity = ''PT1H'', of_route = map line_stop [''A'', ''B'', ''C''], of_routeId = ''R'',
     of_routeName = ''Line'', of_routeColor = None\<rparr>"

definition line_operator :: OperatorProfile where
  "line_operator = \<lparr>op_id = ''OP'', op_name = ''Operator'', op_vehicleCategory = BUS_VEHICLE, op_startHHMM = ''05:00'',
     op_endHHMM = ''23:00''\<rparr>"

definition line_file :: FixtureFile where
  "line_file = \<lparr>jf_operator = Some line_operator, jf_offers = Some [line_offer]\<rparr>"

definition line_query :: SearchQuery where
  "line_query = \<lparr>sq_fromCode = Some '' b'', sq_toCode = Some ''C'', sq_fromGps = None, sq_toGps = None, sq_departAt = None,
     sq_cityCode = ''std:080''\<rparr>"

definition flat_math :: MathHost where
  "flat_math = \<lparr>mh_sin = (\<lambda>x. x), mh_cos = (\<lambda>x. 1), mh_pow = (\<lambda>x n. x ^ n), mh_sqrt = Some, mh_asin = Some\<rparr>"

lemma line_loaded: "loaded line_file line_operator 3 = \<lparr>fj_offers = [line_offer], fj_operator = line_operator, fj_radiusKm = 3\<rparr>"
proof -
  have "validateOfferSet [line_offer] = Inr ()" by code_simp
  then show ?thesis by (simp add: loaded_def journey_load_def line_file_def)
qed

lemma line_found:
  "fixture_search flat_math (loaded line_file line_operator 3) line_query = [line_offer\<lparr>of_route := map line_stop [''B'', ''C'']\<rparr>]"
  unfolding line_loaded by code_simp

theorem found_offers_run_from_start_to_end_witness:
  "\<exists>offer i j. offer \<in> set (fj_offers (loaded line_file line_operator 3)) \<and> i < j
     \<and> line_offer\<lparr>of_route := map line_stop [''B'', ''C'']\<rparr> = offer\<lparr>of_route := drop i (take (j + 1) (of_route offer))\<rparr>"
  using found_offers_run_from_start_to_end [where m = flat_math and source = "loaded line_file line_operator 3"
      and query = line_query and found = "line_offer\<lparr>of_route := map line_stop [''B'', ''C'']\<rparr>"]
  unfolding line_found by (auto simp: line_query_def truthy_def)

definition line_rider :: TransactionIdentity where
  "line_rider = \<lparr>ti_transactionId = ''T'', ti_bapId = ''bap'', ti_bapUri = ''uri''\<rparr>"

theorem peer_cannot_break_a_search_witness:
  "offer_ok (line_offer\<lparr>of_route := map line_stop [''B'', ''C'']\<rparr>)
   \<and> selectedOffers Bmtc line_rider [''L''] (store_cacheCatalogue Bmtc line_rider
        (http_search (\<lambda>_. Body [line_offer, line_offer]) Some Bmtc 0
          (fixture_search flat_math (loaded line_file line_operator 3)) line_query) empty_store)
      = Inr [line_offer\<lparr>of_route := map line_stop [''B'', ''C'']\<rparr>]"
proof -
  have "\<not> offers_ok [line_offer, line_offer]" by (simp add: offers_ok_def)
  then obtain f where "validateOfferSet [line_offer, line_offer] = Inl f"
    by (cases "validateOfferSet [line_offer, line_offer]") (auto dest: accepted_offers)
  then have s: "http_search (\<lambda>_. Body [line_offer, line_offer]) Some Bmtc 0
      (fixture_search flat_math (loaded line_file line_operator 3)) line_query = [line_offer\<lparr>of_route := map line_stop [''B'', ''C'']\<rparr>]"
    by (simp add: http_search_def line_found)
  show ?thesis
    using peer_cannot_break_a_search [where peer = "\<lambda>_. Body [line_offer, line_offer]" and parse = Some and operatorKey = Bmtc
        and nowMs = 0 and m = flat_math and source_file = line_file and operator = line_operator and radiusKm = 3
        and query = line_query and offer = "line_offer\<lparr>of_route := map line_stop [''B'', ''C'']\<rparr>" and key = Bmtc
        and idn = line_rider and st = empty_store]
    by (simp add: s) (simp add: line_offer_def)
qed

end
