(* ===== verification/Protocol_Wire.thy ===== *)
theory Protocol_Wire
  imports Json
begin

text \<open>
  What the three categories share on the wire: optional chaining into a payload, \<open>JSON.stringify\<close> and
  \<open>String\<close> of a JSON value, the acknowledgements of \<open>src/src/protocol/ack.ts\<close>, the post of a callback
  of \<open>dispatch.ts\<close>, the result of a compiled schema of \<open>validate.ts\<close>, and the address a callback is
  posted to. A compiled schema is a function from a payload to its result; the schema documents are
  data.
\<close>

subsection \<open>Payloads\<close>

text \<open>\<open>v?.k1?.k2\<close>.\<close>

fun path :: "json option \<Rightarrow> string list \<Rightarrow> json option" where
  "path v [] = v"
| "path None (k # ks) = None"
| "path (Some v) (k # ks) = path (field v k) ks"

definition json_truthy :: "json option \<Rightarrow> bool" where
  "json_truthy v \<longleftrightarrow> v \<notin> {None, Some JNull, Some (JBool False), Some (JNum 0), Some (JStr [])}"

text \<open>One character of a quoted string: the short escapes, a control character in hexadecimal, or itself.\<close>

definition hex_digit :: "nat \<Rightarrow> char" where
  "hex_digit n = ''0123456789abcdef'' ! n"

definition quoted_char :: "char \<Rightarrow> string" where
  "quoted_char c =
     (let n = (of_char c :: nat); bs = char_of (92 :: nat) in
      if n = 34 \<or> n = 92 then [bs, c]
      else if n = 8 then [bs, CHR ''b'']
      else if n = 9 then [bs, CHR ''t'']
      else if n = 10 then [bs, CHR ''n'']
      else if n = 12 then [bs, CHR ''f'']
      else if n = 13 then [bs, CHR ''r'']
      else if n < 32 then [bs] @ ''u00'' @ [hex_digit (n div 16), hex_digit (n mod 16)]
      else [c])"

definition quoted :: "string \<Rightarrow> string" where
  "quoted s = [char_of (34 :: nat)] @ concat (map quoted_char s) @ [char_of (34 :: nat)]"

definition joined :: "string \<Rightarrow> string list \<Rightarrow> string" where
  "joined sep ss = (case ss of [] \<Rightarrow> [] | s # rest \<Rightarrow> s @ concat (map (\<lambda>t. sep @ t) rest))"

fun stringify :: "json \<Rightarrow> string" where
  "stringify JNull = ''null''"
| "stringify (JBool b) = (if b then ''true'' else ''false'')"
| "stringify (JNum n) = string_of_int n"
| "stringify (JStr s) = quoted s"
| "stringify (JArr vs) = ''['' @ joined '','' (map stringify vs) @ '']''"
| "stringify (JObj kvs) = ''{'' @ joined '','' (map (\<lambda>(k, v). quoted k @ '':'' @ stringify v) kvs) @ ''}''"

text \<open>\<open>String(v)\<close>; an array joins its elements, of which null is the empty string.\<close>

fun js_text :: "json \<Rightarrow> string" where
  "js_text JNull = ''null''"
| "js_text (JBool b) = (if b then ''true'' else ''false'')"
| "js_text (JNum n) = string_of_int n"
| "js_text (JStr s) = s"
| "js_text (JArr vs) = joined '','' (map (\<lambda>v. if v = JNull then [] else js_text v) vs)"
| "js_text (JObj kvs) = ''[object Object]''"

definition js_text_option :: "json option \<Rightarrow> string" where
  "js_text_option v = (case v of None \<Rightarrow> ''undefined'' | Some w \<Rightarrow> js_text w)"

text \<open>A string a schema requires at a place of the payload.\<close>

definition text_at :: "json \<Rightarrow> string list \<Rightarrow> string" where
  "text_at v ks = (case path (Some v) ks of Some (JStr s) \<Rightarrow> s | _ \<Rightarrow> [])"

definition text_option_at :: "json \<Rightarrow> string list \<Rightarrow> string option" where
  "text_option_at v ks = (case path (Some v) ks of Some (JStr s) \<Rightarrow> Some s | _ \<Rightarrow> None)"

definition list_option_at :: "json \<Rightarrow> string list \<Rightarrow> json list option" where
  "list_option_at v ks = (case path (Some v) ks of Some (JArr xs) \<Rightarrow> Some xs | _ \<Rightarrow> None)"

text \<open>\<open>{...v, k1: w1, k2: w2}\<close>.\<close>

definition spread :: "json \<Rightarrow> (string \<times> json) list \<Rightarrow> json" where
  "spread v kvs = fold (\<lambda>(k, w). set_field k w) kvs v"

subsection \<open>Acknowledgements\<close>

record ValidationResult =
  vr_valid :: bool
  vr_errors :: json

definition ack_status :: "string \<Rightarrow> json" where
  "ack_status status = JObj [(''ack'', JObj [(''status'', JStr status)])]"

definition ack :: json where
  "ack = JObj [(''message'', ack_status ''ACK'')]"

definition nack :: "string \<Rightarrow> json option \<Rightarrow> json" where
  "nack message data = JObj
     [(''message'', ack_status ''NACK''),
      (''error'', JObj ([(''code'', JStr ''40000''), (''type'', JStr ''JSON-SCHEMA-ERROR''), (''message'', JStr message)]
                        @ opt_field ''data'' data))]"

record Response =
  re_status :: nat
  re_body :: json

subsection \<open>Posting a callback\<close>

text \<open>
  What posting comes to: no answer (the reason of the network or of the deadline), or a status with the
  body as text and as parsed, when it parses. \<open>response.ok\<close> is a status from 200 to 299.
\<close>

datatype Posted = Unreachable string | Answered nat string "json option"

definition dispatchCallback :: "string \<Rightarrow> Posted \<Rightarrow> string + unit" where
  "dispatchCallback url posted =
     (case posted of
        Unreachable reason \<Rightarrow> Inl reason
      | Answered status body parsed \<Rightarrow>
          andThen (ensure (200 \<le> status \<and> status \<le> 299)
            (''Callback '' @ url @ '' failed with HTTP '' @ digits10 status @ '': '' @ take 1000 body)) (\<lambda>_.
          andThen (required parsed (''Callback '' @ url @ '' returned invalid JSON'')) (\<lambda>v.
            if v = JNull then Inl ''Cannot read properties of null (reading 'message')''
            else let status = path (Some v) [''message'', ''ack'', ''status''] in
              ensure (status = Some (JStr ''ACK''))
                (''Callback '' @ url @ '' was not acknowledged (status '' @ js_text_option status @ '')''))))"

subsection \<open>The address of a callback\<close>

text \<open>A parsed URL: what stands before its path (scheme and host), its path, and its query and fragment.\<close>

record Url =
  url_origin :: string
  url_pathname :: string
  url_rest :: string

definition url_text :: "Url \<Rightarrow> string" where
  "url_text u = url_origin u @ url_pathname u @ url_rest u"

definition slash :: char where "slash = CHR ''/''"

text \<open>The last segment of a path and what stands before its slash, if it has one.\<close>

definition last_segment :: "string \<Rightarrow> (string \<times> string) option" where
  "last_segment p =
     (let seg = rev (takeWhile (\<lambda>c. c \<noteq> slash) (rev p)); before = rev (dropWhile (\<lambda>c. c \<noteq> slash) (rev p)) in
      if before = [] then None else Some (butlast before, seg))"

text \<open>\<open>/\/on_[^/]+$/\<close>: the last segment starts with \<open>on_\<close> and goes on.\<close>

definition names_callback :: "string \<Rightarrow> bool" where
  "names_callback p =
     (case last_segment p of None \<Rightarrow> False | Some (_, seg) \<Rightarrow> take 3 seg = ''on_'' \<and> 3 < length seg)"

definition callback_path :: "string \<Rightarrow> string \<Rightarrow> string" where
  "callback_path p action =
     (if names_callback p then (case last_segment p of None \<Rightarrow> p | Some (before, _) \<Rightarrow> before @ [slash] @ action)
      else (if p \<noteq> [] \<and> last p = slash then butlast p else p) @ [slash] @ action)"

definition callbackUrlFor :: "Url \<Rightarrow> string \<Rightarrow> string" where
  "callbackUrlFor base action = url_text (base\<lparr>url_pathname := callback_path (url_pathname base) action\<rparr>)"

lemma last_segment_append:
  assumes "slash \<notin> set seg"
  shows "last_segment (before @ [slash] @ seg) = Some (before, seg)"
proof -
  have all: "\<forall>c \<in> set (rev seg). c \<noteq> slash" using assms by auto
  have "takeWhile (\<lambda>c. c \<noteq> slash) (rev seg @ slash # rev before) = rev seg"
    using all by (simp add: takeWhile_append)
  moreover have "dropWhile (\<lambda>c. c \<noteq> slash) (rev seg @ slash # rev before) = slash # rev before"
    using all by (simp add: dropWhile_append)
  ultimately show ?thesis by (simp add: last_segment_def)
qed

text \<open>A callback address names the action of its callback, whatever action its base named.\<close>

lemma callback_path_ends: "\<exists>before. callback_path p action = before @ [slash] @ action"
  unfolding callback_path_def names_callback_def by (auto split: option.splits)

lemma callback_path_again:
  assumes "slash \<notin> set a" "take 3 a = ''on_''" "3 < length a"
  shows "callback_path (callback_path p a) b = callback_path p b"
proof (cases "names_callback p")
  case True
  then obtain before seg where s: "last_segment p = Some (before, seg)"
    by (auto simp: names_callback_def split: option.splits)
  then have p: "callback_path p c = before @ [slash] @ c" for c using True by (simp add: callback_path_def)
  show ?thesis
    unfolding p by (simp add: callback_path_def names_callback_def last_segment_append [OF assms(1), simplified] assms(2,3))
next
  case False
  then obtain before where p: "\<And>c. callback_path p c = before @ [slash] @ c" by (auto simp: callback_path_def)
  show ?thesis
    unfolding p by (simp add: callback_path_def names_callback_def last_segment_append [OF assms(1), simplified] assms(2,3))
qed

end
