(* ===== verification/Reserved_Handler.thy ===== *)
theory Reserved_Handler
  imports Reserved_Order Protocol_Wire
begin

text \<open>
  The endpoints of the reserved category (\<open>src/src/reserved/handler.ts\<close>): the checks of a request, the
  callback an action builds and its fallbacks, and the two ways of answering, on the open connection with
  a deadline or by an acknowledgement and a later post. Handling a request changes the state of the order
  flow, appends to the event log and answers; all three are results here. The clock is read once per
  request. The sentences of errors are those of \<open>hd_sentence\<close>: the order flow keeps their codes.
\<close>

subsection \<open>Actions and schemas\<close>

datatype ReservedAction =
  SearchAction | SelectAction | InitAction | ConfirmAction | StatusAction | CancelAction

definition RESERVED_ACTIONS :: "ReservedAction list" where
  "RESERVED_ACTIONS = [SearchAction, SelectAction, InitAction, ConfirmAction, StatusAction, CancelAction]"

fun action_wire :: "ReservedAction \<Rightarrow> string" where
  "action_wire SearchAction = ''search''"
| "action_wire SelectAction = ''select''"
| "action_wire InitAction = ''init''"
| "action_wire ConfirmAction = ''confirm''"
| "action_wire StatusAction = ''status''"
| "action_wire CancelAction = ''cancel''"

definition callback_wire :: "ReservedAction \<Rightarrow> string" where
  "callback_wire a = ''on_'' @ action_wire a"

definition reserved_action :: "json option \<Rightarrow> ReservedAction option" where
  "reserved_action v = List.find (\<lambda>a. v = Some (JStr (action_wire a))) RESERVED_ACTIONS"

type_synonym Schema = "json \<Rightarrow> ValidationResult"

record ReservedValidator =
  va_search :: Schema
  va_onSearch :: Schema
  va_select :: Schema
  va_onSelect :: Schema
  va_init :: Schema
  va_onInit :: Schema
  va_confirm :: Schema
  va_onConfirm :: Schema
  va_status :: Schema
  va_onStatus :: Schema
  va_cancel :: Schema
  va_onCancel :: Schema

fun requestValidation :: "ReservedValidator \<Rightarrow> ReservedAction \<Rightarrow> Schema" where
  "requestValidation v SearchAction = va_search v"
| "requestValidation v SelectAction = va_select v"
| "requestValidation v InitAction = va_init v"
| "requestValidation v ConfirmAction = va_confirm v"
| "requestValidation v StatusAction = va_status v"
| "requestValidation v CancelAction = va_cancel v"

fun callbackValidation :: "ReservedValidator \<Rightarrow> ReservedAction \<Rightarrow> Schema" where
  "callbackValidation v SearchAction = va_onSearch v"
| "callbackValidation v SelectAction = va_onSelect v"
| "callbackValidation v InitAction = va_onInit v"
| "callbackValidation v ConfirmAction = va_onConfirm v"
| "callbackValidation v StatusAction = va_onStatus v"
| "callbackValidation v CancelAction = va_onCancel v"

record ReservedHandlerDependencies =
  hd_env :: OrderEnv
  hd_validator :: ReservedValidator
  hd_callbackUrl :: Url
  hd_contextTtl :: string
  hd_syncResponses :: bool
  hd_syncTimeoutMs :: "int option"
  hd_sentence :: "failure \<Rightarrow> string"

definition RESERVED_SYNC_TIMEOUT_MS :: int where "RESERVED_SYNC_TIMEOUT_MS = 8000"

definition RESERVED_DOMAIN :: string where "RESERVED_DOMAIN = ''TRANSIT.LOCALHOST:INTERCITY''"

definition RESERVED_VERSION :: string where "RESERVED_VERSION = ''0.1.0''"

subsection \<open>A payload as the order flow reads it\<close>

definition context_view :: "json \<Rightarrow> ReservedContext" where
  "context_view body = \<lparr>ctx_transaction_id = text_at body [''context'', ''transaction_id''],
     ctx_bap_id = text_at body [''context'', ''bap_id''], ctx_bap_uri = text_at body [''context'', ''bap_uri''],
     ctx_bpp_id = text_option_at body [''context'', ''bpp_id''], ctx_bpp_uri = text_option_at body [''context'', ''bpp_uri'']\<rparr>"

definition stop_view :: "json \<Rightarrow> StopInput" where
  "stop_view stop = \<lparr>si_type = text_option_at stop [''type''],
     si_code = text_option_at stop [''location'', ''descriptor'', ''code'']\<rparr>"

definition intent_view :: "json \<Rightarrow> ReservedSearchIntent" where
  "intent_view body = \<lparr>si_travelDate = text_option_at body [''message'', ''intent'', ''fulfillment'', ''travel_date''],
     si_stops = map_option (map stop_view) (list_option_at body [''message'', ''intent'', ''fulfillment'', ''stops'']),
     si_itemCode = text_option_at body [''message'', ''intent'', ''item'', ''descriptor'', ''code''],
     si_cityCode = text_option_at body [''context'', ''location'', ''city'', ''code'']\<rparr>"

definition item_view :: "json \<Rightarrow> string \<times> int option" where
  "item_view item = (text_at item [''id''],
     (case path (Some item) [''quantity'', ''selected'', ''count''] of Some (JNum n) \<Rightarrow> Some n | _ \<Rightarrow> None))"

definition input_view :: "json \<Rightarrow> OrderInput" where
  "input_view body =
     (let order = [''message'', ''order''] in
      \<lparr>oi_items = map_option (map item_view) (list_option_at body (order @ [''items''])),
       oi_providerId = text_option_at body (order @ [''provider'', ''id'']),
       oi_stops = (case list_option_at body (order @ [''fulfillments'']) of
          Some (f # fs) \<Rightarrow> map_option (map stop_view) (list_option_at f [''stops'']) | _ \<Rightarrow> None),
       oi_billing = path (Some body) (order @ [''billing'']),
       oi_payments = list_option_at body (order @ [''payments'']),
       oi_tags = list_option_at body (order @ [''tags''])\<rparr>)"

text \<open>\<open>drawn\<close> is the id the generator gives to the action, for a hold, a booking or a quote.\<close>

fun runAction :: "OrderEnv \<Rightarrow> int \<Rightarrow> string \<Rightarrow> ReservedAction \<Rightarrow> json \<Rightarrow> json act" where
  "runAction env nowMs drawn SearchAction body = search env nowMs (intent_view body)"
| "runAction env nowMs drawn SelectAction body = select env nowMs drawn (context_view body) (input_view body)"
| "runAction env nowMs drawn InitAction body = init env nowMs (context_view body) (input_view body)"
| "runAction env nowMs drawn ConfirmAction body = confirm env nowMs drawn (context_view body) (input_view body)"
| "runAction env nowMs drawn StatusAction body = status env nowMs (context_view body)
     (text_option_at body [''message'', ''order_id'']) (text_option_at body [''message'', ''ref_id''])"
| "runAction env nowMs drawn CancelAction body = cancel env nowMs drawn (context_view body)
     (text_at body [''message'', ''order_id'']) (text_at body [''message'', ''descriptor'', ''code''])
     (list_option_at body [''message'', ''tags''])"

subsection \<open>Building a callback\<close>

definition callbackContext :: "ReservedHandlerDependencies \<Rightarrow> int \<Rightarrow> json \<Rightarrow> string \<Rightarrow> json" where
  "callbackContext dep nowMs body onAction =
     spread (case field body ''context'' of None \<Rightarrow> JObj [] | Some c \<Rightarrow> c)
       [(''action'', JStr onAction), (''domain'', JStr RESERVED_DOMAIN), (''version'', JStr RESERVED_VERSION),
        (''bpp_id'', JStr (env_subscriberId (hd_env dep))), (''bpp_uri'', JStr (env_subscriberUri (hd_env dep))),
        (''timestamp'', JStr (toISOString nowMs)), (''ttl'', JStr (hd_contextTtl dep))]"

text \<open>One line of the event log about a request.\<close>

definition log_line :: "ReservedHandlerDependencies \<Rightarrow> json \<Rightarrow> string \<Rightarrow> string \<Rightarrow> (string \<times> json) list \<Rightarrow> json" where
  "log_line dep body action outcome extra = JObj
     (opt_field ''transaction_id'' (path (Some body) [''context'', ''transaction_id''])
      @ opt_field ''message_id'' (path (Some body) [''context'', ''message_id''])
      @ [(''action'', JStr action), (''subscriber_id'', JStr (env_subscriberId (hd_env dep))),
         (''operator'', JStr ''ksrtc''), (''outcome'', JStr outcome)] @ extra)"

definition error_json :: "string \<Rightarrow> string \<Rightarrow> json" where
  "error_json code message = JObj [(''code'', JStr code), (''message'', JStr message)]"

definition refusal_json :: "json \<Rightarrow> json \<Rightarrow> json \<Rightarrow> json" where
  "refusal_json context message err = JObj [(''context'', context), (''message'', message), (''error'', err)]"

text \<open>What rides beside a refusal: the seats that moved and the current map as tags, or a new refund.\<close>

definition refusalMessage :: "(string \<times> json) list \<Rightarrow> json" where
  "refusalMessage attachment =
     (let get = map_of attachment;
          tags = (case get ''unavailableSeatIds'' of
                    Some (JArr (v # vs)) \<Rightarrow> [unavailableSeatsTag (map js_text (v # vs))] | _ \<Rightarrow> [])
               @ (if json_truthy (get ''seatMap'') then [the (get ''seatMap'')] else [])
               @ (if json_truthy (get ''seatMapLayout'') then [the (get ''seatMapLayout'')] else []);
          m1 = (if tags \<noteq> [] then JObj [(''tags'', JArr tags)] else JObj []);
          m2 = (if json_truthy (get ''tags'') then set_field ''tags'' (the (get ''tags'')) m1 else m1)
      in if json_truthy (get ''refund'') then set_field ''refund'' (the (get ''refund'')) m2 else m2)"

definition not_processed :: string where "not_processed = ''Provider could not process the request''"

definition internal_error :: "string \<Rightarrow> json" where
  "internal_error message = error_json (error_code_wire INTERNAL_ERROR) message"

definition buildCallback ::
    "ReservedHandlerDependencies \<Rightarrow> int \<Rightarrow> string \<Rightarrow> ReservedAction \<Rightarrow> json \<Rightarrow> OrderState \<Rightarrow> json \<times> json list \<times> OrderState" where
  "buildCallback dep nowMs drawn action body s =
     (let context = callbackContext dep nowMs body (callback_wire action) in
      case runAction (hd_env dep) nowMs drawn action body s of
        (Inr message, s') \<Rightarrow> (JObj [(''context'', context), (''message'', message)], [], s')
      | (Inl e, s') \<Rightarrow>
          (case e of
             Refusal code attachment \<Rightarrow>
               (refusal_json context (refusalMessage attachment) (error_json (error_code_wire code) (hd_sentence dep e)), [], s')
           | _ \<Rightarrow>
               (refusal_json context (JObj []) (internal_error not_processed),
                [log_line dep body (callback_wire action) ''BUILD_ERROR'' [(''error'', JStr (hd_sentence dep e))]], s')))"

definition lastResort :: "ReservedHandlerDependencies \<Rightarrow> int \<Rightarrow> json \<Rightarrow> string \<Rightarrow> json" where
  "lastResort dep nowMs body onAction = refusal_json (callbackContext dep nowMs body onAction) (JObj [])
     (internal_error ''This provider could not express an answer to this request within its own published shapes; the outcome is not known from this message and a status read is the way to find it'')"

text \<open>The callback that will be published, or the error thrown when not even the last resort passes its schema.\<close>

definition resolveCallback ::
    "ReservedHandlerDependencies \<Rightarrow> int \<Rightarrow> string \<Rightarrow> ReservedAction \<Rightarrow> json \<Rightarrow> OrderState
      \<Rightarrow> (string + json) \<times> json list \<times> OrderState" where
  "resolveCallback dep nowMs drawn action body s =
     (let onAction = callback_wire action; schema = callbackValidation (hd_validator dep) action;
          (callback, built, s') = buildCallback dep nowMs drawn action body s;
          result = schema callback
      in if vr_valid result then (Inr callback, built, s')
         else
           let failed = log_line dep body onAction ''SCHEMA_ERROR''
                 [(''error'', JStr (''Generated '' @ onAction @ '' failed schema validation: '' @ stringify (vr_errors result)))];
               fallback = lastResort dep nowMs body onAction
           in (if vr_valid (schema fallback) then Inr fallback
               else Inl (''Generated '' @ onAction @ '' and its refusal both failed schema validation: ''
                         @ stringify (vr_errors (schema fallback))),
               built @ [failed], s'))"

definition log_resolution :: "ReservedHandlerDependencies \<Rightarrow> json \<Rightarrow> string \<Rightarrow> json \<Rightarrow> json" where
  "log_resolution dep body onAction callback =
     (let err = field callback ''error''; orderId = path (Some callback) [''message'', ''order'', ''id''] in
      log_line dep body onAction (if json_truthy err then ''ERROR'' else ''ACK'')
        ((if json_truthy orderId then opt_field ''order_id'' orderId else [])
         @ (if json_truthy err then opt_field ''error'' err else [])))"

subsection \<open>Answering\<close>

datatype DeadlineError = DeadlineExceeded int | WorkFailed string

text \<open>
  \<open>withDeadline\<close>: the outcome of \<open>work\<close>, unless a deadline is set and its timer fires before the work
  settles (\<open>late\<close>). The work is not cancelled either way.
\<close>

definition withDeadline :: "bool \<Rightarrow> string + 'a \<Rightarrow> int \<Rightarrow> DeadlineError + 'a" where
  "withDeadline late work milliseconds =
     (if 0 < milliseconds \<and> late then Inl (DeadlineExceeded milliseconds)
      else case work of Inl e \<Rightarrow> Inl (WorkFailed e) | Inr x \<Rightarrow> Inr x)"

text \<open>What handling a request came to; \<open>ha_posts\<close> are the callbacks posted, with their addresses.\<close>

record Handled =
  ha_responses :: "Response list"
  ha_posts :: "(string \<times> json) list"
  ha_log :: "json list"
  ha_state :: OrderState

definition answerActionSync ::
    "ReservedHandlerDependencies \<Rightarrow> int \<Rightarrow> string \<Rightarrow> bool \<Rightarrow> ReservedAction \<Rightarrow> json \<Rightarrow> OrderState \<Rightarrow> Handled" where
  "answerActionSync dep nowMs drawn late action body s =
     (let onAction = callback_wire action;
          deadlineMs = (case hd_syncTimeoutMs dep of None \<Rightarrow> RESERVED_SYNC_TIMEOUT_MS | Some ms \<Rightarrow> ms);
          (resolved, log, s') = resolveCallback dep nowMs drawn action body s;
          refuse_with = (\<lambda>status message. \<lparr>re_status = status,
            re_body = refusal_json (callbackContext dep nowMs body onAction) (JObj []) (internal_error message)\<rparr>)
      in case withDeadline late resolved deadlineMs of
           Inr callback \<Rightarrow>
             \<lparr>ha_responses = [\<lparr>re_status = 200, re_body = callback\<rparr>], ha_posts = [],
              ha_log = log @ [log_resolution dep body onAction callback], ha_state = s'\<rparr>
         | Inl (WorkFailed e) \<Rightarrow>
             \<lparr>ha_responses = [refuse_with 500 not_processed], ha_posts = [],
              ha_log = log @ [log_line dep body onAction ''ERROR'' [(''error'', JStr e)]], ha_state = s'\<rparr>
         | Inl (DeadlineExceeded ms) \<Rightarrow>
             \<lparr>ha_responses = [refuse_with 504 (''Provider did not finish this request within '' @ string_of_int deadlineMs
                @ ''ms and stopped waiting; the request may be retried'')], ha_posts = [],
              ha_log = [log_line dep body onAction ''TIMEOUT'' [(''timeout_ms'', JNum deadlineMs),
                 (''error'', JStr (''Provider did not finish within '' @ string_of_int ms @ ''ms''))]] @ log, ha_state = s'\<rparr>)"

text \<open>The answer after an acknowledgement: \<open>posted\<close> is what posting the callback comes to.\<close>

definition answerAction ::
    "ReservedHandlerDependencies \<Rightarrow> int \<Rightarrow> string \<Rightarrow> Posted \<Rightarrow> ReservedAction \<Rightarrow> json \<Rightarrow> OrderState \<Rightarrow> Handled" where
  "answerAction dep nowMs drawn posted action body s =
     (let onAction = callback_wire action;
          (resolved, log, s') = resolveCallback dep nowMs drawn action body s;
          error_line = (\<lambda>e. log_line dep body onAction ''ERROR'' [(''error'', JStr e)])
      in case resolved of
           Inl e \<Rightarrow> \<lparr>ha_responses = [], ha_posts = [], ha_log = log @ [error_line e], ha_state = s'\<rparr>
         | Inr callback \<Rightarrow>
             let url = callbackUrlFor (hd_callbackUrl dep) onAction in
             \<lparr>ha_responses = [], ha_posts = [(url, callback)],
              ha_log = log @ [case dispatchCallback url posted of
                  Inl e \<Rightarrow> error_line e | Inr _ \<Rightarrow> log_resolution dep body onAction callback],
              ha_state = s'\<rparr>)"

text \<open>
  One request. A body that is \<open>null\<close> has no \<open>context\<close> to read: the handler throws, and nothing is
  answered. \<open>late\<close> and \<open>posted\<close> are what the deadline and the network do on the way.
\<close>

definition handle ::
    "ReservedHandlerDependencies \<Rightarrow> int \<Rightarrow> string \<Rightarrow> bool \<Rightarrow> Posted \<Rightarrow> string \<Rightarrow> json \<Rightarrow> OrderState \<Rightarrow> string + Handled" where
  "handle dep nowMs drawn late posted pathAction body s =
     (if body = JNull then Inl ''Cannot read properties of null (reading 'context')''
      else
        let raw = path (Some body) [''context'', ''action''];
            answer400 = (\<lambda>reply. Inr \<lparr>ha_responses = [\<lparr>re_status = 400, re_body = reply\<rparr>], ha_posts = [], ha_log = [], ha_state = s\<rparr>)
        in case reserved_action raw of
             None \<Rightarrow> answer400 (nack (''Request action '' @ js_text_option raw @ '' does not match path '' @ pathAction) None)
           | Some action \<Rightarrow>
               if pathAction \<noteq> ''inbound'' \<and> pathAction \<noteq> action_wire action
               then answer400 (nack (''Request action '' @ js_text_option raw @ '' does not match path '' @ pathAction) None)
               else
                 let result = requestValidation (hd_validator dep) action body in
                 if \<not> vr_valid result
                 then answer400 (nack (action_wire action @ '' payload failed reserved intercity validation'') (Some (vr_errors result)))
                 else if hd_syncResponses dep then Inr (answerActionSync dep nowMs drawn late action body s)
                 else
                   let later = answerAction dep nowMs drawn posted action body s in
                   Inr (later\<lparr>ha_responses := \<lparr>re_status = 202, re_body = ack\<rparr> # ha_responses later,
                     ha_log := log_line dep body (action_wire action) ''ACK'' [] # ha_log later\<rparr>))"

end
