(* ===== verification/App_Config.thy ===== *)
theory App_Config
  imports Reserved_Db Reserved_Handler Trv11_Catalog
begin

text \<open>
  The configuration of the process (\<open>src/src/config.ts\<close>): reading the environment, with every refusal at
  start. An environment is a map from names to values. \<open>protocol\<close> is what \<open>new URL(s).protocol\<close> gives,
  \<open>None\<close> where the constructor throws; \<open>cwd_path\<close> is \<open>join(process.cwd(), ...)\<close>.
\<close>

type_synonym Env = "string \<rightharpoonup> string"

record UrlHost =
  uh_protocol :: "string \<Rightarrow> string option"
  uh_cwd_path :: "string list \<Rightarrow> string"

subsection \<open>Reading one variable\<close>

text \<open>\<open>env[name]?.trim()\<close>, and whether it is falsy.\<close>

definition trimmed :: "Env \<Rightarrow> string \<Rightarrow> string option" where
  "trimmed env name = map_option trim (env name)"

definition present :: "Env \<Rightarrow> string \<Rightarrow> string option" where
  "present env name = (case trimmed env name of Some [] \<Rightarrow> None | v \<Rightarrow> v)"

definition required_env :: "Env \<Rightarrow> string \<Rightarrow> string + string" where
  "required_env env name = required (present env name) (''Missing required environment variable '' @ name)"

definition range_message :: "string \<Rightarrow> int \<Rightarrow> int \<Rightarrow> string" where
  "range_message name minimum maximum =
     name @ '' must be an integer from '' @ string_of_int minimum @ '' to '' @ string_of_int maximum"

definition parse_in_range :: "string \<Rightarrow> string \<Rightarrow> int \<Rightarrow> int \<Rightarrow> string + int" where
  "parse_in_range raw name minimum maximum =
     (case Number raw of
        None \<Rightarrow> Inl (range_message name minimum maximum)
      | Some value \<Rightarrow>
          if \<not> isInteger value \<or> value < of_int minimum \<or> of_int maximum < value
          then Inl (range_message name minimum maximum) else Inr \<lfloor>value\<rfloor>)"

definition integerInRange :: "Env \<Rightarrow> string \<Rightarrow> int \<Rightarrow> int \<Rightarrow> string + int" where
  "integerInRange env name minimum maximum =
     andThen (required_env env name) (\<lambda>raw. parse_in_range raw name minimum maximum)"

definition optionalIntegerInRange :: "Env \<Rightarrow> string \<Rightarrow> int \<Rightarrow> int \<Rightarrow> int \<Rightarrow> string + int" where
  "optionalIntegerInRange env name minimum maximum fallback =
     (case present env name of None \<Rightarrow> Inr fallback | Some raw \<Rightarrow> parse_in_range raw name minimum maximum)"

definition resolveProviderPort :: "Env \<Rightarrow> string + int" where
  "resolveProviderPort env =
     (let merged = (if present env ''PORT'' \<noteq> None then env(''PROVIDER_PORT'' := env ''PORT'') else env)
      in integerInRange merged ''PROVIDER_PORT'' 0 65535)"

definition parseHttpUrl :: "UrlHost \<Rightarrow> string \<Rightarrow> string \<Rightarrow> string + string" where
  "parseHttpUrl host value name =
     (case uh_protocol host value of
        None \<Rightarrow> Inl (name @ '' must be a valid absolute URL'')
      | Some protocol \<Rightarrow>
          if protocol \<noteq> ''http:'' \<and> protocol \<noteq> ''https:'' then Inl (name @ '' must use http or https'')
          else Inr value)"

definition httpUrl :: "UrlHost \<Rightarrow> Env \<Rightarrow> string \<Rightarrow> string + string" where
  "httpUrl host env name = andThen (required_env env name) (\<lambda>value. parseHttpUrl host value name)"

text \<open>An optional address: checked when it is given.\<close>

definition optionalUrl :: "UrlHost \<Rightarrow> Env \<Rightarrow> string \<Rightarrow> string + string option" where
  "optionalUrl host env name =
     (case present env name of
        None \<Rightarrow> Inr None
      | Some value \<Rightarrow> andThen (parseHttpUrl host value name) (\<lambda>v. Inr (Some v)))"

subsection \<open>The configuration\<close>

record OperatorConfig =
  oc_key :: PassOperatorKey
  oc_subscriberId :: string
  oc_subscriberUri :: string
  oc_callbackUrl :: string
  oc_callbackDelayMs :: int

record ReservationConfig =
  rc_closeMinutes :: int
  rc_horizonDays :: int
  rc_occupancySeed :: int
  rc_holdTtlSeconds :: int
  rc_manifestRetentionDays :: int

datatype SourceKind = FixtureSource | HttpSourceKind

record AppConfig =
  ac_host :: string
  ac_port :: int
  ac_publicBaseUrl :: string
  ac_journeySource :: SourceKind
  ac_journeySourceUrl :: "string option"
  ac_journeySourceResponseSchema :: string
  ac_fixtureRoot :: string
  ac_schemaRoot :: string
  ac_callbackTimeoutMs :: int
  ac_contextTtl :: string
  ac_orderInspectionToken :: "string option"
  ac_bmtc :: OperatorConfig
  ac_bmrcl :: OperatorConfig
  ac_reservedEnabled :: bool
  ac_reservedSyncResponses :: bool
  ac_reservedSyncTimeoutMs :: int
  ac_reservedSchemaRoot :: string
  ac_reservedDatabaseUrl :: string
  ac_reservedDatabaseAuthToken :: "string option"
  ac_reservedMigrationRoot :: string
  ac_reservedSource :: SourceKind
  ac_reservedSourceUrl :: "string option"
  ac_reservedSourceResponseSchema :: string
  ac_reservedOperator :: "OperatorConfig option"
  ac_ksrtcPassEnabled :: bool
  ac_ksrtcPassOperator :: "OperatorConfig option"
  ac_reservation :: ReservationConfig
  ac_fleetManifestUrl :: "string option"
  ac_fleetManifestToken :: "string option"
  ac_fleetManifestTtlSeconds :: int

definition DEFAULT_SEAT_OCCUPANCY_SEED :: int where "DEFAULT_SEAT_OCCUPANCY_SEED = 20260905"

definition MAX_INT32 :: int where "MAX_INT32 = 2147483647"

definition operatorRuntimeConfig :: "UrlHost \<Rightarrow> Env \<Rightarrow> PassOperatorKey \<Rightarrow> string \<Rightarrow> string + OperatorConfig" where
  "operatorRuntimeConfig host env key pre =
     andThen (required_env env (pre @ ''_BPP_ID'')) (\<lambda>subscriberId.
     andThen (httpUrl host env (pre @ ''_BPP_URI'')) (\<lambda>subscriberUri.
     andThen (httpUrl host env (pre @ ''_CALLBACK_URL'')) (\<lambda>callbackUrl.
     andThen (integerInRange env (pre @ ''_CALLBACK_DELAY_MS'') 0 MAX_INT32) (\<lambda>callbackDelayMs.
       Inr \<lparr>oc_key = key, oc_subscriberId = subscriberId, oc_subscriberUri = subscriberUri,
            oc_callbackUrl = callbackUrl, oc_callbackDelayMs = callbackDelayMs\<rparr>))))"

definition source_kind :: "Env \<Rightarrow> string \<Rightarrow> string + SourceKind" where
  "source_kind env name =
     (case present env name of
        None \<Rightarrow> Inr FixtureSource
      | Some v \<Rightarrow>
          if v = ''fixture'' then Inr FixtureSource else if v = ''http'' then Inr HttpSourceKind
          else Inl (''Unsupported '' @ name @ '' '' @ v))"

text \<open>\<open>(env[name]?.trim() || "false") === "true"\<close>.\<close>

definition flag :: "Env \<Rightarrow> string \<Rightarrow> bool" where
  "flag env name \<longleftrightarrow> present env name = Some ''true''"

text \<open>The address of a source: required over http, and checked whenever it is given.\<close>

definition source_url :: "UrlHost \<Rightarrow> Env \<Rightarrow> SourceKind \<Rightarrow> string \<Rightarrow> string + string option" where
  "source_url host env kind name =
     andThen (ensure (kind = FixtureSource \<or> present env name \<noteq> None) (''Missing required environment variable '' @ name))
       (\<lambda>_. optionalUrl host env name)"

text \<open>\<open>env[name] ?? join(process.cwd(), ...)\<close>: the value is not trimmed.\<close>

definition path_or :: "UrlHost \<Rightarrow> Env \<Rightarrow> string \<Rightarrow> string list \<Rightarrow> string" where
  "path_or host env name parts = (case env name of None \<Rightarrow> uh_cwd_path host parts | Some v \<Rightarrow> v)"

definition database_url :: "UrlHost \<Rightarrow> Env \<Rightarrow> string" where
  "database_url host env =
     (case present env ''RESERVED_DB_URL'' of
        None \<Rightarrow> ''file:'' @ uh_cwd_path host [''data'', ''reserved.db''] | Some v \<Rightarrow> v)"

definition optional_operator :: "UrlHost \<Rightarrow> Env \<Rightarrow> bool \<Rightarrow> string + OperatorConfig option" where
  "optional_operator host env enabled =
     (if enabled then andThen (operatorRuntimeConfig host env Ksrtc ''KSRTC'') (\<lambda>c. Inr (Some c)) else Inr None)"

definition reservation_config :: "Env \<Rightarrow> string + ReservationConfig" where
  "reservation_config env =
     andThen (optionalIntegerInRange env ''RESERVATION_CLOSE_MINUTES'' 0 1440 45) (\<lambda>closeMinutes.
     andThen (optionalIntegerInRange env ''RESERVATION_HORIZON_DAYS'' 1 365 30) (\<lambda>horizonDays.
     andThen (optionalIntegerInRange env ''SEAT_OCCUPANCY_SEED'' 0 MAX_INT32 DEFAULT_SEAT_OCCUPANCY_SEED) (\<lambda>occupancySeed.
     andThen (optionalIntegerInRange env ''RESERVATION_HOLD_TTL_SECONDS'' 30 3600 600) (\<lambda>holdTtlSeconds.
     andThen (optionalIntegerInRange env ''RESERVED_MANIFEST_RETENTION_DAYS'' 1 3650 30) (\<lambda>manifestRetentionDays.
       Inr \<lparr>rc_closeMinutes = closeMinutes, rc_horizonDays = horizonDays, rc_occupancySeed = occupancySeed,
            rc_holdTtlSeconds = holdTtlSeconds, rc_manifestRetentionDays = manifestRetentionDays\<rparr>)))))"

definition loadConfig :: "UrlHost \<Rightarrow> Env \<Rightarrow> string + AppConfig" where
  "loadConfig host env =
     andThen (source_kind env ''JOURNEY_SOURCE'') (\<lambda>journeySource.
     andThen (source_url host env journeySource ''JOURNEY_SOURCE_URL'') (\<lambda>journeySourceUrl.
     andThen (optionalIntegerInRange env ''RESERVED_SYNC_TIMEOUT_MS'' 0 MAX_INT32 RESERVED_SYNC_TIMEOUT_MS) (\<lambda>syncTimeout.
     andThen (source_kind env ''RESERVED_SOURCE'') (\<lambda>reservedSource.
     andThen (source_url host env reservedSource ''RESERVED_SOURCE_URL'') (\<lambda>reservedSourceUrl.
     andThen (ensure (\<not> isRemoteDatabaseUrl (database_url host env) \<or> present env ''RESERVED_DB_AUTH_TOKEN'' \<noteq> None)
       ''Missing required environment variable RESERVED_DB_AUTH_TOKEN for a remote RESERVED_DB_URL'') (\<lambda>_.
     andThen (optionalUrl host env ''FLEET_MANIFEST_URL'') (\<lambda>fleetUrl.
     andThen (required_env env ''PROVIDER_HOST'') (\<lambda>provider_host.
     andThen (resolveProviderPort env) (\<lambda>port.
     andThen (httpUrl host env ''PROVIDER_PUBLIC_BASE_URL'') (\<lambda>publicBaseUrl.
     andThen (integerInRange env ''CALLBACK_TIMEOUT_MS'' 1 MAX_INT32) (\<lambda>callbackTimeoutMs.
     andThen (required_env env ''CONTEXT_TTL'') (\<lambda>contextTtl.
     andThen (operatorRuntimeConfig host env Bmtc ''BMTC'') (\<lambda>bmtc.
     andThen (operatorRuntimeConfig host env Bmrcl ''BMRCL'') (\<lambda>bmrcl.
     andThen (optional_operator host env (flag env ''RESERVED_ENABLED'')) (\<lambda>reservedOperator.
     andThen (optional_operator host env (flag env ''KSRTC_PASS_ENABLED'')) (\<lambda>passOperator.
     andThen (reservation_config env) (\<lambda>reservation.
     andThen (optionalIntegerInRange env ''FLEET_MANIFEST_TTL_SECONDS'' 1 86400 3600) (\<lambda>fleetTtl.
       Inr \<lparr>ac_host = provider_host, ac_port = port, ac_publicBaseUrl = publicBaseUrl,
            ac_journeySource = journeySource, ac_journeySourceUrl = journeySourceUrl,
            ac_journeySourceResponseSchema =
              path_or host env ''JOURNEY_SOURCE_RESPONSE_SCHEMA'' [''schemas'', ''journey-source-response.json''],
            ac_fixtureRoot = path_or host env ''FIXTURE_ROOT'' [''fixtures''],
            ac_schemaRoot = path_or host env ''TRV11_SCHEMA_ROOT'' [''schemas'', ''ondc_trv11'', ''2.0.1''],
            ac_callbackTimeoutMs = callbackTimeoutMs, ac_contextTtl = contextTtl,
            ac_orderInspectionToken = present env ''ORDER_INSPECTION_TOKEN'', ac_bmtc = bmtc, ac_bmrcl = bmrcl,
            ac_reservedEnabled = flag env ''RESERVED_ENABLED'',
            ac_reservedSyncResponses = flag env ''RESERVED_SYNC_RESPONSES'', ac_reservedSyncTimeoutMs = syncTimeout,
            ac_reservedSchemaRoot =
              path_or host env ''RESERVED_SCHEMA_ROOT'' [''schemas'', ''transit_local_intercity'', ''0.1.0''],
            ac_reservedDatabaseUrl = database_url host env,
            ac_reservedDatabaseAuthToken = present env ''RESERVED_DB_AUTH_TOKEN'',
            ac_reservedMigrationRoot = path_or host env ''RESERVED_MIGRATION_ROOT'' [''migrations'', ''reserved''],
            ac_reservedSource = reservedSource, ac_reservedSourceUrl = reservedSourceUrl,
            ac_reservedSourceResponseSchema =
              path_or host env ''RESERVED_SOURCE_RESPONSE_SCHEMA'' [''schemas'', ''reserved-source-response.json''],
            ac_reservedOperator = reservedOperator, ac_ksrtcPassEnabled = flag env ''KSRTC_PASS_ENABLED'',
            ac_ksrtcPassOperator = passOperator, ac_reservation = reservation, ac_fleetManifestUrl = fleetUrl,
            ac_fleetManifestToken = present env ''FLEET_MANIFEST_TOKEN'', ac_fleetManifestTtlSeconds = fleetTtl\<rparr>))))))))))))))))))"

end
