(* ===== verification/Config_Properties.thy ===== *)
theory Config_Properties
  imports App_Config Reserved_Calendar
begin

text \<open>
  What an accepted configuration guarantees to the rest of the process: numbers in the ranges the timers
  and the policies need, addresses over http or https, an identity for every category that is on, a token
  for a remote database, and a booking window that opens for every departure.
\<close>

lemma parse_in_range_bounds: "parse_in_range raw name lo hi = Inr n \<Longrightarrow> lo \<le> n \<and> n \<le> hi"
  by (auto simp: parse_in_range_def isInteger_def le_floor_iff floor_le_iff not_less split: option.splits if_splits)

lemma integerInRange_bounds: "integerInRange env name lo hi = Inr n \<Longrightarrow> lo \<le> n \<and> n \<le> hi"
  by (auto simp: integerInRange_def andThen_eq_Inr dest: parse_in_range_bounds)

lemma optionalIntegerInRange_bounds:
  "optionalIntegerInRange env name lo hi d = Inr n \<Longrightarrow> lo \<le> d \<Longrightarrow> d \<le> hi \<Longrightarrow> lo \<le> n \<and> n \<le> hi"
  by (auto simp: optionalIntegerInRange_def split: option.splits dest: parse_in_range_bounds)

lemma present_nonempty: "present env name = Some v \<Longrightarrow> v \<noteq> []"
  by (auto simp: present_def split: option.splits list.splits)

lemma required_env_nonempty: "required_env env name = Inr v \<Longrightarrow> v \<noteq> []"
  by (auto simp: required_env_def dest: present_nonempty)

definition web_url :: "UrlHost \<Rightarrow> string \<Rightarrow> bool" where
  "web_url host v \<longleftrightarrow> uh_protocol host v \<in> {Some ''http:'', Some ''https:''}"

lemma parseHttpUrl_web: "parseHttpUrl host v name = Inr w \<Longrightarrow> w = v \<and> web_url host v"
  by (auto simp: parseHttpUrl_def web_url_def split: option.splits if_splits)

lemma httpUrl_web: "httpUrl host env name = Inr w \<Longrightarrow> web_url host w"
  by (auto simp: httpUrl_def andThen_eq_Inr dest: parseHttpUrl_web)

lemma optionalUrl_web: "optionalUrl host env name = Inr u \<Longrightarrow> u = present env name \<and> (\<forall>v. u = Some v \<longrightarrow> web_url host v)"
  by (auto simp: optionalUrl_def andThen_eq_Inr split: option.splits dest: parseHttpUrl_web)

lemma source_url_web:
  "source_url host env kind name = Inr u \<Longrightarrow> (kind = HttpSourceKind \<longrightarrow> u \<noteq> None) \<and> (\<forall>v. u = Some v \<longrightarrow> web_url host v)"
  by (cases kind) (auto simp: source_url_def andThen_eq_Inr dest: optionalUrl_web)

definition operator_ready :: "UrlHost \<Rightarrow> OperatorConfig \<Rightarrow> bool" where
  "operator_ready host oc \<longleftrightarrow> oc_subscriberId oc \<noteq> [] \<and> web_url host (oc_subscriberUri oc) \<and> web_url host (oc_callbackUrl oc)
     \<and> 0 \<le> oc_callbackDelayMs oc \<and> oc_callbackDelayMs oc \<le> MAX_INT32"

lemma operatorRuntimeConfig_ready: "operatorRuntimeConfig host env key pre = Inr oc \<Longrightarrow> operator_ready host oc \<and> oc_key oc = key"
  by (auto simp: operatorRuntimeConfig_def andThen_eq_Inr operator_ready_def
      dest: required_env_nonempty httpUrl_web integerInRange_bounds)

lemma optional_operator_ready:
  "optional_operator host env enabled = Inr c \<Longrightarrow> (enabled \<longleftrightarrow> c \<noteq> None) \<and> (\<forall>oc. c = Some oc \<longrightarrow> operator_ready host oc)"
  by (auto simp: optional_operator_def andThen_eq_Inr split: if_splits dest: operatorRuntimeConfig_ready)

definition reservation_ready :: "ReservationConfig \<Rightarrow> bool" where
  "reservation_ready rc \<longleftrightarrow> 0 \<le> rc_closeMinutes rc \<and> rc_closeMinutes rc \<le> 1440 \<and> 1 \<le> rc_horizonDays rc \<and> rc_horizonDays rc \<le> 365
     \<and> 0 \<le> rc_occupancySeed rc \<and> rc_occupancySeed rc \<le> MAX_INT32 \<and> 30 \<le> rc_holdTtlSeconds rc \<and> rc_holdTtlSeconds rc \<le> 3600
     \<and> 1 \<le> rc_manifestRetentionDays rc \<and> rc_manifestRetentionDays rc \<le> 3650"

lemma reservation_config_ready: "reservation_config env = Inr rc \<Longrightarrow> reservation_ready rc"
  unfolding reservation_config_def andThen_eq_Inr
  by (elim exE conjE, drule optionalIntegerInRange_bounds, simp, simp, drule optionalIntegerInRange_bounds, simp, simp,
      drule optionalIntegerInRange_bounds, simp add: MAX_INT32_def DEFAULT_SEAT_OCCUPANCY_SEED_def,
      simp add: MAX_INT32_def DEFAULT_SEAT_OCCUPANCY_SEED_def,
      drule optionalIntegerInRange_bounds, simp, simp, drule optionalIntegerInRange_bounds, simp, simp)
    (auto simp: reservation_ready_def)

definition ready :: "UrlHost \<Rightarrow> AppConfig \<Rightarrow> bool" where
  "ready host c \<longleftrightarrow> ac_host c \<noteq> [] \<and> ac_contextTtl c \<noteq> [] \<and> 0 \<le> ac_port c \<and> ac_port c \<le> 65535 \<and> web_url host (ac_publicBaseUrl c)
     \<and> 1 \<le> ac_callbackTimeoutMs c \<and> ac_callbackTimeoutMs c \<le> MAX_INT32
     \<and> 0 \<le> ac_reservedSyncTimeoutMs c \<and> ac_reservedSyncTimeoutMs c \<le> MAX_INT32
     \<and> (ac_journeySource c = HttpSourceKind \<longrightarrow> (\<exists>u. ac_journeySourceUrl c = Some u \<and> web_url host u))
     \<and> (ac_reservedSource c = HttpSourceKind \<longrightarrow> (\<exists>u. ac_reservedSourceUrl c = Some u \<and> web_url host u))
     \<and> (isRemoteDatabaseUrl (ac_reservedDatabaseUrl c) \<longrightarrow> ac_reservedDatabaseAuthToken c \<noteq> None)
     \<and> (\<forall>u. ac_fleetManifestUrl c = Some u \<longrightarrow> web_url host u)
     \<and> operator_ready host (ac_bmtc c) \<and> operator_ready host (ac_bmrcl c)
     \<and> (ac_reservedEnabled c \<longleftrightarrow> ac_reservedOperator c \<noteq> None) \<and> (ac_ksrtcPassEnabled c \<longleftrightarrow> ac_ksrtcPassOperator c \<noteq> None)
     \<and> (\<forall>oc. ac_reservedOperator c = Some oc \<or> ac_ksrtcPassOperator c = Some oc \<longrightarrow> operator_ready host oc)
     \<and> reservation_ready (ac_reservation c) \<and> 1 \<le> ac_fleetManifestTtlSeconds c \<and> ac_fleetManifestTtlSeconds c \<le> 86400"

lemma loadConfig_ready:
  assumes "loadConfig host env = Inr c"
  shows "ready host c"
proof -
  note parts = assms [unfolded loadConfig_def andThen_eq_Inr]
  obtain journeySource journeySourceUrl syncTimeout reservedSource reservedSourceUrl fleetUrl provider_host port publicBaseUrl
    callbackTimeoutMs contextTtl bmtc bmrcl reservedOperator passOperator reservation fleetTtl where
    js: "source_url host env journeySource ''JOURNEY_SOURCE_URL'' = Inr journeySourceUrl"
    and st: "optionalIntegerInRange env ''RESERVED_SYNC_TIMEOUT_MS'' 0 MAX_INT32 RESERVED_SYNC_TIMEOUT_MS = Inr syncTimeout"
    and rs: "source_url host env reservedSource ''RESERVED_SOURCE_URL'' = Inr reservedSourceUrl"
    and db: "isRemoteDatabaseUrl (database_url host env) \<longrightarrow> present env ''RESERVED_DB_AUTH_TOKEN'' \<noteq> None"
    and fleet: "optionalUrl host env ''FLEET_MANIFEST_URL'' = Inr fleetUrl"
    and ph: "required_env env ''PROVIDER_HOST'' = Inr provider_host" and port: "resolveProviderPort env = Inr port"
    and base: "httpUrl host env ''PROVIDER_PUBLIC_BASE_URL'' = Inr publicBaseUrl"
    and ct: "integerInRange env ''CALLBACK_TIMEOUT_MS'' 1 MAX_INT32 = Inr callbackTimeoutMs"
    and ttl: "required_env env ''CONTEXT_TTL'' = Inr contextTtl"
    and ops: "operatorRuntimeConfig host env Bmtc ''BMTC'' = Inr bmtc" "operatorRuntimeConfig host env Bmrcl ''BMRCL'' = Inr bmrcl"
    and ro: "optional_operator host env (flag env ''RESERVED_ENABLED'') = Inr reservedOperator"
    and po: "optional_operator host env (flag env ''KSRTC_PASS_ENABLED'') = Inr passOperator"
    and res: "reservation_config env = Inr reservation"
    and ft: "optionalIntegerInRange env ''FLEET_MANIFEST_TTL_SECONDS'' 1 86400 3600 = Inr fleetTtl"
    and c: "ac_host c = provider_host" "ac_contextTtl c = contextTtl" "ac_port c = port" "ac_publicBaseUrl c = publicBaseUrl"
      "ac_callbackTimeoutMs c = callbackTimeoutMs" "ac_reservedSyncTimeoutMs c = syncTimeout"
      "ac_journeySource c = journeySource" "ac_journeySourceUrl c = journeySourceUrl" "ac_reservedSource c = reservedSource"
      "ac_reservedSourceUrl c = reservedSourceUrl" "ac_reservedDatabaseUrl c = database_url host env"
      "ac_reservedDatabaseAuthToken c = present env ''RESERVED_DB_AUTH_TOKEN''" "ac_fleetManifestUrl c = fleetUrl"
      "ac_bmtc c = bmtc" "ac_bmrcl c = bmrcl" "ac_reservedEnabled c = flag env ''RESERVED_ENABLED''"
      "ac_reservedOperator c = reservedOperator" "ac_ksrtcPassEnabled c = flag env ''KSRTC_PASS_ENABLED''"
      "ac_ksrtcPassOperator c = passOperator" "ac_reservation c = reservation" "ac_fleetManifestTtlSeconds c = fleetTtl"
    using parts by (elim exE conjE) auto
  have "0 \<le> port \<and> port \<le> 65535" using port by (auto simp: resolveProviderPort_def Let_def dest: integerInRange_bounds)
  moreover have "0 \<le> syncTimeout \<and> syncTimeout \<le> MAX_INT32"
    using optionalIntegerInRange_bounds [OF st] by (simp add: MAX_INT32_def RESERVED_SYNC_TIMEOUT_MS_def)
  moreover have "1 \<le> fleetTtl \<and> fleetTtl \<le> 86400" using optionalIntegerInRange_bounds [OF ft] by simp
  moreover note required_env_nonempty [OF ph] required_env_nonempty [OF ttl] httpUrl_web [OF base] integerInRange_bounds [OF ct]
    source_url_web [OF js] source_url_web [OF rs] optionalUrl_web [OF fleet] ops [THEN operatorRuntimeConfig_ready]
    optional_operator_ready [OF ro] optional_operator_ready [OF po] reservation_config_ready [OF res] db
  ultimately show ?thesis unfolding ready_def c by blast
qed

text \<open>C39. A configuration that is accepted at start is one the process can run on: the port and every timer are in
  the range of their types, every address is over http or https, a category that is on has its operator and one
  that is off has none, a source over http has its address and a remote database its token. And whatever close
  and horizon it sets, every departure can be booked at some instant: the two bounds never cross.\<close>

theorem accepted_configuration_sells:
  assumes "loadConfig host env = Inr c"
  shows "ready host c \<and> (\<exists>now. bookingWindowStatus departureAt now
     \<lparr>win_closeMinutes = rc_closeMinutes (ac_reservation c), win_horizonDays = rc_horizonDays (ac_reservation c)\<rparr> = OPEN)"
proof -
  have r: "ready host c" by (rule loadConfig_ready [OF assms])
  then have "rc_closeMinutes (ac_reservation c) * 60000 \<le> rc_horizonDays (ac_reservation c) * 86400000"
    by (simp add: ready_def reservation_ready_def)
  then have "bookingWindowStatus departureAt (departureAt - rc_closeMinutes (ac_reservation c) * 60000)
     \<lparr>win_closeMinutes = rc_closeMinutes (ac_reservation c), win_horizonDays = rc_horizonDays (ac_reservation c)\<rparr> = OPEN"
    by (simp add: bookingWindow_open_iff)
  then show ?thesis using r by blast
qed

definition plain_urls :: UrlHost where
  "plain_urls = \<lparr>uh_protocol = (\<lambda>s. if take 8 s = ''https://'' then Some ''https:'' else if take 7 s = ''http://'' then Some ''http:'' else None),
     uh_cwd_path = (\<lambda>ps. joined ''/'' (''/app'' # ps))\<rparr>"

lemma parse_digits: "lo \<le> int n \<Longrightarrow> int n \<le> hi \<Longrightarrow> n \<le> 2 ^ 53 \<Longrightarrow> parse_in_range (digits10 n) name lo hi = Inr (int n)"
  by (simp add: parse_in_range_def Number_digits10 isInteger_def of_int_le_iff [where 'a = rat, symmetric] del: of_int_le_iff)

lemma present_digits: "env name = Some (digits10 n) \<Longrightarrow> present env name = Some (digits10 n)"
  by (simp add: present_def trimmed_def trim_digits list_all_iff digits10_digits split: list.split)

definition demo_env :: Env where
  "demo_env = map_of
     ([(''PROVIDER_HOST'', ''0.0.0.0''), (''PROVIDER_PORT'', digits10 8080), (''PROVIDER_PUBLIC_BASE_URL'', ''http://p''),
       (''CALLBACK_TIMEOUT_MS'', digits10 5000), (''CONTEXT_TTL'', ''PT30S''),
       (''RESERVATION_CLOSE_MINUTES'', digits10 1440), (''RESERVATION_HORIZON_DAYS'', digits10 1)]
      @ [(''BMTC_BPP_ID'', ''b''), (''BMTC_BPP_URI'', ''http://b''), (''BMTC_CALLBACK_URL'', ''http://c''),
         (''BMTC_CALLBACK_DELAY_MS'', digits10 0)]
      @ [(''BMRCL_BPP_ID'', ''m''), (''BMRCL_BPP_URI'', ''http://m''), (''BMRCL_CALLBACK_URL'', ''http://c''),
         (''BMRCL_CALLBACK_DELAY_MS'', digits10 0)])"

lemma demo_numbers:
  "present demo_env ''PROVIDER_PORT'' = Some (digits10 8080)" "present demo_env ''CALLBACK_TIMEOUT_MS'' = Some (digits10 5000)"
  "present demo_env ''RESERVATION_CLOSE_MINUTES'' = Some (digits10 1440)" "present demo_env ''RESERVATION_HORIZON_DAYS'' = Some (digits10 1)"
  "present demo_env ''BMTC_CALLBACK_DELAY_MS'' = Some (digits10 0)" "present demo_env ''BMRCL_CALLBACK_DELAY_MS'' = Some (digits10 0)"
  by (rule present_digits, simp add: demo_env_def)+

lemma demo_texts:
  "present demo_env ''PROVIDER_HOST'' = Some ''0.0.0.0''" "present demo_env ''PROVIDER_PUBLIC_BASE_URL'' = Some ''http://p''"
  "present demo_env ''CONTEXT_TTL'' = Some ''PT30S''" "present demo_env ''BMTC_BPP_ID'' = Some ''b''"
  "present demo_env ''BMTC_BPP_URI'' = Some ''http://b''" "present demo_env ''BMTC_CALLBACK_URL'' = Some ''http://c''"
  "present demo_env ''BMRCL_BPP_ID'' = Some ''m''" "present demo_env ''BMRCL_BPP_URI'' = Some ''http://m''"
  "present demo_env ''BMRCL_CALLBACK_URL'' = Some ''http://c''"
  by (simp_all add: present_def trimmed_def demo_env_def trim_def is_space_def)

lemma demo_absent:
  "list_all (\<lambda>name. present demo_env name = None)
     [''JOURNEY_SOURCE'', ''JOURNEY_SOURCE_URL'', ''RESERVED_SYNC_TIMEOUT_MS'', ''RESERVED_SOURCE'', ''RESERVED_SOURCE_URL'',
      ''RESERVED_DB_URL'', ''FLEET_MANIFEST_URL'', ''PORT'', ''RESERVED_ENABLED'', ''KSRTC_PASS_ENABLED'',
      ''SEAT_OCCUPANCY_SEED'', ''RESERVATION_HOLD_TTL_SECONDS'', ''RESERVED_MANIFEST_RETENTION_DAYS'', ''FLEET_MANIFEST_TTL_SECONDS'']"
  by (simp add: present_def trimmed_def demo_env_def)

lemma demo_operators:
  "operatorRuntimeConfig plain_urls demo_env Bmtc ''BMTC'' = Inr \<lparr>oc_key = Bmtc, oc_subscriberId = ''b'',
     oc_subscriberUri = ''http://b'', oc_callbackUrl = ''http://c'', oc_callbackDelayMs = 0\<rparr>"
  "operatorRuntimeConfig plain_urls demo_env Bmrcl ''BMRCL'' = Inr \<lparr>oc_key = Bmrcl, oc_subscriberId = ''m'',
     oc_subscriberUri = ''http://m'', oc_callbackUrl = ''http://c'', oc_callbackDelayMs = 0\<rparr>"
  by (simp_all add: operatorRuntimeConfig_def required_env_def httpUrl_def integerInRange_def demo_texts demo_numbers
      parse_digits MAX_INT32_def parseHttpUrl_def plain_urls_def)

lemma demo_accepted: "\<exists>c. loadConfig plain_urls demo_env = Inr c \<and> rc_closeMinutes (ac_reservation c) = 1440"
proof -
  have db: "\<not> isRemoteDatabaseUrl (database_url plain_urls demo_env)"
    using demo_absent by (simp add: database_url_def isRemoteDatabaseUrl_def startsWith_def)
  have port: "resolveProviderPort demo_env = Inr 8080"
    using demo_absent by (simp add: resolveProviderPort_def integerInRange_def required_env_def demo_numbers parse_digits)
  have res: "reservation_config demo_env = Inr \<lparr>rc_closeMinutes = 1440, rc_horizonDays = 1,
      rc_occupancySeed = DEFAULT_SEAT_OCCUPANCY_SEED, rc_holdTtlSeconds = 600, rc_manifestRetentionDays = 30\<rparr>"
    using demo_absent by (simp add: reservation_config_def optionalIntegerInRange_def demo_numbers parse_digits)
  show ?thesis
    using demo_absent
    by (simp add: loadConfig_def source_kind_def source_url_def optionalUrl_def optionalIntegerInRange_def db port res
        required_env_def demo_texts demo_numbers httpUrl_def parseHttpUrl_def integerInRange_def parse_digits MAX_INT32_def
        demo_operators optional_operator_def flag_def plain_urls_def [THEN arg_cong [where f = uh_protocol]])
qed

theorem accepted_configuration_sells_witness:
  "\<exists>c. loadConfig plain_urls demo_env = Inr c \<and> (\<exists>now. bookingWindowStatus 1789000000000 now
     \<lparr>win_closeMinutes = 1440, win_horizonDays = rc_horizonDays (ac_reservation c)\<rparr> = OPEN)"
  using demo_accepted accepted_configuration_sells [where host = plain_urls and env = demo_env and departureAt = 1789000000000]
  by metis

end
