(* ===== verification/Handler_Properties.thy ===== *)
theory Handler_Properties
  imports Reserved_Handler Order_Properties
begin

text \<open>
  What the endpoints of the reserved category promise the buyer app: one answer to each request, only
  payloads of the published shapes, nothing changed by a request that is refused at the door, and a
  request that ran out of time can be sent again.
\<close>

subsection \<open>The state a request leaves\<close>

lemma buildCallback_state: "snd (snd (buildCallback dep n drawn action body s)) = snd (runAction (hd_env dep) n drawn action body s)"
  by (auto simp: buildCallback_def Let_def split: prod.splits sum.splits failure.splits)

lemma resolveCallback_state: "snd (snd (resolveCallback dep n drawn action body s)) = snd (runAction (hd_env dep) n drawn action body s)"
  using buildCallback_state [of dep n drawn action body s] by (auto simp: resolveCallback_def Let_def split: prod.splits)

lemma sync_state: "ha_state (answerActionSync dep n drawn late action body s) = snd (runAction (hd_env dep) n drawn action body s)"
  using resolveCallback_state [of dep n drawn action body s]
  by (auto simp: answerActionSync_def Let_def split: prod.splits sum.splits DeadlineError.splits)

lemma async_state: "ha_state (answerAction dep n drawn posted action body s) = snd (runAction (hd_env dep) n drawn action body s)"
  using resolveCallback_state [of dep n drawn action body s] by (auto simp: answerAction_def Let_def split: prod.splits sum.splits)

subsection \<open>What is published\<close>

lemma resolved_valid:
  "fst (resolveCallback dep n drawn action body s) = Inr callback \<Longrightarrow> vr_valid (callbackValidation (hd_validator dep) action callback)"
  by (auto simp: resolveCallback_def Let_def split: prod.splits if_splits)

lemma withDeadline_Inr: "withDeadline late work ms = Inr x \<Longrightarrow> work = Inr x"
  by (auto simp: withDeadline_def split: if_splits sum.splits)

definition sync_answer :: "ReservedHandlerDependencies \<Rightarrow> ReservedAction \<Rightarrow> Handled \<Rightarrow> bool" where
  "sync_answer dep action h \<longleftrightarrow> ha_posts h = [] \<and> (\<exists>r. ha_responses h = [r] \<and> re_status r \<in> {200, 500, 504}
     \<and> (re_status r = 200 \<longrightarrow> vr_valid (callbackValidation (hd_validator dep) action (re_body r))))"

lemma answered_sync: "sync_answer dep action (answerActionSync dep n drawn late action body s)"
  using resolved_valid [of dep n drawn action body s]
  by (auto simp: answerActionSync_def sync_answer_def Let_def split: prod.splits sum.splits DeadlineError.splits dest: withDeadline_Inr)

definition callback_posts :: "ReservedHandlerDependencies \<Rightarrow> ReservedAction \<Rightarrow> (string \<times> json) list \<Rightarrow> bool" where
  "callback_posts dep action posts \<longleftrightarrow> length posts \<le> 1 \<and> list_all (\<lambda>(url, callback).
     url = callbackUrlFor (hd_callbackUrl dep) (callback_wire action)
     \<and> vr_valid (callbackValidation (hd_validator dep) action callback)) posts"

lemma answered_async:
  "ha_responses (answerAction dep n drawn posted action body s) = []
   \<and> callback_posts dep action (ha_posts (answerAction dep n drawn posted action body s))"
  using resolved_valid [of dep n drawn action body s]
  by (auto simp: answerAction_def callback_posts_def Let_def split: prod.splits sum.splits)

subsection \<open>Which requests are served\<close>

definition served_action :: "ReservedHandlerDependencies \<Rightarrow> string \<Rightarrow> json \<Rightarrow> ReservedAction option" where
  "served_action dep route body =
     (case reserved_action (path (Some body) [''context'', ''action'']) of
        None \<Rightarrow> None
      | Some action \<Rightarrow>
          if (route = ''inbound'' \<or> route = action_wire action) \<and> vr_valid (requestValidation (hd_validator dep) action body)
          then Some action else None)"

lemma handle_refused:
  assumes "handle dep n drawn late posted route body s = Inr h" "served_action dep route body = None"
  shows "ha_state h = s \<and> ha_posts h = [] \<and> ha_log h = [] \<and> (\<exists>reply. ha_responses h = [\<lparr>re_status = 400, re_body = reply\<rparr>])"
  using assms by (auto simp: handle_def served_action_def Let_def split: if_splits option.splits)

lemma handle_served:
  assumes "handle dep n drawn late posted route body s = Inr h" "served_action dep route body = Some action"
  shows "if hd_syncResponses dep then h = answerActionSync dep n drawn late action body s
    else h = (answerAction dep n drawn posted action body s)
      \<lparr>ha_responses := [\<lparr>re_status = 202, re_body = ack\<rparr>],
       ha_log := log_line dep body (action_wire action) ''ACK'' [] # ha_log (answerAction dep n drawn posted action body s)\<rparr>"
  using assms answered_async [of dep n drawn posted action body s]
  by (auto simp: handle_def served_action_def Let_def split: if_splits option.splits)

text \<open>C8. A request is answered once. One that names no action of the path, or does not have its shape, is
  answered 400 and changes nothing. Any other runs its action once, and then: with synchronous answers
  the answer is the callback, which has its published shape, or an error 500 or 504, and nothing is
  posted; otherwise it is acknowledged with 202, and at most one callback is posted, which has its
  published shape and goes to the address of that callback.\<close>

theorem request_answered_once:
  assumes "handle dep n drawn late posted route body s = Inr h"
  shows "case served_action dep route body of
      None \<Rightarrow> ha_state h = s \<and> ha_posts h = [] \<and> (\<exists>reply. ha_responses h = [\<lparr>re_status = 400, re_body = reply\<rparr>])
    | Some action \<Rightarrow> ha_state h = snd (runAction (hd_env dep) n drawn action body s)
        \<and> (if hd_syncResponses dep then sync_answer dep action h
           else ha_responses h = [\<lparr>re_status = 202, re_body = ack\<rparr>] \<and> callback_posts dep action (ha_posts h))"
proof (cases "served_action dep route body")
  case None
  then show ?thesis using handle_refused [OF assms] by simp
next
  case (Some action)
  then show ?thesis
    using handle_served [OF assms Some] answered_sync answered_async sync_state async_state by (auto split: if_splits)
qed

text \<open>The handler itself fails on exactly one body, the JSON literal null: it reads the context of the
  body before it checks it. The request is then not answered at all.\<close>

theorem null_body_is_not_answered:
  "(\<exists>e. handle dep n drawn late posted route body s = Inl e) \<longleftrightarrow> body = JNull"
  by (auto simp: handle_def Let_def split: option.splits)

subsection \<open>Running out of time\<close>

text \<open>C9. A confirm that ran out of time can be sent again. The seats are sold although the answer was 504, and a
  later confirm of the same transaction, paid and in time, is answered 200 with the order that was sold; it
  sells nothing more.\<close>

theorem timed_out_confirm_can_be_retried:
  assumes "handle dep n drawn True posted route body s = Inr h" "re_status (hd (ha_responses h)) = 504"
    and "served_action dep route body = Some ConfirmAction" "store_reachable (os_db s)"
    and "env_operatorKey (hd_env dep) = ''ksrtc''"
    and "confirm (hd_env dep) n drawn (context_view body) (input_view body) s = (Inr msg, s')"
    and "handle dep n' drawn' False posted' route' body' (ha_state h) = Inr h'"
    and "served_action dep route' body' = Some ConfirmAction" "context_view body' = context_view body"
    and "assertPaymentStatus (oi_payments (input_view body')) ''PAID'' = Inr ()"
    and "vr_valid (va_onConfirm (hd_validator dep)
          (JObj [(''context'', callbackContext dep n' body' ''on_confirm''), (''message'', msg)]))"
  shows "ha_state h' = s' \<and> ha_responses h' = [\<lparr>re_status = 200,
     re_body = JObj [(''context'', callbackContext dep n' body' ''on_confirm''), (''message'', msg)]\<rparr>]"
proof -
  have sync: "hd_syncResponses dep"
    using handle_served [OF assms(1,3)] assms(2) by (auto split: if_splits)
  then have "ha_state h = s'"
    using handle_served [OF assms(1,3)] assms(6) by (simp add: sync_state)
  moreover have again: "confirm (hd_env dep) n' drawn' (context_view body) (input_view body') s' = (Inr msg, s')"
    by (rule confirm_again [OF assms(6,4,5,10)])
  ultimately have h': "h' = answerActionSync dep n' drawn' False ConfirmAction body' s'"
    using handle_served [OF assms(7,8)] sync by simp
  have "buildCallback dep n' drawn' ConfirmAction body' s'
      = (JObj [(''context'', callbackContext dep n' body' ''on_confirm''), (''message'', msg)], [], s')"
    using again by (simp add: buildCallback_def Let_def callback_wire_def assms(9))
  then show ?thesis
    unfolding h' using assms(11)
    by (simp add: answerActionSync_def resolveCallback_def withDeadline_def Let_def callback_wire_def)
qed

subsection \<open>The rider's confirm\<close>

definition any_shape :: Schema where
  "any_shape v = \<lparr>vr_valid = True, vr_errors = JArr []\<rparr>"

definition sync_deps :: ReservedHandlerDependencies where
  "sync_deps = \<lparr>hd_env = coach_env,
     hd_validator = \<lparr>va_search = any_shape, va_onSearch = any_shape, va_select = any_shape, va_onSelect = any_shape,
       va_init = any_shape, va_onInit = any_shape, va_confirm = any_shape, va_onConfirm = any_shape, va_status = any_shape,
       va_onStatus = any_shape, va_cancel = any_shape, va_onCancel = any_shape\<rparr>,
     hd_callbackUrl = \<lparr>url_origin = ''http://b'', url_pathname = ''/'', url_rest = []\<rparr>, hd_contextTtl = ''PT30S'',
     hd_syncResponses = True, hd_syncTimeoutMs = None, hd_sentence = (\<lambda>_. [])\<rparr>"

definition rider_body :: json where
  "rider_body = JObj
     [(''context'', JObj [(''action'', JStr ''confirm''), (''transaction_id'', JStr ''t1''), (''bap_id'', JStr ''bap''),
        (''bap_uri'', JStr ''uri''), (''bpp_id'', JStr ''bpp''), (''bpp_uri'', JStr ''bppuri'')]),
      (''message'', JObj [(''order'', JObj
        [(''items'', JArr [JObj [(''id'', JStr ''RSV-S1-2026-09-10-ASHWAMEDHA''),
           (''quantity'', JObj [(''selected'', JObj [(''count'', JNum 2)])])]]),
         (''provider'', JObj [(''id'', JStr ''OP'')]),
         (''payments'', JArr [JObj [(''status'', JStr ''PAID'')]]),
         (''tags'', JArr [seatsTag [''1'', ''2''], tag ''MANIFEST'' False (rider_passenger ''1'' @ rider_passenger ''2'')])])])]"

lemma rider_views: "context_view rider_body = rider_context" "input_view rider_body = rider_input"
  by (simp_all add: context_view_def input_view_def item_view_def rider_body_def rider_context_def rider_input_def
      text_at_def text_option_at_def list_option_at_def Let_def)

lemma rider_served: "served_action sync_deps ''inbound'' rider_body = Some ConfirmAction"
  by (simp add: served_action_def rider_body_def sync_deps_def any_shape_def reserved_action_def RESERVED_ACTIONS_def)

lemma rider_handled: "handle sync_deps n drawn late posted ''inbound'' rider_body s
    = Inr (answerActionSync sync_deps n drawn late ConfirmAction rider_body s)"
  by (simp add: handle_def rider_body_def sync_deps_def any_shape_def reserved_action_def RESERVED_ACTIONS_def Let_def)

lemma rider_late: "re_status (hd (ha_responses (answerActionSync sync_deps n drawn True action body s))) = 504"
  by (auto simp: answerActionSync_def withDeadline_def sync_deps_def RESERVED_SYNC_TIMEOUT_MS_def Let_def split: prod.splits)

theorem request_answered_once_witness:
  "ha_state (answerActionSync sync_deps 2000 ''cd2'' False ConfirmAction rider_body rider_state)
     = snd (confirm coach_env 2000 ''cd2'' rider_context rider_input rider_state)
   \<and> sync_answer sync_deps ConfirmAction (answerActionSync sync_deps 2000 ''cd2'' False ConfirmAction rider_body rider_state)"
  using request_answered_once [OF rider_handled, of 2000 "''cd2''" False rider_state]
  by (simp add: rider_served rider_views) (simp add: sync_deps_def)

theorem timed_out_confirm_can_be_retried_witness:
  "\<exists>msg. re_status (hd (ha_responses (answerActionSync sync_deps 2000 ''cd2'' True ConfirmAction rider_body rider_state))) = 504
     \<and> ha_responses (answerActionSync sync_deps 9000 ''ef3'' False ConfirmAction rider_body
         (ha_state (answerActionSync sync_deps 2000 ''cd2'' True ConfirmAction rider_body rider_state)))
       = [\<lparr>re_status = 200, re_body = JObj [(''context'', callbackContext sync_deps 9000 rider_body ''on_confirm''), (''message'', msg)]\<rparr>]"
proof -
  obtain msg s where m: "confirm coach_env 2000 ''cd2'' rider_context rider_input rider_state = (Inr msg, s)"
    using rider_confirms by blast
  have env: "hd_env sync_deps = coach_env" by (simp add: sync_deps_def)
  have "store_reachable (os_db rider_state)" using run_reachable(1) by (simp add: rider_state_def)
  moreover have "env_operatorKey (hd_env sync_deps) = ''ksrtc''" by (simp add: env coach_fields)
  moreover have "confirm (hd_env sync_deps) 2000 ''cd2'' (context_view rider_body) (input_view rider_body) rider_state = (Inr msg, s)"
    by (simp add: env rider_views m)
  moreover have "assertPaymentStatus (oi_payments (input_view rider_body)) ''PAID'' = Inr ()"
    by (simp add: rider_views rider_checks(2))
  moreover have "vr_valid (va_onConfirm (hd_validator sync_deps) v)" for v by (simp add: sync_deps_def any_shape_def)
  ultimately show ?thesis
    using timed_out_confirm_can_be_retried [OF rider_handled rider_late rider_served _ _ _ rider_handled rider_served refl]
      rider_late by blast
qed

end
