(* ===== verification/Trv11_Wire.thy ===== *)
theory Trv11_Wire
  imports Trv11_Orders Protocol_Wire
begin

text \<open>
  What the two routes of the single-journey category share: the actions and their schemas, a payload as
  the order service reads it, the callbacks an action builds, and the lines of the event log
  (\<open>src/src/app.ts\<close>, \<open>src/src/trv11/passHandler.ts\<close>, \<open>src/src/protocol/types.ts\<close>). The order and the catalogue
  of a callback are JSON; its context is the typed one of the protocol.
\<close>

subsection \<open>Actions\<close>

datatype Trv11Action = SearchStep | SelectStep | InitStep | ConfirmStep | StatusStep

definition TRV11_ACTIONS :: "Trv11Action list" where
  "TRV11_ACTIONS = [SearchStep, SelectStep, InitStep, ConfirmStep, StatusStep]"

fun step_wire :: "Trv11Action \<Rightarrow> string" where
  "step_wire SearchStep = ''search''"
| "step_wire SelectStep = ''select''"
| "step_wire InitStep = ''init''"
| "step_wire ConfirmStep = ''confirm''"
| "step_wire StatusStep = ''status''"

definition on_step :: "Trv11Action \<Rightarrow> string" where
  "on_step a = ''on_'' @ step_wire a"

definition request_action :: "json option \<Rightarrow> Trv11Action option" where
  "request_action v = List.find (\<lambda>a. v = Some (JStr (step_wire a))) TRV11_ACTIONS"

subsection \<open>Callbacks\<close>

datatype Trv11Callback =
    CatalogueCallback OnSearchResponse
  | OrderCallback Trv11Context json
  | RefusalCallback Trv11Context string string

fun callback_error :: "Trv11Callback \<Rightarrow> (string \<times> string) option" where
  "callback_error (RefusalCallback ctx code message) = Some (code, message)"
| "callback_error _ = None"

fun callback_order :: "Trv11Callback \<Rightarrow> json option" where
  "callback_order (OrderCallback ctx order) = Some order"
| "callback_order _ = None"

record ProtocolValidator =
  pv_search :: "json \<Rightarrow> ValidationResult"
  pv_onSearch :: "Trv11Callback \<Rightarrow> ValidationResult"
  pv_select :: "json \<Rightarrow> ValidationResult"
  pv_onSelect :: "Trv11Callback \<Rightarrow> ValidationResult"
  pv_init :: "json \<Rightarrow> ValidationResult"
  pv_onInit :: "Trv11Callback \<Rightarrow> ValidationResult"
  pv_confirm :: "json \<Rightarrow> ValidationResult"
  pv_onConfirm :: "Trv11Callback \<Rightarrow> ValidationResult"
  pv_status :: "json \<Rightarrow> ValidationResult"
  pv_onStatus :: "Trv11Callback \<Rightarrow> ValidationResult"

fun request_validation :: "ProtocolValidator \<Rightarrow> Trv11Action \<Rightarrow> json \<Rightarrow> ValidationResult" where
  "request_validation v SearchStep = pv_search v"
| "request_validation v SelectStep = pv_select v"
| "request_validation v InitStep = pv_init v"
| "request_validation v ConfirmStep = pv_confirm v"
| "request_validation v StatusStep = pv_status v"

fun callback_validation :: "ProtocolValidator \<Rightarrow> Trv11Action \<Rightarrow> Trv11Callback \<Rightarrow> ValidationResult" where
  "callback_validation v SearchStep = pv_onSearch v"
| "callback_validation v SelectStep = pv_onSelect v"
| "callback_validation v InitStep = pv_onInit v"
| "callback_validation v ConfirmStep = pv_onConfirm v"
| "callback_validation v StatusStep = pv_onStatus v"

definition callback_context :: "Trv11Context \<Rightarrow> OperatorRuntimeConfig \<Rightarrow> string \<Rightarrow> int \<Rightarrow> string \<Rightarrow> Trv11Context" where
  "callback_context context operator action nowMs ttl =
     context\<lparr>cx_action := action, cx_bpp_id := Some (rt_subscriberId operator), cx_bpp_uri := Some (rt_subscriberUri operator),
             cx_timestamp := toISOString nowMs, cx_ttl := ttl\<rparr>"

subsection \<open>A payload as the order service reads it\<close>

definition trv11_context_view :: "json \<Rightarrow> Trv11Context" where
  "trv11_context_view body = \<lparr>cx_domain = text_at body [''context'', ''domain''],
     cx_location = (case path (Some body) [''context'', ''location''] of None \<Rightarrow> JNull | Some v \<Rightarrow> v),
     cx_city = text_at body [''context'', ''location'', ''city'', ''code''],
     cx_action = text_at body [''context'', ''action''], cx_version = text_at body [''context'', ''version''],
     cx_bap_id = text_at body [''context'', ''bap_id''], cx_bap_uri = text_at body [''context'', ''bap_uri''],
     cx_bpp_id = text_option_at body [''context'', ''bpp_id''], cx_bpp_uri = text_option_at body [''context'', ''bpp_uri''],
     cx_transaction_id = text_at body [''context'', ''transaction_id''], cx_message_id = text_at body [''context'', ''message_id''],
     cx_timestamp = text_at body [''context'', ''timestamp''], cx_ttl = text_at body [''context'', ''ttl'']\<rparr>"

definition search_stop_view :: "json \<Rightarrow> SearchStop" where
  "search_stop_view stop = \<lparr>st_type = text_at stop [''type''],
     st_code = text_option_at stop [''location'', ''descriptor'', ''code''], st_gps = text_option_at stop [''location'', ''gps''],
     st_time = text_option_at stop [''time'', ''timestamp'']\<rparr>"

definition search_view :: "json \<Rightarrow> SearchRequest" where
  "search_view body = \<lparr>sr_context = trv11_context_view body,
     sr_stops = map_option (map search_stop_view) (list_option_at body [''message'', ''intent'', ''fulfillment'', ''stops'']),
     sr_category = text_option_at body [''message'', ''intent'', ''category'', ''descriptor'', ''code'']\<rparr>"

definition selected_view :: "json \<Rightarrow> SelectedItem" where
  "selected_view item = \<lparr>si_id = text_at item [''id''],
     si_count = (case path (Some item) [''quantity'', ''selected'', ''count''] of Some (JNum n) \<Rightarrow> of_int n | _ \<Rightarrow> 0)\<rparr>"

definition payment_view :: "json \<Rightarrow> Payment" where
  "payment_view v = (case v of JObj kvs \<Rightarrow> kvs | _ \<Rightarrow> [])"

definition elems_at :: "json \<Rightarrow> string list \<Rightarrow> json list" where
  "elems_at body ks = (case list_option_at body ks of None \<Rightarrow> [] | Some xs \<Rightarrow> xs)"

definition order_view :: "json \<Rightarrow> OrderRequest" where
  "order_view body = \<lparr>rq_context = trv11_context_view body,
     rq_order = \<lparr>oi_items = map selected_view (elems_at body [''message'', ''order'', ''items'']),
       oi_provider_id = text_at body [''message'', ''order'', ''provider'', ''id''],
       oi_billing = (case path (Some body) [''message'', ''order'', ''billing''] of None \<Rightarrow> JNull | Some v \<Rightarrow> v),
       oi_payments = map payment_view (elems_at body [''message'', ''order'', ''payments'']),
       oi_tags = path (Some body) [''message'', ''order'', ''tags'']\<rparr>\<rparr>"

definition status_view :: "json \<Rightarrow> StatusRequest" where
  "status_view body = \<lparr>sx_context = trv11_context_view body, sx_order_id = text_option_at body [''message'', ''order_id''],
     sx_ref_id = text_option_at body [''message'', ''ref_id'']\<rparr>"

subsection \<open>The event log\<close>

definition event_line :: "json \<Rightarrow> string \<Rightarrow> string \<Rightarrow> PassOperatorKey \<Rightarrow> string \<Rightarrow> (string \<times> json) list \<Rightarrow> json" where
  "event_line body action subscriberId operatorKey outcome extra = JObj
     (opt_field ''transaction_id'' (path (Some body) [''context'', ''transaction_id''])
      @ opt_field ''message_id'' (path (Some body) [''context'', ''message_id''])
      @ [(''action'', JStr action), (''subscriber_id'', JStr subscriberId),
         (''operator'', JStr (operator_wire operatorKey)), (''outcome'', JStr outcome)] @ extra)"

definition callback_line :: "json \<Rightarrow> string \<Rightarrow> string \<Rightarrow> PassOperatorKey \<Rightarrow> Trv11Callback \<Rightarrow> json" where
  "callback_line body action subscriberId operatorKey callback =
     (let orderId = Option.bind (callback_order callback) (\<lambda>order. field order ''id'') in
      event_line body action subscriberId operatorKey (if callback_error callback = None then ''ACK'' else ''ERROR'')
        ((if json_truthy orderId then opt_field ''order_id'' orderId else [])
         @ (case callback_error callback of None \<Rightarrow> []
            | Some (code, message) \<Rightarrow> [(''error'', JObj [(''code'', JStr code), (''message'', JStr message)])])))"

text \<open>\<open>error.message\<close>; the sentences of the rotating codes are those of \<open>totp_text\<close>.\<close>

fun error_text :: "(TotpError \<Rightarrow> string) \<Rightarrow> OrderError \<Rightarrow> string" where
  "error_text totp_text (LifecycleError code message) = message"
| "error_text totp_text (ThrownError message) = message"
| "error_text totp_text (TotpFailure e) = totp_text e"

subsection \<open>Select, init, confirm and status\<close>

definition run_order_step ::
    "Service \<Rightarrow> Draws \<Rightarrow> int \<Rightarrow> Trv11Action \<Rightarrow> json \<Rightarrow> OrderStore \<Rightarrow> (OrderError + json) \<times> OrderStore" where
  "run_order_step sv draws nowMs action body st =
     (case action of
        InitStep \<Rightarrow> (trv11_init sv nowMs st (order_view body), st)
      | ConfirmStep \<Rightarrow> trv11_confirm sv draws nowMs (order_view body) st
      | StatusStep \<Rightarrow> (trv11_status sv st (status_view body), st)
      | _ \<Rightarrow> (trv11_select sv nowMs st (order_view body), st))"

text \<open>The callback of an order action: the order, a refusal, or the internal error of anything else thrown.\<close>

definition order_callback ::
    "(TotpError \<Rightarrow> string) \<Rightarrow> Service \<Rightarrow> Trv11Context \<Rightarrow> Trv11Action \<Rightarrow> json \<Rightarrow> OrderError + json \<Rightarrow> Trv11Callback \<times> json list" where
  "order_callback totp_text sv context action body outcome =
     (case outcome of
        Inr order \<Rightarrow> (OrderCallback context order, [])
      | Inl (LifecycleError code message) \<Rightarrow> (RefusalCallback context code message, [])
      | Inl e \<Rightarrow> (RefusalCallback context ''INTERNAL-ERROR'' ''Provider could not process the request'',
          [event_line body (on_step action) (rt_subscriberId (sv_runtime sv)) (sv_operatorKey sv) ''BUILD_ERROR''
             [(''error'', JStr (error_text totp_text e))]]))"

end
