(* ===== verification/Pass_Handler.thy ===== *)
theory Pass_Handler
  imports Trv11_Wire Trv11_Pass
begin

text \<open>
  The route that sells the passes of the third operator (\<open>src/src/trv11/passHandler.ts\<close>), dialled directly and
  always answered on the open connection. It shares the order store with the other two operators. The
  clock is read once per request.
\<close>

record PassHandlerDependencies =
  pd_service :: Service
  pd_validator :: ProtocolValidator
  pd_contextTtl :: string
  pd_totp_text :: "TotpError \<Rightarrow> string"

datatype Trv11Payload = JsonPayload json | CallbackPayload Trv11Callback

record PassHandled =
  ph_responses :: "(nat \<times> Trv11Payload) list"
  ph_log :: "json list"
  ph_store :: OrderStore

definition pass_context :: "PassHandlerDependencies \<Rightarrow> int \<Rightarrow> json \<Rightarrow> string \<Rightarrow> Trv11Context" where
  "pass_context dep nowMs body action =
     callback_context (trv11_context_view body) (sv_runtime (pd_service dep)) action nowMs (pd_contextTtl dep)"

definition pass_event :: "PassHandlerDependencies \<Rightarrow> json \<Rightarrow> string \<Rightarrow> string \<Rightarrow> (string \<times> json) list \<Rightarrow> json" where
  "pass_event dep body action outcome extra =
     event_line body action (rt_subscriberId (sv_runtime (pd_service dep))) Ksrtc outcome extra"

text \<open>A search that throws is not caught here.\<close>

definition pass_buildCallback ::
    "PassHandlerDependencies \<Rightarrow> Draws \<Rightarrow> int \<Rightarrow> Trv11Action \<Rightarrow> json \<Rightarrow> OrderStore
      \<Rightarrow> (string + Trv11Callback) \<times> json list \<times> OrderStore" where
  "pass_buildCallback dep draws nowMs action body st =
     (let sv = pd_service dep in
      if action = SearchStep then
        ((case buildPassOnSearch (sv_host sv) (search_view body) (sv_profile sv) Ksrtc (sv_runtime sv) (sv_publicBaseUrl sv)
                (pd_contextTtl dep) nowMs of
            Inl e \<Rightarrow> Inl (error_text (pd_totp_text dep) e) | Inr r \<Rightarrow> Inr (CatalogueCallback r)), [], st)
      else
        let (outcome, st') = run_order_step sv draws nowMs action body st;
            (callback, events) = order_callback (pd_totp_text dep) sv (pass_context dep nowMs body (on_step action)) action body outcome
        in (Inr callback, events, st'))"

definition pass_lastResort :: "PassHandlerDependencies \<Rightarrow> int \<Rightarrow> json \<Rightarrow> string \<Rightarrow> Trv11Callback" where
  "pass_lastResort dep nowMs body onAction = RefusalCallback (pass_context dep nowMs body onAction) ''INTERNAL-ERROR''
     ''This provider could not express an answer to this request within its own published shapes''"

definition pass_resolveCallback ::
    "PassHandlerDependencies \<Rightarrow> Draws \<Rightarrow> int \<Rightarrow> Trv11Action \<Rightarrow> json \<Rightarrow> OrderStore
      \<Rightarrow> (string + Trv11Callback) \<times> json list \<times> OrderStore" where
  "pass_resolveCallback dep draws nowMs action body st =
     (let (built, events, st') = pass_buildCallback dep draws nowMs action body st;
          schema = callback_validation (pd_validator dep) action; onAction = on_step action in
      case built of
        Inl e \<Rightarrow> (Inl e, events, st')
      | Inr callback \<Rightarrow>
          if vr_valid (schema callback) then (Inr callback, events, st')
          else
            let failed = pass_event dep body onAction ''SCHEMA_ERROR'' [(''error'', JStr (''Generated '' @ onAction
                  @ '' failed schema validation: '' @ stringify (vr_errors (schema callback))))];
                fallback = pass_lastResort dep nowMs body onAction
            in (if vr_valid (schema fallback) then Inr fallback
                else Inl (''Generated '' @ onAction @ '' and its refusal both failed schema validation: ''
                          @ stringify (vr_errors (schema fallback))),
                events @ [failed], st'))"

definition pass_handle ::
    "PassHandlerDependencies \<Rightarrow> Draws \<Rightarrow> int \<Rightarrow> string \<Rightarrow> json \<Rightarrow> OrderStore \<Rightarrow> PassHandled" where
  "pass_handle dep draws nowMs pathAction body st =
     (let raw = path (Some body) [''context'', ''action''];
          answer400 = (\<lambda>reply. \<lparr>ph_responses = [(400, JsonPayload reply)], ph_log = [], ph_store = st\<rparr>);
          mismatch = answer400 (nack (''Request action '' @ js_text_option raw @ '' does not match path '' @ pathAction) None)
      in case request_action raw of
           None \<Rightarrow> mismatch
         | Some action \<Rightarrow>
             if step_wire action \<noteq> pathAction then mismatch
             else
               let result = request_validation (pd_validator dep) action body; onAction = on_step action in
               if \<not> vr_valid result
               then answer400 (nack (step_wire action @ '' payload failed TRV11 validation'') (Some (vr_errors result)))
               else if action = SearchStep \<and> \<not> isPassSearch (search_view body)
               then answer400 (nack ''This route sells Karnataka Sarige passes only; the search intent named no PASS category'' None)
               else
                 (case pass_resolveCallback dep draws nowMs action body st of
                    (Inr callback, events, st') \<Rightarrow>
                      \<lparr>ph_responses = [(200, CallbackPayload callback)],
                       ph_log = events @ [callback_line body onAction (rt_subscriberId (sv_runtime (pd_service dep))) Ksrtc callback],
                       ph_store = st'\<rparr>
                  | (Inl e, events, st') \<Rightarrow>
                      \<lparr>ph_responses = [(500, CallbackPayload (RefusalCallback (pass_context dep nowMs body onAction)
                         ''INTERNAL-ERROR'' ''Provider could not process the request''))],
                       ph_log = events @ [pass_event dep body onAction ''ERROR'' [(''error'', JStr e)]], ph_store = st'\<rparr>))"

end
