(* ===== verification/App_Server.thy ===== *)
theory App_Server
  imports Reserved_Handler Pass_Handler App_Config
begin

text \<open>
  The process (\<open>src/src/app.ts\<close>): reading a body, the routes of the three categories and the operator's own
  pages, the two operators answered by a later callback, and the inspection of an order behind a token.
  One request is one step on the state of the process, with what the clock, the generators, the deadline
  and the network do on the way as its ambience. \<open>Inl\<close> is a listener that threw: nothing is answered.
\<close>

subsection \<open>Reading a body\<close>

definition MAX_BODY_BYTES :: nat where "MAX_BODY_BYTES = 1048576"

fun read_chunks :: "nat \<Rightarrow> byte list \<Rightarrow> byte list list \<Rightarrow> string + byte list" where
  "read_chunks received read [] = Inr read"
| "read_chunks received read (chunk # chunks) =
     (if MAX_BODY_BYTES < received + length chunk then Inl ''Request body is too large''
      else read_chunks (received + length chunk) (read @ chunk) chunks)"

text \<open>\<open>parse\<close> is \<open>JSON.parse\<close> of the decoded bytes, with the message of what it throws.\<close>

definition readJson :: "(byte list \<Rightarrow> string + json) \<Rightarrow> byte list list \<Rightarrow> string + json" where
  "readJson parse chunks = andThen (read_chunks 0 [] chunks) parse"

subsection \<open>The bearer token\<close>

text \<open>\<open>Buffer.from(s)\<close>: the UTF-8 bytes of a string whose characters are below 256.\<close>

definition utf8_char :: "char \<Rightarrow> nat list" where
  "utf8_char c = (let n = (of_char c :: nat) in if n < 128 then [n] else [192 + n div 64, 128 + n mod 64])"

definition utf8 :: "string \<Rightarrow> nat list" where
  "utf8 s = concat (map utf8_char s)"

definition bearerTokenMatches :: "string option \<Rightarrow> string \<Rightarrow> bool" where
  "bearerTokenMatches authorization expectedToken =
     (case authorization of
        None \<Rightarrow> False
      | Some [] \<Rightarrow> False
      | Some actual \<Rightarrow>
          let expected = utf8 (''Bearer '' @ expectedToken)
          in length (utf8 actual) = length expected \<and> utf8 actual = expected)"

subsection \<open>The process\<close>

record AppState =
  as_store :: OrderStore
  as_reserved :: OrderState

record App =
  ap_config :: AppConfig
  ap_service :: "PassOperatorKey \<Rightarrow> Service"
  ap_source :: "PassOperatorKey \<Rightarrow> JourneySource"
  ap_validator :: ProtocolValidator
  ap_callbackUrl :: "PassOperatorKey \<Rightarrow> Url"
  ap_reserved :: "ReservedHandlerDependencies option"
  ap_ksrtcPass :: "PassHandlerDependencies option"
  ap_totp_text :: "TotpError \<Rightarrow> string"
  ap_parse :: "byte list \<Rightarrow> string + json"
  ap_decode :: "string \<Rightarrow> string option"

record Ambient =
  am_nowMs :: int
  am_drawn :: string
  am_draws :: Draws
  am_late :: bool
  am_posted :: Posted

datatype Payload = Json json | Callback Trv11Callback

text \<open>An answer: its status, the headers set beside the content type and length, and its body.\<close>

record Reply =
  rp_status :: nat
  rp_headers :: "(string \<times> string) list"
  rp_body :: Payload

record Served =
  se_replies :: "Reply list"
  se_posts :: "(string \<times> Payload) list"
  se_log :: "json list"
  se_state :: AppState

definition json_reply :: "nat \<Rightarrow> json \<Rightarrow> Reply" where
  "json_reply code body = \<lparr>rp_status = code, rp_headers = [], rp_body = Json body\<rparr>"

definition answered :: "Reply \<Rightarrow> AppState \<Rightarrow> Served" where
  "answered reply s = \<lparr>se_replies = [reply], se_posts = [], se_log = [], se_state = s\<rparr>"

definition not_found :: Reply where
  "not_found = json_reply 404 (JObj [(''error'', JStr ''Not found'')])"

subsection \<open>The two operators answered by a callback\<close>

text \<open>
  A search of journeys asks the source, caches what it offers, and only then renders it; a search that
  throws is not caught here.
\<close>

definition trv11_buildCallback ::
    "App \<Rightarrow> Draws \<Rightarrow> int \<Rightarrow> PassOperatorKey \<Rightarrow> Trv11Action \<Rightarrow> json \<Rightarrow> OrderStore
      \<Rightarrow> (string + Trv11Callback) \<times> json list \<times> OrderStore" where
  "trv11_buildCallback app draws nowMs key action body st =
     (let sv = ap_service app key; ttl = ac_contextTtl (ap_config app); text = error_text (ap_totp_text app);
          rendered = (\<lambda>r. case r of Inl e \<Rightarrow> Inl (text e) | Inr response \<Rightarrow> Inr (CatalogueCallback response)) in
      if action = SearchStep then
        let request = search_view body in
        if isPassSearch request then
          (rendered (buildPassOnSearch (sv_host sv) request (js_operator (ap_source app key)) key (sv_runtime sv)
             (sv_publicBaseUrl sv) ttl nowMs), [], st)
        else
          (case searchQueryFromRequest request of
             Inl e \<Rightarrow> (Inl (text e), [], st)
           | Inr query \<Rightarrow>
               let offers = js_search (ap_source app key) query;
                   st' = cache_offers sv (sr_context request) offers st
               in (rendered (buildOnSearch (sv_host sv) request (ap_source app key) (sv_runtime sv) (sv_publicBaseUrl sv) ttl
                     nowMs (Some offers)), [], st'))
      else
        let context = callback_context (trv11_context_view body) (sv_runtime sv) (on_step action) nowMs ttl;
            (outcome, st') = run_order_step sv draws nowMs action body st;
            (callback, events) = order_callback (ap_totp_text app) sv context action body outcome
        in (Inr callback, events, st'))"

text \<open>A callback that fails its schema is not posted; the failure is logged.\<close>

definition trv11_answerAction ::
    "App \<Rightarrow> Ambient \<Rightarrow> PassOperatorKey \<Rightarrow> Trv11Action \<Rightarrow> json \<Rightarrow> AppState \<Rightarrow> Served" where
  "trv11_answerAction app am key action body s =
     (let (built, events, st') = trv11_buildCallback app (am_draws am) (am_nowMs am) key action body (as_store s);
          onAction = on_step action; subscriber = rt_subscriberId (sv_runtime (ap_service app key));
          error_line = (\<lambda>e. event_line body onAction subscriber key ''ERROR'' [(''error'', JStr e)]);
          ended = (\<lambda>posts line. \<lparr>se_replies = [], se_posts = posts, se_log = events @ [line], se_state = s\<lparr>as_store := st'\<rparr>\<rparr>)
      in case built of
           Inl e \<Rightarrow> ended [] (error_line e)
         | Inr callback \<Rightarrow>
             let result = callback_validation (ap_validator app) action callback;
                 url = callbackUrlFor (ap_callbackUrl app key) onAction in
             if \<not> vr_valid result
             then ended [] (error_line (''Generated '' @ onAction @ '' failed schema validation: '' @ stringify (vr_errors result)))
             else ended [(url, Callback callback)]
               (case dispatchCallback url (am_posted am) of
                  Inl e \<Rightarrow> error_line e
                | Inr _ \<Rightarrow> callback_line body onAction subscriber key callback))"

definition with_ack :: "Served \<Rightarrow> json \<Rightarrow> Served" where
  "with_ack later line = later\<lparr>se_replies := json_reply 202 ack # se_replies later, se_log := line # se_log later\<rparr>"

text \<open>The category a search asks for, and why a search with another one is acknowledged and dropped.\<close>

definition skipped_line :: "App \<Rightarrow> PassOperatorKey \<Rightarrow> json \<Rightarrow> string \<Rightarrow> string \<Rightarrow> json" where
  "skipped_line app key body requested expected =
     event_line body ''search'' (rt_subscriberId (sv_runtime (ap_service app key))) key ''SKIPPED''
       [(''reason'', JStr (''Requested vehicle category '' @ requested @ ''; expected '' @ expected)),
        (''requested_category'', JStr requested), (''expected_category'', JStr expected)]"

definition trv11_handle :: "App \<Rightarrow> Ambient \<Rightarrow> PassOperatorKey \<Rightarrow> string \<Rightarrow> json \<Rightarrow> AppState \<Rightarrow> string + Served" where
  "trv11_handle app am key pathAction body s =
     (if body = JNull then Inl ''Cannot read properties of null (reading 'context')''
      else
        let raw = path (Some body) [''context'', ''action''];
            refused = (\<lambda>reply. Inr (answered (json_reply 400 reply) s));
            mismatch = refused (nack (''Request action '' @ js_text_option raw @ '' does not match path '' @ pathAction) None);
            accepted = (\<lambda>action. Inr (with_ack (trv11_answerAction app am key action body s)
              (event_line body (step_wire action) (rt_subscriberId (sv_runtime (ap_service app key))) key ''ACK'' [])))
        in case request_action raw of
             None \<Rightarrow> mismatch
           | Some action \<Rightarrow>
               if pathAction \<noteq> ''inbound'' \<and> pathAction \<noteq> step_wire action then mismatch
               else
                 let result = request_validation (ap_validator app) action body in
                 if \<not> vr_valid result
                 then refused (nack (step_wire action @ '' payload failed TRV11 validation'') (Some (vr_errors result)))
                 else if action = SearchStep \<and> \<not> isPassSearch (search_view body) then
                   (case searchQueryFromRequest (search_view body) of
                      Inl e \<Rightarrow> refused (nack (error_text (ap_totp_text app) e) None)
                    | Inr _ \<Rightarrow>
                        let expected = vehicle_wire (op_vehicleCategory (js_operator (ap_source app key)));
                            requested = text_at body [''message'', ''intent'', ''fulfillment'', ''vehicle'', ''category''] in
                        if requested \<noteq> [] \<and> requested \<noteq> expected
                        then Inr (with_ack \<lparr>se_replies = [], se_posts = [], se_log = [], se_state = s\<rparr>
                               (skipped_line app key body requested expected))
                        else accepted action)
                 else accepted action)"

subsection \<open>The other two categories\<close>

definition reserved_served :: "AppState \<Rightarrow> Handled \<Rightarrow> Served" where
  "reserved_served s h = \<lparr>se_replies = map (\<lambda>r. json_reply (re_status r) (re_body r)) (ha_responses h),
     se_posts = map (\<lambda>(url, v). (url, Json v)) (ha_posts h), se_log = ha_log h, se_state = s\<lparr>as_reserved := ha_state h\<rparr>\<rparr>"

fun payload :: "Trv11Payload \<Rightarrow> Payload" where
  "payload (JsonPayload v) = Json v"
| "payload (CallbackPayload c) = Callback c"

definition pass_served :: "AppState \<Rightarrow> PassHandled \<Rightarrow> Served" where
  "pass_served s h = \<lparr>se_replies = map (\<lambda>(status, v). \<lparr>rp_status = status, rp_headers = [], rp_body = payload v\<rparr>) (ph_responses h),
     se_posts = [], se_log = ph_log h, se_state = s\<lparr>as_store := ph_store h\<rparr>\<rparr>"

subsection \<open>The operator's own pages\<close>

fun source_wire :: "SourceKind \<Rightarrow> string" where
  "source_wire FixtureSource = ''fixture''"
| "source_wire HttpSourceKind = ''http''"

definition operator_names :: json where
  "operator_names = JArr [JStr ''bmtc'', JStr ''bmrcl'']"

definition trv11_endpoints :: "string \<Rightarrow> json" where
  "trv11_endpoints name =
     JArr (map (\<lambda>a. JStr (''POST /'' @ name @ ''/'' @ a)) (map step_wire TRV11_ACTIONS @ [''inbound'']))"

definition reserved_endpoints :: json where
  "reserved_endpoints = JArr (map (\<lambda>a. JStr (''POST /ksrtc/'' @ a)) (map action_wire RESERVED_ACTIONS @ [''inbound'']))"

definition pass_endpoints :: json where
  "pass_endpoints = JArr (map (\<lambda>a. JStr (''POST /ksrtc/pass/'' @ step_wire a)) TRV11_ACTIONS)"

definition index_page :: "App \<Rightarrow> json" where
  "index_page app = JObj
     [(''service'', JStr ''ondc-transit-bpp''),
      (''description'', JStr ''ONDC TRV11 BPP for Bengaluru transit (BMTC bus + BMRCL metro)''),
      (''journeySource'', JStr (source_wire (ac_journeySource (ap_config app)))), (''operators'', operator_names),
      (''endpoints'', JObj
        ([(''health'', JStr ''GET /healthz''), (''terms'', JStr ''GET /terms''),
          (''orders'', JStr ''GET /orders/:orderId  (requires Bearer token)''),
          (''bmtc'', trv11_endpoints ''bmtc''), (''bmrcl'', trv11_endpoints ''bmrcl'')]
         @ (if ap_reserved app = None then [] else [(''ksrtc'', reserved_endpoints)])
         @ (if ap_ksrtcPass app = None then [] else [(''ksrtcPass'', pass_endpoints)])))]"

definition health_page :: "App \<Rightarrow> json" where
  "health_page app = JObj [(''status'', JStr ''up''),
     (''journeySource'', JStr (source_wire (ac_journeySource (ap_config app)))), (''operators'', operator_names)]"

text \<open>The published cancellation slabs: code, description and percentage.\<close>

definition published_slabs :: "(string \<times> string \<times> int) list" where
  "published_slabs =
     [(''OVER_72H'', ''more than 72 hours before departure'', 10),
      (''72H_TO_24H'', ''72 to 24 hours before departure'', 25),
      (''24H_TO_2H'', ''24 to 2 hours before departure'', 50),
      (''UNDER_2H'', ''less than 2 hours before departure, or after it'', 100)]"

definition slab_json :: "string \<times> string \<times> int \<Rightarrow> json" where
  "slab_json slab = (case slab of (code, description, percent) \<Rightarrow>
     JObj [(''code'', JStr code), (''when'', JStr description), (''deductionPercent'', JNum percent)])"

definition terms_page :: "App \<Rightarrow> json" where
  "terms_page app = JObj
     ([(''specimen'', JBool True), (''notice'', JStr ''Local demonstration only. No ticket is valid for travel.'')]
      @ (if ac_reservedEnabled (ap_config app)
         then [(''reservedCancellation'', JObj
           [(''notice'', JStr ''Deducted from the base fare. The reservation fee is not refunded in any slab and the toll is refunded in full in every slab.''),
            (''slabs'', JArr (map slab_json published_slabs)), (''quoteValidity'', JStr ''PT2M''),
            (''holdTtlSeconds'', JNum (rc_holdTtlSeconds (ac_reservation (ap_config app)))),
            (''money'', JStr ''No money moves in this specimen. A refund figure is arithmetic, not a payment.'')])]
         else []))"

definition inspect_order :: "App \<Rightarrow> string \<Rightarrow> AppState \<Rightarrow> json option" where
  "inspect_order app orderId s =
     (case store_inspect orderId (as_store s) of
        Some order \<Rightarrow> Some order
      | None \<Rightarrow> if ap_reserved app = None then None
                else map_option b_order (inspect orderId (os_db (as_reserved s))))"

definition orders_page :: "App \<Rightarrow> string option \<Rightarrow> string \<Rightarrow> AppState \<Rightarrow> Reply" where
  "orders_page app authorization encoded s =
     (let no_store = (''cache-control'', ''no-store'');
          reply = (\<lambda>status more v. \<lparr>rp_status = status, rp_headers = no_store # more, rp_body = Json v\<rparr>) in
      case ac_orderInspectionToken (ap_config app) of
        None \<Rightarrow> reply 404 [] (JObj [(''error'', JStr ''Not found'')])
      | Some token \<Rightarrow>
          if \<not> bearerTokenMatches authorization token
          then reply 401 [(''www-authenticate'', ''Bearer'')] (JObj [(''error'', JStr ''Unauthorized'')])
          else
            (case ap_decode app encoded of
               None \<Rightarrow> reply 400 [] (JObj [(''error'', JStr ''Invalid order id encoding'')])
             | Some orderId \<Rightarrow>
                 (case inspect_order app orderId s of
                    Some order \<Rightarrow> reply 200 [] order
                  | None \<Rightarrow> reply 404 [] (JObj [(''error'', JStr ''Order not found'')]))))"

subsection \<open>Routes\<close>

datatype Route =
    IndexRoute | HealthRoute | TermsRoute
  | OrdersRoute string
  | ReservedRoute string
  | PassRoute string
  | Trv11Route PassOperatorKey string
  | NoRoute

text \<open>The rest of a path after a literal beginning, where it is one segment that is not empty.\<close>

definition after :: "string \<Rightarrow> string \<Rightarrow> string option" where
  "after literal p =
     (let rest = drop (length literal) p in
      if take (length literal) p = literal \<and> rest \<noteq> [] \<and> slash \<notin> set rest then Some rest else None)"

definition after_one_of :: "string \<Rightarrow> string list \<Rightarrow> string \<Rightarrow> string option" where
  "after_one_of literal names p =
     (case after literal p of None \<Rightarrow> None | Some rest \<Rightarrow> if rest \<in> set names then Some rest else None)"

definition trv11_names :: "string list" where
  "trv11_names = ''inbound'' # map step_wire TRV11_ACTIONS"

definition route_of :: "string \<Rightarrow> string \<Rightarrow> Route" where
  "route_of verb p =
     (if verb = ''GET'' then
        (if p = ''/'' then IndexRoute else if p = ''/healthz'' then HealthRoute else if p = ''/terms'' then TermsRoute
         else case after ''/orders/'' p of Some encoded \<Rightarrow> OrdersRoute encoded | None \<Rightarrow> NoRoute)
      else if verb = ''POST'' then
        (case after_one_of ''/ksrtc/'' (''inbound'' # map action_wire RESERVED_ACTIONS) p of
           Some a \<Rightarrow> ReservedRoute a
         | None \<Rightarrow>
             (case after_one_of ''/ksrtc/pass/'' (map step_wire TRV11_ACTIONS) p of
                Some a \<Rightarrow> PassRoute a
              | None \<Rightarrow>
                  (case after_one_of ''/bmtc/'' trv11_names p of
                     Some a \<Rightarrow> Trv11Route Bmtc a
                   | None \<Rightarrow>
                       (case after_one_of ''/bmrcl/'' trv11_names p of
                          Some a \<Rightarrow> Trv11Route Bmrcl a | None \<Rightarrow> NoRoute))))
      else NoRoute)"

text \<open>\<open>hq_pathname\<close> is the path of \<open>new URL(request.url, ...)\<close>, \<open>None\<close> where the constructor throws.\<close>

record HttpRequest =
  hq_verb :: string
  hq_pathname :: "string option"
  hq_authorization :: "string option"
  hq_chunks :: "byte list list"

definition with_body :: "App \<Rightarrow> HttpRequest \<Rightarrow> AppState \<Rightarrow> (json \<Rightarrow> string + Served) \<Rightarrow> string + Served" where
  "with_body app request s continue =
     (case readJson (ap_parse app) (hq_chunks request) of
        Inl message \<Rightarrow> Inr (answered (json_reply 400 (nack message None)) s)
      | Inr body \<Rightarrow> continue body)"

definition dispatch :: "App \<Rightarrow> Ambient \<Rightarrow> HttpRequest \<Rightarrow> Route \<Rightarrow> AppState \<Rightarrow> string + Served" where
  "dispatch app am request route s =
     (case route of
        IndexRoute \<Rightarrow> Inr (answered (json_reply 200 (index_page app)) s)
      | HealthRoute \<Rightarrow> Inr (answered (json_reply 200 (health_page app)) s)
      | TermsRoute \<Rightarrow> Inr (answered (json_reply 200 (terms_page app)) s)
      | OrdersRoute encoded \<Rightarrow> Inr (answered (orders_page app (hq_authorization request) encoded s) s)
      | ReservedRoute pathAction \<Rightarrow>
          (case ap_reserved app of
             None \<Rightarrow> Inr (answered not_found s)
           | Some dep \<Rightarrow> with_body app request s (\<lambda>body.
               andThen (handle dep (am_nowMs am) (am_drawn am) (am_late am) (am_posted am) pathAction body (as_reserved s))
                 (\<lambda>h. Inr (reserved_served s h))))
      | PassRoute pathAction \<Rightarrow>
          (case ap_ksrtcPass app of
             None \<Rightarrow> Inr (answered not_found s)
           | Some dep \<Rightarrow> with_body app request s (\<lambda>body.
               Inr (pass_served s (pass_handle dep (am_draws am) (am_nowMs am) pathAction body (as_store s)))))
      | Trv11Route key pathAction \<Rightarrow> with_body app request s (\<lambda>body. trv11_handle app am key pathAction body s)
      | NoRoute \<Rightarrow> Inr (answered not_found s))"

definition listener :: "App \<Rightarrow> Ambient \<Rightarrow> HttpRequest \<Rightarrow> AppState \<Rightarrow> string + Served" where
  "listener app am request s =
     (case hq_pathname request of
        None \<Rightarrow> Inl ''Invalid URL''
      | Some p \<Rightarrow> dispatch app am request (route_of (hq_verb request) p) s)"

end
