(* ===== verification/App_Properties.thy ===== *)
theory App_Properties
  imports App_Server Handler_Properties Config_Properties Trv11_Specimen
begin

text \<open>
  What the process promises: every request is answered once and how the few that are not can be told,
  the categories do not touch each other's state, an order is shown only to the holder of the token, the
  published terms are the rules refunds are computed by, and no traffic sells a seat twice.
\<close>

subsection \<open>Bodies\<close>

definition total_bytes :: "byte list list \<Rightarrow> nat" where
  "total_bytes chunks = sum_list (map length chunks)"

lemma read_chunks_ok:
  "read_chunks n xs chunks = Inr ys \<longleftrightarrow> ys = xs @ concat chunks \<and> (chunks = [] \<or> n + total_bytes chunks \<le> MAX_BODY_BYTES)"
proof (induction chunks arbitrary: n xs)
  case Nil
  then show ?case by auto
next
  case (Cons c cs)
  show ?case using Cons [of "n + length c" "xs @ c"] by (auto simp: total_bytes_def)
qed

text \<open>A body is read exactly when its chunks, however they are cut, come to at most a mebibyte and parse:
  the value is that of their bytes in order.\<close>

theorem body_read_iff_small:
  "readJson parse chunks = Inr v \<longleftrightarrow> total_bytes chunks \<le> MAX_BODY_BYTES \<and> parse (concat chunks) = Inr v"
  by (auto simp: readJson_def andThen_eq_Inr read_chunks_ok total_bytes_def)

subsection \<open>Tokens\<close>

lemma utf8_char_cases: "(\<exists>n < 128. utf8_char c = [n] \<and> of_char c = n) \<or> (\<exists>a b. utf8_char c = [192 + a, 128 + b] \<and> of_char c = 64 * a + b)"
  by (auto simp: utf8_char_def Let_def)

lemma utf8_char_prefix: "utf8_char c @ xs = utf8_char d @ ys \<Longrightarrow> c = d \<and> xs = ys"
  using utf8_char_cases [of c] utf8_char_cases [of d] of_char_eq_iff [where 'a = nat, of c d] by (elim disjE exE conjE) auto

lemma utf8_inject: "utf8 s = utf8 t \<longleftrightarrow> s = t"
proof
  assume "utf8 s = utf8 t"
  then show "s = t"
  proof (induction s arbitrary: t)
    case Nil
    show ?case
    proof (cases t)
      case (Cons d t')
      then show ?thesis using Nil utf8_char_cases [of d] by (auto simp: utf8_def)
    qed simp
  next
    case (Cons c s)
    then obtain d t' where t: "t = d # t'" using utf8_char_cases [of c] by (cases t) (auto simp: utf8_def)
    then have "c = d \<and> utf8 s = utf8 t'" using Cons.prems utf8_char_prefix [of c "utf8 s" d "utf8 t'"] by (simp add: utf8_def)
    then show ?case using Cons.IH t by simp
  qed
qed simp

lemma bearer_exact: "bearerTokenMatches authorization token \<longleftrightarrow> authorization = Some (''Bearer '' @ token)"
  by (auto simp: bearerTokenMatches_def utf8_inject Let_def split: option.splits list.splits)

subsection \<open>Routes\<close>

lemma after_Some: "after lit p = Some rest \<Longrightarrow> p = lit @ rest"
  by (auto simp: after_def Let_def split: if_splits) (metis append_take_drop_id)

lemma route_verb:
  "hq_verb request = ''GET'' \<Longrightarrow> route_of (hq_verb request) p \<in> {IndexRoute, HealthRoute, TermsRoute, NoRoute} \<union> range OrdersRoute"
  by (auto simp: route_of_def split: option.splits)

definition pages_route :: "Route \<Rightarrow> bool" where
  "pages_route r \<longleftrightarrow> r \<in> {IndexRoute, HealthRoute, TermsRoute, NoRoute} \<union> range OrdersRoute"

lemma pages_keep_state: "dispatch app am request r s = Inr h \<Longrightarrow> pages_route r \<Longrightarrow> se_state h = s \<and> se_posts h = []"
  by (auto simp: dispatch_def pages_route_def answered_def split: Route.splits)

text \<open>C17. A GET changes nothing, and what it shows does not depend on any order the process knows, unless the
  operator configured a token and the request carries exactly that token: without it the answer to an
  inspection is the same whatever was sold.\<close>

theorem orders_shown_only_to_the_token:
  assumes "hq_verb request = ''GET''" and "listener app am request s = Inr h" and "listener app am request s' = Inr h'"
  shows "se_state h = s \<and> ((\<exists>token. ac_orderInspectionToken (ap_config app) = Some token
       \<and> hq_authorization request = Some (''Bearer '' @ token)) \<or> se_replies h = se_replies h')"
proof -
  obtain p where p: "hq_pathname request = Some p" "dispatch app am request (route_of ''GET'' p) s = Inr h"
    "dispatch app am request (route_of ''GET'' p) s' = Inr h'"
    using assms by (auto simp: listener_def split: option.splits)
  have pages: "pages_route (route_of ''GET'' p)" using route_verb [OF assms(1)] assms(1) by (simp add: pages_route_def)
  have "se_state h = s" using pages_keep_state [OF p(2) pages] by simp
  moreover have "se_replies h = se_replies h'"
    if "\<not> (\<exists>token. ac_orderInspectionToken (ap_config app) = Some token \<and> hq_authorization request = Some (''Bearer '' @ token))"
    using p(2,3) pages that
    by (auto simp: dispatch_def pages_route_def answered_def orders_page_def bearer_exact Let_def split: option.splits)
  ultimately show ?thesis by blast
qed

subsection \<open>One answer\<close>

lemma trv11_answerAction_parts:
  "se_replies (trv11_answerAction app am key action body s) = []
   \<and> as_reserved (se_state (trv11_answerAction app am key action body s)) = as_reserved s
   \<and> length (se_posts (trv11_answerAction app am key action body s)) \<le> 1"
  by (auto simp: trv11_answerAction_def Let_def split: prod.splits sum.splits)

definition plain_statuses :: "nat set" where "plain_statuses = {200, 202, 400, 401, 404, 500, 504}"

definition one_reply :: "Served \<Rightarrow> bool" where
  "one_reply h \<longleftrightarrow> (\<exists>r. se_replies h = [r] \<and> rp_status r \<in> plain_statuses) \<and> length (se_posts h) \<le> 1"

lemma answered_one: "rp_status r \<in> plain_statuses \<Longrightarrow> one_reply (answered r s)"
  by (simp add: one_reply_def answered_def)

lemma trv11_handle_one:
  assumes "trv11_handle app am key route body s = Inr h"
  shows "one_reply h \<and> as_reserved (se_state h) = as_reserved s"
  using assms trv11_answerAction_parts [of app am key _ body s]
  by (auto simp: trv11_handle_def Let_def one_reply_def plain_statuses_def answered_def with_ack_def json_reply_def
      split: if_splits option.splits sum.splits)

lemma reserved_one:
  assumes "handle dep n drawn late posted route body s = Inr h"
  shows "one_reply (reserved_served t h) \<and> as_store (se_state (reserved_served t h)) = as_store t"
proof (cases "served_action dep route body")
  case None
  then show ?thesis
    using handle_refused [OF assms None]
    by (auto simp: one_reply_def reserved_served_def plain_statuses_def json_reply_def)
next
  case (Some action)
  show ?thesis
    using handle_served [OF assms Some] answered_sync [of dep action n drawn late body s] answered_async [of dep n drawn posted action body s]
    by (auto simp: one_reply_def reserved_served_def plain_statuses_def json_reply_def sync_answer_def callback_posts_def split: if_splits)
qed

lemma pass_one: "one_reply (pass_served t (pass_handle dep draws n route body st))
    \<and> as_reserved (se_state (pass_served t (pass_handle dep draws n route body st))) = as_reserved t"
  by (auto simp: pass_handle_def pass_served_def one_reply_def plain_statuses_def Let_def split: prod.splits option.splits sum.splits)

lemma orders_page_status: "rp_status (orders_page app authorization encoded s) \<in> plain_statuses"
  by (auto simp: orders_page_def plain_statuses_def Let_def split: option.splits)

text \<open>C16. A request the process handles is answered exactly once, with one of seven statuses, and posts at most
  one callback. It changes the state of the category it addresses and of no other: a reserved request leaves
  the orders of single journeys and passes alone, and theirs leave the reserved tables alone.\<close>

theorem request_touches_one_category:
  assumes "listener app am request s = Inr h"
  shows "one_reply h \<and> (as_store (se_state h) = as_store s \<or> as_reserved (se_state h) = as_reserved s)"
proof -
  obtain p where p: "dispatch app am request (route_of (hq_verb request) p) s = Inr h"
    using assms by (auto simp: listener_def split: option.splits)
  show ?thesis
  proof (cases "route_of (hq_verb request) p")
    case (ReservedRoute a)
    then show ?thesis
      using p reserved_one
      by (auto simp: dispatch_def with_body_def andThen_eq_Inr json_reply_def not_found_def plain_statuses_def answered_def one_reply_def
          split: option.splits sum.splits)
  next
    case (PassRoute a)
    then show ?thesis
      using p pass_one
      by (auto simp: dispatch_def with_body_def json_reply_def not_found_def plain_statuses_def answered_def one_reply_def
          split: option.splits sum.splits)
  next
    case (Trv11Route key a)
    then show ?thesis
      using p trv11_handle_one
      by (auto simp: dispatch_def with_body_def json_reply_def plain_statuses_def answered_def one_reply_def split: sum.splits)
  qed (use p orders_page_status in \<open>auto simp: dispatch_def one_reply_def answered_def json_reply_def not_found_def plain_statuses_def\<close>)
qed




subsection \<open>Traffic\<close>

text \<open>Requests served one after another, by processes on the same state; a listener that threw left it alone.\<close>

definition app_step :: "App \<times> Ambient \<times> HttpRequest \<Rightarrow> AppState \<Rightarrow> AppState" where
  "app_step x s = (case x of (app, am, request) \<Rightarrow> (case listener app am request s of Inl _ \<Rightarrow> s | Inr h \<Rightarrow> se_state h))"

definition traffic :: "(App \<times> Ambient \<times> HttpRequest) list \<Rightarrow> AppState" where
  "traffic xs = fold app_step xs \<lparr>as_store = empty_store, as_reserved = first_state\<rparr>"

lemma runAction_answer: "\<exists>req. runAction env n drawn action body = answer env n req"
proof (cases action)
  case SearchAction
  then show ?thesis by (intro exI [of _ "SearchRequest (intent_view body)"]) (simp add: fun_eq_iff)
next
  case SelectAction
  then show ?thesis by (intro exI [of _ "SelectRequest drawn (context_view body) (input_view body)"]) (simp add: fun_eq_iff)
next
  case InitAction
  then show ?thesis by (intro exI [of _ "InitRequest (context_view body) (input_view body)"]) (simp add: fun_eq_iff)
next
  case ConfirmAction
  then show ?thesis by (intro exI [of _ "ConfirmRequest drawn (context_view body) (input_view body)"]) (simp add: fun_eq_iff)
next
  case StatusAction
  then show ?thesis
    by (intro exI [of _ "StatusRequest (context_view body) (text_option_at body [''message'', ''order_id''])
          (text_option_at body [''message'', ''ref_id''])"]) (simp add: fun_eq_iff)
next
  case CancelAction
  then show ?thesis
    by (intro exI [of _ "CancelRequest drawn (context_view body) (text_at body [''message'', ''order_id''])
          (text_at body [''message'', ''descriptor'', ''code'']) (list_option_at body [''message'', ''tags''])"]) (simp add: fun_eq_iff)
qed

lemma runAction_reachable: "store_reachable (os_db s) \<Longrightarrow> store_reachable (os_db (snd (runAction env n drawn action body s)))"
  using runAction_answer [of env n drawn action body] flow_reachable [OF answer_safe] by auto

lemma handle_reachable:
  assumes "handle dep n drawn late posted route body s = Inr h" "store_reachable (os_db s)"
  shows "store_reachable (os_db (ha_state h))"
proof (cases "served_action dep route body")
  case None
  then show ?thesis using handle_refused [OF assms(1) None] assms(2) by simp
next
  case (Some action)
  then show ?thesis
    using handle_served [OF assms(1) Some] runAction_reachable [OF assms(2)] by (auto simp: sync_state async_state split: if_splits)
qed

lemma listener_reachable:
  assumes "listener app am request s = Inr h" "store_reachable (os_db (as_reserved s))"
  shows "store_reachable (os_db (as_reserved (se_state h)))"
proof -
  obtain p where p: "dispatch app am request (route_of (hq_verb request) p) s = Inr h"
    using assms(1) by (auto simp: listener_def split: option.splits)
  show ?thesis
  proof (cases "route_of (hq_verb request) p")
    case (ReservedRoute a)
    then show ?thesis
      using p assms(2) handle_reachable
      by (fastforce simp: dispatch_def with_body_def andThen_eq_Inr answered_def reserved_served_def split: option.splits sum.splits)
  next
    case (PassRoute a)
    then show ?thesis
      using p assms(2) by (auto simp: dispatch_def with_body_def answered_def pass_served_def split: option.splits sum.splits)
  next
    case (Trv11Route key a)
    then show ?thesis
      using p assms(2) trv11_handle_one by (auto simp: dispatch_def with_body_def answered_def split: sum.splits)
  qed (use p assms(2) in \<open>auto simp: dispatch_def answered_def\<close>)
qed

lemma app_step_reachable: "store_reachable (os_db (as_reserved s)) \<Longrightarrow> store_reachable (os_db (as_reserved (app_step x s)))"
  by (auto simp: app_step_def listener_reachable split: prod.splits sum.splits)

lemma fold_reachable: "store_reachable (os_db (as_reserved s)) \<Longrightarrow> store_reachable (os_db (as_reserved (fold app_step xs s)))"
  by (induction xs arbitrary: s) (auto dest: app_step_reachable)

text \<open>C1. Whatever requests arrive, on whatever routes, with whatever bodies, clocks, deadlines and networks, no
  seat of a dated departure is confirmed twice.\<close>

theorem no_traffic_sells_a_seat_twice:
  "distinct (map (sold_seat (os_db (as_reserved (traffic xs))))
     (filter (\<lambda>x. sr_status x = CONFIRMED) (db_booking_seats (os_db (as_reserved (traffic xs))))))"
proof -
  have "store_reachable (os_db (as_reserved (traffic xs)))"
    unfolding traffic_def by (rule fold_reachable) (simp add: first_state_def store_reachable_empty)
  from sold_seats_distinct [OF store_reachable_inv [OF this]] show ?thesis .
qed

subsection \<open>Terms\<close>

text \<open>The cancellation terms that are published are the rules refunds are computed by: the codes and
  percentages on the page are exactly the slabs some departure and some instant come to.\<close>

theorem published_terms_are_the_rules:
  "set (map (\<lambda>(code, description, percent). (code, percent)) published_slabs)
   = range (\<lambda>(departureAt, now). (slab_code_wire (slab_code (slabFor departureAt now)), slab_deductionPercent (slabFor departureAt now)))"
proof -
  let ?f = "\<lambda>(departureAt, now). (slab_code_wire (slab_code (slabFor departureAt now)), slab_deductionPercent (slabFor departureAt now))"
  have each: "?f (d, n) \<in> set (map (\<lambda>(code, description, percent). (code, percent)) published_slabs)" for d n
    by (simp add: slabFor_def published_slabs_def Let_def)
  have "range ?f \<subseteq> set (map (\<lambda>(code, description, percent). (code, percent)) published_slabs)"
  proof (rule image_subsetI)
    show "?f x \<in> set (map (\<lambda>(code, description, percent). (code, percent)) published_slabs)" for x
      using each [of "fst x" "snd x"] by (simp only: prod.collapse)
  qed
  moreover have reach: "?f (73 * HOUR_MILLISECONDS, 0) = (''OVER_72H'', 10)" "?f (72 * HOUR_MILLISECONDS, 0) = (''72H_TO_24H'', 25)"
    "?f (24 * HOUR_MILLISECONDS, 0) = (''24H_TO_2H'', 50)" "?f (2 * HOUR_MILLISECONDS, 0) = (''UNDER_2H'', 100)"
    by (simp_all add: slabFor_def HOUR_MILLISECONDS_def)
  moreover have "set (map (\<lambda>(code, description, percent). (code, percent)) published_slabs) \<subseteq> range ?f"
    using rangeI [of ?f "(73 * HOUR_MILLISECONDS, 0)"] rangeI [of ?f "(72 * HOUR_MILLISECONDS, 0)"]
      rangeI [of ?f "(24 * HOUR_MILLISECONDS, 0)"] rangeI [of ?f "(2 * HOUR_MILLISECONDS, 0)"]
    unfolding reach by (simp add: published_slabs_def)
  ultimately show ?thesis by blast
qed

subsection \<open>Passes\<close>

text \<open>The pass route answers every body, null included, exactly once: 400 and the store unchanged, 200 with a
  callback of its published shape, or 500.\<close>

theorem pass_request_always_answered:
  "\<exists>code reply. ph_responses (pass_handle dep draws n route body st) = [(code, reply)]
     \<and> (code = 400 \<and> ph_store (pass_handle dep draws n route body st) = st
        \<or> code = 500
        \<or> code = 200 \<and> (\<exists>action callback. reply = CallbackPayload callback \<and> step_wire action = route
             \<and> vr_valid (callback_validation (pd_validator dep) action callback)))"
  by (auto simp: pass_handle_def pass_resolveCallback_def Let_def request_action_def split: prod.splits option.splits sum.splits if_splits)

subsection \<open>One process\<close>

definition any_callback :: "'a \<Rightarrow> ValidationResult" where
  "any_callback v = \<lparr>vr_valid = True, vr_errors = JArr []\<rparr>"

definition demo_config :: AppConfig where
  "demo_config = projr (loadConfig plain_urls demo_env)"

definition demo_app :: App where
  "demo_app = \<lparr>ap_config = demo_config\<lparr>ac_orderInspectionToken := Some ''key''\<rparr>, ap_service = a_service,
     ap_source = (\<lambda>key. \<lparr>js_operator = sv_profile (a_service key), js_search = (\<lambda>q. [])\<rparr>),
     ap_validator = \<lparr>pv_search = any_callback, pv_onSearch = any_callback, pv_select = any_callback, pv_onSelect = any_callback,
       pv_init = any_callback, pv_onInit = any_callback, pv_confirm = any_callback, pv_onConfirm = any_callback,
       pv_status = any_callback, pv_onStatus = any_callback\<rparr>,
     ap_callbackUrl = (\<lambda>_. \<lparr>url_origin = ''http://b'', url_pathname = ''/'', url_rest = []\<rparr>), ap_reserved = Some sync_deps,
     ap_ksrtcPass = None, ap_totp_text = (\<lambda>_. []), ap_parse = (\<lambda>bytes. if bytes = [] then Inr JNull else Inr rider_body),
     ap_decode = Some\<rparr>"

definition demo_ambient :: Ambient where
  "demo_ambient = \<lparr>am_nowMs = 2000, am_drawn = ''cd2'', am_draws = the_draws, am_late = False, am_posted = Unreachable ''down''\<rparr>"

definition demo_get :: HttpRequest where
  "demo_get = \<lparr>hq_verb = ''GET'', hq_pathname = Some ''/orders/ORD'', hq_authorization = Some ''Bearer kex'', hq_chunks = []\<rparr>"

definition demo_post :: HttpRequest where
  "demo_post = \<lparr>hq_verb = ''POST'', hq_pathname = Some ''/ksrtc/inbound'', hq_authorization = None, hq_chunks = [[0]]\<rparr>"

definition demo_state :: AppState where
  "demo_state = \<lparr>as_store = empty_store, as_reserved = rider_state\<rparr>"

lemma demo_get_answer: "\<exists>h. listener demo_app demo_ambient demo_get s = Inr h"
  by (simp add: listener_def demo_get_def route_of_def after_def slash_def dispatch_def)

theorem orders_shown_only_to_the_token_witness:
  "\<exists>h h'. listener demo_app demo_ambient demo_get demo_state = Inr h
     \<and> listener demo_app demo_ambient demo_get \<lparr>as_store = empty_store, as_reserved = first_state\<rparr> = Inr h'
     \<and> se_replies h = se_replies h'"
proof -
  obtain h h' where h: "listener demo_app demo_ambient demo_get demo_state = Inr h"
    "listener demo_app demo_ambient demo_get \<lparr>as_store = empty_store, as_reserved = first_state\<rparr> = Inr h'"
    using demo_get_answer by blast
  have "hq_verb demo_get = ''GET''" by (simp add: demo_get_def)
  from orders_shown_only_to_the_token [OF this h] have "se_replies h = se_replies h'" by (simp add: demo_app_def demo_get_def)
  with h show ?thesis by blast
qed

lemma demo_post_answer: "listener demo_app demo_ambient demo_post demo_state
    = Inr (reserved_served demo_state (answerActionSync sync_deps 2000 ''cd2'' False ConfirmAction rider_body rider_state))"
proof -
  have "dispatch demo_app demo_ambient demo_post (ReservedRoute ''inbound'') demo_state
      = Inr (reserved_served demo_state (answerActionSync sync_deps 2000 ''cd2'' False ConfirmAction rider_body rider_state))"
    by (simp add: dispatch_def demo_app_def with_body_def readJson_def demo_post_def MAX_BODY_BYTES_def demo_ambient_def
        demo_state_def rider_handled)
  moreover have "route_of ''POST'' ''/ksrtc/inbound'' = ReservedRoute ''inbound''"
    by (simp add: route_of_def after_one_of_def after_def slash_def)
  ultimately show ?thesis by (simp add: listener_def demo_post_def)
qed

theorem request_touches_one_category_witness:
  "one_reply (reserved_served demo_state (answerActionSync sync_deps 2000 ''cd2'' False ConfirmAction rider_body rider_state))"
  using request_touches_one_category [OF demo_post_answer] by blast

end
