(* ===== verification/Fleet_Egress.thy ===== *)
theory Fleet_Egress
  imports Order_Run Protocol_Wire
begin

text \<open>
  The push of seat counts to the fleet simulator (\<open>src/src/reserved/fleetManifest.ts\<close>): which request a departure
  comes to, and that a push that fails is a line of the event log and nothing else. \<open>form_encode\<close> is the
  encoding of a query parameter.
\<close>

record FleetPublisher =
  fp_origin :: string
  fp_token :: string
  fp_ttlSeconds :: int

record FleetRequest =
  fr_verb :: string
  fr_url :: string
  fr_headers :: "(string \<times> string) list"
  fr_body :: "json option"

datatype FleetResponse = FleetUnreachable string | FleetAnswered nat string

definition fleet_address :: "FleetPublisher \<Rightarrow> string" where
  "fleet_address pub = fp_origin pub @ ''/fleet/manifest''"

definition fleet_request :: "FleetPublisher \<Rightarrow> string \<Rightarrow> string \<Rightarrow> json option \<Rightarrow> FleetRequest" where
  "fleet_request pub verb url body = \<lparr>fr_verb = verb, fr_url = url,
     fr_headers = (''authorization'', ''Bearer '' @ fp_token pub)
       # (if body = None then [] else [(''content-type'', ''application/json'')]), fr_body = body\<rparr>"

text \<open>What a failed push logs; a push that was answered with success logs nothing.\<close>

definition fleet_failure :: "string \<Rightarrow> FleetResponse \<Rightarrow> string option" where
  "fleet_failure action response =
     (case response of
        FleetUnreachable reason \<Rightarrow> Some reason
      | FleetAnswered code reason \<Rightarrow>
          if 200 \<le> code \<and> code \<le> 299 then None
          else Some (trim (''Fleet manifest '' @ action @ '' returned '' @ digits10 code @ '' '' @ reason)))"

definition fleet_send ::
    "FleetPublisher \<Rightarrow> (FleetRequest \<Rightarrow> FleetResponse) \<Rightarrow> string \<Rightarrow> string \<Rightarrow> string \<Rightarrow> string \<Rightarrow> json option \<Rightarrow> string
      \<Rightarrow> FleetRequest \<times> json list" where
  "fleet_send pub peer verb action serviceId travelDate body url =
     (let request = fleet_request pub verb url body in
      (request,
       case fleet_failure action (peer request) of
         None \<Rightarrow> []
       | Some reason \<Rightarrow>
           [JObj [(''action'', JStr ''fleet_manifest_publish''), (''outcome'', JStr ''FAILED''), (''method'', JStr action),
              (''serviceId'', JStr serviceId), (''travelDate'', JStr travelDate), (''reason'', JStr reason)]]))"

definition counts_json :: "ManifestSeatCounts \<Rightarrow> json" where
  "counts_json seats = JObj [(''total'', JNum (int (sc_total seats))), (''booked'', JNum (int (sc_booked seats))),
     (''held'', JNum (int (sc_held seats))), (''simulated'', JNum (int (sc_simulated seats)))]"

definition fleet_publish ::
    "FleetPublisher \<Rightarrow> (FleetRequest \<Rightarrow> FleetResponse) \<Rightarrow> string \<Rightarrow> string \<Rightarrow> int \<Rightarrow> ManifestSeatCounts \<Rightarrow> FleetRequest \<times> json list" where
  "fleet_publish pub peer serviceId travelDate asOf seats =
     fleet_send pub peer ''PUT'' ''publish'' serviceId travelDate
       (Some (JObj [(''serviceId'', JStr serviceId), (''travelDate'', JStr travelDate), (''seats'', counts_json seats),
          (''asOf'', JStr (toISOString asOf)), (''ttlSeconds'', JNum (fp_ttlSeconds pub))])) (fleet_address pub)"

definition fleet_clear ::
    "FleetPublisher \<Rightarrow> (FleetRequest \<Rightarrow> FleetResponse) \<Rightarrow> (string \<Rightarrow> string) \<Rightarrow> string \<Rightarrow> string \<Rightarrow> FleetRequest \<times> json list" where
  "fleet_clear pub peer form_encode serviceId travelDate =
     fleet_send pub peer ''DELETE'' ''clear'' serviceId travelDate None
       (fleet_address pub @ ''?service='' @ form_encode serviceId @ ''&date='' @ form_encode travelDate)"

text \<open>The push of one departure: the request it sends, if any, and what it logs.\<close>

definition push_departure ::
    "FleetPublisher \<Rightarrow> (FleetRequest \<Rightarrow> FleetResponse) \<Rightarrow> (string \<Rightarrow> string) \<Rightarrow> OrderEnv \<Rightarrow> int \<Rightarrow> Database \<Rightarrow> string \<times> string
      \<Rightarrow> FleetRequest option \<times> json list" where
  "push_departure pub peer form_encode env asOf db departure =
     (case publishManifestFor env asOf db departure of
        FleetClear i d \<Rightarrow> (let (r, events) = fleet_clear pub peer form_encode i d in (Some r, events))
      | FleetPublish i d instant seats \<Rightarrow> (let (r, events) = fleet_publish pub peer i d instant seats in (Some r, events))
      | _ \<Rightarrow> (None, []))"

lemma live_claims_states: "\<forall>c \<in> set (liveClaims i d db). claim_state c = BOOKED \<or> claim_state c = HELD"
  by (auto simp: liveClaims_def claim_of_def live_state_def)

lemma claims_by_state:
  "\<forall>c \<in> set cs. claim_state c = BOOKED \<or> claim_state c = HELD \<Longrightarrow>
     length (filter (\<lambda>c. claim_state c = BOOKED) cs) + length (filter (\<lambda>c. claim_state c = HELD) cs) = length cs"
  by (induction cs) auto

lemma published_counts:
  assumes "publishManifestFor env asOf db (i, d) = FleetPublish i' d' t seats"
  shows "i' = i \<and> d' = d \<and> t = asOf \<and> liveClaims i d db \<noteq> [] \<and> sc_booked seats + sc_held seats = length (liveClaims i d db)"
  using assms claims_by_state [OF live_claims_states [of i d db]]
  by (auto simp: publishManifestFor_def manifestSeatCounts_def Let_def andThen_def split: option.splits sum.splits if_splits)

lemma cleared_empty:
  assumes "publishManifestFor env asOf db (i, d) = FleetClear i' d'"
  shows "i' = i \<and> d' = d \<and> liveClaims i d db = []"
  using assms by (auto simp: publishManifestFor_def manifestSeatCounts_def Let_def andThen_def split: option.splits sum.splits if_splits)

text \<open>The counts that are pushed are those of the tables at the push: a departure with live claims is published
  with booked and held seats that add up to its live claims, and one with none is cleared. Every request
  carries the token, and whatever the simulator answers the push ends: a failure is one line of the log.\<close>

theorem pushed_counts_are_the_claims:
  assumes "push_departure pub peer form_encode env asOf db (i, d) = (Some request, events)"
  shows "((fr_verb request = ''DELETE'' \<and> liveClaims i d db = [] \<and> fr_body request = None)
       \<or> (fr_verb request = ''PUT'' \<and> liveClaims i d db \<noteq> []
         \<and> (\<exists>seats. path (fr_body request) [''seats''] = Some (counts_json seats)
              \<and> sc_booked seats + sc_held seats = length (liveClaims i d db))))
     \<and> hd (fr_headers request) = (''authorization'', ''Bearer '' @ fp_token pub) \<and> length events \<le> 1"
  using assms published_counts [of env asOf db i d] cleared_empty [of env asOf db i d]
  by (auto simp: push_departure_def fleet_publish_def fleet_clear_def fleet_send_def fleet_request_def Let_def
      split: FleetPush.splits option.splits)

definition coach_publisher :: FleetPublisher where
  "coach_publisher = \<lparr>fp_origin = ''http://fleet'', fp_token = ''key'', fp_ttlSeconds = 3600\<rparr>"

lemma coach_pushes: "\<exists>request events. push_departure coach_publisher (\<lambda>_. FleetUnreachable ''down'') id coach_env 2000 held_db
    (''S1'', ''2026-09-10'') = (Some request, events) \<and> liveClaims ''S1'' ''2026-09-10'' held_db \<noteq> []"
proof -
  obtain ids where "soldSeatIds code_unit_compare coach_service sample_map ''2026-09-10'' 7 = Inr ids"
    using coach_unsold by (auto simp: seededOccupancy_def result_simps)
  moreover have "liveClaims ''S1'' ''2026-09-10'' held_db \<noteq> []" by code_simp
  moreover have "seatMapFor coach_env coach_service = Inr sample_map" "src_service (env_source coach_env) ''S1'' = Some coach_service" by code_simp+
  moreover have "env_localeCompare coach_env = code_unit_compare" "rt_occupancySeed (env_reservation coach_env) = 7"
    by (simp_all add: coach_env_def)
  ultimately show ?thesis
    by (simp add: push_departure_def publishManifestFor_def manifestSeatCounts_def Let_def fleet_publish_def fleet_send_def)
qed

theorem pushed_counts_are_the_claims_witness:
  "\<exists>request events. push_departure coach_publisher (\<lambda>_. FleetUnreachable ''down'') id coach_env 2000 held_db
     (''S1'', ''2026-09-10'') = (Some request, events) \<and> fr_verb request = ''PUT'' \<and> length events \<le> 1"
  using coach_pushes pushed_counts_are_the_claims [where pub = coach_publisher and peer = "\<lambda>_. FleetUnreachable ''down''"
      and form_encode = id and env = coach_env and asOf = 2000 and db = held_db and i = "''S1''" and d = "''2026-09-10''"]
  by blast

end
