(* ===== verification/Fixture_Generator.thy ===== *)
theory Fixture_Generator
  imports Reserved_Source Reserved_Occupancy "HOL-Library.AList"
begin

text \<open>
  The script that writes the fixtures of the reserved seller from the feeds of a timetable
  repository (\<open>src/scripts/generate-ksrtc-fixtures.ts\<close>): the reader of the feed's tables, the reference pattern of
  a route, the services and fares of a corridor, and the files written at the end.

  The feeds are an argument, the text of each table of each corridor. A column that a table does not have
  is \<open>None\<close>, the language's \<open>undefined\<close>: calling a method of it throws, and printing it in a template gives
  its name. A number is a double, \<open>None\<close> when it is \<open>NaN\<close>; on disk that is \<open>null\<close>. The lines the
  script prints are not modelled, only what they report: why a trip or a pair was dropped.
\<close>

subsection \<open>The corridors and the stands\<close>

definition CORRIDOR_DIRS :: "(string \<times> string) list" where
  "CORRIDOR_DIRS =
    [(''ka-bng-mng'', ''FT-BNGMNG''), (''ka-bng-ckm'', ''FT-BNGCKM''), (''ka-mys-mng'', ''FT-MYSMNG''),
     (''ka-bng-hbl'', ''FT-BNGHBL''), (''ka-coast'', ''FT-COAST''), (''ka-gen-nh275'', ''FT-GENNH275''),
     (''ka-gen-nh48'', ''FT-GENNH48''), (''ka-gen-nh66'', ''FT-GENNH66''), (''ka-gen-nh169'', ''FT-GENNH169''),
     (''ka-gen-nh67'', ''FT-GENNH67''), (''ka-gen-sh37'', ''FT-GENSH37''), (''ka-bng-bgk'', ''FT-BNGBGK''),
     (''ka-bng-bdm'', ''FT-BNGBDM''), (''ka-bng-bjp'', ''FT-BNGBJP'')]"

definition AMBIGUOUS_SERVICE_NUMBERS :: "string list" where
  "AMBIGUOUS_SERVICE_NUMBERS = [''2105BNGMRC'', ''2131MRCBNG'', ''0801BNGCDP'', ''2334BNGMNG'', ''1003BNGMNG'']"

text \<open>\<open>CLASS_MAP[name]\<close>: a class of its own, or a member every object inherits, which is not undefined
  either.\<close>

datatype FoundClass = ProviderClass ServiceClass | InheritedMember

definition CLASS_MAP :: "string \<Rightarrow> FoundClass option" where
  "CLASS_MAP name =
     (if name \<in> set SERVICE_CLASSES then Some (ProviderClass name)
      else if name \<in> set inherited_names then Some InheritedMember else None)"

definition seat_map_ids :: "(ServiceClass \<times> string) list" where
  "seat_map_ids =
    [(''RAJAHAMSA_EXECUTIVE'', ''RAJAHAMSA_EXECUTIVE-2P2-53''),
     (''AIRAVAT'', ''AIRAVAT-2P2-53''),
     (''AIRAVAT_CLUB_CLASS'', ''AIRAVAT_CLUB_CLASS-2P2-53''),
     (''PALLAKKI'', ''PALLAKKI-2P1-30''),
     (''AMBAARI_UTSAV'', ''AMBAARI_UTSAV-2P1-40''),
     (''ASHWAMEDHA'', ''ASHWAMEDHA-3P2-60''),
     (''NON_AC_SLEEPER'', ''NON_AC_SLEEPER-2P1-30''),
     (''AMBAARI_DREAM_CLASS'', ''AMBAARI_DREAM_CLASS-2P1-36''),
     (''AIRAVAT_CLUB_CLASS_2'', ''AIRAVAT_CLUB_CLASS_2-2P2-53''),
     (''EV_POWER_PLUS'', ''EV_POWER_PLUS-2P2-53''),
     (''FLYBUS'', ''FLYBUS-2P2-53''),
     (''KALYANA_RATHA'', ''KALYANA_RATHA-2P1-30''),
     (''AMOGHAVARSHA'', ''AMOGHAVARSHA-2P1-30''),
     (''AC_SEATER_EXECUTIVE_CHAIR'', ''AC_SEATER_EXECUTIVE_CHAIR-2P2-53''),
     (''AC_SLEEPER'', ''AC_SLEEPER-2P1-30'')]"

text \<open>The text an inherited member is turned into as a key is no key of the table.\<close>

definition SEAT_MAP_ID_BY_CLASS :: "FoundClass \<Rightarrow> string option" where
  "SEAT_MAP_ID_BY_CLASS found = (case found of ProviderClass cls \<Rightarrow> map_of seat_map_ids cls | InheritedMember \<Rightarrow> None)"

record StandDef =
  std_boardingPointId :: string
  std_townCode :: string
  std_townName :: string
  std_name :: string
  std_gps :: "string \<times> string"

definition first_stands :: "(string \<times> StandDef) list" where
  "first_stands =
    [(''KA-BP-BNG-MAJESTIC'',
      \<lparr>std_boardingPointId = ''BP-BLR-MAJESTIC'', std_townCode = ''BLR'', std_townName = ''Bengaluru'',
       std_name = ''Kempegowda Bus Station (Majestic)'', std_gps = (''12.978145'', ''77.572296'')\<rparr>),
     (''KA-BP-BNG-YESHWANTHPUR'',
      \<lparr>std_boardingPointId = ''BP-BLR-YESHWANTHPUR'', std_townCode = ''BLR'', std_townName = ''Bengaluru'',
       std_name = ''Yeshwanthpur TTMC'', std_gps = (''13.01878'', ''77.55758'')\<rparr>),
     (''KA-BP-BNG-PEENYA'',
      \<lparr>std_boardingPointId = ''BP-BLR-PEENYA'', std_townCode = ''BLR'', std_townName = ''Bengaluru'',
       std_name = ''Peenya Satellite Bus Station'', std_gps = (''13.04409'', ''77.52554'')\<rparr>),
     (''KA-BP-MANGALURU-KSRTC'',
      \<lparr>std_boardingPointId = ''BP-MNG-MANGALURU'', std_townCode = ''MNG'', std_townName = ''Mangaluru'',
       std_name = ''Mangaluru KSRTC Bus Stand (Bejai)'', std_gps = (''12.8852444'', ''74.8416769'')\<rparr>),
     (''KA-BP-CHIKKAMAGALURU'',
      \<lparr>std_boardingPointId = ''BP-CKM-CHIKKAMAGALURU'', std_townCode = ''CKM'', std_townName = ''Chikkamagaluru'',
       std_name = ''Chikkamagaluru KSRTC Bus Station'', std_gps = (''13.3180039'', ''75.7716607'')\<rparr>),
     (''KA-BP-MYSURU-CENTRAL'',
      \<lparr>std_boardingPointId = ''BP-MYS-MYSURU-CENTRAL'', std_townCode = ''MYS'', std_townName = ''Mysuru'',
       std_name = ''Mysuru Central Bus Stand'', std_gps = (''12.312567'', ''76.6584136'')\<rparr>),
     (''KA-BP-HASSAN'',
      \<lparr>std_boardingPointId = ''BP-HSN-HASSAN'', std_townCode = ''HSN'', std_townName = ''Hassan'',
       std_name = ''Hassan Bus Station'', std_gps = (''12.9981795'', ''76.1046362'')\<rparr>),
     (''KA-BP-KUNIGAL'',
      \<lparr>std_boardingPointId = ''BP-KNG-KUNIGAL'', std_townCode = ''KNG'', std_townName = ''Kunigal'',
       std_name = ''Kunigal KSRTC Bus Stand'', std_gps = (''13.0251811'', ''77.0293837'')\<rparr>),
     (''KA-BP-CHITRADURGA'',
      \<lparr>std_boardingPointId = ''BP-CTD-CHITRADURGA'', std_townCode = ''CTD'', std_townName = ''Chitradurga'',
       std_name = ''Chitradurga KSRTC Bus Station'', std_gps = (''14.2268023'', ''76.3960352'')\<rparr>),
     (''KA-BP-HAVERI'',
      \<lparr>std_boardingPointId = ''BP-HVR-HAVERI'', std_townCode = ''HVR'', std_townName = ''Haveri'',
       std_name = ''Haveri Bus Stand'', std_gps = (''14.788137'', ''75.3978506'')\<rparr>),
     (''KA-BP-GEN-HAVERI-BUS-STAND'',
      \<lparr>std_boardingPointId = ''BP-HVR-HAVERI'', std_townCode = ''HVR'', std_townName = ''Haveri'',
       std_name = ''Haveri Bus Stand'', std_gps = (''14.788137'', ''75.3978506'')\<rparr>),
     (''KA-BP-HUBBALLI'',
      \<lparr>std_boardingPointId = ''BP-HBL-HUBBALLI'', std_townCode = ''HBL'', std_townName = ''Hubballi'',
       std_name = ''Hubballi New Bus Station'', std_gps = (''15.3493019'', ''75.1164175'')\<rparr>),
     (''KA-BP-MADIKERI'',
      \<lparr>std_boardingPointId = ''BP-MDK-MADIKERI'', std_townCode = ''MDK'', std_townName = ''Madikeri'',
       std_name = ''Madikeri KSRTC Bus Stand'', std_gps = (''12.4233982'', ''75.7378564'')\<rparr>),
     (''KA-BP-GEN-MANDYA-RURAL-BUS-STAND'',
      \<lparr>std_boardingPointId = ''BP-MND-MANDYA-RURAL'', std_townCode = ''MND'', std_townName = ''Mandya'',
       std_name = ''Mandya Rural Bus Stand'', std_gps = (''12.52857344'', ''76.9012659'')\<rparr>),
     (''KA-BP-ANKOLA'',
      \<lparr>std_boardingPointId = ''BP-ANK-ANKOLA'', std_townCode = ''ANK'', std_townName = ''Ankola'',
       std_name = ''Ankola Bus Stand'', std_gps = (''14.6600753'', ''74.3069664'')\<rparr>),
     (''KA-BP-GOKARNA'',
      \<lparr>std_boardingPointId = ''BP-GKN-GOKARNA'', std_townCode = ''GKN'', std_townName = ''Gokarna'',
       std_name = ''Gokarna Bus Station'', std_gps = (''14.5461529'', ''74.3191748'')\<rparr>)]"

definition five_corridor_stands :: "(string \<times> StandDef) list" where
  "five_corridor_stands =
    [(''KA-BP-UDUPI'',
      \<lparr>std_boardingPointId = ''BP-UDP-UDUPI'', std_townCode = ''UDP'', std_townName = ''Udupi'',
       std_name = ''Udupi Service Bus Station'', std_gps = (''13.3427023'', ''74.7472121'')\<rparr>),
     (''KA-BP-HOSAPETE'',
      \<lparr>std_boardingPointId = ''BP-HPT-HOSAPETE'', std_townCode = ''HPT'', std_townName = ''Hosapete'',
       std_name = ''Hosapete Bus Stand'', std_gps = (''15.2751874'', ''76.3892617'')\<rparr>),
     (''KA-BP-GEN-HOSAPETE-JSW-VIJAYAGANAR-BUS-TERMINAL'',
      \<lparr>std_boardingPointId = ''BP-HPT-JSW-VIJAYANAGAR'', std_townCode = ''HPT'', std_townName = ''Hosapete'',
       std_name = ''Hosapete JSW Vijayaganar Bus Terminal'', std_gps = (''15.275087639999999'', ''76.38881015999999'')\<rparr>),
     (''KA-BP-GEN-BALLARI-NEW-BUS-TERMINAL'',
      \<lparr>std_boardingPointId = ''BP-BLL-BALLARI'', std_townCode = ''BLL'', std_townName = ''Ballari'',
       std_name = ''Ballari New Bus Terminal'', std_gps = (''15.13750737999999'', ''76.91858056'')\<rparr>),
     (''KA-BP-GEN-KARKALA-BUS-STAND'',
      \<lparr>std_boardingPointId = ''BP-KRK-KARKALA'', std_townCode = ''KRK'', std_townName = ''Karkala'',
       std_name = ''Karkala Bus Stand'', std_gps = (''13.2128782'', ''74.9985126'')\<rparr>),
     (''KA-BP-GEN-SHIVAMOGGA-SHIMOGA-KSRTC-BUS-STAND'',
      \<lparr>std_boardingPointId = ''BP-SHV-SHIVAMOGGA'', std_townCode = ''SHV'', std_townName = ''Shivamogga'',
       std_name = ''Shivamogga Shimoga KSRTC Bus Stand'', std_gps = (''13.9289881'', ''75.5680645'')\<rparr>)]"

definition hosapete_road_stands :: "(string \<times> StandDef) list" where
  "hosapete_road_stands =
    [(''KA-BP-TUMAKURU'',
      \<lparr>std_boardingPointId = ''BP-TMK-TUMAKURU'', std_townCode = ''TMK'', std_townName = ''Tumakuru'',
       std_name = ''Tumakuru KSRTC Bus Stand'', std_gps = (''13.3411568'', ''77.1025164'')\<rparr>),
     (''KA-BP-BADAMI'',
      \<lparr>std_boardingPointId = ''BP-BDM-BADAMI'', std_townCode = ''BDM'', std_townName = ''Badami'',
       std_name = ''Badami Bus Station'', std_gps = (''15.9234183'', ''75.6784662'')\<rparr>),
     (''KA-BP-BAGALKOT'',
      \<lparr>std_boardingPointId = ''BP-BGK-BAGALKOT'', std_townCode = ''BGK'', std_townName = ''Bagalkot'',
       std_name = ''Bagalkot Bus Station'', std_gps = (''16.1840641'', ''75.7022663'')\<rparr>),
     (''KA-BP-VIJAYAPURA'',
      \<lparr>std_boardingPointId = ''BP-BJP-VIJAYAPURA'', std_townCode = ''BJP'', std_townName = ''Vijayapura'',
       std_name = ''Vijayapura Central Bus Station'', std_gps = (''16.8249461'', ''75.7153973'')\<rparr>)]"

definition STAND_REGISTRY :: "(string \<times> StandDef) list" where
  "STAND_REGISTRY = first_stands @ five_corridor_stands @ hosapete_road_stands"

text \<open>
  \<open>STAND_REGISTRY[id]\<close>, as far as it is used: \<open>None\<close> when there is no stand, and otherwise its
  \<open>boardingPointId\<close>, which a member every object inherits does not have.
\<close>

definition stand_of :: "string option \<Rightarrow> string option option" where
  "stand_of stop =
     (case stop of
        None \<Rightarrow> None
      | Some i \<Rightarrow>
          (case map_of STAND_REGISTRY i of
             Some stand \<Rightarrow> Some (Some (std_boardingPointId stand))
           | None \<Rightarrow> if i \<in> set inherited_names then Some None else None))"

subsection \<open>Reading a table\<close>

record CsvState =
  csv_done :: "string list list"
  csv_field :: string
  csv_line :: "string list"
  csv_quoted :: bool

definition QUOTE :: char where "QUOTE = CHR 0x22"
definition NEWLINE :: char where "NEWLINE = CHR 0x0A"
definition RETURN :: char where "RETURN = CHR 0x0D"

definition csv_push :: "char \<Rightarrow> CsvState \<Rightarrow> CsvState" where
  "csv_push c st = st\<lparr>csv_field := csv_field st @ [c]\<rparr>"

definition csv_end_field :: "CsvState \<Rightarrow> CsvState" where
  "csv_end_field st = st\<lparr>csv_line := csv_line st @ [csv_field st], csv_field := []\<rparr>"

text \<open>The end of a line; an empty line is left out.\<close>

definition csv_end_line :: "CsvState \<Rightarrow> CsvState" where
  "csv_end_line st =
     (let line = csv_line st @ [csv_field st] in
      st\<lparr>csv_done := (if length line > 1 \<or> line ! 0 \<noteq> [] then csv_done st @ [line] else csv_done st),
         csv_line := [], csv_field := []\<rparr>)"

fun csv_scan :: "string \<Rightarrow> CsvState \<Rightarrow> CsvState" where
  "csv_scan [] st = st"
| "csv_scan (c # cs) st =
     (if csv_quoted st then
        if c = QUOTE then
          if take 1 cs = [QUOTE] then csv_scan (drop 1 cs) (csv_push QUOTE st)
          else csv_scan cs (st\<lparr>csv_quoted := False\<rparr>)
        else csv_scan cs (csv_push c st)
      else if c = QUOTE then csv_scan cs (st\<lparr>csv_quoted := True\<rparr>)
      else if c = CHR '','' then csv_scan cs (csv_end_field st)
      else if c = NEWLINE \<or> c = RETURN then
        csv_scan (if c = RETURN \<and> take 1 cs = [NEWLINE] then drop 1 cs else cs) (csv_end_line st)
      else csv_scan cs (csv_push c st))"

definition csv_rows :: "string \<Rightarrow> string list list" where
  "csv_rows contents =
     (let st = csv_scan contents \<lparr>csv_done = [], csv_field = [], csv_line = [], csv_quoted = False\<rparr> in
      if csv_field st \<noteq> [] \<or> csv_line st \<noteq> [] then csv_done st @ [csv_line st @ [csv_field st]] else csv_done st)"

text \<open>A row is the list of its entries; of two columns with one name the later counts.\<close>

type_synonym feed_row = "(string \<times> string) list"

definition parseCsv :: "string \<Rightarrow> feed_row list" where
  "parseCsv contents =
     (case csv_rows contents of
        [] \<Rightarrow> []
      | header # rows \<Rightarrow>
          map (\<lambda>r. map (\<lambda>i. (header ! i, if i < length r then r ! i else [])) [0..<length header]) rows)"

definition column :: "feed_row \<Rightarrow> string \<Rightarrow> string option" where
  "column row name = map_of (rev row) name"

datatype GenFailure = FeedUnreadable string string | MethodOfUndefined

type_synonym feeds = "string \<Rightarrow> string \<Rightarrow> string option"

definition readTatak :: "feeds \<Rightarrow> string \<Rightarrow> string \<Rightarrow> GenFailure + feed_row list" where
  "readTatak tatak dir table = andThen (required (tatak dir table) (FeedUnreadable dir table)) (\<lambda>contents. Inr (parseCsv contents))"

definition string_column :: "feed_row \<Rightarrow> string \<Rightarrow> GenFailure + string" where
  "string_column row name = required (column row name) MethodOfUndefined"

definition in_template :: "string option \<Rightarrow> string" where
  "in_template v = (case v of None \<Rightarrow> ''undefined'' | Some s \<Rightarrow> s)"

text \<open>\<open>text.split(sep)\<close> for one character.\<close>

fun split_on :: "char \<Rightarrow> string \<Rightarrow> string list" where
  "split_on sep [] = [[]]"
| "split_on sep (c # cs) =
     (let rest = split_on sep cs in if c = sep then [] # rest else (c # hd rest) # tl rest)"

text \<open>Arithmetic on numbers that may be \<open>NaN\<close>.\<close>

definition js_plus :: "rat option \<Rightarrow> rat option \<Rightarrow> rat option" where
  "js_plus x y = (case (x, y) of (Some a, Some b) \<Rightarrow> Some (fl (a + b)) | _ \<Rightarrow> None)"

definition js_minus :: "rat option \<Rightarrow> rat option \<Rightarrow> rat option" where
  "js_minus x y = (case (x, y) of (Some a, Some b) \<Rightarrow> Some (fl (a - b)) | _ \<Rightarrow> None)"

definition js_round :: "rat option \<Rightarrow> int option" where
  "js_round = map_option Math_round"

definition hhmmssToMinutes :: "string \<Rightarrow> rat option" where
  "hhmmssToMinutes t =
     (let parts = map Number (split_on (CHR '':'') t);
          part = (\<lambda>i. if i < length parts then parts ! i else None)
      in js_plus (js_plus (map_option (\<lambda>h. fl (h * 60)) (part 0)) (part 1)) (map_option (\<lambda>s. fl (s / 60)) (part 2)))"

definition minutes_column :: "feed_row \<Rightarrow> string \<Rightarrow> GenFailure + rat option" where
  "minutes_column row name = andThen (string_column row name) (\<lambda>t. Inr (hhmmssToMinutes t))"

definition mapSourcing :: "string option \<Rightarrow> SourcingLabel" where
  "mapSourcing tatakGrade =
     (if tatakGrade = Some ''V'' then ''V'' else if tatakGrade = Some ''P'' then ''S''
      else if tatakGrade = Some ''S'' then ''S'' else ''I'')"

subsection \<open>The reference pattern of a route\<close>

text \<open>
  A \<open>Map\<close> of lists filled row by row: \<open>const list = map.get(key) ?? []; list.push(row); map.set(key, list)\<close>.
  The entries are in the order their keys were first set.
\<close>

definition push_row :: "('a \<Rightarrow> 'k) \<Rightarrow> ('k \<times> 'a list) list \<Rightarrow> 'a \<Rightarrow> ('k \<times> 'a list) list" where
  "push_row key m row =
     AList.update (key row) ((case map_of m (key row) of None \<Rightarrow> [] | Some rows \<Rightarrow> rows) @ [row]) m"

definition group_rows :: "('a \<Rightarrow> 'k) \<Rightarrow> 'a list \<Rightarrow> ('k \<times> 'a list) list" where
  "group_rows key rows = foldl (push_row key) [] rows"

text \<open>\<open>Number(a.stop_sequence) - Number(b.stop_sequence)\<close>, of which the sort reads the sign and takes
  \<open>NaN\<close> for 0.\<close>

definition stop_sequence_compare :: "feed_row \<Rightarrow> feed_row \<Rightarrow> int" where
  "stop_sequence_compare a b =
     (let n = (\<lambda>row. Option.bind (column row ''stop_sequence'') Number) in
      case js_minus (n a) (n b) of None \<Rightarrow> 0 | Some d \<Rightarrow> if d < 0 then -1 else if 0 < d then 1 else 0)"

type_synonym stop_times = "(string option \<times> feed_row list) list"

definition group_stop_times :: "feed_row list \<Rightarrow> stop_times" where
  "group_stop_times rows =
     map (\<lambda>(trip, list). (trip, sort_by stop_sequence_compare list)) (group_rows (\<lambda>row. column row ''trip_id'') rows)"

record PatternGroup =
  pg_routeId :: string
  pg_directionId :: string
  pg_stopIds :: "string option list"
  pg_minutesAtStop :: "rat option list"
  pg_monotonic :: bool

definition pattern_key :: "feed_row \<Rightarrow> string" where
  "pattern_key trip = in_template (column trip ''route_id'') @ ''|'' @ in_template (column trip ''direction_id'')"

text \<open>The stops of the fullest trip, the first of those with as many.\<close>

definition fullest_stops :: "stop_times \<Rightarrow> feed_row list \<Rightarrow> feed_row list" where
  "fullest_stops stopTimesByTrip trips =
     foldl (\<lambda>refStops t.
       let st = (case map_of stopTimesByTrip (column t ''trip_id'') of None \<Rightarrow> [] | Some rows \<Rightarrow> rows)
       in if length st > length refStops then st else refStops) [] trips"

definition below :: "rat option \<Rightarrow> rat option \<Rightarrow> bool" where
  "below x y = (case (x, y) of (Some a, Some b) \<Rightarrow> a < b | _ \<Rightarrow> False)"

fun never_falls :: "rat option list \<Rightarrow> bool" where
  "never_falls (x # y # rest) \<longleftrightarrow> \<not> below y x \<and> never_falls (y # rest)"
| "never_falls _ \<longleftrightarrow> True"

definition pattern_of :: "string \<Rightarrow> feed_row list \<Rightarrow> GenFailure + PatternGroup" where
  "pattern_of key refStops =
     andThen (traverse (\<lambda>s. minutes_column s ''departure_time'') refStops) (\<lambda>minutes.
       Inr \<lparr>pg_routeId = split_on (CHR ''|'') key ! 0, pg_directionId = split_on (CHR ''|'') key ! 1,
            pg_stopIds = map (\<lambda>s. column s ''stop_id'') refStops, pg_minutesAtStop = minutes,
            pg_monotonic = never_falls minutes\<rparr>)"

fun pattern_groups :: "stop_times \<Rightarrow> (string \<times> feed_row list) list \<Rightarrow> GenFailure + (string \<times> PatternGroup) list" where
  "pattern_groups stopTimesByTrip [] = Inr []"
| "pattern_groups stopTimesByTrip ((key, trips) # rest) =
     (let refStops = fullest_stops stopTimesByTrip trips in
      if refStops = [] then pattern_groups stopTimesByTrip rest
      else andThen (pattern_of key refStops) (\<lambda>g.
           andThen (pattern_groups stopTimesByTrip rest) (\<lambda>groups. Inr ((key, g) # groups))))"

definition buildPatternGroups :: "feed_row list \<Rightarrow> stop_times \<Rightarrow> GenFailure + (string \<times> PatternGroup) list" where
  "buildPatternGroups trips stopTimesByTrip = pattern_groups stopTimesByTrip (group_rows pattern_key trips)"

subsection \<open>The services and fares of a corridor\<close>

type_synonym pattern_point = "string option \<times> int option"

record GeneratedService =
  gs_serviceId :: string
  gs_serviceNumber :: string
  gs_brand :: Corporation
  gs_operatingCorporation :: "Corporation option"
  gs_operatingCorporationBasis :: ServiceProvenance
  gs_provenance :: ServiceProvenance
  gs_provenanceSourceCount :: int
  gs_serviceClass :: string
  gs_operatingPattern :: OperatingPattern
  gs_departureMinute :: "int option"
  gs_runningMinutes :: "int option"
  gs_seatMapId :: string
  gs_fareTableId :: string
  gs_popularity :: rat
  gs_reservationFeePaise :: int
  gs_tollPaise :: int
  gs_boardingPoints :: "pattern_point list"
  gs_droppingPoints :: "pattern_point list"

record FareCellOut =
  fc_fromBoardingPointId :: "string option"
  fc_toBoardingPointId :: "string option"
  fc_serviceClass :: string
  fc_farePaise :: "int option"
  fc_sourcing :: SourcingLabel

datatype DropReason =
    AmbiguousNumber
  | ClassNotSellable string
  | NoStopTimes
  | NoMonotonicPattern
  | NoSharedStop
  | NonPositiveRunningTime
  | TooFewStands
  | NoSeatMapRegistered
  | PairNotPriced string string string

record Corridor =
  co_services :: "GeneratedService list"
  co_cells :: "(string \<times> FareCellOut) list"
  co_dropped :: "(string \<times> DropReason) list"
  co_included :: "string list"
  co_allRealNumbers :: "string list"

definition drop_trip :: "string \<Rightarrow> DropReason \<Rightarrow> Corridor \<Rightarrow> GenFailure + Corridor" where
  "drop_trip serviceNumber reason st = Inr (st\<lparr>co_dropped := co_dropped st @ [(serviceNumber, reason)]\<rparr>)"

fun indexOf :: "'a \<Rightarrow> 'a list \<Rightarrow> nat option" where
  "indexOf x [] = None"
| "indexOf x (y # ys) = (if y = x then Some 0 else map_option Suc (indexOf x ys))"

text \<open>The first of the trip's own stops that is on the pattern: its position there, and the time the
  trip leaves it.\<close>

fun anchor :: "PatternGroup \<Rightarrow> feed_row list \<Rightarrow> GenFailure + (nat \<times> rat option) option" where
  "anchor g [] = Inr None"
| "anchor g (row # rows) =
     (case indexOf (column row ''stop_id'') (pg_stopIds g) of
        None \<Rightarrow> anchor g rows
      | Some pos \<Rightarrow> andThen (minutes_column row ''departure_time'') (\<lambda>m. Inr (Some (pos, m))))"

fun pattern_points :: "(rat option \<Rightarrow> int option) \<Rightarrow> string option list \<Rightarrow> (string option \<times> rat option) list \<Rightarrow> pattern_point list" where
  "pattern_points offset seen [] = []"
| "pattern_points offset seen ((stop, minutes) # rest) =
     (case stand_of stop of
        None \<Rightarrow> pattern_points offset seen rest
      | Some i \<Rightarrow>
          if i \<in> set seen then pattern_points offset seen rest
          else (i, offset minutes) # pattern_points offset (i # seen) rest)"

fun forward_pairs :: "'a list \<Rightarrow> ('a \<times> 'a) list" where
  "forward_pairs [] = []"
| "forward_pairs (x # xs) = map (Pair x) xs @ forward_pairs xs"

text \<open>\<open>group.stopIds.find((id) => STAND_REGISTRY[id]?.boardingPointId === i)\<close>; with no stand, or with a
  stand that has no id, the left side is undefined.\<close>

definition stop_at :: "PatternGroup \<Rightarrow> string option \<Rightarrow> string option" where
  "stop_at g i =
     (case List.find (\<lambda>stop. Option.bind (stand_of stop) (\<lambda>b. b) = i) (pg_stopIds g) of None \<Rightarrow> None | Some stop \<Rightarrow> stop)"

definition fare_product_id :: "string \<Rightarrow> string option \<Rightarrow> string option \<Rightarrow> string" where
  "fare_product_id cls fromStop toStop =
     ''FP-'' @ cls @ ''-'' @ in_template fromStop @ ''-'' @ in_template toStop @ ''-adult''"

definition fare_row :: "feed_row list \<Rightarrow> string \<Rightarrow> string option \<Rightarrow> string option \<Rightarrow> feed_row option" where
  "fare_row fareProducts cls fromStop toStop =
     List.find (\<lambda>fp. column fp ''fare_product_id'' = Some (fare_product_id cls fromStop toStop)
                   \<and> column fp ''currency'' = Some ''INR'') fareProducts"

text \<open>\<open>Math.round(Number(amount) * 100)\<close>.\<close>

definition fare_in_paise :: "string option \<Rightarrow> int option" where
  "fare_in_paise amount = map_option (\<lambda>n. Math_round (fl (n * 100))) (Option.bind amount Number)"

definition cell_key :: "string option \<Rightarrow> string option \<Rightarrow> string \<Rightarrow> string" where
  "cell_key a b cls = in_template a @ ''|'' @ in_template b @ ''|'' @ cls"

definition claim_cell ::
    "PatternGroup \<Rightarrow> feed_row list \<Rightarrow> string \<Rightarrow> string \<Rightarrow> string \<Rightarrow> pattern_point \<times> pattern_point \<Rightarrow> Corridor \<Rightarrow> Corridor" where
  "claim_cell g fareProducts classFromRoute providerClass serviceNumber ab st =
     (let a = fst (fst ab); b = fst (snd ab); fromStopId = stop_at g a; toStopId = stop_at g b in
      case fare_row fareProducts classFromRoute fromStopId toStopId of
        None \<Rightarrow> st\<lparr>co_dropped := co_dropped st @
                 [(serviceNumber, PairNotPriced classFromRoute (in_template fromStopId) (in_template toStopId))]\<rparr>
      | Some fareRow \<Rightarrow>
          if map_of (co_cells st) (cell_key a b providerClass) \<noteq> None then st
          else st\<lparr>co_cells := co_cells st @
                 [(cell_key a b providerClass,
                   \<lparr>fc_fromBoardingPointId = a, fc_toBoardingPointId = b, fc_serviceClass = providerClass,
                    fc_farePaise = fare_in_paise (column fareRow ''amount''),
                    fc_sourcing = mapSourcing (column fareRow ''tatak_sourcing'')\<rparr>)]\<rparr>)"

definition class_from_route :: "string \<Rightarrow> string \<Rightarrow> string" where
  "class_from_route dir routeId =
     (let corridorPrefix = toUpperCase dir @ ''-''
      in if take (length corridorPrefix) routeId = corridorPrefix then drop (length corridorPrefix) routeId else routeId)"

definition generated_service ::
    "string \<Rightarrow> string \<Rightarrow> string \<Rightarrow> int option \<Rightarrow> int option \<Rightarrow> string \<Rightarrow> pattern_point list \<Rightarrow> GeneratedService" where
  "generated_service serviceNumber providerClass fareTableId departureMinute runningMinutes seatMapId patternPoints =
     \<lparr>gs_serviceId = serviceNumber, gs_serviceNumber = filter (\<lambda>c. \<not> is_upper c) serviceNumber, gs_brand = KSRTC,
      gs_operatingCorporation = None, gs_operatingCorporationBasis = NoProvenance, gs_provenance = Inferred,
      gs_provenanceSourceCount = 1, gs_serviceClass = providerClass, gs_operatingPattern = Daily,
      gs_departureMinute = departureMinute, gs_runningMinutes = runningMinutes, gs_seatMapId = seatMapId,
      gs_fareTableId = fareTableId, gs_popularity = 1 / 2, gs_reservationFeePaise = 2000, gs_tollPaise = 2000,
      gs_boardingPoints = patternPoints, gs_droppingPoints = patternPoints\<rparr>"

text \<open>The service of a trip, and its fare cells, once its pattern points are known.\<close>

definition sell_trip ::
    "string \<Rightarrow> feed_row list \<Rightarrow> string \<Rightarrow> string \<Rightarrow> PatternGroup \<Rightarrow> FoundClass \<Rightarrow> int option \<Rightarrow> int option
     \<Rightarrow> pattern_point list \<Rightarrow> Corridor \<Rightarrow> GenFailure + Corridor" where
  "sell_trip fareTableId fareProducts serviceNumber classFromRoute g found departureMinute runningMinutes patternPoints st =
     (if length patternPoints < 2 then drop_trip serviceNumber TooFewStands st
      else case (found, SEAT_MAP_ID_BY_CLASS found) of
        (ProviderClass providerClass, Some seatMapId) \<Rightarrow>
          Inr (fold (claim_cell g fareProducts classFromRoute providerClass serviceNumber) (forward_pairs patternPoints)
            (st\<lparr>co_services := co_services st @
                  [generated_service serviceNumber providerClass fareTableId departureMinute runningMinutes seatMapId patternPoints],
                co_included := co_included st @ [serviceNumber]\<rparr>))
      | _ \<Rightarrow> drop_trip serviceNumber NoSeatMapRegistered st)"

text \<open>\<open>runningMinutes <= 0\<close>, which \<open>NaN\<close> is not.\<close>

definition not_positive :: "int option \<Rightarrow> bool" where
  "not_positive n = (case n of None \<Rightarrow> False | Some k \<Rightarrow> k \<le> 0)"

text \<open>The clock of a trip against its pattern, for a trip of a class that was found.\<close>

definition time_trip ::
    "string \<Rightarrow> feed_row list \<Rightarrow> string \<Rightarrow> string \<Rightarrow> PatternGroup \<Rightarrow> FoundClass \<Rightarrow> feed_row list \<Rightarrow> Corridor
     \<Rightarrow> GenFailure + Corridor" where
  "time_trip fareTableId fareProducts serviceNumber classFromRoute g found ownStops st =
     andThen (anchor g ownStops) (\<lambda>anchored.
       case anchored of
         None \<Rightarrow> drop_trip serviceNumber NoSharedStop st
       | Some (anchorPos, anchorOwnMinutes) \<Rightarrow>
           let shiftMinutes = js_minus anchorOwnMinutes (pg_minutesAtStop g ! anchorPos) in
           andThen (minutes_column (hd ownStops) ''departure_time'') (\<lambda>firstDeparture.
           andThen (minutes_column (last ownStops) ''arrival_time'') (\<lambda>lastArrival.
             let departureMinute = js_round firstDeparture;
                 runningMinutes = js_round (js_minus lastArrival firstDeparture);
                 offset = (\<lambda>minutes. js_round (js_minus (js_plus minutes shiftMinutes) (map_option of_int departureMinute)))
             in if not_positive runningMinutes then drop_trip serviceNumber NonPositiveRunningTime st
                else sell_trip fareTableId fareProducts serviceNumber classFromRoute g found departureMinute runningMinutes
                       (pattern_points offset [] (zip (pg_stopIds g) (pg_minutesAtStop g))) st)))"

record CorridorFeed =
  cf_dir :: string
  cf_fareTableId :: string
  cf_fareProducts :: "feed_row list"
  cf_stopTimes :: stop_times
  cf_patterns :: "(string \<times> PatternGroup) list"

definition work_trip :: "CorridorFeed \<Rightarrow> string list \<Rightarrow> feed_row \<Rightarrow> Corridor \<Rightarrow> GenFailure + Corridor" where
  "work_trip feed crossCorridorAmbiguous trip st0 =
     andThen (string_column trip ''tatak_service_number'') (\<lambda>cited.
       let serviceNumber = trim cited in
       if serviceNumber = [] then Inr st0
       else let st = st0\<lparr>co_allRealNumbers := List.insert serviceNumber (co_allRealNumbers st0)\<rparr> in
       andThen (string_column trip ''route_id'') (\<lambda>routeId.
         let classFromRoute = class_from_route (cf_dir feed) routeId in
         if serviceNumber \<in> set AMBIGUOUS_SERVICE_NUMBERS \<or> serviceNumber \<in> set crossCorridorAmbiguous
         then drop_trip serviceNumber AmbiguousNumber st
         else case CLASS_MAP classFromRoute of
           None \<Rightarrow> drop_trip serviceNumber (ClassNotSellable classFromRoute) st
         | Some found \<Rightarrow>
             (let ownStops = (case map_of (cf_stopTimes feed) (column trip ''trip_id'') of None \<Rightarrow> [] | Some rows \<Rightarrow> rows) in
              if length ownStops < 2 then drop_trip serviceNumber NoStopTimes st
              else case map_of (cf_patterns feed) (pattern_key trip) of
                None \<Rightarrow> drop_trip serviceNumber NoMonotonicPattern st
              | Some g \<Rightarrow>
                  if \<not> pg_monotonic g then drop_trip serviceNumber NoMonotonicPattern st
                  else time_trip (cf_fareTableId feed) (cf_fareProducts feed) serviceNumber classFromRoute g found ownStops st)))"

fun work_trips :: "CorridorFeed \<Rightarrow> string list \<Rightarrow> feed_row list \<Rightarrow> Corridor \<Rightarrow> GenFailure + Corridor" where
  "work_trips feed ambiguous [] st = Inr st"
| "work_trips feed ambiguous (trip # trips) st = andThen (work_trip feed ambiguous trip st) (work_trips feed ambiguous trips)"

definition no_corridor :: Corridor where
  "no_corridor = \<lparr>co_services = [], co_cells = [], co_dropped = [], co_included = [], co_allRealNumbers = []\<rparr>"

definition generateCorridor :: "feeds \<Rightarrow> string list \<Rightarrow> string \<times> string \<Rightarrow> GenFailure + Corridor" where
  "generateCorridor tatak crossCorridorAmbiguous corridor =
     (let dir = fst corridor in
      andThen (readTatak tatak dir ''trips.txt'') (\<lambda>trips.
      andThen (readTatak tatak dir ''stop_times.txt'') (\<lambda>stopTimes.
      andThen (readTatak tatak dir ''fare_products.txt'') (\<lambda>fareProducts.
        let stopTimesByTrip = group_stop_times stopTimes in
        andThen (buildPatternGroups trips stopTimesByTrip) (\<lambda>patternGroups.
          work_trips \<lparr>cf_dir = dir, cf_fareTableId = snd corridor, cf_fareProducts = fareProducts,
                      cf_stopTimes = stopTimesByTrip, cf_patterns = patternGroups\<rparr> crossCorridorAmbiguous trips no_corridor)))))"

text \<open>A directory whose trips cannot be read is skipped here.\<close>

definition cite :: "string \<Rightarrow> feed_row \<Rightarrow> (string \<times> string list) list \<Rightarrow> GenFailure + (string \<times> string list) list" where
  "cite dir trip owners =
     andThen (string_column trip ''tatak_service_number'') (\<lambda>cited.
       let n = trim cited in
       Inr (if n = [] then owners
            else AList.update n (List.insert dir (case map_of owners n of None \<Rightarrow> [] | Some dirs \<Rightarrow> dirs)) owners))"

fun cite_all :: "string \<Rightarrow> feed_row list \<Rightarrow> (string \<times> string list) list \<Rightarrow> GenFailure + (string \<times> string list) list" where
  "cite_all dir [] owners = Inr owners"
| "cite_all dir (trip # trips) owners = andThen (cite dir trip owners) (cite_all dir trips)"

fun cite_dirs :: "feeds \<Rightarrow> string list \<Rightarrow> (string \<times> string list) list \<Rightarrow> GenFailure + (string \<times> string list) list" where
  "cite_dirs tatak [] owners = Inr owners"
| "cite_dirs tatak (dir # dirs) owners =
     (case readTatak tatak dir ''trips.txt'' of
        Inl _ \<Rightarrow> cite_dirs tatak dirs owners
      | Inr trips \<Rightarrow> andThen (cite_all dir trips owners) (cite_dirs tatak dirs))"

definition findCrossCorridorAmbiguous :: "feeds \<Rightarrow> string list \<Rightarrow> GenFailure + string list" where
  "findCrossCorridorAmbiguous tatak dirs =
     andThen (cite_dirs tatak dirs []) (\<lambda>owners. Inr (map fst (filter (\<lambda>(n, seen). length seen > 1) owners)))"

subsection \<open>The files written\<close>

text \<open>What is on disk after a run. An entry of the services file is one that was there, or a new one.\<close>

record WrittenFiles =
  wf_towns :: "Town list"
  wf_points :: "(string \<times> BoardingPoint list) list"
  wf_services :: "(ServiceEntry + GeneratedService) list"
  wf_fareTables :: "(string \<times> FareCellOut list) list"

definition stand_town :: "StandDef \<Rightarrow> Town" where
  "stand_town stand = \<lparr>town_code = std_townCode stand, town_name = std_townName stand, town_nameLocal = None\<rparr>"

definition stand_point :: "StandDef \<Rightarrow> BoardingPoint" where
  "stand_point stand =
     \<lparr>bp_boardingPointId = std_boardingPointId stand, bp_name = std_name stand, bp_nameLocal = None,
      bp_townCode = std_townCode stand, bp_gps = Some (std_gps stand), bp_reportingOffsetMinutes = 0, bp_stopCode = None\<rparr>"

definition add_stand ::
    "StandDef \<Rightarrow> Town list \<times> (string \<times> BoardingPoint list) list \<Rightarrow> Town list \<times> (string \<times> BoardingPoint list) list" where
  "add_stand stand files =
     (let (towns, points) = files;
          already = (case map_of points (std_townCode stand) of None \<Rightarrow> [] | Some ps \<Rightarrow> ps)
      in (if std_townCode stand \<in> town_code ` set towns then towns else towns @ [stand_town stand],
          AList.update (std_townCode stand)
            (if list_ex (\<lambda>p. bp_boardingPointId p = std_boardingPointId stand) already then already
             else already @ [stand_point stand]) points))"

text \<open>The script's \<open>main\<close>: every corridor is generated before a file is read or written.\<close>

definition generate :: "feeds \<Rightarrow> FixtureFiles \<Rightarrow> GenFailure + WrittenFiles" where
  "generate tatak files =
     andThen (findCrossCorridorAmbiguous tatak (map fst CORRIDOR_DIRS)) (\<lambda>crossCorridorAmbiguous.
     andThen (traverse (generateCorridor tatak crossCorridorAmbiguous) CORRIDOR_DIRS) (\<lambda>results.
       let (towns, points) = fold add_stand (map snd STAND_REGISTRY) (ff_towns files, ff_points files);
           authoritativeFor = concat (map co_allRealNumbers results);
           keptExisting = filter (\<lambda>e. svc_serviceId (se_service e) \<notin> set authoritativeFor) (ff_services files)
       in Inr \<lparr>wf_towns = towns, wf_points = points,
               wf_services = map Inl keptExisting @ map Inr (concat (map co_services results)),
               wf_fareTables =
                 map (\<lambda>((dir, fareTableId), r). (fareTableId, map snd (co_cells r)))
                   (filter (\<lambda>(corridor, r). co_services r \<noteq> []) (zip CORRIDOR_DIRS results))\<rparr>))"

end
