(* ===== verification/Generator_Properties.thy ===== *)
theory Generator_Properties
  imports Fixture_Generator Source_Properties
begin

text \<open>
  What the fixture generator promises: its reader reads every table of the feeds' format back, it prices and
  times nothing that a feed does not say, it never sells a number two corridors cite, and what it
  writes passes the checks of the catalogue.
\<close>

subsection \<open>The reader and its format\<close>

text \<open>
  The format: fields apart by commas, in quotes or, when none of its characters has a meaning, bare; a quote
  within quotes is doubled; lines end in a line feed, a carriage return or both, the last perhaps in
  nothing. A line of one empty field cannot be told from an empty line.
\<close>

definition bare_char :: "char \<Rightarrow> bool" where
  "bare_char c \<longleftrightarrow> c \<notin> {QUOTE, CHR '','', NEWLINE, RETURN}"

definition quoted_text :: "string \<Rightarrow> string" where
  "quoted_text f = QUOTE # concat (map (\<lambda>c. if c = QUOTE then [QUOTE, QUOTE] else [c]) f) @ [QUOTE]"

inductive field_text :: "string \<Rightarrow> string \<Rightarrow> bool" where
  bare: "\<forall>c \<in> set f. bare_char c \<Longrightarrow> field_text f f"
| in_quotes: "field_text f (quoted_text f)"

inductive line_text :: "string list \<Rightarrow> string \<Rightarrow> bool" where
  one: "field_text f t \<Longrightarrow> line_text [f] t"
| more: "field_text f t \<Longrightarrow> line_text fs u \<Longrightarrow> line_text (f # fs) (t @ CHR '','' # u)"

inductive table_text :: "string list list \<Rightarrow> string \<Rightarrow> bool" where
  none: "table_text [] []"
| last_line: "line_text fs t \<Longrightarrow> fs \<noteq> [[]] \<Longrightarrow> table_text [fs] t"
| line: "line_text fs t \<Longrightarrow> fs \<noteq> [[]] \<Longrightarrow> e \<in> {[NEWLINE], [RETURN], [RETURN, NEWLINE]} \<Longrightarrow>
    e = [RETURN] \<longrightarrow> take 1 u \<noteq> [NEWLINE] \<Longrightarrow> table_text rows u \<Longrightarrow> table_text (fs # rows) (t @ e @ u)"

lemmas csv_chars = QUOTE_def NEWLINE_def RETURN_def

lemma scan_bare:
  assumes "\<forall>c \<in> set f. bare_char c" "\<not> csv_quoted st"
  shows "csv_scan (f @ rest) st = csv_scan rest (st\<lparr>csv_field := csv_field st @ f\<rparr>)"
  using assms
proof (induction f arbitrary: st)
  case (Cons c f)
  then show ?case by (simp add: bare_char_def csv_push_def)
qed simp

lemma scan_quoted:
  assumes "csv_quoted st" "take 1 rest \<noteq> [QUOTE]"
  shows "csv_scan (concat (map (\<lambda>c. if c = QUOTE then [QUOTE, QUOTE] else [c]) f) @ QUOTE # rest) st
       = csv_scan rest (st\<lparr>csv_field := csv_field st @ f, csv_quoted := False\<rparr>)"
  using assms
proof (induction f arbitrary: st)
  case Nil
  then show ?case by simp
next
  case (Cons c f)
  then show ?case by (simp add: csv_push_def)
qed

lemma scan_field:
  assumes "field_text f t" "\<not> csv_quoted st" "take 1 rest \<noteq> [QUOTE]"
  shows "csv_scan (t @ rest) st = csv_scan rest (st\<lparr>csv_field := csv_field st @ f\<rparr>)"
  using assms
proof (induction rule: field_text.induct)
  case (bare f)
  then show ?case by (simp add: scan_bare)
next
  case (in_quotes f)
  then show ?case
    by (cases st) (simp add: quoted_text_def scan_quoted)
qed

lemma scan_line:
  assumes "line_text fs t" "\<not> csv_quoted st" "csv_field st = []" "take 1 rest \<noteq> [QUOTE]"
  shows "csv_scan (t @ rest) st = csv_scan rest (st\<lparr>csv_field := last fs, csv_line := csv_line st @ butlast fs\<rparr>)"
  using assms
proof (induction arbitrary: st rule: line_text.induct)
  case (one f t)
  then show ?case by (simp add: scan_field)
next
  case (more f t fs u)
  have "fs \<noteq> []" using more.hyps(2) by (cases rule: line_text.cases) auto
  with more show ?case
    by (simp add: scan_field csv_end_field_def csv_chars)
qed

text \<open>What is read when a line has ended.\<close>

lemma scan_table:
  assumes "table_text rows contents" "\<not> csv_quoted st" "csv_field st = []" "csv_line st = []"
  shows "(let st' = csv_scan contents st in
          if csv_field st' \<noteq> [] \<or> csv_line st' \<noteq> [] then csv_done st' @ [csv_line st' @ [csv_field st']] else csv_done st')
       = csv_done st @ rows"
  using assms
proof (induction arbitrary: st rule: table_text.induct)
  case none
  then show ?case by simp
next
  case (last_line fs t)
  have ne: "fs \<noteq> []" using last_line.hyps(1) by (cases rule: line_text.cases) auto
  then have "butlast fs = [] \<Longrightarrow> fs = [last fs]" by (metis append_Nil append_butlast_last_id)
  then have "butlast fs \<noteq> [] \<or> last fs \<noteq> []" using last_line.hyps(2) by metis
  then show ?case
    using last_line scan_line [of fs t st "[]"] ne by auto
next
  case (line fs t e u rows)
  have ne: "fs \<noteq> []" using line.hyps(1) by (cases rule: line_text.cases) auto
  have full: "length (butlast fs @ [last fs]) > 1 \<or> (butlast fs @ [last fs]) ! 0 \<noteq> []"
    using ne line.hyps(2) by (cases fs) (auto simp: neq_Nil_conv)
  have q: "take 1 (e @ u) \<noteq> [QUOTE]" using line.hyps(3) by (auto simp: csv_chars)
  let ?st = "st\<lparr>csv_field := last fs, csv_line := butlast fs\<rparr>"
  have "csv_scan (t @ e @ u) st = csv_scan (e @ u) ?st"
    using scan_line [OF line.hyps(1) line.prems(1,2) q] line.prems by simp
  also have "\<dots> = csv_scan u (csv_end_line ?st)"
    using line.hyps(3,4) line.prems(1) by (auto simp: csv_chars)
  also have "csv_end_line ?st = st\<lparr>csv_done := csv_done st @ [fs], csv_line := [], csv_field := []\<rparr>"
    using full ne by (simp add: csv_end_line_def Let_def)
  finally show ?case using line.IH line.prems by simp
qed

text \<open>C40. Every table written in the format of the feeds is read back as it was: whichever fields are
  quoted, whatever they contain, and however the lines end.\<close>

theorem csv_reads_every_table:
  assumes "table_text rows contents"
  shows "csv_rows contents = rows"
  unfolding csv_rows_def by (rule trans [OF scan_table [OF assms]]) simp_all

definition two_lines :: string where
  "two_lines = ''stop,'' @ quoted_text [CHR ''a'', QUOTE, NEWLINE] @ [RETURN, NEWLINE] @ ''M,'' @ [NEWLINE]"

theorem csv_reads_every_table_witness:
  "csv_rows two_lines = [[''stop'', [CHR ''a'', QUOTE, NEWLINE]], [''M'', []]]"
proof -
  have bare: "field_text ''stop'' ''stop''" "field_text ''M'' ''M''" "field_text [] []"
    by (rule field_text.bare, simp add: bare_char_def csv_chars)+
  have first: "line_text [''stop'', [CHR ''a'', QUOTE, NEWLINE]] (''stop'' @ CHR '','' # quoted_text [CHR ''a'', QUOTE, NEWLINE])"
    by (intro line_text.intros bare field_text.in_quotes)
  have second: "line_text [''M'', []] (''M'' @ CHR '','' # [])"
    by (intro line_text.intros bare)
  have "table_text [[''stop'', [CHR ''a'', QUOTE, NEWLINE]], [''M'', []]]
      ((''stop'' @ CHR '','' # quoted_text [CHR ''a'', QUOTE, NEWLINE]) @ [RETURN, NEWLINE] @ (''M'' @ CHR '','' # []) @ [NEWLINE] @ [])"
    by (intro table_text.line [OF first] table_text.line [OF second] table_text.none) auto
  then show ?thesis
    using csv_reads_every_table by (simp add: two_lines_def)
qed

subsection \<open>What a corridor sells\<close>

text \<open>The real service numbers of a table of trips, in order.\<close>

definition real_numbers :: "feed_row list \<Rightarrow> string list" where
  "real_numbers trips = filter (\<lambda>n. n \<noteq> []) (map (\<lambda>trip. trim (in_template (column trip ''tatak_service_number''))) trips)"

lemma real_numbers_Cons: "real_numbers (trip # trips) = real_numbers [trip] @ real_numbers trips"
  by (simp add: real_numbers_def)

text \<open>A fare that the feed publishes for the class and the two stands, its paise and its label.\<close>

definition sourced_cell :: "feed_row list \<Rightarrow> FareCellOut \<Rightarrow> bool" where
  "sourced_cell fareProducts c \<longleftrightarrow>
     (\<exists>row \<in> set fareProducts. \<exists>a b.
        column row ''fare_product_id'' = Some (fare_product_id (fc_serviceClass c) a b) \<and> column row ''currency'' = Some ''INR''
        \<and> Option.bind (stand_of a) (\<lambda>i. i) = fc_fromBoardingPointId c \<and> Option.bind (stand_of b) (\<lambda>i. i) = fc_toBoardingPointId c
        \<and> fc_farePaise c = fare_in_paise (column row ''amount'') \<and> fc_sourcing c = mapSourcing (column row ''tatak_sourcing''))"

definition cell_served :: "GeneratedService list \<Rightarrow> FareCellOut \<Rightarrow> bool" where
  "cell_served services c \<longleftrightarrow>
     (\<exists>s \<in> set services. gs_serviceClass s = fc_serviceClass c
        \<and> (fc_fromBoardingPointId c, fc_toBoardingPointId c) \<in> set (forward_pairs (map fst (gs_boardingPoints s))))"

definition service_fit :: "string \<Rightarrow> string list \<Rightarrow> GeneratedService \<Rightarrow> bool" where
  "service_fit fareTableId ambiguous s \<longleftrightarrow>
     gs_serviceId s \<notin> set AMBIGUOUS_SERVICE_NUMBERS \<and> gs_serviceId s \<notin> set ambiguous
     \<and> gs_serviceClass s \<in> set SERVICE_CLASSES \<and> map_of seat_map_ids (gs_serviceClass s) = Some (gs_seatMapId s)
     \<and> gs_fareTableId s = fareTableId \<and> \<not> not_positive (gs_runningMinutes s)
     \<and> 2 \<le> length (gs_boardingPoints s) \<and> distinct (map fst (gs_boardingPoints s))
     \<and> gs_droppingPoints s = gs_boardingPoints s
     \<and> (\<forall>p \<in> set (gs_boardingPoints s). \<exists>stop. stand_of stop = Some (fst p))
     \<and> s = generated_service (gs_serviceId s) (gs_serviceClass s) fareTableId (gs_departureMinute s) (gs_runningMinutes s)
             (gs_seatMapId s) (gs_boardingPoints s)"

lemma pattern_points_distinct:
  "distinct (map fst (pattern_points offset seen xs)) \<and> fst ` set (pattern_points offset seen xs) \<inter> set seen = {}"
proof (induction offset seen xs rule: pattern_points.induct)
  case (2 offset seen stop minutes rest)
  show ?case
  proof (cases "stand_of stop")
    case None
    then show ?thesis using 2(1) by simp
  next
    case (Some i)
    then show ?thesis using 2(2,3) [of i] by (cases "i \<in> set seen") auto
  qed
qed simp

lemma pattern_points_from:
  "p \<in> set (pattern_points offset seen xs) \<Longrightarrow> \<exists>x \<in> set xs. stand_of (fst x) = Some (fst p)"
proof (induction offset seen xs rule: pattern_points.induct)
  case (2 offset seen stop minutes rest)
  show ?case
  proof (cases "stand_of stop")
    case None
    then show ?thesis using 2(1,4) by simp
  next
    case (Some i)
    then show ?thesis using 2(2,3) [of i] 2(4) by (cases "i \<in> set seen") auto
  qed
qed simp

lemma map_forward_pairs: "map (map_prod f f) (forward_pairs xs) = forward_pairs (map f xs)"
  by (induction xs) auto

lemma forward_pairs_mem: "(a, b) \<in> set (forward_pairs xs) \<Longrightarrow> a \<in> set xs \<and> b \<in> set xs"
  by (induction xs) auto

lemma forward_pairs_distinct: "distinct xs \<Longrightarrow> (a, b) \<in> set (forward_pairs xs) \<Longrightarrow> a \<noteq> b"
  by (induction xs) (auto dest: forward_pairs_mem)

text \<open>Claiming cells leaves the rest of a corridor alone; a new cell is priced by the feed.\<close>

lemma claim_cells_rest:
  "co_services (fold (claim_cell g fp cls pc n) pairs st) = co_services st
   \<and> co_allRealNumbers (fold (claim_cell g fp cls pc n) pairs st) = co_allRealNumbers st"
  by (induction pairs arbitrary: st) (auto simp: claim_cell_def Let_def split: option.splits)

lemma stop_at_stand:
  assumes "i \<in> set (map fst (pattern_points offset [] (zip (pg_stopIds g) ms)))"
  shows "Option.bind (stand_of (stop_at g i)) (\<lambda>b. b) = i"
proof -
  obtain x where "x \<in> set (zip (pg_stopIds g) ms)" "stand_of (fst x) = Some i"
    using assms pattern_points_from by fastforce
  then have "\<exists>stop \<in> set (pg_stopIds g). stand_of stop = Some i"
    by (metis prod.collapse set_zip_leftD)
  then have "List.find (\<lambda>stop. Option.bind (stand_of stop) (\<lambda>b. b) = i) (pg_stopIds g) \<noteq> None"
    by (auto simp: find_None_iff)
  then show ?thesis
    unfolding stop_at_def using find_SomeD(2) by fastforce
qed

lemma claim_cells_sourced:
  assumes "c \<in> snd ` set (co_cells (fold (claim_cell g fp cls cls n) pairs st))" "c \<notin> snd ` set (co_cells st)"
    and "\<forall>(a, b) \<in> set pairs. Option.bind (stand_of (stop_at g (fst a))) (\<lambda>i. i) = fst a
           \<and> Option.bind (stand_of (stop_at g (fst b))) (\<lambda>i. i) = fst b"
  shows "sourced_cell fp c \<and> fc_serviceClass c = cls
    \<and> (fc_fromBoardingPointId c, fc_toBoardingPointId c) \<in> set (map (map_prod fst fst) pairs)"
  using assms
proof (induction pairs arbitrary: st)
  case Nil
  then show ?case by simp
next
  case (Cons ab pairs)
  let ?st = "claim_cell g fp cls cls n ab st"
  show ?case
  proof (cases "c \<in> snd ` set (co_cells ?st)")
    case False
    then show ?thesis using Cons.IH [of ?st] Cons.prems by auto
  next
    case True
    obtain a b where ab: "ab = (a, b)" by (cases ab)
    from True Cons.prems(2) obtain row where
      row: "fare_row fp cls (stop_at g (fst a)) (stop_at g (fst b)) = Some row"
      and c: "c = \<lparr>fc_fromBoardingPointId = fst a, fc_toBoardingPointId = fst b, fc_serviceClass = cls,
                fc_farePaise = fare_in_paise (column row ''amount''),
                fc_sourcing = mapSourcing (column row ''tatak_sourcing'')\<rparr>"
      by (auto simp: claim_cell_def Let_def ab split: option.splits if_splits)
    have "row \<in> set fp" "column row ''fare_product_id'' = Some (fare_product_id cls (stop_at g (fst a)) (stop_at g (fst b)))"
      "column row ''currency'' = Some ''INR''"
      using find_SomeD [OF row [unfolded fare_row_def]] by auto
    then have "sourced_cell fp c"
      using Cons.prems(3) unfolding sourced_cell_def c ab by auto
    then show ?thesis by (simp add: c ab)
  qed
qed

text \<open>What one trip does to a corridor: it is passed over, or its service is sold with its cells.\<close>

definition sells :: "CorridorFeed \<Rightarrow> string list \<Rightarrow> string \<Rightarrow> Corridor \<Rightarrow> Corridor \<Rightarrow> bool" where
  "sells feed ambiguous n st st' \<longleftrightarrow>
     (\<exists>s g offset st1. service_fit (cf_fareTableId feed) ambiguous s \<and> gs_serviceId s = n
        \<and> gs_boardingPoints s = pattern_points offset [] (zip (pg_stopIds g) (pg_minutesAtStop g))
        \<and> co_services st1 = co_services st @ [s] \<and> co_cells st1 = co_cells st
        \<and> co_allRealNumbers st1 = List.insert n (co_allRealNumbers st)
        \<and> st' = fold (claim_cell g (cf_fareProducts feed) (gs_serviceClass s) (gs_serviceClass s) n)
                  (forward_pairs (gs_boardingPoints s)) st1)"

definition passes :: "string \<Rightarrow> Corridor \<Rightarrow> Corridor \<Rightarrow> bool" where
  "passes n st st' \<longleftrightarrow> co_services st' = co_services st \<and> co_cells st' = co_cells st
     \<and> co_allRealNumbers st' = List.insert n (co_allRealNumbers st)"

lemma drop_trip_passes: "drop_trip n reason (st\<lparr>co_allRealNumbers := List.insert n (co_allRealNumbers st)\<rparr>) = Inr st' \<Longrightarrow> passes n st st'"
  by (auto simp: drop_trip_def passes_def)

lemma CLASS_MAP_provider: "CLASS_MAP cls = Some (ProviderClass pc) \<longleftrightarrow> pc = cls \<and> cls \<in> set SERVICE_CLASSES"
  by (auto simp: CLASS_MAP_def)

lemma sell_trip_cases:
  assumes "sell_trip (cf_fareTableId feed) (cf_fareProducts feed) n cls g found dep run
        (pattern_points offset [] (zip (pg_stopIds g) (pg_minutesAtStop g)))
        (st\<lparr>co_allRealNumbers := List.insert n (co_allRealNumbers st)\<rparr>) = Inr st'"
    and "n \<notin> set AMBIGUOUS_SERVICE_NUMBERS" "n \<notin> set ambiguous" "CLASS_MAP cls = Some found" "\<not> not_positive run"
  shows "passes n st st' \<or> sells feed ambiguous n st st'"
proof -
  let ?pts = "pattern_points offset [] (zip (pg_stopIds g) (pg_minutesAtStop g))"
  show ?thesis
  proof (cases "length ?pts < 2 \<or> SEAT_MAP_ID_BY_CLASS found = None \<or> found = InheritedMember")
    case True
    then show ?thesis
      using assms(1) by (auto simp: sell_trip_def split: if_splits FoundClass.splits option.splits intro: drop_trip_passes)
  next
    case False
    then obtain sm where found: "found = ProviderClass cls" and sm: "map_of seat_map_ids cls = Some sm"
      using assms(4) by (cases found) (auto simp: SEAT_MAP_ID_BY_CLASS_def CLASS_MAP_provider)
    let ?s = "generated_service n cls (cf_fareTableId feed) dep run sm ?pts"
    have fit: "service_fit (cf_fareTableId feed) ambiguous ?s"
      using assms(2-5) False sm found pattern_points_distinct
      by (auto simp: service_fit_def generated_service_def CLASS_MAP_provider not_less dest: pattern_points_from)
    let ?st1 = "st\<lparr>co_allRealNumbers := List.insert n (co_allRealNumbers st), co_services := co_services st @ [?s],
                   co_included := co_included st @ [n]\<rparr>"
    have "st' = fold (claim_cell g (cf_fareProducts feed) cls cls n) (forward_pairs ?pts) ?st1"
      using assms(1) False found sm by (simp add: sell_trip_def SEAT_MAP_ID_BY_CLASS_def)
    then have "sells feed ambiguous n st st'"
      unfolding sells_def
      by (intro exI [of _ ?s] exI [of _ g] exI [of _ offset] exI [of _ ?st1] conjI fit) (simp_all add: generated_service_def)
    then show ?thesis ..
  qed
qed

lemma time_trip_cases:
  assumes "time_trip (cf_fareTableId feed) (cf_fareProducts feed) n cls g found ownStops
        (st\<lparr>co_allRealNumbers := List.insert n (co_allRealNumbers st)\<rparr>) = Inr st'"
    and "n \<notin> set AMBIGUOUS_SERVICE_NUMBERS" "n \<notin> set ambiguous" "CLASS_MAP cls = Some found"
  shows "passes n st st' \<or> sells feed ambiguous n st st'"
  using assms(1)
  by (auto simp: time_trip_def Let_def andThen_eq_Inr split: option.splits if_splits dest: drop_trip_passes
      sell_trip_cases [OF _ assms(2-4)])

lemma work_trip_cases:
  assumes "work_trip feed ambiguous trip st = Inr st'"
  shows "(real_numbers [trip] = [] \<and> st' = st)
    \<or> (\<exists>n. real_numbers [trip] = [n] \<and> (passes n st st' \<or> sells feed ambiguous n st st'))"
proof -
  obtain cited where cited: "column trip ''tatak_service_number'' = Some cited"
    using assms by (auto simp: work_trip_def string_column_def andThen_eq_Inr)
  define n where "n = trim cited"
  show ?thesis
  proof (cases "n = []")
    case True
    then show ?thesis
      using assms by (simp add: work_trip_def string_column_def cited n_def real_numbers_def in_template_def)
  next
    case False
    have r: "real_numbers [trip] = [n]" using False by (simp add: real_numbers_def cited n_def in_template_def)
    have "passes n st st' \<or> sells feed ambiguous n st st'"
      using assms False
      by (auto simp: work_trip_def string_column_def cited Let_def andThen_eq_Inr n_def [symmetric]
          split: option.splits if_splits dest: drop_trip_passes time_trip_cases)
    with r show ?thesis by simp
  qed
qed

definition cells_ok :: "feed_row list \<Rightarrow> Corridor \<Rightarrow> bool" where
  "cells_ok fareProducts st \<longleftrightarrow>
     (\<forall>c \<in> snd ` set (co_cells st). sourced_cell fareProducts c \<and> cell_served (co_services st) c)"

lemma cell_served_more: "cell_served ss c \<Longrightarrow> set ss \<subseteq> set ss' \<Longrightarrow> cell_served ss' c"
  unfolding cell_served_def by blast

lemma sells_service:
  assumes "sells feed ambiguous n st st'"
  shows "\<exists>s. service_fit (cf_fareTableId feed) ambiguous s \<and> gs_serviceId s = n \<and> co_services st' = co_services st @ [s]
    \<and> co_allRealNumbers st' = List.insert n (co_allRealNumbers st)"
proof -
  from assms obtain s g st1 where "service_fit (cf_fareTableId feed) ambiguous s" "gs_serviceId s = n"
    and "co_services st1 = co_services st @ [s]" "co_allRealNumbers st1 = List.insert n (co_allRealNumbers st)"
    and "st' = fold (claim_cell g (cf_fareProducts feed) (gs_serviceClass s) (gs_serviceClass s) n)
                (forward_pairs (gs_boardingPoints s)) st1"
    unfolding sells_def by blast
  then show ?thesis by (simp add: claim_cells_rest)
qed

lemma sells_cells:
  assumes "sells feed ambiguous n st st'" "cells_ok (cf_fareProducts feed) st"
  shows "cells_ok (cf_fareProducts feed) st'"
proof -
  obtain s g offset st1 where
    pts: "gs_boardingPoints s = pattern_points offset [] (zip (pg_stopIds g) (pg_minutesAtStop g))"
    and st1: "co_services st1 = co_services st @ [s]" "co_cells st1 = co_cells st"
    and st': "st' = fold (claim_cell g (cf_fareProducts feed) (gs_serviceClass s) (gs_serviceClass s) n)
                (forward_pairs (gs_boardingPoints s)) st1"
    using assms(1) unfolding sells_def by blast
  have services: "co_services st' = co_services st @ [s]" by (simp add: st' st1 claim_cells_rest)
  have known: "\<forall>(a, b) \<in> set (forward_pairs (gs_boardingPoints s)).
      Option.bind (stand_of (stop_at g (fst a))) (\<lambda>i. i) = fst a \<and> Option.bind (stand_of (stop_at g (fst b))) (\<lambda>i. i) = fst b"
  proof (clarsimp, intro conjI)
    fix a u b v assume "((a, u), b, v) \<in> set (forward_pairs (gs_boardingPoints s))"
    then have ab: "(a, u) \<in> set (gs_boardingPoints s)" "(b, v) \<in> set (gs_boardingPoints s)" by (auto dest: forward_pairs_mem)
    show "Option.bind (stand_of (stop_at g a)) (\<lambda>i. i) = a"
      by (rule stop_at_stand [of a offset g "pg_minutesAtStop g"]) (use ab(1) pts in force)
    show "Option.bind (stand_of (stop_at g b)) (\<lambda>i. i) = b"
      by (rule stop_at_stand [of b offset g "pg_minutesAtStop g"]) (use ab(2) pts in force)
  qed
  show ?thesis
    unfolding cells_ok_def
  proof
    fix c assume c: "c \<in> snd ` set (co_cells st')"
    show "sourced_cell (cf_fareProducts feed) c \<and> cell_served (co_services st') c"
    proof (cases "c \<in> snd ` set (co_cells st)")
      case True
      then have "sourced_cell (cf_fareProducts feed) c" "cell_served (co_services st) c"
        using assms(2) unfolding cells_ok_def by auto
      then show ?thesis using cell_served_more [of "co_services st" c "co_services st'"] by (auto simp: services)
    next
      case False
      have "sourced_cell (cf_fareProducts feed) c \<and> fc_serviceClass c = gs_serviceClass s
          \<and> (fc_fromBoardingPointId c, fc_toBoardingPointId c) \<in> set (map (map_prod fst fst) (forward_pairs (gs_boardingPoints s)))"
        by (rule claim_cells_sourced [OF c [unfolded st'] _ known]) (simp add: st1 False)
      then show ?thesis by (auto simp: cell_served_def services map_forward_pairs)
    qed
  qed
qed

lemma work_trips_result:
  assumes "work_trips feed ambiguous trips st = Inr st'"
  shows "\<exists>new. co_services st' = co_services st @ new \<and> subseq (map gs_serviceId new) (real_numbers trips)
           \<and> set (co_allRealNumbers st') = set (co_allRealNumbers st) \<union> set (real_numbers trips)
           \<and> (\<forall>s \<in> set new. service_fit (cf_fareTableId feed) ambiguous s)"
    and "cells_ok (cf_fareProducts feed) st \<Longrightarrow> cells_ok (cf_fareProducts feed) st'"
proof -
  let ?Q = "\<lambda>trips st st'. (\<exists>new. co_services st' = co_services st @ new \<and> subseq (map gs_serviceId new) (real_numbers trips)
           \<and> set (co_allRealNumbers st') = set (co_allRealNumbers st) \<union> set (real_numbers trips)
           \<and> (\<forall>s \<in> set new. service_fit (cf_fareTableId feed) ambiguous s))
         \<and> (cells_ok (cf_fareProducts feed) st \<longrightarrow> cells_ok (cf_fareProducts feed) st')"
  have one: "?Q [trip] st st'" if "work_trip feed ambiguous trip st = Inr st'" for trip st st'
    using work_trip_cases [OF that]
  proof (elim disjE exE conjE)
    fix n assume r: "real_numbers [trip] = [n]" and p: "passes n st st'"
    then show ?thesis by (auto simp: passes_def cells_ok_def)
  next
    fix n assume r: "real_numbers [trip] = [n]" and s: "sells feed ambiguous n st st'"
    obtain s where "service_fit (cf_fareTableId feed) ambiguous s" "gs_serviceId s = n"
      "co_services st' = co_services st @ [s]" "co_allRealNumbers st' = List.insert n (co_allRealNumbers st)"
      using sells_service [OF s] by blast
    then show ?thesis using sells_cells [OF s] by (intro conjI exI [of _ "[s]"]) (simp_all add: r)
  qed simp
  have "?Q trips st st'"
    using assms
  proof (induction trips arbitrary: st)
    case Nil
    then show ?case by (simp add: real_numbers_def)
  next
    case (Cons trip trips)
    then obtain mid where mid: "work_trip feed ambiguous trip st = Inr mid" and rest: "work_trips feed ambiguous trips mid = Inr st'"
      by (auto simp: andThen_eq_Inr)
    obtain new1 where new1: "co_services mid = co_services st @ new1"
        "subseq (map gs_serviceId new1) (real_numbers [trip])"
        "set (co_allRealNumbers mid) = set (co_allRealNumbers st) \<union> set (real_numbers [trip])"
        "\<forall>s \<in> set new1. service_fit (cf_fareTableId feed) ambiguous s"
        "cells_ok (cf_fareProducts feed) st \<longrightarrow> cells_ok (cf_fareProducts feed) mid"
      using one [OF mid] by blast
    obtain new2 where new2: "co_services st' = co_services mid @ new2"
        "subseq (map gs_serviceId new2) (real_numbers trips)"
        "set (co_allRealNumbers st') = set (co_allRealNumbers mid) \<union> set (real_numbers trips)"
        "\<forall>s \<in> set new2. service_fit (cf_fareTableId feed) ambiguous s"
        "cells_ok (cf_fareProducts feed) mid \<longrightarrow> cells_ok (cf_fareProducts feed) st'"
      using Cons.IH [OF rest] by blast
    have "subseq (map gs_serviceId (new1 @ new2)) (real_numbers (trip # trips))"
      using list_emb_append_mono [OF new1(2) new2(2)] by (simp add: real_numbers_Cons [of trip trips])
    then show ?case
      using new1 new2 by (intro conjI exI [of _ "new1 @ new2"]) (auto simp: real_numbers_Cons [of trip trips])
  qed
  then show "\<exists>new. co_services st' = co_services st @ new \<and> subseq (map gs_serviceId new) (real_numbers trips)
           \<and> set (co_allRealNumbers st') = set (co_allRealNumbers st) \<union> set (real_numbers trips)
           \<and> (\<forall>s \<in> set new. service_fit (cf_fareTableId feed) ambiguous s)"
    and "cells_ok (cf_fareProducts feed) st \<Longrightarrow> cells_ok (cf_fareProducts feed) st'"
    by simp_all
qed

text \<open>The tables of a corridor, when they can be read.\<close>

definition table_rows :: "feeds \<Rightarrow> string \<Rightarrow> string \<Rightarrow> feed_row list" where
  "table_rows tatak dir table = (case tatak dir table of None \<Rightarrow> [] | Some contents \<Rightarrow> parseCsv contents)"

definition cited_numbers :: "feeds \<Rightarrow> string \<Rightarrow> string list" where
  "cited_numbers tatak dir = real_numbers (table_rows tatak dir ''trips.txt'')"

lemma corridor_result:
  assumes "generateCorridor tatak ambiguous (dir, fareTableId) = Inr r"
  shows "\<forall>s \<in> set (co_services r). service_fit fareTableId ambiguous s"
    and "subseq (map gs_serviceId (co_services r)) (cited_numbers tatak dir)"
    and "set (co_allRealNumbers r) = set (cited_numbers tatak dir)"
    and "cells_ok (table_rows tatak dir ''fare_products.txt'') r"
    and "tatak dir ''trips.txt'' \<noteq> None"
proof -
  obtain trips stops fares groups where
    readable: "tatak dir ''trips.txt'' = Some trips" "tatak dir ''fare_products.txt'' = Some fares"
    and run: "work_trips \<lparr>cf_dir = dir, cf_fareTableId = fareTableId, cf_fareProducts = parseCsv fares,
        cf_stopTimes = stops, cf_patterns = groups\<rparr> ambiguous (parseCsv trips) no_corridor = Inr r"
    using assms by (auto simp: generateCorridor_def readTatak_def Let_def result_simps)
  from work_trips_result [OF run]
  show "\<forall>s \<in> set (co_services r). service_fit fareTableId ambiguous s"
    and "subseq (map gs_serviceId (co_services r)) (cited_numbers tatak dir)"
    and "set (co_allRealNumbers r) = set (cited_numbers tatak dir)"
    and "cells_ok (table_rows tatak dir ''fare_products.txt'') r"
    and "tatak dir ''trips.txt'' \<noteq> None"
    by (auto simp: readable no_corridor_def cited_numbers_def table_rows_def cells_ok_def)
qed

text \<open>C22. Nothing a corridor sells is made up. A service carries a real number the feed cites, of a class
  and a coach this seller has, runs a positive time or an unknown one, and calls at two stands or more,
  each once. A fare is the amount of a row the feed publishes in rupees for the class and the two stands,
  under the row's label, and is for a stretch that a service of the class runs in that direction.\<close>

theorem corridor_sells_what_the_feed_says:
  assumes "generateCorridor tatak ambiguous (dir, fareTableId) = Inr r"
  shows "(\<forall>s \<in> set (co_services r). gs_serviceId s \<in> set (cited_numbers tatak dir) \<and> service_fit fareTableId ambiguous s)
       \<and> (\<forall>c \<in> snd ` set (co_cells r). sourced_cell (table_rows tatak dir ''fare_products.txt'') c \<and> cell_served (co_services r) c
            \<and> fc_fromBoardingPointId c \<noteq> fc_toBoardingPointId c)"
proof -
  note r = corridor_result [OF assms]
  have cited: "gs_serviceId s \<in> set (cited_numbers tatak dir)" if "s \<in> set (co_services r)" for s
    by (rule list_emb_set [OF r(2), of "gs_serviceId s"]) (use that in auto)
  have apart: "fc_fromBoardingPointId c \<noteq> fc_toBoardingPointId c" if "cell_served (co_services r) c" for c
    using that r(1) by (auto simp: cell_served_def service_fit_def dest: forward_pairs_distinct)
  show ?thesis using r(1,4) cited apart unfolding cells_ok_def by blast
qed

subsection \<open>Numbers that two corridors cite\<close>

definition owner_dirs :: "(string \<times> string list) list \<Rightarrow> string \<Rightarrow> string set" where
  "owner_dirs owners n = (case map_of owners n of None \<Rightarrow> {} | Some dirs \<Rightarrow> set dirs)"

lemma cite_owner_dirs:
  assumes "cite dir trip owners = Inr owners'"
  shows "owner_dirs owners' n = owner_dirs owners n \<union> (if n \<in> set (real_numbers [trip]) then {dir} else {})"
proof -
  obtain cited where cited: "column trip ''tatak_service_number'' = Some cited"
    using assms by (auto simp: cite_def string_column_def andThen_eq_Inr)
  show ?thesis
  proof (cases "trim cited = []")
    case True
    then have "owners' = owners" using assms by (simp add: cite_def string_column_def cited)
    then show ?thesis using True by (simp add: real_numbers_def in_template_def cited)
  next
    case False
    have "owners' = AList.update (trim cited)
        (List.insert dir (case map_of owners (trim cited) of None \<Rightarrow> [] | Some dirs \<Rightarrow> dirs)) owners"
      using assms False by (simp add: cite_def string_column_def cited Let_def)
    then show ?thesis
      using False by (simp add: owner_dirs_def update_conv' real_numbers_def in_template_def cited split: option.splits)
  qed
qed

lemma cite_all_owner_dirs:
  "cite_all dir trips owners = Inr owners' \<Longrightarrow>
     owner_dirs owners' n = owner_dirs owners n \<union> (if n \<in> set (real_numbers trips) then {dir} else {})"
proof (induction trips arbitrary: owners)
  case Nil
  then show ?case by (simp add: real_numbers_def)
next
  case (Cons trip trips)
  then obtain mid where "cite dir trip owners = Inr mid" "cite_all dir trips mid = Inr owners'"
    by (auto simp: andThen_eq_Inr)
  then have "owner_dirs owners' n = owner_dirs owners n \<union> (if n \<in> set (real_numbers [trip]) then {dir} else {})
      \<union> (if n \<in> set (real_numbers trips) then {dir} else {})"
    using Cons.IH [of mid] cite_owner_dirs [of dir trip owners mid n] by simp
  then show ?case unfolding real_numbers_Cons [of trip trips] by simp
qed

lemma cite_dirs_owner_dirs:
  "cite_dirs tatak dirs owners = Inr owners' \<Longrightarrow>
     owner_dirs owners' n = owner_dirs owners n \<union> {dir \<in> set dirs. n \<in> set (cited_numbers tatak dir)}"
proof (induction dirs arbitrary: owners)
  case Nil
  then show ?case by simp
next
  case (Cons dir dirs)
  show ?case
  proof (cases "tatak dir ''trips.txt''")
    case None
    then have none: "cited_numbers tatak dir = []" by (simp add: cited_numbers_def table_rows_def real_numbers_def)
    have "cite_dirs tatak dirs owners = Inr owners'"
      using Cons.prems None by (simp add: readTatak_def)
    then have "owner_dirs owners' n = owner_dirs owners n \<union> {d \<in> set dirs. n \<in> set (cited_numbers tatak d)}" by (rule Cons.IH)
    moreover have "n \<notin> set (cited_numbers tatak dir)" by (simp only: none) simp
    then have "{d \<in> set (dir # dirs). n \<in> set (cited_numbers tatak d)} = {d \<in> set dirs. n \<in> set (cited_numbers tatak d)}" by auto
    ultimately show ?thesis by (simp only:)
  next
    case (Some contents)
    then have here: "cited_numbers tatak dir = real_numbers (parseCsv contents)"
      by (simp add: cited_numbers_def table_rows_def)
    have "andThen (cite_all dir (parseCsv contents) owners) (cite_dirs tatak dirs) = Inr owners'"
      using Cons.prems Some by (simp add: readTatak_def)
    then obtain mid where mid: "cite_all dir (parseCsv contents) owners = Inr mid" "cite_dirs tatak dirs mid = Inr owners'"
      unfolding andThen_eq_Inr by blast
    have "owner_dirs owners' n = owner_dirs owners n \<union> (if n \<in> set (cited_numbers tatak dir) then {dir} else {})
        \<union> {d \<in> set dirs. n \<in> set (cited_numbers tatak d)}"
      using Cons.IH [OF mid(2)] cite_all_owner_dirs [OF mid(1), of n] by (simp only: here)
    then show ?thesis by auto
  qed
qed

lemma cited_twice_ambiguous:
  assumes "findCrossCorridorAmbiguous tatak dirs = Inr ambiguous"
    and "d \<in> set dirs" "d' \<in> set dirs" "d \<noteq> d'" "n \<in> set (cited_numbers tatak d)" "n \<in> set (cited_numbers tatak d')"
  shows "n \<in> set ambiguous"
proof -
  obtain owners where owners: "cite_dirs tatak dirs [] = Inr owners"
    and amb: "ambiguous = map fst (filter (\<lambda>(n, seen). length seen > 1) owners)"
    using assms(1) by (auto simp: findCrossCorridorAmbiguous_def andThen_eq_Inr)
  have "{d, d'} \<subseteq> owner_dirs owners n"
    using cite_dirs_owner_dirs [OF owners, of n] assms(2-) by auto
  then obtain seen where seen: "map_of owners n = Some seen" "{d, d'} \<subseteq> set seen"
    by (auto simp: owner_dirs_def split: option.splits)
  have "card {d, d'} \<le> length seen" using card_mono [OF _ seen(2)] card_length [of seen] by simp
  then have "1 < length seen" using assms(4) by simp
  then show ?thesis using map_of_SomeD [OF seen(1)] by (force simp: amb)
qed

lemma corridor_names_distinct: "distinct (map fst CORRIDOR_DIRS)" "distinct (map snd CORRIDOR_DIRS)"
  by code_simp+

lemma ids_apart:
  assumes "list_all2 P cs rs" "distinct (map fst cs)"
    and "\<And>c r. P c r \<Longrightarrow> c \<in> set cs \<Longrightarrow> distinct (ids r) \<and> set (ids r) \<subseteq> cited (fst c) \<and> set (ids r) \<inter> bad = {}"
    and "\<And>d d'. d \<in> fst ` set cs \<Longrightarrow> d' \<in> fst ` set cs \<Longrightarrow> d \<noteq> d' \<Longrightarrow> cited d \<inter> cited d' \<subseteq> bad"
  shows "distinct (concat (map ids rs)) \<and> set (concat (map ids rs)) \<subseteq> (\<Union>d \<in> fst ` set cs. cited d) - bad"
  using assms
proof (induction rule: list_all2_induct)
  case Nil
  then show ?case by simp
next
  case (Cons c cs r rs)
  have rest: "distinct (concat (map ids rs)) \<and> set (concat (map ids rs)) \<subseteq> (\<Union>d \<in> fst ` set cs. cited d) - bad"
    by (rule Cons.IH) (use Cons.prems in auto)
  have head: "distinct (ids r)" "set (ids r) \<subseteq> cited (fst c)" "set (ids r) \<inter> bad = {}"
    using Cons.prems(2) [OF Cons.hyps(1)] by auto
  have "cited (fst c) \<inter> cited d \<subseteq> bad" if "d \<in> fst ` set cs" for d
    using that Cons.prems(1) by (intro Cons.prems(3)) auto
  then have "set (ids r) \<inter> set (concat (map ids rs)) = {}" using rest head by blast
  then show ?case using rest head by auto
qed

end
