(* ===== verification/Generator_Load.thy ===== *)
theory Generator_Load
  imports Generator_Properties
begin

text \<open>
  What the generator writes is what the fixture source reads at start. The files are read back with their
  numbers, of which none may be \<open>null\<close>; then every reference of a new service and a new fare resolves, no
  id is given twice, and the catalogue passes its checks.
\<close>

subsection \<open>Reading the files back\<close>

definition stops_on_disk :: "pattern_point list \<Rightarrow> (string \<times> int) list option" where
  "stops_on_disk ps = those (map (\<lambda>(i, n). case (i, n) of (Some i, Some n) \<Rightarrow> Some (i, n) | _ \<Rightarrow> None) ps)"

definition entry_on_disk :: "GeneratedService \<Rightarrow> ServiceEntry option" where
  "entry_on_disk s =
     (case (gs_departureMinute s, gs_runningMinutes s, stops_on_disk (gs_boardingPoints s), stops_on_disk (gs_droppingPoints s)) of
        (Some d, Some r, Some bs, Some ds) \<Rightarrow>
          Some \<lparr>se_service = \<lparr>svc_serviceId = gs_serviceId s, svc_serviceNumber = gs_serviceNumber s, svc_brand = gs_brand s,
                  svc_operatingCorporation = gs_operatingCorporation s,
                  svc_operatingCorporationBasis = gs_operatingCorporationBasis s, svc_provenance = gs_provenance s,
                  svc_provenanceSourceCount = gs_provenanceSourceCount s, svc_serviceClass = gs_serviceClass s,
                  svc_boardingPoints = [], svc_droppingPoints = [], svc_operatingPattern = gs_operatingPattern s,
                  svc_departureMinute = d, svc_runningMinutes = r, svc_seatMapId = gs_seatMapId s,
                  svc_fareTableId = gs_fareTableId s, svc_popularity = gs_popularity s,
                  svc_reservationFeePaise = gs_reservationFeePaise s, svc_tollPaise = gs_tollPaise s\<rparr>,
                se_boarding = bs, se_dropping = ds\<rparr>
      | _ \<Rightarrow> None)"

definition cell_on_disk :: "FareCellOut \<Rightarrow> FareCell option" where
  "cell_on_disk c =
     (case (fc_fromBoardingPointId c, fc_toBoardingPointId c, fc_farePaise c) of
        (Some a, Some b, Some p) \<Rightarrow>
          Some \<lparr>cell_fromBoardingPointId = a, cell_toBoardingPointId = b, cell_serviceClass = fc_serviceClass c,
                cell_farePaise = p, cell_sourcing = fc_sourcing c\<rparr>
      | _ \<Rightarrow> None)"

definition table_on_disk :: "string \<times> FareCellOut list \<Rightarrow> (string \<times> FareTable) option" where
  "table_on_disk it = map_option (\<lambda>fs. (fst it, \<lparr>table_fareTableId = fst it, table_fares = fs\<rparr>)) (those (map cell_on_disk (snd it)))"

definition reread :: "FixtureFiles \<Rightarrow> WrittenFiles \<Rightarrow> FixtureFiles option" where
  "reread files w =
     Option.bind (those (map (case_sum Some entry_on_disk) (wf_services w))) (\<lambda>entries.
     Option.bind (those (map table_on_disk (wf_fareTables w))) (\<lambda>tables.
       Some (files\<lparr>ff_towns := wf_towns w, ff_points := wf_points w, ff_services := entries,
                   ff_fareTable := (\<lambda>i. case map_of tables i of None \<Rightarrow> ff_fareTable files i | Some t \<Rightarrow> Some t)\<rparr>)))"


definition kept_services :: "WrittenFiles \<Rightarrow> ServiceEntry list" where
  "kept_services w = concat (map (case_sum (\<lambda>e. [e]) (\<lambda>_. [])) (wf_services w))"

definition new_services :: "WrittenFiles \<Rightarrow> GeneratedService list" where
  "new_services w = concat (map (case_sum (\<lambda>_. []) (\<lambda>s. [s])) (wf_services w))"

lemma list_all2_from_right: "list_all2 P xs ys \<Longrightarrow> y \<in> set ys \<Longrightarrow> \<exists>x \<in> set xs. P x y"
  by (induction rule: list_all2_induct) auto

lemma list_all2_from_left: "list_all2 P xs ys \<Longrightarrow> x \<in> set xs \<Longrightarrow> \<exists>y \<in> set ys. P x y"
  by (induction rule: list_all2_induct) auto

lemma those_eq_Some: "those xs = Some ys \<longleftrightarrow> xs = map Some ys"
  by (induction xs arbitrary: ys) (auto split: option.splits)

lemma those_map: "those (map f xs) = Some ys \<longleftrightarrow> list_all2 (\<lambda>x y. f x = Some y) xs ys"
  by (auto simp: those_eq_Some list_all2_conv_all_nth list_eq_iff_nth_eq)



subsection \<open>Loading, in parts\<close>

text \<open>A service as it is loaded: its entry, with its stops resolved.\<close>

definition loaded_as :: "ServiceEntry \<Rightarrow> ReservedService \<Rightarrow> bool" where
  "loaded_as e s \<longleftrightarrow> (\<exists>bs ds. s = (se_service e)\<lparr>svc_boardingPoints := bs, svc_droppingPoints := ds\<rparr>
     \<and> map bp_boardingPointId bs = map fst (se_boarding e) \<and> map bp_boardingPointId ds = map fst (se_dropping e))"

abbreviation point_ids :: "BoardingPoint list \<Rightarrow> string set" where
  "point_ids ps \<equiv> bp_boardingPointId ` set ps"

abbreviation stop_ids :: "ServiceEntry \<Rightarrow> string list" where
  "stop_ids e \<equiv> map fst (se_boarding e @ se_dropping e)"

lemma resolvePoints_ok:
  assumes "resolvePoints refs points sid = Inr bs"
  shows "map bp_boardingPointId bs = map fst refs \<and> fst ` set refs \<subseteq> point_ids points"
  using assms
proof (induction refs arbitrary: bs)
  case (Cons r refs)
  obtain pid offset where r: "r = (pid, offset)" by (cases r)
  obtain p bs' where p: "List.find (\<lambda>p. bp_boardingPointId p = pid) (rev points) = Some p"
    and bs: "bs = p\<lparr>bp_reportingOffsetMinutes := offset\<rparr> # bs'" and rest: "resolvePoints refs points sid = Inr bs'"
    using Cons.prems by (auto simp: r resolvePoints_def andThen_eq_Inr split: option.splits)
  show ?case using Cons.IH [OF rest] find_SomeD [OF p] by (auto simp: r bs)
qed (simp add: resolvePoints_def)


lemma resolve_service_loaded: "resolve_service points e = Inr s \<Longrightarrow> loaded_as e s \<and> set (stop_ids e) \<subseteq> point_ids points"
  unfolding resolve_service_def loaded_as_def
  by (auto simp: andThen_eq_Inr dest!: resolvePoints_ok)


text \<open>What a load gives, and when there is one.\<close>

lemma load_parts:
  assumes "loadReservedCatalogue files = Inr cat"
  shows "cat_towns cat = ff_towns files"
    and "map bp_boardingPointId (cat_boardingPoints cat) = map bp_boardingPointId (town_points (ff_points files))"
    and "map bp_townCode (cat_boardingPoints cat) = map bp_townCode (town_points (ff_points files))"
    and "list_all2 loaded_as (ff_services files) (cat_services cat)"
    and "\<forall>e \<in> set (ff_services files). set (stop_ids e) \<subseteq> point_ids (town_points (ff_points files))"
    and "map (ff_seatMap files) (dedup (map svc_seatMapId (cat_services cat))) = map Some (cat_seatMaps cat)"
    and "map (ff_fareTable files) (dedup (map svc_fareTableId (cat_services cat))) = map Some (cat_fareTables cat)"
proof -
  let ?points = "town_points (ff_points files)"
  obtain services maps tables where s: "traverse (resolve_service ?points) (ff_services files) = Inr services"
    and m: "traverse (\<lambda>i. required (ff_seatMap files i) (FileUnreadable i)) (dedup (map svc_seatMapId services)) = Inr maps"
    and t: "traverse (\<lambda>i. required (ff_fareTable files i) (FileUnreadable i)) (dedup (map svc_fareTableId services)) = Inr tables"
    and cat: "cat = \<lparr>cat_operator = ff_operator files, cat_towns = ff_towns files,
             cat_boardingPoints = map (\<lambda>p. p\<lparr>bp_reportingOffsetMinutes := 0\<rparr>) ?points,
             cat_services = services, cat_seatMaps = maps, cat_fareTables = tables\<rparr>"
    using assms by (auto simp: loadReservedCatalogue_def Let_def andThen_eq_Inr)
  have two: "list_all2 (\<lambda>e s. loaded_as e s \<and> set (stop_ids e) \<subseteq> point_ids ?points) (ff_services files) services"
    using s unfolding traverse_ok by (rule list_all2_mono) (rule resolve_service_loaded)
  show "cat_towns cat = ff_towns files" by (simp add: cat)
  show "map bp_boardingPointId (cat_boardingPoints cat) = map bp_boardingPointId ?points" by (simp add: cat)
  show "map bp_townCode (cat_boardingPoints cat) = map bp_townCode ?points" by (simp add: cat)
  show "list_all2 loaded_as (ff_services files) (cat_services cat)"
    unfolding cat using two by (auto elim: list_all2_mono)
  show "\<forall>e \<in> set (ff_services files). set (stop_ids e) \<subseteq> point_ids ?points"
    using list_all2_from_left [OF two] by blast
  show "map (ff_seatMap files) (dedup (map svc_seatMapId (cat_services cat))) = map Some (cat_seatMaps cat)"
    using m by (simp add: traverse_ok cat list_all2_conv_all_nth list_eq_iff_nth_eq)
  show "map (ff_fareTable files) (dedup (map svc_fareTableId (cat_services cat))) = map Some (cat_fareTables cat)"
    using t by (simp add: traverse_ok cat list_all2_conv_all_nth list_eq_iff_nth_eq)
qed


subsection \<open>Towns and points\<close>


definition declared :: "(string \<times> BoardingPoint list) list \<Rightarrow> string set" where
  "declared points = (\<Union>(town, ps) \<in> set points. point_ids ps)"

lemma declared_simps [simp]:
  "declared [] = {}"
  "declared ((town, ps) # points) = point_ids ps \<union> declared points"
  by (simp_all add: declared_def)

lemma town_points_simps [simp]:
  "town_points [] = []"
  "town_points ((town, ps) # points) = map (\<lambda>p. p\<lparr>bp_townCode := town\<rparr>) ps @ town_points points"
  by (simp_all add: town_points_def)








subsection \<open>What a run writes\<close>




lemma generate_parts:
  assumes "generate tatak files = Inr w"
  obtains ambiguous results where
    "findCrossCorridorAmbiguous tatak (map fst CORRIDOR_DIRS) = Inr ambiguous"
    "list_all2 (\<lambda>c r. generateCorridor tatak ambiguous c = Inr r) CORRIDOR_DIRS results"
    "(wf_towns w, wf_points w) = fold add_stand (map snd STAND_REGISTRY) (ff_towns files, ff_points files)"
    "kept_services w = filter (\<lambda>e. svc_serviceId (se_service e) \<notin> set (concat (map co_allRealNumbers results))) (ff_services files)"
    "new_services w = concat (map co_services results)"
    "wf_services w = map Inl (kept_services w) @ map Inr (new_services w)"
    "wf_fareTables w = map (\<lambda>((dir, fareTableId), r). (fareTableId, map snd (co_cells r)))
                   (filter (\<lambda>(corridor, r). co_services r \<noteq> []) (zip CORRIDOR_DIRS results))"
proof -
  obtain ambiguous results towns points where
    a: "findCrossCorridorAmbiguous tatak (map fst CORRIDOR_DIRS) = Inr ambiguous"
    and r: "traverse (generateCorridor tatak ambiguous) CORRIDOR_DIRS = Inr results"
    and f: "fold add_stand (map snd STAND_REGISTRY) (ff_towns files, ff_points files) = (towns, points)"
    and w: "w = \<lparr>wf_towns = towns, wf_points = points,
               wf_services = map Inl (filter (\<lambda>e. svc_serviceId (se_service e) \<notin> set (concat (map co_allRealNumbers results))) (ff_services files))
                 @ map Inr (concat (map co_services results)),
               wf_fareTables =
                 map (\<lambda>((dir, fareTableId), r). (fareTableId, map snd (co_cells r)))
                   (filter (\<lambda>(corridor, r). co_services r \<noteq> []) (zip CORRIDOR_DIRS results))\<rparr>"
    using assms
    by (cases "fold add_stand (map snd STAND_REGISTRY) (ff_towns files, ff_points files)")
      (auto simp: generate_def andThen_eq_Inr Let_def)
  have id: "concat (map (\<lambda>x. [x]) xs) = xs" "concat (map (\<lambda>x. []) ys) = []" for xs :: "'x list" and ys :: "'y list"
    by (induction xs) simp_all
  have k: "kept_services w = filter (\<lambda>e. svc_serviceId (se_service e) \<notin> set (concat (map co_allRealNumbers results))) (ff_services files)"
    by (simp add: kept_services_def w comp_def id)
  have n: "new_services w = concat (map co_services results)"
    by (simp add: new_services_def w comp_def id)
  show ?thesis
  proof (rule that [OF a r [unfolded traverse_ok] _ k n])
    show "(wf_towns w, wf_points w) = fold add_stand (map snd STAND_REGISTRY) (ff_towns files, ff_points files)"
      unfolding f by (simp add: w)
    show "wf_services w = map Inl (kept_services w) @ map Inr (new_services w)"
      unfolding k n by (simp add: w)
  qed (simp add: w)
qed


subsection \<open>The catalogue of the next start\<close>

lemma reread_parts:
  assumes "reread files w = Some files'"
  shows "list_all2 (\<lambda>x e. case_sum Some entry_on_disk x = Some e) (wf_services w) (ff_services files')"
    and "ff_towns files' = wf_towns w" "ff_points files' = wf_points w" "ff_seatMap files' = ff_seatMap files"
    and "\<And>i t. ff_fareTable files' i = Some t \<Longrightarrow> (i \<in> fst ` set (wf_fareTables w) \<and> (\<exists>cs. (i, cs) \<in> set (wf_fareTables w) \<and> table_on_disk (i, cs) = Some (i, t)))
           \<or> (i \<notin> fst ` set (wf_fareTables w) \<and> ff_fareTable files i = Some t)"
    and "\<And>i. i \<in> fst ` set (wf_fareTables w) \<Longrightarrow> ff_fareTable files' i \<noteq> None"
    and "\<And>i. ff_fareTable files i \<noteq> None \<Longrightarrow> ff_fareTable files' i \<noteq> None"
proof -
  obtain entries tables where e: "list_all2 (\<lambda>x e. case_sum Some entry_on_disk x = Some e) (wf_services w) entries"
    and t: "list_all2 (\<lambda>x y. table_on_disk x = Some y) (wf_fareTables w) tables"
    and files': "files' = files\<lparr>ff_towns := wf_towns w, ff_points := wf_points w, ff_services := entries,
                   ff_fareTable := (\<lambda>i. case map_of tables i of None \<Rightarrow> ff_fareTable files i | Some t \<Rightarrow> Some t)\<rparr>"
    using assms unfolding reread_def by (auto simp: bind_eq_Some_conv those_map)
  show "list_all2 (\<lambda>x e. case_sum Some entry_on_disk x = Some e) (wf_services w) (ff_services files')"
    and "ff_towns files' = wf_towns w" "ff_points files' = wf_points w" "ff_seatMap files' = ff_seatMap files"
    using e by (simp_all add: files')
  have key: "table_on_disk x = Some y \<Longrightarrow> fst y = fst x" for x y by (auto simp: table_on_disk_def)
  have keys: "fst ` set tables = fst ` set (wf_fareTables w)"
    using t by (induction rule: list_all2_induct) (auto dest: key)
  show "(i \<in> fst ` set (wf_fareTables w) \<and> (\<exists>cs. (i, cs) \<in> set (wf_fareTables w) \<and> table_on_disk (i, cs) = Some (i, t)))
           \<or> (i \<notin> fst ` set (wf_fareTables w) \<and> ff_fareTable files i = Some t)" if there: "ff_fareTable files' i = Some t" for i t
  proof (cases "map_of tables i")
    case None
    then have "i \<notin> fst ` set (wf_fareTables w)" by (simp add: map_of_eq_None_iff keys [symmetric])
    then show ?thesis using there None by (simp add: files')
  next
    case (Some t')
    then have "(i, t) \<in> set tables" using there by (auto simp: files' dest: map_of_SomeD)
    from list_all2_from_right [OF t this] obtain x where x: "x \<in> set (wf_fareTables w)" "table_on_disk x = Some (i, t)" by blast
    moreover obtain cs where "x = (i, cs)" using key [OF x(2)] by (cases x) simp
    ultimately show ?thesis by force
  qed
  show "ff_fareTable files' i \<noteq> None" if "i \<in> fst ` set (wf_fareTables w)" for i
    using that by (auto simp: files' keys [symmetric] split: option.splits dest: weak_map_of_SomeI)
  show "ff_fareTable files' i \<noteq> None" if "ff_fareTable files i \<noteq> None" for i
    using that by (auto simp: files' split: option.splits)
qed


text \<open>A service that loads from an entry satisfies the checks when the entry's own fields do.\<close>

lemma loaded_core:
  assumes "loaded_as e s"
  shows "svc_serviceId s = svc_serviceId (se_service e)" "svc_serviceClass s = svc_serviceClass (se_service e)"
    and "svc_fareTableId s = svc_fareTableId (se_service e)" "svc_seatMapId s = svc_seatMapId (se_service e)"
  using assms by (auto simp: loaded_as_def)


















text \<open>A number that a corridor gives two trips is sold twice under one id, and then no start accepts the
  fixtures: the generator does not look for it.\<close>

lemma reread_ids:
  assumes "generate tatak files = Inr w" "reread files w = Some files'"
  shows "map (svc_serviceId \<circ> se_service) (ff_services files')
       = map (svc_serviceId \<circ> se_service) (kept_services w) @ map gs_serviceId (new_services w)"
proof -
  have serv: "wf_services w = map Inl (kept_services w) @ map Inr (new_services w)" using assms(1) by (rule generate_parts)
  have id: "svc_serviceId (se_service e) = gs_serviceId s" if "entry_on_disk s = Some e" for s e
    using that by (auto simp: entry_on_disk_def split: option.splits)
  have "map (svc_serviceId \<circ> se_service) (ff_services files')
      = map (case_sum (svc_serviceId \<circ> se_service) gs_serviceId) (wf_services w)"
    using reread_parts(1) [OF assms(2)] by (induction rule: list_all2_induct) (auto simp: id split: sum.splits)
  then show ?thesis by (simp add: serv comp_def)
qed

theorem repeated_number_stops_the_seller:
  assumes "generate tatak files = Inr w" "reread files w = Some files'" "\<not> distinct (map gs_serviceId (new_services w))"
  shows "fixture_load files' \<noteq> Inr cat"
proof
  assume load: "fixture_load files' = Inr cat"
  then have "loadReservedCatalogue files' = Inr cat"
    unfolding fixture_load_def andThen_eq_Inr by (metis (no_types, lifting) old.sum.simps(5,6) obj_sumE Inl_Inr_False sum.inject(2))
  from load_parts(4) [OF this] have "map svc_serviceId (cat_services cat) = map (svc_serviceId \<circ> se_service) (ff_services files')"
    by (induction rule: list_all2_induct) (simp_all add: loaded_core)
  moreover have "distinct (map svc_serviceId (cat_services cat))" using fixture_sound [OF load] by (simp add: catalogue_sound_def)
  ultimately show False using assms(3) reread_ids [OF assms(1,2)] by simp
qed

subsection \<open>A feed and the files before it\<close>

text \<open>Whole numbers and clock times are read as what they say.\<close>

lemma Number_digits:
  assumes "list_all is_digit s" "s \<noteq> []" "digits_value s \<le> 2 ^ 53"
  shows "Number s = Some (of_nat (digits_value s))"
proof -
  have t: "trim s = s" by (rule trim_digits [OF assms(1)])
  have tw: "takeWhile is_digit s = s" "dropWhile is_digit s = []"
    using assms(1) by (simp_all add: list_all_iff)
  obtain c cs where s: "s = c # cs" using assms(2) by (meson neq_Nil_conv)
  have "is_digit c" using assms(1) unfolding s by simp
  then have sgn: "take 1 s \<noteq> ''-''" "take 1 s \<noteq> ''+''" by (auto simp: s is_digit_def)
  have pre: "take 2 s \<notin> {''0x'', ''0X'', ''0o'', ''0O'', ''0b'', ''0B''}"
  proof
    assume "take 2 s \<in> {''0x'', ''0X'', ''0o'', ''0O'', ''0b'', ''0B''}"
    then have "\<exists>c \<in> set (take 2 s). \<not> is_digit c" by (auto simp: is_digit_def)
    then show False using assms(1) by (auto simp: list_all_iff dest: in_set_takeD)
  qed
  have f: "fl (of_nat (digits_value s)) = of_nat (digits_value s)"
    using fl_of_int [of "int (digits_value s)"] assms(3) by simp
  have "decimal_value s = Some (of_nat (digits_value s))"
    using sgn assms(2) f by (simp add: decimal_value_def tw exponent_value_def)
  then show ?thesis using pre assms(2) by (simp add: Number_def t)
qed

lemma clock_minutes:
  assumes "list_all is_digit [h1, h2, m1, m2]"
  shows "hhmmssToMinutes [h1, h2, CHR '':'', m1, m2, CHR '':'', CHR ''0'', CHR ''0'']
       = Some (of_nat (60 * digits_value [h1, h2] + digits_value [m1, m2]))"
proof -
  have colon: "h1 \<noteq> CHR '':''" "h2 \<noteq> CHR '':''" "m1 \<noteq> CHR '':''" "m2 \<noteq> CHR '':''" using assms by (auto simp: is_digit_def)
  have small: "digits_value [a, b] \<le> 3000" if "is_digit a" "is_digit b" for a b
    using that by (auto simp: digits_value_def digit_val_def is_digit_def)
  have h: "digits_value [h1, h2] \<le> 3000" and m: "digits_value [m1, m2] \<le> 3000" using assms by (auto intro: small)
  have n: "Number [h1, h2] = Some (of_nat (digits_value [h1, h2]))" by (rule Number_digits) (use assms h in simp_all)
  have n': "Number [m1, m2] = Some (of_nat (digits_value [m1, m2]))" by (rule Number_digits) (use assms m in simp_all)
  have zero: "Number ''00'' = Some 0"
    using Number_digits [of "''00''"] by (simp add: is_digit_def digits_value_def digit_val_def)
  have whole: "fl (of_nat k) = of_nat k" if "k \<le> 1000000" for k using fl_of_int [of "int k"] that by simp
  have f: "fl (of_nat (digits_value [h1, h2]) * 60) = of_nat (60 * digits_value [h1, h2])"
    using whole [of "60 * digits_value [h1, h2]"] h by (simp add: mult.commute)
  show ?thesis
    using whole [of "60 * digits_value [h1, h2] + digits_value [m1, m2]"] h m colon
    by (simp add: hhmmssToMinutes_def Let_def n n' zero f js_plus_def)
qed


text \<open>One corridor with a coach from Bengaluru to Mangaluru, and a number that is contested.\<close>

definition feed_text :: "string list \<Rightarrow> string" where
  "feed_text ls = concat (map (\<lambda>l. l @ [NEWLINE]) ls)"

definition sample_feeds :: feeds where
  "sample_feeds dir table =
     (if dir \<noteq> ''ka-bng-mng'' then Some []
      else if table = ''trips.txt'' then Some (feed_text
        [''trip_id,route_id,direction_id,tatak_service_number'', ''T1,KA-BNG-MNG-AIRAVAT,0,0900BNGMNG'',
         ''T2,KA-BNG-MNG-AIRAVAT,0,1003BNGMNG''])
      else if table = ''stop_times.txt'' then Some (feed_text
        [''trip_id,stop_id,stop_sequence,arrival_time,departure_time'',
         ''T1,KA-BP-MANGALURU-KSRTC,2,16:30:00,16:30:00'', ''T1,KA-BP-BNG-MAJESTIC,1,09:00:00,09:00:00''])
      else Some (feed_text
        [''fare_product_id,amount,currency,tatak_sourcing'',
         ''FP-AIRAVAT-KA-BP-BNG-MAJESTIC-KA-BP-MANGALURU-KSRTC-adult,850,INR,P'']))"

definition bengaluru_row :: feed_row where
  "bengaluru_row = [(''trip_id'', ''T1''), (''stop_id'', ''KA-BP-BNG-MAJESTIC''), (''stop_sequence'', ''1''),
     (''arrival_time'', ''09:00:00''), (''departure_time'', ''09:00:00'')]"

definition mangaluru_row :: feed_row where
  "mangaluru_row = [(''trip_id'', ''T1''), (''stop_id'', ''KA-BP-MANGALURU-KSRTC''), (''stop_sequence'', ''2''),
     (''arrival_time'', ''16:30:00''), (''departure_time'', ''16:30:00'')]"

definition trip_row :: "string \<Rightarrow> string \<Rightarrow> feed_row" where
  "trip_row i n = [(''trip_id'', i), (''route_id'', ''KA-BNG-MNG-AIRAVAT''), (''direction_id'', ''0''), (''tatak_service_number'', n)]"

definition sample_fare_row :: feed_row where
  "sample_fare_row = [(''fare_product_id'', ''FP-AIRAVAT-KA-BP-BNG-MAJESTIC-KA-BP-MANGALURU-KSRTC-adult''), (''amount'', ''850''),
     (''currency'', ''INR''), (''tatak_sourcing'', ''P'')]"

lemma sample_tables:
  "readTatak sample_feeds ''ka-bng-mng'' ''trips.txt'' = Inr [trip_row ''T1'' ''0900BNGMNG'', trip_row ''T2'' ''1003BNGMNG'']"
  "readTatak sample_feeds ''ka-bng-mng'' ''stop_times.txt'' = Inr [mangaluru_row, bengaluru_row]"
  "readTatak sample_feeds ''ka-bng-mng'' ''fare_products.txt'' = Inr [sample_fare_row]"
  by code_simp+


lemmas row_columns = column_def bengaluru_row_def mangaluru_row_def trip_row_def sample_fare_row_def

lemma row_values:
  "column bengaluru_row ''trip_id'' = Some ''T1''" "column bengaluru_row ''stop_id'' = Some ''KA-BP-BNG-MAJESTIC''"
  "column bengaluru_row ''departure_time'' = Some ''09:00:00''" "column mangaluru_row ''arrival_time'' = Some ''16:30:00''"
  "column (trip_row i n) ''trip_id'' = Some i" "column (trip_row i n) ''route_id'' = Some ''KA-BNG-MNG-AIRAVAT''"
  "column (trip_row i n) ''direction_id'' = Some ''0''" "column (trip_row i n) ''tatak_service_number'' = Some n"
  "column sample_fare_row ''fare_product_id'' = Some ''FP-AIRAVAT-KA-BP-BNG-MAJESTIC-KA-BP-MANGALURU-KSRTC-adult''"
  "column sample_fare_row ''amount'' = Some ''850''" "column sample_fare_row ''currency'' = Some ''INR''"
  "column sample_fare_row ''tatak_sourcing'' = Some ''P''"
  by (simp_all add: row_columns)

lemmas digit_simps = is_digit_def digits_value_def digit_val_def

lemma sample_times:
  "hhmmssToMinutes ''09:00:00'' = Some 540" "hhmmssToMinutes ''16:30:00'' = Some 990"
  using clock_minutes [of "CHR ''0''" "CHR ''9''" "CHR ''0''" "CHR ''0''"] clock_minutes [of "CHR ''1''" "CHR ''6''" "CHR ''3''" "CHR ''0''"]
  by (simp_all add: digit_simps)

lemma sample_numbers: "Number ''1'' = Some 1" "Number ''2'' = Some 2" "Number ''850'' = Some 850"
  using Number_digits [of "''1''"] Number_digits [of "''2''"] Number_digits [of "''850''"] by (simp_all add: digit_simps)

lemma small_whole: "fl 1 = 1" "fl (- 1) = - 1" "fl 85000 = 85000" "fl 450 = 450" "fl 990 = 990" "fl 540 = 540"
  using fl_of_int [of 1] fl_of_int [of "- 1"] fl_of_int [of 85000] fl_of_int [of 450] fl_of_int [of 990] fl_of_int [of 540] by simp_all

lemma sample_stop_times: "group_stop_times [mangaluru_row, bengaluru_row] = [(Some ''T1'', [bengaluru_row, mangaluru_row])]"
  by (simp add: group_stop_times_def group_rows_def push_row_def stop_sequence_compare_def row_columns sample_numbers js_minus_def small_whole)

definition sample_pattern :: PatternGroup where
  "sample_pattern = \<lparr>pg_routeId = ''KA-BNG-MNG-AIRAVAT'', pg_directionId = ''0'',
     pg_stopIds = [Some ''KA-BP-BNG-MAJESTIC'', Some ''KA-BP-MANGALURU-KSRTC''], pg_minutesAtStop = [Some 540, Some 990], pg_monotonic = True\<rparr>"

lemma sample_patterns:
  "buildPatternGroups [trip_row ''T1'' ''0900BNGMNG'', trip_row ''T2'' ''1003BNGMNG''] [(Some ''T1'', [bengaluru_row, mangaluru_row])]
     = Inr [(''KA-BNG-MNG-AIRAVAT|0'', sample_pattern)]"
  by (simp add: buildPatternGroups_def group_rows_def push_row_def pattern_key_def in_template_def fullest_stops_def
      pattern_of_def minutes_column_def string_column_def sample_times below_def sample_pattern_def row_columns)

definition sample_service_line :: GeneratedService where
  "sample_service_line = generated_service ''0900BNGMNG'' ''AIRAVAT'' ''FT-BNGMNG'' (Some 540) (Some 450) ''AIRAVAT-2P2-53''
     [(Some ''BP-BLR-MAJESTIC'', Some 0), (Some ''BP-MNG-MANGALURU'', Some 450)]"

definition sample_corridor :: Corridor where
  "sample_corridor = \<lparr>co_services = [sample_service_line],
     co_cells = [(''BP-BLR-MAJESTIC|BP-MNG-MANGALURU|AIRAVAT'', \<lparr>fc_fromBoardingPointId = Some ''BP-BLR-MAJESTIC'',
        fc_toBoardingPointId = Some ''BP-MNG-MANGALURU'', fc_serviceClass = ''AIRAVAT'', fc_farePaise = Some 85000, fc_sourcing = ''S''\<rparr>)],
     co_dropped = [(''1003BNGMNG'', AmbiguousNumber)], co_included = [''0900BNGMNG''],
     co_allRealNumbers = [''1003BNGMNG'', ''0900BNGMNG'']\<rparr>"

lemma sample_stands:
  "stand_of (Some ''KA-BP-BNG-MAJESTIC'') = Some (Some ''BP-BLR-MAJESTIC'')"
  "stand_of (Some ''KA-BP-MANGALURU-KSRTC'') = Some (Some ''BP-MNG-MANGALURU'')"
  by (simp_all add: stand_of_def STAND_REGISTRY_def first_stands_def)

lemma sample_class:
  "class_from_route ''ka-bng-mng'' ''KA-BNG-MNG-AIRAVAT'' = ''AIRAVAT''"
  "CLASS_MAP ''AIRAVAT'' = Some (ProviderClass ''AIRAVAT'')"
  "SEAT_MAP_ID_BY_CLASS (ProviderClass ''AIRAVAT'') = Some ''AIRAVAT-2P2-53''"
  "trim ''0900BNGMNG'' = ''0900BNGMNG''" "trim ''1003BNGMNG'' = ''1003BNGMNG''"
  by (code_simp+)

lemma sample_round: "Math_round 540 = 540" "Math_round 450 = 450" "Math_round 0 = 0" "Math_round 85000 = 85000"
  by code_simp+

lemma sample_sold:
  "generateCorridor sample_feeds [] (''ka-bng-mng'', ''FT-BNGMNG'') = Inr sample_corridor"
  by (simp add: generateCorridor_def sample_tables sample_stop_times sample_patterns no_corridor_def work_trip_def string_column_def
      row_values sample_class AMBIGUOUS_SERVICE_NUMBERS_def pattern_key_def in_template_def time_trip_def sample_pattern_def
      minutes_column_def sample_times js_minus_def js_plus_def js_round_def small_whole sample_round not_positive_def sell_trip_def
      sample_stands claim_cell_def stop_at_def fare_row_def fare_product_id_def fare_in_paise_def sample_numbers cell_key_def
      mapSourcing_def drop_trip_def sample_corridor_def sample_service_line_def Let_def)

















theorem corridor_sells_what_the_feed_says_witness:
  "gs_serviceId sample_service_line \<in> set (cited_numbers sample_feeds ''ka-bng-mng'')
   \<and> sourced_cell (table_rows sample_feeds ''ka-bng-mng'' ''fare_products.txt'') (snd (hd (co_cells sample_corridor)))
   \<and> cell_served [sample_service_line] (snd (hd (co_cells sample_corridor)))"
  using corridor_sells_what_the_feed_says [OF sample_sold] by (simp add: sample_corridor_def)

end
