(* ===== verification/App_Start.thy ===== *)
theory App_Start
  imports App_Server Journey_Source Reserved_Source Fleet_Egress App_Config "HOL-Library.AList"
begin

text \<open>
  The start of the process: compiling the schemas (\<open>src/src/protocol/validate.ts\<close>, \<open>src/src/reserved/schema.ts\<close>), building the
  components from the configuration (\<open>createApp\<close> of \<open>src/src/app.ts\<close>), and the program itself
  (\<open>index.ts\<close>, \<open>log.ts\<close>), as a deployment runs it, with nothing overridden by a test.

  What the host does is the argument \<open>StartHost\<close>: it reads files, compiles a schema document, opens the
  database and parses an address, and each may throw its message. \<open>sh_given\<close> is what the reserved
  source over http at an address gives at the request that is looked at, and \<open>sh_peer\<close> answers a search of journeys.
\<close>

record 'b StartHost =
  sh_schema :: "string \<Rightarrow> string \<Rightarrow> string + json"
  sh_addSchema :: "json \<Rightarrow> string + unit"
  sh_compile :: "json list \<Rightarrow> json \<Rightarrow> string + (json \<Rightarrow> bool \<times> json option)"
  sh_compile_callback :: "json list \<Rightarrow> json \<Rightarrow> string + (Trv11Callback \<Rightarrow> bool \<times> json option)"
  sh_journey_file :: "string \<Rightarrow> PassOperatorKey \<Rightarrow> string + FixtureFile"
  sh_reserved_files :: "string \<Rightarrow> string + FixtureFiles"
  sh_journey_response :: "string \<Rightarrow> string + ('b \<Rightarrow> TransitOffer list option)"
  sh_reserved_response :: "string \<Rightarrow> string + unit"
  sh_open_database :: "string \<Rightarrow> string \<Rightarrow> string option \<Rightarrow> string + unit"
  sh_url :: "string \<Rightarrow> Url"
  sh_peer :: "string \<Rightarrow> SourceRequest \<Rightarrow> 'b Fetched"
  sh_given :: "string option \<Rightarrow> ReservedCatalogue option"
  sh_nowMs :: int
  sh_math :: MathHost
  sh_host :: Host
  sh_qr :: "string \<Rightarrow> string"
  sh_hmac :: hmac_sha1
  sh_localeCompare :: "string \<Rightarrow> string \<Rightarrow> int"
  sh_sentence :: "failure \<Rightarrow> string"
  sh_totp_text :: "TotpError \<Rightarrow> string"
  sh_parse :: "byte list \<Rightarrow> string + json"
  sh_decode :: "string \<Rightarrow> string option"

subsection \<open>Schemas\<close>

text \<open>\<open>validate.errors ?? []\<close>.\<close>

definition schema_result :: "('v \<Rightarrow> bool \<times> json option) \<Rightarrow> 'v \<Rightarrow> ValidationResult" where
  "schema_result validate v =
     (let (valid, errors) = validate v
      in \<lparr>vr_valid = valid, vr_errors = (case errors of None \<Rightarrow> JArr [] | Some e \<Rightarrow> e)\<rparr>)"

text \<open>A schema read and compiled after the ones added before it, which it may refer to.\<close>

definition compile_with ::
    "(json list \<Rightarrow> json \<Rightarrow> string + ('v \<Rightarrow> bool \<times> json option)) \<Rightarrow> (string \<Rightarrow> string + json) \<Rightarrow> string \<Rightarrow> json list
      \<Rightarrow> string + ('v \<Rightarrow> ValidationResult) \<times> json list" where
  "compile_with compile read name added =
     andThen (read name) (\<lambda>schema. andThen (compile added schema) (\<lambda>validate. Inr (schema_result validate, added @ [schema])))"

definition common_schema :: "'b StartHost \<Rightarrow> (string \<Rightarrow> string + json) \<Rightarrow> string + json list" where
  "common_schema h read = andThen (read ''common'') (\<lambda>common. andThen (sh_addSchema h common) (\<lambda>_. Inr [common]))"

definition createProtocolValidator :: "'b StartHost \<Rightarrow> string \<Rightarrow> string + ProtocolValidator" where
  "createProtocolValidator h dir =
     (let read = sh_schema h dir; request = compile_with (sh_compile h) read; callback = compile_with (sh_compile_callback h) read in
     andThen (common_schema h read) (\<lambda>a.
     andThen (request ''search'' a) (\<lambda>(search, a). andThen (callback ''on_search'' a) (\<lambda>(onSearch, a).
     andThen (request ''select'' a) (\<lambda>(select, a). andThen (callback ''on_select'' a) (\<lambda>(onSelect, a).
     andThen (request ''init'' a) (\<lambda>(ini, a). andThen (callback ''on_init'' a) (\<lambda>(onInit, a).
     andThen (request ''confirm'' a) (\<lambda>(confirm, a). andThen (callback ''on_confirm'' a) (\<lambda>(onConfirm, a).
     andThen (request ''status'' a) (\<lambda>(stat, a). andThen (callback ''on_status'' a) (\<lambda>(onStatus, a).
       Inr \<lparr>pv_search = search, pv_onSearch = onSearch, pv_select = select, pv_onSelect = onSelect, pv_init = ini,
            pv_onInit = onInit, pv_confirm = confirm, pv_onConfirm = onConfirm, pv_status = stat, pv_onStatus = onStatus\<rparr>))))))))))))"

definition createReservedValidator :: "'b StartHost \<Rightarrow> string \<Rightarrow> string + ReservedValidator" where
  "createReservedValidator h dir =
     (let read = sh_schema h dir; compiled = compile_with (sh_compile h) read in
     andThen (common_schema h read) (\<lambda>a.
     andThen (compiled ''search'' a) (\<lambda>(search, a). andThen (compiled ''on_search'' a) (\<lambda>(onSearch, a).
     andThen (compiled ''select'' a) (\<lambda>(select, a). andThen (compiled ''on_select'' a) (\<lambda>(onSelect, a).
     andThen (compiled ''init'' a) (\<lambda>(ini, a). andThen (compiled ''on_init'' a) (\<lambda>(onInit, a).
     andThen (compiled ''confirm'' a) (\<lambda>(confirm, a). andThen (compiled ''on_confirm'' a) (\<lambda>(onConfirm, a).
     andThen (compiled ''status'' a) (\<lambda>(stat, a). andThen (compiled ''on_status'' a) (\<lambda>(onStatus, a).
     andThen (compiled ''cancel'' a) (\<lambda>(cancel, a). andThen (compiled ''on_cancel'' a) (\<lambda>(onCancel, a).
       Inr \<lparr>va_search = search, va_onSearch = onSearch, va_select = select, va_onSelect = onSelect, va_init = ini,
            va_onInit = onInit, va_confirm = confirm, va_onConfirm = onConfirm, va_status = stat, va_onStatus = onStatus,
            va_cancel = cancel, va_onCancel = onCancel\<rparr>))))))))))))))"

subsection \<open>The components\<close>

datatype StartFailure =
    Thrown string
  | JourneySourceUrlMissing
  | JourneyFixtureRefused FixtureError
  | ReservedIdentityMissing
  | ReservedFixtureRefused LoadError
  | PassIdentityMissing

definition thrown :: "string + 'a \<Rightarrow> StartFailure + 'a" where
  "thrown r = (case r of Inl m \<Rightarrow> Inl (Thrown m) | Inr x \<Rightarrow> Inr x)"

text \<open>\<open>FixtureJourneySource.load(root, key)\<close>, with its default radius.\<close>

definition load_journeys :: "'b StartHost \<Rightarrow> string \<Rightarrow> PassOperatorKey \<Rightarrow> StartFailure + FixtureJourneySource" where
  "load_journeys h dir key =
     andThen (thrown (sh_journey_file h dir key)) (\<lambda>contents.
       case journey_load contents 3 of Inl e \<Rightarrow> Inl (JourneyFixtureRefused e) | Inr source \<Rightarrow> Inr source)"

definition configuredSource :: "'b StartHost \<Rightarrow> AppConfig \<Rightarrow> PassOperatorKey \<Rightarrow> FixtureJourneySource \<Rightarrow> StartFailure + JourneySource" where
  "configuredSource h c key fixtures =
     (let fallback = fixture_search (sh_math h) fixtures in
      case (ac_journeySource c, ac_journeySourceUrl c) of
        (HttpSourceKind, Some url) \<Rightarrow>
          andThen (thrown (sh_journey_response h (ac_journeySourceResponseSchema c))) (\<lambda>parse.
            Inr \<lparr>js_operator = fj_operator fixtures, js_search = http_search (sh_peer h url) parse key (sh_nowMs h) fallback\<rparr>)
      | _ \<Rightarrow> Inr \<lparr>js_operator = fj_operator fixtures, js_search = fallback\<rparr>)"

definition runtime_of :: "OperatorConfig \<Rightarrow> OperatorRuntimeConfig" where
  "runtime_of oc = \<lparr>rt_subscriberId = oc_subscriberId oc, rt_subscriberUri = oc_subscriberUri oc\<rparr>"

definition order_service :: "'b StartHost \<Rightarrow> AppConfig \<Rightarrow> PassOperatorKey \<Rightarrow> OperatorProfile \<Rightarrow> OperatorConfig \<Rightarrow> Service" where
  "order_service h c key profile oc =
     \<lparr>sv_operatorKey = key, sv_profile = profile, sv_runtime = runtime_of oc, sv_publicBaseUrl = ac_publicBaseUrl c,
      sv_host = sh_host h, sv_qr = sh_qr h, sv_hmac = sh_hmac h\<rparr>"

text \<open>
  The reserved source as the order flow sees it at one request. A search through a source that throws on
  a malformed date never happens: the order flow checks the date first, so that case gives no service.
\<close>

definition reserved_view :: "ReservedCatalogue \<Rightarrow> ReservedCatalogue option \<Rightarrow> ReservedServiceSource" where
  "reserved_view fixtures given =
     \<lparr>src_operator = cat_operator fixtures,
      src_services = (\<lambda>query. case http_services fixtures given query of Inl _ \<Rightarrow> [] | Inr ss \<Rightarrow> ss),
      src_service = http_service fixtures given, src_seatMap = http_seatMap fixtures given, src_fareTable = http_fareTable fixtures given\<rparr>"

definition reserved_source :: "'b StartHost \<Rightarrow> AppConfig \<Rightarrow> ReservedCatalogue \<Rightarrow> StartFailure + ReservedServiceSource" where
  "reserved_source h c fixtures =
     (if ac_reservedSource c = HttpSourceKind
      then andThen (thrown (sh_reserved_response h (ac_reservedSourceResponseSchema c))) (\<lambda>_. Inr (reserved_view fixtures (sh_given h (ac_reservedSourceUrl c))))
      else Inr (reserved_view fixtures None))"

definition reservation_runtime :: "ReservationConfig \<Rightarrow> ReservationRuntime" where
  "reservation_runtime rc =
     \<lparr>rt_closeMinutes = rc_closeMinutes rc, rt_horizonDays = rc_horizonDays rc, rt_occupancySeed = rc_occupancySeed rc,
      rt_holdTtlSeconds = rc_holdTtlSeconds rc, rt_manifestRetentionDays = rc_manifestRetentionDays rc\<rparr>"

definition fleet_publisher :: "'b StartHost \<Rightarrow> AppConfig \<Rightarrow> FleetPublisher option" where
  "fleet_publisher h c =
     (if truthy (ac_fleetManifestUrl c)
      then Some \<lparr>fp_origin = url_origin (sh_url h (the (ac_fleetManifestUrl c))),
             fp_token = (case ac_fleetManifestToken c of None \<Rightarrow> [] | Some token \<Rightarrow> token), fp_ttlSeconds = ac_fleetManifestTtlSeconds c\<rparr>
      else None)"

definition inert_line :: json where
  "inert_line = JObj [(''action'', JStr ''fleet_manifest_publish''), (''outcome'', JStr ''INERT''),
     (''reason'', JStr ''FLEET_MANIFEST_URL is not set; confirms and cancellations will not be pushed to a fleet'')]"

text \<open>What a start builds: the application, where departures are pushed to, and the lines it logs.\<close>

record Started =
  st_app :: App
  st_fleet :: "FleetPublisher option"
  st_log :: "json list"

record StartedReserved =
  sr_handler :: ReservedHandlerDependencies
  sr_fleet :: "FleetPublisher option"
  sr_log :: "json list"

definition open_store :: "'b StartHost \<Rightarrow> AppConfig \<Rightarrow> StartFailure + unit" where
  "open_store h c = thrown (sh_open_database h (ac_reservedDatabaseUrl c) (ac_reservedMigrationRoot c) (ac_reservedDatabaseAuthToken c))"

definition reserved_handler ::
    "'b StartHost \<Rightarrow> AppConfig \<Rightarrow> OperatorConfig \<Rightarrow> ReservedServiceSource \<Rightarrow> ReservedValidator \<Rightarrow> ReservedHandlerDependencies" where
  "reserved_handler h c oc source validator =
     \<lparr>hd_env = \<lparr>env_operatorKey = ''ksrtc'', env_source = source, env_subscriberId = oc_subscriberId oc,
        env_subscriberUri = oc_subscriberUri oc, env_publicBaseUrl = ac_publicBaseUrl c,
        env_reservation = reservation_runtime (ac_reservation c), env_localeCompare = sh_localeCompare h\<rparr>,
      hd_validator = validator, hd_callbackUrl = sh_url h (oc_callbackUrl oc), hd_contextTtl = ac_contextTtl c,
      hd_syncResponses = ac_reservedSyncResponses c, hd_syncTimeoutMs = Some (ac_reservedSyncTimeoutMs c), hd_sentence = sh_sentence h\<rparr>"

definition start_reserved :: "'b StartHost \<Rightarrow> AppConfig \<Rightarrow> StartFailure + StartedReserved option" where
  "start_reserved h c =
     (if \<not> ac_reservedEnabled c then Inr None
      else case ac_reservedOperator c of
        None \<Rightarrow> Inl ReservedIdentityMissing
      | Some oc \<Rightarrow>
          andThen (thrown (sh_reserved_files h (ac_fixtureRoot c))) (\<lambda>files.
          andThen (case fixture_load files of Inl e \<Rightarrow> Inl (ReservedFixtureRefused e) | Inr cat \<Rightarrow> Inr cat) (\<lambda>fixtures.
          andThen (reserved_source h c fixtures) (\<lambda>source.
          andThen (open_store h c) (\<lambda>_.
          let fleet = fleet_publisher h c; lines = (if fleet = None then [inert_line] else []) in
          andThen (thrown (createReservedValidator h (ac_reservedSchemaRoot c))) (\<lambda>validator.
            Inr (Some \<lparr>sr_handler = reserved_handler h c oc source validator, sr_fleet = fleet, sr_log = lines\<rparr>)))))))"

definition start_pass :: "'b StartHost \<Rightarrow> AppConfig \<Rightarrow> ProtocolValidator \<Rightarrow> StartFailure + PassHandlerDependencies option" where
  "start_pass h c validator =
     (if \<not> ac_ksrtcPassEnabled c then Inr None
      else case ac_ksrtcPassOperator c of
        None \<Rightarrow> Inl PassIdentityMissing
      | Some oc \<Rightarrow>
          andThen (load_journeys h (ac_fixtureRoot c) Ksrtc) (\<lambda>fixtures.
            Inr (Some \<lparr>pd_service = order_service h c Ksrtc (fj_operator fixtures) oc, pd_validator = validator,
                       pd_contextTtl = ac_contextTtl c, pd_totp_text = sh_totp_text h\<rparr>)))"

text \<open>A route names one of the two operators, so the third entry of their tables is never read.\<close>

definition two_operators :: "'a \<Rightarrow> 'a \<Rightarrow> PassOperatorKey \<Rightarrow> 'a" where
  "two_operators bmtc bmrcl key = (if key = Bmtc then bmtc else bmrcl)"

definition createApp :: "'b StartHost \<Rightarrow> AppConfig \<Rightarrow> StartFailure + Started" where
  "createApp h c =
     andThen (thrown (createProtocolValidator h (ac_schemaRoot c))) (\<lambda>validator.
     andThen (ensure (\<not> (ac_journeySource c = HttpSourceKind \<and> \<not> truthy (ac_journeySourceUrl c))) JourneySourceUrlMissing) (\<lambda>_.
     andThen (load_journeys h (ac_fixtureRoot c) Bmtc) (\<lambda>bmtcFixtures.
     andThen (load_journeys h (ac_fixtureRoot c) Bmrcl) (\<lambda>bmrclFixtures.
     andThen (configuredSource h c Bmtc bmtcFixtures) (\<lambda>bmtc.
     andThen (configuredSource h c Bmrcl bmrclFixtures) (\<lambda>bmrcl.
     andThen (start_reserved h c) (\<lambda>reserved.
     andThen (start_pass h c validator) (\<lambda>ksrtcPass.
       Inr \<lparr>st_app = \<lparr>ap_config = c,
              ap_service = two_operators (order_service h c Bmtc (js_operator bmtc) (ac_bmtc c))
                             (order_service h c Bmrcl (js_operator bmrcl) (ac_bmrcl c)),
              ap_source = two_operators bmtc bmrcl, ap_validator = validator,
              ap_callbackUrl = two_operators (sh_url h (oc_callbackUrl (ac_bmtc c))) (sh_url h (oc_callbackUrl (ac_bmrcl c))),
              ap_reserved = map_option sr_handler reserved, ap_ksrtcPass = ksrtcPass, ap_totp_text = sh_totp_text h,
              ap_parse = sh_parse h, ap_decode = sh_decode h\<rparr>,
            st_fleet = Option.bind reserved sr_fleet,
            st_log = (case reserved of None \<Rightarrow> [] | Some r \<Rightarrow> sr_log r)\<rparr>))))))))"

subsection \<open>The program\<close>

text \<open>\<open>{ timestamp, ...fields }\<close>: a field of that name takes the place of the timestamp.\<close>

definition logEvent :: "int \<Rightarrow> json \<Rightarrow> string" where
  "logEvent nowMs line =
     stringify (JObj (fold (\<lambda>(k, v). AList.update k v) (case line of JObj fs \<Rightarrow> fs | _ \<Rightarrow> []) [(''timestamp'', JStr (toISOString nowMs))]))
       @ [char_of (10 :: nat)]"

definition ready_line :: "AppConfig \<Rightarrow> json" where
  "ready_line c = JObj [(''action'', JStr ''listen''), (''outcome'', JStr ''READY''), (''host'', JStr (ac_host c)),
     (''port'', JNum (ac_port c)), (''public_base_url'', JStr (ac_publicBaseUrl c))]"

datatype BootFailure = ConfigRefused string | StartRefused StartFailure

text \<open>What listens, and what was written by then.\<close>

definition boot :: "UrlHost \<Rightarrow> 'b StartHost \<Rightarrow> Env \<Rightarrow> BootFailure + Started \<times> string" where
  "boot host h env =
     (case loadConfig host env of
        Inl m \<Rightarrow> Inl (ConfigRefused m)
      | Inr c \<Rightarrow>
          (case createApp h c of
             Inl e \<Rightarrow> Inl (StartRefused e)
           | Inr built \<Rightarrow> Inr (built, concat (map (logEvent (sh_nowMs h)) (st_log built @ [ready_line c])))))"

end
