(* ===== verification/Start_Properties.thy ===== *)
theory Start_Properties
  imports App_Start App_Properties Source_Properties
begin

text \<open>
  What a start comes to: which files and services a configuration that was accepted needs to start, that
  a category that is off touches none of its own, and that the reserved source of a started process resolves.
\<close>

subsection \<open>Steps of the start\<close>

definition done_well :: "'e + 'a \<Rightarrow> bool" where
  "done_well r \<longleftrightarrow> (\<exists>x. r = Inr x)"

lemma done_well_Inr [simp]: "done_well (Inr x)" and done_well_Inl [simp]: "\<not> done_well (Inl e)"
  by (simp_all add: done_well_def)

lemma done_well_andThen: "done_well (andThen r f) \<longleftrightarrow> (\<exists>x. r = Inr x \<and> done_well (f x))"
  by (auto simp: done_well_def andThen_eq_Inr)

lemma done_well_thrown [simp]: "done_well (thrown r) = done_well r"
  by (cases r) (simp_all add: thrown_def)

lemma thrown_eq_Inr [simp]: "thrown r = Inr x \<longleftrightarrow> r = Inr x"
  by (cases r) (simp_all add: thrown_def)

lemma Some_map_option: "Some y = map_option f r \<longleftrightarrow> (\<exists>x. r = Some x \<and> y = f x)"
  by (cases r) auto

lemma configured_urls:
  assumes "loadConfig host env = Inr c"
  shows "ac_journeySourceUrl c \<noteq> Some [] \<and> ac_fleetManifestUrl c \<noteq> Some []"
  using assms by (auto simp: loadConfig_def andThen_eq_Inr source_url_def dest!: optionalUrl_web dest: present_nonempty)

lemma configured_flag: "loadConfig host env = Inr c \<Longrightarrow> ac_reservedEnabled c = flag env ''RESERVED_ENABLED''"
  by (auto simp: loadConfig_def andThen_eq_Inr)

subsection \<open>What a start needs\<close>

definition http_schema_ok :: "'b StartHost \<Rightarrow> AppConfig \<Rightarrow> bool" where
  "http_schema_ok h c \<longleftrightarrow> (ac_journeySource c = HttpSourceKind \<longrightarrow> done_well (sh_journey_response h (ac_journeySourceResponseSchema c)))"

definition reserved_files_ok :: "'b StartHost \<Rightarrow> AppConfig \<Rightarrow> bool" where
  "reserved_files_ok h c \<longleftrightarrow>
     (\<exists>files. sh_reserved_files h (ac_fixtureRoot c) = Inr files \<and> done_well (fixture_load files))
     \<and> (ac_reservedSource c = HttpSourceKind \<longrightarrow> done_well (sh_reserved_response h (ac_reservedSourceResponseSchema c)))
     \<and> done_well (open_store h c) \<and> done_well (createReservedValidator h (ac_reservedSchemaRoot c))"

definition files_in_order :: "'b StartHost \<Rightarrow> AppConfig \<Rightarrow> bool" where
  "files_in_order h c \<longleftrightarrow> done_well (createProtocolValidator h (ac_schemaRoot c)) \<and> http_schema_ok h c
     \<and> done_well (load_journeys h (ac_fixtureRoot c) Bmtc) \<and> done_well (load_journeys h (ac_fixtureRoot c) Bmrcl)
     \<and> (ac_reservedEnabled c \<longrightarrow> reserved_files_ok h c)
     \<and> (ac_ksrtcPassEnabled c \<longrightarrow> done_well (load_journeys h (ac_fixtureRoot c) Ksrtc))"

lemma configuredSource_done:
  assumes "ac_journeySource c = HttpSourceKind \<longrightarrow> truthy (ac_journeySourceUrl c)"
  shows "done_well (configuredSource h c key fixtures) \<longleftrightarrow> http_schema_ok h c"
  using assms
  by (cases "ac_journeySource c"; cases "ac_journeySourceUrl c")
    (auto simp: configuredSource_def http_schema_ok_def Let_def truthy_def done_well_def andThen_eq_Inr)

lemma reserved_source_done:
  "done_well (reserved_source h c fixtures)
     \<longleftrightarrow> (ac_reservedSource c = HttpSourceKind \<longrightarrow> done_well (sh_reserved_response h (ac_reservedSourceResponseSchema c)))"
  by (auto simp: reserved_source_def andThen_eq_Inr done_well_def)

lemma loaded_catalogue:
  "(case r of Inl e \<Rightarrow> Inl (ReservedFixtureRefused e) | Inr cat \<Rightarrow> Inr cat) = Inr (x :: ReservedCatalogue) \<longleftrightarrow> r = Inr x"
  by (cases r) simp_all

lemma start_reserved_done:
  assumes "ac_reservedEnabled c \<longleftrightarrow> ac_reservedOperator c \<noteq> None"
  shows "done_well (start_reserved h c) \<longleftrightarrow> (ac_reservedEnabled c \<longrightarrow> reserved_files_ok h c)"
proof (cases "ac_reservedOperator c")
  case None
  then show ?thesis using assms by (simp add: start_reserved_def)
next
  case (Some oc)
  have source: "(\<exists>s. reserved_source h c f = Inr s) \<longleftrightarrow> (ac_reservedSource c = HttpSourceKind \<longrightarrow> done_well (sh_reserved_response h (ac_reservedSourceResponseSchema c)))" for f
    using reserved_source_done [of h c f] by (simp add: done_well_def)
  show ?thesis using assms Some
    by (simp add: start_reserved_def reserved_files_ok_def done_well_andThen loaded_catalogue Let_def source)
      (auto simp: done_well_def source [unfolded done_well_def])
qed

lemma start_reserved_built:
  assumes "start_reserved h c = Inr r"
  shows "(r \<noteq> None \<longleftrightarrow> ac_reservedEnabled c) \<and> (\<forall>x. r = Some x \<longrightarrow> sr_fleet x = fleet_publisher h c)"
  using assms by (auto simp: start_reserved_def andThen_eq_Inr Let_def split: if_splits option.splits)

lemma start_pass_done:
  assumes "ac_ksrtcPassEnabled c \<longleftrightarrow> ac_ksrtcPassOperator c \<noteq> None"
  shows "done_well (start_pass h c v) \<longleftrightarrow> (ac_ksrtcPassEnabled c \<longrightarrow> done_well (load_journeys h (ac_fixtureRoot c) Ksrtc))"
  using assms by (cases "ac_ksrtcPassOperator c") (auto simp: start_pass_def andThen_eq_Inr done_well_def)

lemma start_pass_built: "start_pass h c v = Inr r \<Longrightarrow> r \<noteq> None \<longleftrightarrow> ac_ksrtcPassEnabled c"
  by (auto simp: start_pass_def andThen_eq_Inr split: if_splits option.splits)

lemma createApp_done:
  assumes "ready host c" and "truthy (ac_journeySourceUrl c) \<longleftrightarrow> ac_journeySourceUrl c \<noteq> None"
  shows "done_well (createApp h c) \<longleftrightarrow> files_in_order h c"
proof -
  have js: "ac_journeySource c = HttpSourceKind \<longrightarrow> truthy (ac_journeySourceUrl c)"
    using assms by (auto simp: ready_def)
  have ids: "ac_reservedEnabled c \<longleftrightarrow> ac_reservedOperator c \<noteq> None" "ac_ksrtcPassEnabled c \<longleftrightarrow> ac_ksrtcPassOperator c \<noteq> None"
    using assms(1) by (simp_all add: ready_def)
  note steps = configuredSource_done [OF js, of h, unfolded done_well_def] start_reserved_done [OF ids(1), of h, unfolded done_well_def]
    start_pass_done [OF ids(2), of h, unfolded done_well_def]
  show ?thesis
    unfolding createApp_def files_in_order_def done_well_andThen
    using js by (auto simp: ensure_def done_well_def steps)
qed

lemma createApp_parts:
  assumes "createApp h c = Inr p"
  shows "\<exists>v reserved. start_reserved h c = Inr reserved \<and> start_pass h c v = Inr (ap_ksrtcPass (st_app p))
     \<and> ap_reserved (st_app p) = map_option sr_handler reserved \<and> st_fleet p = Option.bind reserved sr_fleet"
  using assms unfolding createApp_def andThen_eq_Inr by (elim exE conjE) auto

lemma started_iff_in_order:
  assumes "loadConfig host env = Inr c"
  shows "(\<exists>p. createApp h c = Inr p) \<longleftrightarrow> files_in_order h c"
proof -
  have "truthy (ac_journeySourceUrl c) \<longleftrightarrow> ac_journeySourceUrl c \<noteq> None" using configured_urls [OF assms] by (auto simp: truthy_def)
  then show ?thesis using createApp_done [OF loadConfig_ready [OF assms]] by (simp add: done_well_def)
qed

text \<open>C24. A configuration that is accepted starts exactly when the schemas compile and the fixtures, and only where the
  configuration asks for them the schemas of answers and the database, are in order: no start fails for an
  identity or an address that is missing. What starts serves the categories that are on and no others, and
  pushes departures exactly where the reserved category is on and a fleet is configured.\<close>

theorem accepted_configuration_starts:
  assumes "loadConfig host env = Inr c"
  shows "((\<exists>p. createApp h c = Inr p) \<longleftrightarrow> files_in_order h c)
     \<and> (\<forall>p. createApp h c = Inr p \<longrightarrow> (ap_reserved (st_app p) \<noteq> None \<longleftrightarrow> ac_reservedEnabled c)
          \<and> (ap_ksrtcPass (st_app p) \<noteq> None \<longleftrightarrow> ac_ksrtcPassEnabled c)
          \<and> (st_fleet p \<noteq> None \<longleftrightarrow> ac_reservedEnabled c \<and> ac_fleetManifestUrl c \<noteq> None))"
proof -
  have "(ap_reserved (st_app p) \<noteq> None \<longleftrightarrow> ac_reservedEnabled c) \<and> (ap_ksrtcPass (st_app p) \<noteq> None \<longleftrightarrow> ac_ksrtcPassEnabled c)
      \<and> (st_fleet p \<noteq> None \<longleftrightarrow> ac_reservedEnabled c \<and> ac_fleetManifestUrl c \<noteq> None)" if p: "createApp h c = Inr p" for p
  proof -
    obtain v reserved where parts: "start_reserved h c = Inr reserved" "start_pass h c v = Inr (ap_ksrtcPass (st_app p))"
      "ap_reserved (st_app p) = map_option sr_handler reserved" "st_fleet p = Option.bind reserved sr_fleet"
      using createApp_parts [OF p] by blast
    show ?thesis
      using start_reserved_built [OF parts(1)] start_pass_built [OF parts(2)] configured_urls [OF assms] parts(3,4)
      by (cases reserved) (auto simp: fleet_publisher_def truthy_def split: if_splits)
  qed
  with started_iff_in_order [OF assms, of h] show ?thesis by blast
qed

subsection \<open>A category that is off\<close>

lemma off_start_same:
  assumes "\<not> ac_reservedEnabled c"
  shows "createApp (h\<lparr>sh_reserved_files := files, sh_reserved_response := response, sh_open_database := opened, sh_given := given\<rparr>) c
    = createApp h c"
proof -
  let ?h = "h\<lparr>sh_reserved_files := files, sh_reserved_response := response, sh_open_database := opened, sh_given := given\<rparr>"
  have validator: "createProtocolValidator ?h dir = createProtocolValidator h dir" for dir
    by (simp add: createProtocolValidator_def common_schema_def)
  have journeys: "load_journeys ?h dir key = load_journeys h dir key" for dir key by (simp add: load_journeys_def)
  have source: "configuredSource ?h c key fixtures = configuredSource h c key fixtures" for key fixtures
    by (simp add: configuredSource_def Let_def split: SourceKind.split option.split)
  have service: "order_service ?h c key profile oc = order_service h c key profile oc" for key profile oc
    by (simp add: order_service_def)
  have passes: "start_pass ?h c v = start_pass h c v" for v 
    by (simp add: start_pass_def journeys service split: option.split)
  have "start_reserved ?h c = start_reserved h c" using assms by (simp add: start_reserved_def)
  then show ?thesis by (simp add: createApp_def validator journeys source service passes)
qed

lemma off_keeps_bookings:
  assumes "ap_reserved app = None" and "listener app am request s = Inr served"
  shows "as_reserved (se_state served) = as_reserved s"
proof -
  obtain p where p: "dispatch app am request (route_of (hq_verb request) p) s = Inr served"
    using assms(2) by (auto simp: listener_def split: option.splits)
  then show ?thesis
    using assms(1) trv11_handle_one [of app am _ _ _ s] pass_one
    by (cases "route_of (hq_verb request) p")
      (auto simp: dispatch_def with_body_def answered_def split: option.splits sum.splits)
qed

text \<open>C23. With the reserved category off nothing of it is touched: whatever its fixtures, its database and its dataset
  are, the process starts, or fails to, the same; its routes answer 404, and no request of any kind changes a booking.\<close>

theorem reserved_off_is_inert:
  assumes "\<not> flag env ''RESERVED_ENABLED''"
  shows "boot host (h\<lparr>sh_reserved_files := files, sh_reserved_response := response, sh_open_database := opened, sh_given := given\<rparr>) env
       = boot host h env
     \<and> (\<forall>p written am request a s. boot host h env = Inr (p, written) \<longrightarrow>
          dispatch (st_app p) am request (ReservedRoute a) s = Inr (answered not_found s)
          \<and> (\<forall>served. listener (st_app p) am request s = Inr served \<longrightarrow> as_reserved (se_state served) = as_reserved s))"
proof -
  have off: "\<not> ac_reservedEnabled c" if "loadConfig host env = Inr c" for c using configured_flag [OF that] assms by simp
  have "ap_reserved (st_app p) = None" if "boot host h env = Inr (p, written)" for p written
    using that off by (auto simp: boot_def Some_map_option dest!: createApp_parts start_reserved_built split: sum.splits)
  moreover have "boot host (h\<lparr>sh_reserved_files := files, sh_reserved_response := response, sh_open_database := opened, sh_given := given\<rparr>) env
      = boot host h env"
    using off by (auto simp: boot_def off_start_same split: sum.splits)
  ultimately show ?thesis using off_keeps_bookings by (auto simp: dispatch_def)
qed

subsection \<open>The source of a started process\<close>

text \<open>
  A service the source of a started process finds has its sound seat map and its fare table: the fixtures passed
  the checks at the start, and what the source over http hands out passed them when it was fetched.
\<close>

lemma started_source_resolves:
  assumes "createApp h c = Inr p" and "ap_reserved (st_app p) = Some dep"
    and "\<And>cat. sh_given h (ac_reservedSourceUrl c) = Some cat \<Longrightarrow> catalogue_sound cat"
    and "src_service (env_source (hd_env dep)) i = Some s"
  shows "svc_serviceId s = i \<and> (\<exists>m. seatMapFor (hd_env dep) s = Inr m \<and> map_sound m) \<and> (\<exists>t. fareTableFor (hd_env dep) s = Inr t)"
proof -
  obtain r where r: "start_reserved h c = Inr (Some r)" "dep = sr_handler r"
    using createApp_parts [OF assms(1)] assms(2) by (auto simp: Some_map_option)
  then obtain oc validator files fixtures source where parts: "fixture_load files = Inr fixtures"
      "reserved_source h c fixtures = Inr source" "dep = reserved_handler h c oc source validator"
    by (auto simp: start_reserved_def andThen_eq_Inr loaded_catalogue Let_def split: if_splits option.splits)
  from parts(2) obtain given where given: "given = None \<or> given = sh_given h (ac_reservedSourceUrl c)" "source = reserved_view fixtures given"
    by (auto simp: reserved_source_def andThen_eq_Inr split: if_splits)
  note built = parts(1) given(1) parts(3) [unfolded given(2)]
  have "catalogue_sound (answering fixtures given)"
    using built(2) assms(3) fixture_sound [OF built(1)] by (auto simp: answering_def split: option.split)
  note source = sound_resolves [OF this]
  have view: "src_service (env_source (hd_env dep)) = catalogue_service (answering fixtures given)"
    "src_seatMap (env_source (hd_env dep)) = catalogue_seatMap (answering fixtures given)"
    "src_fareTable (env_source (hd_env dep)) = catalogue_fareTable (answering fixtures given)"
    unfolding built(3) by (simp_all add: reserved_handler_def reserved_view_def fun_eq_iff http_service_def http_seatMap_def http_fareTable_def)
  have s: "catalogue_service (answering fixtures given) i = Some s" using assms(4) view(1) by simp
  show ?thesis
    using resolving_source.named [OF source s] resolving_source.map_found [OF source s view(2)]
      resolving_source.table_found [OF source s view(3)] by blast
qed

subsection \<open>A process that starts\<close>

definition demo_start :: "unit StartHost" where
  "demo_start = \<lparr>sh_schema = (\<lambda>_ _. Inr JNull), sh_addSchema = (\<lambda>_. Inr ()), sh_compile = (\<lambda>_ _. Inr (\<lambda>_. (True, None))),
     sh_compile_callback = (\<lambda>_ _. Inr (\<lambda>_. (True, None))),
     sh_journey_file = (\<lambda>_ key. Inr \<lparr>jf_operator = Some (sv_profile (a_service key)), jf_offers = Some []\<rparr>),
     sh_reserved_files = (\<lambda>_. Inl ''no file''), sh_journey_response = (\<lambda>_. Inr (\<lambda>_. None)), sh_reserved_response = (\<lambda>_. Inr ()),
     sh_open_database = (\<lambda>_ _ _. Inl ''no database''), sh_url = (\<lambda>u. \<lparr>url_origin = u, url_pathname = ''/'', url_rest = []\<rparr>),
     sh_peer = (\<lambda>_ _. NoResponse), sh_given = (\<lambda>_. None), sh_nowMs = 0,
     sh_math = \<lparr>mh_sin = (\<lambda>x. x), mh_cos = (\<lambda>x. 1), mh_pow = (\<lambda>x n. x ^ n), mh_sqrt = Some, mh_asin = Some\<rparr>,
     sh_host = sv_host (a_service Bmtc), sh_qr = (\<lambda>t. t), sh_hmac = echo_hmac, sh_localeCompare = (\<lambda>_ _. 0), sh_sentence = (\<lambda>_. []),
     sh_totp_text = (\<lambda>_. []), sh_parse = (\<lambda>_. Inr JNull), sh_decode = Some\<rparr>"

lemma demo_in_order:
  assumes "\<not> ac_reservedEnabled c"
  shows "files_in_order demo_start c"
  using assms
  by (simp add: files_in_order_def http_schema_ok_def createProtocolValidator_def common_schema_def compile_with_def Let_def
      load_journeys_def journey_load_def validateOfferSet_def demo_start_def thrown_def required_def)

lemma demo_off: "\<not> flag demo_env ''RESERVED_ENABLED''"
  using demo_absent by (simp add: flag_def)

theorem accepted_configuration_starts_witness:
  "\<exists>c p. loadConfig plain_urls demo_env = Inr c \<and> createApp demo_start c = Inr p \<and> ap_reserved (st_app p) = None \<and> st_fleet p = None"
proof -
  obtain c where c: "loadConfig plain_urls demo_env = Inr c" using demo_accepted by blast
  have off: "\<not> ac_reservedEnabled c" using configured_flag [OF c] demo_off by simp
  note starts = accepted_configuration_starts [OF c, of demo_start]
  obtain p where "createApp demo_start c = Inr p" using starts demo_in_order [OF off] by blast
  with starts c off show ?thesis by blast
qed

lemma demo_boots: "\<exists>p written. boot plain_urls demo_start demo_env = Inr (p, written)"
proof -
  obtain c where c: "loadConfig plain_urls demo_env = Inr c" using demo_accepted by blast
  have "\<not> ac_reservedEnabled c" using configured_flag [OF c] demo_off by simp
  from demo_in_order [OF this] show ?thesis using started_iff_in_order [OF c, of demo_start] by (auto simp: boot_def c)
qed

theorem reserved_off_is_inert_witness:
  "\<exists>p written. boot plain_urls demo_start demo_env = Inr (p, written)
     \<and> boot plain_urls (demo_start\<lparr>sh_reserved_files := \<lambda>_. Inl ''gone'', sh_reserved_response := \<lambda>_. Inl ''gone'',
          sh_open_database := \<lambda>_ _ _. Inl ''locked'', sh_given := \<lambda>_. None\<rparr>) demo_env = Inr (p, written)
     \<and> dispatch (st_app p) demo_ambient demo_post (ReservedRoute ''inbound'') demo_state = Inr (answered not_found demo_state)"
proof -
  obtain p written where b: "boot plain_urls demo_start demo_env = Inr (p, written)" using demo_boots by blast
  show ?thesis
    using b reserved_off_is_inert [OF demo_off, where host = plain_urls and h = demo_start and files = "\<lambda>_. Inl ''gone''"
        and response = "\<lambda>_. Inl ''gone''" and opened = "\<lambda>_ _ _. Inl ''locked''" and given = "\<lambda>_. None"]
    by metis
qed

end
