(* ===== verification/Spec2Isabelle.thy ===== *)
theory Spec2Isabelle
  imports Reserved_Calendar Reserved_Money Reserved_Fares Store_Properties Reserved_Manifest Reserved_Occupancy Reserved_Catalog
    Order_Properties Order_Cancel Db_Properties Trv11_Properties Source_Properties Journey_Properties Config_Properties
    Handler_Properties App_Properties Fleet_Egress Generator_Load Start_Properties
begin

text \<open>
  A verification library for the transit seller (a BPP, the seller's side of an ONDC order) of this
  repository. Paths below are under \<open>src/\<close>.

  \<^bold>\<open>The program.\<close> One process serves three categories over HTTP. Two operators sell single journeys
  and passes on the TRV11 protocol; a third sells the same passes on a route of its own; the fourth
  surface is the reserved intercity seller, where a rider searches, selects seats (which holds them),
  inits, confirms (which sells them), reads the order and cancels it. A request is acknowledged and
  its answer is posted to the buyer app, or it is answered in the response; the app decides which. The
  reserved seller keeps its holds and bookings in SQLite through a handle that reconnects; the single
  journeys keep their orders in memory. Services, seat maps and fares come from fixtures, or from a peer
  over HTTP with the fixtures behind it; journeys come from fixtures or from a peer. Confirmed
  departures are pushed to a fleet simulator.

  \<^bold>\<open>Shared theories.\<close>
  \<^item> \<open>Bpp_Prelude\<close>: results of code that throws, the list and string operations of the language, and the
    lemmas every component uses. \<open>Json\<close>: JSON values. \<open>JS_Number\<close>: doubles, as rationals each of whose
    operations is followed by a rounding to 53 bits, and \<open>Number(s)\<close>. \<open>JS_Date\<close>: the calendar
    arithmetic of \<open>Date\<close>.
  \<^item> \<open>Transition\<close>: the locales \<open>transitions\<close>, \<open>invariant_system\<close> and \<open>monotone_system\<close>, interpreted on the store,
    on the names of the bookings, on the runs of the http source and on the order service.

  \<^bold>\<open>The reserved seller\<close> (\<open>src/reserved\<close>).
  \<^item> \<open>Reserved_Types\<close> (\<open>types.ts\<close>, \<open>domain.ts\<close>, \<open>errors.ts\<close>), \<open>Reserved_Calendar\<close> (\<open>calendar.ts\<close>), \<open>Reserved_Money\<close>
    (\<open>money.ts\<close>, \<open>refund.ts\<close>, \<open>concession.ts\<close>: a refund is within the fare and falls with time, and the
    double-precision rounding is the exact one), \<open>Reserved_Fares\<close> (\<open>fares.ts\<close>), \<open>Reserved_Manifest\<close>
    (\<open>manifest.ts\<close>: parsing and its round trip), \<open>Reserved_SeatState\<close> (\<open>seatstate.ts\<close>: the published state
    of a seat, the female-only rule), \<open>Reserved_Occupancy\<close> (\<open>occupancy.ts\<close>, \<open>rand.ts\<close>; the comparison of
    strings of the host is the locale \<open>collation\<close>), \<open>Reserved_Catalog\<close> (\<open>catalog.ts\<close>).
  \<^item> \<open>Store_Types\<close> (the tables of \<open>migrations/reserved\<close>) and \<open>Reserved_Store\<close> (\<open>store.ts\<close>): each read and write
    of the store as a function of the tables. \<open>Store_Safety\<close> is the step relation with one rule per write
    and its invariant: one live claim per seat and date. \<open>Store_Properties\<close>: no seat is
    sold twice, holds are whole, a transaction has one booking, lapsed seats can be held again.
  \<^item> \<open>Reserved_Db\<close> (\<open>db.ts\<close>): the handle that reconnects and the one for a file, over the libSQL driver. \<open>Db_Driver\<close>
    has the locale \<open>sql_driver\<close> of what a driver promises, \<open>Db_Transactions\<close> the locales
    \<open>transactional_handle\<close> and \<open>queued_handle\<close> of what a handle promises, with both handles as sublocales;
    \<open>Db_Properties\<close> interprets them on a server and gets atomicity, serial order and the end of the
    queue, and migrations as a prefix. This is what lets the store be written with atomic writes.
  \<^item> \<open>Reserved_Order\<close> (\<open>order.ts\<close>): every action, from its request and one reading of the clock to an
    answer, the new state and the pushes. \<open>Order_Safety\<close>: a relation kept by every write is
    kept by every action (locales \<open>act_logic\<close> to \<open>committing\<close>). \<open>Order_Run\<close> is a concrete coach and
    rider, \<open>Order_Properties\<close> and \<open>Order_Cancel\<close> what buyers are promised.
  \<^item> \<open>Reserved_Source\<close> (\<open>integrity.ts\<close>, \<open>fixture.ts\<close>, \<open>http.ts\<close>) and \<open>Source_Properties\<close>: accepted catalogues are the
    sound ones, and both sources satisfy the locale \<open>resolving_source\<close> that the order flow needs.
  \<^item> \<open>Reserved_Handler\<close> (\<open>handler.ts\<close>, \<open>schema.ts\<close>) with \<open>Protocol_Wire\<close> (\<open>protocol\<close>) and \<open>Handler_Properties\<close>:
    every path of a request, its deadline and its callback. \<open>Fleet_Egress\<close> (\<open>fleetManifest.ts\<close>).

  \<^item> \<open>Fixture_Generator\<close> (\<open>scripts/generate-ksrtc-fixtures.ts\<close>): the build-time script that writes services and fares from
    the feeds of a timetable repository, from the text of its tables to the files on disk.
    \<open>Generator_Properties\<close>: the reader reads every table of the format back, nothing is sold that a feed does not
    say, a number two corridors cite is not sold. \<open>Generator_Load\<close>: what the script writes passes the checks of
    \<open>integrity.ts\<close> at the next start.

  \<^bold>\<open>Single journeys and passes\<close> (\<open>src/trv11\<close>, \<open>src/orders\<close>, \<open>src/sources\<close>).
  \<^item> \<open>Trv11_Types\<close>, \<open>Trv11_Catalog\<close>, \<open>Trv11_Pass\<close> (\<open>pass.ts\<close>), \<open>Trv11_Settlement\<close> (\<open>concession.ts\<close>, \<open>settlement.ts\<close>), \<open>Trv11_Totp\<close>
    (\<open>totp.ts\<close>), \<open>Trv11_Orders\<close> (\<open>store.ts\<close> and \<open>service.ts\<close> of \<open>orders\<close>), \<open>Pass_Handler\<close> (\<open>passHandler.ts\<close>) and
    \<open>Trv11_Wire\<close> (the part of the listener the two operators share).
  \<^item> \<open>Trv11_Flow\<close>: confirms in flight as a step relation, with its invariant. \<open>Trv11_Pricing\<close>,
    \<open>Trv11_Properties\<close>, \<open>Totp_Properties\<close>: one order per purchase, rides settled only by a pass of
    this seller, prices and windows, codes. \<open>Trv11_Specimen\<close> holds concrete requests.
  \<^item> \<open>Journey_Source\<close> (\<open>fixture.ts\<close> and \<open>http.ts\<close> of \<open>sources\<close>) and \<open>Journey_Properties\<close>: what a source hands
    over is the locale \<open>offer_source\<close>, interpreted on both.

  \<^bold>\<open>The process.\<close> \<open>App_Config\<close> (\<open>config.ts\<close>) and \<open>Config_Properties\<close>; \<open>App_Server\<close> (\<open>app.ts\<close>), the listener over
  the states of the three categories, and \<open>App_Properties\<close>, where the categories are put together: no
  traffic sells a seat twice. \<open>App_Start\<close> (\<open>createApp\<close> of \<open>app.ts\<close>, \<open>createProtocolValidator\<close> of \<open>protocol/validate.ts\<close>,
  \<open>createReservedValidator\<close> of \<open>reserved/schema.ts\<close>, \<open>index.ts\<close>, \<open>log.ts\<close>): the start, from the environment to the process
  that listens. \<open>Start_Properties\<close>: what an accepted configuration needs to start, that a category that is off
  touches none of its own, and that the reserved source of a started process resolves.

  \<^bold>\<open>Conventions and bounds.\<close>
  \<^item> Integral amounts, instants and counts are \<^typ>\<open>int\<close>; quotients and ranks are doubles, with an
    unbounded exponent. Theorems on rounding hold for fares below \<open>2 ^ 46\<close> paise and for at most
    \<open>2 ^ 40\<close> seats; their statements carry these bounds. The keyed generator and the base32 buffer are
    on 32-bit words.
  \<^item> A string is a list of 8-bit characters. A refusal is its code and attachment, without its sentence.
  \<^item> An action reads the clock once, and identifiers, secrets and images are arguments of the step that
    draws them.
  \<^item> A call of the database handle is one step; calls of different requests interleave between
    steps. Confirms of single journeys that wait for their images interleave as well. At the level of
    the listener a request is one step.
  \<^item> Parameters, being code outside the repository or the host's: the libSQL driver, compiled schemas,
    \<open>JSON.parse\<close>, parsing of URLs, the transport, \<open>localeCompare\<close>, \<open>Date.parse\<close>, the printing of a number with a
    fraction, HMAC-SHA1, images of QR codes, and the functions of \<open>Math\<close> that round no result exactly.
    Their laws, where a theorem needs one, are hypotheses of it, and the witness instantiates them.
  \<^item> No loop of the program needs fuel: recursions are structural, or on a measure, and the
    queue of the handle is shown to drain.

  \<^bold>\<open>Not modelled.\<close> The socket, and writing to standard output. What a test puts in place of a component
  at the start (\<open>sourceOverrides\<close>, \<open>reservedOverrides\<close>) is left out: the start is a deployment's. Of the clocks and
  timers only the readings are arguments: that a timer fires is the argument \<open>late\<close> of a request. The sentences of
  refusals and of most lines that are logged or printed are not kept.
\<close>

end
